(* ===== verification/Prelude.thy ===== *)
theory Prelude
  imports Main "HOL-Library.Multiset"
begin

text \<open>
  Shared vocabulary of the development: the proof collections, strings and truthiness as
  JavaScript has them, and SQL tables as lists of rows in insertion order.

  A table is a list of row records. \<open>SELECT\<close> with a condition is \<open>filter\<close> (all rows) or
  \<open>sql_get\<close> (the first row in rowid order), \<open>UPDATE .. WHERE\<close> is \<open>sql_update\<close>, whose number of
  changed rows is \<open>sql_changes\<close>. Times are milliseconds since the epoch: every time column of
  the program holds a \<open>toISOString\<close> string, whose lexicographic order is the order of times.
\<close>

named_theorems frame "fields an operation leaves unchanged"
named_theorems inv_pres "preservation of a component invariant by its operations"

section \<open>Strings\<close>

definition char_lower :: "char \<Rightarrow> char" where
  "char_lower c = (let n = of_char c :: nat
     in if 65 \<le> n \<and> n \<le> 90 then char_of (n + 32) else c)"

definition char_upper :: "char \<Rightarrow> char" where
  "char_upper c = (let n = of_char c :: nat
     in if 97 \<le> n \<and> n \<le> 122 then char_of (n - 32) else c)"

definition to_lower :: "string \<Rightarrow> string" where
  "to_lower s = map char_lower s"

definition to_upper :: "string \<Rightarrow> string" where
  "to_upper s = map char_upper s"

text \<open>\<open>s.replace(/^0x/, '')\<close>\<close>
definition strip_0x :: "string \<Rightarrow> string" where
  "strip_0x s = (if take 2 s = ''0x'' then drop 2 s else s)"

definition starts_with :: "string \<Rightarrow> string \<Rightarrow> bool" where
  "starts_with s p \<longleftrightarrow> take (length p) s = p"

text \<open>\<open>s.includes(p)\<close>\<close>

fun str_includes :: "string \<Rightarrow> string \<Rightarrow> bool" where
  "str_includes [] p \<longleftrightarrow> p = []"
| "str_includes (c # s) p \<longleftrightarrow> starts_with (c # s) p \<or> str_includes s p"

text \<open>\<open>x || undefined\<close> on a nullable text column: the empty string is falsy.\<close>
definition truthy_str :: "string option \<Rightarrow> string option" where
  "truthy_str s = (if s = Some '''' then None else s)"

text \<open>\<open>x ? Number(x) : undefined\<close> on a nullable integer column: zero is falsy.\<close>
definition truthy_num :: "int option \<Rightarrow> int option" where
  "truthy_num n = (if n = Some 0 then None else n)"

text \<open>\<open>x ?? d\<close>\<close>
definition coalesce :: "'a option \<Rightarrow> 'a \<Rightarrow> 'a" where
  "coalesce x d = (case x of None \<Rightarrow> d | Some v \<Rightarrow> v)"

text \<open>\<open>x ?? y\<close> where \<open>y\<close> may be undefined too\<close>
definition some_or :: "'a option \<Rightarrow> 'a option \<Rightarrow> 'a option" where
  "some_or x old = (case x of None \<Rightarrow> old | Some v \<Rightarrow> Some v)"

lemma coalesce_simps [simp]: "coalesce None d = d" "coalesce (Some v) d = v"
  by (simp_all add: coalesce_def)

lemma char_lower_idem [simp]: "char_lower (char_lower c) = char_lower c"
proof (cases "65 \<le> (of_char c :: nat) \<and> (of_char c :: nat) \<le> 90")
  case True
  define n where "n = (of_char c :: nat)"
  then have n: "65 \<le> n" "n \<le> 90" using True by (simp_all only: n_def)
  have l: "char_lower c = char_of (n + 32)"
    unfolding char_lower_def Let_def n_def [symmetric] by (rule if_P) (use n in blast)
  have "(of_char (char_of (n + 32) :: char) :: nat) = (n + 32) mod 256"
    by (rule of_char_of)
  also have "\<dots> = n + 32" using n by (intro mod_less) linarith
  finally have o: "(of_char (char_of (n + 32) :: char) :: nat) = n + 32" .
  have "\<not> n + 32 \<le> 90" using n by linarith
  then show ?thesis
    unfolding l unfolding char_lower_def Let_def o by (intro if_not_P) blast
next
  case False
  then have "char_lower c = c" by (auto simp: char_lower_def Let_def)
  then show ?thesis by simp
qed

lemma to_lower_idem [simp]: "to_lower (to_lower s) = to_lower s"
  by (simp add: to_lower_def)

lemma length_to_lower [simp]: "length (to_lower s) = length s"
  by (simp add: to_lower_def)

section \<open>Tables\<close>

definition sql_get :: "('r \<Rightarrow> bool) \<Rightarrow> 'r list \<Rightarrow> 'r option" where
  "sql_get P rows = find P rows"

definition sql_update :: "('r \<Rightarrow> bool) \<Rightarrow> ('r \<Rightarrow> 'r) \<Rightarrow> 'r list \<Rightarrow> 'r list" where
  "sql_update P f rows = map (\<lambda>r. if P r then f r else r) rows"

definition sql_changes :: "('r \<Rightarrow> bool) \<Rightarrow> 'r list \<Rightarrow> nat" where
  "sql_changes P rows = length (filter P rows)"

lemma sql_get_Nil [simp]: "sql_get P [] = None"
  by (simp add: sql_get_def)

lemma sql_get_Cons [simp]: "sql_get P (r # rs) = (if P r then Some r else sql_get P rs)"
  by (simp add: sql_get_def)

lemma sql_get_append: "sql_get P (xs @ ys) = (case sql_get P xs of None \<Rightarrow> sql_get P ys | Some r \<Rightarrow> Some r)"
  by (induction xs) auto

lemma sql_get_Some: "sql_get P rows = Some r \<Longrightarrow> r \<in> set rows \<and> P r"
  by (induction rows) (auto split: if_splits)

lemma sql_get_None_iff: "sql_get P rows = None \<longleftrightarrow> (\<forall>r \<in> set rows. \<not> P r)"
  by (induction rows) auto

lemma sql_get_unique:
  assumes "r \<in> set rows" "P r" "\<And>r'. r' \<in> set rows \<Longrightarrow> P r' \<Longrightarrow> r' = r"
  shows "sql_get P rows = Some r"
proof (cases "sql_get P rows")
  case None
  with assms(1,2) show ?thesis by (simp add: sql_get_None_iff)
next
  case (Some r')
  then have "r' = r" using assms(3) sql_get_Some by metis
  with Some show ?thesis by simp
qed

lemma sql_update_Nil [simp]: "sql_update P f [] = []"
  by (simp add: sql_update_def)

lemma sql_update_Cons [simp]:
  "sql_update P f (r # rs) = (if P r then f r else r) # sql_update P f rs"
  by (simp add: sql_update_def)

lemma length_sql_update [simp]: "length (sql_update P f rows) = length rows"
  by (simp add: sql_update_def)

lemma set_sql_update: "set (sql_update P f rows) = (\<lambda>r. if P r then f r else r) ` set rows"
  by (simp add: sql_update_def)

lemma ball_sql_update:
  "(\<forall>r \<in> set (sql_update P f rows). Q r) \<longleftrightarrow> (\<forall>r \<in> set rows. Q (if P r then f r else r))"
  by (induction rows) auto

lemma sql_update_noop: "(\<And>r. r \<in> set rows \<Longrightarrow> \<not> P r) \<Longrightarrow> sql_update P f rows = rows"
  by (induction rows) auto

lemma map_sql_update:
  "(\<And>r. k (f r) = k r) \<Longrightarrow> map k (sql_update P f rows) = map k rows"
  by (induction rows) auto

text \<open>Reading a row back after an update, when the update keeps what the query looks at.\<close>

lemma sql_get_update:
  "(\<And>r. Q (f r) = Q r) \<Longrightarrow>
   sql_get Q (sql_update P f rows) = map_option (\<lambda>r. if P r then f r else r) (sql_get Q rows)"
  by (induction rows) auto

lemma sql_changes_pos: "0 < sql_changes P rows \<longleftrightarrow> (\<exists>r \<in> set rows. P r)"
  by (auto simp: sql_changes_def filter_empty_conv)

section \<open>Rows that are unique under a key\<close>

definition keyed :: "('r \<Rightarrow> 'k) \<Rightarrow> 'r list \<Rightarrow> bool" where
  "keyed k rows \<longleftrightarrow> distinct (map k rows)"

lemma keyed_Nil [simp]: "keyed k []"
  by (simp add: keyed_def)

lemma keyed_append1: "keyed k (rows @ [r]) \<longleftrightarrow> keyed k rows \<and> k r \<notin> k ` set rows"
  by (auto simp: keyed_def)

lemma keyed_sql_update [inv_pres]:
  "(\<And>r. k (f r) = k r) \<Longrightarrow> keyed k (sql_update P f rows) = keyed k rows"
  by (simp add: keyed_def map_sql_update)

lemma keyed_get: "keyed k rows \<Longrightarrow> r \<in> set rows \<Longrightarrow> sql_get (\<lambda>x. k x = k r) rows = Some r"
  by (rule sql_get_unique) (auto simp: keyed_def distinct_map inj_on_def)

lemma keyed_sum_update:
  fixes g :: "'r \<Rightarrow> int"
  assumes "keyed k rows" "r \<in> set rows" "k r = x"
  shows "sum_list (map g (sql_update (\<lambda>q. k q = x) f rows)) = sum_list (map g rows) - g r + g (f r)"
  using assms
proof (induction rows)
  case Nil
  then show ?case by simp
next
  case (Cons a rows)
  show ?case
  proof (cases "k a = x")
    case True
    have ne: "\<forall>q \<in> set rows. k q \<noteq> x"
      using Cons.prems(1) True unfolding keyed_def by (auto simp: image_iff)
    have "a = r"
      using Cons.prems True ne by auto
    moreover have "sql_update (\<lambda>q. k q = x) f rows = rows"
      by (rule sql_update_noop) (use ne in auto)
    ultimately show ?thesis using True by simp
  next
    case False
    then show ?thesis using Cons by (auto simp: keyed_def)
  qed
qed

section \<open>Results of fallible operations\<close>

text \<open>
  An operation that may throw returns \<open>Inl\<close> of the error or \<open>Inr\<close> of its value.
\<close>

definition is_ok :: "'e + 'a \<Rightarrow> bool" where
  "is_ok r = (case r of Inl _ \<Rightarrow> False | Inr _ \<Rightarrow> True)"

lemma is_ok_simps [simp]: "is_ok (Inr x)" "\<not> is_ok (Inl e)"
  by (simp_all add: is_ok_def)

lemma is_ok_E: "is_ok r \<Longrightarrow> (\<And>x. r = Inr x \<Longrightarrow> P) \<Longrightarrow> P"
  by (cases r) auto

end
