(* ===== verification/Domain.thy ===== *)
theory Domain
  imports Prelude
begin

text \<open>
  The provider-independent vocabulary of \<open>src/src/domain/types.ts\<close>: execution states and
  their sets, error codes, asset nodes, intents, quotes, plans and settlement evidence, with
  the comparison functions of that file. Amounts are decimal strings of atomic units, as in the
  source; raw provider payloads (\<open>rawQuote\<close>, \<open>rawEvidence\<close>) are not modelled, no code of the
  components here reads them.
\<close>

section \<open>Execution states\<close>

datatype exec_state =
    ES_CREATED | ES_QUOTING | ES_QUOTED | ES_EXECUTION_PENDING | ES_EXECUTING
  | ES_DEPOSIT_INSTRUCTION_READY | ES_SOURCE_FUNDS_DETECTED | ES_SOURCE_FUNDS_CONFIRMED
  | ES_SWAP_IN_PROGRESS | ES_DESTINATION_TX_DETECTED | ES_COMPLETED | ES_FAILED
  | ES_RECOVERY_REQUIRED | ES_RECOVERING | ES_REFUNDED | ES_MANUAL_REVIEW

definition exec_states :: "exec_state list" where
  "exec_states = [ES_CREATED, ES_QUOTING, ES_QUOTED, ES_EXECUTION_PENDING, ES_EXECUTING,
     ES_DEPOSIT_INSTRUCTION_READY, ES_SOURCE_FUNDS_DETECTED, ES_SOURCE_FUNDS_CONFIRMED,
     ES_SWAP_IN_PROGRESS, ES_DESTINATION_TX_DETECTED, ES_COMPLETED, ES_FAILED,
     ES_RECOVERY_REQUIRED, ES_RECOVERING, ES_REFUNDED, ES_MANUAL_REVIEW]"

definition TERMINAL_STATES :: "exec_state list" where
  "TERMINAL_STATES = [ES_COMPLETED, ES_FAILED, ES_REFUNDED, ES_MANUAL_REVIEW]"

definition AMBIGUOUS_STATES :: "exec_state list" where
  "AMBIGUOUS_STATES = [ES_EXECUTION_PENDING, ES_EXECUTING, ES_DEPOSIT_INSTRUCTION_READY,
     ES_SOURCE_FUNDS_DETECTED, ES_SOURCE_FUNDS_CONFIRMED, ES_SWAP_IN_PROGRESS,
     ES_DESTINATION_TX_DETECTED, ES_RECOVERY_REQUIRED, ES_RECOVERING]"

definition SOURCE_FUNDS_MOVED_STATES :: "exec_state list" where
  "SOURCE_FUNDS_MOVED_STATES = [ES_SOURCE_FUNDS_DETECTED, ES_SOURCE_FUNDS_CONFIRMED,
     ES_SWAP_IN_PROGRESS, ES_DESTINATION_TX_DETECTED, ES_COMPLETED, ES_REFUNDED]"

section \<open>Edges and errors\<close>

datatype edge_class = SELF_CUSTODY_EDGE | ATOMIC_EDGE | PROTOCOL_EDGE | TRUSTED_PROVIDER_EDGE

datatype execution_class = PASSIVE_DEPOSIT | ACTIVE_EXECUTION

datatype domain_error_code =
    ROUTE_NOT_FOUND | ROUTE_UNAVAILABLE | PROVIDER_MAINTENANCE | AMOUNT_BELOW_MINIMUM
  | AMOUNT_ABOVE_MAXIMUM | QUOTE_EXPIRED | QUOTE_UNAVAILABLE | EXECUTION_AMBIGUOUS
  | DE_RECOVERY_REQUIRED | DESTINATION_NOT_VERIFIED | REFUND_NOT_VERIFIED
  | INVALID_STATE_TRANSITION | IDEMPOTENCY_CONFLICT

section \<open>Asset nodes\<close>

record asset_node =
  an_asset :: string
  an_network :: string
  an_tokenContract :: "string option"

text \<open>\<open>trim()\<close>: white space at both ends (the ASCII part of it).\<close>

definition is_space :: "char \<Rightarrow> bool" where
  "is_space c = (let n = of_char c :: nat in n = 32 \<or> (9 \<le> n \<and> n \<le> 13))"

definition trim :: "string \<Rightarrow> string" where
  "trim s = rev (dropWhile is_space (rev (dropWhile is_space s)))"

definition createAssetNode :: "string \<Rightarrow> string \<Rightarrow> string option \<Rightarrow> asset_node" where
  "createAssetNode asset network tokenContract =
     \<lparr> an_asset = to_upper (trim asset),
       an_network = to_lower (trim network),
       an_tokenContract = map_option (\<lambda>t. to_lower (trim t)) (truthy_str tokenContract) \<rparr>"

definition areAssetNodesEqual :: "asset_node \<Rightarrow> asset_node \<Rightarrow> bool" where
  "areAssetNodesEqual a b =
    (if to_upper (an_asset a) \<noteq> to_upper (an_asset b) then False
     else if to_lower (an_network a) \<noteq> to_lower (an_network b) then False
     else map_option to_lower (truthy_str (an_tokenContract a))
        = map_option to_lower (truthy_str (an_tokenContract b)))"

definition assetNodeToString :: "asset_node \<Rightarrow> string" where
  "assetNodeToString node =
    (let base = to_upper (an_asset node) @ '':'' @ to_lower (an_network node)
     in case truthy_str (an_tokenContract node) of
          Some t \<Rightarrow> base @ '':'' @ to_lower t
        | None \<Rightarrow> base)"

section \<open>Intents, quotes, plans\<close>

record normalized_intent =
  ni_sourceAsset :: string
  ni_sourceNetwork :: string
  ni_targetAsset :: string
  ni_targetNetwork :: string
  ni_sourceAmountAtomic :: string
  ni_destinationAddress :: string
  ni_refundAddress :: string

definition areIntentsSemanticallyEqual :: "normalized_intent \<Rightarrow> normalized_intent \<Rightarrow> bool" where
  "areIntentsSemanticallyEqual a b \<longleftrightarrow>
     to_upper (ni_sourceAsset a) = to_upper (ni_sourceAsset b) \<and>
     to_lower (ni_sourceNetwork a) = to_lower (ni_sourceNetwork b) \<and>
     to_upper (ni_targetAsset a) = to_upper (ni_targetAsset b) \<and>
     to_lower (ni_targetNetwork a) = to_lower (ni_targetNetwork b) \<and>
     ni_sourceAmountAtomic a = ni_sourceAmountAtomic b \<and>
     to_lower (ni_destinationAddress a) = to_lower (ni_destinationAddress b) \<and>
     to_lower (ni_refundAddress a) = to_lower (ni_refundAddress b)"

record normalized_quote =
  nq_quoteId :: string
  nq_providerId :: string
  nq_sourceAsset :: string
  nq_sourceNetwork :: string
  nq_targetAsset :: string
  nq_targetNetwork :: string
  nq_depositAmountAtomic :: string
  nq_settleAmountAtomic :: string
  nq_rate :: string
  nq_networkFeeEstimatedAtomic :: string
  nq_minDepositAtomic :: string
  nq_maxDepositAtomic :: string
  nq_expiresAt :: int

record route_quote =
  rq_quoteId :: string
  rq_edgeId :: string
  rq_sourceNode :: asset_node
  rq_destinationNode :: asset_node
  rq_inputAmountAtomic :: string
  rq_estimatedOutputAmountAtomic :: string
  rq_rate :: string
  rq_networkFeeEstimatedAtomic :: string
  rq_minAmountAtomic :: string
  rq_maxAmountAtomic :: string
  rq_expiresAt :: int
  rq_edgeClass :: edge_class
  rq_executionClass :: execution_class

record execution_plan =
  pl_planId :: string
  pl_edgeId :: string
  pl_routeId :: string
  pl_quoteSnapshot :: route_quote
  pl_destinationAddress :: string
  pl_refundAddress :: string
  pl_createdAt :: int

section \<open>Settlement evidence\<close>

datatype source_evidence_source = SE_PROVIDER_STATUS | SE_BITCOIN_RPC | SE_LIGHTNING_NODE

record source_evidence =
  se_network :: string
  se_asset :: string
  se_amountAtomic :: string
  se_depositAddressOrInvoice :: string
  se_txIdOrPaymentHash :: "string option"
  se_confirmations :: int
  se_detectedAt :: "int option"
  se_confirmedAt :: "int option"
  se_evidenceSource :: source_evidence_source

datatype on_chain_status =
    OC_NOT_FOUND | OC_PENDING | OC_CONFIRMED | OC_REVERTED | OC_AMOUNT_MISMATCH
  | OC_WRONG_RECIPIENT | OC_WRONG_TOKEN | OC_WRONG_NETWORK

datatype evidence_source = BASE_RPC | PROVIDER_CLAIM

record destination_evidence =
  de_network :: string
  de_asset :: string
  de_amountAtomic :: string
  de_destinationAddress :: string
  de_txHash :: "string option"
  de_blockNumber :: "int option"
  de_tokenContract :: "string option"
  de_verifiedOnChain :: bool
  de_onChainStatus :: on_chain_status
  de_verifiedAt :: "int option"
  de_evidenceSource :: evidence_source

section \<open>Comparisons are equivalences\<close>

lemma areAssetNodesEqual_refl: "areAssetNodesEqual a a"
  by (simp add: areAssetNodesEqual_def)

lemma areAssetNodesEqual_sym: "areAssetNodesEqual a b \<Longrightarrow> areAssetNodesEqual b a"
  by (auto simp: areAssetNodesEqual_def split: if_splits)

lemma areAssetNodesEqual_trans:
  "areAssetNodesEqual a b \<Longrightarrow> areAssetNodesEqual b c \<Longrightarrow> areAssetNodesEqual a c"
  by (auto simp: areAssetNodesEqual_def split: if_splits)

lemma areIntentsSemanticallyEqual_refl [simp]: "areIntentsSemanticallyEqual a a"
  by (simp add: areIntentsSemanticallyEqual_def)

lemma areIntentsSemanticallyEqual_sym:
  "areIntentsSemanticallyEqual a b \<Longrightarrow> areIntentsSemanticallyEqual b a"
  by (simp add: areIntentsSemanticallyEqual_def)

lemma areIntentsSemanticallyEqual_trans:
  "areIntentsSemanticallyEqual a b \<Longrightarrow> areIntentsSemanticallyEqual b c
   \<Longrightarrow> areIntentsSemanticallyEqual a c"
  by (simp add: areIntentsSemanticallyEqual_def)

end
