(* ===== verification/Tables.thy ===== *)
theory Tables
  imports Domain
begin

text \<open>
  The data of the sovereign atomic core (\<open>src/src/atomic/types.ts\<close>,
  \<open>src/src/atomic/evm/transaction-types.ts\<close>) and the SQLite schema of
  \<open>SqlitePersistence.initSchema\<close> (\<open>src/src/persistence/sqlite.ts\<close>): one record per table row,
  field names being the column names with a table prefix, and the database as the record of
  its tables. \<open>NULL\<close> and \<open>undefined\<close> are \<open>None\<close>. Random ids of audit rows are left out (nothing
  reads them); every other generated id is an argument of the operation that stores it.
\<close>

section \<open>Lightning\<close>

datatype hold_invoice_state = HI_OPEN | HI_ACCEPTED | HI_SETTLED | HI_CANCELED

text \<open>
  \<open>HoldInvoice\<close>. \<open>hi_htlcs\<close> is the untyped \<open>htlcs\<close> array the coordinator attaches to an observed
  invoice: one expiry height per entry, \<open>None\<close> where the entry has none.
\<close>

record hold_invoice =
  hi_paymentHash :: string
  hi_bolt11 :: string
  hi_amountSats :: int
  hi_cltvExpiryBlocks :: int
  hi_expiryHeight :: "int option"
  hi_state :: hold_invoice_state
  hi_createdAt :: int
  hi_acceptedAt :: "int option"
  hi_settledAt :: "int option"
  hi_canceledAt :: "int option"
  hi_htlcs :: "int option list option"

section \<open>Liquidity and inventory\<close>

datatype reservation_status = RS_RESERVED | RS_COMMITTED | RS_RELEASED | RS_SETTLED

datatype readiness_state = IR_NOT_READY | IR_RECONCILING | IR_READY | IR_DEFICIT | IR_UNKNOWN | IR_DEGRADED

record reservation_row =
  rv_id :: string
  rv_execution_id :: string
  rv_token_address :: string
  rv_amount_units :: int
  rv_status :: reservation_status
  rv_created_at :: int
  rv_updated_at :: int

text \<open>\<open>ChainInventorySnapshot\<close>, which is also the row of \<open>chain_inventory_snapshots\<close>.\<close>

record snapshot_row =
  sn_token_address :: string
  sn_chain_id :: int
  sn_operator_address :: string
  sn_wallet_balance_latest :: int
  sn_wallet_balance_finalized :: int
  sn_safe_wallet_capacity :: int
  sn_latest_block_number :: int
  sn_finalized_block_number :: int
  sn_block_hash :: "string option"
  sn_readiness_state :: readiness_state
  sn_observed_at :: int
  sn_fresh_until :: "int option"
  sn_updated_at :: int

record operator_row =
  op_token_address :: string
  op_confirmed_balance :: int
  op_updated_at :: int

section \<open>Sovereign swaps\<close>

datatype swap_state =
    SA_PLAN_PREPARED | SA_INVOICE_CREATED | SA_LIGHTNING_HELD | SA_EVM_FUNDING_PENDING
  | SA_EVM_FUNDED | SA_CLAIMING | SA_EVM_CLAIM_DETECTED | SA_EVM_CLAIM_CONFIRMED
  | SA_LIGHTNING_SETTLEMENT_PENDING | SA_LIGHTNING_SETTLED | SA_DESTINATION_PENDING
  | SA_COMPLETED | SA_EXPIRED | SA_INVOICE_CANCELED | SA_REFUND_ELIGIBLE
  | SA_EVM_REFUND_PENDING | SA_EVM_REFUND_CONFIRMED | SA_LIGHTNING_CANCEL_PENDING
  | SA_REFUNDED | SA_RECOVERY_REQUIRED | SA_MANUAL_REVIEW

definition TERMINAL_SOVEREIGN_ATOMIC_STATES :: "swap_state list" where
  "TERMINAL_SOVEREIGN_ATOMIC_STATES =
     [SA_COMPLETED, SA_REFUNDED, SA_INVOICE_CANCELED, SA_EXPIRED]"

definition isNonTerminalSovereignAtomicState :: "swap_state \<Rightarrow> bool" where
  "isNonTerminalSovereignAtomicState s \<longleftrightarrow> s \<notin> set TERMINAL_SOVEREIGN_ATOMIC_STATES"

text \<open>\<open>SovereignExecutionRecord\<close>.\<close>

record swap_rec =
  r_id :: string
  r_idempotencyKey :: string
  r_hashLock :: string
  r_claimingAddress :: string
  r_targetDestinationAddress :: string
  r_amountSats :: int
  r_expectedUsdcAmount :: int
  r_state :: swap_state
  r_reservationId :: "string option"
  r_reservedAmountUnits :: "int option"
  r_reservationStatus :: "reservation_status option"
  r_holdInvoice :: "hold_invoice option"
  r_evmSwapKey :: "string option"
  r_evmHtlcId :: "string option"
  r_evmFundingTxHash :: "string option"
  r_evmClaimTxHash :: "string option"
  r_evmRefundTxHash :: "string option"
  r_destinationTxHash :: "string option"
  r_tokenAddress :: "string option"
  r_refundAddress :: "string option"
  r_cltvExpiryBlocks :: "int option"
  r_timelockSeconds :: "int option"
  r_refundLocktime :: "int option"
  r_economicFingerprint :: "string option"
  r_actionInFlight :: "string option"
  r_actionClaimedBy :: "string option"
  r_actionClaimedAt :: "int option"
  r_actionGeneration :: "int option"
  r_recoveryRequired :: "bool option"
  r_failureReason :: "string option"
  r_retryCount :: "int option"
  r_fundRetryCount :: "int option"
  r_settleRetryCount :: "int option"
  r_refundRetryCount :: "int option"
  r_cancelRetryCount :: "int option"
  r_createdAt :: int
  r_updatedAt :: int

text \<open>The row of \<open>sovereign_swaps\<close>.\<close>

record swap_row =
  sw_id :: string
  sw_idempotency_key :: string
  sw_hash_lock :: string
  sw_payment_hash :: string
  sw_state :: swap_state
  sw_reservation_id :: "string option"
  sw_reserved_amount_units :: "int option"
  sw_reservation_status :: "reservation_status option"
  sw_amount_sats :: int
  sw_expected_usdc_amount :: int
  sw_claiming_address :: string
  sw_target_destination_address :: string
  sw_token_address :: string
  sw_refund_address :: string
  sw_cltv_expiry_blocks :: int
  sw_timelock_seconds :: int
  sw_refund_locktime :: "int option"
  sw_economic_fingerprint :: string
  sw_bolt11 :: "string option"
  sw_lightning_invoice_state :: "hold_invoice_state option"
  sw_lightning_held_at :: "int option"
  sw_lightning_settled_at :: "int option"
  sw_lightning_canceled_at :: "int option"
  sw_lightning_expiry_height :: "int option"
  sw_evm_swap_key :: "string option"
  sw_evm_htlc_id :: "string option"
  sw_evm_funding_tx_hash :: "string option"
  sw_evm_claim_tx_hash :: "string option"
  sw_evm_refund_tx_hash :: "string option"
  sw_destination_tx_hash :: "string option"
  sw_action_in_flight :: "string option"
  sw_action_claimed_by :: "string option"
  sw_action_claimed_at :: "int option"
  sw_action_lease_expires_at :: "int option"
  sw_action_generation :: int
  sw_recovery_required :: bool
  sw_failure_reason :: "string option"
  sw_retry_count :: int
  sw_fund_retry_count :: int
  sw_settle_retry_count :: int
  sw_refund_retry_count :: int
  sw_cancel_retry_count :: int
  sw_created_at :: int
  sw_updated_at :: int

record swap_transition_row =
  st_swap_id :: string
  st_from_state :: "swap_state option"
  st_to_state :: swap_state
  st_reason :: string
  st_evidence_id :: "string option"
  st_created_at :: int

section \<open>EVM transaction intents and attempts\<close>

datatype intent_state =
    EI_CREATED | EI_NONCE_RESERVED | EI_DISPATCHING | EI_PENDING | EI_CONFIRMED
  | EI_REVERTED | EI_FEE_CAP_BLOCKED | EI_NONCE_CONFLICT | EI_FAILED

datatype attempt_status =
    EA_PREPARED | EA_BROADCAST | EA_MINED_SUCCESS | EA_MINED_REVERT | EA_SUPERSEDED | EA_NOT_FOUND

datatype action_type = AT_FUND | AT_REFUND | AT_APPROVE

text \<open>\<open>EvmLogicalIntent\<close>, the row of \<open>evm_transaction_intents\<close>.\<close>

record intent_row =
  it_id :: string
  it_swap_key :: string
  it_action_type :: action_type
  it_chain_id :: int
  it_signer_address :: string
  it_target_contract :: string
  it_calldata_hash :: string
  it_calldata_bytes :: string
  it_value_wei :: int
  it_nonce :: "int option"
  it_status :: intent_state
  it_canonical_tx_hash :: "string option"
  it_failure_reason :: "string option"
  it_created_at :: int
  it_updated_at :: int

text \<open>\<open>EvmPhysicalAttempt\<close>, the row of \<open>evm_transaction_attempts\<close>.\<close>

record attempt_row =
  ap_id :: string
  ap_intent_id :: string
  ap_attempt_number :: int
  ap_chain_id :: int
  ap_signer_address :: string
  ap_nonce :: int
  ap_tx_hash :: string
  ap_to_address :: string
  ap_value_wei :: int
  ap_data :: string
  ap_calldata_hash :: string
  ap_gas_limit :: int
  ap_max_fee_per_gas_wei :: int
  ap_max_priority_fee_per_gas_wei :: int
  ap_worst_case_cost_wei :: int
  ap_status :: attempt_status
  ap_mined_block_number :: "int option"
  ap_receipt_status :: "int option"
  ap_broadcast_at :: "int option"
  ap_reconciled_at :: "int option"
  ap_error_message :: "string option"
  ap_created_at :: int

section \<open>Provider executions\<close>

record execution_row =
  ex_id :: string
  ex_idempotency_key :: string
  ex_state :: exec_state
  ex_intent :: normalized_intent
  ex_quote :: "normalized_quote option"
  ex_provider_id :: "string option"
  ex_provider_execution_id :: "string option"
  ex_order_token :: "string option"
  ex_deposit_address :: "string option"
  ex_source_evidence :: "source_evidence option"
  ex_destination_evidence :: "destination_evidence option"
  ex_source_funds_moved :: bool
  ex_destination_funds_arrived :: bool
  ex_failure_reason :: "string option"
  ex_recovery_attempts :: int
  ex_plan :: "execution_plan option"
  ex_created_at :: int
  ex_updated_at :: int

record exec_transition_row =
  et_execution_id :: string
  et_from_state :: "exec_state option"
  et_to_state :: exec_state
  et_reason :: string
  et_trigger :: string
  et_created_at :: int

datatype result_classification = RC_SUCCESS | RC_ERROR | RC_AMBIGUOUS_TIMEOUT | RC_NETWORK_ERROR

record journal_row =
  jr_id :: string
  jr_execution_id :: string
  jr_provider_id :: string
  jr_operation :: string
  jr_attempt_number :: int
  jr_request_started_at :: int
  jr_request_completed_at :: "int option"
  jr_provider_execution_id :: "string option"
  jr_result_classification :: result_classification
  jr_response_persisted :: bool
  jr_error_message :: "string option"
  jr_created_at :: int

record claim_row =
  dc_execution_id :: string
  dc_operation :: string
  dc_journal_id :: string
  dc_claimed_at :: int

section \<open>The database\<close>

record db =
  executions :: "execution_row list"
  state_transitions :: "exec_transition_row list"
  provider_request_journal :: "journal_row list"
  provider_dispatch_claims :: "claim_row list"
  evm_transaction_intents :: "intent_row list"
  evm_transaction_attempts :: "attempt_row list"
  sovereign_swaps :: "swap_row list"
  sovereign_swap_transitions :: "swap_transition_row list"
  operator_inventory :: "operator_row list"
  liquidity_reservations :: "reservation_row list"
  chain_inventory_snapshots :: "snapshot_row list"

definition empty_db :: db where
  "empty_db = \<lparr> executions = [], state_transitions = [], provider_request_journal = [],
     provider_dispatch_claims = [], evm_transaction_intents = [], evm_transaction_attempts = [],
     sovereign_swaps = [], sovereign_swap_transitions = [], operator_inventory = [],
     liquidity_reservations = [], chain_inventory_snapshots = [] \<rparr>"

text \<open>
  Errors of the persistence layer: a violated \<open>UNIQUE\<close> or \<open>PRIMARY KEY\<close> constraint, and the
  errors the operations throw themselves.
\<close>

datatype db_error =
    UniqueConstraintFailed
  | ForeignKeyConstraintFailed
  | RouterErr domain_error_code
  | ExecutionNotFound string
  | SwapNotFound string
  | IntentNotFound string
  | UnresolvedNonceReservation string
  | AttemptNotFound string
  | EvmIntentNotFound string
  | ReserveInvalidAmount int
  | ReservationNotFound string
  | ReservationOwnerMismatch string
  | InvalidReservationStatus reservation_status
  | SovereignSwapNotFound string
  | SwapReservationMismatch
  | InventoryNotReadyErr
  | LiquidityDeficitErr
  | EvmInventoryUnavailableErr

text \<open>
  \<open>BEGIN IMMEDIATE .. COMMIT\<close> with \<open>ROLLBACK\<close> in the handler: an operation that throws leaves the
  database as it was.
\<close>

definition transaction :: "(db \<Rightarrow> (db_error + 'a) \<times> db) \<Rightarrow> db \<Rightarrow> (db_error + 'a) \<times> db" where
  "transaction body d = (case body d of (Inl e, _) \<Rightarrow> (Inl e, d) | (Inr a, d') \<Rightarrow> (Inr a, d'))"

lemma transaction_error: "transaction body d = (Inl e, d') \<Longrightarrow> d' = d"
  by (auto simp: transaction_def split: prod.splits sum.splits)

lemma transaction_ok: "transaction body d = (Inr a, d') \<longleftrightarrow> body d = (Inr a, d')"
  by (auto simp: transaction_def split: prod.splits sum.splits)

end
