(* ===== verification/Liquidity_Store.thy ===== *)
theory Liquidity_Store
  imports Tables
begin

text \<open>
  The durable liquidity inventory of \<open>SqlitePersistence\<close> (\<open>src/src/persistence/sqlite.ts\<close>,
  from \<open>setConfirmedOperatorBalance\<close> to the end of the class): operator balances, chain
  snapshots, and reservations with their life cycle
  RESERVED \<open>\<rightarrow>\<close> COMMITTED \<open>\<rightarrow>\<close> SETTLED or RELEASED. Each method runs in one
  \<open>BEGIN IMMEDIATE\<close> transaction, so it is one step on the database; \<open>nowMs\<close> is the clock it reads and
  \<open>newId\<close> the UUID it draws.
\<close>

section \<open>Balances\<close>

definition setConfirmedOperatorBalance :: "string \<Rightarrow> int \<Rightarrow> int \<Rightarrow> db \<Rightarrow> db" where
  "setConfirmedOperatorBalance tokenAddress balance nowMs d =
    (let token = to_lower tokenAddress;
         row = \<lparr> op_token_address = token, op_confirmed_balance = balance, op_updated_at = nowMs \<rparr>
     in case sql_get (\<lambda>r. op_token_address r = token) (operator_inventory d) of
          None \<Rightarrow> d\<lparr>operator_inventory := operator_inventory d @ [row]\<rparr>
        | Some _ \<Rightarrow> d\<lparr>operator_inventory :=
            sql_update (\<lambda>r. op_token_address r = token) (\<lambda>_. row) (operator_inventory d)\<rparr>)"

definition getConfirmedOperatorBalance :: "string \<Rightarrow> db \<Rightarrow> int" where
  "getConfirmedOperatorBalance tokenAddress d =
    (let token = to_lower tokenAddress
     in case sql_get (\<lambda>r. op_token_address r = token) (operator_inventory d) of
          Some row \<Rightarrow> op_confirmed_balance row
        | None \<Rightarrow> 0)"

text \<open>The sum over the reservations of one token in one status, a loop in the source.\<close>

definition sum_reservations :: "string \<Rightarrow> reservation_status \<Rightarrow> db \<Rightarrow> int" where
  "sum_reservations token st d =
     sum_list (map rv_amount_units
       (filter (\<lambda>r. rv_token_address r = token \<and> rv_status r = st) (liquidity_reservations d)))"

definition getReservedOperatorBalance :: "string \<Rightarrow> db \<Rightarrow> int" where
  "getReservedOperatorBalance tokenAddress d = sum_reservations (to_lower tokenAddress) RS_RESERVED d"

definition getCommittedOperatorBalance :: "string \<Rightarrow> db \<Rightarrow> int" where
  "getCommittedOperatorBalance tokenAddress d = sum_reservations (to_lower tokenAddress) RS_COMMITTED d"

definition getAvailableOperatorBalance :: "string \<Rightarrow> db \<Rightarrow> int" where
  "getAvailableOperatorBalance tokenAddress d =
    (let confirmed = getConfirmedOperatorBalance tokenAddress d;
         reserved = getReservedOperatorBalance tokenAddress d;
         committed = getCommittedOperatorBalance tokenAddress d;
         available = confirmed - reserved - committed
     in if available > 0 then available else 0)"

section \<open>Unresolved funding liabilities\<close>

definition unresolved_fund_intents :: "db \<Rightarrow> intent_row list" where
  "unresolved_fund_intents d =
     filter (\<lambda>i. it_action_type i = AT_FUND \<and>
        it_status i \<in> {EI_CREATED, EI_NONCE_RESERVED, EI_DISPATCHING, EI_PENDING})
       (evm_transaction_intents d)"

text \<open>
  What one intent adds to the sum: nothing when its swap is of another token or its
  reservation is still RESERVED (already counted in R). An empty \<open>token_address\<close> is falsy and
  matches every token.
\<close>

definition intent_liability :: "string \<Rightarrow> db \<Rightarrow> intent_row \<Rightarrow> int" where
  "intent_liability token d i =
    (case sql_get (\<lambda>s. sw_evm_swap_key s = Some (it_swap_key i)) (sovereign_swaps d) of
       None \<Rightarrow> 0
     | Some swap \<Rightarrow>
         if sw_token_address swap = '''' \<or> to_lower (sw_token_address swap) = token
         then (case truthy_str (sw_reservation_id swap) of
                 None \<Rightarrow> sw_expected_usdc_amount swap
               | Some rid \<Rightarrow>
                   (case sql_get (\<lambda>r. rv_id r = rid) (liquidity_reservations d) of
                      None \<Rightarrow> sw_expected_usdc_amount swap
                    | Some res \<Rightarrow>
                        if rv_status res = RS_RESERVED then 0 else sw_expected_usdc_amount swap))
         else 0)"

definition getUnresolvedFundingIntentsAmountInternal :: "string \<Rightarrow> db \<Rightarrow> int" where
  "getUnresolvedFundingIntentsAmountInternal token d =
     sum_list (map (intent_liability token d) (unresolved_fund_intents d))"

section \<open>Chain inventory snapshots\<close>

definition recordChainInventorySnapshot :: "snapshot_row \<Rightarrow> int \<Rightarrow> db \<Rightarrow> db" where
  "recordChainInventorySnapshot snapshot nowMs d =
    (let token = to_lower (sn_token_address snapshot);
         row = snapshot\<lparr> sn_token_address := token,
                 sn_operator_address := to_lower (sn_operator_address snapshot),
                 sn_fresh_until := Some (coalesce (sn_fresh_until snapshot)
                                           (sn_observed_at snapshot + 60000)),
                 sn_updated_at := nowMs \<rparr>
     in case sql_get (\<lambda>r. sn_token_address r = token) (chain_inventory_snapshots d) of
          None \<Rightarrow> d\<lparr>chain_inventory_snapshots := chain_inventory_snapshots d @ [row]\<rparr>
        | Some _ \<Rightarrow> d\<lparr>chain_inventory_snapshots :=
            sql_update (\<lambda>r. sn_token_address r = token) (\<lambda>_. row) (chain_inventory_snapshots d)\<rparr>)"

definition getLatestChainInventorySnapshot :: "string \<Rightarrow> db \<Rightarrow> snapshot_row option" where
  "getLatestChainInventorySnapshot tokenAddress d =
     sql_get (\<lambda>r. sn_token_address r = to_lower tokenAddress) (chain_inventory_snapshots d)"

definition write_readiness :: "string \<Rightarrow> readiness_state \<Rightarrow> int \<Rightarrow> db \<Rightarrow> db" where
  "write_readiness token st nowMs d = d\<lparr>chain_inventory_snapshots :=
     sql_update (\<lambda>r. sn_token_address r = token)
       (\<lambda>r. r\<lparr>sn_readiness_state := st, sn_updated_at := nowMs\<rparr>) (chain_inventory_snapshots d)\<rparr>"

definition setInventoryReadinessState :: "string \<Rightarrow> readiness_state \<Rightarrow> int \<Rightarrow> db \<Rightarrow> db" where
  "setInventoryReadinessState tokenAddress st nowMs d =
    (let token = to_lower tokenAddress
     in case sql_get (\<lambda>r. sn_token_address r = token) (chain_inventory_snapshots d) of
          Some _ \<Rightarrow> write_readiness token st nowMs d
        | None \<Rightarrow> recordChainInventorySnapshot
            \<lparr> sn_token_address = token, sn_chain_id = 84532,
              sn_operator_address = ''0x0000000000000000000000000000000000000000'',
              sn_wallet_balance_latest = 0, sn_wallet_balance_finalized = 0,
              sn_safe_wallet_capacity = 0, sn_latest_block_number = 0,
              sn_finalized_block_number = 0, sn_block_hash = None, sn_readiness_state = st,
              sn_observed_at = nowMs, sn_fresh_until = Some (nowMs + 60000),
              sn_updated_at = nowMs \<rparr> nowMs d)"

definition getInventoryReadinessState :: "bool \<Rightarrow> string \<Rightarrow> int \<Rightarrow> db \<Rightarrow> readiness_state" where
  "getInventoryReadinessState allowLegacyFallback tokenAddress nowMs d =
    (case getLatestChainInventorySnapshot tokenAddress d of
       None \<Rightarrow>
         if allowLegacyFallback \<and> getConfirmedOperatorBalance tokenAddress d > 0
         then IR_READY else IR_NOT_READY
     | Some snapshot \<Rightarrow>
         (case sn_fresh_until snapshot of
            Some t \<Rightarrow> if t < nowMs then IR_DEGRADED else sn_readiness_state snapshot
          | None \<Rightarrow> sn_readiness_state snapshot))"

definition getSafeHeadroom :: "string \<Rightarrow> int \<Rightarrow> db \<Rightarrow> int" where
  "getSafeHeadroom tokenAddress nowMs d =
    (let token = to_lower tokenAddress
     in case getLatestChainInventorySnapshot token d of
          None \<Rightarrow> 0
        | Some snapshot \<Rightarrow>
            if sn_readiness_state snapshot \<noteq> IR_READY \<and> sn_readiness_state snapshot \<noteq> IR_DEFICIT
            then 0
            else if (case sn_fresh_until snapshot of Some t \<Rightarrow> t < nowMs | None \<Rightarrow> False) then 0
            else sn_safe_wallet_capacity snapshot - getReservedOperatorBalance token d
                 - getUnresolvedFundingIntentsAmountInternal token d)"

section \<open>Reserving\<close>

text \<open>\<open>INSERT INTO liquidity_reservations\<close>, with its primary key and unique index.\<close>

definition insert_reservation :: "reservation_row \<Rightarrow> db \<Rightarrow> (db_error + unit) \<times> db" where
  "insert_reservation row d =
    (if (\<exists>r \<in> set (liquidity_reservations d).
            rv_id r = rv_id row \<or> rv_execution_id r = rv_execution_id row)
     then (Inl UniqueConstraintFailed, d)
     else (Inr (), d\<lparr>liquidity_reservations := liquidity_reservations d @ [row]\<rparr>))"

definition snapshot_stale :: "snapshot_row \<Rightarrow> int option \<Rightarrow> int \<Rightarrow> bool" where
  "snapshot_stale snapshot maxFreshnessMs nowMs =
    (case sn_fresh_until snapshot of
       Some freshUntil \<Rightarrow> freshUntil < nowMs
     | None \<Rightarrow> nowMs - sn_observed_at snapshot > coalesce maxFreshnessMs 60000)"

text \<open>
  The capacity a new reservation may use, or the error that is thrown after the transaction has
  been committed (with the readiness state it may have downgraded).
\<close>

definition reserve_capacity ::
  "string \<Rightarrow> bool \<Rightarrow> int option \<Rightarrow> int \<Rightarrow> db \<Rightarrow> (db_error + int) \<times> db" where
  "reserve_capacity token canFallback maxFreshnessMs nowMs d =
    (case sql_get (\<lambda>r. sn_token_address r = token) (chain_inventory_snapshots d) of
       Some snapshotRow \<Rightarrow>
         if snapshot_stale snapshotRow maxFreshnessMs nowMs
         then (Inl EvmInventoryUnavailableErr, write_readiness token IR_DEGRADED nowMs d)
         else (case sn_readiness_state snapshotRow of
             IR_NOT_READY \<Rightarrow> (Inl InventoryNotReadyErr, d)
           | IR_RECONCILING \<Rightarrow> (Inl InventoryNotReadyErr, d)
           | IR_DEFICIT \<Rightarrow> (Inl LiquidityDeficitErr, d)
           | IR_UNKNOWN \<Rightarrow> (Inl EvmInventoryUnavailableErr, d)
           | IR_DEGRADED \<Rightarrow> (Inl EvmInventoryUnavailableErr, d)
           | IR_READY \<Rightarrow>
               (let safeWalletCapacity = sn_safe_wallet_capacity snapshotRow;
                    activeReserved = sum_reservations token RS_RESERVED d;
                    unresolvedP = getUnresolvedFundingIntentsAmountInternal token d;
                    available = safeWalletCapacity - activeReserved - unresolvedP
                in if available < 0
                   then (Inl LiquidityDeficitErr, write_readiness token IR_DEFICIT nowMs d)
                   else (Inr available, d)))
     | None \<Rightarrow>
         if \<not> canFallback then (Inl InventoryNotReadyErr, d)
         else
           (let confirmed = (case sql_get (\<lambda>r. op_token_address r = token) (operator_inventory d) of
                   Some row \<Rightarrow> op_confirmed_balance row | None \<Rightarrow> 0);
                activeReserved = sum_reservations token RS_RESERVED d;
                committed = sum_reservations token RS_COMMITTED d
            in (Inr (confirmed - activeReserved - committed), d)))"

text \<open>The execution's reservation when it is RESERVED or COMMITTED.\<close>

definition owned_reservation :: "string \<Rightarrow> db \<Rightarrow> reservation_row option" where
  "owned_reservation executionId d =
    (case sql_get (\<lambda>r. rv_execution_id r = executionId) (liquidity_reservations d) of
       Some existing \<Rightarrow>
         if rv_status existing = RS_RESERVED \<or> rv_status existing = RS_COMMITTED
         then Some existing else None
     | None \<Rightarrow> None)"

definition reserveLiquidity ::
  "bool \<Rightarrow> string \<Rightarrow> string \<Rightarrow> int \<Rightarrow> bool option \<Rightarrow> int option \<Rightarrow> int \<Rightarrow> string \<Rightarrow> db
   \<Rightarrow> (db_error + string \<times> bool) \<times> db" where
  "reserveLiquidity instanceFallback executionId tokenAddress amountUnits
      allowLegacyFallback maxFreshnessMs nowMs newId d =
    (if amountUnits \<le> 0 then (Inl (ReserveInvalidAmount amountUnits), d)
     else
       let token = to_lower tokenAddress
       in case owned_reservation executionId d of
            Some existing \<Rightarrow> (Inr (rv_id existing, True), d)
          | None \<Rightarrow>
              (case reserve_capacity token (coalesce allowLegacyFallback instanceFallback)
                      maxFreshnessMs nowMs d of
                 (Inl e, d') \<Rightarrow> (Inl e, d')
               | (Inr available, d') \<Rightarrow>
                   if available < amountUnits then (Inr ('''', False), d')
                   else
                     (case insert_reservation
                             \<lparr> rv_id = newId, rv_execution_id = executionId, rv_token_address = token,
                               rv_amount_units = amountUnits, rv_status = RS_RESERVED,
                               rv_created_at = nowMs, rv_updated_at = nowMs \<rparr> d' of
                        (Inl e, _) \<Rightarrow> (Inl e, d')
                      | (Inr _, d'') \<Rightarrow> (Inr (newId, True), d''))))"

section \<open>Reservation transitions\<close>

definition write_reservation_status :: "string \<Rightarrow> reservation_status \<Rightarrow> int \<Rightarrow> db \<Rightarrow> db" where
  "write_reservation_status rid st now d = d\<lparr>liquidity_reservations :=
     sql_update (\<lambda>r. rv_id r = rid) (\<lambda>r. r\<lparr>rv_status := st, rv_updated_at := now\<rparr>)
       (liquidity_reservations d)\<rparr>"

definition write_swap_reservation_status :: "string \<Rightarrow> reservation_status \<Rightarrow> int \<Rightarrow> db \<Rightarrow> db" where
  "write_swap_reservation_status rid st now d = d\<lparr>sovereign_swaps :=
     sql_update (\<lambda>s. sw_reservation_id s = Some rid)
       (\<lambda>s. s\<lparr>sw_reservation_status := Some st, sw_updated_at := now\<rparr>) (sovereign_swaps d)\<rparr>"

definition transitionLiquidityReservation ::
  "string \<Rightarrow> reservation_status list \<Rightarrow> reservation_status \<Rightarrow> int \<Rightarrow> db \<Rightarrow> (db_error + unit) \<times> db" where
  "transitionLiquidityReservation reservationId allowedFrom nextStatus now = transaction (\<lambda>d.
    (case sql_get (\<lambda>r. rv_id r = reservationId) (liquidity_reservations d) of
       None \<Rightarrow> (Inl (ReservationNotFound reservationId), d)
     | Some row \<Rightarrow>
         if rv_status row \<in> set allowedFrom
         then (Inr (), write_swap_reservation_status reservationId nextStatus now
                         (write_reservation_status reservationId nextStatus now d))
         else if rv_status row = nextStatus
         then (Inr (), write_swap_reservation_status reservationId nextStatus now d)
         else (Inl (InvalidReservationStatus (rv_status row)), d)))"

definition commitLiquidityReservation :: "string \<Rightarrow> int \<Rightarrow> db \<Rightarrow> (db_error + unit) \<times> db" where
  "commitLiquidityReservation reservationId now =
     transitionLiquidityReservation reservationId [RS_RESERVED] RS_COMMITTED now"

definition releaseLiquidityReservation :: "string \<Rightarrow> int \<Rightarrow> db \<Rightarrow> (db_error + unit) \<times> db" where
  "releaseLiquidityReservation reservationId now =
     transitionLiquidityReservation reservationId [RS_RESERVED] RS_RELEASED now"

definition restoreRefundLiquidityReservation :: "string \<Rightarrow> int \<Rightarrow> db \<Rightarrow> (db_error + unit) \<times> db" where
  "restoreRefundLiquidityReservation reservationId now =
     transitionLiquidityReservation reservationId [RS_COMMITTED, RS_RESERVED] RS_RELEASED now"

definition settleLiquidityReservation :: "string \<Rightarrow> int \<Rightarrow> db \<Rightarrow> (db_error + unit) \<times> db" where
  "settleLiquidityReservation reservationId now =
     transitionLiquidityReservation reservationId [RS_COMMITTED, RS_RESERVED] RS_SETTLED now"

definition commitReservationAndAdvanceSwapToFunded ::
  "string \<Rightarrow> string \<Rightarrow> int \<Rightarrow> db \<Rightarrow> (db_error + unit) \<times> db" where
  "commitReservationAndAdvanceSwapToFunded reservationId swapId now = transaction (\<lambda>d.
    (case sql_get (\<lambda>r. rv_id r = reservationId) (liquidity_reservations d) of
       None \<Rightarrow> (Inl (ReservationNotFound reservationId), d)
     | Some resRow \<Rightarrow>
         if rv_execution_id resRow \<noteq> swapId
         then (Inl (ReservationOwnerMismatch reservationId), d)
         else if rv_status resRow \<noteq> RS_RESERVED \<and> rv_status resRow \<noteq> RS_COMMITTED
         then (Inl (InvalidReservationStatus (rv_status resRow)), d)
         else
           let d1 = (if rv_status resRow = RS_RESERVED
                     then write_reservation_status reservationId RS_COMMITTED now d else d)
           in (case sql_get (\<lambda>s. sw_id s = swapId) (sovereign_swaps d1) of
                None \<Rightarrow> (Inl (SovereignSwapNotFound swapId), d1)
              | Some swapRow \<Rightarrow>
                  if sw_reservation_id swapRow \<noteq> Some reservationId
                  then (Inl SwapReservationMismatch, d1)
                  else
                    let d2 = d1\<lparr>sovereign_swaps := sql_update (\<lambda>s. sw_id s = swapId)
                          (\<lambda>s. s\<lparr>sw_reservation_status := Some RS_COMMITTED,
                                 sw_state := (if sw_state s = SA_EVM_FUNDING_PENDING
                                              then SA_EVM_FUNDED else sw_state s),
                                 sw_updated_at := now\<rparr>) (sovereign_swaps d1)\<rparr>
                    in (Inr (),
                        if sw_state swapRow = SA_EVM_FUNDING_PENDING
                        then d2\<lparr>sovereign_swap_transitions := sovereign_swap_transitions d2 @
                               [\<lparr> st_swap_id = swapId, st_from_state = Some SA_EVM_FUNDING_PENDING,
                                  st_to_state = SA_EVM_FUNDED,
                                  st_reason = ''RESERVATION_COMMITTED_EVM_FUNDED_CONVERGED'',
                                  st_evidence_id = None, st_created_at = now \<rparr>]\<rparr>
                        else d2))))"

definition getLiquidityReservation :: "string \<Rightarrow> db \<Rightarrow> reservation_row option" where
  "getLiquidityReservation reservationId d =
     sql_get (\<lambda>r. rv_id r = reservationId) (liquidity_reservations d)"

definition getLiquidityReservationByExecutionId :: "string \<Rightarrow> db \<Rightarrow> reservation_row option" where
  "getLiquidityReservationByExecutionId executionId d =
     sql_get (\<lambda>r. rv_execution_id r = executionId) (liquidity_reservations d)"

end
