(* ===== verification/Fake_Inventory.thy ===== *)
theory Fake_Inventory
  imports Tables
begin

text \<open>
  \<open>FakeLiquidityInventory\<close> (\<open>src/src/atomic/liquidity/fake-inventory.ts\<close>), the in-memory provider
  of \<open>ILiquidityInventory\<close>. Its two JavaScript maps keep insertion order, so they are association
  lists in that order; balances are looked up by lower-case token.
\<close>

record fake_reservation =
  fr_id :: string
  fr_executionId :: "string option"
  fr_amount :: int
  fr_tokenAddress :: string
  fr_status :: reservation_status

record fake_inventory =
  fi_balances :: "(string \<times> int) list"
  fi_reservations :: "fake_reservation list"

definition OFFICIAL_BASE_SEPOLIA_USDC_ADDRESS :: string where
  "OFFICIAL_BASE_SEPOLIA_USDC_ADDRESS = ''0x036CbD53842c5426634e7929541eC2318f3dCF7e''"

definition LEGACY_TOKEN_ADDRESS :: string where
  "LEGACY_TOKEN_ADDRESS = ''0x6c84a8f1c29108f47a79964b5fe888d4f4d0de40''"

text \<open>\<open>Map.set\<close>\<close>
fun map_set :: "'k \<Rightarrow> 'v \<Rightarrow> ('k \<times> 'v) list \<Rightarrow> ('k \<times> 'v) list" where
  "map_set k v [] = [(k, v)]"
| "map_set k v ((k', v') # kvs) = (if k' = k then (k, v) # kvs else (k', v') # map_set k v kvs)"

lemma map_of_map_set: "map_of (map_set k v kvs) = (map_of kvs)(k \<mapsto> v)"
  by (induction kvs) (auto simp: fun_eq_iff)

definition fake_setBalance :: "string \<Rightarrow> int \<Rightarrow> fake_inventory \<Rightarrow> fake_inventory" where
  "fake_setBalance tokenAddress amount s =
    (let s1 = s\<lparr>fi_balances := map_set (to_lower tokenAddress) amount (fi_balances s)\<rparr>
     in if to_lower tokenAddress = LEGACY_TOKEN_ADDRESS
        then s1\<lparr>fi_balances :=
               map_set (to_lower OFFICIAL_BASE_SEPOLIA_USDC_ADDRESS) amount (fi_balances s1)\<rparr>
        else s1)"

definition fake_sum :: "string \<Rightarrow> reservation_status \<Rightarrow> fake_inventory \<Rightarrow> int" where
  "fake_sum token st s = sum_list (map fr_amount
     (filter (\<lambda>r. fr_tokenAddress r = token \<and> fr_status r = st) (fi_reservations s)))"

definition fake_getAvailableBalance :: "string \<Rightarrow> fake_inventory \<Rightarrow> int" where
  "fake_getAvailableBalance tokenAddress s =
    (let token = to_lower tokenAddress;
         confirmed = coalesce (map_of (fi_balances s) token) 0;
         available = confirmed - fake_sum token RS_RESERVED s - fake_sum token RS_COMMITTED s
     in if available > 0 then available else 0)"

definition fake_getReservedBalance :: "string \<Rightarrow> fake_inventory \<Rightarrow> int" where
  "fake_getReservedBalance tokenAddress s = fake_sum (to_lower tokenAddress) RS_RESERVED s"

definition fake_getCommittedBalance :: "string \<Rightarrow> fake_inventory \<Rightarrow> int" where
  "fake_getCommittedBalance tokenAddress s = fake_sum (to_lower tokenAddress) RS_COMMITTED s"

text \<open>An empty \<open>executionId\<close> is falsy, like a missing one.\<close>

definition fake_reserve ::
  "int \<Rightarrow> string \<Rightarrow> string option \<Rightarrow> string \<Rightarrow> fake_inventory \<Rightarrow> (string \<times> bool) \<times> fake_inventory" where
  "fake_reserve amountUnits tokenAddress executionId newId s =
    (if amountUnits \<le> 0 then (('''', False), s)
     else
       let token = to_lower tokenAddress
       in case (if truthy_str executionId = None then None
                else find (\<lambda>r. fr_executionId r = executionId \<and>
                       (fr_status r = RS_RESERVED \<or> fr_status r = RS_COMMITTED)) (fi_reservations s)) of
            Some res \<Rightarrow> ((fr_id res, True), s)
          | None \<Rightarrow>
              if fake_getAvailableBalance token s < amountUnits then (('''', False), s)
              else ((newId, True),
                 s\<lparr>fi_reservations := fi_reservations s @
                    [\<lparr> fr_id = newId, fr_executionId = executionId, fr_amount = amountUnits,
                       fr_tokenAddress = token, fr_status = RS_RESERVED \<rparr>]\<rparr>))"

text \<open>Each transition looks the reservation up by id and changes it from one status only.\<close>

definition fake_move :: "reservation_status \<Rightarrow> reservation_status \<Rightarrow> string \<Rightarrow> fake_inventory \<Rightarrow> fake_inventory" where
  "fake_move from to reservationId s =
    (case find (\<lambda>r. fr_id r = reservationId) (fi_reservations s) of
       None \<Rightarrow> s
     | Some res \<Rightarrow>
         if fr_status res = from
         then s\<lparr>fi_reservations := map (\<lambda>r. if fr_id r = reservationId then r\<lparr>fr_status := to\<rparr> else r)
                  (fi_reservations s)\<rparr>
         else s)"

definition fake_release :: "string \<Rightarrow> fake_inventory \<Rightarrow> fake_inventory" where
  "fake_release = fake_move RS_RESERVED RS_RELEASED"

definition fake_commit :: "string \<Rightarrow> fake_inventory \<Rightarrow> fake_inventory" where
  "fake_commit = fake_move RS_RESERVED RS_COMMITTED"

definition fake_restoreRefund :: "string \<Rightarrow> fake_inventory \<Rightarrow> fake_inventory" where
  "fake_restoreRefund = fake_move RS_COMMITTED RS_RELEASED"

definition fake_status :: "fake_inventory \<Rightarrow> string \<Rightarrow> reservation_status option" where
  "fake_status s rid = map_option fr_status (find (\<lambda>r. fr_id r = rid) (fi_reservations s))"

lemma find_map_same:
  "(\<And>r. P (f r) = P r) \<Longrightarrow> find P (map f xs) = map_option f (find P xs)"
  by (induction xs) auto

lemma find_SomeD: "find P xs = Some x \<Longrightarrow> x \<in> set xs \<and> P x"
  by (induction xs) (auto split: if_splits)

lemma fake_move_status:
  "fake_status (fake_move a b i s) j =
     (if j = i \<and> fake_status s i = Some a then Some b else fake_status s j)"
proof (cases "find (\<lambda>r. fr_id r = i) (fi_reservations s)")
  case None
  then show ?thesis by (simp add: fake_move_def fake_status_def)
next
  case (Some res)
  show ?thesis
  proof (cases "fr_status res = a")
    case True
    have "find (\<lambda>r. fr_id r = j) (map (\<lambda>r. if fr_id r = i then r\<lparr>fr_status := b\<rparr> else r) (fi_reservations s))
        = map_option (\<lambda>r. if fr_id r = i then r\<lparr>fr_status := b\<rparr> else r)
            (find (\<lambda>r. fr_id r = j) (fi_reservations s))"
      by (rule find_map_same) simp
    then show ?thesis
      using Some True
      by (cases "j = i"; cases "find (\<lambda>r. fr_id r = j) (fi_reservations s)")
         (auto simp: fake_move_def fake_status_def dest: find_SomeD)
  next
    case False
    then show ?thesis using Some by (simp add: fake_move_def fake_status_def)
  qed
qed

end
