(* ===== verification/Ledger.thy ===== *)
theory Ledger
  imports Liquidity_Store Fake_Inventory
begin

text \<open>
  The contract of \<open>ILiquidityInventory\<close> (\<open>src/src/atomic/types.ts\<close>) that the coordinator relies
  on, as a locale: how \<open>commit\<close>, \<open>release\<close> and \<open>restoreRefund\<close> move the status of a reservation.
  \<open>settling_ledger\<close> adds \<open>settle\<close>, which only the SQLite provider has. Both locales are
  interpreted on the providers' own operations.
\<close>

text \<open>Any sequence of life-cycle calls, in any order, failing calls included; each has its clock.\<close>

datatype ledger_op =
  OpCommit int string | OpRelease int string | OpRestore int string | OpSettle int string

fun ledger_run ::
  "(int \<Rightarrow> string \<Rightarrow> 's \<Rightarrow> 's) \<Rightarrow> (int \<Rightarrow> string \<Rightarrow> 's \<Rightarrow> 's) \<Rightarrow> (int \<Rightarrow> string \<Rightarrow> 's \<Rightarrow> 's)
   \<Rightarrow> (int \<Rightarrow> string \<Rightarrow> 's \<Rightarrow> 's) \<Rightarrow> ledger_op list \<Rightarrow> 's \<Rightarrow> 's" where
  "ledger_run cm rl rs st [] s = s"
| "ledger_run cm rl rs st (OpCommit n i # ops) s = ledger_run cm rl rs st ops (cm n i s)"
| "ledger_run cm rl rs st (OpRelease n i # ops) s = ledger_run cm rl rs st ops (rl n i s)"
| "ledger_run cm rl rs st (OpRestore n i # ops) s = ledger_run cm rl rs st ops (rs n i s)"
| "ledger_run cm rl rs st (OpSettle n i # ops) s = ledger_run cm rl rs st ops (st n i s)"

fun status_rank :: "reservation_status \<Rightarrow> nat" where
  "status_rank RS_RESERVED = 0"
| "status_rank RS_COMMITTED = 1"
| "status_rank RS_RELEASED = 2"
| "status_rank RS_SETTLED = 2"

text \<open>A status moves forward: it stays, or its rank grows.\<close>

definition forward :: "reservation_status option \<Rightarrow> reservation_status option \<Rightarrow> bool" where
  "forward a b \<longleftrightarrow> (a = b \<or> (\<exists>x y. a = Some x \<and> b = Some y \<and> status_rank x < status_rank y))"

lemma forward_refl [simp]: "forward a a"
  by (simp add: forward_def)

lemma forward_trans: "forward a b \<Longrightarrow> forward b c \<Longrightarrow> forward a c"
  by (auto simp: forward_def)

lemma status_rank_le: "status_rank x \<le> 2"
  by (cases x) simp_all

lemma forward_final: "forward (Some x) b \<Longrightarrow> status_rank x = 2 \<Longrightarrow> b = Some x"
  using status_rank_le by (auto simp: forward_def leD)

locale reservation_ledger =
  fixes status :: "'s \<Rightarrow> string \<Rightarrow> reservation_status option"
    and commit :: "int \<Rightarrow> string \<Rightarrow> 's \<Rightarrow> 's"
    and release :: "int \<Rightarrow> string \<Rightarrow> 's \<Rightarrow> 's"
    and restore :: "int \<Rightarrow> string \<Rightarrow> 's \<Rightarrow> 's"
  assumes commit_law: "status (commit n i s) j =
      (if j = i \<and> status s i = Some RS_RESERVED then Some RS_COMMITTED else status s j)"
    and release_law: "status (release n i s) j =
      (if j = i \<and> status s i = Some RS_RESERVED then Some RS_RELEASED else status s j)"
    and restore_committed: "status s i = Some RS_COMMITTED \<Longrightarrow> status (restore n i s) i = Some RS_RELEASED"
    and restore_reserved: "status s i = Some RS_RESERVED \<Longrightarrow>
      status (restore n i s) i \<in> {Some RS_RESERVED, Some RS_RELEASED}"
    and restore_final: "status s i \<notin> {Some RS_RESERVED, Some RS_COMMITTED} \<Longrightarrow>
      status (restore n i s) i = status s i"
    and restore_frame: "j \<noteq> i \<Longrightarrow> status (restore n i s) j = status s j"
begin

lemma commit_forward: "forward (status s j) (status (commit n i s) j)"
  by (auto simp: commit_law forward_def)

lemma release_forward: "forward (status s j) (status (release n i s) j)"
  by (auto simp: release_law forward_def)

lemma restore_forward: "forward (status s j) (status (restore n i s) j)"
proof (cases "j = i")
  case True
  consider (c) "status s i = Some RS_COMMITTED" | (r) "status s i = Some RS_RESERVED"
    | (f) "status s i \<notin> {Some RS_RESERVED, Some RS_COMMITTED}" by auto
  then show ?thesis
  proof cases
    case c
    then show ?thesis using True restore_committed [OF c, of n] by (simp add: forward_def)
  next
    case r
    then show ?thesis using True restore_reserved [OF r, of n] by (auto simp: forward_def)
  next
    case f
    then show ?thesis using True restore_final [OF f, of n] by simp
  qed
qed (simp add: restore_frame)

text \<open>Once committed, neither a late commit nor a late release changes a reservation.\<close>

lemma committed_sticky:
  "status s i = Some RS_COMMITTED \<Longrightarrow>
   status (release n i s) i = Some RS_COMMITTED \<and> status (commit n i s) i = Some RS_COMMITTED"
  by (simp add: release_law commit_law)

end

locale settling_ledger = reservation_ledger +
  fixes settle :: "int \<Rightarrow> string \<Rightarrow> 's \<Rightarrow> 's"
  assumes settle_law: "status (settle n i s) j =
      (if j = i \<and> status s i \<in> {Some RS_RESERVED, Some RS_COMMITTED} then Some RS_SETTLED
       else status s j)"
begin

lemma settle_forward: "forward (status s j) (status (settle n i s) j)"
  by (auto simp: settle_law forward_def)

lemma run_forward: "forward (status s j) (status (ledger_run commit release restore settle ops s) j)"
proof (induction ops arbitrary: s)
  case Nil
  then show ?case by simp
next
  case (Cons x ops)
  then show ?case
    by (cases x) (auto intro: forward_trans commit_forward release_forward restore_forward settle_forward)
qed

lemma run_final:
  "status s j = Some x \<Longrightarrow> status_rank x = 2 \<Longrightarrow>
   status (ledger_run commit release restore settle ops s) j = Some x"
  using run_forward [of s j ops] by (auto dest: forward_final)

end

section \<open>The SQLite provider\<close>

definition res_status :: "db \<Rightarrow> string \<Rightarrow> reservation_status option" where
  "res_status d rid = map_option rv_status (sql_get (\<lambda>r. rv_id r = rid) (liquidity_reservations d))"

lemma get_reservation_write:
  "sql_get (\<lambda>r. rv_id r = j) (liquidity_reservations (write_reservation_status i st now d))
     = map_option (\<lambda>r. if rv_id r = i then r\<lparr>rv_status := st, rv_updated_at := now\<rparr> else r)
         (sql_get (\<lambda>r. rv_id r = j) (liquidity_reservations d))"
  by (simp add: write_reservation_status_def sql_get_update)

lemma res_status_write:
  "res_status (write_reservation_status i st now d) j =
     (if j = i then map_option (\<lambda>_. st) (res_status d i) else res_status d j)"
  by (cases "sql_get (\<lambda>r. rv_id r = j) (liquidity_reservations d)")
     (auto simp: res_status_def get_reservation_write dest: sql_get_Some)

lemma reservations_write_swap [frame]:
  "liquidity_reservations (write_swap_reservation_status i st now d) = liquidity_reservations d"
  by (simp add: write_swap_reservation_status_def)

lemma res_status_write_swap [simp]:
  "res_status (write_swap_reservation_status i st now d) = res_status d"
  by (simp add: res_status_def frame fun_eq_iff)

lemma transition_status:
  "res_status (snd (transitionLiquidityReservation i from st now d)) j =
     (if j = i \<and> (\<exists>x. res_status d i = Some x \<and> x \<in> set from) then Some st else res_status d j)"
proof (cases "sql_get (\<lambda>r. rv_id r = i) (liquidity_reservations d)")
  case None
  then show ?thesis
    by (simp add: transitionLiquidityReservation_def transaction_def res_status_def)
next
  case (Some row)
  then have "res_status d i = Some (rv_status row)" by (simp add: res_status_def)
  with Some show ?thesis
    by (auto simp: transitionLiquidityReservation_def transaction_def res_status_write)
qed

interpretation sq: settling_ledger res_status
  "\<lambda>n i d. snd (commitLiquidityReservation i n d)"
  "\<lambda>n i d. snd (releaseLiquidityReservation i n d)"
  "\<lambda>n i d. snd (restoreRefundLiquidityReservation i n d)"
  "\<lambda>n i d. snd (settleLiquidityReservation i n d)"
  by unfold_locales
    (auto simp: commitLiquidityReservation_def releaseLiquidityReservation_def
      restoreRefundLiquidityReservation_def settleLiquidityReservation_def transition_status)

section \<open>The in-memory provider\<close>

interpretation fk: reservation_ledger fake_status "\<lambda>n. fake_commit" "\<lambda>n. fake_release" "\<lambda>n. fake_restoreRefund"
  by unfold_locales
    (auto simp: fake_commit_def fake_release_def fake_restoreRefund_def fake_move_status)


section \<open>Properties\<close>

text \<open>Reservation life cycle of the SQLite provider: over any sequence of commit, release, restore and
  settle calls, on any ids and at any times, a status only moves forward, so that a RELEASED or
  SETTLED reservation keeps its status for ever.\<close>

theorem reservation_final:
  assumes "res_status d j = Some x" "x \<in> {RS_RELEASED, RS_SETTLED}"
  shows "res_status (ledger_run
      (\<lambda>n i d. snd (commitLiquidityReservation i n d))
      (\<lambda>n i d. snd (releaseLiquidityReservation i n d))
      (\<lambda>n i d. snd (restoreRefundLiquidityReservation i n d))
      (\<lambda>n i d. snd (settleLiquidityReservation i n d)) ops d) j = Some x"
  using assms by (intro sq.run_final) auto

text \<open>A reservation row for the witnesses.\<close>

definition demo_reservation :: "reservation_status \<Rightarrow> reservation_row" where
  "demo_reservation st = \<lparr> rv_id = ''r1'', rv_execution_id = ''e1'', rv_token_address = ''t'',
     rv_amount_units = 5, rv_status = st, rv_created_at = 0, rv_updated_at = 0 \<rparr>"

definition demo_reservation_db :: "reservation_status \<Rightarrow> db" where
  "demo_reservation_db st = empty_db\<lparr>liquidity_reservations := [demo_reservation st]\<rparr>"

lemma demo_res_status [simp]: "res_status (demo_reservation_db st) ''r1'' = Some st"
  by (simp add: res_status_def demo_reservation_db_def demo_reservation_def)

lemma reservation_final_witness:
  "res_status (ledger_run
      (\<lambda>n i d. snd (commitLiquidityReservation i n d))
      (\<lambda>n i d. snd (releaseLiquidityReservation i n d))
      (\<lambda>n i d. snd (restoreRefundLiquidityReservation i n d))
      (\<lambda>n i d. snd (settleLiquidityReservation i n d))
      [OpCommit 1 ''r1'', OpSettle 2 ''r1''] (demo_reservation_db RS_RELEASED)) ''r1'' = Some RS_RELEASED"
  by (rule reservation_final) simp_all

end
