(* ===== verification/Liquidity_Laws.thy ===== *)
theory Liquidity_Laws
  imports Ledger
begin

text \<open>
  What the durable inventory guarantees: a granted reservation fits the safe capacity of a fresh
  READY snapshot, whatever the order in which concurrent workers' calls are serialised; calls are
  idempotent per execution; the status columns of reservation and swap agree after every
  transition; and the combined commit-and-advance step is atomic.
\<close>

section \<open>Sums\<close>

lemma sum_reservations_append:
  "sum_reservations token st (d\<lparr>liquidity_reservations := liquidity_reservations d @ [r]\<rparr>) =
     sum_reservations token st d
     + (if rv_token_address r = token \<and> rv_status r = st then rv_amount_units r else 0)"
  by (simp add: sum_reservations_def)

lemma sum_reservations_readiness [simp]:
  "sum_reservations token st (write_readiness t s n d) = sum_reservations token st d"
  by (simp add: sum_reservations_def write_readiness_def)

lemma readiness_frame [frame]:
  "liquidity_reservations (write_readiness t s n d) = liquidity_reservations d"
  "sovereign_swaps (write_readiness t s n d) = sovereign_swaps d"
  "evm_transaction_intents (write_readiness t s n d) = evm_transaction_intents d"
  by (simp_all add: write_readiness_def)

lemma intent_liability_readiness [simp]:
  "intent_liability token (write_readiness t s n d) = intent_liability token d"
  unfolding fun_eq_iff intent_liability_def readiness_frame by blast

lemma liability_readiness [simp]:
  "getUnresolvedFundingIntentsAmountInternal token (write_readiness t s n d) =
   getUnresolvedFundingIntentsAmountInternal token d"
  by (simp add: getUnresolvedFundingIntentsAmountInternal_def unresolved_fund_intents_def frame)

definition amounts_ok :: "db \<Rightarrow> bool" where
  "amounts_ok d \<longleftrightarrow> (\<forall>s \<in> set (sovereign_swaps d). 0 \<le> sw_expected_usdc_amount s)"

lemma intent_liability_nonneg: "amounts_ok d \<Longrightarrow> 0 \<le> intent_liability token d i"
  by (auto simp: intent_liability_def amounts_ok_def dest!: sql_get_Some split: option.splits)

lemma liability_nonneg: "amounts_ok d \<Longrightarrow> 0 \<le> getUnresolvedFundingIntentsAmountInternal token d"
  by (auto simp: getUnresolvedFundingIntentsAmountInternal_def intro!: sum_list_nonneg
      intent_liability_nonneg)

text \<open>A new RESERVED row can only take liabilities out of P, never add one.\<close>

lemma intent_liability_insert:
  assumes "amounts_ok d" "rv_status r = RS_RESERVED"
  shows "intent_liability token (d\<lparr>liquidity_reservations := liquidity_reservations d @ [r]\<rparr>) i
     \<le> intent_liability token d i"
proof (cases "sql_get (\<lambda>s. sw_evm_swap_key s = Some (it_swap_key i)) (sovereign_swaps d)")
  case None
  then show ?thesis by (simp add: intent_liability_def)
next
  case (Some swap)
  then have "0 \<le> sw_expected_usdc_amount swap"
    using assms(1) by (auto simp: amounts_ok_def dest: sql_get_Some)
  with Some assms(2) show ?thesis
    by (auto simp: intent_liability_def sql_get_append split: option.splits)
qed

lemma liability_insert:
  assumes "amounts_ok d" "rv_status r = RS_RESERVED"
  shows "getUnresolvedFundingIntentsAmountInternal token
      (d\<lparr>liquidity_reservations := liquidity_reservations d @ [r]\<rparr>)
     \<le> getUnresolvedFundingIntentsAmountInternal token d"
proof -
  have "unresolved_fund_intents (d\<lparr>liquidity_reservations := liquidity_reservations d @ [r]\<rparr>)
      = unresolved_fund_intents d"
    by (simp add: unresolved_fund_intents_def)
  then show ?thesis
    unfolding getUnresolvedFundingIntentsAmountInternal_def
    by (simp add: intent_liability_insert [OF assms] sum_list_mono)
qed

section \<open>Capacity\<close>

definition safe_capacity :: "string \<Rightarrow> db \<Rightarrow> int option" where
  "safe_capacity token d =
     map_option sn_safe_wallet_capacity
       (sql_get (\<lambda>r. sn_token_address r = token) (chain_inventory_snapshots d))"

text \<open>Obligations \<open>R + P\<close> of a token, and the no-oversell condition \<open>R + P \<le> W\<close>.\<close>

definition obligations :: "string \<Rightarrow> db \<Rightarrow> int" where
  "obligations token d =
     sum_reservations token RS_RESERVED d + getUnresolvedFundingIntentsAmountInternal token d"

definition covered :: "string \<Rightarrow> db \<Rightarrow> bool" where
  "covered token d = (case safe_capacity token d of None \<Rightarrow> False | Some w \<Rightarrow> obligations token d \<le> w)"

lemma safe_capacity_readiness [simp]: "safe_capacity token (write_readiness t s n d) = safe_capacity token d"
proof -
  have "sql_get (\<lambda>r. sn_token_address r = token) (chain_inventory_snapshots (write_readiness t s n d)) =
      map_option (\<lambda>r. if sn_token_address r = t then r\<lparr>sn_readiness_state := s, sn_updated_at := n\<rparr> else r)
        (sql_get (\<lambda>r. sn_token_address r = token) (chain_inventory_snapshots d))"
    by (simp add: write_readiness_def sql_get_update)
  then show ?thesis
    by (cases "sql_get (\<lambda>r. sn_token_address r = token) (chain_inventory_snapshots d)")
       (simp_all add: safe_capacity_def)
qed

lemma obligations_readiness [simp]: "obligations token (write_readiness t s n d) = obligations token d"
  by (simp add: obligations_def)

lemma covered_readiness [simp]: "covered token (write_readiness t s n d) = covered token d"
  by (simp add: covered_def split: option.split)

lemma amounts_ok_readiness [simp]: "amounts_ok (write_readiness t s n d) = amounts_ok d"
  by (simp add: amounts_ok_def write_readiness_def)

lemma reserve_capacity_db:
  "reserve_capacity token fb mf now d = (r, d') \<Longrightarrow> d' = d \<or> (\<exists>s. d' = write_readiness token s now d)"
  by (auto simp: reserve_capacity_def Let_def split: option.splits if_splits readiness_state.splits)

lemma reserve_capacity_ok:
  "reserve_capacity token fb mf now d = (Inr available, d') \<Longrightarrow> d' = d"
  by (auto simp: reserve_capacity_def Let_def split: option.splits if_splits readiness_state.splits)

lemma reserve_capacity_snapshot:
  assumes "reserve_capacity token fb mf now d = (Inr available, d')"
    and "sql_get (\<lambda>r. sn_token_address r = token) (chain_inventory_snapshots d) = Some sn"
  shows "\<not> snapshot_stale sn mf now" "sn_readiness_state sn = IR_READY"
    "available = sn_safe_wallet_capacity sn - obligations token d" "0 \<le> available"
  using assms by (auto simp: reserve_capacity_def obligations_def Let_def
      split: if_splits readiness_state.splits)

text \<open>Everything a reservation call can do to the database.\<close>

lemma reserve_cases:
  assumes "reserveLiquidity fb e t a allow mf now nid d = (r, d')"
  obtains (owned) res where "owned_reservation e d = Some res" "r = Inr (rv_id res, True)" "d' = d" "0 < a"
  | (granted) av where "r = Inr (nid, True)" "0 < a" "owned_reservation e d = None"
      "reserve_capacity (to_lower t) (coalesce allow fb) mf now d = (Inr av, d)" "a \<le> av"
      "\<forall>q \<in> set (liquidity_reservations d). rv_id q \<noteq> nid \<and> rv_execution_id q \<noteq> e"
      "d' = d\<lparr>liquidity_reservations := liquidity_reservations d @
         [\<lparr> rv_id = nid, rv_execution_id = e, rv_token_address = to_lower t, rv_amount_units = a,
            rv_status = RS_RESERVED, rv_created_at = now, rv_updated_at = now \<rparr>]\<rparr>"
  | (refused) "\<forall>rid. r \<noteq> Inr (rid, True)" "d' = d \<or> (\<exists>s. d' = write_readiness (to_lower t) s now d)"
proof (cases "a \<le> 0 \<or> owned_reservation e d \<noteq> None")
  case True
  with assms that(1,3) show ?thesis
    by (auto simp: reserveLiquidity_def Let_def split: if_splits)
next
  case False
  then have a: "0 < a" and o: "owned_reservation e d = None" by auto
  obtain cr cd where c: "reserve_capacity (to_lower t) (coalesce allow fb) mf now d = (cr, cd)"
    by (cases "reserve_capacity (to_lower t) (coalesce allow fb) mf now d")
  show ?thesis
  proof (cases cr)
    case (Inl x)
    with assms c a o show ?thesis
      by (intro that(3)) (auto simp: reserveLiquidity_def Let_def dest: reserve_capacity_db)
  next
    case (Inr av)
    with c have cd: "cd = d" by (auto dest: reserve_capacity_ok)
    from assms c a o Inr cd show ?thesis
      by (cases "av < a")
         (auto simp: reserveLiquidity_def Let_def insert_reservation_def split: if_splits
            intro: that(2) that(3))
  qed
qed

lemma reserve_keeps_covered:
  assumes r: "reserveLiquidity fb e t a allow mf now nid d = (r, d')"
    and ok: "amounts_ok d" and cov: "covered token d"
  shows "covered token d'" "amounts_ok d'"
proof -
  from r have "covered token d' \<and> amounts_ok d'"
  proof (cases rule: reserve_cases)
    case owned
    then show ?thesis using ok cov by simp
  next
    case (granted av)
    let ?row = "\<lparr> rv_id = nid, rv_execution_id = e, rv_token_address = to_lower t, rv_amount_units = a,
            rv_status = RS_RESERVED, rv_created_at = now, rv_updated_at = now \<rparr>"
    have P: "getUnresolvedFundingIntentsAmountInternal token d'
        \<le> getUnresolvedFundingIntentsAmountInternal token d"
      unfolding granted(7) by (rule liability_insert [OF ok]) simp
    have am: "amounts_ok d'" using ok by (simp add: granted(7) amounts_ok_def)
    have W: "safe_capacity token d' = safe_capacity token d"
      by (simp add: granted(7) safe_capacity_def)
    obtain w where w: "safe_capacity token d = Some w" and le: "obligations token d \<le> w"
      using cov by (auto simp: covered_def split: option.splits)
    have "obligations token d' \<le> w"
    proof (cases "to_lower t = token")
      case True
      from w obtain sn where
        "sql_get (\<lambda>r. sn_token_address r = to_lower t) (chain_inventory_snapshots d) = Some sn"
        and "sn_safe_wallet_capacity sn = w"
        by (auto simp: safe_capacity_def True)
      with reserve_capacity_snapshot(3) [OF granted(4)] have "av = w - obligations token d"
        using True by simp
      with P granted(5) show ?thesis
        using True by (simp add: granted(7) obligations_def sum_reservations_append)
    next
      case False
      with P le show ?thesis
        by (simp add: granted(7) obligations_def sum_reservations_append)
    qed
    then show ?thesis using W w am by (simp add: covered_def)
  next
    case refused
    then show ?thesis using ok cov by auto
  qed
  then show "covered token d'" "amounts_ok d'" by simp_all
qed

section \<open>Sequences of reservation calls\<close>

text \<open>One call as some worker makes it: its parameters, the clock and the UUID it draws.\<close>

record reserve_call =
  rc_execution :: string
  rc_token :: string
  rc_amount :: int
  rc_fallback :: "bool option"
  rc_maxFreshness :: "int option"
  rc_now :: int
  rc_newId :: string

fun reserve_run :: "bool \<Rightarrow> reserve_call list \<Rightarrow> db \<Rightarrow> db" where
  "reserve_run fb [] d = d"
| "reserve_run fb (c # cs) d = reserve_run fb cs (snd (reserveLiquidity fb (rc_execution c)
      (rc_token c) (rc_amount c) (rc_fallback c) (rc_maxFreshness c) (rc_now c) (rc_newId c) d))"

lemma reserve_run_covered:
  "amounts_ok d \<Longrightarrow> covered token d \<Longrightarrow> covered token (reserve_run fb cs d)"
proof (induction cs arbitrary: d)
  case Nil
  then show ?case by simp
next
  case (Cons c cs)
  obtain r d' where r: "reserveLiquidity fb (rc_execution c) (rc_token c) (rc_amount c)
      (rc_fallback c) (rc_maxFreshness c) (rc_now c) (rc_newId c) d = (r, d')"
    by (metis surj_pair)
  with reserve_keeps_covered [OF r Cons.prems] Cons.IH show ?case by simp
qed


section \<open>Idempotency and the tie between reservation and swap rows\<close>

lemma owned_after_insert:
  assumes "\<forall>q \<in> set (liquidity_reservations d). rv_execution_id q \<noteq> rv_execution_id r"
    and "rv_status r = RS_RESERVED"
  shows "owned_reservation (rv_execution_id r)
      (d\<lparr>liquidity_reservations := liquidity_reservations d @ [r]\<rparr>) = Some r"
proof -
  have "sql_get (\<lambda>q. rv_execution_id q = rv_execution_id r) (liquidity_reservations d) = None"
    using assms(1) by (simp add: sql_get_None_iff)
  then show ?thesis using assms(2) by (simp add: owned_reservation_def sql_get_append)
qed

lemma transition_cases:
  assumes "transitionLiquidityReservation i from st now d = (r, d')"
  obtains (missing) "res_status d i = None" "r = Inl (ReservationNotFound i)" "d' = d"
  | (moved) x where "res_status d i = Some x" "x \<in> set from" "r = Inr ()"
      "d' = write_swap_reservation_status i st now (write_reservation_status i st now d)"
  | (again) "res_status d i = Some st" "st \<notin> set from" "r = Inr ()"
      "d' = write_swap_reservation_status i st now d"
  | (illegal) x where "res_status d i = Some x" "x \<notin> set from" "x \<noteq> st"
      "r = Inl (InvalidReservationStatus x)" "d' = d"
proof (cases "sql_get (\<lambda>r. rv_id r = i) (liquidity_reservations d)")
  case None
  with assms show ?thesis
    by (intro missing) (auto simp: transitionLiquidityReservation_def transaction_def res_status_def)
next
  case (Some row)
  then have x: "res_status d i = Some (rv_status row)" by (simp add: res_status_def)
  show ?thesis
  proof (cases "rv_status row \<in> set from")
    case True
    with assms Some x show ?thesis
      by (intro moved) (auto simp: transitionLiquidityReservation_def transaction_def)
  next
    case False
    with assms Some x show ?thesis
      by (cases "rv_status row = st")
         (auto simp: transitionLiquidityReservation_def transaction_def intro: again illegal)
  qed
qed

text \<open>The status columns agree: every swap that names a reservation row shows that row's status.\<close>

definition mirrors :: "string \<Rightarrow> db \<Rightarrow> bool" where
  "mirrors i d \<longleftrightarrow> (\<forall>s \<in> set (sovereign_swaps d).
     sw_reservation_id s = Some i \<longrightarrow> sw_reservation_status s = res_status d i)"

lemma swaps_write_swap:
  "sovereign_swaps (write_swap_reservation_status i st now d) =
     sql_update (\<lambda>s. sw_reservation_id s = Some i)
       (\<lambda>s. s\<lparr>sw_reservation_status := Some st, sw_updated_at := now\<rparr>) (sovereign_swaps d)"
  by (simp add: write_swap_reservation_status_def)

lemma mirrors_write_swap:
  "res_status d i = Some st \<Longrightarrow> mirrors i (write_swap_reservation_status i st now d)"
  unfolding mirrors_def res_status_write_swap swaps_write_swap ball_sql_update by simp

lemma mirrors_write_swap_other:
  "j \<noteq> i \<Longrightarrow> mirrors j (write_swap_reservation_status i st now d) = mirrors j d"
  unfolding mirrors_def res_status_write_swap swaps_write_swap ball_sql_update
  by (intro ball_cong refl) simp

lemma mirrors_write_reservation_other:
  "j \<noteq> i \<Longrightarrow> mirrors j (write_reservation_status i st now d) = mirrors j d"
  unfolding mirrors_def res_status_write by (simp add: write_reservation_status_def)


lemma transition_keeps_mirrors:
  assumes t: "transitionLiquidityReservation i from st now d = (r, d')" and m: "mirrors j d"
  shows "mirrors j d'"
  using t
proof (cases rule: transition_cases)
  case (moved x)
  then have "res_status (write_reservation_status i st now d) i = Some st"
    by (simp add: res_status_write)
  with moved m show ?thesis
    by (cases "j = i")
       (simp_all add: mirrors_write_swap mirrors_write_swap_other mirrors_write_reservation_other)
next
  case again
  with m show ?thesis
    by (cases "j = i") (simp_all add: mirrors_write_swap mirrors_write_swap_other)
qed (use m in simp_all)

lemmas ledger_call_defs =
  commitLiquidityReservation_def releaseLiquidityReservation_def
  restoreRefundLiquidityReservation_def settleLiquidityReservation_def

lemma call_keeps_mirrors:
  assumes "mirrors j d"
  shows "mirrors j (snd (commitLiquidityReservation i n d))"
    "mirrors j (snd (releaseLiquidityReservation i n d))"
    "mirrors j (snd (restoreRefundLiquidityReservation i n d))"
    "mirrors j (snd (settleLiquidityReservation i n d))"
  unfolding ledger_call_defs
  using assms transition_keeps_mirrors [OF surjective_pairing] by blast+

lemma run_keeps_mirrors:
  "mirrors j d \<Longrightarrow> mirrors j (ledger_run
      (\<lambda>n i d. snd (commitLiquidityReservation i n d))
      (\<lambda>n i d. snd (releaseLiquidityReservation i n d))
      (\<lambda>n i d. snd (restoreRefundLiquidityReservation i n d))
      (\<lambda>n i d. snd (settleLiquidityReservation i n d)) ops d)"
proof (induction ops arbitrary: d)
  case (Cons x ops)
  then show ?case by (cases x) (simp_all add: call_keeps_mirrors)
qed simp

section \<open>The combined commit-and-advance step\<close>

lemma get_swap_update:
  assumes "\<And>s. sw_id (f s) = sw_id s" "sql_get (\<lambda>s. sw_id s = i) ss = Some row"
  shows "sql_get (\<lambda>s. sw_id s = i) (sql_update (\<lambda>s. sw_id s = i) f ss) = Some (f row)"
proof -
  have "sql_get (\<lambda>s. sw_id s = i) (sql_update (\<lambda>s. sw_id s = i) f ss)
      = map_option (\<lambda>s. if sw_id s = i then f s else s) (sql_get (\<lambda>s. sw_id s = i) ss)"
    by (rule sql_get_update) (simp add: assms(1))
  with assms(2) show ?thesis by (auto dest: sql_get_Some)
qed

lemma write_reservation_frame [frame]:
  "sovereign_swaps (write_reservation_status i st n d) = sovereign_swaps d"
  "sovereign_swap_transitions (write_reservation_status i st n d) = sovereign_swap_transitions d"
  by (simp_all add: write_reservation_status_def)

lemma commit_advance_ok:
  assumes "commitReservationAndAdvanceSwapToFunded rid sid now d = (Inr u, d')"
  obtains res swap where
    "sql_get (\<lambda>r. rv_id r = rid) (liquidity_reservations d) = Some res" "rv_execution_id res = sid"
    "rv_status res \<in> {RS_RESERVED, RS_COMMITTED}"
    "sql_get (\<lambda>s. sw_id s = sid) (sovereign_swaps d) = Some swap" "sw_reservation_id swap = Some rid"
    "liquidity_reservations d' = liquidity_reservations
       (if rv_status res = RS_RESERVED then write_reservation_status rid RS_COMMITTED now d else d)"
    "sovereign_swaps d' = sql_update (\<lambda>s. sw_id s = sid)
        (\<lambda>s. s\<lparr>sw_reservation_status := Some RS_COMMITTED,
               sw_state := (if sw_state s = SA_EVM_FUNDING_PENDING then SA_EVM_FUNDED else sw_state s),
               sw_updated_at := now\<rparr>) (sovereign_swaps d)"
    "length (sovereign_swap_transitions d') = length (sovereign_swap_transitions d)
       + (if sw_state swap = SA_EVM_FUNDING_PENDING then 1 else 0)"
  using assms unfolding commitReservationAndAdvanceSwapToFunded_def transaction_ok
  by (auto simp: Let_def frame split: option.splits if_splits)


section \<open>Sample data\<close>

definition demo_swap :: "swap_state \<Rightarrow> swap_row" where
  "demo_swap st = \<lparr> sw_id = ''e1'', sw_idempotency_key = ''k1'', sw_hash_lock = ''h1'',
     sw_payment_hash = ''h1'', sw_state = st, sw_reservation_id = Some ''r1'',
     sw_reserved_amount_units = Some 5, sw_reservation_status = Some RS_RESERVED,
     sw_amount_sats = 1000, sw_expected_usdc_amount = 5, sw_claiming_address = ''0xc'',
     sw_target_destination_address = ''0xd'', sw_token_address = ''t'', sw_refund_address = ''0xr'',
     sw_cltv_expiry_blocks = 288, sw_timelock_seconds = 7200, sw_refund_locktime = None,
     sw_economic_fingerprint = ''f'', sw_bolt11 = None, sw_lightning_invoice_state = None,
     sw_lightning_held_at = None, sw_lightning_settled_at = None, sw_lightning_canceled_at = None,
     sw_lightning_expiry_height = None, sw_evm_swap_key = Some ''key1'', sw_evm_htlc_id = None,
     sw_evm_funding_tx_hash = None, sw_evm_claim_tx_hash = None, sw_evm_refund_tx_hash = None,
     sw_destination_tx_hash = None, sw_action_in_flight = None, sw_action_claimed_by = None,
     sw_action_claimed_at = None, sw_action_lease_expires_at = None, sw_action_generation = 0,
     sw_recovery_required = False, sw_failure_reason = None, sw_retry_count = 0,
     sw_fund_retry_count = 0, sw_settle_retry_count = 0, sw_refund_retry_count = 0,
     sw_cancel_retry_count = 0, sw_created_at = 0, sw_updated_at = 0 \<rparr>"

definition demo_snapshot :: snapshot_row where
  "demo_snapshot = \<lparr> sn_token_address = ''t'', sn_chain_id = 84532, sn_operator_address = ''o'',
     sn_wallet_balance_latest = 10, sn_wallet_balance_finalized = 10, sn_safe_wallet_capacity = 10,
     sn_latest_block_number = 2, sn_finalized_block_number = 1, sn_block_hash = None,
     sn_readiness_state = IR_READY, sn_observed_at = 0, sn_fresh_until = Some 60, sn_updated_at = 0 \<rparr>"

definition demo_funding_db :: db where
  "demo_funding_db = empty_db\<lparr>liquidity_reservations := [demo_reservation RS_RESERVED],
     sovereign_swaps := [demo_swap SA_EVM_FUNDING_PENDING],
     chain_inventory_snapshots := [demo_snapshot]\<rparr>"

lemma to_lower_t [simp]: "to_lower ''t'' = ''t''"
  by (simp add: to_lower_def char_lower_def)

lemmas demo_defs = demo_funding_db_def demo_snapshot_def demo_swap_def demo_reservation_def
  empty_db_def

lemma demo_obligations: "obligations ''t'' demo_funding_db = 5"
  by (simp add: obligations_def sum_reservations_def getUnresolvedFundingIntentsAmountInternal_def
      unresolved_fund_intents_def demo_defs)

lemma demo_covered: "covered ''t'' demo_funding_db" "amounts_ok demo_funding_db"
  unfolding covered_def demo_obligations
  by (simp_all add: safe_capacity_def amounts_ok_def demo_defs)

lemma demo_owned: "owned_reservation ''e1'' demo_funding_db = Some (demo_reservation RS_RESERVED)"
    "owned_reservation ''e2'' demo_funding_db = None"
  by (simp_all add: owned_reservation_def demo_defs)

text \<open>A second execution asks for the five units that are left.\<close>

lemma demo_grant:
  "reserveLiquidity False ''e2'' ''t'' 5 None None 1 ''r2'' demo_funding_db =
     (Inr (''r2'', True), demo_funding_db\<lparr>liquidity_reservations :=
        [demo_reservation RS_RESERVED, (demo_reservation RS_RESERVED)\<lparr>rv_id := ''r2'',
           rv_execution_id := ''e2'', rv_created_at := 1, rv_updated_at := 1\<rparr>]\<rparr>)"
proof -
  have "sql_get (\<lambda>r. sn_token_address r = ''t'') (chain_inventory_snapshots demo_funding_db)
      = Some demo_snapshot"
    by (simp add: demo_defs)
  moreover have "\<not> snapshot_stale demo_snapshot None 1" "sn_readiness_state demo_snapshot = IR_READY"
    "sn_safe_wallet_capacity demo_snapshot = 10"
    by (simp_all add: snapshot_stale_def demo_snapshot_def)
  ultimately have "reserve_capacity ''t'' False None 1 demo_funding_db = (Inr 5, demo_funding_db)"
    using demo_obligations by (simp add: reserve_capacity_def obligations_def Let_def)
  then show ?thesis
    by (simp add: reserveLiquidity_def demo_owned insert_reservation_def)
       (simp add: demo_defs)
qed

section \<open>Properties\<close>

text \<open>C18: No oversell. From a database whose obligations R + P of a token fit the safe wallet capacity W
  of its snapshot, no sequence of \<open>reserveLiquidity\<close> calls (any executions, tokens, amounts,
  flags, clocks and ids; each serialised by its immediate transaction) makes R + P exceed W.\<close>

theorem reserve_no_oversell:
  assumes "amounts_ok d" "covered token d"
  shows "covered token (reserve_run fallback calls d)"
  using assms by (rule reserve_run_covered)

definition demo_calls :: "reserve_call list" where
  "demo_calls = [\<lparr> rc_execution = ''e2'', rc_token = ''t'', rc_amount = 5, rc_fallback = None,
     rc_maxFreshness = None, rc_now = 1, rc_newId = ''r2'' \<rparr>]"

lemma reserve_no_oversell_witness: "covered ''t'' (reserve_run False demo_calls demo_funding_db)"
  by (rule reserve_no_oversell [OF demo_covered(2,1)])

text \<open>A granted new reservation is sound: the amount is positive, the row stored is the one
  requested, in status RESERVED, and, whenever the token has a chain snapshot, that snapshot is
  fresh and READY and its safe capacity covers the old obligations R + P plus the new amount.\<close>

theorem reserve_grant_sound:
  assumes "reserveLiquidity fb e t a allow mf now nid d = (Inr (rid, True), d')"
    and "owned_reservation e d = None"
  shows "rid = nid \<and> 0 < a \<and>
    getLiquidityReservationByExecutionId e d' = Some \<lparr> rv_id = nid, rv_execution_id = e,
        rv_token_address = to_lower t, rv_amount_units = a, rv_status = RS_RESERVED,
        rv_created_at = now, rv_updated_at = now \<rparr> \<and>
    (\<forall>sn. getLatestChainInventorySnapshot t d = Some sn \<longrightarrow>
       \<not> snapshot_stale sn mf now \<and> sn_readiness_state sn = IR_READY \<and>
       obligations (to_lower t) d + a \<le> sn_safe_wallet_capacity sn)"
  using assms(1)
proof (cases rule: reserve_cases)
  case owned
  with assms(2) show ?thesis by simp
next
  case (granted av)
  have "sql_get (\<lambda>r. rv_execution_id r = e) (liquidity_reservations d) = None"
    using granted(6) by (simp add: sql_get_None_iff)
  then show ?thesis
    using granted reserve_capacity_snapshot [OF granted(4)]
    by (auto simp: getLiquidityReservationByExecutionId_def getLatestChainInventorySnapshot_def
        sql_get_append)
next
  case refused
  then show ?thesis by simp
qed

lemma reserve_grant_sound_witness:
  "obligations ''t'' demo_funding_db + 5 \<le> sn_safe_wallet_capacity demo_snapshot"
proof -
  have "getLatestChainInventorySnapshot ''t'' demo_funding_db = Some demo_snapshot"
    by (simp add: getLatestChainInventorySnapshot_def demo_defs)
  then show ?thesis
    using reserve_grant_sound [OF demo_grant demo_owned(2)] by simp
qed

text \<open>Reserving is idempotent per execution: once an execution holds a RESERVED or COMMITTED
  reservation, every further call for it, whatever its token, positive amount, flags, clock and
  proposed id, returns that reservation and changes nothing; and right after a grant it does hold one.\<close>

theorem reserve_idempotent:
  assumes "reserveLiquidity fb e t a allow mf now nid d = (Inr (rid, True), d')" "0 < a2"
  shows "reserveLiquidity fb2 e t2 a2 allow2 mf2 now2 nid2 d' = (Inr (rid, True), d')"
proof -
  have "\<exists>res. owned_reservation e d' = Some res \<and> rv_id res = rid"
    using assms(1)
  proof (cases rule: reserve_cases)
    case (granted av)
    then show ?thesis
      using owned_after_insert [of d "\<lparr> rv_id = nid, rv_execution_id = e, rv_token_address = to_lower t,
          rv_amount_units = a, rv_status = RS_RESERVED, rv_created_at = now, rv_updated_at = now \<rparr>"]
      by simp
  qed auto
  with assms(2) show ?thesis by (auto simp: reserveLiquidity_def)
qed

lemma reserve_idempotent_witness:
  "fst (reserveLiquidity True ''e2'' ''u'' 900 None None 7 ''r9''
      (snd (reserveLiquidity False ''e2'' ''t'' 5 None None 1 ''r2'' demo_funding_db))) = Inr (''r2'', True)"
  using reserve_idempotent [OF demo_grant, of 900 True "''u''" None None 7 "''r9''"]
  by (simp add: demo_grant)

text \<open>The reservation status a swap row shows is the status of the reservation row it names, over any
  sequence of commit, release, restore and settle calls on any reservations.\<close>

theorem reservation_status_mirrored:
  assumes "\<And>j. mirrors j d"
  shows "mirrors j (ledger_run
      (\<lambda>n i d. snd (commitLiquidityReservation i n d))
      (\<lambda>n i d. snd (releaseLiquidityReservation i n d))
      (\<lambda>n i d. snd (restoreRefundLiquidityReservation i n d))
      (\<lambda>n i d. snd (settleLiquidityReservation i n d)) ops d)"
  using assms by (rule run_keeps_mirrors)

lemma demo_mirrors: "mirrors j demo_funding_db"
  by (simp add: mirrors_def res_status_def demo_defs)

lemma reservation_status_mirrored_witness:
  "mirrors ''r1'' (ledger_run
      (\<lambda>n i d. snd (commitLiquidityReservation i n d))
      (\<lambda>n i d. snd (releaseLiquidityReservation i n d))
      (\<lambda>n i d. snd (restoreRefundLiquidityReservation i n d))
      (\<lambda>n i d. snd (settleLiquidityReservation i n d)) [OpCommit 1 ''r1'', OpSettle 2 ''r1'']
      demo_funding_db)"
  by (rule reservation_status_mirrored) (rule demo_mirrors)

text \<open>C26: \<open>commitReservationAndAdvanceSwapToFunded\<close> is atomic: when it throws, the database is
  unchanged; when it returns, the reservation is COMMITTED, the swap that owns it says so and has
  left EVM_FUNDING_PENDING, and exactly one transition row was added if it was in that state, none
  otherwise.\<close>

theorem commit_advance_atomic:
  assumes "commitReservationAndAdvanceSwapToFunded rid sid now d = (r, d')"
  shows "case r of
     Inl e \<Rightarrow> d' = d
   | Inr _ \<Rightarrow> res_status d' rid = Some RS_COMMITTED \<and>
      (\<exists>old new. sql_get (\<lambda>s. sw_id s = sid) (sovereign_swaps d) = Some old \<and>
         sql_get (\<lambda>s. sw_id s = sid) (sovereign_swaps d') = Some new \<and>
         sw_reservation_id new = Some rid \<and> sw_reservation_status new = Some RS_COMMITTED \<and>
         sw_state new = (if sw_state old = SA_EVM_FUNDING_PENDING then SA_EVM_FUNDED else sw_state old) \<and>
         length (sovereign_swap_transitions d') = length (sovereign_swap_transitions d)
           + (if sw_state old = SA_EVM_FUNDING_PENDING then 1 else 0))"
proof (cases r)
  case (Inl e)
  then show ?thesis
    using assms transaction_error unfolding commitReservationAndAdvanceSwapToFunded_def by auto
next
  case (Inr u)
  with assms have "commitReservationAndAdvanceSwapToFunded rid sid now d = (Inr u, d')" by simp
  then obtain res swap where c:
    "sql_get (\<lambda>r. rv_id r = rid) (liquidity_reservations d) = Some res"
    "rv_status res \<in> {RS_RESERVED, RS_COMMITTED}"
    "sql_get (\<lambda>s. sw_id s = sid) (sovereign_swaps d) = Some swap" "sw_reservation_id swap = Some rid"
    "liquidity_reservations d' = liquidity_reservations
       (if rv_status res = RS_RESERVED then write_reservation_status rid RS_COMMITTED now d else d)"
    "sovereign_swaps d' = sql_update (\<lambda>s. sw_id s = sid)
        (\<lambda>s. s\<lparr>sw_reservation_status := Some RS_COMMITTED,
               sw_state := (if sw_state s = SA_EVM_FUNDING_PENDING then SA_EVM_FUNDED else sw_state s),
               sw_updated_at := now\<rparr>) (sovereign_swaps d)"
    "length (sovereign_swap_transitions d') = length (sovereign_swap_transitions d)
       + (if sw_state swap = SA_EVM_FUNDING_PENDING then 1 else 0)"
    by (rule commit_advance_ok)
  have "res_status d' rid = Some RS_COMMITTED"
    using c(1,2) res_status_write [of rid RS_COMMITTED now d rid]
    by (auto simp: res_status_def c(5) split: if_splits)
  with c Inr show ?thesis by (simp add: get_swap_update)
qed

lemma commit_advance_atomic_witness:
  "res_status (snd (commitReservationAndAdvanceSwapToFunded ''r1'' ''e1'' 9 demo_funding_db)) ''r1''
     = Some RS_COMMITTED"
proof -
  obtain r d' where e: "commitReservationAndAdvanceSwapToFunded ''r1'' ''e1'' 9 demo_funding_db = (r, d')"
    by (metis surj_pair)
  then have "is_ok r"
    by (auto simp: commitReservationAndAdvanceSwapToFunded_def transaction_def demo_defs
        write_reservation_status_def)
  then show ?thesis using commit_advance_atomic [OF e] e by (auto elim: is_ok_E)
qed

end
