(* ===== verification/Exec_Machine.thy ===== *)
theory Exec_Machine
  imports Domain
begin

text \<open>
  The execution state machine of the provider path: \<open>ExecutionStateMachine\<close> of \<open>src/src/state-machine/engine.ts\<close>.
  A run is a sequence of transitions that \<open>validateTransition\<close> accepts, starting from no
  state at all.
\<close>

fun LEGAL_TRANSITIONS :: "exec_state \<Rightarrow> exec_state list" where
  "LEGAL_TRANSITIONS ES_CREATED = [ES_QUOTING, ES_QUOTED, ES_FAILED]"
| "LEGAL_TRANSITIONS ES_QUOTING = [ES_QUOTED, ES_FAILED]"
| "LEGAL_TRANSITIONS ES_QUOTED = [ES_EXECUTION_PENDING, ES_QUOTING, ES_FAILED]"
| "LEGAL_TRANSITIONS ES_EXECUTION_PENDING = [ES_EXECUTING, ES_RECOVERY_REQUIRED]"
| "LEGAL_TRANSITIONS ES_EXECUTING =
     [ES_DEPOSIT_INSTRUCTION_READY, ES_RECOVERY_REQUIRED, ES_FAILED]"
| "LEGAL_TRANSITIONS ES_DEPOSIT_INSTRUCTION_READY =
     [ES_SOURCE_FUNDS_DETECTED, ES_SOURCE_FUNDS_CONFIRMED, ES_FAILED, ES_RECOVERY_REQUIRED]"
| "LEGAL_TRANSITIONS ES_SOURCE_FUNDS_DETECTED =
     [ES_SOURCE_FUNDS_CONFIRMED, ES_SWAP_IN_PROGRESS, ES_RECOVERY_REQUIRED]"
| "LEGAL_TRANSITIONS ES_SOURCE_FUNDS_CONFIRMED =
     [ES_SWAP_IN_PROGRESS, ES_DESTINATION_TX_DETECTED, ES_RECOVERY_REQUIRED]"
| "LEGAL_TRANSITIONS ES_SWAP_IN_PROGRESS = [ES_DESTINATION_TX_DETECTED, ES_RECOVERY_REQUIRED]"
| "LEGAL_TRANSITIONS ES_DESTINATION_TX_DETECTED = [ES_COMPLETED, ES_RECOVERY_REQUIRED]"
| "LEGAL_TRANSITIONS ES_RECOVERY_REQUIRED = [ES_RECOVERING]"
| "LEGAL_TRANSITIONS ES_RECOVERING =
     [ES_DEPOSIT_INSTRUCTION_READY, ES_SOURCE_FUNDS_DETECTED, ES_SOURCE_FUNDS_CONFIRMED,
      ES_SWAP_IN_PROGRESS, ES_DESTINATION_TX_DETECTED, ES_COMPLETED, ES_REFUNDED, ES_FAILED,
      ES_RECOVERY_REQUIRED, ES_MANUAL_REVIEW]"
| "LEGAL_TRANSITIONS ES_COMPLETED = []"
| "LEGAL_TRANSITIONS ES_FAILED = []"
| "LEGAL_TRANSITIONS ES_REFUNDED = []"
| "LEGAL_TRANSITIONS ES_MANUAL_REVIEW = []"

text \<open>\<open>IllegalStateTransitionError\<close>, one constructor per reason the code gives.\<close>

datatype transition_reason =
    InitialMustBeCreated | OutOfTerminal | NotPermitted | SourceFundsMoved | ZeroDepositNotConfirmed

datatype transition_error =
  IllegalStateTransitionError "exec_state option" exec_state transition_reason

definition haveSourceFundsMoved :: "exec_state \<Rightarrow> bool" where
  "haveSourceFundsMoved s \<longleftrightarrow> s \<in> set SOURCE_FUNDS_MOVED_STATES"

definition isTerminal :: "exec_state \<Rightarrow> bool" where
  "isTerminal s \<longleftrightarrow> s \<in> set TERMINAL_STATES"

definition haveDestinationFundsArrived :: "exec_state \<Rightarrow> bool" where
  "haveDestinationFundsArrived s \<longleftrightarrow> s = ES_COMPLETED"

text \<open>The option \<open>zeroDepositConfirmed\<close> is undefined by default, hence falsy.\<close>

definition validateTransition ::
  "exec_state option \<Rightarrow> exec_state \<Rightarrow> bool option \<Rightarrow> transition_error + unit" where
  "validateTransition fromState toState zeroDepositConfirmed =
    (case fromState of
       None \<Rightarrow>
         if toState \<noteq> ES_CREATED
         then Inl (IllegalStateTransitionError fromState toState InitialMustBeCreated)
         else Inr ()
     | Some from \<Rightarrow>
         if from \<in> set TERMINAL_STATES
         then Inl (IllegalStateTransitionError fromState toState OutOfTerminal)
         else if toState \<notin> set (LEGAL_TRANSITIONS from)
         then Inl (IllegalStateTransitionError fromState toState NotPermitted)
         else if toState = ES_FAILED \<and> haveSourceFundsMoved from
         then Inl (IllegalStateTransitionError fromState toState SourceFundsMoved)
         else if toState = ES_FAILED \<and> from = ES_DEPOSIT_INSTRUCTION_READY
                 \<and> zeroDepositConfirmed \<noteq> Some True
         then Inl (IllegalStateTransitionError fromState toState ZeroDepositNotConfirmed)
         else Inr ())"

definition canSafelyFail :: "exec_state \<Rightarrow> bool \<Rightarrow> bool \<Rightarrow> bool" where
  "canSafelyFail fromState sourceFundsMoved zeroDepositConfirmed =
    (if sourceFundsMoved then False
     else if fromState = ES_DEPOSIT_INSTRUCTION_READY \<and> \<not> zeroDepositConfirmed then False
     else if haveSourceFundsMoved fromState then False
     else True)"

definition isDestinationSettlementEvidenced :: "destination_evidence option \<Rightarrow> bool" where
  "isDestinationSettlementEvidenced evidence =
    (case evidence of None \<Rightarrow> False
     | Some ev \<Rightarrow>
         if \<not> de_verifiedOnChain ev then False
         else if de_onChainStatus ev \<noteq> OC_CONFIRMED then False
         else if de_evidenceSource ev \<noteq> BASE_RPC then False
         else True)"

section \<open>Single transitions\<close>

lemma exec_states_complete: "s \<in> set exec_states"
  by (cases s) (simp_all add: exec_states_def)

lemmas exec_state_sets =
  TERMINAL_STATES_def AMBIGUOUS_STATES_def SOURCE_FUNDS_MOVED_STATES_def
  haveSourceFundsMoved_def isTerminal_def

lemma validate_ok_from:
  "validateTransition (Some s) t z = Inr () \<longleftrightarrow>
     \<not> isTerminal s \<and> t \<in> set (LEGAL_TRANSITIONS s) \<and>
     (t = ES_FAILED \<longrightarrow> \<not> haveSourceFundsMoved s \<and>
        (s = ES_DEPOSIT_INSTRUCTION_READY \<longrightarrow> z = Some True))"
  by (auto simp: validateTransition_def isTerminal_def)

lemma validate_ok_initial: "validateTransition None t z = Inr () \<longleftrightarrow> t = ES_CREATED"
  by (simp add: validateTransition_def)

text \<open>The run-time check on \<open>FAILED\<close> after moved funds is already implied by the graph.\<close>

lemma failed_not_legal_after_moved:
  "haveSourceFundsMoved s \<Longrightarrow> ES_FAILED \<notin> set (LEGAL_TRANSITIONS s)"
  by (cases s) (auto simp: exec_state_sets)

lemma terminal_iff_no_successor: "isTerminal s \<longleftrightarrow> LEGAL_TRANSITIONS s = []"
  by (cases s) (simp_all add: exec_state_sets)

section \<open>Runs\<close>

text \<open>One accepted transition, and the states a run can be in.\<close>

inductive exec_step :: "exec_state option \<Rightarrow> exec_state option \<Rightarrow> bool" where
  "validateTransition s t z = Inr () \<Longrightarrow> exec_step s (Some t)"

inductive_cases exec_step_E: "exec_step s t"
inductive_simps exec_step_iff: "exec_step s (Some t)"

text \<open>A run is the list of the states entered, with the option each transition passed.\<close>

fun exec_run :: "exec_state option \<Rightarrow> (exec_state \<times> bool option) list \<Rightarrow> bool" where
  "exec_run s [] \<longleftrightarrow> True"
| "exec_run s ((t, z) # ts) \<longleftrightarrow> is_ok (validateTransition s t z) \<and> exec_run (Some t) ts"

fun run_end :: "exec_state option \<Rightarrow> (exec_state \<times> bool option) list \<Rightarrow> exec_state option" where
  "run_end s [] = s"
| "run_end s ((t, z) # ts) = run_end (Some t) ts"

lemma is_ok_unit: "is_ok (r :: 'e + unit) \<longleftrightarrow> r = Inr ()"
  by (cases r) auto

lemma exec_run_append:
  "exec_run s (xs @ ys) \<longleftrightarrow> exec_run s xs \<and> exec_run (run_end s xs) ys"
  by (induction s xs rule: exec_run.induct) auto

lemma run_end_append: "run_end s (xs @ ys) = run_end (run_end s xs) ys"
  by (induction s xs rule: run_end.induct) auto

lemma run_from_terminal: "isTerminal s \<Longrightarrow> exec_run (Some s) ts \<Longrightarrow> ts = []"
  by (cases ts) (auto simp: is_ok_unit validate_ok_from)

text \<open>
  States a run can no longer reach, as a set closed under accepted transitions, stay
  unreachable along the whole run.
\<close>

lemma exec_run_invariant:
  assumes "exec_run (Some s) ts" and "P s"
    and "\<And>a b z. P a \<Longrightarrow> validateTransition (Some a) b z = Inr () \<Longrightarrow> P b"
  shows "\<forall>t z. (t, z) \<in> set ts \<longrightarrow> P t"
  using assms(1,2)
proof (induction ts arbitrary: s)
  case Nil
  then show ?case by simp
next
  case (Cons x ts)
  obtain t z where x: "x = (t, z)" by (cases x)
  from Cons.prems have v: "validateTransition (Some s) t z = Inr ()" and r: "exec_run (Some t) ts"
    by (simp_all add: x is_ok_unit)
  from v Cons.prems(2) have "P t" by (rule assms(3)[rotated])
  with Cons.IH[OF r] show ?case by (auto simp: x)
qed


section \<open>Reachability facts over accepted runs\<close>

lemma run_end_in: "run_end s xs = Some t \<Longrightarrow> xs \<noteq> [] \<Longrightarrow> \<exists>z. (t, z) \<in> set xs"
proof (induction s xs rule: run_end.induct)
  case (2 s t' z ts)
  then show ?case by (cases ts) auto
qed simp

lemma exec_run_last:
  "exec_run s (xs @ [(t, z)]) \<longleftrightarrow> exec_run s xs \<and> validateTransition (run_end s xs) t z = Inr ()"
  by (simp add: exec_run_append is_ok_unit)

text \<open>The phase after dispatch: no state before \<open>DEPOSIT_INSTRUCTION_READY\<close> is entered again.\<close>

definition after_dispatch :: "exec_state \<Rightarrow> bool" where
  "after_dispatch s \<longleftrightarrow>
     s \<notin> {ES_CREATED, ES_QUOTING, ES_QUOTED, ES_EXECUTION_PENDING, ES_EXECUTING}"

lemma after_dispatch_step:
  "after_dispatch s \<Longrightarrow> validateTransition (Some s) t z = Inr () \<Longrightarrow> after_dispatch t"
  by (cases s) (auto simp: after_dispatch_def validate_ok_from)

lemma run_end_invariant:
  assumes "exec_run (Some s) ts" "P s"
    and step: "\<And>a b z. P a \<Longrightarrow> validateTransition (Some a) b z = Inr () \<Longrightarrow> P b"
  shows "\<exists>e. run_end (Some s) ts = Some e \<and> P e"
  using assms(1,2)
proof (induction ts arbitrary: s)
  case (Cons x ts)
  obtain t z where x: "x = (t, z)" by (cases x)
  from Cons.prems(1) have v: "validateTransition (Some s) t z = Inr ()" "exec_run (Some t) ts"
    by (simp_all add: x is_ok_unit)
  with Cons.IH [OF v(2) step [OF Cons.prems(2) v(1)]] show ?case by (simp add: x)
qed simp

lemma after_dispatch_end:
  assumes "exec_run s xs" "(m, w) \<in> set xs" "after_dispatch m"
  shows "\<exists>e. run_end s xs = Some e \<and> after_dispatch e"
proof -
  obtain as bs where xs: "xs = as @ (m, w) # bs" using assms(2) by (auto simp: in_set_conv_decomp)
  have "exec_run (Some m) bs" using assms(1) by (simp add: xs exec_run_append)
  from run_end_invariant [of m bs after_dispatch, OF this assms(3)] after_dispatch_step
  obtain e where "run_end (Some m) bs = Some e" "after_dispatch e" by blast
  moreover have "run_end s xs = run_end (Some m) bs"
    by (simp add: xs run_end_append)
  ultimately show ?thesis by simp
qed

text \<open>A run that never entered \<open>EXECUTION_PENDING\<close> is still in the quoting phase or has failed.\<close>

lemma dispatch_on_path:
  assumes "exec_run None xs" "run_end None xs = Some e"
    and "e \<notin> {ES_CREATED, ES_QUOTING, ES_QUOTED, ES_FAILED}"
  shows "\<exists>w. (ES_EXECUTION_PENDING, w) \<in> set xs"
  using assms
proof (induction xs arbitrary: e rule: rev_induct)
  case (snoc x xs)
  obtain t z where x: "x = (t, z)" by (cases x)
  have r: "exec_run None xs" and v: "validateTransition (run_end None xs) t z = Inr ()"
    using snoc.prems(1) by (simp_all add: x exec_run_last)
  have t: "t = e" using snoc.prems(2) by (simp add: x run_end_append)
  show ?case
  proof (cases "run_end None xs")
    case None
    then show ?thesis using v t snoc.prems(3) by (simp add: validate_ok_initial)
  next
    case (Some f)
    show ?thesis
    proof (cases "f \<in> {ES_CREATED, ES_QUOTING, ES_QUOTED, ES_FAILED}")
      case True
      with v Some t snoc.prems(3) have "t = ES_EXECUTION_PENDING"
        by (auto simp: validate_ok_from isTerminal_def TERMINAL_STATES_def)
      then show ?thesis by (auto simp: x)
    next
      case False
      with snoc.IH [OF r Some] show ?thesis by auto
    qed
  qed
qed simp

lemma fail_sources:
  "validateTransition (Some s) ES_FAILED z = Inr () \<longleftrightarrow>
     s \<in> {ES_CREATED, ES_QUOTING, ES_QUOTED, ES_EXECUTING, ES_RECOVERING} \<or>
     s = ES_DEPOSIT_INSTRUCTION_READY \<and> z = Some True"
  by (cases s) (auto simp: validate_ok_from exec_state_sets)

text \<open>A path from each state to a terminal one.\<close>

fun exit_path :: "exec_state \<Rightarrow> (exec_state \<times> bool option) list" where
  "exit_path ES_CREATED = [(ES_FAILED, None)]"
| "exit_path ES_QUOTING = [(ES_FAILED, None)]"
| "exit_path ES_QUOTED = [(ES_FAILED, None)]"
| "exit_path ES_RECOVERING = [(ES_MANUAL_REVIEW, None)]"
| "exit_path ES_RECOVERY_REQUIRED = [(ES_RECOVERING, None), (ES_MANUAL_REVIEW, None)]"
| "exit_path s = (if isTerminal s then [] else
     [(ES_RECOVERY_REQUIRED, None), (ES_RECOVERING, None), (ES_MANUAL_REVIEW, None)])"

lemma exit_path_ok:
  "exec_run (Some s) (exit_path s) \<and> (\<exists>t. run_end (Some s) (exit_path s) = Some t \<and> isTerminal t)"
  by (cases s) (simp_all add: is_ok_unit validate_ok_from exec_state_sets)

section \<open>Properties\<close>

text \<open>Terminal states are absorbing along whole runs: when some prefix of an accepted run ends in
  COMPLETED, FAILED, REFUNDED or MANUAL_REVIEW, the run ends there.\<close>

theorem exec_terminal_absorbing:
  assumes "exec_run s (xs @ ys)" "run_end s xs = Some t" "isTerminal t"
  shows "ys = []"
  using assms run_from_terminal by (simp add: exec_run_append)

lemma exec_terminal_absorbing_witness:
  "\<exists>ys. exec_run None ([(ES_CREATED, None), (ES_FAILED, None)] @ ys) \<and> ys = []"
proof -
  have "([] :: (exec_state \<times> bool option) list) = []"
    by (rule exec_terminal_absorbing [where s = None and
          xs = "[(ES_CREATED, None), (ES_FAILED, None)]" and t = ES_FAILED])
       (simp_all add: is_ok_unit validateTransition_def exec_state_sets)
  then show ?thesis by (simp add: is_ok_unit validateTransition_def exec_state_sets)
qed

text \<open>C39: No execution is stuck: from every state, accepted transitions lead to a terminal state.\<close>

theorem exec_never_stuck:
  "\<exists>ts t. exec_run (Some s) ts \<and> run_end (Some s) ts = Some t \<and> isTerminal t"
  using exit_path_ok [of s] by blast

text \<open>Once source funds have moved, an accepted run enters FAILED only from RECOVERING, or from
  DEPOSIT_INSTRUCTION_READY with a certified zero deposit; never directly.\<close>

theorem failed_after_moved_funds:
  assumes "exec_run None (xs @ [(ES_FAILED, z)])" "(m, w) \<in> set xs" "haveSourceFundsMoved m"
  shows "run_end None xs = Some ES_RECOVERING \<or>
         run_end None xs = Some ES_DEPOSIT_INSTRUCTION_READY \<and> z = Some True"
proof -
  have r: "exec_run None xs" and v: "validateTransition (run_end None xs) ES_FAILED z = Inr ()"
    using assms(1) by (simp_all add: exec_run_last)
  have "after_dispatch m"
    using assms(3) by (cases m) (simp_all add: after_dispatch_def exec_state_sets)
  then obtain e where "run_end None xs = Some e" "after_dispatch e"
    using after_dispatch_end [OF r assms(2)] by blast
  with v show ?thesis by (auto simp: fail_sources after_dispatch_def)
qed

lemma failed_after_moved_funds_witness:
  "let xs = map (\<lambda>s. (s, None)) [ES_CREATED, ES_QUOTED, ES_EXECUTION_PENDING, ES_EXECUTING,
       ES_DEPOSIT_INSTRUCTION_READY, ES_SOURCE_FUNDS_CONFIRMED, ES_RECOVERY_REQUIRED, ES_RECOVERING]
   in exec_run None (xs @ [(ES_FAILED, None)]) \<and>
      (run_end None xs = Some ES_RECOVERING \<or>
       run_end None xs = Some ES_DEPOSIT_INSTRUCTION_READY \<and> (None :: bool option) = Some True)"
proof -
  define xs :: "(exec_state \<times> bool option) list" where
    "xs = map (\<lambda>s. (s, None)) [ES_CREATED, ES_QUOTED, ES_EXECUTION_PENDING, ES_EXECUTING,
       ES_DEPOSIT_INSTRUCTION_READY, ES_SOURCE_FUNDS_CONFIRMED, ES_RECOVERY_REQUIRED, ES_RECOVERING]"
  have r: "exec_run None (xs @ [(ES_FAILED, None)])"
    by (simp add: xs_def is_ok_unit validateTransition_def exec_state_sets)
  have "run_end None xs = Some ES_RECOVERING \<or>
       run_end None xs = Some ES_DEPOSIT_INSTRUCTION_READY \<and> (None :: bool option) = Some True"
    by (rule failed_after_moved_funds [OF r, of ES_SOURCE_FUNDS_CONFIRMED None])
       (simp_all add: xs_def exec_state_sets)
  with r show ?thesis by (simp only: xs_def Let_def simp_thms)
qed

text \<open>COMPLETED is only ever entered by a run that dispatched the provider order, and directly
  from DESTINATION_TX_DETECTED or RECOVERING.\<close>

theorem completed_only_after_dispatch:
  assumes "exec_run None (xs @ [(ES_COMPLETED, z)])"
  shows "run_end None xs \<in> {Some ES_DESTINATION_TX_DETECTED, Some ES_RECOVERING}
         \<and> (\<exists>w. (ES_EXECUTION_PENDING, w) \<in> set xs)"
proof -
  have r: "exec_run None xs" and v: "validateTransition (run_end None xs) ES_COMPLETED z = Inr ()"
    using assms by (simp_all add: exec_run_last)
  obtain e where e: "run_end None xs = Some e"
    using v by (cases "run_end None xs") (simp_all add: validate_ok_initial)
  with v have e2: "e \<in> {ES_DESTINATION_TX_DETECTED, ES_RECOVERING}"
    by (cases e) (simp_all add: validate_ok_from)
  from e2 have ne: "e \<notin> {ES_CREATED, ES_QUOTING, ES_QUOTED, ES_FAILED}" by auto
  have "\<exists>w. (ES_EXECUTION_PENDING, w) \<in> set xs"
    using dispatch_on_path [OF r e ne] .
  with e e2 show ?thesis by auto
qed

lemma completed_only_after_dispatch_witness:
  "let xs = map (\<lambda>s. (s, None)) [ES_CREATED, ES_QUOTED, ES_EXECUTION_PENDING, ES_EXECUTING,
       ES_DEPOSIT_INSTRUCTION_READY, ES_SOURCE_FUNDS_CONFIRMED, ES_DESTINATION_TX_DETECTED]
   in run_end None xs \<in> {Some ES_DESTINATION_TX_DETECTED, Some ES_RECOVERING}"
  unfolding Let_def
  by (rule conjunct1 [OF completed_only_after_dispatch [where z = None]])
     (simp add: is_ok_unit validateTransition_def exec_state_sets)

end
