(* ===== verification/Exec_Store.thy ===== *)
theory Exec_Store
  imports Tables Exec_Machine
begin

text \<open>
  The provider-execution part of \<open>SqlitePersistence\<close> (\<open>src/src/persistence/sqlite.ts\<close>, from
  \<open>findByIdempotencyKey\<close> to \<open>getTransitions\<close>): executions, their audit trail, the provider
  request journal and the dispatch claims. A synchronous method is one step on the database.
  \<open>createExecution\<close> reads the database before it opens its transaction, so it takes what
  other processes write in between as an argument (\<open>others\<close>).
\<close>

section \<open>Reading\<close>

definition mapRowToExecution :: "execution_row \<Rightarrow> execution_row" where
  "mapRowToExecution row = row\<lparr>
     ex_provider_id := truthy_str (ex_provider_id row),
     ex_provider_execution_id := truthy_str (ex_provider_execution_id row),
     ex_order_token := truthy_str (ex_order_token row),
     ex_deposit_address := truthy_str (ex_deposit_address row),
     ex_failure_reason := truthy_str (ex_failure_reason row) \<rparr>"

definition findByIdempotencyKey :: "string \<Rightarrow> db \<Rightarrow> execution_row option" where
  "findByIdempotencyKey k d =
     map_option mapRowToExecution (sql_get (\<lambda>r. ex_idempotency_key r = k) (executions d))"

definition findById :: "string \<Rightarrow> db \<Rightarrow> execution_row option" where
  "findById i d = map_option mapRowToExecution (sql_get (\<lambda>r. ex_id r = i) (executions d))"

definition findByStates :: "exec_state list \<Rightarrow> db \<Rightarrow> execution_row list" where
  "findByStates states d =
    (if states = [] then []
     else map mapRowToExecution (sort_key ex_created_at
            (filter (\<lambda>r. ex_state r \<in> set states) (executions d))))"

definition getProviderRequests :: "string \<Rightarrow> db \<Rightarrow> journal_row list" where
  "getProviderRequests executionId d =
     map (\<lambda>r. r\<lparr>jr_provider_execution_id := truthy_str (jr_provider_execution_id r),
                jr_error_message := truthy_str (jr_error_message r)\<rparr>)
       (sort_key jr_request_started_at
         (filter (\<lambda>r. jr_execution_id r = executionId) (provider_request_journal d)))"

definition getDispatchClaim :: "string \<Rightarrow> db \<Rightarrow> claim_row option" where
  "getDispatchClaim executionId d =
     sql_get (\<lambda>r. dc_execution_id r = executionId) (provider_dispatch_claims d)"

definition getTransitions :: "string \<Rightarrow> db \<Rightarrow> exec_transition_row list" where
  "getTransitions executionId d =
     sort_key et_created_at (filter (\<lambda>r. et_execution_id r = executionId) (state_transitions d))"

section \<open>Creating an execution\<close>

definition insert_execution :: "execution_row \<Rightarrow> db \<Rightarrow> (db_error + unit) \<times> db" where
  "insert_execution row d =
    (if \<exists>r \<in> set (executions d). ex_id r = ex_id row \<or> ex_idempotency_key r = ex_idempotency_key row
     then (Inl UniqueConstraintFailed, d)
     else (Inr (), d\<lparr>executions := executions d @ [row]\<rparr>))"

definition insert_exec_transition :: "exec_transition_row \<Rightarrow> db \<Rightarrow> db" where
  "insert_exec_transition row d = d\<lparr>state_transitions := state_transitions d @ [row]\<rparr>"

definition new_execution ::
  "string \<Rightarrow> string \<Rightarrow> normalized_intent \<Rightarrow> execution_plan option \<Rightarrow> int \<Rightarrow> execution_row" where
  "new_execution executionId idempotencyKey intent plan now =
     \<lparr> ex_id = executionId, ex_idempotency_key = idempotencyKey, ex_state = ES_CREATED,
       ex_intent = intent, ex_quote = None, ex_provider_id = None, ex_provider_execution_id = None,
       ex_order_token = None, ex_deposit_address = None, ex_source_evidence = None,
       ex_destination_evidence = None, ex_source_funds_moved = False,
       ex_destination_funds_arrived = False, ex_failure_reason = None, ex_recovery_attempts = 0,
       ex_plan = plan, ex_created_at = now, ex_updated_at = now \<rparr>"

text \<open>The answer when the key is already in use.\<close>

definition reuse_execution :: "execution_row \<Rightarrow> normalized_intent \<Rightarrow> db_error + execution_row" where
  "reuse_execution existing intent =
    (if \<not> areIntentsSemanticallyEqual (ex_intent existing) intent
     then Inl (RouterErr IDEMPOTENCY_CONFLICT) else Inr existing)"

definition createExecution_tx ::
  "string \<Rightarrow> normalized_intent \<Rightarrow> execution_plan option \<Rightarrow> int \<Rightarrow> string \<Rightarrow> db
   \<Rightarrow> (db_error + execution_row) \<times> db" where
  "createExecution_tx idempotencyKey intent plan now executionId d =
    (case findByIdempotencyKey idempotencyKey d of
       Some raceExisting \<Rightarrow> (reuse_execution raceExisting intent, d)
     | None \<Rightarrow>
         (case insert_execution (new_execution executionId idempotencyKey intent plan now) d of
            (Inl e, _) \<Rightarrow>
              ((case findByIdempotencyKey idempotencyKey d of
                  Some raceExisting \<Rightarrow> reuse_execution raceExisting intent
                | None \<Rightarrow> Inl e), d)
          | (Inr _, d1) \<Rightarrow>
              let d2 = insert_exec_transition
                   \<lparr> et_execution_id = executionId, et_from_state = None, et_to_state = ES_CREATED,
                     et_reason = ''Intent normalized and execution created'',
                     et_trigger = ''API'', et_created_at = now \<rparr> d1
              in (case findById executionId d2 of
                    Some r \<Rightarrow> Inr r
                  | None \<Rightarrow> Inl (ExecutionNotFound executionId), d2)))"

definition createExecution ::
  "(db \<Rightarrow> db) \<Rightarrow> string \<Rightarrow> normalized_intent \<Rightarrow> execution_plan option \<Rightarrow> int \<Rightarrow> string \<Rightarrow> db
   \<Rightarrow> (db_error + execution_row) \<times> db" where
  "createExecution others idempotencyKey intent plan now executionId d =
    (case findByIdempotencyKey idempotencyKey d of
       Some existing \<Rightarrow> (reuse_execution existing intent, d)
     | None \<Rightarrow> createExecution_tx idempotencyKey intent plan now executionId (others d))"

section \<open>Moving an execution\<close>

text \<open>
  \<open>Partial<ExecutionRecord>\<close>: \<open>None\<close> is undefined; for a nullable column \<open>Some None\<close> is null.
\<close>

record exec_updates =
  xu_selectedQuote :: "normalized_quote option option"
  xu_providerId :: "string option option"
  xu_providerExecutionId :: "string option option"
  xu_orderToken :: "string option option"
  xu_depositAddress :: "string option option"
  xu_sourceEvidence :: "source_evidence option option"
  xu_destinationEvidence :: "destination_evidence option option"
  xu_sourceFundsMoved :: "bool option"
  xu_destinationFundsArrived :: "bool option"
  xu_plan :: "execution_plan option option"
  xu_failureReason :: "string option option"
  xu_recoveryAttempts :: "int option"

definition no_exec_updates :: exec_updates where
  "no_exec_updates = \<lparr> xu_selectedQuote = None, xu_providerId = None, xu_providerExecutionId = None,
     xu_orderToken = None, xu_depositAddress = None, xu_sourceEvidence = None,
     xu_destinationEvidence = None, xu_sourceFundsMoved = None, xu_destinationFundsArrived = None,
     xu_plan = None, xu_failureReason = None, xu_recoveryAttempts = None \<rparr>"

definition apply_exec_updates :: "exec_state \<Rightarrow> int \<Rightarrow> exec_updates \<Rightarrow> execution_row \<Rightarrow> execution_row" where
  "apply_exec_updates toState now u row = row\<lparr>
     ex_state := toState,
     ex_updated_at := now,
     ex_quote := coalesce (xu_selectedQuote u) (ex_quote row),
     ex_provider_id := coalesce (xu_providerId u) (ex_provider_id row),
     ex_provider_execution_id := coalesce (xu_providerExecutionId u) (ex_provider_execution_id row),
     ex_order_token := coalesce (xu_orderToken u) (ex_order_token row),
     ex_deposit_address := coalesce (xu_depositAddress u) (ex_deposit_address row),
     ex_source_evidence := coalesce (xu_sourceEvidence u) (ex_source_evidence row),
     ex_destination_evidence := coalesce (xu_destinationEvidence u) (ex_destination_evidence row),
     ex_source_funds_moved := coalesce (xu_sourceFundsMoved u) (ex_source_funds_moved row),
     ex_destination_funds_arrived := coalesce (xu_destinationFundsArrived u) (ex_destination_funds_arrived row),
     ex_plan := coalesce (xu_plan u) (ex_plan row),
     ex_failure_reason := coalesce (xu_failureReason u) (ex_failure_reason row),
     ex_recovery_attempts := coalesce (xu_recoveryAttempts u) (ex_recovery_attempts row) \<rparr>"

text \<open>The store does not validate the transition; its caller does.\<close>

definition transitionState ::
  "string \<Rightarrow> exec_state \<Rightarrow> string \<Rightarrow> string \<Rightarrow> exec_updates \<Rightarrow> int \<Rightarrow> db
   \<Rightarrow> (db_error + execution_row) \<times> db" where
  "transitionState executionId toState reason trigger partialUpdates now d =
    (case findById executionId d of
       None \<Rightarrow> (Inl (ExecutionNotFound executionId), d)
     | Some current \<Rightarrow>
         let d1 = insert_exec_transition
               \<lparr> et_execution_id = executionId, et_from_state = Some (ex_state current),
                 et_to_state = toState, et_reason = reason, et_trigger = trigger,
                 et_created_at = now \<rparr> d;
             d2 = d1\<lparr>executions := sql_update (\<lambda>r. ex_id r = executionId)
                    (apply_exec_updates toState now partialUpdates) (executions d1)\<rparr>
         in (case findById executionId d2 of
               Some r \<Rightarrow> Inr r
             | None \<Rightarrow> Inl (ExecutionNotFound executionId), d2))"

section \<open>The provider request journal\<close>

definition insert_journal :: "journal_row \<Rightarrow> db \<Rightarrow> (db_error + unit) \<times> db" where
  "insert_journal entry d =
    (if \<exists>r \<in> set (provider_request_journal d). jr_id r = jr_id entry
     then (Inl UniqueConstraintFailed, d)
     else if sql_get (\<lambda>r. ex_id r = jr_execution_id entry) (executions d) = None
     then (Inl ForeignKeyConstraintFailed, d)
     else (Inr (), d\<lparr>provider_request_journal := provider_request_journal d @ [entry]\<rparr>))"

definition logProviderRequest :: "journal_row \<Rightarrow> db \<Rightarrow> (db_error + unit) \<times> db" where
  "logProviderRequest entry d = insert_journal entry d"

record journal_updates =
  ju_requestCompletedAt :: "int option"
  ju_providerExecutionId :: "string option"
  ju_resultClassification :: "result_classification option"
  ju_responsePersisted :: "bool option"
  ju_errorMessage :: "string option"

definition updateProviderRequest :: "string \<Rightarrow> journal_updates \<Rightarrow> db \<Rightarrow> db" where
  "updateProviderRequest i u d = d\<lparr>provider_request_journal :=
     sql_update (\<lambda>r. jr_id r = i)
       (\<lambda>r. r\<lparr>
          jr_request_completed_at :=
            (case ju_requestCompletedAt u of None \<Rightarrow> jr_request_completed_at r | v \<Rightarrow> v),
          jr_provider_execution_id :=
            (case ju_providerExecutionId u of None \<Rightarrow> jr_provider_execution_id r | v \<Rightarrow> v),
          jr_result_classification := coalesce (ju_resultClassification u) (jr_result_classification r),
          jr_response_persisted := coalesce (ju_responsePersisted u) (jr_response_persisted r),
          jr_error_message := (case ju_errorMessage u of None \<Rightarrow> jr_error_message r | v \<Rightarrow> v)\<rparr>)
       (provider_request_journal d)\<rparr>"

section \<open>Dispatch claims\<close>

definition insert_claim :: "claim_row \<Rightarrow> db \<Rightarrow> db" where
  "insert_claim c d = d\<lparr>provider_dispatch_claims := provider_dispatch_claims d @ [c]\<rparr>"

text \<open>
  Every failure, a clash of journal ids included, rolls back and answers false.
\<close>

definition acquireDispatchClaim ::
  "string \<Rightarrow> string \<Rightarrow> string \<Rightarrow> string \<Rightarrow> int \<Rightarrow> int \<Rightarrow> db \<Rightarrow> bool \<times> db" where
  "acquireDispatchClaim executionId operation journalId providerId startTime now d =
    (case getDispatchClaim executionId d of
       Some _ \<Rightarrow> (False, d)
     | None \<Rightarrow>
         (case sql_get (\<lambda>r. ex_id r = executionId) (executions d) of
            None \<Rightarrow> (False, d)
          | Some row \<Rightarrow>
              if ex_state row \<noteq> ES_EXECUTION_PENDING then (False, d)
              else
                let d1 = insert_claim \<lparr> dc_execution_id = executionId, dc_operation = operation,
                           dc_journal_id = journalId, dc_claimed_at = now \<rparr> d
                in (case insert_journal
                        \<lparr> jr_id = journalId, jr_execution_id = executionId, jr_provider_id = providerId,
                          jr_operation = operation, jr_attempt_number = 1,
                          jr_request_started_at = startTime, jr_request_completed_at = None,
                          jr_provider_execution_id = None,
                          jr_result_classification = RC_AMBIGUOUS_TIMEOUT,
                          jr_response_persisted = False, jr_error_message = None,
                          jr_created_at = startTime \<rparr> d1 of
                      (Inl _, _) \<Rightarrow> (False, d)
                    | (Inr _, d2) \<Rightarrow>
                        let claimable = (\<lambda>r. ex_id r = executionId \<and> ex_state r = ES_EXECUTION_PENDING);
                            changes = sql_changes claimable (executions d2);
                            d3 = d2\<lparr>executions := sql_update claimable
                                   (\<lambda>r. r\<lparr>ex_state := ES_EXECUTING, ex_updated_at := now\<rparr>)
                                   (executions d2)\<rparr>
                        in if changes = 0 then (False, d)
                           else (True, insert_exec_transition
                               \<lparr> et_execution_id = executionId,
                                 et_from_state = Some ES_EXECUTION_PENDING,
                                 et_to_state = ES_EXECUTING,
                                 et_reason = ''Durable dispatch claim acquired; dispatching to provider'',
                                 et_trigger = ''API'', et_created_at = now \<rparr> d3))))"

end
