(* ===== verification/Exec_Laws.thy ===== *)
theory Exec_Laws
  imports Exec_Store
begin

text \<open>
  What the provider-execution store guarantees over any sequence of its operations: one row per
  id and per idempotency key, an audit trail that explains every execution's state, and at most
  one dispatch claim per execution.
\<close>

section \<open>Operations and their sequences\<close>

datatype exec_op =
    XCreate string normalized_intent "execution_plan option" int string
  | XTransition string exec_state string string exec_updates int
  | XLog journal_row
  | XUpdate string journal_updates
  | XClaim string string string string int int

fun exec_op_step :: "exec_op \<Rightarrow> db \<Rightarrow> db" where
  "exec_op_step (XCreate k i p now e) d = snd (createExecution (\<lambda>d. d) k i p now e d)"
| "exec_op_step (XTransition e t r tr u now) d = snd (transitionState e t r tr u now d)"
| "exec_op_step (XLog j) d = snd (logProviderRequest j d)"
| "exec_op_step (XUpdate i u) d = updateProviderRequest i u d"
| "exec_op_step (XClaim e opn j p st now) d = snd (acquireDispatchClaim e opn j p st now d)"

text \<open>The execution whose dispatch right an operation hands out.\<close>

fun exec_op_grant :: "exec_op \<Rightarrow> db \<Rightarrow> string option" where
  "exec_op_grant (XClaim e opn j p st now) d =
     (if fst (acquireDispatchClaim e opn j p st now d) then Some e else None)"
| "exec_op_grant _ d = None"

fun exec_ops_run :: "exec_op list \<Rightarrow> db \<Rightarrow> db" where
  "exec_ops_run [] d = d"
| "exec_ops_run (x # xs) d = exec_ops_run xs (exec_op_step x d)"

fun exec_grants :: "exec_op list \<Rightarrow> db \<Rightarrow> string list" where
  "exec_grants [] d = []"
| "exec_grants (x # xs) d =
     (case exec_op_grant x d of None \<Rightarrow> [] | Some e \<Rightarrow> [e]) @ exec_grants xs (exec_op_step x d)"

section \<open>What each operation does\<close>

lemma find_by_id_None: "findById i d = None \<longleftrightarrow> sql_get (\<lambda>r. ex_id r = i) (executions d) = None"
  by (simp add: findById_def)

lemma find_by_key_None:
  "findByIdempotencyKey k d = None \<longleftrightarrow> (\<forall>r \<in> set (executions d). ex_idempotency_key r \<noteq> k)"
  by (simp add: findByIdempotencyKey_def sql_get_None_iff)

lemma insert_journal_cases:
  assumes "insert_journal j d = (r, d')"
  obtains (ok) "r = Inr ()" "d' = d\<lparr>provider_request_journal := provider_request_journal d @ [j]\<rparr>"
  | (error) e where "r = Inl e" "d' = d"
  using assms by (auto simp: insert_journal_def split: if_splits)

lemma insert_execution_cases:
  assumes "insert_execution row d = (r, d')"
  obtains (ok) "r = Inr ()" "d' = d\<lparr>executions := executions d @ [row]\<rparr>"
      "\<forall>q \<in> set (executions d). ex_id q \<noteq> ex_id row \<and> ex_idempotency_key q \<noteq> ex_idempotency_key row"
  | (error) e where "r = Inl e" "d' = d"
  using assms by (auto simp: insert_execution_def split: if_splits)

text \<open>A creating transaction either adds one row and its first audit row or changes nothing.\<close>

lemma create_tx_cases:
  assumes "createExecution_tx k i p now e d = (r, d')"
  obtains (created) "r = Inr (mapRowToExecution (new_execution e k i p now))"
      "\<forall>q \<in> set (executions d). ex_id q \<noteq> e \<and> ex_idempotency_key q \<noteq> k"
      "d' = insert_exec_transition
             \<lparr> et_execution_id = e, et_from_state = None, et_to_state = ES_CREATED,
               et_reason = ''Intent normalized and execution created'',
               et_trigger = ''API'', et_created_at = now \<rparr>
             (d\<lparr>executions := executions d @ [new_execution e k i p now]\<rparr>)"
  | (reused) x where "findByIdempotencyKey k d = Some x" "r = reuse_execution x i" "d' = d"
  | (error) x where "findByIdempotencyKey k d = None" "r = Inl x" "d' = d"
proof (cases "findByIdempotencyKey k d")
  case (Some x)
  with assms show ?thesis by (intro reused) (auto simp: createExecution_tx_def)
next
  case None
  obtain r1 d1 where i: "insert_execution (new_execution e k i p now) d = (r1, d1)"
    by (metis surj_pair)
  then show ?thesis
  proof (cases rule: insert_execution_cases)
    case ok
    have "sql_get (\<lambda>r. ex_id r = e) (executions d) = None"
      using ok(3) by (auto simp: sql_get_None_iff new_execution_def)
    then have "sql_get (\<lambda>r. ex_id r = e) (executions d @ [new_execution e k i p now])
        = Some (new_execution e k i p now)"
      by (simp add: sql_get_append new_execution_def)
    with assms i None ok show ?thesis
      by (intro created)
         (auto simp: createExecution_tx_def insert_exec_transition_def findById_def new_execution_def)
  next
    case (error x)
    with assms i None show ?thesis by (intro that(3)) (auto simp: createExecution_tx_def)
  qed
qed

lemma transition_state_cases:
  assumes "transitionState e t rs tr u now d = (r, d')"
  obtains (missing) "sql_get (\<lambda>r. ex_id r = e) (executions d) = None" "r = Inl (ExecutionNotFound e)" "d' = d"
  | (moved) row where "sql_get (\<lambda>r. ex_id r = e) (executions d) = Some row"
      "r = Inr (mapRowToExecution (apply_exec_updates t now u row))"
      "executions d' = sql_update (\<lambda>r. ex_id r = e) (apply_exec_updates t now u) (executions d)"
      "state_transitions d' = state_transitions d @
         [\<lparr> et_execution_id = e, et_from_state = Some (ex_state row), et_to_state = t,
            et_reason = rs, et_trigger = tr, et_created_at = now \<rparr>]"
      "provider_dispatch_claims d' = provider_dispatch_claims d"
proof (cases "sql_get (\<lambda>r. ex_id r = e) (executions d)")
  case None
  with assms show ?thesis by (intro missing) (auto simp: transitionState_def findById_def)
next
  case (Some row)
  have "sql_get (\<lambda>r. ex_id r = e) (sql_update (\<lambda>r. ex_id r = e) (apply_exec_updates t now u) (executions d))
      = Some (apply_exec_updates t now u row)"
    using Some sql_get_Some [OF Some] by (simp add: sql_get_update apply_exec_updates_def)
  with assms Some show ?thesis
    by (intro moved)
       (auto simp: transitionState_def findById_def insert_exec_transition_def mapRowToExecution_def)
qed

lemma claim_cases:
  assumes "acquireDispatchClaim e opn j p st now d = (b, d')"
  obtains (refused) "\<not> b" "d' = d"
  | (granted) row where "b" "getDispatchClaim e d = None"
      "sql_get (\<lambda>r. ex_id r = e) (executions d) = Some row" "ex_state row = ES_EXECUTION_PENDING"
      "executions d' = sql_update (\<lambda>r. ex_id r = e \<and> ex_state r = ES_EXECUTION_PENDING)
         (\<lambda>r. r\<lparr>ex_state := ES_EXECUTING, ex_updated_at := now\<rparr>) (executions d)"
      "state_transitions d' = state_transitions d @
         [\<lparr> et_execution_id = e, et_from_state = Some ES_EXECUTION_PENDING, et_to_state = ES_EXECUTING,
            et_reason = ''Durable dispatch claim acquired; dispatching to provider'',
            et_trigger = ''API'', et_created_at = now \<rparr>]"
      "provider_dispatch_claims d' = provider_dispatch_claims d @
         [\<lparr> dc_execution_id = e, dc_operation = opn, dc_journal_id = j, dc_claimed_at = now \<rparr>]"
      "provider_request_journal d' = provider_request_journal d @
         [\<lparr> jr_id = j, jr_execution_id = e, jr_provider_id = p, jr_operation = opn, jr_attempt_number = 1,
            jr_request_started_at = st, jr_request_completed_at = None, jr_provider_execution_id = None,
            jr_result_classification = RC_AMBIGUOUS_TIMEOUT, jr_response_persisted = False,
            jr_error_message = None, jr_created_at = st \<rparr>]"
proof (cases "b")
  case False
  with assms show ?thesis
    by (intro refused)
       (auto simp: acquireDispatchClaim_def Let_def split: option.splits if_splits sum.splits prod.splits)
next
  case True
  with assms obtain row where "getDispatchClaim e d = None"
      "sql_get (\<lambda>r. ex_id r = e) (executions d) = Some row" "ex_state row = ES_EXECUTION_PENDING"
    by (auto simp: acquireDispatchClaim_def split: option.splits if_splits)
  with assms True show ?thesis
    by (intro granted)
       (auto simp: acquireDispatchClaim_def Let_def insert_claim_def insert_exec_transition_def
          split: sum.splits prod.splits if_splits elim!: insert_journal_cases)
qed

section \<open>The store invariant\<close>

text \<open>The audit rows of one execution lead from one state to another.\<close>

fun audit_chain :: "exec_state option \<Rightarrow> exec_transition_row list \<Rightarrow> exec_state option \<Rightarrow> bool" where
  "audit_chain s [] e \<longleftrightarrow> e = s"
| "audit_chain s (t # ts) e \<longleftrightarrow> et_from_state t = s \<and> audit_chain (Some (et_to_state t)) ts e"

definition audit_of :: "string \<Rightarrow> db \<Rightarrow> exec_transition_row list" where
  "audit_of i d = filter (\<lambda>t. et_execution_id t = i) (state_transitions d)"

definition exec_store_ok :: "db \<Rightarrow> bool" where
  "exec_store_ok d \<longleftrightarrow> keyed ex_id (executions d) \<and> keyed ex_idempotency_key (executions d) \<and>
     (\<forall>r \<in> set (executions d). audit_chain None (audit_of (ex_id r) d) (Some (ex_state r))) \<and>
     (\<forall>t \<in> set (state_transitions d). \<exists>r \<in> set (executions d). ex_id r = et_execution_id t)"

lemma audit_chain_snoc:
  "audit_chain s (ts @ [t]) e \<longleftrightarrow> audit_chain s ts (et_from_state t) \<and> e = Some (et_to_state t)"
  by (induction s ts e rule: audit_chain.induct) auto

text \<open>
  One row changes its state and one audit row records it: the step shared by a transition and by
  a dispatch claim.
\<close>

lemma exec_store_ok_move:
  assumes ok: "exec_store_ok d"
    and get: "sql_get (\<lambda>r. ex_id r = e) (executions d) = Some row"
    and ex: "executions d' = sql_update (\<lambda>r. ex_id r = e) f (executions d)"
    and tr: "state_transitions d' = state_transitions d @ [t]"
    and t: "et_execution_id t = e" "et_from_state t = Some (ex_state row)"
    and f: "\<And>r. ex_id (f r) = ex_id r" "\<And>r. ex_idempotency_key (f r) = ex_idempotency_key r"
      "\<And>r. ex_state (f r) = et_to_state t"
  shows "exec_store_ok d'"
proof -
  have row: "row \<in> set (executions d)" "ex_id row = e" using sql_get_Some [OF get] by auto
  have chain: "\<forall>r \<in> set (executions d). audit_chain None (audit_of (ex_id r) d) (Some (ex_state r))"
    and k: "keyed ex_id (executions d)" and k2: "keyed ex_idempotency_key (executions d)"
    and fk: "\<forall>t \<in> set (state_transitions d). \<exists>r \<in> set (executions d). ex_id r = et_execution_id t"
    using ok by (auto simp: exec_store_ok_def)
  have "audit_chain None (audit_of (ex_id q) d') (Some (ex_state q))" if q: "q \<in> set (executions d')" for q
  proof -
    obtain r where r: "r \<in> set (executions d)" "q = (if ex_id r = e then f r else r)"
      using q by (auto simp: ex set_sql_update)
    show ?thesis
    proof (cases "ex_id r = e")
      case True
      have "audit_chain None (audit_of e d) (Some (ex_state row))" using chain row by auto
      then show ?thesis
        using True r(2) by (simp add: audit_of_def tr t f audit_chain_snoc)
    next
      case False
      then show ?thesis using chain r by (auto simp: audit_of_def tr t)
    qed
  qed
  moreover have "\<forall>t \<in> set (state_transitions d'). \<exists>r \<in> set (executions d'). ex_id r = et_execution_id t"
  proof -
    have "ex_id ` set (executions d') = ex_id ` set (executions d)"
      unfolding ex set_sql_update image_image by (rule image_cong) (simp_all add: f)
    then have i: "(\<exists>r \<in> set (executions d'). ex_id r = x) \<longleftrightarrow> (\<exists>r \<in> set (executions d). ex_id r = x)" for x
      by (metis (no_types, lifting) imageE imageI)
    show ?thesis unfolding i using fk row t(1) by (auto simp: tr)
  qed
  ultimately show ?thesis
    using k k2 unfolding exec_store_ok_def ex by (simp add: keyed_sql_update f)
qed

lemma exec_store_ok_same:
  "exec_store_ok d \<Longrightarrow> executions d' = executions d \<Longrightarrow> state_transitions d' = state_transitions d
   \<Longrightarrow> exec_store_ok d'"
  by (simp add: exec_store_ok_def audit_of_def)

lemma exec_store_ok_create:
  assumes ok: "exec_store_ok d" and c: "createExecution_tx k i p now e d = (r, d')"
  shows "exec_store_ok d'"
  using c
proof (cases rule: create_tx_cases)
  case created
  let ?n = "new_execution e k i p now"
  have n: "ex_id ?n = e" "ex_idempotency_key ?n = k" "ex_state ?n = ES_CREATED"
    by (simp_all add: new_execution_def)
  have none: "audit_of e d = []"
    using ok created(2) by (fastforce simp: exec_store_ok_def audit_of_def filter_empty_conv)
  have "audit_chain None (audit_of (ex_id q) d') (Some (ex_state q))" if "q \<in> set (executions d')" for q
  proof (cases "ex_id q = e")
    case True
    with that created(2) have "q = ?n" by (auto simp: created(3) insert_exec_transition_def)
    with none show ?thesis
      by (simp add: n created(3) insert_exec_transition_def audit_of_def)
  next
    case False
    with that have "q \<in> set (executions d)" by (auto simp: n created(3) insert_exec_transition_def)
    with False ok show ?thesis
      by (simp add: created(3) insert_exec_transition_def audit_of_def exec_store_ok_def)
  qed
  moreover have "keyed ex_id (executions d')" "keyed ex_idempotency_key (executions d')"
    using ok created(2)
    by (auto simp: created(3) insert_exec_transition_def exec_store_ok_def keyed_append1 n)
  moreover have "\<forall>t \<in> set (state_transitions d'). \<exists>r \<in> set (executions d'). ex_id r = et_execution_id t"
    using ok by (auto simp: created(3) insert_exec_transition_def exec_store_ok_def n)
  ultimately show ?thesis by (simp add: exec_store_ok_def)
qed (use ok in simp_all)

lemma exec_store_ok_claim:
  assumes ok: "exec_store_ok d" and c: "acquireDispatchClaim e opn j p st now d = (b, d')"
  shows "exec_store_ok d'"
  using c
proof (cases rule: claim_cases)
  case (granted row)
  have k: "keyed ex_id (executions d)" using ok by (simp add: exec_store_ok_def)
  have same: "sql_update (\<lambda>r. ex_id r = e \<and> ex_state r = ES_EXECUTION_PENDING) f (executions d)
      = sql_update (\<lambda>r. ex_id r = e) f (executions d)" for f
  proof -
    have "ex_id r = e \<longrightarrow> ex_state r = ES_EXECUTION_PENDING" if "r \<in> set (executions d)" for r
      using keyed_get [OF k that] granted(3,4) by auto
    then show ?thesis unfolding sql_update_def by (intro map_cong refl) auto
  qed
  show ?thesis
    by (rule exec_store_ok_move [OF ok granted(3) granted(5) [unfolded same] granted(6)])
       (use granted(4) in simp_all)
qed (use ok in simp)

lemma exec_store_ok_transition:
  assumes ok: "exec_store_ok d" and c: "transitionState e t rs tr u now d = (r, d')"
  shows "exec_store_ok d'"
  using c
proof (cases rule: transition_state_cases)
  case (moved row)
  show ?thesis
    by (rule exec_store_ok_move [OF ok moved(1) moved(3) moved(4)])
       (simp_all add: apply_exec_updates_def)
qed (use ok in simp)

lemma createExecution_self:
  "createExecution (\<lambda>d. d) k i p now e d = createExecution_tx k i p now e d"
  by (simp add: createExecution_def createExecution_tx_def split: option.split)

lemma exec_store_ok_step: "exec_store_ok d \<Longrightarrow> exec_store_ok (exec_op_step x d)"
proof (induction x d rule: exec_op_step.induct)
  case (1 k i p now e d)
  then show ?case
    using exec_store_ok_create [OF _ surjective_pairing] by (simp add: createExecution_self)
next
  case (2 e t r tr u now d)
  then show ?case using exec_store_ok_transition [OF _ surjective_pairing] by simp
next
  case (3 j d)
  then show ?case
    by (cases "insert_journal j d" rule: prod.exhaust)
       (auto simp: logProviderRequest_def elim!: insert_journal_cases intro: exec_store_ok_same)
next
  case (4 i u d)
  then show ?case by (auto simp: updateProviderRequest_def intro: exec_store_ok_same)
next
  case (5 e opn j p st now d)
  then show ?case using exec_store_ok_claim [OF _ surjective_pairing] by simp
qed

lemma exec_store_ok_run: "exec_store_ok d \<Longrightarrow> exec_store_ok (exec_ops_run xs d)"
  by (induction xs arbitrary: d) (simp_all add: exec_store_ok_step)

lemma exec_store_ok_empty: "exec_store_ok empty_db"
  by (simp add: exec_store_ok_def empty_db_def)

section \<open>Dispatch claims are handed out once\<close>

definition claimed :: "db \<Rightarrow> string set" where
  "claimed d = dc_execution_id ` set (provider_dispatch_claims d)"

lemma get_claim_None: "getDispatchClaim e d = None \<longleftrightarrow> e \<notin> claimed d"
  by (auto simp: getDispatchClaim_def sql_get_None_iff claimed_def)

lemma create_tx_claimed: "claimed (snd (createExecution_tx k i p now e d)) = claimed d"
proof -
  obtain r d' where c: "createExecution_tx k i p now e d = (r, d')" by (metis surj_pair)
  then show ?thesis
    by (cases rule: create_tx_cases) (simp_all add: c claimed_def insert_exec_transition_def)
qed

lemma claimed_step: "claimed (exec_op_step x d) = claimed d \<union> set_option (exec_op_grant x d)"
proof (induction x d rule: exec_op_step.induct)
  case (1 k i p now e d)
  then show ?case by (simp add: createExecution_self create_tx_claimed)
next
  case (2 e t r tr u now d)
  obtain x d' where c: "transitionState e t r tr u now d = (x, d')" by (metis surj_pair)
  then show ?case by (cases rule: transition_state_cases) (simp_all add: c claimed_def)
next
  case (3 j d)
  then show ?case
    by (cases "insert_journal j d" rule: prod.exhaust)
       (auto simp: logProviderRequest_def claimed_def elim!: insert_journal_cases)
next
  case (4 i u d)
  then show ?case by (simp add: claimed_def updateProviderRequest_def)
next
  case (5 e opn j p st now d)
  obtain b d' where c: "acquireDispatchClaim e opn j p st now d = (b, d')" by (metis surj_pair)
  then show ?case by (cases rule: claim_cases) (auto simp: c claimed_def)
qed

lemma grant_unclaimed: "exec_op_grant x d = Some e \<Longrightarrow> e \<notin> claimed d"
proof (induction x d rule: exec_op_grant.induct)
  case (1 e' opn j p st now d)
  obtain b d' where c: "acquireDispatchClaim e' opn j p st now d = (b, d')" by (metis surj_pair)
  then show ?case using 1
    by (cases rule: claim_cases) (auto simp: c get_claim_None split: if_splits)
qed simp_all

lemma grants_fresh: "set (exec_grants xs d) \<inter> claimed d = {}"
proof (induction xs d rule: exec_grants.induct)
  case (2 x xs d)
  then show ?case
    by (cases "exec_op_grant x d") (auto simp: claimed_step dest: grant_unclaimed)
qed simp

lemma grants_distinct: "distinct (exec_grants xs d)"
proof (induction xs d rule: exec_grants.induct)
  case (2 x xs d)
  then show ?case
    using grants_fresh [of xs "exec_op_step x d"] by (auto simp: claimed_step split: option.splits)
qed simp

section \<open>Validated transitions\<close>

text \<open>
  A caller that validates its transitions, as the orchestrator does: every \<open>transitionState\<close> on an
  existing execution follows an accepted \<open>validateTransition\<close> from its current state.
\<close>

fun exec_op_validated :: "exec_op \<Rightarrow> db \<Rightarrow> bool" where
  "exec_op_validated (XTransition e t r tr u now) d =
     (case findById e d of
        None \<Rightarrow> True
      | Some cur \<Rightarrow> is_ok (validateTransition (Some (ex_state cur)) t None) \<or>
                   is_ok (validateTransition (Some (ex_state cur)) t (Some True)))"
| "exec_op_validated _ d = True"

fun exec_ops_validated :: "exec_op list \<Rightarrow> db \<Rightarrow> bool" where
  "exec_ops_validated [] d = True"
| "exec_ops_validated (x # xs) d = (exec_op_validated x d \<and> exec_ops_validated xs (exec_op_step x d))"

definition audit_legal :: "db \<Rightarrow> bool" where
  "audit_legal d \<longleftrightarrow> (\<forall>t \<in> set (state_transitions d).
     \<exists>z. validateTransition (et_from_state t) (et_to_state t) z = Inr ())"

lemma audit_legal_step: "audit_legal d \<Longrightarrow> exec_op_validated x d \<Longrightarrow> audit_legal (exec_op_step x d)"
proof (induction x d rule: exec_op_step.induct)
  case (1 k i p now e d)
  obtain r d' where c: "createExecution_tx k i p now e d = (r, d')" by (metis surj_pair)
  then show ?case using 1
    by (cases rule: create_tx_cases)
       (auto simp: createExecution_self c audit_legal_def insert_exec_transition_def validate_ok_initial)
next
  case (2 e t r tr u now d)
  obtain x d' where c: "transitionState e t r tr u now d = (x, d')" by (metis surj_pair)
  then show ?case
  proof (cases rule: transition_state_cases)
    case missing
    then show ?thesis using 2 by (simp add: c)
  next
    case (moved row)
    from 2(2) have "\<exists>z. validateTransition (Some (ex_state row)) t z = Inr ()"
      by (auto simp: findById_def moved(1) mapRowToExecution_def is_ok_unit)
    then show ?thesis using 2(1) moved by (auto simp: c audit_legal_def)
  qed
next
  case (3 j d)
  then show ?case
    by (cases "insert_journal j d" rule: prod.exhaust)
       (auto simp: logProviderRequest_def audit_legal_def elim!: insert_journal_cases)
next
  case (4 i u d)
  then show ?case by (simp add: audit_legal_def updateProviderRequest_def)
next
  case (5 e opn j p st now d)
  obtain b d' where c: "acquireDispatchClaim e opn j p st now d = (b, d')" by (metis surj_pair)
  have "validateTransition (Some ES_EXECUTION_PENDING) ES_EXECUTING None = Inr ()"
    by (simp add: validate_ok_from exec_state_sets)
  note v = this
  show ?case using c
    by (cases rule: claim_cases) (use 5(1) v in \<open>auto simp: c audit_legal_def\<close>)
qed

lemma audit_legal_run: "audit_legal d \<Longrightarrow> exec_ops_validated xs d \<Longrightarrow> audit_legal (exec_ops_run xs d)"
  by (induction xs arbitrary: d) (simp_all add: audit_legal_step)

lemma audit_chain_is_run:
  "audit_chain s ts e \<Longrightarrow> \<forall>t \<in> set ts. \<exists>z. validateTransition (et_from_state t) (et_to_state t) z = Inr ()
   \<Longrightarrow> \<exists>run. exec_run s run \<and> run_end s run = e \<and> map fst run = map et_to_state ts"
proof (induction s ts e rule: audit_chain.induct)
  case (1 s e)
  then show ?case by (intro exI [of _ "[]"]) simp
next
  case (2 s t ts e)
  then obtain run where r: "exec_run (Some (et_to_state t)) run" "run_end (Some (et_to_state t)) run = e"
      "map fst run = map et_to_state ts" by auto
  from 2(2,3) obtain z where "validateTransition s (et_to_state t) z = Inr ()" by auto
  with r show ?case by (intro exI [of _ "(et_to_state t, z) # run"]) (simp add: is_ok_unit)
qed

section \<open>Sample data\<close>

definition demo_exec_intent :: normalized_intent where
  "demo_exec_intent = \<lparr> ni_sourceAsset = ''BTC'', ni_sourceNetwork = ''lightning'', ni_targetAsset = ''USDC'',
     ni_targetNetwork = ''base'', ni_sourceAmountAtomic = ''1000'', ni_destinationAddress = ''0xd'',
     ni_refundAddress = ''r'' \<rparr>"

definition demo_exec_ops :: "exec_op list" where
  "demo_exec_ops = [XCreate ''k'' demo_exec_intent None 1 ''x1'',
     XTransition ''x1'' ES_QUOTED ''q'' ''API'' no_exec_updates 2,
     XTransition ''x1'' ES_EXECUTION_PENDING ''p'' ''API'' no_exec_updates 3,
     XClaim ''x1'' ''CREATE'' ''j1'' ''prov'' 4 4]"

lemmas exec_demo_defs = demo_exec_ops_def createExecution_def createExecution_tx_def
  findByIdempotencyKey_def findById_def insert_execution_def new_execution_def
  insert_exec_transition_def mapRowToExecution_def transitionState_def apply_exec_updates_def
  no_exec_updates_def acquireDispatchClaim_def getDispatchClaim_def insert_claim_def
  insert_journal_def sql_changes_def empty_db_def

lemma demo_exec_state:
  "map ex_state (executions (exec_ops_run demo_exec_ops empty_db)) = [ES_EXECUTING]"
  by (simp add: exec_demo_defs)

lemma demo_exec_validated: "exec_ops_validated demo_exec_ops empty_db"
  by (simp add: exec_demo_defs is_ok_unit validateTransition_def exec_state_sets)

section \<open>Properties\<close>

text \<open>C15: At most one dispatch: over any sequence of store operations from any database, among them state
  changes that put an execution back to EXECUTION_PENDING, \<open>acquireDispatchClaim\<close> answers true at
  most once for each execution.\<close>

theorem dispatch_at_most_once: "distinct (exec_grants ops d)"
  by (rule grants_distinct)

text \<open>A granted dispatch claim is durable before the provider is called: the execution was
  EXECUTION_PENDING, is EXECUTING, a legal transition, and the claim row and an ambiguous journal
  entry are stored; a refused claim changes nothing.\<close>

theorem dispatch_claim_effect:
  assumes "acquireDispatchClaim e opn j p st now d = (granted, d')"
  shows "if granted
    then (\<exists>old new. sql_get (\<lambda>r. ex_id r = e) (executions d) = Some old \<and> ex_state old = ES_EXECUTION_PENDING \<and>
           sql_get (\<lambda>r. ex_id r = e) (executions d') = Some new \<and> ex_state new = ES_EXECUTING \<and>
           validateTransition (Some (ex_state old)) (ex_state new) None = Inr ()) \<and>
         (\<exists>c. getDispatchClaim e d' = Some c \<and> dc_journal_id c = j) \<and>
         (\<exists>r \<in> set (provider_request_journal d'). jr_id r = j \<and> jr_execution_id r = e \<and>
            jr_result_classification r = RC_AMBIGUOUS_TIMEOUT)
    else d' = d"
  using assms
proof (cases rule: claim_cases)
  case (granted row)
  have "sql_get (\<lambda>r. ex_id r = e) (executions d') = Some (row\<lparr>ex_state := ES_EXECUTING, ex_updated_at := now\<rparr>)"
    using sql_get_Some [OF granted(3)] granted(3,4) by (simp add: granted(5) sql_get_update)
  moreover have "sql_get (\<lambda>r. dc_execution_id r = e) (provider_dispatch_claims d) = None"
    using granted(2) by (simp add: getDispatchClaim_def)
  ultimately show ?thesis
    using granted by (simp add: getDispatchClaim_def sql_get_append validate_ok_from exec_state_sets)
qed simp

lemma dispatch_claim_effect_witness:
  "\<exists>c. getDispatchClaim ''x1'' (exec_ops_run demo_exec_ops empty_db) = Some c \<and> dc_journal_id c = ''j1''"
proof -
  define d where "d = exec_ops_run (take 3 demo_exec_ops) empty_db"
  obtain g d' where c: "acquireDispatchClaim ''x1'' ''CREATE'' ''j1'' ''prov'' 4 4 d = (g, d')"
    by (metis surj_pair)
  moreover have "fst (acquireDispatchClaim ''x1'' ''CREATE'' ''j1'' ''prov'' 4 4 d)"
    by (simp add: d_def exec_demo_defs)
  moreover have "exec_ops_run demo_exec_ops empty_db =
      snd (acquireDispatchClaim ''x1'' ''CREATE'' ''j1'' ''prov'' 4 4 d)"
    by (simp add: d_def demo_exec_ops_def)
  ultimately show ?thesis using dispatch_claim_effect [OF c] by auto
qed

text \<open>The audit trail explains the state: after any sequence of store operations on an empty
  database, the transition rows of every execution form one chain from no state to its current
  state, and ids and idempotency keys are unique.\<close>

theorem audit_explains_state:
  assumes "row \<in> set (executions (exec_ops_run ops empty_db))"
  shows "audit_chain None (audit_of (ex_id row) (exec_ops_run ops empty_db)) (Some (ex_state row)) \<and>
    findByIdempotencyKey (ex_idempotency_key row) (exec_ops_run ops empty_db) = Some (mapRowToExecution row)"
proof -
  have ok: "exec_store_ok (exec_ops_run ops empty_db)"
    by (rule exec_store_ok_run [OF exec_store_ok_empty])
  then have "sql_get (\<lambda>r. ex_idempotency_key r = ex_idempotency_key row)
      (executions (exec_ops_run ops empty_db)) = Some row"
    using assms by (intro keyed_get) (simp_all add: exec_store_ok_def)
  with ok assms show ?thesis by (simp add: exec_store_ok_def findByIdempotencyKey_def)
qed

lemma audit_explains_state_witness:
  "audit_chain None (audit_of ''x1'' (exec_ops_run demo_exec_ops empty_db)) (Some ES_EXECUTING)"
proof -
  obtain row where r: "row \<in> set (executions (exec_ops_run demo_exec_ops empty_db))"
      "ex_id row = ''x1''" "ex_state row = ES_EXECUTING"
    by (simp add: exec_demo_defs)
  with audit_explains_state [OF r(1)] show ?thesis by simp
qed

text \<open>When every \<open>transitionState\<close> is preceded by an accepted \<open>validateTransition\<close>, the audit trail
  of each execution is an accepted run of the state machine that ends in its current state, so all
  properties of runs hold of the stored history.\<close>

theorem audit_is_accepted_run:
  assumes "exec_ops_validated ops empty_db" "row \<in> set (executions (exec_ops_run ops empty_db))"
  shows "\<exists>run. exec_run None run \<and> run_end None run = Some (ex_state row) \<and>
    map fst run = map et_to_state (audit_of (ex_id row) (exec_ops_run ops empty_db))"
proof -
  have "audit_legal (exec_ops_run ops empty_db)"
    by (rule audit_legal_run [OF _ assms(1)]) (simp add: audit_legal_def empty_db_def)
  moreover have "exec_store_ok (exec_ops_run ops empty_db)"
    by (rule exec_store_ok_run [OF exec_store_ok_empty])
  ultimately show ?thesis
    using assms(2) by (intro audit_chain_is_run) (auto simp: exec_store_ok_def audit_legal_def audit_of_def)
qed

lemma audit_is_accepted_run_witness:
  "\<exists>run. exec_run None run \<and> run_end None run = Some ES_EXECUTING"
proof -
  obtain row where r: "row \<in> set (executions (exec_ops_run demo_exec_ops empty_db))"
      "ex_state row = ES_EXECUTING"
    by (simp add: exec_demo_defs)
  with audit_is_accepted_run [OF demo_exec_validated r(1)] show ?thesis by auto
qed

text \<open>Creating an execution is idempotent, whatever other processes do between the first lookup and
  the transaction: after a successful call, every further call with the same key returns the same
  record when its intent is semantically equal and IDEMPOTENCY_CONFLICT when it is not, and leaves
  the database unchanged.\<close>

theorem createExecution_idempotent:
  assumes "createExecution others k i p now e d = (Inr x, d')"
  shows "createExecution others2 k i2 p2 now2 e2 d' =
    (if areIntentsSemanticallyEqual i i2 then Inr x else Inl (RouterErr IDEMPOTENCY_CONFLICT), d')"
proof -
  have "findByIdempotencyKey k d' = Some x \<and> areIntentsSemanticallyEqual (ex_intent x) i"
  proof (cases "findByIdempotencyKey k d")
    case (Some y)
    with assms show ?thesis
      by (auto simp: createExecution_def reuse_execution_def split: if_splits)
  next
    case None
    then have "createExecution_tx k i p now e (others d) = (Inr x, d')"
      using assms by (simp add: createExecution_def)
    then show ?thesis
    proof (cases rule: create_tx_cases)
      case created
      have "sql_get (\<lambda>r. ex_idempotency_key r = k) (executions (others d)) = None"
        using created(2) by (simp add: sql_get_None_iff)
      with created show ?thesis
        by (simp add: findByIdempotencyKey_def insert_exec_transition_def sql_get_append
            new_execution_def mapRowToExecution_def)
    qed (auto simp: reuse_execution_def split: if_splits)
  qed
  moreover from this have "areIntentsSemanticallyEqual (ex_intent x) i2 = areIntentsSemanticallyEqual i i2"
    using areIntentsSemanticallyEqual_sym areIntentsSemanticallyEqual_trans by blast
  ultimately show ?thesis by (simp add: createExecution_def reuse_execution_def)
qed

lemma createExecution_idempotent_witness:
  "fst (createExecution (\<lambda>d. d) ''k'' (demo_exec_intent\<lparr>ni_sourceAmountAtomic := ''2''\<rparr>) None 9 ''x9''
      (exec_op_step (XCreate ''k'' demo_exec_intent None 1 ''x1'') empty_db))
   = Inl (RouterErr IDEMPOTENCY_CONFLICT)"
proof -
  obtain r d' where c: "createExecution (\<lambda>d. d) ''k'' demo_exec_intent None 1 ''x1'' empty_db = (r, d')"
    by (metis surj_pair)
  moreover have "is_ok (fst (createExecution (\<lambda>d. d) ''k'' demo_exec_intent None 1 ''x1'' empty_db))"
    by (simp add: exec_demo_defs)
  ultimately obtain x where "r = Inr x" by (auto elim: is_ok_E)
  with createExecution_idempotent [of "\<lambda>d. d" "''k''" demo_exec_intent None 1 "''x1''" empty_db x d'
      "\<lambda>d. d" "demo_exec_intent\<lparr>ni_sourceAmountAtomic := ''2''\<rparr>" None 9 "''x9''"] c
  show ?thesis by (simp add: areIntentsSemanticallyEqual_def demo_exec_intent_def)
qed

end
