(* ===== verification/Intent_Store.thy ===== *)
theory Intent_Store
  imports Tables
begin

text \<open>
  The EVM transaction store of \<open>SqlitePersistence\<close> (\<open>src/src/persistence/sqlite.ts\<close>, from
  \<open>getOrCreateEvmIntent\<close> to \<open>markEvmIntentConfirmedByChainEvidence\<close>): logical intents, one per
  swap key and action, the nonces they reserve, and the signed attempts made under those nonces.
  \<open>keccak\<close> stands for viem's \<open>keccak256\<close>. An absent \<open>calldata\<close> is the empty string.
\<close>

section \<open>Reading\<close>

definition mapRowToEvmIntent :: "intent_row \<Rightarrow> intent_row" where
  "mapRowToEvmIntent row = row\<lparr>
     it_canonical_tx_hash := truthy_str (it_canonical_tx_hash row),
     it_failure_reason := truthy_str (it_failure_reason row) \<rparr>"

definition mapRowToEvmAttempt :: "attempt_row \<Rightarrow> attempt_row" where
  "mapRowToEvmAttempt row = row\<lparr> ap_error_message := truthy_str (ap_error_message row) \<rparr>"

definition get_intent :: "string \<Rightarrow> db \<Rightarrow> intent_row option" where
  "get_intent i d = sql_get (\<lambda>r. it_id r = i) (evm_transaction_intents d)"

definition getEvmIntentById :: "string \<Rightarrow> db \<Rightarrow> intent_row option" where
  "getEvmIntentById i d = map_option mapRowToEvmIntent (get_intent i d)"

definition getEvmIntentBySwapKey :: "string \<Rightarrow> action_type \<Rightarrow> db \<Rightarrow> intent_row option" where
  "getEvmIntentBySwapKey swapKey actionType d = map_option mapRowToEvmIntent
     (sql_get (\<lambda>r. it_swap_key r = swapKey \<and> it_action_type r = actionType) (evm_transaction_intents d))"

definition getEvmAttemptsForIntent :: "string \<Rightarrow> db \<Rightarrow> attempt_row list" where
  "getEvmAttemptsForIntent intentId d = map mapRowToEvmAttempt (sort_key ap_attempt_number
     (filter (\<lambda>a. ap_intent_id a = intentId) (evm_transaction_attempts d)))"

definition getLatestEvmAttempt :: "string \<Rightarrow> db \<Rightarrow> attempt_row option" where
  "getLatestEvmAttempt intentId d =
    (case sort_key (\<lambda>a. - ap_attempt_number a)
            (filter (\<lambda>a. ap_intent_id a = intentId) (evm_transaction_attempts d)) of
       [] \<Rightarrow> None | a # _ \<Rightarrow> Some (mapRowToEvmAttempt a))"

definition getEvmAttemptByTxHash :: "string \<Rightarrow> db \<Rightarrow> attempt_row option" where
  "getEvmAttemptByTxHash txHash d = map_option mapRowToEvmAttempt
     (sql_get (\<lambda>a. ap_tx_hash a = to_lower txHash) (evm_transaction_attempts d))"

definition getActiveEvmIntents :: "int option \<Rightarrow> db \<Rightarrow> intent_row list" where
  "getActiveEvmIntents chainId d = map mapRowToEvmIntent (sort_key it_created_at
     (filter (\<lambda>i. (case chainId of Some c \<Rightarrow> it_chain_id i = c | None \<Rightarrow> True) \<and>
          it_status i \<in> {EI_CREATED, EI_NONCE_RESERVED, EI_DISPATCHING, EI_PENDING})
       (evm_transaction_intents d)))"

text \<open>The \<open>JOIN\<close> gives one row per swap that carries the intent's key.\<close>

definition getFailedFundIntentsRequiringCrossRailRecovery :: "int \<Rightarrow> db \<Rightarrow> intent_row list" where
  "getFailedFundIntentsRequiringCrossRailRecovery chainId d =
     map mapRowToEvmIntent (sort_key it_created_at
       (concat (map (\<lambda>i. map (\<lambda>s. i)
            (filter (\<lambda>s. sw_evm_swap_key s = Some (it_swap_key i) \<and>
                 it_chain_id i = chainId \<and> it_action_type i = AT_FUND \<and>
                 it_status i \<in> {EI_REVERTED, EI_FAILED, EI_NONCE_CONFLICT} \<and>
                 sw_state s \<notin> {SA_COMPLETED, SA_REFUNDED, SA_INVOICE_CANCELED, SA_EXPIRED})
              (sovereign_swaps d)))
          (evm_transaction_intents d))))"

section \<open>Creating an intent\<close>

record intent_params =
  pi_swapKey :: string
  pi_chainId :: int
  pi_signerAddress :: string
  pi_actionType :: action_type
  pi_targetAddress :: string
  pi_calldata :: string
  pi_valueWei :: "int option"

definition insert_intent :: "intent_row \<Rightarrow> db \<Rightarrow> (db_error + unit) \<times> db" where
  "insert_intent row d =
    (if \<exists>r \<in> set (evm_transaction_intents d). it_id r = it_id row \<or>
          (it_swap_key r = it_swap_key row \<and> it_action_type r = it_action_type row)
     then (Inl UniqueConstraintFailed, d)
     else (Inr (), d\<lparr>evm_transaction_intents := evm_transaction_intents d @ [row]\<rparr>))"

definition new_intent :: "(string \<Rightarrow> string) \<Rightarrow> intent_params \<Rightarrow> int \<Rightarrow> string \<Rightarrow> intent_row" where
  "new_intent keccak params now newId =
     \<lparr> it_id = newId, it_swap_key = pi_swapKey params,
       it_action_type = pi_actionType params, it_chain_id = pi_chainId params,
       it_signer_address = to_lower (pi_signerAddress params),
       it_target_contract = to_lower (pi_targetAddress params),
       it_calldata_hash = keccak (pi_calldata params), it_calldata_bytes = pi_calldata params,
       it_value_wei = coalesce (pi_valueWei params) 0, it_nonce = None,
       it_status = EI_CREATED, it_canonical_tx_hash = None, it_failure_reason = None,
       it_created_at = now, it_updated_at = now \<rparr>"

text \<open>The object returned for a new intent has no \<open>calldata\<close> field.\<close>

definition getOrCreateEvmIntent ::
  "(string \<Rightarrow> string) \<Rightarrow> intent_params \<Rightarrow> int \<Rightarrow> string \<Rightarrow> db \<Rightarrow> (db_error + intent_row) \<times> db" where
  "getOrCreateEvmIntent keccak params now newId d =
    (case getEvmIntentBySwapKey (pi_swapKey params) (pi_actionType params) d of
       Some existing \<Rightarrow> (Inr existing, d)
     | None \<Rightarrow>
         (case insert_intent (new_intent keccak params now newId) d of
            (Inr _, d') \<Rightarrow> (Inr ((new_intent keccak params now newId)\<lparr>it_calldata_bytes := ''''\<rparr>), d')
          | (Inl e, _) \<Rightarrow>
              (case getEvmIntentBySwapKey (pi_swapKey params) (pi_actionType params) d of
                 Some concurrent \<Rightarrow> (Inr concurrent, d)
               | None \<Rightarrow> (Inl e, d))))"

section \<open>Nonces\<close>

definition released_statuses :: "intent_state list" where
  "released_statuses = [EI_REVERTED, EI_FAILED, EI_FEE_CAP_BLOCKED]"

definition broadcast_statuses :: "attempt_status list" where
  "broadcast_statuses = [EA_BROADCAST, EA_MINED_SUCCESS, EA_MINED_REVERT, EA_SUPERSEDED]"

text \<open>\<open>EXISTS (SELECT 1 FROM evm_transaction_attempts ...)\<close>, the query five methods share.\<close>

definition has_broadcast_attempt :: "string \<Rightarrow> db \<Rightarrow> bool" where
  "has_broadcast_attempt intentId d \<longleftrightarrow>
     (\<exists>a \<in> set (evm_transaction_attempts d). ap_intent_id a = intentId \<and>
        ap_status a \<in> set broadcast_statuses)"

definition getUnresolvedNonceReservation ::
  "int \<Rightarrow> string \<Rightarrow> string option \<Rightarrow> db \<Rightarrow> intent_row option" where
  "getUnresolvedNonceReservation chainId signerAddress excludeIntentId d =
    (let signer = to_lower signerAddress;
         rows = filter (\<lambda>i. it_chain_id i = chainId \<and> it_signer_address i = signer \<and> it_nonce i \<noteq> None \<and>
              (case truthy_str excludeIntentId of Some x \<Rightarrow> it_id i \<noteq> x | None \<Rightarrow> True) \<and>
              it_status i \<notin> set released_statuses \<and>
              \<not> (\<exists>a \<in> set (evm_transaction_attempts d). ap_intent_id a = it_id i))
            (evm_transaction_intents d)
     in (case sort_key (\<lambda>i. coalesce (it_nonce i) 0) rows of
           [] \<Rightarrow> None | r # _ \<Rightarrow> Some (mapRowToEvmIntent r)))"

text \<open>The nonces \<open>SELECT MAX(i.nonce)\<close> ranges over.\<close>

definition held_nonces :: "int \<Rightarrow> string \<Rightarrow> db \<Rightarrow> int list" where
  "held_nonces chainId signer d = List.map_filter it_nonce
     (filter (\<lambda>i. it_chain_id i = chainId \<and> it_signer_address i = signer \<and>
          (it_status i \<notin> set released_statuses \<or> has_broadcast_attempt (it_id i) d))
       (evm_transaction_intents d))"

definition highest_nonce :: "int list \<Rightarrow> int" where
  "highest_nonce ns = (case ns of [] \<Rightarrow> -1 | n # rest \<Rightarrow> fold max rest n)"

text \<open>\<open>UPDATE evm_transaction_intents SET nonce = ..\<close> under the partial unique index on
  (chain, signer, nonce).\<close>

definition update_nonce :: "string \<Rightarrow> int \<Rightarrow> int \<Rightarrow> db \<Rightarrow> (db_error + unit) \<times> db" where
  "update_nonce intentId n now d =
    (if \<exists>r \<in> set (evm_transaction_intents d). \<exists>q \<in> set (evm_transaction_intents d).
          it_id r = intentId \<and> it_id q \<noteq> intentId \<and> it_chain_id q = it_chain_id r \<and>
          it_signer_address q = it_signer_address r \<and> it_nonce q = Some n
     then (Inl UniqueConstraintFailed, d)
     else (Inr (), d\<lparr>evm_transaction_intents := sql_update (\<lambda>i. it_id i = intentId)
            (\<lambda>i. i\<lparr>it_nonce := Some n, it_status := EI_NONCE_RESERVED, it_updated_at := now\<rparr>)
            (evm_transaction_intents d)\<rparr>))"

definition reserveEvmNonce ::
  "string \<Rightarrow> int \<Rightarrow> bool \<Rightarrow> int \<Rightarrow> db \<Rightarrow> (db_error + intent_row \<times> int) \<times> db" where
  "reserveEvmNonce intentId rpcPendingNonce enforceNoUnresolvedReservations now = transaction (\<lambda>d.
    (case get_intent intentId d of
       None \<Rightarrow> (Inl (EvmIntentNotFound intentId), d)
     | Some intentRow \<Rightarrow>
         (case it_nonce intentRow of
            Some n \<Rightarrow> (Inr (mapRowToEvmIntent intentRow, n), d)
          | None \<Rightarrow>
              let chainId = it_chain_id intentRow;
                  signerAddress = to_lower (it_signer_address intentRow)
              in (case (if enforceNoUnresolvedReservations
                        then getUnresolvedNonceReservation chainId signerAddress (Some intentId) d
                        else None) of
                    Some unresolved \<Rightarrow> (Inl (UnresolvedNonceReservation (it_id unresolved)), d)
                  | None \<Rightarrow>
                      let highestDbNonce = highest_nonce (held_nonces chainId signerAddress d);
                          candidateNonce = max rpcPendingNonce (highestDbNonce + 1)
                      in (case update_nonce intentId candidateNonce now d of
                            (Inl e, d') \<Rightarrow> (Inl e, d')
                          | (Inr _, d') \<Rightarrow>
                              (case get_intent intentId d' of
                                 None \<Rightarrow> (Inl (EvmIntentNotFound intentId), d')
                               | Some updatedRow \<Rightarrow>
                                   (Inr (mapRowToEvmIntent updatedRow, candidateNonce), d')))))))"

section \<open>Attempts\<close>

record attempt_params =
  pa_intentId :: string
  pa_attemptNumber :: int
  pa_chainId :: int
  pa_signerAddress :: string
  pa_nonce :: int
  pa_txHash :: string
  pa_toAddress :: string
  pa_valueWei :: int
  pa_data :: string
  pa_gasLimit :: int
  pa_maxFeePerGas :: int
  pa_maxPriorityFeePerGas :: int

definition insert_attempt :: "attempt_row \<Rightarrow> db \<Rightarrow> (db_error + unit) \<times> db" where
  "insert_attempt row d =
    (if \<exists>r \<in> set (evm_transaction_attempts d). ap_id r = ap_id row \<or> ap_tx_hash r = ap_tx_hash row \<or>
          (ap_intent_id r = ap_intent_id row \<and> ap_attempt_number r = ap_attempt_number row)
     then (Inl UniqueConstraintFailed, d)
     else if get_intent (ap_intent_id row) d = None then (Inl ForeignKeyConstraintFailed, d)
     else (Inr (), d\<lparr>evm_transaction_attempts := evm_transaction_attempts d @ [row]\<rparr>))"

definition set_intent :: "string \<Rightarrow> (intent_row \<Rightarrow> intent_row) \<Rightarrow> db \<Rightarrow> db" where
  "set_intent intentId f d = d\<lparr>evm_transaction_intents :=
     sql_update (\<lambda>i. it_id i = intentId) f (evm_transaction_intents d)\<rparr>"

definition find_attempt :: "string \<Rightarrow> int \<Rightarrow> db \<Rightarrow> attempt_row option" where
  "find_attempt intentId n d =
     sql_get (\<lambda>a. ap_intent_id a = intentId \<and> ap_attempt_number a = n) (evm_transaction_attempts d)"

definition new_attempt :: "(string \<Rightarrow> string) \<Rightarrow> attempt_params \<Rightarrow> int \<Rightarrow> string \<Rightarrow> attempt_row" where
  "new_attempt keccak p now newId =
     \<lparr> ap_id = newId, ap_intent_id = pa_intentId p, ap_attempt_number = pa_attemptNumber p,
       ap_chain_id = pa_chainId p, ap_signer_address = to_lower (pa_signerAddress p),
       ap_nonce = pa_nonce p, ap_tx_hash = to_lower (pa_txHash p),
       ap_to_address = to_lower (pa_toAddress p), ap_value_wei = pa_valueWei p,
       ap_data = pa_data p, ap_calldata_hash = keccak (pa_data p),
       ap_gas_limit = pa_gasLimit p, ap_max_fee_per_gas_wei = pa_maxFeePerGas p,
       ap_max_priority_fee_per_gas_wei = pa_maxPriorityFeePerGas p,
       ap_worst_case_cost_wei = pa_gasLimit p * pa_maxFeePerGas p + pa_valueWei p,
       ap_status = EA_PREPARED, ap_mined_block_number = None, ap_receipt_status = None,
       ap_broadcast_at = None, ap_reconciled_at = None, ap_error_message = None,
       ap_created_at = now \<rparr>"

definition recordEvmAttempt ::
  "(string \<Rightarrow> string) \<Rightarrow> attempt_params \<Rightarrow> int \<Rightarrow> string \<Rightarrow> db \<Rightarrow> (db_error + attempt_row) \<times> db" where
  "recordEvmAttempt keccak p now newId d =
    (case find_attempt (pa_intentId p) (pa_attemptNumber p) d of
       Some existing \<Rightarrow> (Inr (mapRowToEvmAttempt existing), d)
     | None \<Rightarrow>
         (case insert_attempt (new_attempt keccak p now newId) d of
            (Inl e, _) \<Rightarrow>
              (case (if e = UniqueConstraintFailed
                     then find_attempt (pa_intentId p) (pa_attemptNumber p) d else None) of
                 Some existing \<Rightarrow> (Inr (mapRowToEvmAttempt existing), d)
               | None \<Rightarrow> (Inl e, d))
          | (Inr _, d1) \<Rightarrow>
              let d2 = set_intent (pa_intentId p)
                    (\<lambda>i. i\<lparr>it_status := EI_DISPATCHING, it_updated_at := now\<rparr>) d1
              in (case sql_get (\<lambda>a. ap_id a = newId) (evm_transaction_attempts d2) of
                    Some inserted \<Rightarrow> (Inr (mapRowToEvmAttempt inserted), d2)
                  | None \<Rightarrow> (Inl (AttemptNotFound newId), d))))"

definition markEvmAttemptBroadcast :: "string \<Rightarrow> int \<Rightarrow> db \<Rightarrow> (db_error + unit) \<times> db" where
  "markEvmAttemptBroadcast attemptId now = transaction (\<lambda>d.
    (case sql_get (\<lambda>a. ap_id a = attemptId) (evm_transaction_attempts d) of
       None \<Rightarrow> (Inl (AttemptNotFound attemptId), d)
     | Some attemptRow \<Rightarrow>
         let d1 = d\<lparr>evm_transaction_attempts := sql_update (\<lambda>a. ap_id a = attemptId)
               (\<lambda>a. a\<lparr>ap_status := EA_BROADCAST, ap_broadcast_at := Some now\<rparr>)
               (evm_transaction_attempts d)\<rparr>
         in (Inr (), d1\<lparr>evm_transaction_intents :=
               sql_update (\<lambda>i. it_id i = ap_intent_id attemptRow \<and>
                    it_status i \<in> {EI_CREATED, EI_NONCE_RESERVED, EI_DISPATCHING})
                 (\<lambda>i. i\<lparr>it_status := EI_PENDING, it_updated_at := now\<rparr>)
                 (evm_transaction_intents d1)\<rparr>)))"

section \<open>Outcomes\<close>

definition markEvmMinedSuccess :: "string \<Rightarrow> string \<Rightarrow> string \<Rightarrow> int \<Rightarrow> int \<Rightarrow> db \<Rightarrow> db" where
  "markEvmMinedSuccess intentId winningAttemptId txHash blockNumber now d =
    (let as1 = sql_update (\<lambda>a. ap_id a = winningAttemptId)
           (\<lambda>a. a\<lparr>ap_status := EA_MINED_SUCCESS, ap_mined_block_number := Some blockNumber,
                  ap_receipt_status := Some 1, ap_reconciled_at := Some now\<rparr>)
           (evm_transaction_attempts d);
         as2 = sql_update (\<lambda>a. ap_intent_id a = intentId \<and> ap_id a \<noteq> winningAttemptId \<and>
                 ap_status a \<in> {EA_BROADCAST, EA_PREPARED})
           (\<lambda>a. a\<lparr>ap_status := EA_SUPERSEDED, ap_reconciled_at := Some now\<rparr>) as1
     in set_intent intentId
          (\<lambda>i. i\<lparr>it_status := EI_CONFIRMED, it_canonical_tx_hash := Some (to_lower txHash),
                 it_updated_at := now\<rparr>) (d\<lparr>evm_transaction_attempts := as2\<rparr>))"

definition markEvmMinedRevert :: "string \<Rightarrow> string \<Rightarrow> int \<Rightarrow> string option \<Rightarrow> int \<Rightarrow> db \<Rightarrow> db" where
  "markEvmMinedRevert intentId attemptId blockNumber errorMessage now d =
    (let message = coalesce errorMessage ''Transaction reverted on-chain''
     in set_intent intentId
          (\<lambda>i. i\<lparr>it_status := EI_REVERTED, it_failure_reason := Some message, it_updated_at := now\<rparr>)
          (d\<lparr>evm_transaction_attempts := sql_update (\<lambda>a. ap_id a = attemptId)
              (\<lambda>a. a\<lparr>ap_status := EA_MINED_REVERT, ap_mined_block_number := Some blockNumber,
                     ap_receipt_status := Some 0, ap_reconciled_at := Some now,
                     ap_error_message := Some message\<rparr>) (evm_transaction_attempts d)\<rparr>))"

text \<open>
  The body three methods share: the nonce is given back only when no attempt was ever broadcast.
\<close>

definition mark_unmined :: "intent_state \<Rightarrow> string \<Rightarrow> string \<Rightarrow> int \<Rightarrow> db \<Rightarrow> db" where
  "mark_unmined st intentId reason now d =
    (if \<not> has_broadcast_attempt intentId d
     then set_intent intentId (\<lambda>i. i\<lparr>it_status := st, it_failure_reason := Some reason,
            it_nonce := None, it_updated_at := now\<rparr>) d
     else set_intent intentId (\<lambda>i. i\<lparr>it_status := st, it_failure_reason := Some reason,
            it_updated_at := now\<rparr>) d)"

definition markEvmFeeCapBlocked :: "string \<Rightarrow> string \<Rightarrow> int \<Rightarrow> db \<Rightarrow> db" where
  "markEvmFeeCapBlocked = mark_unmined EI_FEE_CAP_BLOCKED"

definition markEvmIntentFailed :: "string \<Rightarrow> string \<Rightarrow> int \<Rightarrow> db \<Rightarrow> db" where
  "markEvmIntentFailed = mark_unmined EI_FAILED"

definition markEvmSimulationReverted :: "string \<Rightarrow> string \<Rightarrow> int \<Rightarrow> db \<Rightarrow> db" where
  "markEvmSimulationReverted = mark_unmined EI_REVERTED"

definition markEvmNonceConflict :: "string \<Rightarrow> string \<Rightarrow> int \<Rightarrow> db \<Rightarrow> db" where
  "markEvmNonceConflict intentId reason now d = set_intent intentId
     (\<lambda>i. i\<lparr>it_status := EI_NONCE_CONFLICT, it_failure_reason := Some reason, it_updated_at := now\<rparr>) d"

definition markEvmIntentConfirmedByChainEvidence ::
  "string \<Rightarrow> string option \<Rightarrow> int \<Rightarrow> db \<Rightarrow> (db_error + unit) \<times> db" where
  "markEvmIntentConfirmedByChainEvidence intentId canonicalTxHash now d =
    (let P = (\<lambda>i. it_id i = intentId \<and> it_action_type i = AT_FUND);
         d' = d\<lparr>evm_transaction_intents := sql_update P
           (\<lambda>i. i\<lparr>it_status := EI_CONFIRMED,
                  it_canonical_tx_hash := (case canonicalTxHash of None \<Rightarrow> it_canonical_tx_hash i | h \<Rightarrow> h),
                  it_failure_reason := None, it_updated_at := now\<rparr>) (evm_transaction_intents d)\<rparr>
     in if sql_changes P (evm_transaction_intents d) \<noteq> 1 then (Inl (EvmIntentNotFound intentId), d')
        else (Inr (), d'))"

end
