(* ===== verification/Intent_Laws.thy ===== *)
theory Intent_Laws
  imports Intent_Store
begin

text \<open>
  What the nonce ledger guarantees: a newly reserved nonce is above every nonce any other intent
  of the same signer holds, the unique index is never hit, and a nonce under which something was
  broadcast belongs to its intent for ever.
\<close>

section \<open>Operations and their sequences\<close>

datatype intent_op =
    ICreate intent_params int string
  | IReserve string int bool int
  | IAttempt attempt_params int string
  | IBroadcast string int
  | IMined string string string int int
  | IRevert string string int "string option" int
  | IFeeCap string string int
  | IFailed string string int
  | ISimReverted string string int
  | IConflict string string int
  | IConfirm string "string option" int

fun intent_op_step :: "(string \<Rightarrow> string) \<Rightarrow> intent_op \<Rightarrow> db \<Rightarrow> db" where
  "intent_op_step kc (ICreate p now i) d = snd (getOrCreateEvmIntent kc p now i d)"
| "intent_op_step kc (IReserve i n enf now) d = snd (reserveEvmNonce i n enf now d)"
| "intent_op_step kc (IAttempt p now i) d = snd (recordEvmAttempt kc p now i d)"
| "intent_op_step kc (IBroadcast a now) d = snd (markEvmAttemptBroadcast a now d)"
| "intent_op_step kc (IMined i a h b now) d = markEvmMinedSuccess i a h b now d"
| "intent_op_step kc (IRevert i a b m now) d = markEvmMinedRevert i a b m now d"
| "intent_op_step kc (IFeeCap i r now) d = markEvmFeeCapBlocked i r now d"
| "intent_op_step kc (IFailed i r now) d = markEvmIntentFailed i r now d"
| "intent_op_step kc (ISimReverted i r now) d = markEvmSimulationReverted i r now d"
| "intent_op_step kc (IConflict i r now) d = markEvmNonceConflict i r now d"
| "intent_op_step kc (IConfirm i h now) d = snd (markEvmIntentConfirmedByChainEvidence i h now d)"

text \<open>
  The one duty of the caller: a mined revert is reported with an attempt of that intent.
\<close>

fun intent_op_legal :: "intent_op \<Rightarrow> db \<Rightarrow> bool" where
  "intent_op_legal (IRevert i a b m now) d \<longleftrightarrow>
     (\<exists>x \<in> set (evm_transaction_attempts d). ap_id x = a \<and> ap_intent_id x = i)"
| "intent_op_legal _ d \<longleftrightarrow> True"

fun intent_ops_run :: "(string \<Rightarrow> string) \<Rightarrow> intent_op list \<Rightarrow> db \<Rightarrow> db" where
  "intent_ops_run kc [] d = d"
| "intent_ops_run kc (x # xs) d = intent_ops_run kc xs (intent_op_step kc x d)"

fun intent_ops_legal :: "(string \<Rightarrow> string) \<Rightarrow> intent_op list \<Rightarrow> db \<Rightarrow> bool" where
  "intent_ops_legal kc [] d \<longleftrightarrow> True"
| "intent_ops_legal kc (x # xs) d \<longleftrightarrow> intent_op_legal x d \<and> intent_ops_legal kc xs (intent_op_step kc x d)"

section \<open>The invariant\<close>

definition holds_nonce :: "db \<Rightarrow> intent_row \<Rightarrow> bool" where
  "holds_nonce d i \<longleftrightarrow> it_status i \<notin> set released_statuses \<or> has_broadcast_attempt (it_id i) d"

definition same_account :: "intent_row \<Rightarrow> intent_row \<Rightarrow> bool" where
  "same_account i j \<longleftrightarrow> it_chain_id i = it_chain_id j \<and> it_signer_address i = it_signer_address j"

definition nonces_ok :: "db \<Rightarrow> bool" where
  "nonces_ok d \<longleftrightarrow> keyed it_id (evm_transaction_intents d) \<and>
     (\<forall>i \<in> set (evm_transaction_intents d). to_lower (it_signer_address i) = it_signer_address i \<and>
        (it_nonce i \<noteq> None \<longrightarrow> holds_nonce d i)) \<and>
     (\<forall>i \<in> set (evm_transaction_intents d). \<forall>j \<in> set (evm_transaction_intents d).
        same_account i j \<and> it_nonce i \<noteq> None \<and> it_nonce i = it_nonce j \<longrightarrow> it_id i = it_id j)"

definition broadcast_kept :: "db \<Rightarrow> db \<Rightarrow> bool" where
  "broadcast_kept d d' \<longleftrightarrow> (\<forall>i. has_broadcast_attempt i d \<longrightarrow> has_broadcast_attempt i d')"

lemma broadcast_kept_refl [simp]: "broadcast_kept d d"
  by (simp add: broadcast_kept_def)

lemma broadcast_kept_same:
  "evm_transaction_attempts d' = evm_transaction_attempts d \<Longrightarrow> broadcast_kept d d'"
  by (simp add: broadcast_kept_def has_broadcast_attempt_def)

lemma broadcast_kept_append:
  "evm_transaction_attempts d' = evm_transaction_attempts d @ xs \<Longrightarrow> broadcast_kept d d'"
  by (auto simp: broadcast_kept_def has_broadcast_attempt_def)

lemma broadcast_kept_update:
  assumes "evm_transaction_attempts d' = sql_update P f (evm_transaction_attempts d)"
    and "\<And>a. ap_intent_id (f a) = ap_intent_id a" "\<And>a. ap_status (f a) \<in> set broadcast_statuses"
  shows "broadcast_kept d d'"
proof -
  have "\<exists>b \<in> set (evm_transaction_attempts d'). ap_intent_id b = i \<and> ap_status b \<in> set broadcast_statuses"
    if "a \<in> set (evm_transaction_attempts d)" "ap_intent_id a = i" "ap_status a \<in> set broadcast_statuses" for a i
    unfolding assms(1) set_sql_update using that
    by (intro bexI [OF _ imageI [OF that(1)]]) (auto simp: assms)
  then show ?thesis by (auto simp: broadcast_kept_def has_broadcast_attempt_def)
qed

lemma broadcast_kept_trans: "broadcast_kept a b \<Longrightarrow> broadcast_kept b c \<Longrightarrow> broadcast_kept a c"
  by (simp add: broadcast_kept_def)

text \<open>
  The step every operation but a reservation and a creation is: rows keep identity and account, a
  nonce is kept or given back, and a row that keeps its nonce still holds it.
\<close>

lemma nonces_ok_update:
  assumes ok: "nonces_ok d"
    and up: "evm_transaction_intents d' = sql_update P f (evm_transaction_intents d)"
    and f: "\<And>i. it_id (f i) = it_id i" "\<And>i. it_chain_id (f i) = it_chain_id i"
      "\<And>i. it_signer_address (f i) = it_signer_address i"
    and nonce: "\<And>i. it_nonce (f i) = it_nonce i \<or> it_nonce (f i) = None"
    and live: "\<And>i. i \<in> set (evm_transaction_intents d) \<Longrightarrow> P i \<Longrightarrow> it_nonce (f i) \<noteq> None
      \<Longrightarrow> holds_nonce d' (f i)"
    and kept: "broadcast_kept d d'"
  shows "nonces_ok d'"
proof -
  let ?g = "\<lambda>i. if P i then f i else i"
  have S: "set (evm_transaction_intents d') = ?g ` set (evm_transaction_intents d)"
    by (simp add: up set_sql_update)
  have g: "it_id (?g i) = it_id i" "it_chain_id (?g i) = it_chain_id i"
    "it_signer_address (?g i) = it_signer_address i"
    "it_nonce (?g i) = it_nonce i \<or> it_nonce (?g i) = None" for i
    using f nonce by auto
  have "keyed it_id (evm_transaction_intents d')"
    unfolding up using ok by (simp add: keyed_sql_update f nonces_ok_def)
  moreover have "holds_nonce d' (?g i)"
    if "i \<in> set (evm_transaction_intents d)" "it_nonce (?g i) \<noteq> None" for i
  proof (cases "P i")
    case True
    then show ?thesis using live that by simp
  next
    case False
    then have "holds_nonce d i" using ok that by (auto simp: nonces_ok_def)
    then show ?thesis using False kept by (auto simp: holds_nonce_def broadcast_kept_def)
  qed
  moreover have "it_id (?g i) = it_id (?g j)"
    if "i \<in> set (evm_transaction_intents d)" "j \<in> set (evm_transaction_intents d)"
      "same_account (?g i) (?g j)" "it_nonce (?g i) \<noteq> None" "it_nonce (?g i) = it_nonce (?g j)" for i j
  proof -
    have "same_account i j" using that(3) g by (simp add: same_account_def)
    moreover have "it_nonce i \<noteq> None" "it_nonce i = it_nonce j"
      using g(4) [of i] g(4) [of j] that(4,5) by auto
    ultimately have "it_id i = it_id j" using ok that(1,2) unfolding nonces_ok_def by blast
    then show ?thesis by (simp add: g(1))
  qed
  moreover have "to_lower (it_signer_address (?g i)) = it_signer_address (?g i)"
    if "i \<in> set (evm_transaction_intents d)" for i
    using ok that by (simp add: nonces_ok_def g)
  ultimately show ?thesis unfolding nonces_ok_def S by blast
qed

lemma nonces_ok_same:
  "nonces_ok d \<Longrightarrow> evm_transaction_intents d' = evm_transaction_intents d \<Longrightarrow> broadcast_kept d d'
   \<Longrightarrow> nonces_ok d'"
  by (rule nonces_ok_update [where P = "\<lambda>_. False" and f = "\<lambda>i. i"]) (simp_all add: sql_update_noop)

section \<open>Reserving a nonce\<close>

lemma fold_max_ge: "n \<le> fold max ns (n :: int) \<and> (\<forall>m \<in> set ns. m \<le> fold max ns n)"
proof (induction ns arbitrary: n)
  case (Cons a ns)
  from Cons.IH [of "max a n"] show ?case by auto
qed simp

lemma highest_nonce_ge: "m \<in> set ns \<Longrightarrow> m \<le> highest_nonce ns"
  using fold_max_ge by (cases ns) (auto simp: highest_nonce_def)

lemma held_nonces_complete:
  assumes "q \<in> set (evm_transaction_intents d)" "it_nonce q = Some m" "holds_nonce d q"
  shows "m \<in> set (held_nonces (it_chain_id q) (it_signer_address q) d)"
  using assms by (force simp: held_nonces_def List.map_filter_def holds_nonce_def)

lemma get_intent_Some: "get_intent i d = Some r \<Longrightarrow> r \<in> set (evm_transaction_intents d) \<and> it_id r = i"
  using sql_get_Some by (fastforce simp: get_intent_def)

lemma intent_unique:
  assumes "nonces_ok d" "get_intent i d = Some row" "q \<in> set (evm_transaction_intents d)" "it_id q = i"
  shows "q = row"
  using keyed_get [of it_id, OF _ assms(3)] assms(1,2,4) by (simp add: nonces_ok_def get_intent_def)

text \<open>The candidate is above every held nonce of the account, so the unique index cannot fail.\<close>

lemma candidate_above:
  assumes ok: "nonces_ok d" and i: "get_intent i d = Some row"
    and q: "q \<in> set (evm_transaction_intents d)" "same_account row q" "it_nonce q = Some m"
  shows "m < max rpc (highest_nonce (held_nonces (it_chain_id row) (to_lower (it_signer_address row)) d) + 1)"
proof -
  have "to_lower (it_signer_address row) = it_signer_address row"
    using ok get_intent_Some [OF i] by (auto simp: nonces_ok_def)
  moreover have "holds_nonce d q" using ok q by (auto simp: nonces_ok_def)
  ultimately have "m \<in> set (held_nonces (it_chain_id row) (to_lower (it_signer_address row)) d)"
    using held_nonces_complete [OF q(1,3)] q(2) by (simp add: same_account_def)
  from highest_nonce_ge [OF this] show ?thesis by linarith
qed

lemma reserve_nonce_cases:
  assumes ok: "nonces_ok d" and r: "reserveEvmNonce i rpc enf now d = (r, d')"
  obtains (missing) "get_intent i d = None" "r = Inl (EvmIntentNotFound i)" "d' = d"
  | (has) row n where "get_intent i d = Some row" "it_nonce row = Some n"
      "r = Inr (mapRowToEvmIntent row, n)" "d' = d"
  | (blocked) row and u :: intent_row where "get_intent i d = Some row" "it_nonce row = None" "enf"
      "r = Inl (UnresolvedNonceReservation (it_id u))" "d' = d"
  | (reserved) row n where "get_intent i d = Some row" "it_nonce row = None"
      "n = max rpc (highest_nonce (held_nonces (it_chain_id row) (to_lower (it_signer_address row)) d) + 1)"
      "r = Inr (mapRowToEvmIntent (row\<lparr>it_nonce := Some n, it_status := EI_NONCE_RESERVED,
          it_updated_at := now\<rparr>), n)"
      "d' = d\<lparr>evm_transaction_intents := sql_update (\<lambda>q. it_id q = i)
          (\<lambda>q. q\<lparr>it_nonce := Some n, it_status := EI_NONCE_RESERVED, it_updated_at := now\<rparr>)
          (evm_transaction_intents d)\<rparr>"
proof (cases "get_intent i d")
  case None
  with r show ?thesis by (intro missing) (auto simp: reserveEvmNonce_def transaction_def)
next
  case (Some row)
  show ?thesis
  proof (cases "it_nonce row")
    case (Some n)
    with r \<open>get_intent i d = Some row\<close> show ?thesis
      by (intro has) (auto simp: reserveEvmNonce_def transaction_def)
  next
    case None
    let ?s = "to_lower (it_signer_address row)"
    let ?n = "max rpc (highest_nonce (held_nonces (it_chain_id row) ?s d) + 1)"
    show ?thesis
    proof (cases "if enf then getUnresolvedNonceReservation (it_chain_id row) ?s (Some i) d else None")
      case (Some u)
      with r \<open>get_intent i d = Some row\<close> None show ?thesis
        by (intro blocked [of row u]) (auto simp: reserveEvmNonce_def transaction_def Let_def split: if_splits)
    next
      case ne: None
      let ?d = "d\<lparr>evm_transaction_intents := sql_update (\<lambda>q. it_id q = i)
          (\<lambda>q. q\<lparr>it_nonce := Some ?n, it_status := EI_NONCE_RESERVED, it_updated_at := now\<rparr>)
          (evm_transaction_intents d)\<rparr>"
      have row: "row \<in> set (evm_transaction_intents d)" "it_id row = i"
        using get_intent_Some [OF Some] by auto
      have "\<not> (\<exists>x \<in> set (evm_transaction_intents d). \<exists>q \<in> set (evm_transaction_intents d).
          it_id x = i \<and> it_id q \<noteq> i \<and> it_chain_id q = it_chain_id x \<and>
          it_signer_address q = it_signer_address x \<and> it_nonce q = Some ?n)"
      proof clarify
        fix x q
        assume x: "x \<in> set (evm_transaction_intents d)" "i = it_id x"
          and q: "q \<in> set (evm_transaction_intents d)" "it_chain_id q = it_chain_id x"
            "it_signer_address q = it_signer_address x" "it_nonce q = Some ?n"
        have "x = row" using intent_unique [OF ok Some x(1)] x(2) by simp
        with q have "same_account row q" by (simp add: same_account_def)
        from candidate_above [OF ok Some q(1) this q(4), of rpc] show False by simp
      qed
      then have "update_nonce i ?n now d = (Inr (), ?d)" by (simp add: update_nonce_def)
      moreover have "get_intent i ?d = Some (row\<lparr>it_nonce := Some ?n, it_status := EI_NONCE_RESERVED,
          it_updated_at := now\<rparr>)"
        using Some row(2) by (simp add: get_intent_def sql_get_update)
      ultimately show ?thesis
        using r Some None ne
        by (intro reserved) (auto simp: reserveEvmNonce_def transaction_def Let_def)
    qed
  qed
qed

lemma reserve_keeps_ok:
  assumes ok: "nonces_ok d" and r: "reserveEvmNonce i rpc enf now d = (r, d')"
  shows "nonces_ok d'"
  using ok r
proof (cases rule: reserve_nonce_cases)
  case (reserved row n)
  let ?f = "\<lambda>q. q\<lparr>it_nonce := Some n, it_status := EI_NONCE_RESERVED, it_updated_at := now\<rparr>"
  let ?g = "\<lambda>q. if it_id q = i then ?f q else q"
  have S: "set (evm_transaction_intents d') = ?g ` set (evm_transaction_intents d)"
    by (simp add: reserved(5) set_sql_update)
  have bc: "has_broadcast_attempt x d' = has_broadcast_attempt x d" for x
    by (simp add: reserved(5) has_broadcast_attempt_def)
  have g: "it_id (?g q) = it_id q" "it_signer_address (?g q) = it_signer_address q"
    "same_account (?g p) (?g q) = same_account p q" for p q
    by (simp_all add: same_account_def)
  have row: "row \<in> set (evm_transaction_intents d)" "it_id row = i"
    using get_intent_Some [OF reserved(1)] by auto
  have only: "q = row" if "q \<in> set (evm_transaction_intents d)" "it_id q = i" for q
    by (rule intent_unique [OF ok reserved(1) that])
  have above: "m < n" if "q \<in> set (evm_transaction_intents d)" "same_account row q" "it_nonce q = Some m" for q m
    using candidate_above [OF ok reserved(1) that, of rpc] by (simp add: reserved(3))
  have "keyed it_id (evm_transaction_intents d')"
    using ok by (simp add: reserved(5) keyed_sql_update nonces_ok_def)
  moreover have "it_nonce (?g q) \<noteq> None \<longrightarrow> holds_nonce d' (?g q)"
    if "q \<in> set (evm_transaction_intents d)" for q
    using ok that by (auto simp: nonces_ok_def holds_nonce_def bc released_statuses_def)
  moreover have "it_id p = it_id q"
    if "p \<in> set (evm_transaction_intents d)" "q \<in> set (evm_transaction_intents d)"
      "same_account p q" "it_nonce (?g p) \<noteq> None" "it_nonce (?g p) = it_nonce (?g q)" for p q
  proof (rule ccontr)
    assume ne: "it_id p \<noteq> it_id q"
    consider "it_id p = i" | "it_id q = i" | "it_id p \<noteq> i" "it_id q \<noteq> i" by blast
    then show False
    proof cases
      case 1
      with that ne only [OF that(1)] above [OF that(2), of n] show False by simp
    next
      case 2
      with that ne only [OF that(2)] above [OF that(1), of n] show False by (simp add: same_account_def)
    next
      case 3
      with that ne ok show False by (simp add: nonces_ok_def)
    qed
  qed
  moreover have "to_lower (it_signer_address q) = it_signer_address q"
    if "q \<in> set (evm_transaction_intents d)" for q
    using ok that by (simp add: nonces_ok_def)
  ultimately show ?thesis
    unfolding nonces_ok_def S ball_simps(9) g by blast
next
  case missing
  with ok show ?thesis by simp
next
  case (has row n)
  with ok show ?thesis by simp
next
  case (blocked row u)
  with ok show ?thesis by simp
qed

section \<open>The other operations\<close>

lemma create_intent_cases:
  assumes "getOrCreateEvmIntent kc p now nid d = (r, d')"
  obtains (same) "d' = d"
  | (created) "d' = d\<lparr>evm_transaction_intents := evm_transaction_intents d @ [new_intent kc p now nid]\<rparr>"
      "\<forall>q \<in> set (evm_transaction_intents d). it_id q \<noteq> nid"
proof (cases "is_ok (fst (insert_intent (new_intent kc p now nid) d))")
  case True
  then have "insert_intent (new_intent kc p now nid) d =
      (Inr (), d\<lparr>evm_transaction_intents := evm_transaction_intents d @ [new_intent kc p now nid]\<rparr>)"
    "\<forall>q \<in> set (evm_transaction_intents d). it_id q \<noteq> nid"
    by (auto simp: insert_intent_def new_intent_def split: if_splits)
  note i = this
  show ?thesis
  proof (cases "getEvmIntentBySwapKey (pi_swapKey p) (pi_actionType p) d")
    case None
    with assms i(1) have "d' = d\<lparr>evm_transaction_intents := evm_transaction_intents d @ [new_intent kc p now nid]\<rparr>"
      by (simp add: getOrCreateEvmIntent_def)
    then show ?thesis using i(2) by (rule created)
  next
    case (Some x)
    with assms have "d' = d" by (simp add: getOrCreateEvmIntent_def)
    then show ?thesis by (rule same)
  qed
next
  case False
  then obtain e where "insert_intent (new_intent kc p now nid) d = (Inl e, d)"
    by (auto simp: insert_intent_def split: if_splits)
  with assms have "d' = d"
    by (cases "getEvmIntentBySwapKey (pi_swapKey p) (pi_actionType p) d")
       (simp_all add: getOrCreateEvmIntent_def)
  then show ?thesis by (rule same)
qed

lemma create_intent_ok:
  assumes ok: "nonces_ok d" and c: "getOrCreateEvmIntent kc p now nid d = (r, d')"
  shows "nonces_ok d'" "broadcast_kept d d'"
proof -
  from c have "nonces_ok d' \<and> broadcast_kept d d'"
  proof (cases rule: create_intent_cases)
    case created
    have bc: "has_broadcast_attempt x d' = has_broadcast_attempt x d" for x
      by (simp add: created(1) has_broadcast_attempt_def)
    have i: "evm_transaction_intents d' = evm_transaction_intents d @ [new_intent kc p now nid]"
      by (simp add: created(1))
    have n: "it_id (new_intent kc p now nid) = nid" "it_nonce (new_intent kc p now nid) = None"
      "it_signer_address (new_intent kc p now nid) = to_lower (pi_signerAddress p)"
      by (simp_all add: new_intent_def)
    have h: "holds_nonce d' q = holds_nonce d q" for q by (simp add: holds_nonce_def bc)
    have fresh: "nid \<notin> it_id ` set (evm_transaction_intents d)" using created(2) by blast
    have "same_account q x \<and> it_nonce q \<noteq> None \<and> it_nonce q = it_nonce x \<longrightarrow> it_id q = it_id x"
      if "q \<in> insert (new_intent kc p now nid) (set (evm_transaction_intents d))"
        "x \<in> insert (new_intent kc p now nid) (set (evm_transaction_intents d))" for q x
    proof (cases "it_nonce q = None \<or> it_nonce x = None")
      case False
      with that n(2) have "q \<in> set (evm_transaction_intents d)" "x \<in> set (evm_transaction_intents d)" by auto
      with ok show ?thesis unfolding nonces_ok_def by blast
    qed auto
    moreover have "to_lower (it_signer_address q) = it_signer_address q \<and> (it_nonce q \<noteq> None \<longrightarrow> holds_nonce d' q)"
      if "q \<in> insert (new_intent kc p now nid) (set (evm_transaction_intents d))" for q
      using that ok n by (auto simp: nonces_ok_def h)
    moreover have "keyed it_id (evm_transaction_intents d')"
      using ok fresh by (simp add: i keyed_append1 n nonces_ok_def)
    moreover have "set (evm_transaction_intents d') = insert (new_intent kc p now nid) (set (evm_transaction_intents d))"
      by (simp add: i)
    ultimately have "nonces_ok d'" unfolding nonces_ok_def by metis
    then show ?thesis by (simp add: broadcast_kept_def bc)
  qed (use ok in simp)
  then show "nonces_ok d'" "broadcast_kept d d'" by simp_all
qed

lemma insert_attempt_cases:
  assumes "insert_attempt row d = (r, d')"
  obtains (ok) "r = Inr ()" "d' = d\<lparr>evm_transaction_attempts := evm_transaction_attempts d @ [row]\<rparr>"
  | (error) e where "r = Inl e" "d' = d"
  using assms by (auto simp: insert_attempt_def split: if_splits)

lemma record_attempt_cases:
  assumes r: "recordEvmAttempt kc p now nid d = (r, d')"
  obtains (same) "d' = d"
  | (added) "evm_transaction_attempts d' = evm_transaction_attempts d @ [new_attempt kc p now nid]"
      "evm_transaction_intents d' = sql_update (\<lambda>i. it_id i = pa_intentId p)
         (\<lambda>i. i\<lparr>it_status := EI_DISPATCHING, it_updated_at := now\<rparr>) (evm_transaction_intents d)"
proof (cases "find_attempt (pa_intentId p) (pa_attemptNumber p) d")
  case (Some a)
  with r show ?thesis by (intro same) (simp add: recordEvmAttempt_def)
next
  case n: None
  obtain x d1 where i: "insert_attempt (new_attempt kc p now nid) d = (x, d1)" by (metis surj_pair)
  then show ?thesis
  proof (cases rule: insert_attempt_cases)
    case (error e)
    with r n i show ?thesis
      by (intro same) (auto simp: recordEvmAttempt_def split: if_splits)
  next
    case ok
    show ?thesis
    proof (cases "sql_get (\<lambda>a. ap_id a = nid) (evm_transaction_attempts d1)")
      case None
      with r i ok n show ?thesis
        by (intro same) (simp add: recordEvmAttempt_def set_intent_def)
    next
      case (Some a)
      with r i ok n show ?thesis
        by (intro added) (auto simp: recordEvmAttempt_def set_intent_def)
    qed
  qed
qed

lemma attempt_ok:
  assumes ok: "nonces_ok d" and c: "recordEvmAttempt kc p now nid d = (r, d')"
  shows "nonces_ok d'" "broadcast_kept d d'"
proof -
  from c have "nonces_ok d' \<and> broadcast_kept d d'"
  proof (cases rule: record_attempt_cases)
    case added
    show ?thesis
      using nonces_ok_update [OF ok added(2)] broadcast_kept_append [OF added(1)]
      by (simp add: holds_nonce_def released_statuses_def)
  qed (use ok in simp)
  then show "nonces_ok d'" "broadcast_kept d d'" by simp_all
qed

lemma broadcast_ok:
  assumes ok: "nonces_ok d"
  shows "nonces_ok (snd (markEvmAttemptBroadcast a now d))"
    "broadcast_kept d (snd (markEvmAttemptBroadcast a now d))"
proof -
  have "nonces_ok (snd (markEvmAttemptBroadcast a now d)) \<and>
    broadcast_kept d (snd (markEvmAttemptBroadcast a now d))"
  proof (cases "sql_get (\<lambda>x. ap_id x = a) (evm_transaction_attempts d)")
    case None
    then show ?thesis using ok by (simp add: markEvmAttemptBroadcast_def transaction_def)
  next
    case (Some row)
    let ?d = "snd (markEvmAttemptBroadcast a now d)"
    have a: "evm_transaction_attempts ?d = sql_update (\<lambda>x. ap_id x = a)
               (\<lambda>a. a\<lparr>ap_status := EA_BROADCAST, ap_broadcast_at := Some now\<rparr>) (evm_transaction_attempts d)"
      and i: "evm_transaction_intents ?d = sql_update (\<lambda>i. it_id i = ap_intent_id row \<and>
                    it_status i \<in> {EI_CREATED, EI_NONCE_RESERVED, EI_DISPATCHING})
                 (\<lambda>i. i\<lparr>it_status := EI_PENDING, it_updated_at := now\<rparr>) (evm_transaction_intents d)"
      using Some by (simp_all add: markEvmAttemptBroadcast_def transaction_def)
    have k: "broadcast_kept d ?d"
      by (rule broadcast_kept_update [OF a]) (simp_all add: broadcast_statuses_def)
    have "nonces_ok ?d"
      by (rule nonces_ok_update [OF ok i]) (simp_all add: holds_nonce_def released_statuses_def k)
    with k show ?thesis by simp
  qed
  then show "nonces_ok (snd (markEvmAttemptBroadcast a now d))"
    "broadcast_kept d (snd (markEvmAttemptBroadcast a now d))" by simp_all
qed

lemma broadcast_kept_mined: "broadcast_kept d (markEvmMinedSuccess i a h b now d)"
proof -
  let ?f1 = "\<lambda>a. a\<lparr>ap_status := EA_MINED_SUCCESS, ap_mined_block_number := Some b,
                  ap_receipt_status := Some 1, ap_reconciled_at := Some now\<rparr>"
  let ?d1 = "d\<lparr>evm_transaction_attempts := sql_update (\<lambda>x. ap_id x = a) ?f1 (evm_transaction_attempts d)\<rparr>"
  have "broadcast_kept d ?d1"
    by (rule broadcast_kept_update [where P = "\<lambda>x. ap_id x = a" and f = ?f1])
       (simp_all add: broadcast_statuses_def)
  moreover have "broadcast_kept ?d1 (markEvmMinedSuccess i a h b now d)"
    by (rule broadcast_kept_update [where P = "\<lambda>x. ap_intent_id x = i \<and> ap_id x \<noteq> a \<and>
            ap_status x \<in> {EA_BROADCAST, EA_PREPARED}"
          and f = "\<lambda>a. a\<lparr>ap_status := EA_SUPERSEDED, ap_reconciled_at := Some now\<rparr>"])
       (simp_all add: broadcast_statuses_def markEvmMinedSuccess_def Let_def set_intent_def)
  ultimately show ?thesis by (rule broadcast_kept_trans)
qed

lemma mined_ok:
  assumes "nonces_ok d"
  shows "nonces_ok (markEvmMinedSuccess i a h b now d)"
proof -
  have "evm_transaction_intents (markEvmMinedSuccess i a h b now d) = sql_update (\<lambda>x. it_id x = i)
      (\<lambda>x. x\<lparr>it_status := EI_CONFIRMED, it_canonical_tx_hash := Some (to_lower h), it_updated_at := now\<rparr>)
      (evm_transaction_intents d)"
    by (simp add: markEvmMinedSuccess_def Let_def set_intent_def)
  from nonces_ok_update [OF assms this _ _ _ _ _ broadcast_kept_mined] show ?thesis
    by (simp add: holds_nonce_def released_statuses_def)
qed

lemma revert_attempts:
  "evm_transaction_attempts (markEvmMinedRevert i a b m now d) = sql_update (\<lambda>x. ap_id x = a)
     (\<lambda>x. x\<lparr>ap_status := EA_MINED_REVERT, ap_mined_block_number := Some b, ap_receipt_status := Some 0,
       ap_reconciled_at := Some now,
       ap_error_message := Some (coalesce m ''Transaction reverted on-chain'')\<rparr>)
     (evm_transaction_attempts d)"
  by (simp add: markEvmMinedRevert_def Let_def set_intent_def)

lemma broadcast_kept_revert: "broadcast_kept d (markEvmMinedRevert i a b m now d)"
  by (rule broadcast_kept_update [OF revert_attempts]) (simp_all add: broadcast_statuses_def)

lemma revert_ok:
  assumes ok: "nonces_ok d"
    and x: "\<exists>x \<in> set (evm_transaction_attempts d). ap_id x = a \<and> ap_intent_id x = i"
  shows "nonces_ok (markEvmMinedRevert i a b m now d)"
proof -
  let ?d = "markEvmMinedRevert i a b m now d"
  let ?f = "\<lambda>x. x\<lparr>ap_status := EA_MINED_REVERT, ap_mined_block_number := Some b, ap_receipt_status := Some 0,
       ap_reconciled_at := Some now,
       ap_error_message := Some (coalesce m ''Transaction reverted on-chain'')\<rparr>"
  obtain x where x: "x \<in> set (evm_transaction_attempts d)" "ap_id x = a" "ap_intent_id x = i" using x by blast
  have "?f x \<in> set (evm_transaction_attempts ?d)"
    unfolding revert_attempts set_sql_update using x(1,2) by force
  then have h: "has_broadcast_attempt i ?d"
    unfolding has_broadcast_attempt_def
    by (rule bexI [rotated]) (simp add: x(3) broadcast_statuses_def)
  have "evm_transaction_intents ?d = sql_update (\<lambda>q. it_id q = i) (\<lambda>q. q\<lparr>it_status := EI_REVERTED,
      it_failure_reason := Some (coalesce m ''Transaction reverted on-chain''), it_updated_at := now\<rparr>)
      (evm_transaction_intents d)"
    by (simp add: markEvmMinedRevert_def Let_def set_intent_def)
  from nonces_ok_update [OF ok this _ _ _ _ _ broadcast_kept_revert] h show ?thesis
    by (simp add: holds_nonce_def)
qed

lemma unmined_attempts [simp]: "evm_transaction_attempts (mark_unmined st i r now d) = evm_transaction_attempts d"
  by (simp add: mark_unmined_def set_intent_def)

lemma unmined_intents:
  "evm_transaction_intents (mark_unmined st i r now d) = sql_update (\<lambda>q. it_id q = i)
     (\<lambda>q. q\<lparr>it_status := st, it_failure_reason := Some r,
        it_nonce := (if has_broadcast_attempt i d then it_nonce q else None), it_updated_at := now\<rparr>)
     (evm_transaction_intents d)"
  by (simp add: mark_unmined_def set_intent_def)

lemma unmined_kept: "broadcast_kept d (mark_unmined st i r now d)"
  by (rule broadcast_kept_same) simp

lemma unmined_ok:
  assumes ok: "nonces_ok d"
  shows "nonces_ok (mark_unmined st i r now d)"
proof -
  have h: "has_broadcast_attempt i d \<Longrightarrow> has_broadcast_attempt i (mark_unmined st i r now d)"
    using unmined_kept by (simp add: broadcast_kept_def)
  show ?thesis
    by (rule nonces_ok_update [OF ok unmined_intents _ _ _ _ _ unmined_kept])
       (use h in \<open>auto simp: holds_nonce_def split: if_splits\<close>)
qed

lemma conflict_ok:
  assumes "nonces_ok d"
  shows "nonces_ok (markEvmNonceConflict i r now d)"
    "broadcast_kept d (markEvmNonceConflict i r now d)"
proof -
  show k: "broadcast_kept d (markEvmNonceConflict i r now d)"
    by (rule broadcast_kept_same) (simp add: markEvmNonceConflict_def set_intent_def)
  have "evm_transaction_intents (markEvmNonceConflict i r now d) = sql_update (\<lambda>q. it_id q = i)
      (\<lambda>q. q\<lparr>it_status := EI_NONCE_CONFLICT, it_failure_reason := Some r, it_updated_at := now\<rparr>)
      (evm_transaction_intents d)"
    by (simp add: markEvmNonceConflict_def set_intent_def)
  from nonces_ok_update [OF assms this _ _ _ _ _ k] show "nonces_ok (markEvmNonceConflict i r now d)"
    by (simp add: holds_nonce_def released_statuses_def)
qed

lemma confirm_ok:
  assumes "nonces_ok d"
  shows "nonces_ok (snd (markEvmIntentConfirmedByChainEvidence i h now d))"
    "broadcast_kept d (snd (markEvmIntentConfirmedByChainEvidence i h now d))"
proof -
  let ?d = "snd (markEvmIntentConfirmedByChainEvidence i h now d)"
  have i: "evm_transaction_intents ?d = sql_update (\<lambda>q. it_id q = i \<and> it_action_type q = AT_FUND)
      (\<lambda>q. q\<lparr>it_status := EI_CONFIRMED,
         it_canonical_tx_hash := (case h of None \<Rightarrow> it_canonical_tx_hash q | x \<Rightarrow> x),
         it_failure_reason := None, it_updated_at := now\<rparr>) (evm_transaction_intents d)"
    by (simp add: markEvmIntentConfirmedByChainEvidence_def Let_def)
  show k: "broadcast_kept d ?d"
    by (rule broadcast_kept_same) (simp add: markEvmIntentConfirmedByChainEvidence_def Let_def)
  show "nonces_ok ?d"
    by (rule nonces_ok_update [OF assms i _ _ _ _ _ k]) (simp_all add: holds_nonce_def released_statuses_def)
qed


section \<open>Runs\<close>

lemma reserve_kept: "broadcast_kept d (snd (reserveEvmNonce i n enf now d))"
proof -
  have "evm_transaction_attempts (snd (reserveEvmNonce i n enf now d)) = evm_transaction_attempts d"
    by (auto simp: reserveEvmNonce_def transaction_def update_nonce_def Let_def
        split: option.splits sum.splits prod.splits if_splits)
  then show ?thesis by (rule broadcast_kept_same)
qed

lemma intent_step_ok:
  assumes "nonces_ok d" "intent_op_legal x d"
  shows "nonces_ok (intent_op_step kc x d) \<and> broadcast_kept d (intent_op_step kc x d)"
  using assms
proof (induction kc x d rule: intent_op_step.induct)
  case (1 kc p now i d)
  then show ?case using create_intent_ok [OF _ surjective_pairing] by simp
next
  case (2 kc i n enf now d)
  then show ?case using reserve_keeps_ok [OF _ surjective_pairing] reserve_kept by simp
next
  case (3 kc p now i d)
  then show ?case using attempt_ok [OF _ surjective_pairing] by simp
next
  case (6 kc i a b m now d)
  then show ?case using revert_ok broadcast_kept_revert by simp
qed (simp_all add: broadcast_ok mined_ok broadcast_kept_mined unmined_ok unmined_kept conflict_ok
    confirm_ok markEvmFeeCapBlocked_def markEvmIntentFailed_def markEvmSimulationReverted_def)

lemma intent_run_ok:
  "nonces_ok d \<Longrightarrow> intent_ops_legal kc xs d \<Longrightarrow>
   nonces_ok (intent_ops_run kc xs d) \<and> broadcast_kept d (intent_ops_run kc xs d)"
proof (induction xs arbitrary: d)
  case (Cons x xs)
  then have s: "nonces_ok (intent_op_step kc x d)" "broadcast_kept d (intent_op_step kc x d)"
    using intent_step_ok by auto
  with Cons.IH [OF s(1)] Cons.prems(2) show ?case by (auto intro: broadcast_kept_trans)
qed simp

lemma intent_ops_append:
  "intent_ops_run kc (xs @ ys) d = intent_ops_run kc ys (intent_ops_run kc xs d)"
  "intent_ops_legal kc (xs @ ys) d \<longleftrightarrow>
     intent_ops_legal kc xs d \<and> intent_ops_legal kc ys (intent_ops_run kc xs d)"
  by (induction xs arbitrary: d) simp_all

lemma nonces_ok_empty: "nonces_ok empty_db"
  by (simp add: nonces_ok_def empty_db_def)

lemma reserve_nonce_fresh_case:
  assumes ok: "nonces_ok d" and r: "reserveEvmNonce i rpc enf now d = (Inr (x, n), d')"
    and i: "get_intent i d = Some row" "it_nonce row = None"
  shows "\<forall>q \<in> set (evm_transaction_intents d). \<forall>m. same_account row q \<and> it_nonce q = Some m \<longrightarrow> m < n"
  using ok r
proof (cases rule: reserve_nonce_cases)
  case (reserved row' n')
  then show ?thesis using candidate_above [OF ok i(1), of _ _ rpc] i(1) by auto
qed (use i in auto)

section \<open>A broadcast nonce stays with its intent\<close>

definition bound :: "string \<Rightarrow> int \<Rightarrow> int \<Rightarrow> string \<Rightarrow> db \<Rightarrow> bool" where
  "bound i n chain signer d \<longleftrightarrow> has_broadcast_attempt i d \<and>
     (\<exists>row. get_intent i d = Some row \<and> it_nonce row = Some n \<and> it_chain_id row = chain \<and>
            it_signer_address row = signer)"

lemma bound_update:
  assumes "bound i n c s d"
    and up: "evm_transaction_intents d' = sql_update P f (evm_transaction_intents d)"
    and f: "\<And>q. it_id (f q) = it_id q" "\<And>q. it_chain_id (f q) = it_chain_id q"
      "\<And>q. it_signer_address (f q) = it_signer_address q"
      "\<And>q. P q \<Longrightarrow> it_id q = i \<Longrightarrow> it_nonce q = Some n \<Longrightarrow> it_nonce (f q) = Some n"
    and kept: "broadcast_kept d d'"
  shows "bound i n c s d'"
proof -
  obtain row where r: "get_intent i d = Some row" "it_nonce row = Some n" "it_chain_id row = c"
      "it_signer_address row = s" and h: "has_broadcast_attempt i d"
    using assms(1) by (auto simp: bound_def)
  have "get_intent i d' = Some (if P row then f row else row)"
    using r(1) unfolding get_intent_def up by (simp add: sql_get_update f)
  with r h kept f get_intent_Some [OF r(1)] show ?thesis
    unfolding bound_def broadcast_kept_def by (cases "P row") auto
qed

lemma bound_same:
  "bound i n c s d \<Longrightarrow> evm_transaction_intents d' = evm_transaction_intents d @ xs \<Longrightarrow>
   broadcast_kept d d' \<Longrightarrow> bound i n c s d'"
  by (auto simp: bound_def get_intent_def sql_get_append broadcast_kept_def)

lemma bound_reserve:
  assumes "nonces_ok d" "bound i n c s d"
  shows "bound i n c s (snd (reserveEvmNonce j rpc enf now d))"
proof -
  obtain r d' where e: "reserveEvmNonce j rpc enf now d = (r, d')" by (metis surj_pair)
  from assms(1) e show ?thesis
  proof (cases rule: reserve_nonce_cases)
    case (reserved row m)
    then have "i \<noteq> j" using assms(2) by (auto simp: bound_def)
    with reserved(5) have "evm_transaction_intents d' = sql_update (\<lambda>q. it_id q = j)
          (\<lambda>q. q\<lparr>it_nonce := Some m, it_status := EI_NONCE_RESERVED, it_updated_at := now\<rparr>)
          (evm_transaction_intents d)" by simp
    from bound_update [OF assms(2) this] \<open>i \<noteq> j\<close> reserve_kept [of d j rpc enf now]
    show ?thesis by (simp add: e)
  qed (use assms(2) e in simp_all)
qed

lemma bound_unmined:
  assumes b: "bound i n c s d"
  shows "bound i n c s (mark_unmined st j r now d)"
proof -
  have "has_broadcast_attempt i d" using b by (simp add: bound_def)
  then show ?thesis
    by (intro bound_update [OF b unmined_intents _ _ _ _ unmined_kept]) auto
qed

lemma bound_step:
  assumes "nonces_ok d" "intent_op_legal x d" "bound i n c s d"
  shows "bound i n c s (intent_op_step kc x d)"
  using assms
proof (induction kc x d rule: intent_op_step.induct)
  case (1 kc p now j d)
  obtain r d' where e: "getOrCreateEvmIntent kc p now j d = (r, d')" by (metis surj_pair)
  then show ?case
  proof (cases rule: create_intent_cases)
    case created
    then show ?thesis
      using bound_same [OF 1(3), of d'] create_intent_ok(2) [OF 1(1) e] by (simp add: e)
  qed (use 1 e in simp)
next
  case (2 kc j rpc enf now d)
  then show ?case by (simp add: bound_reserve)
next
  case (3 kc p now j d)
  obtain r d' where e: "recordEvmAttempt kc p now j d = (r, d')" by (metis surj_pair)
  then show ?case
  proof (cases rule: record_attempt_cases)
    case added
    then show ?thesis
      using bound_update [OF 3(3) added(2)] attempt_ok(2) [OF 3(1) e] by (simp add: e)
  qed (use 3 e in simp)
next
  case (4 kc a now d)
  show ?case
  proof (cases "sql_get (\<lambda>x. ap_id x = a) (evm_transaction_attempts d)")
    case None
    then show ?thesis using 4 by (simp add: markEvmAttemptBroadcast_def transaction_def)
  next
    case (Some row)
    let ?d = "snd (markEvmAttemptBroadcast a now d)"
    have "evm_transaction_intents ?d = sql_update (\<lambda>i. it_id i = ap_intent_id row \<and>
                    it_status i \<in> {EI_CREATED, EI_NONCE_RESERVED, EI_DISPATCHING})
                 (\<lambda>i. i\<lparr>it_status := EI_PENDING, it_updated_at := now\<rparr>) (evm_transaction_intents d)"
      using Some by (simp add: markEvmAttemptBroadcast_def transaction_def)
    from bound_update [OF 4(3) this] broadcast_ok(2) [OF 4(1)] show ?thesis by simp
  qed
next
  case (5 kc j a h b now d)
  have "evm_transaction_intents (markEvmMinedSuccess j a h b now d) = sql_update (\<lambda>x. it_id x = j)
      (\<lambda>x. x\<lparr>it_status := EI_CONFIRMED, it_canonical_tx_hash := Some (to_lower h), it_updated_at := now\<rparr>)
      (evm_transaction_intents d)"
    by (simp add: markEvmMinedSuccess_def Let_def set_intent_def)
  from bound_update [OF 5(3) this] broadcast_kept_mined show ?case by simp
next
  case (6 kc j a b m now d)
  have "evm_transaction_intents (markEvmMinedRevert j a b m now d) = sql_update (\<lambda>q. it_id q = j)
      (\<lambda>q. q\<lparr>it_status := EI_REVERTED,
      it_failure_reason := Some (coalesce m ''Transaction reverted on-chain''), it_updated_at := now\<rparr>)
      (evm_transaction_intents d)"
    by (simp add: markEvmMinedRevert_def Let_def set_intent_def)
  from bound_update [OF 6(3) this] broadcast_kept_revert show ?case by simp
next
  case (7 kc j r now d)
  then show ?case by (simp add: markEvmFeeCapBlocked_def bound_unmined)
next
  case (8 kc j r now d)
  then show ?case by (simp add: markEvmIntentFailed_def bound_unmined)
next
  case (9 kc j r now d)
  then show ?case by (simp add: markEvmSimulationReverted_def bound_unmined)
next
  case (10 kc j r now d)
  have "evm_transaction_intents (markEvmNonceConflict j r now d) = sql_update (\<lambda>q. it_id q = j)
      (\<lambda>q. q\<lparr>it_status := EI_NONCE_CONFLICT, it_failure_reason := Some r, it_updated_at := now\<rparr>)
      (evm_transaction_intents d)"
    by (simp add: markEvmNonceConflict_def set_intent_def)
  from bound_update [OF 10(3) this] conflict_ok(2) [OF 10(1)] show ?case by simp
next
  case (11 kc j h now d)
  have "evm_transaction_intents (snd (markEvmIntentConfirmedByChainEvidence j h now d)) =
      sql_update (\<lambda>q. it_id q = j \<and> it_action_type q = AT_FUND)
      (\<lambda>q. q\<lparr>it_status := EI_CONFIRMED,
         it_canonical_tx_hash := (case h of None \<Rightarrow> it_canonical_tx_hash q | x \<Rightarrow> x),
         it_failure_reason := None, it_updated_at := now\<rparr>) (evm_transaction_intents d)"
    by (simp add: markEvmIntentConfirmedByChainEvidence_def Let_def)
  from bound_update [OF 11(3) this] confirm_ok(2) [OF 11(1)] show ?case by simp
qed

lemma bound_run:
  "nonces_ok d \<Longrightarrow> intent_ops_legal kc xs d \<Longrightarrow> bound i n c s d \<Longrightarrow> bound i n c s (intent_ops_run kc xs d)"
proof (induction xs arbitrary: d)
  case (Cons x xs)
  then show ?case using intent_step_ok bound_step by auto
qed simp

section \<open>Sample data\<close>

definition demo_intent_params :: "string \<Rightarrow> intent_params" where
  "demo_intent_params k = \<lparr> pi_swapKey = k, pi_chainId = 84532, pi_signerAddress = ''0x1'',
     pi_actionType = AT_FUND, pi_targetAddress = ''0x2'', pi_calldata = ''c'', pi_valueWei = None \<rparr>"

definition demo_attempt :: attempt_params where
  "demo_attempt = \<lparr> pa_intentId = ''a'', pa_attemptNumber = 1, pa_chainId = 84532,
     pa_signerAddress = ''0x1'', pa_nonce = 7, pa_txHash = ''0x3'', pa_toAddress = ''0x2'',
     pa_valueWei = 0, pa_data = ''c'', pa_gasLimit = 1, pa_maxFeePerGas = 1,
     pa_maxPriorityFeePerGas = 1 \<rparr>"

definition demo_intent_ops :: "intent_op list" where
  "demo_intent_ops = [ICreate (demo_intent_params ''k1'') 1 ''a'', IReserve ''a'' 7 True 2,
     IAttempt demo_attempt 3 ''t'', IBroadcast ''t'' 4]"

definition demo_intent_ops2 :: "intent_op list" where
  "demo_intent_ops2 = [IFailed ''a'' ''f'' 5, ICreate (demo_intent_params ''k2'') 6 ''b'']"

definition demo_kc :: "string \<Rightarrow> string" where
  "demo_kc x = x"

lemma to_lower_demo [simp]: "to_lower ''0x1'' = ''0x1''" "to_lower ''0x2'' = ''0x2''" "to_lower ''0x3'' = ''0x3''"
  by code_simp+

lemmas intent_demo_defs = demo_intent_params_def demo_attempt_def getOrCreateEvmIntent_def
  getEvmIntentBySwapKey_def new_intent_def insert_intent_def reserveEvmNonce_def transaction_def
  get_intent_def getUnresolvedNonceReservation_def held_nonces_def List.map_filter_def highest_nonce_def
  update_nonce_def recordEvmAttempt_def find_attempt_def new_attempt_def insert_attempt_def set_intent_def
  markEvmAttemptBroadcast_def mapRowToEvmIntent_def mapRowToEvmAttempt_def empty_db_def
  released_statuses_def broadcast_statuses_def has_broadcast_attempt_def

definition demo_intent_db :: db where
  "demo_intent_db = intent_ops_run demo_kc demo_intent_ops empty_db"

lemma demo_intent_tables:
  "evm_transaction_intents demo_intent_db = [(new_intent demo_kc (demo_intent_params ''k1'') 1 ''a'')
     \<lparr>it_nonce := Some 7, it_status := EI_PENDING, it_updated_at := 4\<rparr>]"
  "evm_transaction_attempts demo_intent_db = [(new_attempt demo_kc demo_attempt 3 ''t'')
     \<lparr>ap_status := EA_BROADCAST, ap_broadcast_at := Some 4\<rparr>]"
  by (simp_all add: demo_intent_db_def demo_intent_ops_def intent_demo_defs)

lemma demo_bound: "bound ''a'' 7 84532 ''0x1'' demo_intent_db"
  by (simp add: bound_def has_broadcast_attempt_def get_intent_def demo_intent_tables)
     (simp add: intent_demo_defs)

definition demo_intent_db2 :: db where
  "demo_intent_db2 = intent_ops_run demo_kc demo_intent_ops2 demo_intent_db"

lemma demo_intent_tables2:
  "get_intent ''b'' demo_intent_db2 = Some (new_intent demo_kc (demo_intent_params ''k2'') 6 ''b'')"
proof -
  define d where "d = markEvmIntentFailed ''a'' ''f'' 5 demo_intent_db"
  let ?n = "new_intent demo_kc (demo_intent_params ''k2'') 6 ''b''"
  have n: "it_id ?n = ''b''" "it_swap_key ?n = ''k2''" by (simp_all add: new_intent_def demo_intent_params_def)
  have ids: "\<forall>q \<in> set (evm_transaction_intents d). it_id q = ''a'' \<and> it_swap_key q = ''k1''"
    by (simp add: d_def markEvmIntentFailed_def unmined_intents demo_intent_tables new_intent_def demo_intent_params_def)
  then have "getEvmIntentBySwapKey ''k2'' AT_FUND d = None"
    by (auto simp: getEvmIntentBySwapKey_def sql_get_None_iff)
  moreover have "insert_intent ?n d =
      (Inr (), d\<lparr>evm_transaction_intents := evm_transaction_intents d @ [?n]\<rparr>)"
    using ids n by (auto simp: insert_intent_def)
  ultimately have "evm_transaction_intents demo_intent_db2 = evm_transaction_intents d @ [?n]"
    by (simp add: demo_intent_db2_def demo_intent_ops2_def d_def [symmetric] getOrCreateEvmIntent_def demo_intent_params_def)
  moreover have "sql_get (\<lambda>r. it_id r = ''b'') (evm_transaction_intents d) = None"
    using ids by (auto simp: sql_get_None_iff)
  ultimately show ?thesis by (simp add: get_intent_def sql_get_append n)
qed

section \<open>Properties\<close>

text \<open>Reserving a nonce, completely: the call either changes nothing (unknown intent, a nonce already
  held, or an unresolved reservation when that is enforced), or it gives the intent a nonce that is at
  least the node's pending nonce and above every nonce any intent of the same signer and chain
  holds. It never fails on the unique index.\<close>

theorem reserve_nonce_fresh:
  assumes "nonces_ok d" "reserveEvmNonce i rpc enforce now d = (r, d')"
  shows "case r of
     Inl e \<Rightarrow> d' = d \<and> (e = EvmIntentNotFound i \<or> enforce \<and> (\<exists>u. e = UnresolvedNonceReservation u))
   | Inr (x, n) \<Rightarrow> \<exists>row. get_intent i d = Some row \<and> it_nonce x = Some n \<and>
       (case it_nonce row of
          Some m \<Rightarrow> m = n \<and> d' = d
        | None \<Rightarrow> rpc \<le> n \<and> get_intent i d' = Some (row\<lparr>it_nonce := Some n,
              it_status := EI_NONCE_RESERVED, it_updated_at := now\<rparr>) \<and>
            (\<forall>q \<in> set (evm_transaction_intents d). \<forall>m.
               same_account row q \<and> it_nonce q = Some m \<longrightarrow> m < n))"
  using assms
proof (cases rule: reserve_nonce_cases)
  case (has row n)
  then show ?thesis by (simp add: mapRowToEvmIntent_def)
next
  case (reserved row n)
  have "get_intent i d' = Some (row\<lparr>it_nonce := Some n, it_status := EI_NONCE_RESERVED, it_updated_at := now\<rparr>)"
    using reserved(1) get_intent_Some [OF reserved(1)]
    by (simp add: reserved(5) get_intent_def sql_get_update)
  moreover have "m < n" if "q \<in> set (evm_transaction_intents d)" "same_account row q" "it_nonce q = Some m" for q m
    using candidate_above [OF assms(1) reserved(1) that, of rpc] reserved(3) by simp
  ultimately show ?thesis
    using reserved(1-4) by (auto simp: mapRowToEvmIntent_def)
qed auto

lemma demo_ok: "nonces_ok demo_intent_db2"
  using intent_run_ok [OF nonces_ok_empty, of demo_kc "demo_intent_ops @ demo_intent_ops2"]
  by (simp add: demo_intent_db2_def demo_intent_db_def demo_intent_ops_def demo_intent_ops2_def)

lemma demo_reserve_b: "\<exists>x m d'. reserveEvmNonce ''b'' 0 False 9 demo_intent_db2 = (Inr (x, m), d')"
proof -
  obtain r d' where e: "reserveEvmNonce ''b'' 0 False 9 demo_intent_db2 = (r, d')" by (metis surj_pair)
  from demo_ok e show ?thesis
    by (cases rule: reserve_nonce_cases) (use demo_intent_tables2 e in auto)
qed

lemma demo_b_free: "it_nonce (new_intent demo_kc (demo_intent_params ''k2'') 6 ''b'') = None"
  "it_chain_id (new_intent demo_kc (demo_intent_params ''k2'') 6 ''b'') = 84532"
  "it_signer_address (new_intent demo_kc (demo_intent_params ''k2'') 6 ''b'') = ''0x1''"
  by (simp_all add: new_intent_def demo_intent_params_def)

lemma reserve_nonce_fresh_witness:
  "\<exists>x m d'. reserveEvmNonce ''b'' 0 False 9 demo_intent_db2 = (Inr (x, m), d') \<and>
     it_nonce x = Some m \<and> 0 \<le> m"
proof -
  obtain x m d' where e: "reserveEvmNonce ''b'' 0 False 9 demo_intent_db2 = (Inr (x, m), d')"
    using demo_reserve_b by blast
  with reserve_nonce_fresh [OF demo_ok e] demo_intent_tables2 demo_b_free(1) show ?thesis by auto
qed

text \<open>C7: A broadcast nonce is never handed out again: once an intent has a broadcast attempt under nonce n,
  it keeps n over any further sequence of store operations, failures, fee caps and reverts included,
  and every nonce reserved later for another intent of the same signer is greater than n.\<close>

theorem broadcast_nonce_never_reused:
  assumes "intent_ops_legal kc (before @ after) empty_db"
    and "bound i n chain signer (intent_ops_run kc before empty_db)"
    and "reserveEvmNonce j rpc enforce now (intent_ops_run kc (before @ after) empty_db) = (Inr (x, m), d')"
    and "get_intent j (intent_ops_run kc (before @ after) empty_db) = Some row" "it_nonce row = None"
      "it_chain_id row = chain" "it_signer_address row = signer"
  shows "n < m \<and> bound i n chain signer d'"
proof -
  define d0 where "d0 = intent_ops_run kc before empty_db"
  define d where "d = intent_ops_run kc (before @ after) empty_db"
  note a = assms [folded d0_def d_def]
  have ok0: "nonces_ok d0" and l: "intent_ops_legal kc after d0"
    using intent_run_ok [OF nonces_ok_empty] assms(1) unfolding d0_def intent_ops_append by blast+
  have d: "d = intent_ops_run kc after d0" by (simp add: d_def d0_def intent_ops_append)
  have ok: "nonces_ok d" and b: "bound i n chain signer d"
    using intent_run_ok [OF ok0 l] bound_run [OF ok0 l a(2)] by (simp_all add: d)
  obtain q where q: "get_intent i d = Some q" "it_nonce q = Some n" "it_chain_id q = chain"
      "it_signer_address q = signer"
    using b by (auto simp: bound_def)
  have "same_account row q" using a(6,7) q(3,4) by (simp add: same_account_def)
  moreover have "q \<in> set (evm_transaction_intents d)" using get_intent_Some [OF q(1)] by simp
  ultimately have "n < m"
    using reserve_nonce_fresh_case [OF ok a(3-5)] q(2) by blast
  moreover have "bound i n chain signer d'"
    using bound_reserve [OF ok b, of j rpc enforce now] a(3) by simp
  ultimately show ?thesis by simp
qed

lemma broadcast_nonce_never_reused_witness:
  "\<exists>x m d'. reserveEvmNonce ''b'' 0 False 9 demo_intent_db2 = (Inr (x, m), d') \<and> 7 < m"
proof -
  have r: "intent_ops_run demo_kc (demo_intent_ops @ demo_intent_ops2) empty_db = demo_intent_db2"
    by (simp add: demo_intent_db2_def demo_intent_db_def intent_ops_append)
  have l: "intent_ops_legal demo_kc (demo_intent_ops @ demo_intent_ops2) empty_db"
    by (simp add: demo_intent_ops_def demo_intent_ops2_def)
  obtain x m d' where e: "reserveEvmNonce ''b'' 0 False 9 demo_intent_db2 = (Inr (x, m), d')"
    using demo_reserve_b by blast
  have "7 < m \<and> bound ''a'' 7 84532 ''0x1'' d'"
    by (rule broadcast_nonce_never_reused [OF l demo_bound [unfolded demo_intent_db_def]
          e [folded r] demo_intent_tables2 [folded r] demo_b_free])
  with e show ?thesis by blast
qed

end
