(* ===== verification/Swap_Store.thy ===== *)
theory Swap_Store
  imports Tables
begin

text \<open>
  The sovereign swap store of \<open>SqlitePersistence\<close> (\<open>src/src/persistence/sqlite.ts\<close>, from
  \<open>createSovereignSwap\<close> to \<open>mapRowToSovereignRecord\<close>): the durable record of a swap, its audit
  trail, and the lease by which one worker at a time acts on it.
\<close>

section \<open>Rows and records\<close>

text \<open>\<open>record.holdInvoice?.field\<close>\<close>

definition inv_field :: "(hold_invoice \<Rightarrow> 'a option) \<Rightarrow> hold_invoice option \<Rightarrow> 'a option" where
  "inv_field f hinv = (case hinv of None \<Rightarrow> None | Some i \<Rightarrow> f i)"

definition row_of_record :: "swap_rec \<Rightarrow> string \<Rightarrow> swap_row" where
  "row_of_record r fingerprint =
    (let hinv = r_holdInvoice r in \<lparr>
     sw_id = r_id r, sw_idempotency_key = r_idempotencyKey r,
     sw_hash_lock = to_lower (r_hashLock r),
     sw_payment_hash = to_lower (case hinv of Some i \<Rightarrow> hi_paymentHash i | None \<Rightarrow> strip_0x (r_hashLock r)),
     sw_state = r_state r,
     sw_reservation_id = r_reservationId r,
     sw_reserved_amount_units = r_reservedAmountUnits r,
     sw_reservation_status = r_reservationStatus r,
     sw_amount_sats = r_amountSats r, sw_expected_usdc_amount = r_expectedUsdcAmount r,
     sw_claiming_address = to_lower (r_claimingAddress r),
     sw_target_destination_address = to_lower (r_targetDestinationAddress r),
     sw_token_address = to_lower (coalesce (r_tokenAddress r) ''''),
     sw_refund_address = to_lower (coalesce (r_refundAddress r) ''''),
     sw_cltv_expiry_blocks = coalesce (r_cltvExpiryBlocks r) 144,
     sw_timelock_seconds = coalesce (r_timelockSeconds r) 43200,
     sw_refund_locktime = r_refundLocktime r,
     sw_economic_fingerprint = fingerprint,
     sw_bolt11 = map_option hi_bolt11 hinv,
     sw_lightning_invoice_state = map_option hi_state hinv,
     sw_lightning_held_at = inv_field hi_acceptedAt hinv,
     sw_lightning_settled_at = inv_field hi_settledAt hinv,
     sw_lightning_canceled_at = inv_field hi_canceledAt hinv,
     sw_lightning_expiry_height = inv_field hi_expiryHeight hinv,
     sw_evm_swap_key = r_evmSwapKey r, sw_evm_htlc_id = r_evmHtlcId r,
     sw_evm_funding_tx_hash = r_evmFundingTxHash r, sw_evm_claim_tx_hash = r_evmClaimTxHash r,
     sw_evm_refund_tx_hash = r_evmRefundTxHash r, sw_destination_tx_hash = r_destinationTxHash r,
     sw_action_in_flight = r_actionInFlight r, sw_action_claimed_by = r_actionClaimedBy r,
     sw_action_claimed_at = r_actionClaimedAt r,
     sw_action_lease_expires_at = None, sw_action_generation = 0,
     sw_recovery_required = (r_recoveryRequired r = Some True),
     sw_failure_reason = r_failureReason r,
     sw_retry_count = coalesce (r_retryCount r) 0,
     sw_fund_retry_count = coalesce (r_fundRetryCount r) 0,
     sw_settle_retry_count = coalesce (r_settleRetryCount r) 0,
     sw_refund_retry_count = coalesce (r_refundRetryCount r) 0,
     sw_cancel_retry_count = coalesce (r_cancelRetryCount r) 0,
     sw_created_at = r_createdAt r, sw_updated_at = r_updatedAt r \<rparr>)"

definition invoice_of_row :: "swap_row \<Rightarrow> hold_invoice option" where
  "invoice_of_row w =
    (if truthy_str (sw_bolt11 w) \<noteq> None \<or> sw_lightning_invoice_state w \<noteq> None
     then Some \<lparr>
       hi_paymentHash = (if sw_payment_hash w = '''' then strip_0x (sw_hash_lock w) else sw_payment_hash w),
       hi_bolt11 = coalesce (truthy_str (sw_bolt11 w)) '''',
       hi_amountSats = sw_amount_sats w,
       hi_cltvExpiryBlocks = coalesce (truthy_num (Some (sw_cltv_expiry_blocks w))) 144,
       hi_expiryHeight = truthy_num (sw_lightning_expiry_height w),
       hi_state = coalesce (sw_lightning_invoice_state w) HI_OPEN,
       hi_createdAt = sw_created_at w,
       hi_acceptedAt = sw_lightning_held_at w,
       hi_settledAt = sw_lightning_settled_at w,
       hi_canceledAt = sw_lightning_canceled_at w,
       hi_htlcs = None \<rparr>
     else None)"

definition mapRowToSovereignRecord :: "swap_row \<Rightarrow> swap_rec" where
  "mapRowToSovereignRecord w = \<lparr>
     r_id = sw_id w, r_idempotencyKey = sw_idempotency_key w, r_hashLock = sw_hash_lock w,
     r_claimingAddress = sw_claiming_address w,
     r_targetDestinationAddress = sw_target_destination_address w,
     r_amountSats = sw_amount_sats w, r_expectedUsdcAmount = sw_expected_usdc_amount w,
     r_state = sw_state w,
     r_reservationId = truthy_str (sw_reservation_id w),
     r_reservedAmountUnits = sw_reserved_amount_units w,
     r_reservationStatus = sw_reservation_status w,
     r_holdInvoice = invoice_of_row w,
     r_evmSwapKey = truthy_str (sw_evm_swap_key w),
     r_evmHtlcId = truthy_str (sw_evm_htlc_id w),
     r_evmFundingTxHash = truthy_str (sw_evm_funding_tx_hash w),
     r_evmClaimTxHash = truthy_str (sw_evm_claim_tx_hash w),
     r_evmRefundTxHash = truthy_str (sw_evm_refund_tx_hash w),
     r_destinationTxHash = truthy_str (sw_destination_tx_hash w),
     r_tokenAddress = truthy_str (Some (sw_token_address w)),
     r_refundAddress = truthy_str (Some (sw_refund_address w)),
     r_cltvExpiryBlocks = truthy_num (Some (sw_cltv_expiry_blocks w)),
     r_timelockSeconds = truthy_num (Some (sw_timelock_seconds w)),
     r_refundLocktime = truthy_num (sw_refund_locktime w),
     r_economicFingerprint = truthy_str (Some (sw_economic_fingerprint w)),
     r_actionInFlight = truthy_str (sw_action_in_flight w),
     r_actionClaimedBy = truthy_str (sw_action_claimed_by w),
     r_actionClaimedAt = sw_action_claimed_at w,
     r_actionGeneration = Some (sw_action_generation w),
     r_recoveryRequired = Some (sw_recovery_required w),
     r_failureReason = truthy_str (sw_failure_reason w),
     r_retryCount = Some (sw_retry_count w), r_fundRetryCount = Some (sw_fund_retry_count w),
     r_settleRetryCount = Some (sw_settle_retry_count w),
     r_refundRetryCount = Some (sw_refund_retry_count w),
     r_cancelRetryCount = Some (sw_cancel_retry_count w),
     r_createdAt = sw_created_at w, r_updatedAt = sw_updated_at w \<rparr>"

section \<open>Reading\<close>

definition get_swap_row :: "string \<Rightarrow> db \<Rightarrow> swap_row option" where
  "get_swap_row i d = sql_get (\<lambda>w. sw_id w = i) (sovereign_swaps d)"

definition getSovereignSwap :: "string \<Rightarrow> db \<Rightarrow> swap_rec option" where
  "getSovereignSwap i d = map_option mapRowToSovereignRecord (get_swap_row i d)"

definition getSovereignSwapByIdempotencyKey :: "string \<Rightarrow> db \<Rightarrow> swap_rec option" where
  "getSovereignSwapByIdempotencyKey k d = map_option mapRowToSovereignRecord
     (sql_get (\<lambda>w. sw_idempotency_key w = k) (sovereign_swaps d))"

definition getSovereignSwapByPaymentHash :: "string \<Rightarrow> db \<Rightarrow> swap_rec option" where
  "getSovereignSwapByPaymentHash paymentHash d = map_option mapRowToSovereignRecord
     (sql_get (\<lambda>w. sw_payment_hash w = to_lower (strip_0x paymentHash)) (sovereign_swaps d))"

definition getSovereignSwapBySwapKey :: "string \<Rightarrow> db \<Rightarrow> swap_rec option" where
  "getSovereignSwapBySwapKey swapKey d = map_option mapRowToSovereignRecord
     (sql_get (\<lambda>w. sw_evm_swap_key w = Some swapKey) (sovereign_swaps d))"

definition listNonTerminalSovereignSwaps :: "db \<Rightarrow> swap_rec list" where
  "listNonTerminalSovereignSwaps d = map mapRowToSovereignRecord
     (sort_key sw_created_at (filter (\<lambda>w. isNonTerminalSovereignAtomicState (sw_state w)) (sovereign_swaps d)))"

definition listSovereignSwapsWithEvmBindings :: "db \<Rightarrow> (string \<times> string \<times> string) list" where
  "listSovereignSwapsWithEvmBindings d =
     map (\<lambda>w. (sw_id w, the (sw_evm_swap_key w), the (sw_evm_htlc_id w)))
       (filter (\<lambda>w. sw_evm_swap_key w \<noteq> None \<and> sw_evm_htlc_id w \<noteq> None) (sovereign_swaps d))"

definition getSovereignTransitions :: "string \<Rightarrow> db \<Rightarrow> swap_transition_row list" where
  "getSovereignTransitions swapId d = map (\<lambda>t. t\<lparr>st_evidence_id := truthy_str (st_evidence_id t)\<rparr>)
     (sort_key st_created_at (filter (\<lambda>t. st_swap_id t = swapId) (sovereign_swap_transitions d)))"

section \<open>Writing\<close>

definition recordSovereignTransition ::
  "string \<Rightarrow> swap_state option \<Rightarrow> swap_state \<Rightarrow> string \<Rightarrow> string option \<Rightarrow> int \<Rightarrow> db \<Rightarrow> db" where
  "recordSovereignTransition swapId fromState toState reason evidenceId now d =
     d\<lparr>sovereign_swap_transitions := sovereign_swap_transitions d @
        [\<lparr> st_swap_id = swapId, st_from_state = fromState, st_to_state = toState,
           st_reason = reason, st_evidence_id = evidenceId, st_created_at = now \<rparr>]\<rparr>"

definition createSovereignSwap :: "swap_rec \<Rightarrow> string \<Rightarrow> int \<Rightarrow> db \<Rightarrow> (db_error + unit) \<times> db" where
  "createSovereignSwap record fingerprint now d =
    (let row = row_of_record record fingerprint
     in if \<exists>w \<in> set (sovereign_swaps d). sw_id w = sw_id row \<or>
             sw_idempotency_key w = sw_idempotency_key row \<or> sw_hash_lock w = sw_hash_lock row \<or>
             sw_payment_hash w = sw_payment_hash row
        then (Inl UniqueConstraintFailed, d)
        else (Inr (), recordSovereignTransition (r_id record) None (r_state record) ''INITIAL_CREATION''
               None now (d\<lparr>sovereign_swaps := sovereign_swaps d @ [row]\<rparr>)))"

text \<open>
  The fields of \<open>Partial<SovereignExecutionRecord>\<close> that the update writes: \<open>None\<close> is absent; the
  four fields tested with \<open>in\<close> can also be present and undefined, \<open>Some None\<close>.
\<close>

record swap_updates =
  su_state :: "swap_state option"
  su_reservationId :: "string option"
  su_reservedAmountUnits :: "int option"
  su_reservationStatus :: "reservation_status option"
  su_holdInvoice :: "hold_invoice option"
  su_evmSwapKey :: "string option"
  su_evmHtlcId :: "string option"
  su_evmFundingTxHash :: "string option"
  su_evmClaimTxHash :: "string option"
  su_evmRefundTxHash :: "string option"
  su_destinationTxHash :: "string option"
  su_refundLocktime :: "int option"
  su_actionInFlight :: "string option option"
  su_actionClaimedBy :: "string option option"
  su_actionClaimedAt :: "int option option"
  su_recoveryRequired :: "bool option"
  su_failureReason :: "string option option"
  su_retryCount :: "int option"
  su_fundRetryCount :: "int option"
  su_settleRetryCount :: "int option"
  su_refundRetryCount :: "int option"
  su_cancelRetryCount :: "int option"

definition no_updates :: swap_updates where
  "no_updates = \<lparr> su_state = None, su_reservationId = None, su_reservedAmountUnits = None,
     su_reservationStatus = None, su_holdInvoice = None, su_evmSwapKey = None, su_evmHtlcId = None,
     su_evmFundingTxHash = None, su_evmClaimTxHash = None, su_evmRefundTxHash = None,
     su_destinationTxHash = None, su_refundLocktime = None, su_actionInFlight = None,
     su_actionClaimedBy = None, su_actionClaimedAt = None, su_recoveryRequired = None,
     su_failureReason = None, su_retryCount = None, su_fundRetryCount = None,
     su_settleRetryCount = None, su_refundRetryCount = None, su_cancelRetryCount = None \<rparr>"

definition apply_row_updates :: "swap_updates \<Rightarrow> int \<Rightarrow> swap_row \<Rightarrow> swap_row" where
  "apply_row_updates u now w =
    (let hinv = su_holdInvoice u in w\<lparr>
     sw_updated_at := now,
     sw_state := coalesce (su_state u) (sw_state w),
     sw_reservation_id := some_or (su_reservationId u) (sw_reservation_id w),
     sw_reserved_amount_units := some_or (su_reservedAmountUnits u) (sw_reserved_amount_units w),
     sw_reservation_status := some_or (su_reservationStatus u) (sw_reservation_status w),
     sw_payment_hash := (case hinv of None \<Rightarrow> sw_payment_hash w
                         | Some i \<Rightarrow> to_lower (strip_0x (hi_paymentHash i))),
     sw_bolt11 := some_or (map_option hi_bolt11 hinv) (sw_bolt11 w),
     sw_lightning_invoice_state := some_or (map_option hi_state hinv) (sw_lightning_invoice_state w),
     sw_lightning_held_at := some_or (inv_field hi_acceptedAt hinv) (sw_lightning_held_at w),
     sw_lightning_settled_at := some_or (inv_field hi_settledAt hinv) (sw_lightning_settled_at w),
     sw_lightning_canceled_at := some_or (inv_field hi_canceledAt hinv) (sw_lightning_canceled_at w),
     sw_lightning_expiry_height := some_or (inv_field hi_expiryHeight hinv) (sw_lightning_expiry_height w),
     sw_evm_swap_key := some_or (su_evmSwapKey u) (sw_evm_swap_key w),
     sw_evm_htlc_id := some_or (su_evmHtlcId u) (sw_evm_htlc_id w),
     sw_evm_funding_tx_hash := some_or (su_evmFundingTxHash u) (sw_evm_funding_tx_hash w),
     sw_evm_claim_tx_hash := some_or (su_evmClaimTxHash u) (sw_evm_claim_tx_hash w),
     sw_evm_refund_tx_hash := some_or (su_evmRefundTxHash u) (sw_evm_refund_tx_hash w),
     sw_destination_tx_hash := some_or (su_destinationTxHash u) (sw_destination_tx_hash w),
     sw_refund_locktime := some_or (su_refundLocktime u) (sw_refund_locktime w),
     sw_action_in_flight := coalesce (su_actionInFlight u) (sw_action_in_flight w),
     sw_action_claimed_by := coalesce (su_actionClaimedBy u) (sw_action_claimed_by w),
     sw_action_claimed_at := coalesce (su_actionClaimedAt u) (sw_action_claimed_at w),
     sw_recovery_required := coalesce (su_recoveryRequired u) (sw_recovery_required w),
     sw_failure_reason := coalesce (su_failureReason u) (sw_failure_reason w),
     sw_retry_count := coalesce (su_retryCount u) (sw_retry_count w),
     sw_fund_retry_count := coalesce (su_fundRetryCount u) (sw_fund_retry_count w),
     sw_settle_retry_count := coalesce (su_settleRetryCount u) (sw_settle_retry_count w),
     sw_refund_retry_count := coalesce (su_refundRetryCount u) (sw_refund_retry_count w),
     sw_cancel_retry_count := coalesce (su_cancelRetryCount u) (sw_cancel_retry_count w) \<rparr>)"

text \<open>The object the update returns: the spread of the updates over the existing record.\<close>

definition merge_invoice :: "hold_invoice option \<Rightarrow> hold_invoice \<Rightarrow> hold_invoice" where
  "merge_invoice old i = (case old of None \<Rightarrow> i | Some prev \<Rightarrow> i\<lparr>
     hi_expiryHeight := some_or (hi_expiryHeight i) (hi_expiryHeight prev),
     hi_acceptedAt := some_or (hi_acceptedAt i) (hi_acceptedAt prev),
     hi_settledAt := some_or (hi_settledAt i) (hi_settledAt prev),
     hi_canceledAt := some_or (hi_canceledAt i) (hi_canceledAt prev),
     hi_htlcs := some_or (hi_htlcs i) (hi_htlcs prev) \<rparr>)"

definition apply_record_updates :: "swap_updates \<Rightarrow> int \<Rightarrow> swap_rec \<Rightarrow> swap_rec" where
  "apply_record_updates u now r = r\<lparr>
     r_updatedAt := now,
     r_state := coalesce (su_state u) (r_state r),
     r_reservationId := some_or (su_reservationId u) (r_reservationId r),
     r_reservedAmountUnits := some_or (su_reservedAmountUnits u) (r_reservedAmountUnits r),
     r_reservationStatus := some_or (su_reservationStatus u) (r_reservationStatus r),
     r_holdInvoice := some_or (map_option (merge_invoice (r_holdInvoice r)) (su_holdInvoice u)) (r_holdInvoice r),
     r_evmSwapKey := some_or (su_evmSwapKey u) (r_evmSwapKey r),
     r_evmHtlcId := some_or (su_evmHtlcId u) (r_evmHtlcId r),
     r_evmFundingTxHash := some_or (su_evmFundingTxHash u) (r_evmFundingTxHash r),
     r_evmClaimTxHash := some_or (su_evmClaimTxHash u) (r_evmClaimTxHash r),
     r_evmRefundTxHash := some_or (su_evmRefundTxHash u) (r_evmRefundTxHash r),
     r_destinationTxHash := some_or (su_destinationTxHash u) (r_destinationTxHash r),
     r_refundLocktime := some_or (su_refundLocktime u) (r_refundLocktime r),
     r_actionInFlight := coalesce (su_actionInFlight u) (r_actionInFlight r),
     r_actionClaimedBy := coalesce (su_actionClaimedBy u) (r_actionClaimedBy r),
     r_actionClaimedAt := coalesce (su_actionClaimedAt u) (r_actionClaimedAt r),
     r_recoveryRequired := some_or (su_recoveryRequired u) (r_recoveryRequired r),
     r_failureReason := coalesce (su_failureReason u) (r_failureReason r),
     r_retryCount := some_or (su_retryCount u) (r_retryCount r),
     r_fundRetryCount := some_or (su_fundRetryCount u) (r_fundRetryCount r),
     r_settleRetryCount := some_or (su_settleRetryCount u) (r_settleRetryCount r),
     r_refundRetryCount := some_or (su_refundRetryCount u) (r_refundRetryCount r),
     r_cancelRetryCount := some_or (su_cancelRetryCount u) (r_cancelRetryCount r) \<rparr>"

definition updateSovereignSwap ::
  "string \<Rightarrow> swap_updates \<Rightarrow> (string \<times> string option) option \<Rightarrow> int \<Rightarrow> db
   \<Rightarrow> (db_error + swap_rec) \<times> db" where
  "updateSovereignSwap i updates transition now d =
    (case get_swap_row i d of
       None \<Rightarrow> (Inl (SwapNotFound i), d)
     | Some row \<Rightarrow>
         let existing = mapRowToSovereignRecord row;
             new = apply_row_updates updates now row
         in if \<exists>w \<in> set (sovereign_swaps d). sw_id w \<noteq> i \<and> sw_payment_hash w = sw_payment_hash new
            then (Inl UniqueConstraintFailed, d)
            else
              let d1 = d\<lparr>sovereign_swaps := sql_update (\<lambda>w. sw_id w = i)
                     (apply_row_updates updates now) (sovereign_swaps d)\<rparr>
              in (Inr (apply_record_updates updates now existing),
                  case (transition, su_state updates) of
                    (Some (reason, evidenceId), Some st) \<Rightarrow>
                      if st \<noteq> r_state existing
                      then recordSovereignTransition i (Some (r_state existing)) st reason evidenceId now d1
                      else d1
                  | _ \<Rightarrow> d1))"

definition markSovereignRecoveryRequired ::
  "string \<Rightarrow> string \<Rightarrow> string \<Rightarrow> int \<Rightarrow> db \<Rightarrow> (db_error + swap_rec) \<times> db" where
  "markSovereignRecoveryRequired i failureReason transitionReason now = transaction (\<lambda>d.
    (case getSovereignSwap i d of
       None \<Rightarrow> (Inl (SwapNotFound i), d)
     | Some existing \<Rightarrow>
         updateSovereignSwap i
           (no_updates\<lparr>su_state := Some SA_RECOVERY_REQUIRED, su_recoveryRequired := Some True,
              su_failureReason := Some (Some failureReason)\<rparr>)
           (Some (transitionReason, None)) now d))"

section \<open>The action lease\<close>

text \<open>A comparison with \<open>NULL\<close> is not true.\<close>

definition claimable :: "string \<Rightarrow> int \<Rightarrow> swap_row \<Rightarrow> bool" where
  "claimable workerId now w \<longleftrightarrow> sw_action_in_flight w = None \<or> sw_action_claimed_by w = Some workerId \<or>
     (case sw_action_lease_expires_at w of None \<Rightarrow> False | Some t \<Rightarrow> t < now)"

definition claimSovereignAction ::
  "string \<Rightarrow> string \<Rightarrow> string \<Rightarrow> int option \<Rightarrow> int \<Rightarrow> db \<Rightarrow> bool \<times> db" where
  "claimSovereignAction i action workerId leaseMs now d =
    (let P = (\<lambda>w. sw_id w = i \<and> claimable workerId now w)
     in (sql_changes P (sovereign_swaps d) = 1,
         d\<lparr>sovereign_swaps := sql_update P
            (\<lambda>w. w\<lparr>sw_action_in_flight := Some action, sw_action_claimed_by := Some workerId,
                   sw_action_claimed_at := Some now,
                   sw_action_lease_expires_at := Some (now + coalesce leaseMs 60000),
                   sw_action_generation := sw_action_generation w + 1,
                   sw_updated_at := now\<rparr>) (sovereign_swaps d)\<rparr>))"

definition releaseSovereignAction :: "string \<Rightarrow> string option \<Rightarrow> int \<Rightarrow> db \<Rightarrow> db" where
  "releaseSovereignAction i workerId now d =
     d\<lparr>sovereign_swaps := sql_update
        (\<lambda>w. sw_id w = i \<and>
           (case truthy_str workerId of None \<Rightarrow> True | Some x \<Rightarrow> sw_action_claimed_by w = Some x))
        (\<lambda>w. w\<lparr>sw_action_in_flight := None, sw_action_claimed_by := None,
               sw_action_claimed_at := None, sw_action_lease_expires_at := None,
               sw_updated_at := now\<rparr>) (sovereign_swaps d)\<rparr>"

end
