(* ===== verification/Swap_Laws.thy ===== *)
theory Swap_Laws
  imports Swap_Store Liquidity_Laws
begin

text \<open>
  What the swap store guarantees: a record read back after its creation, one swap per id,
  idempotency key, hash lock and payment hash over any sequence of operations, and the lease as an
  interface: while it lasts, no other worker gets it or can give it away.
\<close>

section \<open>The lease as an interface\<close>

datatype lease_op = LClaim string string "int option" int | LRelease string int

fun lease_worker :: "lease_op \<Rightarrow> string" where
  "lease_worker (LClaim w a l now) = w"
| "lease_worker (LRelease w now) = w"

fun lease_clock :: "lease_op \<Rightarrow> int" where
  "lease_clock (LClaim w a l now) = now"
| "lease_clock (LRelease w now) = now"

text \<open>Operations of other workers on one resource, and whether some claim among them succeeded.\<close>

fun lease_run ::
  "(string \<Rightarrow> string \<Rightarrow> string \<Rightarrow> int option \<Rightarrow> int \<Rightarrow> 's \<Rightarrow> bool \<times> 's) \<Rightarrow> (string \<Rightarrow> string \<Rightarrow> int \<Rightarrow> 's \<Rightarrow> 's)
   \<Rightarrow> string \<Rightarrow> lease_op list \<Rightarrow> 's \<Rightarrow> bool \<times> 's" where
  "lease_run cl rl i [] s = (False, s)"
| "lease_run cl rl i (LClaim w a l now # xs) s =
     (let (g, s') = cl i a w l now s; (g', s'') = lease_run cl rl i xs s' in (g \<or> g', s''))"
| "lease_run cl rl i (LRelease w now # xs) s = lease_run cl rl i xs (rl i w now s)"

locale action_lease =
  fixes holder :: "'s \<Rightarrow> string \<Rightarrow> (string option \<times> int option) option"
    and exists_row :: "'s \<Rightarrow> string \<Rightarrow> bool"
    and claim :: "string \<Rightarrow> string \<Rightarrow> string \<Rightarrow> int option \<Rightarrow> int \<Rightarrow> 's \<Rightarrow> bool \<times> 's"
    and release :: "string \<Rightarrow> string \<Rightarrow> int \<Rightarrow> 's \<Rightarrow> 's"
    and valid :: "'s \<Rightarrow> bool"
  assumes claim_granted: "valid s \<Longrightarrow> fst (claim i a w l now s) \<longleftrightarrow> exists_row s i \<and>
      (case holder s i of None \<Rightarrow> True | Some (h, t) \<Rightarrow> h = Some w \<or> (\<exists>x. t = Some x \<and> x < now))"
    and claim_holder: "valid s \<Longrightarrow> holder (snd (claim i a w l now s)) i =
      (if fst (claim i a w l now s) then Some (Some w, Some (now + coalesce l 60000)) else holder s i)"
    and claim_valid: "valid s \<Longrightarrow> valid (snd (claim i a w l now s))"
    and release_holder: "w \<noteq> '''' \<Longrightarrow> holder (release i w now s) i =
      (case holder s i of Some (h, t) \<Rightarrow> if h = Some w then None else holder s i | None \<Rightarrow> None)"
    and release_valid: "valid s \<Longrightarrow> valid (release i w now s)"
begin

lemma claim_refused:
  assumes "valid s" "holder s i = Some (Some w, Some t)" "now \<le> t" "w' \<noteq> w"
  shows "\<not> fst (claim i a w' l now s)" "holder (snd (claim i a w' l now s)) i = Some (Some w, Some t)"
  using assms by (simp_all add: claim_granted claim_holder)

lemma exclusive:
  assumes "valid s" "holder s i = Some (Some w, Some t)"
    and "\<forall>x \<in> set xs. lease_worker x \<noteq> w \<and> lease_worker x \<noteq> '''' \<and> lease_clock x \<le> t"
  shows "\<not> fst (lease_run claim release i xs s) \<and>
         holder (snd (lease_run claim release i xs s)) i = Some (Some w, Some t)"
  using assms
proof (induction xs arbitrary: s)
  case (Cons x xs)
  show ?case
  proof (cases x)
    case (LClaim w' a l now)
    then have c: "\<not> fst (claim i a w' l now s)" "holder (snd (claim i a w' l now s)) i = Some (Some w, Some t)"
      using claim_refused [OF Cons.prems(1,2)] Cons.prems(3) by auto
    with Cons.IH [OF claim_valid [OF Cons.prems(1)] c(2)] Cons.prems(3) LClaim
    show ?thesis by (simp add: case_prod_beta)
  next
    case (LRelease w' now)
    then have "holder (release i w' now s) i = Some (Some w, Some t)"
      using Cons.prems by (auto simp: release_holder)
    with Cons.IH [OF release_valid [OF Cons.prems(1)]] Cons.prems(3) LRelease show ?thesis by simp
  qed
qed simp

end

section \<open>The store invariant\<close>

definition swaps_ok :: "db \<Rightarrow> bool" where
  "swaps_ok d \<longleftrightarrow> keyed sw_id (sovereign_swaps d) \<and> keyed sw_idempotency_key (sovereign_swaps d) \<and>
     keyed sw_hash_lock (sovereign_swaps d) \<and> keyed sw_payment_hash (sovereign_swaps d)"

definition same_keys :: "(swap_row \<Rightarrow> swap_row) \<Rightarrow> bool" where
  "same_keys f \<longleftrightarrow> (\<forall>w. sw_id (f w) = sw_id w \<and> sw_idempotency_key (f w) = sw_idempotency_key w \<and>
     sw_hash_lock (f w) = sw_hash_lock w \<and> sw_payment_hash (f w) = sw_payment_hash w)"

lemma swaps_ok_update:
  "swaps_ok d \<Longrightarrow> same_keys f \<Longrightarrow> sovereign_swaps d' = sql_update P f (sovereign_swaps d) \<Longrightarrow> swaps_ok d'"
  by (simp add: swaps_ok_def same_keys_def keyed_sql_update)

lemma swaps_ok_same: "swaps_ok d \<Longrightarrow> sovereign_swaps d' = sovereign_swaps d \<Longrightarrow> swaps_ok d'"
  by (simp add: swaps_ok_def)

lemma record_transition_swaps [simp]:
  "sovereign_swaps (recordSovereignTransition i f t r e now d) = sovereign_swaps d"
  by (simp add: recordSovereignTransition_def)

lemma create_swap_cases:
  assumes "createSovereignSwap r fp now d = (x, d')"
  obtains (created) "x = Inr ()" "sovereign_swaps d' = sovereign_swaps d @ [row_of_record r fp]"
      "\<forall>w \<in> set (sovereign_swaps d). sw_id w \<noteq> sw_id (row_of_record r fp) \<and>
         sw_idempotency_key w \<noteq> sw_idempotency_key (row_of_record r fp) \<and>
         sw_hash_lock w \<noteq> sw_hash_lock (row_of_record r fp) \<and>
         sw_payment_hash w \<noteq> sw_payment_hash (row_of_record r fp)"
  | (clash) "x = Inl UniqueConstraintFailed" "d' = d"
  using assms by (auto simp: createSovereignSwap_def Let_def split: if_splits)

lemma swaps_ok_create:
  assumes "swaps_ok d" "createSovereignSwap r fp now d = (x, d')"
  shows "swaps_ok d'"
  using assms(2)
proof (cases rule: create_swap_cases)
  case created
  then show ?thesis
    using assms(1) unfolding swaps_ok_def created(2) keyed_append1 by auto
qed (use assms(1) in simp)

lemma keyed_update_fresh:
  assumes k: "keyed k rows" and u: "keyed j rows"
    and j: "\<And>r. j (f r) = j r" and c: "\<And>r. r \<in> set rows \<Longrightarrow> j r = i \<Longrightarrow> k (f r) = v"
    and v: "\<And>r. r \<in> set rows \<Longrightarrow> j r \<noteq> i \<Longrightarrow> k r \<noteq> v"
  shows "keyed k (sql_update (\<lambda>r. j r = i) f rows)"
  using assms
proof (induction rows)
  case (Cons a rows)
  have n: "k a \<notin> k ` set rows" "j a \<notin> j ` set rows" and
    kr: "keyed k rows" "keyed j rows"
    using Cons.prems(1,2) by (simp_all add: keyed_def)
  have IH: "keyed k (sql_update (\<lambda>r. j r = i) f rows)"
    by (rule Cons.IH [OF kr]) (use Cons.prems in simp_all)
  show ?case
  proof (cases "j a = i")
    case True
    then have "\<forall>r \<in> set rows. j r \<noteq> i" using n(2) by (metis imageI)
    then have s: "sql_update (\<lambda>r. j r = i) f rows = rows" by (intro sql_update_noop) blast
    have "k (f a) \<notin> k ` set rows"
      using Cons.prems(4) [of a] Cons.prems(5) \<open>\<forall>r \<in> set rows. j r \<noteq> i\<close> True by fastforce
    then show ?thesis using True kr(1) s by (simp add: keyed_def)
  next
    case False
    have "k a \<notin> k ` set (sql_update (\<lambda>r. j r = i) f rows)"
    proof
      assume "k a \<in> k ` set (sql_update (\<lambda>r. j r = i) f rows)"
      then obtain r where r: "r \<in> set rows" "k a = k (if j r = i then f r else r)"
        by (auto simp: set_sql_update)
      show False
      proof (cases "j r = i")
        case True
        with r Cons.prems(4) [of r] Cons.prems(5) [of a] False show False by simp
      next
        case False
        with r n(1) show False by auto
      qed
    qed
    then show ?thesis using False IH by (simp add: keyed_def)
  qed
qed simp

lemma update_row_keys:
  "sw_id (apply_row_updates u now w) = sw_id w"
  "sw_idempotency_key (apply_row_updates u now w) = sw_idempotency_key w"
  "sw_hash_lock (apply_row_updates u now w) = sw_hash_lock w"
  by (simp_all add: apply_row_updates_def Let_def)

lemma update_swap_cases:
  assumes "updateSovereignSwap i u tr now d = (x, d')"
  obtains (missing) "get_swap_row i d = None" "x = Inl (SwapNotFound i)" "d' = d"
  | (clash) "x = Inl UniqueConstraintFailed" "d' = d"
  | (updated) row where "get_swap_row i d = Some row"
      "x = Inr (apply_record_updates u now (mapRowToSovereignRecord row))"
      "sovereign_swaps d' = sql_update (\<lambda>w. sw_id w = i) (apply_row_updates u now) (sovereign_swaps d)"
      "\<forall>w \<in> set (sovereign_swaps d). sw_id w \<noteq> i \<longrightarrow> sw_payment_hash w \<noteq> sw_payment_hash (apply_row_updates u now row)"
proof (cases "get_swap_row i d")
  case None
  with assms show ?thesis by (intro missing) (auto simp: updateSovereignSwap_def)
next
  case (Some row)
  show ?thesis
  proof (cases "\<exists>w \<in> set (sovereign_swaps d). sw_id w \<noteq> i \<and> sw_payment_hash w = sw_payment_hash (apply_row_updates u now row)")
    case True
    with assms Some show ?thesis by (intro clash) (simp_all add: updateSovereignSwap_def)
  next
    case False
    have s: "sovereign_swaps (case (tr, su_state u) of
                    (Some (reason, evidenceId), Some st) \<Rightarrow>
                      if st \<noteq> r_state (mapRowToSovereignRecord row)
                      then recordSovereignTransition i (Some (r_state (mapRowToSovereignRecord row))) st reason evidenceId now q
                      else q
                  | _ \<Rightarrow> q) = sovereign_swaps q" for q
      by (simp split: option.splits prod.splits)
    from assms Some False have
      "x = Inr (apply_record_updates u now (mapRowToSovereignRecord row))" and
      "d' = (case (tr, su_state u) of
                    (Some (reason, evidenceId), Some st) \<Rightarrow>
                      if st \<noteq> r_state (mapRowToSovereignRecord row)
                      then recordSovereignTransition i (Some (r_state (mapRowToSovereignRecord row))) st reason evidenceId now
                        (d\<lparr>sovereign_swaps := sql_update (\<lambda>w. sw_id w = i) (apply_row_updates u now) (sovereign_swaps d)\<rparr>)
                      else (d\<lparr>sovereign_swaps := sql_update (\<lambda>w. sw_id w = i) (apply_row_updates u now) (sovereign_swaps d)\<rparr>)
                  | _ \<Rightarrow> (d\<lparr>sovereign_swaps := sql_update (\<lambda>w. sw_id w = i) (apply_row_updates u now) (sovereign_swaps d)\<rparr>))"
      by (auto simp: updateSovereignSwap_def Let_def)
    with Some False s show ?thesis by (intro updated) auto
  qed
qed

lemma get_swap_row_Some: "get_swap_row i d = Some w \<Longrightarrow> w \<in> set (sovereign_swaps d) \<and> sw_id w = i"
  using sql_get_Some by (fastforce simp: get_swap_row_def)

lemma swap_unique:
  assumes "swaps_ok d" "get_swap_row i d = Some row" "w \<in> set (sovereign_swaps d)" "sw_id w = i"
  shows "w = row"
  using keyed_get [of sw_id, OF _ assms(3)] assms(1,2,4) by (simp add: swaps_ok_def get_swap_row_def)

lemma swaps_ok_update_swap:
  assumes ok: "swaps_ok d" and u: "updateSovereignSwap i u tr now d = (x, d')"
  shows "swaps_ok d'"
  using u
proof (cases rule: update_swap_cases)
  case (updated row)
  have "keyed sw_payment_hash (sovereign_swaps d')"
    unfolding updated(3)
  proof (rule keyed_update_fresh [where v = "sw_payment_hash (apply_row_updates u now row)"])
    fix w assume w: "w \<in> set (sovereign_swaps d)" "sw_id w = i"
    then have "w = row" by (rule swap_unique [OF ok updated(1)])
    then show "sw_payment_hash (apply_row_updates u now w) = sw_payment_hash (apply_row_updates u now row)"
      by simp
  qed (use ok updated(4) in \<open>auto simp: swaps_ok_def update_row_keys\<close>)
  with ok show ?thesis
    by (simp add: swaps_ok_def updated(3) keyed_sql_update update_row_keys)
qed (use ok in simp_all)

lemma swaps_ok_recover:
  assumes "swaps_ok d"
  shows "swaps_ok (snd (markSovereignRecoveryRequired i f t now d))"
proof -
  obtain x d' where u: "updateSovereignSwap i (no_updates\<lparr>su_state := Some SA_RECOVERY_REQUIRED,
      su_recoveryRequired := Some True, su_failureReason := Some (Some f)\<rparr>) (Some (t, None)) now d = (x, d')"
    by (metis surj_pair)
  from swaps_ok_update_swap [OF assms u] assms u show ?thesis
    by (cases "getSovereignSwap i d"; cases x)
       (simp_all add: markSovereignRecoveryRequired_def transaction_def)
qed

section \<open>The lease of a swap\<close>

definition swap_holder :: "db \<Rightarrow> string \<Rightarrow> (string option \<times> int option) option" where
  "swap_holder d i = (case get_swap_row i d of
     None \<Rightarrow> None
   | Some w \<Rightarrow> if sw_action_in_flight w = None then None
               else Some (sw_action_claimed_by w, sw_action_lease_expires_at w))"

lemma sql_changes_keyed:
  assumes "keyed k rows" "r \<in> set rows" "k r = i"
  shows "sql_changes (\<lambda>x. k x = i \<and> P x) rows = (if P r then 1 else 0)"
  using assms
proof (induction rows)
  case (Cons a rows)
  have k: "keyed k rows" and n: "k a \<notin> k ` set rows" using Cons.prems(1) by (simp_all add: keyed_def)
  show ?case
  proof (cases "k a = i")
    case True
    then have "\<forall>x \<in> set rows. k x \<noteq> i" using n by (metis imageI)
    moreover from this have "a = r" using Cons.prems(2,3) by auto
    ultimately show ?thesis using True by (auto simp: sql_changes_def filter_empty_conv)
  next
    case False
    then have "r \<in> set rows" using Cons.prems(2,3) by auto
    with Cons.IH [OF k _ Cons.prems(3)] False show ?thesis by (simp add: sql_changes_def)
  qed
qed simp

lemma sql_changes_none: "\<forall>x \<in> set rows. k x \<noteq> i \<Longrightarrow> sql_changes (\<lambda>x. k x = i \<and> P x) rows = 0"
  by (auto simp: sql_changes_def filter_empty_conv)

lemma get_swap_row_update:
  assumes "\<And>w. sw_id (f w) = sw_id w"
  shows "sql_get (\<lambda>w. sw_id w = i) (sql_update P f rows) =
     map_option (\<lambda>w. if P w then f w else w) (sql_get (\<lambda>w. sw_id w = i) rows)"
  by (rule sql_get_update) (simp add: assms)

lemma claim_action_granted:
  assumes "swaps_ok d"
  shows "fst (claimSovereignAction i a w l now d) \<longleftrightarrow>
    (case get_swap_row i d of None \<Rightarrow> False | Some row \<Rightarrow> claimable w now row)"
proof (cases "get_swap_row i d")
  case None
  then have "\<forall>w \<in> set (sovereign_swaps d). sw_id w \<noteq> i" by (simp add: get_swap_row_def sql_get_None_iff)
  with None show ?thesis by (simp add: claimSovereignAction_def sql_changes_none)
next
  case (Some row)
  have "sql_changes (\<lambda>x. sw_id x = i \<and> claimable w now x) (sovereign_swaps d) = (if claimable w now row then 1 else 0)"
    using get_swap_row_Some [OF Some] assms by (intro sql_changes_keyed) (auto simp: swaps_ok_def)
  then show ?thesis using Some by (simp add: claimSovereignAction_def)
qed

lemma claim_swaps:
  "sovereign_swaps (snd (claimSovereignAction i a w l now d)) =
     sql_update (\<lambda>x. sw_id x = i \<and> claimable w now x)
       (\<lambda>x. x\<lparr>sw_action_in_flight := Some a, sw_action_claimed_by := Some w,
              sw_action_claimed_at := Some now,
              sw_action_lease_expires_at := Some (now + coalesce l 60000),
              sw_action_generation := sw_action_generation x + 1, sw_updated_at := now\<rparr>)
       (sovereign_swaps d)"
  by (simp add: claimSovereignAction_def Let_def)

interpretation lease: action_lease swap_holder "\<lambda>d i. get_swap_row i d \<noteq> None" claimSovereignAction
  "\<lambda>i w now d. releaseSovereignAction i (Some w) now d" swaps_ok
proof
  fix d i a w l now
  assume ok: "swaps_ok d"
  show g: "fst (claimSovereignAction i a w l now d) \<longleftrightarrow> get_swap_row i d \<noteq> None \<and>
      (case swap_holder d i of None \<Rightarrow> True | Some (h, t) \<Rightarrow> h = Some w \<or> (\<exists>x. t = Some x \<and> x < now))"
    unfolding claim_action_granted [OF ok]
    by (auto simp: swap_holder_def claimable_def split: option.split)
  show "swap_holder (snd (claimSovereignAction i a w l now d)) i =
      (if fst (claimSovereignAction i a w l now d) then Some (Some w, Some (now + coalesce l 60000))
       else swap_holder d i)"
    unfolding claim_action_granted [OF ok]
    by (cases "get_swap_row i d")
       (auto simp: claim_swaps swap_holder_def get_swap_row_def get_swap_row_update
          dest: sql_get_Some)
  show "swaps_ok (snd (claimSovereignAction i a w l now d))"
    by (rule swaps_ok_update [OF ok _ claim_swaps]) (simp add: same_keys_def)
next
  fix w :: string and d i now
  assume "w \<noteq> ''''"
  then have "truthy_str (Some w) = Some w" by (simp add: truthy_str_def)
  then show "swap_holder (releaseSovereignAction i (Some w) now d) i =
      (case swap_holder d i of Some (h, t) \<Rightarrow> if h = Some w then None else swap_holder d i | None \<Rightarrow> None)"
    by (cases "get_swap_row i d")
       (auto simp: releaseSovereignAction_def swap_holder_def get_swap_row_def get_swap_row_update
          dest: sql_get_Some)
next
  fix d i w now
  assume ok: "swaps_ok d"
  show "swaps_ok (releaseSovereignAction i (Some w) now d)"
    by (rule swaps_ok_update [OF ok]) (auto simp: releaseSovereignAction_def same_keys_def)
qed

section \<open>Sequences of store operations\<close>

datatype swap_op =
    SCreate swap_rec string int
  | SUpdate string swap_updates "(string \<times> string option) option" int
  | SRecover string string string int
  | SClaim string string string "int option" int
  | SRelease string "string option" int
  | SReservation string "reservation_status list" reservation_status int
  | SCommitAdvance string string int

fun swap_op_step :: "swap_op \<Rightarrow> db \<Rightarrow> db" where
  "swap_op_step (SCreate r fp now) d = snd (createSovereignSwap r fp now d)"
| "swap_op_step (SUpdate i u tr now) d = snd (updateSovereignSwap i u tr now d)"
| "swap_op_step (SRecover i f t now) d = snd (markSovereignRecoveryRequired i f t now d)"
| "swap_op_step (SClaim i a w l now) d = snd (claimSovereignAction i a w l now d)"
| "swap_op_step (SRelease i w now) d = releaseSovereignAction i w now d"
| "swap_op_step (SReservation i fr st now) d = snd (transitionLiquidityReservation i fr st now d)"
| "swap_op_step (SCommitAdvance r i now) d = snd (commitReservationAndAdvanceSwapToFunded r i now d)"

fun swap_ops_run :: "swap_op list \<Rightarrow> db \<Rightarrow> db" where
  "swap_ops_run [] d = d"
| "swap_ops_run (x # xs) d = swap_ops_run xs (swap_op_step x d)"

lemma same_or_updated:
  assumes "X = sql_update P f S \<or> X = S" "same_keys f"
  shows "\<exists>P f. same_keys f \<and> X = sql_update P f S"
proof -
  have "sql_update (\<lambda>_. False) f S = S" by (simp add: sql_update_noop)
  with assms show ?thesis by metis
qed

lemma transition_reservation_swaps:
  "\<exists>P f. same_keys f \<and>
     sovereign_swaps (snd (transitionLiquidityReservation i fr st now d)) = sql_update P f (sovereign_swaps d)"
proof -
  let ?f = "\<lambda>s. s\<lparr>sw_reservation_status := Some st, sw_updated_at := now\<rparr>"
  have "sovereign_swaps (snd (transitionLiquidityReservation i fr st now d)) =
      sql_update (\<lambda>s. sw_reservation_id s = Some i) ?f (sovereign_swaps d) \<or>
    sovereign_swaps (snd (transitionLiquidityReservation i fr st now d)) = sovereign_swaps d"
    by (auto simp: transitionLiquidityReservation_def transaction_def write_swap_reservation_status_def
        write_reservation_status_def split: option.splits if_splits)
  moreover have "same_keys ?f" by (simp add: same_keys_def)
  ultimately show ?thesis by (rule same_or_updated)
qed

lemma commit_advance_swaps:
  "\<exists>P f. same_keys f \<and> sovereign_swaps (snd (commitReservationAndAdvanceSwapToFunded r i now d)) =
     sql_update P f (sovereign_swaps d)"
proof -
  let ?f = "\<lambda>s. s\<lparr>sw_reservation_status := Some RS_COMMITTED,
      sw_state := (if sw_state s = SA_EVM_FUNDING_PENDING then SA_EVM_FUNDED else sw_state s),
      sw_updated_at := now\<rparr>"
  have "sovereign_swaps (snd (commitReservationAndAdvanceSwapToFunded r i now d)) =
      sql_update (\<lambda>s. sw_id s = i) ?f (sovereign_swaps d) \<or>
    sovereign_swaps (snd (commitReservationAndAdvanceSwapToFunded r i now d)) = sovereign_swaps d"
  proof (cases "fst (commitReservationAndAdvanceSwapToFunded r i now d)")
    case (Inl e)
    then obtain d' where "commitReservationAndAdvanceSwapToFunded r i now d = (Inl e, d')" by (metis prod.collapse)
    then show ?thesis
      using transaction_error unfolding commitReservationAndAdvanceSwapToFunded_def by auto
  next
    case (Inr u)
    then obtain d' where c: "commitReservationAndAdvanceSwapToFunded r i now d = (Inr u, d')" by (metis prod.collapse)
    then show ?thesis by (elim commit_advance_ok) (simp add: c)
  qed
  moreover have "same_keys ?f" by (simp add: same_keys_def)
  ultimately show ?thesis by (rule same_or_updated)
qed

lemma swaps_ok_step: "swaps_ok d \<Longrightarrow> swaps_ok (swap_op_step x d)"
proof (cases x)
  case (SCreate r fp now)
  assume "swaps_ok d"
  then show ?thesis using swaps_ok_create [OF _ surjective_pairing] SCreate by simp
next
  case (SUpdate i u tr now)
  assume "swaps_ok d"
  then show ?thesis using swaps_ok_update_swap [OF _ surjective_pairing] SUpdate by simp
next
  case (SRecover i f t now)
  assume "swaps_ok d"
  then show ?thesis using swaps_ok_recover SRecover by simp
next
  case (SClaim i a w l now)
  assume "swaps_ok d"
  then show ?thesis using lease.claim_valid SClaim by simp
next
  case (SRelease i w now)
  assume "swaps_ok d"
  then show ?thesis
    by (rule swaps_ok_update [where f = "\<lambda>w. w\<lparr>sw_action_in_flight := None, sw_action_claimed_by := None,
          sw_action_claimed_at := None, sw_action_lease_expires_at := None, sw_updated_at := now\<rparr>"])
       (simp_all add: SRelease releaseSovereignAction_def same_keys_def)
next
  case (SReservation i fr st now)
  assume "swaps_ok d"
  then show ?thesis
    using transition_reservation_swaps [of i fr st now d] swaps_ok_update SReservation by auto
next
  case (SCommitAdvance r i now)
  assume "swaps_ok d"
  then show ?thesis
    using commit_advance_swaps [of r i now d] swaps_ok_update SCommitAdvance by auto
qed

lemma swaps_ok_run: "swaps_ok d \<Longrightarrow> swaps_ok (swap_ops_run xs d)"
  by (induction xs arbitrary: d) (simp_all add: swaps_ok_step)

lemma swaps_ok_empty: "swaps_ok empty_db"
  by (simp add: swaps_ok_def empty_db_def)

section \<open>Round trip\<close>

text \<open>
  A record in the form the coordinator creates it: lower-case hex fields, no empty optional text, no
  invoice and no running action yet.
\<close>

definition lower_nonempty :: "string \<Rightarrow> bool" where
  "lower_nonempty x \<longleftrightarrow> x \<noteq> '''' \<and> to_lower x = x"

definition text_ok :: "string option \<Rightarrow> bool" where
  "text_ok x \<longleftrightarrow> x \<noteq> Some ''''"

definition fresh_record :: "swap_rec \<Rightarrow> bool" where
  "fresh_record r \<longleftrightarrow> r_holdInvoice r = None \<and> lower_nonempty (r_hashLock r) \<and>
     lower_nonempty (r_claimingAddress r) \<and> lower_nonempty (r_targetDestinationAddress r) \<and>
     (\<exists>t. r_tokenAddress r = Some t \<and> lower_nonempty t) \<and>
     (\<exists>t. r_refundAddress r = Some t \<and> lower_nonempty t) \<and>
     (\<exists>c. r_cltvExpiryBlocks r = Some c \<and> c \<noteq> 0) \<and> (\<exists>c. r_timelockSeconds r = Some c \<and> c \<noteq> 0) \<and>
     r_refundLocktime r \<noteq> Some 0 \<and> list_all text_ok [r_reservationId r, r_evmSwapKey r, r_evmHtlcId r,
       r_evmFundingTxHash r, r_evmClaimTxHash r, r_evmRefundTxHash r, r_destinationTxHash r,
       r_actionInFlight r, r_actionClaimedBy r, r_failureReason r]"

text \<open>What reading adds to the record that was written: the defaults of the columns.\<close>

definition with_defaults :: "swap_rec \<Rightarrow> string \<Rightarrow> swap_rec" where
  "with_defaults r fingerprint = r\<lparr>
     r_economicFingerprint := Some fingerprint, r_actionGeneration := Some 0,
     r_recoveryRequired := Some (r_recoveryRequired r = Some True),
     r_retryCount := Some (coalesce (r_retryCount r) 0),
     r_fundRetryCount := Some (coalesce (r_fundRetryCount r) 0),
     r_settleRetryCount := Some (coalesce (r_settleRetryCount r) 0),
     r_refundRetryCount := Some (coalesce (r_refundRetryCount r) 0),
     r_cancelRetryCount := Some (coalesce (r_cancelRetryCount r) 0) \<rparr>"

lemma truthy_text: "text_ok x \<Longrightarrow> truthy_str x = x"
  by (simp add: truthy_str_def text_ok_def)

lemma record_of_row:
  assumes "fresh_record r" "fp \<noteq> ''''"
  shows "mapRowToSovereignRecord (row_of_record r fp) = with_defaults r fp"
proof -
  obtain t1 t2 c1 c2 where f: "r_tokenAddress r = Some t1" "lower_nonempty t1"
      "r_refundAddress r = Some t2" "lower_nonempty t2"
      "r_cltvExpiryBlocks r = Some c1" "c1 \<noteq> 0" "r_timelockSeconds r = Some c2" "c2 \<noteq> 0"
      "r_holdInvoice r = None" "r_refundLocktime r \<noteq> Some 0"
      "lower_nonempty (r_hashLock r)" "lower_nonempty (r_claimingAddress r)"
      "lower_nonempty (r_targetDestinationAddress r)"
    using assms(1) by (auto simp: fresh_record_def)
  have t: "truthy_str (r_reservationId r) = r_reservationId r" "truthy_str (r_evmSwapKey r) = r_evmSwapKey r"
      "truthy_str (r_evmHtlcId r) = r_evmHtlcId r" "truthy_str (r_evmFundingTxHash r) = r_evmFundingTxHash r"
      "truthy_str (r_evmClaimTxHash r) = r_evmClaimTxHash r"
      "truthy_str (r_evmRefundTxHash r) = r_evmRefundTxHash r"
      "truthy_str (r_destinationTxHash r) = r_destinationTxHash r"
      "truthy_str (r_actionInFlight r) = r_actionInFlight r"
      "truthy_str (r_actionClaimedBy r) = r_actionClaimedBy r" "truthy_str (r_failureReason r) = r_failureReason r"
    using assms(1) by (simp_all add: fresh_record_def truthy_text)
  show ?thesis
    using f assms(2)
    by (intro swap_rec.equality)
       (simp_all add: mapRowToSovereignRecord_def row_of_record_def with_defaults_def invoice_of_row_def
          t truthy_str_def [of "Some x" for x] truthy_str_def [of None] truthy_num_def lower_nonempty_def)
qed

section \<open>Sample data\<close>

definition demo_swap_record :: swap_rec where
  "demo_swap_record = \<lparr> r_id = ''e1'', r_idempotencyKey = ''k1'', r_hashLock = ''ab'',
     r_claimingAddress = ''c'', r_targetDestinationAddress = ''d'', r_amountSats = 1000,
     r_expectedUsdcAmount = 5, r_state = SA_PLAN_PREPARED, r_reservationId = Some ''r1'',
     r_reservedAmountUnits = Some 5, r_reservationStatus = Some RS_RESERVED, r_holdInvoice = None,
     r_evmSwapKey = Some ''key1'', r_evmHtlcId = None, r_evmFundingTxHash = None,
     r_evmClaimTxHash = None, r_evmRefundTxHash = None, r_destinationTxHash = None,
     r_tokenAddress = Some ''t'', r_refundAddress = Some ''f'', r_cltvExpiryBlocks = Some 288,
     r_timelockSeconds = Some 7200, r_refundLocktime = None, r_economicFingerprint = Some ''x'',
     r_actionInFlight = None, r_actionClaimedBy = None, r_actionClaimedAt = None,
     r_actionGeneration = None, r_recoveryRequired = None, r_failureReason = None,
     r_retryCount = None, r_fundRetryCount = None, r_settleRetryCount = None,
     r_refundRetryCount = None, r_cancelRetryCount = None, r_createdAt = 1, r_updatedAt = 1 \<rparr>"

lemma demo_fresh: "fresh_record demo_swap_record"
  by (simp add: fresh_record_def demo_swap_record_def lower_nonempty_def text_ok_def to_lower_def char_lower_def)

definition demo_swap_db :: db where
  "demo_swap_db = swap_op_step (SCreate demo_swap_record ''x'' 1) empty_db"

lemma demo_swap_rows: "sovereign_swaps demo_swap_db = [row_of_record demo_swap_record ''x'']"
  by (simp add: demo_swap_db_def createSovereignSwap_def empty_db_def Let_def)

lemma demo_row_fields:
  "sw_id (row_of_record demo_swap_record ''x'') = ''e1''"
  "sw_action_in_flight (row_of_record demo_swap_record ''x'') = None"
  by (simp_all add: row_of_record_def demo_swap_record_def Let_def)

lemma demo_swap_ok: "swaps_ok demo_swap_db"
  unfolding demo_swap_db_def by (rule swaps_ok_step [OF swaps_ok_empty])

section \<open>Properties\<close>

text \<open>A payment hash belongs to one swap: after any sequence of store operations on an empty
  database, invoice observations and reservation steps included, two swap rows with the same
  payment hash, idempotency key or hash lock are the same row.\<close>

theorem payment_hash_owned_once:
  assumes "w1 \<in> set (sovereign_swaps (swap_ops_run ops empty_db))"
    and "w2 \<in> set (sovereign_swaps (swap_ops_run ops empty_db))"
    and "sw_payment_hash w1 = sw_payment_hash w2 \<or> sw_idempotency_key w1 = sw_idempotency_key w2 \<or>
         sw_hash_lock w1 = sw_hash_lock w2"
  shows "w1 = w2"
  using swaps_ok_run [OF swaps_ok_empty, of ops] assms
  by (auto simp: swaps_ok_def keyed_def distinct_map dest: inj_onD)

lemma payment_hash_owned_once_witness:
  "\<exists>w1 w2. w1 \<in> set (sovereign_swaps demo_swap_db) \<and> w2 \<in> set (sovereign_swaps demo_swap_db) \<and> w1 = w2"
proof -
  have r: "swap_ops_run [SCreate demo_swap_record ''x'' 1] empty_db = demo_swap_db" by (simp add: demo_swap_db_def)
  have m: "row_of_record demo_swap_record ''x'' \<in> set (sovereign_swaps (swap_ops_run [SCreate demo_swap_record ''x'' 1] empty_db))"
    unfolding r by (simp add: demo_swap_rows)
  from payment_hash_owned_once [OF m m] m show ?thesis unfolding r by auto
qed

text \<open>The action lease excludes other workers: while worker w holds the lease of a swap until time t,
  no sequence of claims and releases by other workers with clocks up to t is ever granted the
  action, and w still holds it afterwards.\<close>

theorem lease_excludes_others:
  assumes "swaps_ok d" "swap_holder d i = Some (Some w, Some t)"
    and "\<forall>x \<in> set ops. lease_worker x \<noteq> w \<and> lease_worker x \<noteq> '''' \<and> lease_clock x \<le> t"
  shows "\<not> fst (lease_run claimSovereignAction (\<lambda>i w now. releaseSovereignAction i (Some w) now) i ops d) \<and>
    swap_holder (snd (lease_run claimSovereignAction (\<lambda>i w now. releaseSovereignAction i (Some w) now) i ops d)) i
      = Some (Some w, Some t)"
  using lease.exclusive [OF assms] .

lemma lease_excludes_others_witness:
  "\<not> fst (lease_run claimSovereignAction (\<lambda>i w now. releaseSovereignAction i (Some w) now) ''e1''
      [LRelease ''b'' 50, LClaim ''b'' ''FUND'' None 100]
      (snd (claimSovereignAction ''e1'' ''FUND'' ''a'' None 40 demo_swap_db)))"
proof -
  let ?d = "snd (claimSovereignAction ''e1'' ''FUND'' ''a'' None 40 demo_swap_db)"
  have "fst (claimSovereignAction ''e1'' ''FUND'' ''a'' None 40 demo_swap_db)"
    unfolding claim_action_granted [OF demo_swap_ok]
    by (simp add: get_swap_row_def demo_swap_rows demo_row_fields claimable_def)
  then have h: "swap_holder ?d ''e1'' = Some (Some ''a'', Some 60040)"
    by (simp add: lease.claim_holder [OF demo_swap_ok])
  show ?thesis
    by (rule conjunct1 [OF lease_excludes_others [OF lease.claim_valid [OF demo_swap_ok] h]]) simp
qed

text \<open>What is written is read back: a swap created from a fresh record is found by its id, its
  idempotency key and its payment hash, with or without \<open>0x\<close>, as that record with the column
  defaults filled in.\<close>

theorem create_get_roundtrip:
  assumes "createSovereignSwap r fp now d = (Inr (), d')" "fresh_record r" "fp \<noteq> ''''"
  shows "getSovereignSwap (r_id r) d' = Some (with_defaults r fp) \<and>
    getSovereignSwapByIdempotencyKey (r_idempotencyKey r) d' = Some (with_defaults r fp) \<and>
    getSovereignSwapByPaymentHash (r_hashLock r) d' = Some (with_defaults r fp)"
  using assms(1)
proof (cases rule: create_swap_cases)
  case created
  have k: "sw_id (row_of_record r fp) = r_id r" "sw_idempotency_key (row_of_record r fp) = r_idempotencyKey r"
      "sw_payment_hash (row_of_record r fp) = to_lower (strip_0x (r_hashLock r))"
    using assms(2) by (simp_all add: row_of_record_def Let_def fresh_record_def)
  have "sql_get (\<lambda>w. sw_id w = r_id r) (sovereign_swaps d) = None"
    "sql_get (\<lambda>w. sw_idempotency_key w = r_idempotencyKey r) (sovereign_swaps d) = None"
    "sql_get (\<lambda>w. sw_payment_hash w = to_lower (strip_0x (r_hashLock r))) (sovereign_swaps d) = None"
    using created(3) by (simp_all add: sql_get_None_iff k)
  with created(2) show ?thesis
    by (simp add: getSovereignSwap_def get_swap_row_def getSovereignSwapByIdempotencyKey_def
        getSovereignSwapByPaymentHash_def sql_get_append k record_of_row [OF assms(2,3)])
qed simp

lemma create_get_roundtrip_witness:
  "getSovereignSwapByPaymentHash ''ab'' demo_swap_db = Some (with_defaults demo_swap_record ''x'')"
proof -
  have "createSovereignSwap demo_swap_record ''x'' 1 empty_db = (Inr (), demo_swap_db)"
    by (simp add: demo_swap_db_def createSovereignSwap_def Let_def empty_db_def)
  from create_get_roundtrip [OF this demo_fresh] show ?thesis by (simp add: demo_swap_record_def)
qed

text \<open>An update that clears the action fields, as every completing handler of the coordinator sends it,
  frees the lease whoever holds it: it is not tied to the worker, so a stale worker that finishes
  late drops the lease of the worker that took over.\<close>

theorem update_frees_any_lease:
  assumes "updateSovereignSwap i u tr now d = (Inr r, d')" "su_actionInFlight u = Some None"
  shows "swap_holder d' i = None"
  using assms(1)
proof (cases rule: update_swap_cases)
  case (updated row)
  have "get_swap_row i d' = Some (apply_row_updates u now row)"
    using updated(1) get_swap_row_Some [OF updated(1)]
    by (simp add: get_swap_row_def updated(3) get_swap_row_update update_row_keys)
  then show ?thesis
    using assms(2) by (simp add: swap_holder_def apply_row_updates_def Let_def)
qed simp_all

lemma update_frees_any_lease_witness:
  "swap_holder (snd (updateSovereignSwap ''e1'' (no_updates\<lparr>su_actionInFlight := Some None,
      su_actionClaimedBy := Some None, su_actionClaimedAt := Some None\<rparr>) None 60
      (snd (claimSovereignAction ''e1'' ''FUND'' ''b'' None 50 demo_swap_db)))) ''e1'' = None"
proof -
  define d where "d = snd (claimSovereignAction ''e1'' ''FUND'' ''b'' None 50 demo_swap_db)"
  let ?u = "no_updates\<lparr>su_actionInFlight := Some None, su_actionClaimedBy := Some None,
      su_actionClaimedAt := Some None\<rparr>"
  obtain x d' where e: "updateSovereignSwap ''e1'' ?u None 60 d = (x, d')" by (metis surj_pair)
  then show ?thesis
  proof (cases rule: update_swap_cases)
    case (updated row)
    with e show ?thesis unfolding d_def [symmetric]
      using update_frees_any_lease [of "''e1''" ?u None 60 d _ d'] by simp
  next
    case clash
    have "\<forall>w \<in> set (sovereign_swaps d). sw_id w = ''e1''"
      unfolding d_def claim_swaps ball_sql_update by (simp add: demo_swap_rows demo_row_fields)
    with e clash show ?thesis by (auto simp: updateSovereignSwap_def Let_def split: option.splits if_splits)
  next
    case missing
    then show ?thesis
      by (simp add: d_def get_swap_row_def claim_swaps demo_swap_rows demo_row_fields claimable_def)
  qed
qed

end
