(* ===== verification/Actions.thy ===== *)
theory Actions
  imports Prelude
begin

text \<open>
  Asynchronous handlers as actions, and a program logic for them. An action takes the state of its component
  to a result, the list of awaited calls it logged, and the new state; a throw is \<open>Inl\<close> and
  leaves the state as it is at that moment. An awaited call is an arbitrary function on the whole state, so it stands
  for the callee and for everything other handlers and processes do meanwhile.

  Nothing said about the state survives an awaited call; what survives is the history of
  logged calls and results. So a triple has assertions on that history, and a guard \<open>J h e\<close> that
  every event \<open>e\<close> has to meet after the history \<open>h\<close>. The judgement \<open>only A m\<close> says that every
  event of \<open>m\<close>, in any state, lies in \<open>A\<close>; it handles whatever \<open>J\<close> and stable assertions
  do not speak about.
\<close>

section \<open>Actions\<close>

type_synonym ('x, 'e, 's, 'a) action = "'s \<Rightarrow> ('x + 'a) \<times> 'e list \<times> 's"

definition ret :: "'a \<Rightarrow> ('x, 'e, 's, 'a) action" where
  "ret x s = (Inr x, [], s)"

definition thr :: "'x \<Rightarrow> ('x, 'e, 's, 'a) action" where
  "thr e s = (Inl e, [], s)"

definition bnd :: "('x, 'e, 's, 'a) action \<Rightarrow> ('a \<Rightarrow> ('x, 'e, 's, 'b) action) \<Rightarrow> ('x, 'e, 's, 'b) action" where
  "bnd m f s = (case m s of
     (Inl e, t, s') \<Rightarrow> (Inl e, t, s')
   | (Inr x, t, s') \<Rightarrow> (case f x s' of (r, t', s'') \<Rightarrow> (r, t @ t', s'')))"

definition seq :: "('x, 'e, 's, 'a) action \<Rightarrow> ('x, 'e, 's, 'b) action \<Rightarrow> ('x, 'e, 's, 'b) action" where
  "seq m k = bnd m (\<lambda>_. k)"

text \<open>\<open>try { m } catch (e) { h(e) }\<close> and \<open>try { m } finally { f }\<close>\<close>

definition attempt :: "('x, 'e, 's, 'a) action \<Rightarrow> ('x \<Rightarrow> ('x, 'e, 's, 'a) action) \<Rightarrow> ('x, 'e, 's, 'a) action" where
  "attempt m h s = (case m s of
     (Inl e, t, s') \<Rightarrow> (case h e s' of (r, t', s'') \<Rightarrow> (r, t @ t', s''))
   | (Inr x, t, s') \<Rightarrow> (Inr x, t, s'))"

definition ensure :: "('x, 'e, 's, 'a) action \<Rightarrow> ('x, 'e, 's, unit) action \<Rightarrow> ('x, 'e, 's, 'a) action" where
  "ensure m f s = (case m s of
     (r, t, s') \<Rightarrow> (case f s' of
        (Inl e, t', s'') \<Rightarrow> (Inl e, t @ t', s'')
      | (Inr _, t', s'') \<Rightarrow> (r, t @ t', s'')))"

definition ask :: "('s \<Rightarrow> 'a) \<Rightarrow> ('x, 'e, 's, 'a) action" where
  "ask f s = (Inr (f s), [], s)"

definition change :: "('s \<Rightarrow> 's) \<Rightarrow> ('x, 'e, 's, unit) action" where
  "change f s = (Inr (), [], f s)"

text \<open>An awaited call, logged with its result.\<close>

definition call :: "(('x + 'a) \<Rightarrow> 'e) \<Rightarrow> ('s \<Rightarrow> ('x + 'a) \<times> 's) \<Rightarrow> ('x, 'e, 's, 'a) action" where
  "call ev f s = (case f s of (r, s') \<Rightarrow> (r, [ev r], s'))"

section \<open>Traces\<close>

definition trace :: "('x, 'e, 's, 'a) action \<Rightarrow> 's \<Rightarrow> 'e list" where
  "trace m s = fst (snd (m s))"

definition result :: "('x, 'e, 's, 'a) action \<Rightarrow> 's \<Rightarrow> 'x + 'a" where
  "result m s = fst (m s)"

fun allowed :: "('e list \<Rightarrow> 'e \<Rightarrow> bool) \<Rightarrow> 'e list \<Rightarrow> 'e list \<Rightarrow> bool" where
  "allowed J h [] \<longleftrightarrow> True"
| "allowed J h (e # t) \<longleftrightarrow> J h e \<and> allowed J (h @ [e]) t"

lemma allowed_append: "allowed J h (t @ t') \<longleftrightarrow> allowed J h t \<and> allowed J (h @ t) t'"
  by (induction t arbitrary: h) auto

lemma allowed_at: "allowed J h (pre @ e # post) \<Longrightarrow> J (h @ pre) e"
  by (simp add: allowed_append)

lemma allowed_always: "(\<And>h e. e \<in> set t \<Longrightarrow> J h e) \<Longrightarrow> allowed J h t"
  by (induction t arbitrary: h) auto

section \<open>Which events an action can log\<close>

definition only :: "('e \<Rightarrow> bool) \<Rightarrow> ('x, 'e, 's, 'a) action \<Rightarrow> bool" where
  "only A m \<longleftrightarrow> (\<forall>s. \<forall>e \<in> set (trace m s). A e)"

named_theorems only_rules "rules for the events an action can log"

lemma onlyI: "(\<And>s r t s' e. m s = (r, t, s') \<Longrightarrow> e \<in> set t \<Longrightarrow> A e) \<Longrightarrow> only A m"
  by (metis only_def trace_def prod.collapse)

lemma onlyD: "only A m \<Longrightarrow> m s = (r, t, s') \<Longrightarrow> e \<in> set t \<Longrightarrow> A e"
  by (metis only_def trace_def fst_conv snd_conv)

lemma only_trace: "only A m \<Longrightarrow> e \<in> set (trace m s) \<Longrightarrow> A e"
  by (simp add: only_def)

lemma only_weaken: "only A m \<Longrightarrow> (\<And>e. A e \<Longrightarrow> B e) \<Longrightarrow> only B m"
  by (simp add: only_def)

lemma only_ret [only_rules]: "only A (ret x)"
  by (simp add: only_def trace_def ret_def)

lemma only_thr [only_rules]: "only A (thr e)"
  by (simp add: only_def trace_def thr_def)

lemma only_ask [only_rules]: "only A (ask f)"
  by (simp add: only_def trace_def ask_def)

lemma only_change [only_rules]: "only A (change f)"
  by (simp add: only_def trace_def change_def)

lemma only_call [only_rules]: "(\<And>r. A (ev r)) \<Longrightarrow> only A (call ev f)"
  by (rule onlyI) (auto simp: call_def split: prod.splits)

lemma bnd_cases:
  assumes "bnd m f s = (r, t, s')"
  obtains (throws) e where "m s = (Inl e, t, s')" "r = Inl e"
    | (goes_on) x t1 s1 t2 where "m s = (Inr x, t1, s1)" "f x s1 = (r, t2, s')" "t = t1 @ t2"
  using assms unfolding bnd_def by (auto split: prod.splits sum.splits)

lemma attempt_cases:
  assumes "attempt m h s = (r, t, s')"
  obtains (returns) x where "m s = (Inr x, t, s')" "r = Inr x"
    | (handled) e t1 s1 t2 where "m s = (Inl e, t1, s1)" "h e s1 = (r, t2, s')" "t = t1 @ t2"
  using assms unfolding attempt_def by (auto split: prod.splits sum.splits)

lemma ensure_cases:
  assumes "ensure m f s = (r, t, s')"
  obtains r1 t1 s1 r2 t2 where "m s = (r1, t1, s1)" "f s1 = (r2, t2, s')" "t = t1 @ t2"
    "r = (case r2 of Inl e \<Rightarrow> Inl e | Inr _ \<Rightarrow> r1)"
  using assms unfolding ensure_def by (auto split: prod.splits sum.splits)

lemma only_bnd [only_rules]:
  assumes "only A m" "\<And>x. only A (f x)"
  shows "only A (bnd m f)"
proof (rule onlyI)
  fix s r t s' e
  assume b: "bnd m f s = (r, t, s')" and e: "e \<in> set t"
  from b show "A e"
  proof (cases rule: bnd_cases)
    case throws then show ?thesis using onlyD [OF assms(1)] e by metis
  next
    case goes_on then show ?thesis using onlyD [OF assms(1)] onlyD [OF assms(2)] e
      by (metis Un_iff set_append)
  qed
qed

lemma only_seq [only_rules]: "only A m \<Longrightarrow> only A k \<Longrightarrow> only A (seq m k)"
  unfolding seq_def by (intro only_bnd)

lemma only_attempt [only_rules]:
  assumes "only A m" "\<And>e. only A (h e)"
  shows "only A (attempt m h)"
proof (rule onlyI)
  fix s r t s' e
  assume b: "attempt m h s = (r, t, s')" and e: "e \<in> set t"
  from b show "A e"
  proof (cases rule: attempt_cases)
    case returns then show ?thesis using onlyD [OF assms(1)] e by metis
  next
    case handled then show ?thesis using onlyD [OF assms(1)] onlyD [OF assms(2)] e
      by (metis Un_iff set_append)
  qed
qed

lemma only_ensure [only_rules]:
  assumes "only A m" "only A f"
  shows "only A (ensure m f)"
proof (rule onlyI)
  fix s r t s' e
  assume b: "ensure m f s = (r, t, s')" and e: "e \<in> set t"
  then show "A e"
    using onlyD [OF assms(1)] onlyD [OF assms(2)]
    by (elim ensure_cases) (metis Un_iff set_append)
qed

lemma only_if [only_rules]:
  "(c \<Longrightarrow> only A m) \<Longrightarrow> (\<not> c \<Longrightarrow> only A n) \<Longrightarrow> only A (if c then m else n)"
  by simp

lemma only_option [only_rules]:
  "(x = None \<Longrightarrow> only A m) \<Longrightarrow> (\<And>y. x = Some y \<Longrightarrow> only A (f y)) \<Longrightarrow>
   only A (case x of None \<Rightarrow> m | Some y \<Rightarrow> f y)"
  by (cases x) auto

lemma only_prod [only_rules]: "(\<And>x y. p = (x, y) \<Longrightarrow> only A (f x y)) \<Longrightarrow> only A (case p of (x, y) \<Rightarrow> f x y)"
  by (cases p) auto

lemma only_sum [only_rules]:
  "(\<And>e. x = Inl e \<Longrightarrow> only A (f e)) \<Longrightarrow> (\<And>y. x = Inr y \<Longrightarrow> only A (g y)) \<Longrightarrow>
   only A (case x of Inl e \<Rightarrow> f e | Inr y \<Rightarrow> g y)"
  by (cases x) auto

lemma only_Let [only_rules]: "only A (f x) \<Longrightarrow> only A (let y = x in f y)"
  by simp

section \<open>Weakest preconditions over histories\<close>

text \<open>
  \<open>wp J m Q E h\<close>: from every state, after the history \<open>h\<close>, every event of \<open>m\<close> meets the guard, and
  \<open>Q\<close> (or \<open>E\<close> when it throws) holds of the result and the longer history.
\<close>

definition wp ::
  "('e list \<Rightarrow> 'e \<Rightarrow> bool) \<Rightarrow> ('x, 'e, 's, 'a) action
   \<Rightarrow> ('a \<Rightarrow> 'e list \<Rightarrow> bool) \<Rightarrow> ('x \<Rightarrow> 'e list \<Rightarrow> bool) \<Rightarrow> 'e list \<Rightarrow> bool" where
  "wp J m Q E h \<longleftrightarrow> (\<forall>s r t s'. m s = (r, t, s') \<longrightarrow>
     allowed J h t \<and> (case r of Inr x \<Rightarrow> Q x (h @ t) | Inl e \<Rightarrow> E e (h @ t)))"

named_theorems wp_rules "backward rules for wp"

lemma wpI:
  "(\<And>s r t s'. m s = (r, t, s') \<Longrightarrow>
     allowed J h t \<and> (case r of Inr x \<Rightarrow> Q x (h @ t) | Inl e \<Rightarrow> E e (h @ t))) \<Longrightarrow> wp J m Q E h"
  unfolding wp_def by blast

lemma wpD:
  "wp J m Q E h \<Longrightarrow> m s = (r, t, s') \<Longrightarrow>
     allowed J h t \<and> (case r of Inr x \<Rightarrow> Q x (h @ t) | Inl e \<Rightarrow> E e (h @ t))"
  unfolding wp_def by blast

lemma wp_trace: "wp J m Q E [] \<Longrightarrow> allowed J [] (trace m s)"
  unfolding wp_def trace_def by (metis prod.collapse)

lemma wp_at: "wp J m Q E [] \<Longrightarrow> trace m s = pre @ e # post \<Longrightarrow> J pre e"
  using wp_trace [of J m Q E s] allowed_at [of J "[]" pre e post] by simp

lemma wp_result:
  "wp J m Q E [] \<Longrightarrow> (case result m s of Inr x \<Rightarrow> Q x (trace m s) | Inl e \<Rightarrow> E e (trace m s))"
  unfolding wp_def trace_def result_def by (metis append_Nil prod.collapse)

lemma wp_post:
  assumes "wp J m Q' E' h" "\<And>x h. Q' x h \<Longrightarrow> Q x h" "\<And>e h. E' e h \<Longrightarrow> E e h"
  shows "wp J m Q E h"
proof (rule wpI)
  fix s r t s' assume "m s = (r, t, s')"
  from wpD [OF assms(1) this]
  show "allowed J h t \<and> (case r of Inr x \<Rightarrow> Q x (h @ t) | Inl e \<Rightarrow> E e (h @ t))"
    using assms(2,3) by (cases r) auto
qed

lemma allowed_mono: "allowed J' h t \<Longrightarrow> (\<And>h e. J' h e \<Longrightarrow> J h e) \<Longrightarrow> allowed J h t"
  by (induction t arbitrary: h) auto

lemma wp_guard_mono:
  assumes "wp J' m Q E h" "\<And>h e. J' h e \<Longrightarrow> J h e"
  shows "wp J m Q E h"
  using assms(1) allowed_mono [of J' _ _ J, OF _ assms(2)] unfolding wp_def by fastforce

lemma wp_ret [wp_rules]: "Q x h \<Longrightarrow> wp J (ret x) Q E h"
  by (rule wpI) (auto simp: ret_def)

lemma wp_thr [wp_rules]: "E e h \<Longrightarrow> wp J (thr e) Q E h"
  by (rule wpI) (auto simp: thr_def)

lemma wp_bnd [wp_rules]:
  assumes "wp J m (\<lambda>x. wp J (f x) Q E) E h"
  shows "wp J (bnd m f) Q E h"
proof (rule wpI)
  fix s r t s'
  assume "bnd m f s = (r, t, s')"
  then show "allowed J h t \<and> (case r of Inr x \<Rightarrow> Q x (h @ t) | Inl e \<Rightarrow> E e (h @ t))"
  proof (cases rule: bnd_cases)
    case throws then show ?thesis using wpD [OF assms] by fastforce
  next
    case (goes_on x t1 s1 t2)
    have a: "allowed J h t1 \<and> wp J (f x) Q E (h @ t1)" using wpD [OF assms goes_on(1)] by simp
    show ?thesis using a wpD [OF conjunct2 [OF a] goes_on(2)] goes_on(3)
      by (cases r) (simp_all add: allowed_append)
  qed
qed

lemma wp_seq [wp_rules]: "wp J m (\<lambda>_. wp J k Q E) E h \<Longrightarrow> wp J (seq m k) Q E h"
  unfolding seq_def by (rule wp_bnd)

lemma wp_attempt [wp_rules]:
  assumes "wp J m Q (\<lambda>e. wp J (g e) Q E) h"
  shows "wp J (attempt m g) Q E h"
proof (rule wpI)
  fix s r t s'
  assume "attempt m g s = (r, t, s')"
  then show "allowed J h t \<and> (case r of Inr x \<Rightarrow> Q x (h @ t) | Inl e \<Rightarrow> E e (h @ t))"
  proof (cases rule: attempt_cases)
    case returns then show ?thesis using wpD [OF assms] by fastforce
  next
    case (handled e t1 s1 t2)
    have a: "allowed J h t1 \<and> wp J (g e) Q E (h @ t1)" using wpD [OF assms handled(1)] by simp
    show ?thesis using a wpD [OF conjunct2 [OF a] handled(2)] handled(3)
      by (cases r) (simp_all add: allowed_append)
  qed
qed

text \<open>An action that logs nothing.\<close>

definition silent :: "('x, 'e, 's, 'a) action \<Rightarrow> bool" where
  "silent m \<longleftrightarrow> (\<forall>s. trace m s = [])"

lemma silent_only: "only (\<lambda>_. False) m \<Longrightarrow> silent m"
  unfolding silent_def only_def by (metis list.set_intros(1) neq_Nil_conv)

lemma wp_silent:
  assumes "silent m" "\<And>x. Q x h" "\<And>e. E e h"
  shows "wp J m Q E h"
proof (rule wpI)
  fix s r t s' assume "m s = (r, t, s')"
  then have "t = []" using assms(1) unfolding silent_def trace_def by (metis fst_conv snd_conv)
  then show "allowed J h t \<and> (case r of Inr x \<Rightarrow> Q x (h @ t) | Inl e \<Rightarrow> E e (h @ t))"
    using assms(2,3) by (cases r) simp_all
qed

lemma wp_call [wp_rules]:
  assumes "\<And>r. J h (ev r)" "\<And>x. Q x (h @ [ev (Inr x)])" "\<And>e. E e (h @ [ev (Inl e)])"
  shows "wp J (call ev f) Q E h"
  by (rule wpI) (use assms in \<open>auto simp: call_def split: prod.splits sum.split\<close>)

lemma wp_if [wp_rules]:
  "(c \<Longrightarrow> wp J m Q E h) \<Longrightarrow> (\<not> c \<Longrightarrow> wp J n Q E h) \<Longrightarrow> wp J (if c then m else n) Q E h"
  by simp

lemma wp_option [wp_rules]:
  "(x = None \<Longrightarrow> wp J m Q E h) \<Longrightarrow> (\<And>y. x = Some y \<Longrightarrow> wp J (f y) Q E h) \<Longrightarrow>
   wp J (case x of None \<Rightarrow> m | Some y \<Rightarrow> f y) Q E h"
  by (cases x) auto

lemma wp_prod [wp_rules]:
  "(\<And>x y. p = (x, y) \<Longrightarrow> wp J (f x y) Q E h) \<Longrightarrow> wp J (case p of (x, y) \<Rightarrow> f x y) Q E h"
  by (cases p) auto

lemma wp_sum [wp_rules]:
  "(\<And>e. x = Inl e \<Longrightarrow> wp J (f e) Q E h) \<Longrightarrow> (\<And>y. x = Inr y \<Longrightarrow> wp J (g y) Q E h) \<Longrightarrow>
   wp J (case x of Inl e \<Rightarrow> f e | Inr y \<Rightarrow> g y) Q E h"
  by (cases x) auto

lemma wp_Let [wp_rules]: "wp J (f x) Q E h \<Longrightarrow> wp J (let y = x in f y) Q E h"
  by simp

lemma wp_ask [wp_rules]: "(\<And>x. Q x h) \<Longrightarrow> wp J (ask f) Q E h"
  by (rule wpI) (auto simp: ask_def)

lemma wp_change [wp_rules]: "Q () h \<Longrightarrow> wp J (change f) Q E h"
  by (rule wpI) (auto simp: change_def)

lemma wp_ensure_change [wp_rules]: "wp J m Q E h \<Longrightarrow> wp J (ensure m (change f)) Q E h"
proof (rule wpI)
  fix s r t s'
  assume m: "wp J m Q E h" and "ensure m (change f) s = (r, t, s')"
  then obtain s1 where "m s = (r, t, s1)"
    by (auto simp: ensure_def change_def split: prod.splits)
  from wpD [OF m this] show "allowed J h t \<and> (case r of Inr x \<Rightarrow> Q x (h @ t) | Inl e \<Rightarrow> E e (h @ t))" .
qed

text \<open>An opaque part keeps every assertion that its events cannot falsify.\<close>

lemma allowed_keep:
  assumes "\<And>e. e \<in> set t \<Longrightarrow> A e" "\<And>h e. A e \<Longrightarrow> P h \<Longrightarrow> J h e \<and> P (h @ [e])" "P h"
  shows "allowed J h t \<and> P (h @ t)"
  using assms(1,3)
proof (induction t arbitrary: h)
  case (Cons e t)
  then show ?case using assms(2) by (metis allowed.simps(2) append.assoc append_Cons append_Nil
        list.set_intros)
qed simp

lemma wp_keep:
  assumes "only A m" "P h" "\<And>h e. A e \<Longrightarrow> P h \<Longrightarrow> J h e \<and> P (h @ [e])"
    "\<And>x h. P h \<Longrightarrow> Q x h" "\<And>e h. P h \<Longrightarrow> E e h"
  shows "wp J m Q E h"
proof (rule wpI)
  fix s r t s' assume m: "m s = (r, t, s')"
  have "allowed J h t \<and> P (h @ t)"
    by (rule allowed_keep [where A = A]) (use onlyD [OF assms(1) m] assms(2,3) in auto)
  then show "allowed J h t \<and> (case r of Inr x \<Rightarrow> Q x (h @ t) | Inl e \<Rightarrow> E e (h @ t))"
    using assms(4,5) by (cases r) auto
qed

section \<open>What a history has seen\<close>

definition seen :: "('e \<Rightarrow> bool) \<Rightarrow> 'e list \<Rightarrow> bool" where
  "seen C h \<longleftrightarrow> (\<exists>e \<in> set h. C e)"

lemma seen_append [simp]: "seen C (h @ t) \<longleftrightarrow> seen C h \<or> seen C t"
  by (auto simp: seen_def)

lemma seen_Cons [simp]: "seen C (e # h) \<longleftrightarrow> C e \<or> seen C h"
  by (auto simp: seen_def)

lemma seen_Nil [simp]: "\<not> seen C []"
  by (simp add: seen_def)

text \<open>A guard that allows a kind of event only once makes it the only one of its kind.\<close>

lemma allowed_once:
  assumes "allowed J [] (pre @ e # post)" "M e" "\<And>h e. J h e \<Longrightarrow> M e \<Longrightarrow> \<not> seen M h"
    "x \<in> set pre \<or> x \<in> set post"
  shows "\<not> M x"
  using assms(4)
proof
  assume "x \<in> set pre"
  then show ?thesis using allowed_at [OF assms(1)] assms(2,3) by (auto simp: seen_def)
next
  assume "x \<in> set post"
  then obtain us vs where "post = us @ x # vs" by (meson split_list)
  then have "J (pre @ e # us) x"
    using assms(1) allowed_at [of J "[]" "pre @ e # us" x vs] by simp
  then show ?thesis using assms(2,3) by fastforce
qed

section \<open>Potentials\<close>

text \<open>
  \<open>weighs w f m\<close>: \<open>f\<close> grows by at least the weight of the logged events. With weight zero,
  \<open>f\<close> never decreases: a clock that does not go back.
\<close>

definition weighs :: "('e \<Rightarrow> int) \<Rightarrow> ('s \<Rightarrow> int) \<Rightarrow> ('x, 'e, 's, 'a) action \<Rightarrow> bool" where
  "weighs w f m \<longleftrightarrow> (\<forall>s r t s'. m s = (r, t, s') \<longrightarrow> f s + sum_list (map w t) \<le> f s')"

abbreviation grows :: "('s \<Rightarrow> int) \<Rightarrow> ('x, 'e, 's, 'a) action \<Rightarrow> bool" where
  "grows \<equiv> weighs (\<lambda>_. 0)"

named_theorems grows_rules "rules for potentials"

lemma weighsI: "(\<And>s r t s'. m s = (r, t, s') \<Longrightarrow> f s + sum_list (map w t) \<le> f s') \<Longrightarrow> weighs w f m"
  unfolding weighs_def by blast

lemma weighsD: "weighs w f m \<Longrightarrow> m s = (r, t, s') \<Longrightarrow> f s + sum_list (map w t) \<le> f s'"
  unfolding weighs_def by blast

lemma growsI: "(\<And>s r t s'. m s = (r, t, s') \<Longrightarrow> f s \<le> f s') \<Longrightarrow> grows f m"
  unfolding weighs_def by simp

lemma growsD: "grows f m \<Longrightarrow> m s = (r, t, s') \<Longrightarrow> f s \<le> f s'"
  unfolding weighs_def by fastforce

lemma weighs_ret [grows_rules]: "weighs w f (ret x)"
  by (simp add: weighs_def ret_def)

lemma weighs_thr [grows_rules]: "weighs w f (thr e)"
  by (simp add: weighs_def thr_def)

lemma weighs_ask [grows_rules]: "weighs w f (ask g)"
  by (simp add: weighs_def ask_def)

lemma weighs_change [grows_rules]: "(\<And>s. f s \<le> f (g s)) \<Longrightarrow> weighs w f (change g)"
  by (simp add: weighs_def change_def)

lemma weighs_call:
  assumes "\<And>s. f s + w (ev (fst (c s))) \<le> f (snd (c s))"
  shows "weighs w f (call ev c)"
proof (rule weighsI)
  fix s r t s' assume "call ev c s = (r, t, s')"
  then show "f s + sum_list (map w t) \<le> f s'"
    using assms [of s] by (auto simp: call_def split: prod.splits)
qed

lemma grows_call [grows_rules]: "(\<And>s. f s \<le> f (snd (c s))) \<Longrightarrow> grows f (call ev c)"
  by (intro weighs_call) simp

lemma weighs_bnd [grows_rules]:
  assumes "weighs w f m" "\<And>x. weighs w f (k x)"
  shows "weighs w f (bnd m k)"
proof (rule weighsI)
  fix s r t s' assume "bnd m k s = (r, t, s')"
  then show "f s + sum_list (map w t) \<le> f s'"
    by (cases rule: bnd_cases) (fastforce dest: weighsD [OF assms(1)] weighsD [OF assms(2)])+
qed

lemma weighs_seq [grows_rules]: "weighs w f m \<Longrightarrow> weighs w f k \<Longrightarrow> weighs w f (seq m k)"
  unfolding seq_def by (rule weighs_bnd)

lemma weighs_attempt [grows_rules]:
  assumes "weighs w f m" "\<And>e. weighs w f (k e)"
  shows "weighs w f (attempt m k)"
proof (rule weighsI)
  fix s r t s' assume "attempt m k s = (r, t, s')"
  then show "f s + sum_list (map w t) \<le> f s'"
    by (cases rule: attempt_cases) (fastforce dest: weighsD [OF assms(1)] weighsD [OF assms(2)])+
qed

lemma weighs_ensure [grows_rules]:
  assumes "weighs w f m" "weighs w f k"
  shows "weighs w f (ensure m k)"
  by (rule weighsI) (auto elim!: ensure_cases dest!: weighsD [OF assms(1)] weighsD [OF assms(2)])

lemma weighs_if [grows_rules]:
  "(c \<Longrightarrow> weighs w f m) \<Longrightarrow> (\<not> c \<Longrightarrow> weighs w f n) \<Longrightarrow> weighs w f (if c then m else n)"
  by simp

lemma weighs_option [grows_rules]:
  "weighs w f m \<Longrightarrow> (\<And>y. weighs w f (k y)) \<Longrightarrow> weighs w f (case x of None \<Rightarrow> m | Some y \<Rightarrow> k y)"
  by (cases x) auto

lemma weighs_sum [grows_rules]:
  "(\<And>e. weighs w f (k e)) \<Longrightarrow> (\<And>y. weighs w f (l y)) \<Longrightarrow> weighs w f (case x of Inl e \<Rightarrow> k e | Inr y \<Rightarrow> l y)"
  by (cases x) auto

lemma weighs_prod [grows_rules]: "(\<And>x y. weighs w f (k x y)) \<Longrightarrow> weighs w f (case p of (x, y) \<Rightarrow> k x y)"
  by (cases p) auto

lemma weighs_bool [grows_rules]: "weighs w f m \<Longrightarrow> weighs w f n \<Longrightarrow> weighs w f (case b of True \<Rightarrow> m | False \<Rightarrow> n)"
  by (cases b) auto

lemma weighs_Let [grows_rules]: "weighs w f (k x) \<Longrightarrow> weighs w f (let y = x in k y)"
  by simp

lemma seq_change: "seq (change f) k s = k (f s)"
  by (simp add: seq_def bnd_def change_def split: prod.split)

lemma bnd_ask: "bnd (ask f) k s = k (f s) s"
  by (simp add: bnd_def ask_def split: prod.split)

text \<open>Running on from the state after an action.\<close>

lemma bnd_same:
  assumes "\<And>x t s'. m s = (Inr x, t, s') \<Longrightarrow> f x s' = g x s'"
  shows "bnd m f s = bnd m g s"
  unfolding bnd_def using assms by (auto split: prod.splits sum.splits)

section \<open>An action inside a larger state\<close>

text \<open>
  \<open>within ex ev get put m\<close> runs \<open>m\<close> on the part of the state that \<open>get\<close> reads and \<open>put\<close> writes back, its throws
  and events renamed.
\<close>

definition within ::
  "('x \<Rightarrow> 'y) \<Rightarrow> ('e \<Rightarrow> 'f) \<Rightarrow> ('t \<Rightarrow> 's) \<Rightarrow> ('s \<Rightarrow> 't \<Rightarrow> 't) \<Rightarrow> ('x, 'e, 's, 'a) action \<Rightarrow> ('y, 'f, 't, 'a) action" where
  "within ex ev get put m s = (case m (get s) of (r, t, s') \<Rightarrow> (map_sum ex id r, map ev t, put s' s))"

lemma trace_within: "trace (within ex ev get put m) s = map ev (trace m (get s))"
  by (simp add: within_def trace_def split: prod.split)

lemma within_cases:
  assumes "within ex ev get put m s = (r, t, s')"
  obtains r0 t0 s0 where "m (get s) = (r0, t0, s0)" "r = map_sum ex id r0" "t = map ev t0" "s' = put s0 s"
  using assms by (auto simp: within_def split: prod.splits)

lemma only_within [only_rules]: "only (\<lambda>e. A (ev e)) m \<Longrightarrow> only A (within ex ev get put m)"
  by (auto simp: only_def trace_within)

end
