(* ===== verification/Coord_Base.thy ===== *)
theory Coord_Base
  imports Actions Swap_Store Intent_Store Liquidity_Store "HOL-Library.While_Combinator"
begin

text \<open>
  The ground of the atomic coordinator (\<open>src/src/atomic/coordinator/coordinator.ts\<close>): its
  configuration, its in-process state, the backends it awaits, and the private helpers its
  handlers share.

  A handler is an action on the system state: the database, the record cache of the process, the
  fund claims, and a world no code here looks into. Every awaited backend call is an arbitrary
  function on that whole state, so it stands for the backend and for everything other handlers
  and processes do while this one waits; the call and its result are logged in the event list of
  the action. A throw is \<open>Inl\<close>, and leaves the state as it is at that moment.

  \<open>record\<close> in a handler is the cached object itself, which \<open>Object.assign\<close> updates in place: a field
  read after an await or an update is read from the cache again (\<open>cached\<close>). Error messages keep their code and
  text without interpolated numbers.
\<close>

section \<open>Errors\<close>

datatype err_class =
    C_ERROR | C_GATE | C_INVOICE_NOT_FOUND | C_MISSING_FINALITY | C_NOT_READY | C_DEFICIT
  | C_UNAVAILABLE | C_TYPE | C_DIVERGES | C_DB db_error

datatype cerr = Thrown err_class string

fun err_class_of :: "cerr \<Rightarrow> err_class" where
  "err_class_of (Thrown c m) = c"

fun err_message :: "cerr \<Rightarrow> string" where
  "err_message (Thrown c m) = m"

definition finality_disagreement :: "cerr \<Rightarrow> bool" where
  "finality_disagreement e \<longleftrightarrow> str_includes (err_message e) ''EVM_FINALITY_DISAGREEMENT''"

section \<open>Backend data\<close>

text \<open>\<open>EvmHtlcState\<close>; a flag that is not a boolean is \<open>None\<close>.\<close>

record htlc_state =
  os_htlcId :: "string option"
  os_funded :: "bool option"
  os_completed :: "bool option"
  os_refunded :: "bool option"
  os_balance :: int
  os_timelock :: int
  os_blockTimestamp :: int

datatype finality_state = FS_DETECTED | FS_CONFIRMED | FS_FINAL | FS_INSUFFICIENT

record fund_params =
  fp_swapKey :: string
  fp_hashLock :: string
  fp_amountUnits :: int
  fp_tokenAddress :: string
  fp_refundLocktime :: int
  fp_claimAddress :: string
  fp_refundAddress :: string

record claim_query =
  cq_claimTxHash :: string
  cq_expectedHtlcId :: string
  cq_expectedHashLock :: string
  cq_expectedClaimAddress :: string
  cq_expectedAmount :: int
  cq_requiredConfirmations :: int

record claim_evidence =
  ce_chainId :: int
  ce_contractAddress :: string
  ce_htlcId :: string
  ce_hashLock :: string
  ce_preimageRevealed :: string
  ce_claimAddress :: string
  ce_amount :: int
  ce_txHash :: string
  ce_blockNumber :: int
  ce_blockTimestamp :: int
  ce_confirmations :: int
  ce_finalityState :: finality_state

record refund_query =
  rq_refundTxHash :: string
  rq_expectedHtlcId :: string
  rq_expectedRefundAddress :: string
  rq_expectedAmount :: int
  rq_requiredConfirmations :: int

record refund_evidence =
  re_chainId :: int
  re_contractAddress :: string
  re_htlcId :: string
  re_refundAddress :: string
  re_txHash :: string
  re_blockNumber :: int
  re_blockTimestamp :: int
  re_finalityState :: "finality_state option"

section \<open>Events, state, actions\<close>

datatype event =
    LnCreate string int int string "cerr + hold_invoice"
  | LnObserve string "cerr + hold_invoice"
  | LnSettle string "cerr + bool \<times> int"
  | LnCancel string "cerr + bool \<times> int"
  | LnState string "cerr + hold_invoice_state"
  | LnHeight "cerr + int option"
  | EvTimestamp "cerr + int"
  | EvFund fund_params "cerr + string \<times> int \<times> string option"
  | EvObserve string "cerr + htlc_state"
  | EvRefund string "cerr + string"
  | EvClaim string string string "cerr + bool \<times> string"
  | EvVerifyClaim claim_query "cerr + claim_evidence"
  | EvVerifyRefund refund_query "cerr + refund_evidence"
  | InvReadiness string "cerr + readiness_state"
  | InvReserve int string string "cerr + string \<times> bool"
  | InvRelease string "cerr + unit"
  | InvCommit string "cerr + unit"
  | InvRestore string "cerr + unit"
  | InvSettle string "cerr + unit"
  | AwaitPrepare string "cerr + swap_rec"

record 'w sys =
  s_db :: db
  s_cache :: "string \<Rightarrow> swap_rec option"
  s_claims :: "string \<Rightarrow> string option"
  s_inflight :: "string list"
  s_world :: 'w

type_synonym ('w, 'a) call = "'w sys \<Rightarrow> (cerr + 'a) \<times> 'w sys"
type_synonym ('w, 'a) act = "(cerr, event, 'w sys, 'a) action"

text \<open>A synchronous store operation.\<close>

definition db_act :: "(db \<Rightarrow> (db_error + 'a) \<times> db) \<Rightarrow> ('w, 'a) act" where
  "db_act f s = (case f (s_db s) of
     (Inl e, d) \<Rightarrow> (Inl (Thrown (C_DB e) ''''), [], s\<lparr>s_db := d\<rparr>)
   | (Inr x, d) \<Rightarrow> (Inr x, [], s\<lparr>s_db := d\<rparr>))"

section \<open>Backends and configuration\<close>

text \<open>
  The methods of \<open>ILightningAtomicBackend\<close>, \<open>IEvmAtomicBackend\<close> and \<open>ILiquidityInventory\<close> that the
  coordinator calls. \<open>None\<close> is a method the backend does not have. \<open>b_now\<close> is the clock,
  \<open>b_uuid\<close> the next random id, \<open>b_otherPrepare\<close> the wait for a prepare of the same key in flight.
\<close>

record 'w backend =
  b_now :: "'w sys \<Rightarrow> int"
  b_uuid :: "'w sys \<Rightarrow> string"
  b_createHoldInvoice :: "string \<Rightarrow> int \<Rightarrow> int \<Rightarrow> string \<Rightarrow> ('w, hold_invoice) call"
  b_observeHoldInvoice :: "string \<Rightarrow> ('w, hold_invoice) call"
  b_settleHoldInvoice :: "string \<Rightarrow> ('w, bool \<times> int) call"
  b_cancelHoldInvoice :: "string \<Rightarrow> ('w, bool \<times> int) call"
  b_getInvoiceState :: "string \<Rightarrow> ('w, hold_invoice_state) call"
  b_getBlockHeight :: "('w, int option) call option"
  b_getBlockTimestamp :: "('w, int) call"
  b_fundHtlc :: "fund_params \<Rightarrow> ('w, string \<times> int \<times> string option) call"
  b_observeHtlc :: "string \<Rightarrow> ('w, htlc_state) call"
  b_refundHtlc :: "string \<Rightarrow> ('w, string) call"
  b_claimHtlc :: "(string \<Rightarrow> string \<Rightarrow> string \<Rightarrow> ('w, bool \<times> string) call) option"
  b_verifyClaim :: "(claim_query \<Rightarrow> ('w, claim_evidence) call) option"
  b_verifyRefund :: "(refund_query \<Rightarrow> ('w, refund_evidence) call) option"
  b_getReadinessState :: "(string \<Rightarrow> ('w, readiness_state) call) option"
  b_reserve :: "int \<Rightarrow> string \<Rightarrow> string \<Rightarrow> ('w, string \<times> bool) call"
  b_release :: "string \<Rightarrow> ('w, unit) call"
  b_commit :: "string \<Rightarrow> ('w, unit) call"
  b_restoreRefund :: "(string \<Rightarrow> ('w, unit) call) option"
  b_settleReservation :: "(string \<Rightarrow> ('w, unit) call) option"
  b_isSqliteInventory :: bool
  b_otherPrepare :: "string \<Rightarrow> ('w, swap_rec) call"

record finality_policy =
  fl_policyTag :: string
  fl_requiredConfirmations :: int

text \<open>The \<open>config\<close> argument of the constructor, and the fields it resolves.\<close>

record time_options =
  to_baseDispatchBudgetSeconds :: "int option"
  to_baseFinalityBudgetSeconds :: "int option"
  to_lndResolutionBudgetSeconds :: "int option"
  to_safetyMarginSeconds :: "int option"

record coordinator_options =
  og_tokenAddress :: "string option"
  og_operatorRefundAddress :: "string option"
  og_workerId :: "string option"
  og_leaseMs :: "int option"
  og_finalityPolicy :: "finality_policy option"
  og_requiredConfirmations :: "int option"
  og_maxRetries :: "int option"
  og_timeSafetyConfig :: "time_options option"
  og_timeSafety :: "time_options option"

text \<open>
  \<open>co_sha256\<close> is the hash of \<open>node:crypto\<close> on hex strings (of the preimage bytes) and \<open>co_sha256text\<close> on text. \<open>co_tailExceeds k total\<close> is the
  floating-point test \<open>computePoissonTailDirect(k, total / 600) >= tailRiskTarget\<close>.
\<close>

record coordinator =
  co_tokenAddress :: string
  co_refundAddress :: string
  co_workerId :: string
  co_leaseMs :: int
  co_finalityPolicy :: "finality_policy option"
  co_maxRetries :: int
  co_baseDispatchBudgetSeconds :: int
  co_baseFinalityBudgetSeconds :: int
  co_lndResolutionBudgetSeconds :: int
  co_safetyMarginSeconds :: int
  co_tailExceeds :: "int \<Rightarrow> int \<Rightarrow> bool"
  co_sha256 :: "string \<Rightarrow> string"
  co_sha256text :: "string \<Rightarrow> string"

definition time_option :: "(time_options \<Rightarrow> int option) \<Rightarrow> coordinator_options \<Rightarrow> int \<Rightarrow> int" where
  "time_option f config d =
    (case (case og_timeSafetyConfig config of Some t \<Rightarrow> Some t | None \<Rightarrow> og_timeSafety config) of
       None \<Rightarrow> d | Some t \<Rightarrow> coalesce (f t) d)"

definition resolve_finality ::
  "coordinator_options \<Rightarrow> finality_policy option \<Rightarrow> cerr + finality_policy option" where
  "resolve_finality config backendFinality =
    (case (og_finalityPolicy config, backendFinality) of
       (Some p, Some q) \<Rightarrow>
         if fl_requiredConfirmations p \<noteq> fl_requiredConfirmations q
         then Inl (Thrown C_ERROR ''FINALITY_POLICY_MISMATCH: Coordinator and EVM backend policies disagree'')
         else Inr (Some p)
     | (Some p, None) \<Rightarrow> Inr (Some p)
     | (None, q) \<Rightarrow>
         (case og_requiredConfirmations config of
            Some n \<Rightarrow> Inr (Some \<lparr> fl_policyTag = ''EXPLICIT_CONFIRMATIONS'', fl_requiredConfirmations = n \<rparr>)
          | None \<Rightarrow> Inr q))"

definition create_coordinator ::
  "coordinator_options \<Rightarrow> finality_policy option \<Rightarrow> string option \<Rightarrow> string \<Rightarrow> (int \<Rightarrow> int \<Rightarrow> bool)
   \<Rightarrow> (string \<Rightarrow> string) \<Rightarrow> (string \<Rightarrow> string) \<Rightarrow> cerr + coordinator" where
  "create_coordinator config backendFinality backendToken randomWorker tail sha shatext =
    (case resolve_finality config backendFinality of
       Inl e \<Rightarrow> Inl e
     | Inr policy \<Rightarrow> Inr \<lparr>
         co_tokenAddress = coalesce (og_tokenAddress config)
           (coalesce backendToken ''0x036CbD53842c5426634e7929541eC2318f3dCF7e''),
         co_refundAddress = coalesce (og_operatorRefundAddress config)
           ''0xf39Fd6e51aad88F6F4ce6aB8827279cffFb92266'',
         co_workerId = coalesce (og_workerId config) randomWorker,
         co_leaseMs = coalesce (og_leaseMs config) 60000,
         co_finalityPolicy = policy,
         co_maxRetries = coalesce (og_maxRetries config) 5,
         co_baseDispatchBudgetSeconds = time_option to_baseDispatchBudgetSeconds config 600,
         co_baseFinalityBudgetSeconds = time_option to_baseFinalityBudgetSeconds config 300,
         co_lndResolutionBudgetSeconds = time_option to_lndResolutionBudgetSeconds config 300,
         co_safetyMarginSeconds = time_option to_safetyMarginSeconds config 1800,
         co_tailExceeds = tail, co_sha256 = sha, co_sha256text = shatext \<rparr>)"

section \<open>Backend calls\<close>

definition observeHoldInvoice :: "'w backend \<Rightarrow> string \<Rightarrow> ('w, hold_invoice) act" where
  "observeHoldInvoice b h = call (LnObserve h) (b_observeHoldInvoice b h)"

definition settleHoldInvoice :: "'w backend \<Rightarrow> string \<Rightarrow> ('w, bool \<times> int) act" where
  "settleHoldInvoice b p = call (LnSettle p) (b_settleHoldInvoice b p)"

definition cancelHoldInvoice :: "'w backend \<Rightarrow> string \<Rightarrow> ('w, bool \<times> int) act" where
  "cancelHoldInvoice b h = call (LnCancel h) (b_cancelHoldInvoice b h)"

definition getInvoiceState :: "'w backend \<Rightarrow> string \<Rightarrow> ('w, hold_invoice_state) act" where
  "getInvoiceState b h = call (LnState h) (b_getInvoiceState b h)"

definition getBlockTimestamp :: "'w backend \<Rightarrow> ('w, int) act" where
  "getBlockTimestamp b = call EvTimestamp (b_getBlockTimestamp b)"

definition observeHtlc :: "'w backend \<Rightarrow> string \<Rightarrow> ('w, htlc_state) act" where
  "observeHtlc b k = call (EvObserve k) (b_observeHtlc b k)"

definition inv_release :: "'w backend \<Rightarrow> string \<Rightarrow> ('w, unit) act" where
  "inv_release b i = call (InvRelease i) (b_release b i)"

definition refundHtlc :: "'w backend \<Rightarrow> string \<Rightarrow> ('w, string) act" where
  "refundHtlc b k = call (EvRefund k) (b_refundHtlc b k)"

definition inv_commit :: "'w backend \<Rightarrow> string \<Rightarrow> ('w, unit) act" where
  "inv_commit b i = call (InvCommit i) (b_commit b i)"

text \<open>
  The coordinator's own database is used when the inventory is backed by one
  (\<open>isSqliteInventory\<close>), else the inventory's method.
\<close>

definition restore_reservation :: "'w backend \<Rightarrow> string \<Rightarrow> ('w, unit) act" where
  "restore_reservation b i =
    (if b_isSqliteInventory b
     then bnd (ask (b_now b)) (\<lambda>now. db_act (restoreRefundLiquidityReservation i now))
     else case b_restoreRefund b of
            Some f \<Rightarrow> call (InvRestore i) (f i)
          | None \<Rightarrow> inv_release b i)"

definition settle_reservation :: "'w backend \<Rightarrow> string \<Rightarrow> ('w, unit) act" where
  "settle_reservation b i =
    (if b_isSqliteInventory b
     then bnd (ask (b_now b)) (\<lambda>now. db_act (settleLiquidityReservation i now))
     else case b_settleReservation b of
            Some f \<Rightarrow> call (InvSettle i) (f i)
          | None \<Rightarrow> ret ())"

definition commit_reservation :: "'w backend \<Rightarrow> string \<Rightarrow> string \<Rightarrow> ('w, unit) act" where
  "commit_reservation b executionId i =
    (if b_isSqliteInventory b
     then bnd (ask (b_now b)) (\<lambda>now. db_act (commitReservationAndAdvanceSwapToFunded i executionId now))
     else inv_commit b i)"

definition release_reservation :: "'w backend \<Rightarrow> string \<Rightarrow> ('w, unit) act" where
  "release_reservation b i =
    (if b_isSqliteInventory b
     then bnd (ask (b_now b)) (\<lambda>now. db_act (releaseLiquidityReservation i now))
     else inv_release b i)"

section \<open>Cache and record updates\<close>

text \<open>
  \<open>Object.assign\<close> replaces every field, but an invoice keeps the smaller remaining CLTV of the two.
\<close>

definition merge_cached :: "swap_rec option \<Rightarrow> swap_rec \<Rightarrow> swap_rec" where
  "merge_cached existing r =
    (case existing of
       None \<Rightarrow> r
     | Some x \<Rightarrow>
         (case (r_holdInvoice x, r_holdInvoice r) of
            (Some old, Some new) \<Rightarrow>
              r\<lparr>r_holdInvoice := Some (new\<lparr>hi_cltvExpiryBlocks :=
                  min (hi_cltvExpiryBlocks old) (hi_cltvExpiryBlocks new)\<rparr>)\<rparr>
          | _ \<Rightarrow> r))"

definition syncCache :: "swap_rec \<Rightarrow> ('w, swap_rec) act" where
  "syncCache r s =
    (let r' = merge_cached (s_cache s (r_id r)) r
     in (Inr r', [], s\<lparr>s_cache := (s_cache s)(r_id r := Some r')\<rparr>))"

definition type_error :: cerr where
  "type_error = Thrown C_TYPE ''Cannot read properties of undefined''"

definition cached :: "string \<Rightarrow> ('w, swap_rec) act" where
  "cached i s = (case s_cache s i of None \<Rightarrow> (Inl type_error, [], s) | Some r \<Rightarrow> (Inr r, [], s))"

definition mustGetRecord :: "string \<Rightarrow> ('w, swap_rec) act" where
  "mustGetRecord i =
    bnd (ask (\<lambda>s. getSovereignSwap i (s_db s))) (\<lambda>fromDb.
      case fromDb of
        Some r \<Rightarrow> syncCache r
      | None \<Rightarrow>
          bnd (ask (\<lambda>s. s_cache s i)) (\<lambda>c.
            case c of
              Some r \<Rightarrow> ret r
            | None \<Rightarrow> thr (Thrown C_ERROR (''Execution record not found: '' @ i))))"

definition markRecoveryRequired :: "'w backend \<Rightarrow> string \<Rightarrow> string \<Rightarrow> string \<Rightarrow> ('w, swap_rec) act" where
  "markRecoveryRequired b i failureReason transitionReason =
    bnd (ask (b_now b)) (\<lambda>now.
    bnd (db_act (markSovereignRecoveryRequired i failureReason transitionReason now)) syncCache)"

text \<open>The stale-worker guard lists three of the four terminal states.\<close>

definition guarded_states :: "swap_state list" where
  "guarded_states = [SA_COMPLETED, SA_REFUNDED, SA_INVOICE_CANCELED]"

definition updateRecord ::
  "'w backend \<Rightarrow> string \<Rightarrow> swap_updates \<Rightarrow> (string \<times> string option) option \<Rightarrow> ('w, swap_rec) act" where
  "updateRecord b i updates transition =
    bnd (ask (\<lambda>s. getSovereignSwap i (s_db s))) (\<lambda>cur.
    bnd (ask (b_now b)) (\<lambda>now.
      case cur of
        Some current \<Rightarrow>
          if r_state current \<in> set guarded_states \<and> su_state updates \<noteq> None \<and>
             su_state updates \<noteq> Some (r_state current)
          then syncCache current
          else bnd (db_act (updateSovereignSwap i updates transition now)) syncCache
      | None \<Rightarrow> bnd (db_act (updateSovereignSwap i updates transition now)) syncCache))"

text \<open>\<open>actionInFlight: undefined, actionClaimedBy: undefined, actionClaimedAt: undefined\<close>\<close>

definition clear_action :: "swap_updates \<Rightarrow> swap_updates" where
  "clear_action u = u\<lparr>su_actionInFlight := Some None, su_actionClaimedBy := Some None,
                      su_actionClaimedAt := Some None\<rparr>"

definition claim_action :: "'w backend \<Rightarrow> coordinator \<Rightarrow> string \<Rightarrow> string \<Rightarrow> string \<Rightarrow> ('w, bool) act" where
  "claim_action b c i action workerId s =
    (case claimSovereignAction i action workerId (Some (co_leaseMs c)) (b_now b s) (s_db s) of
       (g, d) \<Rightarrow> (Inr g, [], s\<lparr>s_db := d\<rparr>))"

definition release_action :: "'w backend \<Rightarrow> string \<Rightarrow> string \<Rightarrow> ('w, unit) act" where
  "release_action b i workerId =
     change (\<lambda>s. s\<lparr>s_db := releaseSovereignAction i (Some workerId) (b_now b s) (s_db s)\<rparr>)"

text \<open>\<open>record.holdInvoice!\<close>\<close>

definition the_invoice :: "string \<Rightarrow> ('w, hold_invoice) act" where
  "the_invoice i = bnd (cached i) (\<lambda>r.
     case r_holdInvoice r of None \<Rightarrow> thr type_error | Some h \<Rightarrow> ret h)"

section \<open>Observations for recovery\<close>

datatype ln_observation = LO_FOUND hold_invoice | LO_NOT_FOUND | LO_UNKNOWN string

datatype evm_observation =
    EO_FUNDED htlc_state | EO_CLAIMED htlc_state | EO_REFUNDED htlc_state
  | EO_NOT_FUNDED_PROVEN htlc_state | EO_PENDING htlc_state | EO_UNKNOWN string

definition observeLightningForRecovery :: "'w backend \<Rightarrow> string \<Rightarrow> ('w, ln_observation) act" where
  "observeLightningForRecovery b i =
    bnd (cached i) (\<lambda>r.
      let paymentHash = to_lower (case r_holdInvoice r of Some h \<Rightarrow> hi_paymentHash h
                                  | None \<Rightarrow> strip_0x (r_hashLock r))
      in attempt (bnd (observeHoldInvoice b paymentHash) (\<lambda>h. ret (LO_FOUND h)))
           (\<lambda>e. if err_class_of e = C_INVOICE_NOT_FOUND then ret LO_NOT_FOUND
                else ret (LO_UNKNOWN (err_message e))))"

definition classify_htlc :: "htlc_state \<Rightarrow> evm_observation" where
  "classify_htlc st =
    (if os_funded st = None then EO_UNKNOWN ''Malformed EVM HTLC observation''
     else if os_refunded st = Some True then EO_REFUNDED st
     else if os_completed st = Some True then EO_CLAIMED st
     else if os_funded st = Some True then EO_FUNDED st
     else if os_funded st = Some False \<and> os_completed st = Some False \<and> os_refunded st = Some False
     then EO_NOT_FUNDED_PROVEN st
     else EO_PENDING st)"

definition observeEvmForRecovery :: "'w backend \<Rightarrow> string \<Rightarrow> ('w, evm_observation) act" where
  "observeEvmForRecovery b i =
    bnd (cached i) (\<lambda>r.
      attempt (bnd (observeHtlc b (coalesce (r_evmSwapKey r) (''swap_'' @ r_id r))) (\<lambda>st. ret (classify_htlc st)))
        (\<lambda>e. ret (EO_UNKNOWN (err_message e))))"

section \<open>The CLTV safety gate\<close>

text \<open>
  \<open>computeRequiredBtcBlocksForBudget\<close>: the search starts at \<open>Math.ceil(total / 600)\<close>; \<open>None\<close> when
  it never ends.
\<close>

definition computeRequiredBtcBlocksForBudget :: "(int \<Rightarrow> int \<Rightarrow> bool) \<Rightarrow> int \<Rightarrow> int option" where
  "computeRequiredBtcBlocksForBudget tailExceeds seconds =
     while_option (\<lambda>k. tailExceeds k seconds) (\<lambda>k. k + 1) ((seconds + 599) div 600)"

definition total_budget :: "coordinator \<Rightarrow> int \<Rightarrow> int" where
  "total_budget c remainingBaseSeconds = remainingBaseSeconds + co_baseDispatchBudgetSeconds c
     + co_baseFinalityBudgetSeconds c + co_lndResolutionBudgetSeconds c + co_safetyMarginSeconds c"

text \<open>The earliest expiry among the invoice's own and its HTLCs' positive ones.\<close>

definition accepted_expiry :: "swap_rec \<Rightarrow> int option" where
  "accepted_expiry r =
    (let own = inv_field hi_expiryHeight (r_holdInvoice r);
         valid = filter (\<lambda>h. h > 0)
           (List.map_filter (\<lambda>h. h) (coalesce (inv_field hi_htlcs (r_holdInvoice r)) []))
     in case valid of
          [] \<Rightarrow> own
        | v # vs \<Rightarrow>
            let minExpiry = fold min vs v
            in Some (case own of Some h \<Rightarrow> min h minExpiry | None \<Rightarrow> minExpiry))"

definition remaining_blocks :: "swap_rec \<Rightarrow> int \<Rightarrow> int \<Rightarrow> int" where
  "remaining_blocks r expiryHeight currentBtcHeight =
    (let heightRemaining = max 0 (expiryHeight - currentBtcHeight)
     in case r_holdInvoice r of
          Some h \<Rightarrow> min heightRemaining (hi_cltvExpiryBlocks h)
        | None \<Rightarrow> heightRemaining)"

definition height_unavailable :: cerr where
  "height_unavailable = Thrown C_ERROR ''AUTHORITATIVE_BLOCK_HEIGHT_UNAVAILABLE''"

definition remaining_base_seconds :: "'w backend \<Rightarrow> string \<Rightarrow> ('w, int) act" where
  "remaining_base_seconds b i =
    bnd (cached i) (\<lambda>r0.
    case truthy_num (r_refundLocktime r0) of
      Some _ \<Rightarrow> bnd (getBlockTimestamp b) (\<lambda>ts.
                bnd (cached i) (\<lambda>r. ret (max 0 (coalesce (r_refundLocktime r) 0 - ts))))
    | None \<Rightarrow> ret (coalesce (r_timelockSeconds r0) 43200))"

text \<open>The height is queried anew; the accepted HTLC has to expire the required blocks after it.\<close>

definition cltv_window :: "'w backend \<Rightarrow> string \<Rightarrow> int \<Rightarrow> ('w, unit) act" where
  "cltv_window b i requiredBlocks =
    (case b_getBlockHeight b of
       None \<Rightarrow> thr height_unavailable
     | Some getHeight \<Rightarrow>
         bnd (attempt (call LnHeight getHeight) (\<lambda>_. thr height_unavailable)) (\<lambda>height.
           case height of
             None \<Rightarrow> thr height_unavailable
           | Some currentBtcHeight \<Rightarrow>
               if currentBtcHeight \<le> 0 then thr height_unavailable
               else
                 bnd (cached i) (\<lambda>r.
                   case accepted_expiry r of
                     None \<Rightarrow> thr (Thrown C_ERROR ''AUTHORITATIVE_EXPIRY_HEIGHT_UNAVAILABLE'')
                   | Some expiryHeight \<Rightarrow>
                       if expiryHeight \<le> 0
                       then thr (Thrown C_ERROR ''AUTHORITATIVE_EXPIRY_HEIGHT_UNAVAILABLE'')
                       else if remaining_blocks r expiryHeight currentBtcHeight < requiredBlocks
                       then thr (Thrown C_ERROR ''CLTV_SAFETY_MARGIN_VIOLATION'')
                       else ret ())))"

definition assertLightningCltvSafety :: "'w backend \<Rightarrow> coordinator \<Rightarrow> string \<Rightarrow> ('w, unit) act" where
  "assertLightningCltvSafety b c i =
    bnd (remaining_base_seconds b i) (\<lambda>remainingBaseSeconds.
    case computeRequiredBtcBlocksForBudget (co_tailExceeds c) (total_budget c remainingBaseSeconds) of
      None \<Rightarrow> thr (Thrown C_DIVERGES ''computeRequiredBtcBlocksForBudget does not return'')
    | Some requiredBlocks \<Rightarrow> cltv_window b i requiredBlocks)"

end
