(* ===== verification/Numerals.thy ===== *)
theory Numerals
  imports Prelude
begin

text \<open>
  Integers as JavaScript prints and reads them: \<open>bigint.toString()\<close> and \<open>BigInt(s)\<close>. The parser
  takes every form the language takes; \<open>None\<close> is its \<open>SyntaxError\<close>. Division of bigints and \<open>Array.sort\<close>.
\<close>

section \<open>Printing\<close>

text \<open>\<open>bigint.toString()\<close>\<close>

fun nat_digits :: "nat \<Rightarrow> string" where
  "nat_digits n = (if n < 10 then [char_of (48 + n)] else nat_digits (n div 10) @ [char_of (48 + n mod 10)])"

declare nat_digits.simps [simp del]

definition bigint_text :: "int \<Rightarrow> string" where
  "bigint_text n = (if n < 0 then CHR ''-'' # nat_digits (nat (- n)) else nat_digits (nat n))"

definition digit_value :: "char \<Rightarrow> nat" where
  "digit_value c = of_char c - 48"

definition digits_value :: "string \<Rightarrow> nat" where
  "digits_value s = foldl (\<lambda>a c. 10 * a + digit_value c) 0 s"

lemma digit_value_digit: "n < 10 \<Longrightarrow> digit_value (char_of (48 + n)) = n"
  by (simp add: digit_value_def of_char_of)

lemma digits_value_nat_digits: "digits_value (nat_digits n) = n"
proof (induction n rule: nat_digits.induct)
  case (1 n)
  have d: "digit_value (char_of (48 + n mod 10)) = n mod 10" by (rule digit_value_digit) simp
  show ?case
  proof (cases "n < 10")
    case True
    then show ?thesis by (simp add: nat_digits.simps [of n] digits_value_def digit_value_digit)
  next
    case False
    then have "digits_value (nat_digits (n div 10)) = n div 10" using 1 by blast
    then show ?thesis using False d by (simp add: nat_digits.simps [of n] digits_value_def)
  qed
qed

lemma nat_digits_chars: "c \<in> set (nat_digits n) \<Longrightarrow> 48 \<le> (of_char c :: nat) \<and> (of_char c :: nat) < 58"
proof (induction n rule: nat_digits.induct)
  case (1 n)
  have "48 \<le> (of_char (char_of (48 + m) :: char) :: nat) \<and> (of_char (char_of (48 + m) :: char) :: nat) < 58"
    if "m < 10" for m :: nat
    using that by (simp add: of_char_of)
  then show ?case using 1 by (cases "n < 10") (auto simp: nat_digits.simps [of n])
qed

lemma bigint_text_inj: "bigint_text m = bigint_text n \<Longrightarrow> m = n"
proof -
  assume e: "bigint_text m = bigint_text n"
  have no_minus: "nat_digits k \<noteq> CHR ''-'' # s" for k s
    using nat_digits_chars [of "CHR ''-''" k] by auto
  have inj: "nat_digits a = nat_digits b \<Longrightarrow> a = b" for a b
    by (metis digits_value_nat_digits)
  show "m = n"
    using e no_minus [of "nat m" "nat_digits (nat (- n))"] no_minus [of "nat n" "nat_digits (nat (- m))"]
      inj [of "nat m" "nat n"] inj [of "nat (- m)" "nat (- n)"]
    by (auto simp: bigint_text_def split: if_splits)
qed

section \<open>Parsing\<close>

definition js_space :: "char \<Rightarrow> bool" where
  "js_space c = (let n = of_char c :: nat in n = 32 \<or> n = 160 \<or> (9 \<le> n \<and> n \<le> 13))"

definition js_strip :: "string \<Rightarrow> string" where
  "js_strip s = rev (dropWhile js_space (rev (dropWhile js_space s)))"

definition radix_digit :: "nat \<Rightarrow> char \<Rightarrow> nat option" where
  "radix_digit r c =
    (let n = of_char c :: nat;
         v = (if 48 \<le> n \<and> n \<le> 57 then n - 48
              else if 97 \<le> n \<and> n \<le> 102 then n - 87
              else if 65 \<le> n \<and> n \<le> 70 then n - 55 else 99)
     in if v < r then Some v else None)"

fun radix_number :: "nat \<Rightarrow> nat \<Rightarrow> string \<Rightarrow> nat option" where
  "radix_number r acc [] = Some acc"
| "radix_number r acc (c # s) =
    (case radix_digit r c of None \<Rightarrow> None | Some v \<Rightarrow> radix_number r (r * acc + v) s)"

definition natural :: "nat \<Rightarrow> string \<Rightarrow> int option" where
  "natural r s = (if s = [] then None else map_option int (radix_number r 0 s))"

definition js_BigInt :: "string \<Rightarrow> int option" where
  "js_BigInt text =
    (let s = js_strip text in
     if s = [] then Some 0
     else if take 2 s \<in> {''0x'', ''0X''} then natural 16 (drop 2 s)
     else if take 2 s \<in> {''0o'', ''0O''} then natural 8 (drop 2 s)
     else if take 2 s \<in> {''0b'', ''0B''} then natural 2 (drop 2 s)
     else if hd s = CHR ''-'' then map_option uminus (natural 10 (tl s))
     else if hd s = CHR ''+'' then natural 10 (tl s)
     else natural 10 s)"

section \<open>Division\<close>

text \<open>Division of bigints rounds towards zero.\<close>

definition js_div :: "int \<Rightarrow> int \<Rightarrow> int" where
  "js_div a b = sgn a * sgn b * (\<bar>a\<bar> div \<bar>b\<bar>)"

lemma js_div_nonneg: "0 \<le> a \<Longrightarrow> 0 < b \<Longrightarrow> js_div a b = a div b"
  by (cases "a = 0") (simp_all add: js_div_def)

lemma div_le_less:
  assumes "a div b \<le> c" "0 < b"
  shows "a < (c + 1) * (b :: int)"
proof -
  have "b * (a div b) \<le> b * c" using assms by (intro mult_left_mono) auto
  moreover have "b * (a div b) + a mod b = a" "a mod b < b" using assms(2) by simp_all
  ultimately show ?thesis unfolding distrib_right mult.commute [of c b] mult_1_left by linarith
qed

section \<open>Sorting\<close>

text \<open>
  \<open>Array.sort\<close> with a comparator, as a merge sort: where neither of two elements has to precede the other, the one that
  came first stays first.
\<close>

fun js_merge :: "('a \<Rightarrow> 'a \<Rightarrow> int) \<Rightarrow> 'a list \<Rightarrow> 'a list \<Rightarrow> 'a list" where
  "js_merge cmp [] ys = ys"
| "js_merge cmp xs [] = xs"
| "js_merge cmp (x # xs) (y # ys) =
    (if 0 < cmp x y then y # js_merge cmp (x # xs) ys else x # js_merge cmp xs (y # ys))"

fun js_sort :: "('a \<Rightarrow> 'a \<Rightarrow> int) \<Rightarrow> 'a list \<Rightarrow> 'a list" where
  "js_sort cmp [] = []"
| "js_sort cmp [x] = [x]"
| "js_sort cmp xs =
    js_merge cmp (js_sort cmp (take (length xs div 2) xs)) (js_sort cmp (drop (length xs div 2) xs))"

lemma mset_js_merge [simp]: "mset (js_merge cmp xs ys) = mset xs + mset ys"
  by (induction cmp xs ys rule: js_merge.induct) simp_all

lemma mset_js_sort [simp]: "mset (js_sort cmp xs) = mset xs"
proof (induction cmp xs rule: js_sort.induct)
  case (3 cmp x y zs)
  then show ?case
    by (simp del: take_Suc_Cons drop_Suc_Cons) (metis append_take_drop_id mset.simps(2) mset_append)
qed simp_all

lemma set_js_sort [simp]: "set (js_sort cmp xs) = set xs"
  by (metis mset_js_sort mset_eq_setD)

lemma length_js_sort [simp]: "length (js_sort cmp xs) = length xs"
  by (metis mset_js_sort mset_eq_length)

text \<open>With a comparator that compares keys the sort is the stable sort by the key.\<close>

lemma set_js_merge [simp]: "set (js_merge cmp xs ys) = set xs \<union> set ys"
  by (metis mset_js_merge set_mset_mset set_mset_union)

lemma sorted_js_merge:
  assumes "\<And>a b. 0 < cmp a b \<longleftrightarrow> f b < f a" "sorted (map f xs)" "sorted (map f ys)"
  shows "sorted (map (f :: _ \<Rightarrow> int) (js_merge cmp xs ys))"
  using assms
proof (induction cmp xs ys rule: js_merge.induct)
  case (3 cmp x xs y ys)
  have "f y \<le> f z" if "f y < f x" "z \<in> set xs \<union> set ys" for z using that 3(4,5) by auto
  moreover have "f x \<le> f z" if "\<not> f y < f x" "z \<in> set xs \<union> set ys" for z using that 3(4,5) by auto
  ultimately show ?case using 3 by (auto simp: not_less)
qed simp_all

lemma js_merge_stable:
  assumes "\<And>a b. 0 < cmp a b \<longleftrightarrow> f b < f a" "sorted (map f xs)"
  shows "filter (\<lambda>x. k = (f x :: int)) (js_merge cmp xs ys) = filter (\<lambda>x. k = f x) xs @ filter (\<lambda>x. k = f x) ys"
  using assms
proof (induction cmp xs ys rule: js_merge.induct)
  case (3 cmp x xs y ys)
  have none: "filter (\<lambda>z. k = f z) (x # xs) = []" if "f y < f x" "k = f y"
    using that 3(4) by (auto simp: filter_empty_conv)
  show ?case
  proof (cases "f y < f x")
    case True
    then have "filter (\<lambda>x. k = f x) (js_merge cmp (x # xs) ys) = filter (\<lambda>x. k = f x) (x # xs) @ filter (\<lambda>x. k = f x) ys"
      using 3(1,3,4) by simp
    then show ?thesis using True none 3(3) [of x y] by (cases "k = f y") simp_all
  next
    case False
    then show ?thesis using 3(2,3,4) by (auto split: if_splits)
  qed
qed simp_all

lemma js_sort_keeps:
  assumes "\<And>a b. 0 < cmp a b \<longleftrightarrow> (f b :: int) < f a"
  shows "sorted (map f (js_sort cmp xs)) \<and> filter (\<lambda>x. k = f x) (js_sort cmp xs) = filter (\<lambda>x. k = f x) xs"
  using assms
proof (induction cmp xs rule: js_sort.induct)
  case (3 cmp x y zs)
  define ws where "ws = x # y # zs"
  define n where "n = length ws div 2"
  have split: "filter (\<lambda>x. k = f x) (take n ws) @ filter (\<lambda>x. k = f x) (drop n ws) = filter (\<lambda>x. k = f x) ws"
    by (metis append_take_drop_id filter_append)
  have "js_sort cmp ws = js_merge cmp (js_sort cmp (take n ws)) (js_sort cmp (drop n ws))"
    unfolding ws_def n_def by (rule js_sort.simps)
  moreover have "sorted (map f (js_sort cmp (take n ws)))" "sorted (map f (js_sort cmp (drop n ws)))"
    "filter (\<lambda>x. k = f x) (js_sort cmp (take n ws)) = filter (\<lambda>x. k = f x) (take n ws)"
    "filter (\<lambda>x. k = f x) (js_sort cmp (drop n ws)) = filter (\<lambda>x. k = f x) (drop n ws)"
    using 3 unfolding ws_def n_def by blast+
  ultimately show ?case
    using sorted_js_merge [of cmp f, OF 3(3)] js_merge_stable [of cmp f, OF 3(3)] split unfolding ws_def [symmetric] by simp
qed simp_all

lemma js_sort_by:
  assumes "\<And>a b. 0 < cmp a b \<longleftrightarrow> (f b :: int) < f a"
  shows "js_sort cmp xs = sort_key f xs"
  using js_sort_keeps [of cmp f, OF assms] by (intro properties_for_sort_key [symmetric]) auto

lemma js_sort_key: "js_sort (\<lambda>a b. f a - f b) = sort_key (f :: _ \<Rightarrow> int)"
  by (rule ext, rule js_sort_by) simp

lemma js_sort_sgn: "js_sort (\<lambda>a b. sgn (f a - f b)) = sort_key f" for f :: "_ \<Rightarrow> int"
  by (rule ext, rule js_sort_by) (simp add: sgn_if)

section \<open>Joining\<close>

text \<open>\<open>Array.join\<close> with a one-character separator\<close>

fun join_with :: "char \<Rightarrow> string list \<Rightarrow> string" where
  "join_with c [] = []"
| "join_with c [s] = s"
| "join_with c (s # t # rest) = s @ c # join_with c (t # rest)"

lemma bigint_text_no_bar: "CHR ''|'' \<notin> set (bigint_text n)"
  using nat_digits_chars [of "CHR ''|''" "nat n"] nat_digits_chars [of "CHR ''|''" "nat (- n)"]
  by (auto simp: bigint_text_def)

lemma split_at_sep:
  "c \<notin> set s \<Longrightarrow> c \<notin> set s' \<Longrightarrow> s @ c # t = s' @ c # t' \<Longrightarrow> s = s' \<and> t = t'"
  by (induction s arbitrary: s') (case_tac s'; auto)+

text \<open>The fields are determined when only the last one may hold the separator.\<close>

lemma join_with_inj:
  "length xs = length ys \<Longrightarrow> \<forall>s \<in> set (butlast xs) \<union> set (butlast ys). c \<notin> set s \<Longrightarrow>
   join_with c xs = join_with c ys \<Longrightarrow> xs = ys"
proof (induction c xs arbitrary: ys rule: join_with.induct)
  case (3 c s t rest)
  from 3(2) obtain s' ys' where ys: "ys = s' # ys'" by (metis Suc_length_conv length_Cons)
  with 3(2) obtain t' rest' where ys': "ys' = t' # rest'" by (metis Suc_length_conv length_Cons nat.inject)
  have sep: "c \<notin> set s" "c \<notin> set s'" and tails: "\<forall>u \<in> set (butlast (t # rest)) \<union> set (butlast ys'). c \<notin> set u"
    using 3(3) ys ys' by auto
  have "s @ c # join_with c (t # rest) = s' @ c # join_with c ys'" using 3(4) ys ys' by simp
  from split_at_sep [OF sep this] have "s = s'" "join_with c (t # rest) = join_with c ys'" by auto
  moreover have "length (t # rest) = length ys'" using 3(2) ys by simp
  ultimately show ?case using 3(1) tails ys by blast
next
  case (2 c s)
  then show ?case by (cases ys) auto
qed simp

end
