(* ===== verification/Coord_Ops.thy ===== *)
theory Coord_Ops
  imports Coord_Base Numerals
begin

text \<open>
  The handlers of the atomic coordinator
  (\<open>src/src/atomic/coordinator/coordinator.ts\<close>) except reconciliation: preparing a swap,
  detecting the held payment, funding the EVM HTLC, settling Lightning from a verified claim, the direct
  claim, delivery, and the refund. Each is written in the order of the source, every guard and
  early return included; parts of a long handler are definitions of their own.

  A swap key that is undefined is passed to the backend as the empty string. A record without
  an invoice makes the handler throw also where the code spreads the undefined invoice into an update.
\<close>

section \<open>Preparing a swap\<close>

record prepare_params =
  pp_idempotencyKey :: string
  pp_hashLock :: string
  pp_claimingAddress :: string
  pp_targetDestinationAddress :: string
  pp_amountSats :: int
  pp_expectedUsdcAmount :: int
  pp_cltvExpiryBlocks :: "int option"
  pp_timelockSeconds :: "int option"

definition economic_text ::
  "int \<Rightarrow> int \<Rightarrow> string \<Rightarrow> string \<Rightarrow> string \<Rightarrow> string \<Rightarrow> string \<Rightarrow> string" where
  "economic_text amountSats expectedUsdcAmount hashLock claiming target token refund =
     join_with (CHR ''|'') [bigint_text amountSats, bigint_text expectedUsdcAmount, to_lower hashLock,
       to_lower claiming, to_lower target, to_lower token, to_lower refund]"

definition computeEconomicFingerprint :: "coordinator \<Rightarrow> prepare_params \<Rightarrow> string" where
  "computeEconomicFingerprint c p = co_sha256text c
     (economic_text (pp_amountSats p) (pp_expectedUsdcAmount p) (pp_hashLock p) (pp_claimingAddress p)
       (pp_targetDestinationAddress p) (co_tokenAddress c) (co_refundAddress c))"

definition is_hex :: "char \<Rightarrow> bool" where
  "is_hex c = (let n = of_char c :: nat
     in (48 \<le> n \<and> n \<le> 57) \<or> (65 \<le> n \<and> n \<le> 70) \<or> (97 \<le> n \<and> n \<le> 102))"

text \<open>\<open>/^0x[a-fA-F0-9]{64}$/\<close>\<close>

definition valid_hash_lock :: "string \<Rightarrow> bool" where
  "valid_hash_lock s \<longleftrightarrow> take 2 s = ''0x'' \<and> length s = 66 \<and> list_all is_hex (drop 2 s)"

definition terminal_record :: "swap_rec \<Rightarrow> bool" where
  "terminal_record r \<longleftrightarrow> r_state r \<in> {SA_INVOICE_CANCELED, SA_EXPIRED, SA_REFUNDED, SA_COMPLETED}"

text \<open>The durable idempotency check: \<open>Some\<close> is the record to return.\<close>

definition prepare_existing :: "string \<Rightarrow> swap_rec \<Rightarrow> ('w, swap_rec option) act" where
  "prepare_existing fingerprint x =
    (if r_economicFingerprint x \<noteq> None \<and> r_economicFingerprint x \<noteq> Some fingerprint
     then thr (Thrown C_ERROR ''IMMUTABLE_FINGERPRINT_MISMATCH'')
     else seq (syncCache x)
       (if r_recoveryRequired x = Some True \<or> r_state x = SA_RECOVERY_REQUIRED
        then thr (Thrown C_ERROR ''RECOVERY_REQUIRED'')
        else if terminal_record x \<or> r_holdInvoice x \<noteq> None then ret (Some x)
        else ret None))"

text \<open>A recorded plan without invoice adopts the invoice Lightning may already have.\<close>

definition prepare_converge :: "'w backend \<Rightarrow> string \<Rightarrow> swap_rec \<Rightarrow> ('w, swap_rec option) act" where
  "prepare_converge b paymentHash recheck =
    attempt
      (bnd (observeHoldInvoice b paymentHash) (\<lambda>existingInv.
         if to_lower (hi_paymentHash existingInv) = paymentHash
         then bnd (updateRecord b (r_id recheck)
                (no_updates\<lparr>su_holdInvoice := Some existingInv,
                   su_state := Some (if hi_state existingInv = HI_OPEN then SA_INVOICE_CREATED
                                     else r_state recheck)\<rparr>) None)
              (\<lambda>converged. ret (Some converged))
         else ret None))
      (\<lambda>e. if err_class_of e = C_INVOICE_NOT_FOUND then ret None else thr e)"

definition readiness_gate :: "'w backend \<Rightarrow> string \<Rightarrow> ('w, unit) act" where
  "readiness_gate b tokenAddress =
    (case b_getReadinessState b of
       None \<Rightarrow> ret ()
     | Some f \<Rightarrow>
         bnd (call (InvReadiness tokenAddress) (f tokenAddress)) (\<lambda>readiness.
           case readiness of
             IR_READY \<Rightarrow> ret ()
           | IR_DEFICIT \<Rightarrow> thr (Thrown C_DEFICIT ''Cannot prepare swap: operator liquidity is in DEFICIT'')
           | IR_UNKNOWN \<Rightarrow> thr (Thrown C_UNAVAILABLE ''Cannot prepare swap: EVM inventory state is UNKNOWN'')
           | IR_DEGRADED \<Rightarrow> thr (Thrown C_UNAVAILABLE ''Cannot prepare swap: EVM inventory state is DEGRADED'')
           | _ \<Rightarrow> thr (Thrown C_NOT_READY ''Cannot prepare swap: operator inventory is not ready'')))"

definition initial_record ::
  "coordinator \<Rightarrow> prepare_params \<Rightarrow> string \<Rightarrow> string \<Rightarrow> int \<Rightarrow> int \<Rightarrow> string \<Rightarrow> int \<Rightarrow> swap_rec" where
  "initial_record c p executionId fingerprint cltv timelockSeconds reservationId now = \<lparr>
     r_id = executionId, r_idempotencyKey = pp_idempotencyKey p,
     r_hashLock = to_lower (pp_hashLock p),
     r_claimingAddress = to_lower (pp_claimingAddress p),
     r_targetDestinationAddress = to_lower (pp_targetDestinationAddress p),
     r_amountSats = pp_amountSats p, r_expectedUsdcAmount = pp_expectedUsdcAmount p,
     r_state = SA_PLAN_PREPARED, r_reservationId = Some reservationId,
     r_reservedAmountUnits = Some (pp_expectedUsdcAmount p),
     r_reservationStatus = Some RS_RESERVED, r_holdInvoice = None,
     r_evmSwapKey = Some (''swap_'' @ executionId), r_evmHtlcId = None, r_evmFundingTxHash = None,
     r_evmClaimTxHash = None, r_evmRefundTxHash = None, r_destinationTxHash = None,
     r_tokenAddress = Some (co_tokenAddress c), r_refundAddress = Some (co_refundAddress c),
     r_cltvExpiryBlocks = Some cltv, r_timelockSeconds = Some timelockSeconds,
     r_refundLocktime = None, r_economicFingerprint = Some fingerprint,
     r_actionInFlight = None, r_actionClaimedBy = None, r_actionClaimedAt = None,
     r_actionGeneration = None, r_recoveryRequired = None, r_failureReason = None,
     r_retryCount = None, r_fundRetryCount = None, r_settleRetryCount = None,
     r_refundRetryCount = None, r_cancelRetryCount = None, r_createdAt = now, r_updatedAt = now \<rparr>"

text \<open>Inventory is reserved and the plan stored before Lightning is asked for an invoice.\<close>

definition prepare_reserve ::
  "'w backend \<Rightarrow> coordinator \<Rightarrow> prepare_params \<Rightarrow> string \<Rightarrow> string \<Rightarrow> int \<Rightarrow> int \<Rightarrow> int \<Rightarrow> ('w, unit) act" where
  "prepare_reserve b c p executionId fingerprint cltv timelockSeconds now =
    bnd (call (InvReserve (pp_expectedUsdcAmount p) (co_tokenAddress c) executionId)
              (b_reserve b (pp_expectedUsdcAmount p) (co_tokenAddress c) executionId))
      (\<lambda>(reservationId, reserved).
        if \<not> reserved
        then thr (Thrown C_ERROR ''Insufficient operator liquidity to facilitate atomic swap'')
        else
          let record = initial_record c p executionId fingerprint cltv timelockSeconds reservationId now
          in bnd (ask (b_now b)) (\<lambda>now2.
             seq (db_act (createSovereignSwap record fingerprint now2))
             (seq (syncCache record) (ret ()))))"

text \<open>The invoice call failed: only a typed absence releases the reservation.\<close>

definition prepare_ambiguity ::
  "'w backend \<Rightarrow> string \<Rightarrow> swap_rec option \<Rightarrow> string \<Rightarrow> cerr \<Rightarrow> ('w, hold_invoice) act" where
  "prepare_ambiguity b paymentHash recheck executionId err =
    bnd (attempt (bnd (observeHoldInvoice b paymentHash) (\<lambda>h. ret (Some h, False)))
                 (\<lambda>oe. ret (None, err_class_of oe = C_INVOICE_NOT_FOUND)))
      (\<lambda>(observed, absenceProven).
        case (case observed of
                Some h \<Rightarrow> if to_lower (hi_paymentHash h) = paymentHash then Some h else None
              | None \<Rightarrow> None) of
          Some h \<Rightarrow> ret h
        | None \<Rightarrow>
            if absenceProven then
              bnd (ask (\<lambda>s. case recheck of Some r \<Rightarrow> Some r | None \<Rightarrow> getSovereignSwap executionId (s_db s)))
                (\<lambda>currentRec.
              seq (case currentRec of
                     None \<Rightarrow> ret ()
                   | Some r \<Rightarrow>
                       (case truthy_str (r_reservationId r) of
                          Some resId \<Rightarrow>
                            if r_reservationStatus r = Some RS_RESERVED then inv_release b resId else ret ()
                        | None \<Rightarrow> ret ()))
              (seq (updateRecord b executionId
                     (no_updates\<lparr>su_state := Some SA_INVOICE_CANCELED,
                        su_reservationStatus := Some RS_RELEASED, su_recoveryRequired := Some False,
                        su_failureReason := Some None\<rparr>)
                     (Some (''HOLD_INVOICE_AUTHORITATIVELY_NOT_CREATED'', None)))
              (thr err)))
            else
              seq (markRecoveryRequired b executionId
                     (''Ambiguous hold-invoice creation: '' @ err_message err)
                     ''HOLD_INVOICE_CREATION_AMBIGUOUS'')
              (thr (Thrown C_ERROR ''AMBIGUOUS_HOLD_INVOICE_CREATION'')))"

definition prepare_invoice ::
  "'w backend \<Rightarrow> prepare_params \<Rightarrow> string \<Rightarrow> swap_rec option \<Rightarrow> string \<Rightarrow> int \<Rightarrow> ('w, hold_invoice) act" where
  "prepare_invoice b p paymentHash recheck executionId cltv =
    (let memo = ''Sovereign swap '' @ executionId
     in attempt (call (LnCreate (pp_hashLock p) (pp_amountSats p) cltv memo)
                   (b_createHoldInvoice b (pp_hashLock p) (pp_amountSats p) cltv memo))
          (prepare_ambiguity b paymentHash recheck executionId))"

definition prepare_new ::
  "'w backend \<Rightarrow> coordinator \<Rightarrow> prepare_params \<Rightarrow> string \<Rightarrow> string \<Rightarrow> swap_rec option \<Rightarrow> ('w, swap_rec) act" where
  "prepare_new b c p paymentHash fingerprint recheck =
    bnd (case recheck of Some r \<Rightarrow> ret (r_id r) | None \<Rightarrow> ask (b_uuid b)) (\<lambda>executionId.
    let cltv = coalesce (pp_cltvExpiryBlocks p) 144;
        timelockSeconds = coalesce (pp_timelockSeconds p) 43200
    in bnd (ask (b_now b)) (\<lambda>now.
       seq (readiness_gate b (co_tokenAddress c))
       (seq (case recheck of
               Some _ \<Rightarrow> ret ()
             | None \<Rightarrow> prepare_reserve b c p executionId fingerprint cltv timelockSeconds now)
       (bnd (prepare_invoice b p paymentHash recheck executionId cltv) (\<lambda>holdInvoice.
          updateRecord b executionId
            (clear_action (no_updates\<lparr>su_state := Some SA_INVOICE_CREATED,
               su_holdInvoice := Some holdInvoice\<rparr>))
            (Some (''HOLD_INVOICE_CREATED'', Some (hi_bolt11 holdInvoice))))))))"

definition prepare_dispatch ::
  "'w backend \<Rightarrow> coordinator \<Rightarrow> prepare_params \<Rightarrow> string \<Rightarrow> string \<Rightarrow> ('w, swap_rec) act" where
  "prepare_dispatch b c p paymentHash fingerprint =
    bnd (ask (\<lambda>s. getSovereignSwapByIdempotencyKey (pp_idempotencyKey p) (s_db s))) (\<lambda>recheck.
      case recheck of
        None \<Rightarrow> prepare_new b c p paymentHash fingerprint None
      | Some r \<Rightarrow>
          if r_holdInvoice r \<noteq> None then seq (syncCache r) (ret r)
          else bnd (prepare_converge b paymentHash r) (\<lambda>converged.
                 case converged of
                   Some r' \<Rightarrow> ret r'
                 | None \<Rightarrow> prepare_new b c p paymentHash fingerprint (Some r)))"

definition prepareSwap :: "'w backend \<Rightarrow> coordinator \<Rightarrow> prepare_params \<Rightarrow> ('w, swap_rec) act" where
  "prepareSwap b c p =
    (if \<not> valid_hash_lock (pp_hashLock p)
     then thr (Thrown C_ERROR ''Invalid hashLock format: must be 0x-prefixed 32-byte hex'')
     else if pp_amountSats p \<le> 0
     then thr (Thrown C_ERROR ''Invalid amountSats: Must be positive integer sats.'')
     else if pp_expectedUsdcAmount p \<le> 0
     then thr (Thrown C_ERROR ''Invalid expectedUsdcAmount: Must be positive integer USDC atomic units.'')
     else
       let paymentHash = to_lower (strip_0x (pp_hashLock p));
           fingerprint = computeEconomicFingerprint c p;
           key = pp_idempotencyKey p
       in bnd (ask (\<lambda>s. getSovereignSwapByIdempotencyKey key (s_db s))) (\<lambda>existing.
          bnd (case existing of None \<Rightarrow> ret None | Some x \<Rightarrow> prepare_existing fingerprint x) (\<lambda>done.
          case done of
            Some r \<Rightarrow> ret r
          | None \<Rightarrow>
              bnd (ask (\<lambda>s. getSovereignSwapByPaymentHash paymentHash (s_db s))) (\<lambda>existingHash.
              if (case existingHash of Some x \<Rightarrow> r_idempotencyKey x \<noteq> key | None \<Rightarrow> False)
              then thr (Thrown C_ERROR ''PAYMENT_HASH_COLLISION'')
              else
                bnd (ask (\<lambda>s. key \<in> set (s_inflight s))) (\<lambda>inFlight.
                if inFlight then call (AwaitPrepare key) (b_otherPrepare b key)
                else
                  seq (change (\<lambda>s. s\<lparr>s_inflight := key # s_inflight s\<rparr>))
                  (ensure (prepare_dispatch b c p paymentHash fingerprint)
                     (change (\<lambda>s. s\<lparr>s_inflight := filter (\<lambda>k. k \<noteq> key) (s_inflight s)\<rparr>))))))))"

section \<open>The payer's hold\<close>

definition hold_observation ::
  "'w backend \<Rightarrow> string \<Rightarrow> ('w, int option \<times> int option list option) act" where
  "hold_observation b i =
    bnd (cached i) (\<lambda>r.
    let expiry = inv_field hi_expiryHeight (r_holdInvoice r)
    in attempt
         (bnd (the_invoice i) (\<lambda>h.
          bnd (observeHoldInvoice b (hi_paymentHash h)) (\<lambda>observed.
          ret (some_or (hi_expiryHeight observed) expiry, hi_htlcs observed))))
         (\<lambda>_. ret (expiry, None)))"

definition onLightningHoldDetected :: "'w backend \<Rightarrow> string \<Rightarrow> ('w, swap_rec) act" where
  "onLightningHoldDetected b i =
    bnd (mustGetRecord i) (\<lambda>record.
    if r_state record = SA_LIGHTNING_HELD then ret record
    else if r_state record \<noteq> SA_INVOICE_CREATED \<and> r_state record \<noteq> SA_PLAN_PREPARED
    then thr (Thrown C_ERROR ''Invalid transition to LIGHTNING_HELD'')
    else
      bnd (the_invoice i) (\<lambda>h.
      bnd (getInvoiceState b (hi_paymentHash h)) (\<lambda>invoiceState.
      if invoiceState \<noteq> HI_ACCEPTED then thr (Thrown C_ERROR ''Invoice is not held by payer'')
      else
        bnd (hold_observation b i) (\<lambda>(expiry, htlcs).
        bnd (the_invoice i) (\<lambda>h'.
        bnd (ask (b_now b)) (\<lambda>now.
        updateRecord b i
          (no_updates\<lparr>su_state := Some SA_LIGHTNING_HELD,
             su_holdInvoice := Some (h'\<lparr>hi_state := HI_ACCEPTED, hi_acceptedAt := Some now,
               hi_expiryHeight := expiry, hi_htlcs := some_or htlcs (hi_htlcs h')\<rparr>)\<rparr>)
          (Some (''LIGHTNING_ACCEPTED_OBSERVED'', Some (hi_paymentHash h')))))))))"

section \<open>Funding the EVM HTLC\<close>

definition action_claimed :: cerr where
  "action_claimed = Thrown C_ERROR ''Action already claimed by another worker (SEC-14 violation)''"

text \<open>The checks under the lease, before anything is dispatched.\<close>

definition fund_checks :: "'w backend \<Rightarrow> coordinator \<Rightarrow> string \<Rightarrow> ('w, unit) act" where
  "fund_checks b c i =
    bnd (the_invoice i) (\<lambda>h.
    bnd (getInvoiceState b (hi_paymentHash h)) (\<lambda>currentLnState.
    if currentLnState \<noteq> HI_ACCEPTED
    then thr (Thrown C_ERROR ''Cannot fund Base HTLC: Lightning hold invoice is not in ACCEPTED state'')
    else
      bnd (cached i) (\<lambda>record.
      if truthy_str (r_reservationId record) \<noteq> None \<and> r_reservationStatus record \<noteq> None \<and>
         r_reservationStatus record \<noteq> Some RS_RESERVED
      then thr (Thrown C_ERROR ''Cannot fund Base HTLC: Reservation is not RESERVED'')
      else if r_reservedAmountUnits record \<noteq> None \<and>
              r_reservedAmountUnits record \<noteq> Some (r_expectedUsdcAmount record)
      then thr (Thrown C_ERROR ''Cannot fund Base HTLC: Reserved amount does not match expected USDC amount'')
      else assertLightningCltvSafety b c i)))"

definition fund_params_of :: "coordinator \<Rightarrow> string \<Rightarrow> int \<Rightarrow> swap_rec \<Rightarrow> fund_params" where
  "fund_params_of c swapKey refundLocktime record = \<lparr>
     fp_swapKey = swapKey, fp_hashLock = r_hashLock record,
     fp_amountUnits = r_expectedUsdcAmount record,
     fp_tokenAddress = coalesce (r_tokenAddress record) (co_tokenAddress c),
     fp_refundLocktime = refundLocktime, fp_claimAddress = r_claimingAddress record,
     fp_refundAddress = coalesce (r_refundAddress record) (co_refundAddress c) \<rparr>"

text \<open>The one dispatch; after an error only an observed funded HTLC counts as success.\<close>

definition fund_dispatch ::
  "'w backend \<Rightarrow> coordinator \<Rightarrow> string \<Rightarrow> string \<Rightarrow> int \<Rightarrow> ('w, string \<times> int \<times> string option) act" where
  "fund_dispatch b c i swapKey refundLocktime =
    bnd (cached i) (\<lambda>record.
    let params = fund_params_of c swapKey refundLocktime record
    in attempt (call (EvFund params) (b_fundHtlc b params))
         (\<lambda>err. attempt
            (bnd (observeHtlc b swapKey) (\<lambda>obs.
               if os_funded obs = Some True
               then bnd (cached i) (\<lambda>r.
                 ret (''0x_reconciled_funding_after_ambiguity'', 0, r_evmHtlcId r))
               else thr err))
            (\<lambda>_. thr err)))"

definition fund_body :: "'w backend \<Rightarrow> coordinator \<Rightarrow> string \<Rightarrow> ('w, swap_rec) act" where
  "fund_body b c i =
    seq (fund_checks b c i)
    (bnd (getBlockTimestamp b) (\<lambda>blockTs.
     bnd (cached i) (\<lambda>record.
     let refundLocktime = blockTs + coalesce (r_timelockSeconds record) 43200;
         swapKey = coalesce (r_evmSwapKey record) (''swap_'' @ i)
     in seq (updateRecord b i
               (no_updates\<lparr>su_state := Some SA_EVM_FUNDING_PENDING, su_evmSwapKey := Some swapKey,
                  su_refundLocktime := Some refundLocktime\<rparr>)
               (Some (''EVM_FUNDING_DISPATCH_STARTED'', None)))
        (bnd (fund_dispatch b c i swapKey refundLocktime) (\<lambda>(txHash, _, htlcId).
         bnd (cached i) (\<lambda>r.
         seq (case truthy_str (r_reservationId r) of
                Some rid \<Rightarrow> inv_commit b rid
              | None \<Rightarrow> ret ())
         (bnd (cached i) (\<lambda>r'.
          updateRecord b i
            (clear_action (no_updates\<lparr>su_state := Some SA_EVM_FUNDED,
               su_reservationStatus := Some RS_COMMITTED, su_evmSwapKey := Some swapKey,
               su_evmHtlcId := some_or htlcId (r_evmHtlcId r'),
               su_evmFundingTxHash := Some txHash, su_refundLocktime := Some refundLocktime\<rparr>))
            (Some (''EVM_FUNDED_CONFIRMED'', Some txHash))))))))))"

definition fundEvmHtlc :: "'w backend \<Rightarrow> coordinator \<Rightarrow> string \<Rightarrow> string \<Rightarrow> ('w, swap_rec) act" where
  "fundEvmHtlc b c i workerId =
    bnd (mustGetRecord i) (\<lambda>record.
    bnd (ask (\<lambda>s. s_claims s i)) (\<lambda>claim.
    if claim \<noteq> None \<and> claim \<noteq> Some workerId then thr action_claimed
    else if r_state record = SA_EVM_FUNDED then ret record
    else if r_state record \<noteq> SA_LIGHTNING_HELD \<and> r_state record \<noteq> SA_EVM_FUNDING_PENDING
    then thr (Thrown C_ERROR ''Cannot fund EVM HTLC: Lightning payment not held'')
    else
      bnd (claim_action b c i ''FUND'' workerId) (\<lambda>claimed.
      if \<not> claimed then
        bnd (ask (\<lambda>s. getSovereignSwap i (s_db s))) (\<lambda>auth.
          case auth of
            Some r \<Rightarrow> if r_state r = SA_EVM_FUNDED then syncCache r else thr action_claimed
          | None \<Rightarrow> thr action_claimed)
      else
        seq (change (\<lambda>s. s\<lparr>s_claims := (s_claims s)(i := Some workerId)\<rparr>))
        (ensure (fund_body b c i) (release_action b i workerId)))))"

section \<open>Settling Lightning from a verified claim\<close>

definition missing_finality :: cerr where
  "missing_finality = Thrown C_MISSING_FINALITY ''MISSING_FINALITY_POLICY: No explicit Base finality policy configured. Irreversible cross-rail action forbidden fail-closed.''"

definition in_refund_path :: "swap_state \<Rightarrow> bool" where
  "in_refund_path st \<longleftrightarrow>
     st \<in> {SA_REFUNDED, SA_REFUND_ELIGIBLE, SA_EVM_REFUND_PENDING, SA_EVM_REFUND_CONFIRMED}"

text \<open>An \<open>EVM_FINALITY_DISAGREEMENT\<close> error is recorded before it is thrown on.\<close>

definition note_disagreement :: "'w backend \<Rightarrow> string \<Rightarrow> cerr \<Rightarrow> ('w, unit) act" where
  "note_disagreement b i err =
    (if finality_disagreement err
     then seq (updateRecord b i
                 (no_updates\<lparr>su_recoveryRequired := Some True,
                    su_failureReason := Some (Some (''EVM_FINALITY_DISAGREEMENT: '' @ err_message err))\<rparr>)
                 (Some (''EVM_FINALITY_DISAGREEMENT'', None)))
            (ret ())
     else ret ())"

definition claim_query_of :: "string \<Rightarrow> string \<Rightarrow> int \<Rightarrow> swap_rec \<Rightarrow> claim_query" where
  "claim_query_of claimTxHash htlcId confirmations record = \<lparr>
     cq_claimTxHash = claimTxHash, cq_expectedHtlcId = htlcId,
     cq_expectedHashLock = r_hashLock record, cq_expectedClaimAddress = r_claimingAddress record,
     cq_expectedAmount = r_expectedUsdcAmount record, cq_requiredConfirmations = confirmations \<rparr>"

definition settle_evidence ::
  "'w backend \<Rightarrow> finality_policy \<Rightarrow> string \<Rightarrow> string \<Rightarrow> ('w, claim_evidence) act" where
  "settle_evidence b policy i claimTxHash =
    bnd (cached i) (\<lambda>record.
    if r_state record \<notin> {SA_EVM_FUNDED, SA_EVM_CLAIM_DETECTED, SA_EVM_CLAIM_CONFIRMED,
                           SA_LIGHTNING_SETTLEMENT_PENDING}
    then thr (Thrown C_GATE ''Cannot settle: EVM HTLC is not in EVM_FUNDED state'')
    else
      (case truthy_str (r_evmHtlcId record) of
         None \<Rightarrow> thr (Thrown C_GATE ''Cannot settle: execution record is missing evmHtlcId'')
       | Some htlcId \<Rightarrow>
           (case b_verifyClaim b of
              None \<Rightarrow> thr (Thrown C_GATE ''EVM backend does not support authoritative extractAndVerifyClaimEvidence'')
            | Some verify \<Rightarrow>
                let query = claim_query_of claimTxHash htlcId (fl_requiredConfirmations policy) record
                in bnd (attempt (call (EvVerifyClaim query) (verify query))
                     (\<lambda>err. seq (note_disagreement b i err)
                        (if err_class_of err = C_GATE then thr err
                         else thr (Thrown C_GATE (''LIGHTNING_SETTLEMENT_GATE_VIOLATION: Failed to extract and verify claim evidence: '' @ err_message err)))))
                   (\<lambda>evidence.
                     if ce_finalityState evidence \<noteq> FS_FINAL
                     then thr (Thrown C_GATE ''Claim evidence does not satisfy FINAL_ENOUGH_FOR_PROTOCOL'')
                     else ret evidence))))"

text \<open>Settle with the revealed preimage; after an error the invoice state decides.\<close>

definition settle_dispatch :: "'w backend \<Rightarrow> string \<Rightarrow> string \<Rightarrow> ('w, bool \<times> int) act" where
  "settle_dispatch b i preimage =
    attempt (settleHoldInvoice b preimage)
      (\<lambda>err.
        bnd (the_invoice i) (\<lambda>h.
        bnd (getInvoiceState b (hi_paymentHash h)) (\<lambda>lnState.
        if lnState = HI_SETTLED then bnd (ask (b_now b)) (\<lambda>now. ret (True, now))
        else if lnState = HI_CANCELED then
          seq (updateRecord b i
                 (no_updates\<lparr>su_recoveryRequired := Some True,
                    su_failureReason := Some (Some ''CRITICAL: Base claimed but Lightning invoice CANCELED'')\<rparr>)
                 (Some (''CRITICAL_INVARIANT_VIOLATION'', None)))
          (thr (Thrown C_ERROR ''CRITICAL_INVARIANT_VIOLATION: Base HTLC was claimed but Lightning invoice is CANCELED''))
        else thr err)))"

definition settle_body ::
  "'w backend \<Rightarrow> coordinator \<Rightarrow> finality_policy \<Rightarrow> string \<Rightarrow> string \<Rightarrow> ('w, swap_rec) act" where
  "settle_body b c policy i claimTxHash =
    seq (assertLightningCltvSafety b c i)
    (bnd (settle_evidence b policy i claimTxHash) (\<lambda>evidence.
     seq (updateRecord b i
            (no_updates\<lparr>su_state := Some SA_EVM_CLAIM_CONFIRMED, su_evmClaimTxHash := Some claimTxHash\<rparr>)
            (Some (''EVM_CLAIM_VERIFIED'', Some claimTxHash)))
     (seq (updateRecord b i (no_updates\<lparr>su_state := Some SA_LIGHTNING_SETTLEMENT_PENDING\<rparr>)
            (Some (''LIGHTNING_SETTLEMENT_DISPATCHED'', None)))
     (bnd (settle_dispatch b i (ce_preimageRevealed evidence)) (\<lambda>(_, settledAt).
      bnd (the_invoice i) (\<lambda>h.
      updateRecord b i
        (clear_action (no_updates\<lparr>su_state := Some SA_DESTINATION_PENDING,
           su_holdInvoice := Some (h\<lparr>hi_state := HI_SETTLED, hi_settledAt := Some settledAt\<rparr>)\<rparr>))
        (Some (''LIGHTNING_SETTLED_CONFIRMED'', Some (ce_preimageRevealed evidence)))))))))"

definition settleLightningFromEvmClaim ::
  "'w backend \<Rightarrow> coordinator \<Rightarrow> string \<Rightarrow> string \<Rightarrow> string \<Rightarrow> ('w, swap_rec) act" where
  "settleLightningFromEvmClaim b c i claimTxHash workerId =
    bnd (mustGetRecord i) (\<lambda>record.
    case co_finalityPolicy c of
      None \<Rightarrow> thr missing_finality
    | Some policy \<Rightarrow>
        if in_refund_path (r_state record)
        then thr (Thrown C_GATE ''Cannot settle: swap is already in refund path (SEC-10 / INVARIANT C violation)'')
        else if r_state record \<in> {SA_LIGHTNING_SETTLED, SA_COMPLETED, SA_DESTINATION_PENDING}
        then ret record
        else
          bnd (claim_action b c i ''SETTLE'' workerId) (\<lambda>claimed.
          if \<not> claimed then thr (Thrown C_ERROR ''Action already claimed by another worker'')
          else ensure (settle_body b c policy i claimTxHash) (release_action b i workerId)))"

section \<open>The direct claim\<close>

text \<open>\<open>AuthorizedSettlementPreimage\<close>: the constructor and \<open>matchesHashLock\<close>.\<close>

definition is_lower_hex :: "char \<Rightarrow> bool" where
  "is_lower_hex c = (let n = of_char c :: nat in (48 \<le> n \<and> n \<le> 57) \<or> (97 \<le> n \<and> n \<le> 102))"

definition authorize_preimage :: "string \<Rightarrow> cerr + string" where
  "authorize_preimage preimageHex =
    (let clean = to_lower (strip_0x preimageHex)
     in if length clean = 64 \<and> list_all is_lower_hex clean then Inr clean
        else Inl (Thrown C_ERROR ''PREIMAGE_FORMAT_ERROR: Preimage must be a 32-byte hex string''))"

definition matchesHashLock :: "coordinator \<Rightarrow> string \<Rightarrow> string \<Rightarrow> bool" where
  "matchesHashLock c rawHex hashLockHex \<longleftrightarrow> co_sha256 c rawHex = to_lower (strip_0x hashLockHex)"

text \<open>The transaction hash of the claim: the recorded one when the HTLC is already completed, else claim now.\<close>

definition claim_dispatch :: "'w backend \<Rightarrow> string \<Rightarrow> string \<Rightarrow> ('w, string) act" where
  "claim_dispatch b i rawHex =
    bnd (cached i) (\<lambda>record.
    let claimTxHash = coalesce (r_evmClaimTxHash record) ''0x_preclaimed'';
        swapKey = coalesce (r_evmSwapKey record) ''''
    in bnd (observeHtlc b swapKey) (\<lambda>htlcState.
       if os_completed htlcState = Some True then ret claimTxHash
       else
         (case b_claimHtlc b of
            None \<Rightarrow> thr (Thrown C_ERROR ''EVM backend does not support direct claimHtlc. For sovereign on-chain execution, use settleLightningFromEvmClaim.'')
          | Some claim \<Rightarrow>
              bnd (cached i) (\<lambda>r.
              let key = coalesce (r_evmSwapKey r) '''';
                  destination = r_targetDestinationAddress r
              in bnd (call (EvClaim key rawHex destination) (claim key rawHex destination))
                   (\<lambda>(success, txHash).
                     if \<not> success then
                       seq (updateRecord b i
                              (no_updates\<lparr>su_state := Some SA_RECOVERY_REQUIRED,
                                 su_recoveryRequired := Some True\<rparr>)
                              (Some (''EVM_CLAIM_FAILED'', None)))
                       (thr (Thrown C_ERROR ''EVM claim failed; escalated to RECOVERY_REQUIRED''))
                     else ret txHash)))))"

definition claim_finality ::
  "'w backend \<Rightarrow> finality_policy \<Rightarrow> string \<Rightarrow> string \<Rightarrow> ('w, unit) act" where
  "claim_finality b policy i claimTxHash =
    (case b_verifyClaim b of
       None \<Rightarrow> ret ()
     | Some verify \<Rightarrow>
         if claimTxHash = '''' \<or> starts_with claimTxHash ''0x_preclaimed'' then ret ()
         else
           bnd (cached i) (\<lambda>record.
           let query = claim_query_of claimTxHash
                 (coalesce (r_evmHtlcId record) (coalesce (r_evmSwapKey record) ''''))
                 (fl_requiredConfirmations policy) record
           in bnd (attempt (call (EvVerifyClaim query) (verify query))
                     (\<lambda>err. seq (note_disagreement b i err) (thr err)))
                (\<lambda>evidence.
                  if ce_finalityState evidence \<noteq> FS_FINAL
                  then thr (Thrown C_ERROR ''INSUFFICIENT_FINALITY: Lightning settlement deferred.'')
                  else ret ())))"

definition claim_body ::
  "'w backend \<Rightarrow> finality_policy \<Rightarrow> string \<Rightarrow> string \<Rightarrow> ('w, swap_rec) act" where
  "claim_body b policy i rawHex =
    seq (updateRecord b i (no_updates\<lparr>su_state := Some SA_CLAIMING\<rparr>)
           (Some (''CLIENT_CLAIM_DISPATCHED'', None)))
    (bnd (claim_dispatch b i rawHex) (\<lambda>claimTxHash.
     seq (claim_finality b policy i claimTxHash)
     (seq (settleHoldInvoice b rawHex)
     (bnd (the_invoice i) (\<lambda>h.
      bnd (ask (b_now b)) (\<lambda>now.
      updateRecord b i
        (clear_action (no_updates\<lparr>su_state := Some SA_DESTINATION_PENDING,
           su_evmClaimTxHash := Some claimTxHash,
           su_holdInvoice := Some (h\<lparr>hi_state := HI_SETTLED, hi_settledAt := Some now\<rparr>)\<rparr>))
        (Some (''CLAIM_AND_SETTLE_COMPLETED'', None))))))))"

definition claimSwap ::
  "'w backend \<Rightarrow> coordinator \<Rightarrow> string \<Rightarrow> string \<Rightarrow> string \<Rightarrow> ('w, swap_rec) act" where
  "claimSwap b c i preimage workerId =
    bnd (mustGetRecord i) (\<lambda>record.
    case co_finalityPolicy c of
      None \<Rightarrow> thr missing_finality
    | Some policy \<Rightarrow>
        if in_refund_path (r_state record)
        then thr (Thrown C_ERROR ''Cannot claim swap: swap is already in refund path (SEC-10 violation)'')
        else if r_state record \<notin> {SA_EVM_FUNDED, SA_EVM_CLAIM_CONFIRMED,
                                    SA_LIGHTNING_SETTLEMENT_PENDING, SA_CLAIMING}
        then thr (Thrown C_ERROR ''Cannot claim swap: EVM HTLC is not in EVM_FUNDED state'')
        else
          (case authorize_preimage preimage of
             Inl e \<Rightarrow> thr e
           | Inr rawHex \<Rightarrow>
               if \<not> matchesHashLock c rawHex (r_hashLock record)
               then thr (Thrown C_ERROR ''Invalid preimage: Provided preimage does not match execution hashlock'')
               else
                 bnd (claim_action b c i ''CLAIM'' workerId) (\<lambda>claimed.
                 if \<not> claimed then thr (Thrown C_ERROR ''Action already claimed by another worker'')
                 else ensure (claim_body b policy i rawHex) (release_action b i workerId))))"

section \<open>Delivery\<close>

definition confirmBaseDelivery :: "'w backend \<Rightarrow> string \<Rightarrow> string \<Rightarrow> ('w, swap_rec) act" where
  "confirmBaseDelivery b i destinationTxHash =
    bnd (mustGetRecord i) (\<lambda>record.
    if r_state record = SA_COMPLETED then ret record
    else if r_state record \<noteq> SA_DESTINATION_PENDING \<and> r_state record \<noteq> SA_LIGHTNING_SETTLED
    then thr (Thrown C_ERROR ''Cannot complete delivery: state must be DESTINATION_PENDING'')
    else updateRecord b i
           (no_updates\<lparr>su_state := Some SA_COMPLETED, su_destinationTxHash := Some destinationTxHash\<rparr>)
           (Some (''FINAL_DELIVERY_CONFIRMED'', Some destinationTxHash)))"

section \<open>Refund\<close>

text \<open>Cancel the invoice, release a RESERVED reservation and close the swap.\<close>

definition cancel_and_close ::
  "'w backend \<Rightarrow> string \<Rightarrow> swap_state \<Rightarrow> string \<Rightarrow> ('w, swap_rec) act" where
  "cancel_and_close b i final reason =
    bnd (the_invoice i) (\<lambda>h.
    seq (cancelHoldInvoice b (hi_paymentHash h))
    (bnd (cached i) (\<lambda>record.
     seq (case truthy_str (r_reservationId record) of
            Some rid \<Rightarrow>
              if r_reservationStatus record = Some RS_RESERVED then inv_release b rid else ret ()
          | None \<Rightarrow> ret ())
     (bnd (the_invoice i) (\<lambda>h'.
      bnd (ask (b_now b)) (\<lambda>now.
      updateRecord b i
        (clear_action (no_updates\<lparr>su_state := Some final, su_reservationStatus := Some RS_RELEASED,
           su_holdInvoice := Some (h'\<lparr>hi_state := HI_CANCELED, hi_canceledAt := Some now\<rparr>)\<rparr>))
        (Some (reason, None))))))))"

definition refund_held :: "'w backend \<Rightarrow> string \<Rightarrow> ('w, swap_rec) act" where
  "refund_held b i =
    bnd (cached i) (\<lambda>record.
    seq (case truthy_str (r_evmSwapKey record) of
           None \<Rightarrow> ret ()
         | Some key \<Rightarrow>
             bnd (observeHtlc b key) (\<lambda>obs.
               if os_funded obs = Some True
               then thr (Thrown C_ERROR ''Cannot cancel Lightning: Base HTLC is funded! (INVARIANT D violation)'')
               else ret ()))
    (cancel_and_close b i SA_INVOICE_CANCELED ''LIGHTNING_HELD_CANCELLED_BEFORE_EVM_FUND''))"

text \<open>The Base side: refuse a claimed HTLC, refund one that is not refunded yet after its timelock.\<close>

definition refund_base :: "'w backend \<Rightarrow> string \<Rightarrow> string \<Rightarrow> ('w, unit) act" where
  "refund_base b i swapKey =
    bnd (observeHtlc b swapKey) (\<lambda>htlcState.
    if os_completed htlcState = Some True then
      seq (updateRecord b i (no_updates\<lparr>su_state := Some SA_EVM_CLAIM_CONFIRMED\<rparr>)
             (Some (''RACE_DETECTED_CLIENT_CLAIM_WON_ON_CHAIN'', None)))
      (thr (Thrown C_ERROR ''MUTUAL_EXCLUSION_VIOLATION: HTLC already claimed on-chain; refund aborted''))
    else if os_refunded htlcState = Some True then ret ()
    else if os_blockTimestamp htlcState < os_timelock htlcState
    then thr (Thrown C_ERROR ''Timelock not expired on EVM'')
    else
      seq (updateRecord b i (no_updates\<lparr>su_state := Some SA_EVM_REFUND_PENDING\<rparr>)
             (Some (''EVM_REFUND_DISPATCH_STARTED'', None)))
      (bnd (attempt (refundHtlc b swapKey)
              (\<lambda>err. bnd (observeHtlc b swapKey) (\<lambda>recheck.
                 if os_refunded recheck = Some True then ret ''0x_reconciled_refund'' else thr err)))
         (\<lambda>txHash.
           seq (updateRecord b i
                  (no_updates\<lparr>su_state := Some SA_EVM_REFUND_CONFIRMED, su_evmRefundTxHash := Some txHash\<rparr>)
                  (Some (''EVM_REFUND_CONFIRMED'', Some txHash)))
             (ret ()))))"

definition refund_query_of :: "string \<Rightarrow> string \<Rightarrow> int \<Rightarrow> swap_rec \<Rightarrow> refund_query" where
  "refund_query_of refundTxHash swapKey confirmations record = \<lparr>
     rq_refundTxHash = refundTxHash, rq_expectedHtlcId = coalesce (r_evmHtlcId record) swapKey,
     rq_expectedRefundAddress = coalesce (r_refundAddress record) '''',
     rq_expectedAmount = r_expectedUsdcAmount record, rq_requiredConfirmations = confirmations \<rparr>"

definition refund_finality ::
  "'w backend \<Rightarrow> finality_policy \<Rightarrow> string \<Rightarrow> string \<Rightarrow> ('w, unit) act" where
  "refund_finality b policy i swapKey =
    bnd (mustGetRecord i) (\<lambda>record.
    case (b_verifyRefund b, truthy_str (r_evmRefundTxHash record)) of
      (Some verify, Some refundTxHash) \<Rightarrow>
        if starts_with refundTxHash ''0x_reconciled'' then ret ()
        else
          let query = refund_query_of refundTxHash swapKey (fl_requiredConfirmations policy) record
          in bnd (attempt (call (EvVerifyRefund query) (verify query))
                    (\<lambda>err. seq (note_disagreement b i err) (thr err)))
               (\<lambda>evidence.
                 if re_finalityState evidence \<noteq> Some FS_FINAL
                 then thr (Thrown C_ERROR ''INSUFFICIENT_FINALITY: Lightning cancellation deferred.'')
                 else ret ())
    | _ \<Rightarrow> ret ())"

definition refund_cancel :: "'w backend \<Rightarrow> string \<Rightarrow> ('w, bool \<times> int) act" where
  "refund_cancel b i =
    attempt (bnd (the_invoice i) (\<lambda>h. cancelHoldInvoice b (hi_paymentHash h)))
      (\<lambda>err.
        bnd (the_invoice i) (\<lambda>h.
        bnd (getInvoiceState b (hi_paymentHash h)) (\<lambda>lnState.
        if lnState = HI_CANCELED then bnd (ask (b_now b)) (\<lambda>now. ret (True, now))
        else if lnState = HI_SETTLED then
          seq (updateRecord b i
                 (no_updates\<lparr>su_recoveryRequired := Some True,
                    su_failureReason := Some (Some ''CRITICAL: Base refunded but Lightning invoice SETTLED'')\<rparr>)
                 (Some (''CRITICAL_INVARIANT_VIOLATION'', None)))
          (thr (Thrown C_ERROR ''CRITICAL_INVARIANT_VIOLATION: Base HTLC refunded but Lightning invoice is SETTLED''))
        else thr err)))"

text \<open>
  The reservation step that several handlers share: without a reservation, or when the
  inventory refuses, the swap is marked for recovery and the handler returns; else it goes on.
\<close>

definition reservation_step ::
  "'w backend \<Rightarrow> string \<Rightarrow> (string \<Rightarrow> ('w, unit) act) \<Rightarrow> string \<Rightarrow> string \<Rightarrow> string
   \<Rightarrow> ('w, swap_rec) act \<Rightarrow> ('w, swap_rec) act" where
  "reservation_step b i operation htlcStatus operationName failedReason k =
    bnd (cached i) (\<lambda>record.
    case truthy_str (r_reservationId record) of
      None \<Rightarrow> markRecoveryRequired b i
        (''CRITICAL_INVARIANT_VIOLATION: Base HTLC is '' @ htlcStatus @ '' but swap has no valid reservationId; economic inconsistency'')
        ''MISSING_RESERVATION_ID''
    | Some rid \<Rightarrow>
        bnd (attempt (seq (operation rid) (ret None)) (\<lambda>err. ret (Some err))) (\<lambda>failure.
          case failure of
            Some err \<Rightarrow> markRecoveryRequired b i
              (''CRITICAL_INVARIANT_VIOLATION: Base HTLC is '' @ htlcStatus @ '' but reservation '' @
               operationName @ '' failed ('' @ err_message err @ ''); economic inconsistency'')
              failedReason
          | None \<Rightarrow> k))"

definition refund_funded ::
  "'w backend \<Rightarrow> coordinator \<Rightarrow> string \<Rightarrow> ('w, swap_rec) act" where
  "refund_funded b c i =
    (case co_finalityPolicy c of
       None \<Rightarrow> thr missing_finality
     | Some policy \<Rightarrow>
         bnd (cached i) (\<lambda>record.
         let swapKey = coalesce (r_evmSwapKey record) ''''
         in seq (refund_base b i swapKey)
           (seq (refund_finality b policy i swapKey)
           (seq (updateRecord b i (no_updates\<lparr>su_state := Some SA_LIGHTNING_CANCEL_PENDING\<rparr>)
                  (Some (''LIGHTNING_CANCEL_DISPATCHED'', None)))
           (bnd (refund_cancel b i) (\<lambda>(_, canceledAt).
            reservation_step b i (restore_reservation b) ''REFUNDED'' ''refund restoration''
              ''RESERVATION_REFUND_RESTORE_FAILED''
              (bnd (the_invoice i) (\<lambda>h.
               updateRecord b i
                 (clear_action (no_updates\<lparr>su_state := Some SA_REFUNDED,
                    su_reservationStatus := Some RS_RELEASED,
                    su_holdInvoice := Some (h\<lparr>hi_state := HI_CANCELED, hi_canceledAt := Some canceledAt\<rparr>)\<rparr>))
                 (Some (''SWAP_TERMINAL_REFUNDED_AND_CANCELED'', None))))))))))"

definition refund_body :: "'w backend \<Rightarrow> coordinator \<Rightarrow> string \<Rightarrow> swap_state \<Rightarrow> ('w, swap_rec) act" where
  "refund_body b c i st =
    (if st = SA_INVOICE_CREATED then cancel_and_close b i SA_EXPIRED ''UNFUNDED_INVOICE_EXPIRED''
     else if st = SA_LIGHTNING_HELD then refund_held b i
     else if st \<in> {SA_EVM_FUNDED, SA_REFUND_ELIGIBLE, SA_EVM_REFUND_PENDING, SA_EVM_REFUND_CONFIRMED,
                    SA_LIGHTNING_CANCEL_PENDING}
     then refund_funded b c i
     else thr (Thrown C_ERROR ''Refund not supported for state''))"

definition claimed_or_completed :: "swap_state \<Rightarrow> bool" where
  "claimed_or_completed st \<longleftrightarrow> st \<in> {SA_CLAIMING, SA_EVM_CLAIM_CONFIRMED, SA_LIGHTNING_SETTLED,
     SA_DESTINATION_PENDING, SA_COMPLETED}"

definition processRefund :: "'w backend \<Rightarrow> coordinator \<Rightarrow> string \<Rightarrow> string \<Rightarrow> ('w, swap_rec) act" where
  "processRefund b c i workerId =
    bnd (mustGetRecord i) (\<lambda>record.
    if r_state record = SA_REFUNDED then ret record
    else if claimed_or_completed (r_state record)
    then thr (Thrown C_ERROR ''Cannot refund swap: swap already claimed or completed (SEC-10 / INVARIANT B violation)'')
    else
      bnd (claim_action b c i ''REFUND'' workerId) (\<lambda>claimed.
      if \<not> claimed then
        bnd (ask (\<lambda>s. getSovereignSwap i (s_db s))) (\<lambda>auth.
          let refused = thr (Thrown C_ERROR ''Action REFUND already claimed by another worker'')
          in case auth of
               Some r \<Rightarrow> if r_state r = SA_REFUNDED then syncCache r else refused
             | None \<Rightarrow> refused)
      else ensure (refund_body b c i (r_state record)) (release_action b i workerId)))"

end
