(* ===== verification/Coord_Reconcile.thy ===== *)
theory Coord_Reconcile
  imports Coord_Ops
begin

text \<open>
  Restart reconciliation of the atomic coordinator (\<open>reconcileSwap\<close> and \<open>reconcileAll\<close> of
  \<open>src/src/atomic/coordinator/coordinator.ts\<close>): observe both rails, then converge. Each case of the source
  is a definition; \<open>lnState\<close> is the state of the observed invoice, \<open>None\<close> when the lookup proved
  that there is no invoice.
\<close>

section \<open>What was observed\<close>

definition observed_invoice :: "ln_observation \<Rightarrow> hold_invoice option" where
  "observed_invoice ln = (case ln of LO_FOUND h \<Rightarrow> Some h | _ \<Rightarrow> None)"

definition observed_htlc :: "evm_observation \<Rightarrow> htlc_state option" where
  "observed_htlc evm = (case evm of
     EO_FUNDED st \<Rightarrow> Some st | EO_CLAIMED st \<Rightarrow> Some st | EO_REFUNDED st \<Rightarrow> Some st
   | EO_NOT_FUNDED_PROVEN st \<Rightarrow> Some st | EO_PENDING st \<Rightarrow> Some st | EO_UNKNOWN _ \<Rightarrow> None)"

definition is_base_claimed :: "evm_observation \<Rightarrow> bool" where
  "is_base_claimed evm \<longleftrightarrow> (case evm of EO_CLAIMED _ \<Rightarrow> True
     | _ \<Rightarrow> (case observed_htlc evm of Some st \<Rightarrow> os_completed st = Some True | None \<Rightarrow> False))"

definition is_base_refunded :: "evm_observation \<Rightarrow> bool" where
  "is_base_refunded evm \<longleftrightarrow> (case evm of EO_REFUNDED _ \<Rightarrow> True
     | _ \<Rightarrow> (case observed_htlc evm of Some st \<Rightarrow> os_refunded st = Some True | None \<Rightarrow> False))"

definition is_base_funded :: "evm_observation \<Rightarrow> bool" where
  "is_base_funded evm \<longleftrightarrow> (case evm of EO_FUNDED _ \<Rightarrow> True
     | _ \<Rightarrow> (case observed_htlc evm of
              Some st \<Rightarrow> os_funded st = Some True \<and> os_completed st \<noteq> Some True \<and> os_refunded st \<noteq> Some True
            | None \<Rightarrow> False))"

definition is_base_absent :: "evm_observation \<Rightarrow> bool" where
  "is_base_absent evm \<longleftrightarrow> (case evm of EO_NOT_FUNDED_PROVEN _ \<Rightarrow> True | _ \<Rightarrow> False)"

definition unknown_reasons :: "ln_observation \<Rightarrow> evm_observation \<Rightarrow> string" where
  "unknown_reasons ln evm = (case (ln, evm) of
     (LO_UNKNOWN r, EO_UNKNOWN r') \<Rightarrow> ''Lightning: '' @ r @ ''; EVM: '' @ r'
   | (LO_UNKNOWN r, _) \<Rightarrow> ''Lightning: '' @ r
   | (_, EO_UNKNOWN r') \<Rightarrow> ''EVM: '' @ r'
   | _ \<Rightarrow> '''')"

section \<open>Shared steps\<close>

text \<open>\<open>recoveryRequired: false, failureReason: undefined\<close>\<close>

definition clear_failure :: "swap_updates \<Rightarrow> swap_updates" where
  "clear_failure u = u\<lparr>su_recoveryRequired := Some False, su_failureReason := Some None\<rparr>"

text \<open>
  One retry of a mutation: refused at \<open>maxRetries\<close>, else counted in its own counter and in the
  total before the mutation is tried.
\<close>

definition with_retry ::
  "'w backend \<Rightarrow> coordinator \<Rightarrow> string \<Rightarrow> (swap_rec \<Rightarrow> int option)
   \<Rightarrow> (int \<Rightarrow> swap_updates \<Rightarrow> swap_updates) \<Rightarrow> string \<Rightarrow> ('w, swap_rec) act \<Rightarrow> ('w, swap_rec) act" where
  "with_retry b c i counter set_counter exceeded k =
    bnd (cached i) (\<lambda>record.
    let currentRetries = coalesce (counter record) 0
    in if currentRetries \<ge> co_maxRetries c
       then markRecoveryRequired b i exceeded ''MAX_RETRIES_EXCEEDED''
       else seq (updateRecord b i
                   (set_counter (currentRetries + 1)
                      (no_updates\<lparr>su_retryCount := Some (coalesce (r_retryCount record) 0 + 1)\<rparr>)) None)
              k)"

definition count_settle :: "int \<Rightarrow> swap_updates \<Rightarrow> swap_updates" where
  "count_settle n u = u\<lparr>su_settleRetryCount := Some n\<rparr>"

definition count_cancel :: "int \<Rightarrow> swap_updates \<Rightarrow> swap_updates" where
  "count_cancel n u = u\<lparr>su_cancelRetryCount := Some n\<rparr>"

definition count_refund :: "int \<Rightarrow> swap_updates \<Rightarrow> swap_updates" where
  "count_refund n u = u\<lparr>su_refundRetryCount := Some n\<rparr>"

definition count_fund :: "int \<Rightarrow> swap_updates \<Rightarrow> swap_updates" where
  "count_fund n u = u\<lparr>su_fundRetryCount := Some n\<rparr>"

definition retry_exceeded :: "string \<Rightarrow> string" where
  "retry_exceeded what = ''Max mutation retries exceeded while attempting to '' @ what"

definition violation :: "string \<Rightarrow> string" where
  "violation what = ''CRITICAL_INVARIANT_VIOLATION: '' @ what"

section \<open>Lightning is settled\<close>

definition reconcile_ln_settled ::
  "'w backend \<Rightarrow> string \<Rightarrow> hold_invoice \<Rightarrow> evm_observation \<Rightarrow> ('w, swap_rec) act" where
  "reconcile_ln_settled b i invoice evm =
    (if is_base_claimed evm then
       reservation_step b i (settle_reservation b) ''CLAIMED'' ''settlement'' ''RESERVATION_SETTLE_FAILED''
         (updateRecord b i
            (clear_failure (no_updates\<lparr>su_state := Some SA_COMPLETED,
               su_reservationStatus := Some RS_SETTLED,
               su_holdInvoice := Some (invoice\<lparr>hi_state := HI_SETTLED\<rparr>)\<rparr>))
            (Some (''RECONCILED_FROM_CROSS_RAIL_COMPLETED'', None)))
     else if is_base_funded evm then
       markRecoveryRequired b i
         ''Lightning is SETTLED but Base HTLC remains LOCKED/FUNDED; claim confirmation required''
         ''CROSS_RAIL_LN_SETTLED_BASE_LOCKED''
     else if is_base_absent evm then
       markRecoveryRequired b i
         (violation ''Lightning is SETTLED but Base HTLC was proven NOT_FUNDED'')
         ''CROSS_RAIL_INVARIANT_VIOLATION''
     else if is_base_refunded evm then
       markRecoveryRequired b i (violation ''Lightning is SETTLED but Base HTLC is REFUNDED'')
         ''CROSS_RAIL_INVARIANT_VIOLATION''
     else
       markRecoveryRequired b i ''Lightning is SETTLED but Base HTLC state is not completed''
         ''CROSS_RAIL_LN_SETTLED_BASE_INCOMPLETE'')"

section \<open>Base is claimed\<close>

text \<open>The claim is known on chain, its transaction hash is not.\<close>

definition reconcile_claim_detected :: "'w backend \<Rightarrow> string \<Rightarrow> ('w, swap_rec) act" where
  "reconcile_claim_detected b i =
    reservation_step b i (commit_reservation b i) ''CLAIMED'' ''commit'' ''RESERVATION_COMMIT_FAILED''
      (updateRecord b i
         (no_updates\<lparr>su_state := Some SA_EVM_CLAIM_DETECTED,
            su_reservationStatus := Some RS_COMMITTED, su_recoveryRequired := Some True,
            su_failureReason := Some (Some ''Base HTLC is CLAIMED onchain but claim transaction hash / preimage is pending extraction to settle Lightning'')\<rparr>)
         (Some (''RECONCILED_FROM_EVM_CLAIMED_WITHOUT_TX_HASH'', None)))"

definition reconcile_claimed ::
  "'w backend \<Rightarrow> coordinator \<Rightarrow> string \<Rightarrow> string \<Rightarrow> hold_invoice_state option \<Rightarrow> ('w, swap_rec) act" where
  "reconcile_claimed b c i workerId lnState =
    (case lnState of
       None \<Rightarrow> markRecoveryRequired b i
         (violation ''Base HTLC is CLAIMED but Lightning invoice is NOT_FOUND'')
         ''CROSS_RAIL_INVARIANT_VIOLATION''
     | Some HI_CANCELED \<Rightarrow> markRecoveryRequired b i
         (violation ''Base HTLC is CLAIMED but Lightning invoice is CANCELED'')
         ''CROSS_RAIL_INVARIANT_VIOLATION''
     | Some HI_OPEN \<Rightarrow> markRecoveryRequired b i
         (violation ''Base HTLC is CLAIMED but Lightning invoice is OPEN'')
         ''CROSS_RAIL_INVARIANT_VIOLATION''
     | Some HI_ACCEPTED \<Rightarrow>
         bnd (cached i) (\<lambda>record.
         case truthy_str (r_evmClaimTxHash record) of
           Some _ \<Rightarrow>
             with_retry b c i r_settleRetryCount count_settle
               (retry_exceeded ''settle Lightning from EVM claim'')
               (bnd (cached i) (\<lambda>r.
                attempt
                  (settleLightningFromEvmClaim b c i (coalesce (r_evmClaimTxHash r) '''') workerId)
                  (\<lambda>_. mustGetRecord i)))
         | None \<Rightarrow> reconcile_claim_detected b i)
     | Some HI_SETTLED \<Rightarrow> mustGetRecord i)"

section \<open>Base is refunded\<close>

definition canceled_invoice ::
  "hold_invoice option \<Rightarrow> hold_invoice option \<Rightarrow> int option \<Rightarrow> int \<Rightarrow> hold_invoice option" where
  "canceled_invoice observed recorded canceledAt now =
    map_option (\<lambda>h. h\<lparr>hi_state := HI_CANCELED,
        hi_canceledAt := Some (coalesce (some_or canceledAt (hi_canceledAt h)) now)\<rparr>)
      (some_or observed recorded)"

definition reconcile_refunded_close ::
  "'w backend \<Rightarrow> string \<Rightarrow> hold_invoice option \<Rightarrow> int option \<Rightarrow> ('w, swap_rec) act" where
  "reconcile_refunded_close b i observed canceledAt =
    reservation_step b i (restore_reservation b) ''REFUNDED'' ''refund restoration''
      ''RESERVATION_REFUND_RESTORE_FAILED''
      (bnd (cached i) (\<lambda>record.
       bnd (ask (b_now b)) (\<lambda>now.
       updateRecord b i
         (clear_failure (no_updates\<lparr>su_state := Some SA_REFUNDED,
            su_reservationStatus := Some RS_RELEASED,
            su_holdInvoice := canceled_invoice observed (r_holdInvoice record) canceledAt now\<rparr>))
         (Some (''RECONCILED_FROM_AUTHORITATIVE_EVM_REFUNDED'', None)))))"

text \<open>
  One cancel call; after an error the invoice is looked up again. The result is whether the
  cancellation is confirmed, and when it happened.
\<close>

definition reconcile_cancel :: "'w backend \<Rightarrow> string \<Rightarrow> string \<Rightarrow> ('w, bool \<times> int option) act" where
  "reconcile_cancel b i cleanHash =
    attempt
      (bnd (cancelHoldInvoice b cleanHash) (\<lambda>(canceled, canceledAt).
         ret (if canceled then (True, Some canceledAt) else (False, None))))
      (\<lambda>_. attempt
         (bnd (observeLightningForRecovery b i) (\<lambda>recheck.
          bnd (ask (b_now b)) (\<lambda>now.
            case recheck of
              LO_FOUND h \<Rightarrow>
                ret (if hi_state h = HI_CANCELED
                     then (True, Some (coalesce (hi_canceledAt h) now)) else (False, None))
            | _ \<Rightarrow> ret (False, None))))
         (\<lambda>_. ret (False, None)))"

definition reconcile_refunded ::
  "'w backend \<Rightarrow> coordinator \<Rightarrow> string \<Rightarrow> hold_invoice option \<Rightarrow> ('w, swap_rec) act" where
  "reconcile_refunded b c i observed =
    (case map_option hi_state observed of
       None \<Rightarrow> reconcile_refunded_close b i observed None
     | Some HI_CANCELED \<Rightarrow> reconcile_refunded_close b i observed None
     | Some HI_SETTLED \<Rightarrow> mustGetRecord i
     | Some _ \<Rightarrow>
         bnd (cached i) (\<lambda>record.
         let cleanHash = (case r_holdInvoice record of
               Some h \<Rightarrow> hi_paymentHash h
             | None \<Rightarrow> to_lower (strip_0x (r_hashLock record)))
         in with_retry b c i r_cancelRetryCount count_cancel
              (retry_exceeded ''cancel Lightning hold invoice'')
              (bnd (reconcile_cancel b i cleanHash) (\<lambda>(cancelConfirmed, canceledAt).
               if \<not> cancelConfirmed then
                 markRecoveryRequired b i
                   ''Base HTLC is REFUNDED but Lightning invoice cancellation could not be authoritatively confirmed; reservation retained''
                   ''LIGHTNING_CANCEL_AMBIGUOUS''
               else reconcile_refunded_close b i observed canceledAt))))"

section \<open>Base is locked\<close>

definition reconcile_locked_waiting ::
  "'w backend \<Rightarrow> string \<Rightarrow> hold_invoice option \<Rightarrow> ('w, swap_rec) act" where
  "reconcile_locked_waiting b i observed =
    reservation_step b i (commit_reservation b i) ''LOCKED'' ''commit'' ''RESERVATION_COMMIT_FAILED''
      (bnd (cached i) (\<lambda>record.
       updateRecord b i
         (clear_failure (no_updates\<lparr>su_state := Some SA_EVM_FUNDED,
            su_reservationStatus := Some RS_COMMITTED,
            su_holdInvoice := some_or observed (r_holdInvoice record)\<rparr>))
         (Some (''RECONCILED_EVM_LOCKED_WAITING'', None))))"

definition reconcile_locked ::
  "'w backend \<Rightarrow> coordinator \<Rightarrow> string \<Rightarrow> string \<Rightarrow> hold_invoice option \<Rightarrow> htlc_state option
   \<Rightarrow> ('w, swap_rec) act" where
  "reconcile_locked b c i workerId observed htlc =
    (case map_option hi_state observed of
       None \<Rightarrow> markRecoveryRequired b i
         (violation ''Base HTLC is FUNDED but Lightning invoice is NOT_FOUND; reservation retained'')
         ''CROSS_RAIL_INVARIANT_VIOLATION''
     | Some HI_CANCELED \<Rightarrow> markRecoveryRequired b i
         (violation ''Base HTLC is FUNDED but Lightning invoice is CANCELED; reservation retained'')
         ''CROSS_RAIL_INVARIANT_VIOLATION''
     | Some HI_OPEN \<Rightarrow> markRecoveryRequired b i
         (violation ''Base HTLC is FUNDED but Lightning invoice is OPEN; reservation retained'')
         ''CROSS_RAIL_INVARIANT_VIOLATION''
     | Some _ \<Rightarrow>
         if (case htlc of Some st \<Rightarrow> os_blockTimestamp st \<ge> os_timelock st | None \<Rightarrow> False)
         then with_retry b c i r_refundRetryCount count_refund
                (retry_exceeded ''process Base refund'')
                (attempt (processRefund b c i workerId) (\<lambda>_. mustGetRecord i))
         else reconcile_locked_waiting b i observed)"

section \<open>No HTLC exists\<close>

definition reconcile_fund :: "'w backend \<Rightarrow> coordinator \<Rightarrow> string \<Rightarrow> string \<Rightarrow> ('w, swap_rec) act" where
  "reconcile_fund b c i workerId =
    with_retry b c i r_fundRetryCount count_fund ''EVM funding retry limit exceeded''
      (attempt (fundEvmHtlc b c i workerId) (\<lambda>_. mustGetRecord i))"

definition reconcile_absent_close ::
  "'w backend \<Rightarrow> string \<Rightarrow> hold_invoice option \<Rightarrow> ('w, swap_rec) act" where
  "reconcile_absent_close b i observed =
    bnd (cached i) (\<lambda>record.
    bnd (case truthy_str (r_reservationId record) of
           None \<Rightarrow> ret None
         | Some rid \<Rightarrow> attempt (seq (release_reservation b rid) (ret None)) (\<lambda>err. ret (Some err)))
      (\<lambda>failure.
        case failure of
          Some err \<Rightarrow> markRecoveryRequired b i
            (violation (''Lightning CANCELED and EVM absent but reservation release failed ('' @
               err_message err @ ''); economic inconsistency''))
            ''RESERVATION_RELEASE_FAILED''
        | None \<Rightarrow>
            bnd (ask (b_now b)) (\<lambda>now.
            updateRecord b i
              (clear_failure (no_updates\<lparr>su_state := Some SA_INVOICE_CANCELED,
                 su_reservationStatus := Some RS_RELEASED,
                 su_holdInvoice := canceled_invoice observed None None now\<rparr>))
              (Some (if observed = None
                     then ''RECONCILED_FROM_AUTHORITATIVE_LND_ABSENCE_AND_EVM_ABSENCE''
                     else ''RECONCILED_FROM_LND_CANCELED_AND_EVM_ABSENCE'', None)))))"

definition intent_state_name :: "intent_state \<Rightarrow> string" where
  "intent_state_name st = (case st of
     EI_FAILED \<Rightarrow> ''FAILED'' | EI_REVERTED \<Rightarrow> ''REVERTED'' | EI_NONCE_CONFLICT \<Rightarrow> ''NONCE_CONFLICT''
   | EI_PENDING \<Rightarrow> ''PENDING'' | EI_CREATED \<Rightarrow> ''CREATED'' | EI_NONCE_RESERVED \<Rightarrow> ''NONCE_RESERVED''
   | EI_DISPATCHING \<Rightarrow> ''DISPATCHING'' | _ \<Rightarrow> '''')"

text \<open>
  A swap whose funding was dispatched keeps its reservation unless its FUND intent is in a
  status outside this list; \<open>None\<close> lets the case go on.
\<close>

definition pending_fund_statuses :: "intent_state list" where
  "pending_fund_statuses = [EI_FAILED, EI_REVERTED, EI_NONCE_CONFLICT, EI_PENDING, EI_CREATED,
     EI_NONCE_RESERVED, EI_DISPATCHING]"

definition reconcile_fund_intent :: "'w backend \<Rightarrow> string \<Rightarrow> ('w, swap_rec option) act" where
  "reconcile_fund_intent b i =
    bnd (cached i) (\<lambda>record.
    if r_state record \<noteq> SA_EVM_FUNDING_PENDING then ret None
    else
      bnd (ask (\<lambda>s. case truthy_str (r_evmSwapKey record) of
             None \<Rightarrow> None | Some key \<Rightarrow> getEvmIntentBySwapKey key AT_FUND (s_db s))) (\<lambda>intent.
      case intent of
        None \<Rightarrow> bnd (markRecoveryRequired b i
            (''EVM_FUNDING_PENDING swap '' @ i @ '' has no durable FUND intent; cannot safely confirm or retry funding; reservation retained'')
            ''MISSING_DURABLE_FUND_INTENT'') (\<lambda>r. ret (Some r))
      | Some it \<Rightarrow>
          if it_status it \<in> set pending_fund_statuses
          then bnd (markRecoveryRequired b i
              (''Base FUND intent '' @ it_id it @ '' is in status '' @ intent_state_name (it_status it) @
               ''; recovery pass retains reservation with zero blind retry'')
              (''BASE_FUNDING_'' @ intent_state_name (it_status it) @ ''_CROSS_RAIL_RESERVED''))
              (\<lambda>r. ret (Some r))
          else ret None))"

definition reconcile_absent ::
  "'w backend \<Rightarrow> coordinator \<Rightarrow> string \<Rightarrow> string \<Rightarrow> hold_invoice option \<Rightarrow> ('w, swap_rec) act" where
  "reconcile_absent b c i workerId observed =
    bnd (reconcile_fund_intent b i) (\<lambda>done.
    case done of
      Some r \<Rightarrow> ret r
    | None \<Rightarrow>
        bnd (cached i) (\<lambda>record.
        let lnState = map_option hi_state observed;
            early = r_state record \<in> {SA_PLAN_PREPARED, SA_INVOICE_CREATED, SA_RECOVERY_REQUIRED}
        in if early \<and> lnState = Some HI_OPEN then
             updateRecord b i
               (clear_failure (no_updates\<lparr>su_state := Some SA_INVOICE_CREATED, su_holdInvoice := observed\<rparr>))
               (Some (''RECONCILED_FROM_OPEN_INVOICE_AND_EVM_ABSENCE'', None))
           else if early \<and> lnState = Some HI_ACCEPTED \<and> r_state record \<noteq> SA_RECOVERY_REQUIRED then
             seq (updateRecord b i
                    (clear_failure (no_updates\<lparr>su_state := Some SA_LIGHTNING_HELD, su_holdInvoice := observed\<rparr>))
                    (Some (''RECONCILED_FROM_ACCEPTED_INVOICE_AND_EVM_ABSENCE'', None)))
                 (reconcile_fund b c i workerId)
           else
             (case lnState of
                Some HI_ACCEPTED \<Rightarrow>
                  if r_state record = SA_LIGHTNING_HELD then reconcile_fund b c i workerId
                  else markRecoveryRequired b i
                    ''Lightning remains ACCEPTED while Base funding is unresolved''
                    ''CROSS_RAIL_OBLIGATION_REMAINS_HELD''
              | Some HI_CANCELED \<Rightarrow> reconcile_absent_close b i observed
              | None \<Rightarrow> reconcile_absent_close b i observed
              | _ \<Rightarrow> mustGetRecord i)))"

section \<open>The whole reconciliation\<close>

definition reconcile_known ::
  "'w backend \<Rightarrow> coordinator \<Rightarrow> string \<Rightarrow> string \<Rightarrow> hold_invoice option \<Rightarrow> evm_observation
   \<Rightarrow> ('w, swap_rec) act" where
  "reconcile_known b c i workerId observed evm =
    bnd (cached i) (\<lambda>record.
    seq (if r_holdInvoice record = None \<and> observed \<noteq> None
         then seq (updateRecord b i (no_updates\<lparr>su_holdInvoice := observed\<rparr>) None) (ret ())
         else ret ())
    (case (map_option hi_state observed, observed) of
       (Some HI_SETTLED, Some invoice) \<Rightarrow> reconcile_ln_settled b i invoice evm
     | (lnState, _) \<Rightarrow>
         if is_base_claimed evm then reconcile_claimed b c i workerId lnState
         else if is_base_refunded evm then reconcile_refunded b c i observed
         else if is_base_funded evm then reconcile_locked b c i workerId observed (observed_htlc evm)
         else if is_base_absent evm then reconcile_absent b c i workerId observed
         else mustGetRecord i))"

definition reconcile_body :: "'w backend \<Rightarrow> coordinator \<Rightarrow> string \<Rightarrow> string \<Rightarrow> ('w, swap_rec) act" where
  "reconcile_body b c i workerId =
    bnd (observeLightningForRecovery b i) (\<lambda>ln.
    bnd (observeEvmForRecovery b i) (\<lambda>evm.
    case (ln, evm) of
      (LO_UNKNOWN _, _) \<Rightarrow> markRecoveryRequired b i
        (''Authoritative cross-rail observation unavailable: '' @ unknown_reasons ln evm)
        ''RECONCILIATION_EXTERNAL_STATE_UNKNOWN''
    | (_, EO_UNKNOWN _) \<Rightarrow> markRecoveryRequired b i
        (''Authoritative cross-rail observation unavailable: '' @ unknown_reasons ln evm)
        ''RECONCILIATION_EXTERNAL_STATE_UNKNOWN''
    | _ \<Rightarrow> reconcile_known b c i workerId (observed_invoice ln) evm))"

definition reconcileSwap :: "'w backend \<Rightarrow> coordinator \<Rightarrow> string \<Rightarrow> string \<Rightarrow> ('w, swap_rec) act" where
  "reconcileSwap b c i workerId =
    bnd (mustGetRecord i) (\<lambda>record.
    if terminal_record record then ret record
    else
      bnd (claim_action b c i ''RECONCILE'' workerId) (\<lambda>claimed.
      if \<not> claimed then bnd (cached i) ret
      else ensure (reconcile_body b c i workerId) (release_action b i workerId)))"

text \<open>Swaps one after the other; an error of one keeps its stored record in the result.\<close>

fun reconcile_each :: "'w backend \<Rightarrow> coordinator \<Rightarrow> string \<Rightarrow> string list \<Rightarrow> ('w, swap_rec list) act" where
  "reconcile_each b c workerId [] = ret []"
| "reconcile_each b c workerId (i # ids) =
    bnd (attempt (bnd (reconcileSwap b c i workerId) (\<lambda>r. ret [r]))
           (\<lambda>_. bnd (ask (\<lambda>s. getSovereignSwap i (s_db s))) (\<lambda>current.
              case current of Some r \<Rightarrow> ret [r] | None \<Rightarrow> ret [])))
      (\<lambda>r. bnd (reconcile_each b c workerId ids) (\<lambda>rs. ret (r @ rs)))"

definition reconcileAll :: "'w backend \<Rightarrow> coordinator \<Rightarrow> string \<Rightarrow> ('w, swap_rec list) act" where
  "reconcileAll b c workerId =
    bnd (ask (\<lambda>s. map r_id (listNonTerminalSovereignSwaps (s_db s)))) (\<lambda>ids.
    reconcile_each b c workerId ids)"

section \<open>Reading\<close>

definition getExecution :: "string \<Rightarrow> ('w, swap_rec option) act" where
  "getExecution i =
    bnd (ask (\<lambda>s. s_cache s i)) (\<lambda>c.
    case c of
      Some r \<Rightarrow> ret (Some r)
    | None \<Rightarrow>
        bnd (ask (\<lambda>s. getSovereignSwap i (s_db s))) (\<lambda>fromDb.
        case fromDb of
          Some r \<Rightarrow> seq (syncCache r) (ret (Some r))
        | None \<Rightarrow> ret None))"

definition getExecutionByIdempotencyKey :: "string \<Rightarrow> ('w, swap_rec option) act" where
  "getExecutionByIdempotencyKey key =
    bnd (ask (\<lambda>s. getSovereignSwapByIdempotencyKey key (s_db s))) (\<lambda>fromDb.
    case fromDb of
      Some r \<Rightarrow> seq (syncCache r) (ret (Some r))
    | None \<Rightarrow> ret None)"

end
