(* ===== verification/Coord_Logic.thy ===== *)
theory Coord_Logic
  imports Coord_Reconcile
begin

text \<open>
  The program logic of \<open>Actions\<close> at the coordinator: its helpers log no event, so they keep every assertion on the
  history.
\<close>

section \<open>Events of the helpers\<close>

lemma only_db_act [only_rules]: "only A (db_act f)"
  by (rule onlyI) (auto simp: db_act_def split: prod.splits sum.splits)

lemma only_invoice_state [only_rules]:
  "only A m1 \<Longrightarrow> only A m2 \<Longrightarrow> only A m3 \<Longrightarrow> only A m4 \<Longrightarrow>
   only A (case st of HI_OPEN \<Rightarrow> m1 | HI_ACCEPTED \<Rightarrow> m2 | HI_SETTLED \<Rightarrow> m3 | HI_CANCELED \<Rightarrow> m4)"
  by (cases st) auto

lemma only_readiness [only_rules]:
  "only A m1 \<Longrightarrow> only A m2 \<Longrightarrow> only A m3 \<Longrightarrow> only A m4 \<Longrightarrow> only A m5 \<Longrightarrow> only A m6 \<Longrightarrow>
   only A (case st of IR_NOT_READY \<Rightarrow> m1 | IR_RECONCILING \<Rightarrow> m2 | IR_READY \<Rightarrow> m3
     | IR_DEFICIT \<Rightarrow> m4 | IR_UNKNOWN \<Rightarrow> m5 | IR_DEGRADED \<Rightarrow> m6)"
  by (cases st) auto

text \<open>The synchronous helpers log nothing.\<close>

lemma only_syncCache [only_rules]: "only A (syncCache r)"
  by (simp add: only_def trace_def syncCache_def Let_def)

lemma only_cached [only_rules]: "only A (cached i)"
  by (simp add: only_def trace_def cached_def split: option.split)

lemma only_claim_action [only_rules]: "only A (claim_action b c i a w)"
  by (simp add: only_def trace_def claim_action_def split: prod.split)

lemma only_release_action [only_rules]: "only A (release_action b i w)"
  unfolding release_action_def by (intro only_rules)

lemma only_mustGetRecord [only_rules]: "only A (mustGetRecord i)"
  unfolding mustGetRecord_def by (intro only_rules)

lemma only_markRecoveryRequired [only_rules]: "only A (markRecoveryRequired b i f t)"
  unfolding markRecoveryRequired_def by (intro only_rules)

lemma only_updateRecord [only_rules]: "only A (updateRecord b i u t)"
  unfolding updateRecord_def by (intro only_rules)

lemma only_note_disagreement [only_rules]: "only A (note_disagreement b i e)"
  unfolding note_disagreement_def by (intro only_rules)

lemma only_the_invoice [only_rules]: "only A (the_invoice i)"
  unfolding the_invoice_def by (intro only_rules)

section \<open>Preconditions of the helpers\<close>

text \<open>The lease is released without a throw.\<close>

lemma wp_ensure_release [wp_rules]:
  "wp J m Q E h \<Longrightarrow> wp J (ensure m (release_action b i w)) Q E h"
  unfolding release_action_def by (rule wp_ensure_change)

lemma wp_invoice_state [wp_rules]:
  "(st = HI_OPEN \<Longrightarrow> wp J m1 Q E h) \<Longrightarrow> (st = HI_ACCEPTED \<Longrightarrow> wp J m2 Q E h) \<Longrightarrow>
   (st = HI_SETTLED \<Longrightarrow> wp J m3 Q E h) \<Longrightarrow> (st = HI_CANCELED \<Longrightarrow> wp J m4 Q E h) \<Longrightarrow>
   wp J (case st of HI_OPEN \<Rightarrow> m1 | HI_ACCEPTED \<Rightarrow> m2 | HI_SETTLED \<Rightarrow> m3 | HI_CANCELED \<Rightarrow> m4) Q E h"
  by (cases st) auto

text \<open>The synchronous helpers: any result, the same history.\<close>

lemma wp_claim_action [wp_rules]: "(\<And>x. Q x h) \<Longrightarrow> wp J (claim_action b c i a w) Q E h"
  by (rule wpI) (auto simp: claim_action_def split: prod.splits)

lemma wp_syncCache [wp_rules]: "(\<And>x. Q x h) \<Longrightarrow> wp J (syncCache r) Q E h"
  by (rule wpI) (auto simp: syncCache_def Let_def)

lemma wp_quiet [wp_rules]:
  assumes "\<And>x. Q x h" "\<And>e. E e h"
  shows "wp J (cached i) (Q :: swap_rec \<Rightarrow> _) E h"
    "wp J (mustGetRecord i) Q E h"
    "wp J (markRecoveryRequired b i f t) Q E h"
    "wp J (updateRecord b i u tr) Q E h"
  by (rule wp_silent, rule silent_only, rule only_rules, (rule assms)+)+

lemma wp_the_invoice [wp_rules]: "(\<And>x. Q x h) \<Longrightarrow> (\<And>e. E e h) \<Longrightarrow> wp J (the_invoice i) Q E h"
  by (rule wp_silent, rule silent_only, rule only_rules)

lemma wp_note_disagreement [wp_rules]:
  "(\<And>x. Q x h) \<Longrightarrow> (\<And>e. E e h) \<Longrightarrow> wp J (note_disagreement b i err) Q E h"
  by (rule wp_silent, rule silent_only, rule only_rules)

lemma wp_db_act [wp_rules]: "(\<And>x. Q x h) \<Longrightarrow> (\<And>e. E e h) \<Longrightarrow> wp J (db_act f) Q E h"
  by (rule wp_silent, rule silent_only, rule only_rules)

end
