(* ===== verification/Coord_Laws.thy ===== *)
theory Coord_Laws
  imports Coord_Logic
begin

text \<open>
  What the money-moving handlers of the coordinator can do to the two rails, whatever the
  backends answer and whatever other workers do meanwhile: which events a handler can log at
  all, and what has to be in its history before it settles, cancels, funds or refunds.
\<close>

section \<open>Event classes\<close>

fun is_LnSettle :: "event \<Rightarrow> bool" where
  "is_LnSettle (LnSettle p r) = True" | "is_LnSettle _ = False"

fun is_LnCancel :: "event \<Rightarrow> bool" where
  "is_LnCancel (LnCancel h r) = True" | "is_LnCancel _ = False"

fun is_EvFund :: "event \<Rightarrow> bool" where
  "is_EvFund (EvFund p r) = True" | "is_EvFund _ = False"

fun is_EvRefund :: "event \<Rightarrow> bool" where
  "is_EvRefund (EvRefund k r) = True" | "is_EvRefund _ = False"

fun is_EvClaim :: "event \<Rightarrow> bool" where
  "is_EvClaim (EvClaim k p d r) = True" | "is_EvClaim _ = False"

fun is_LnCreate :: "event \<Rightarrow> bool" where
  "is_LnCreate (LnCreate h a c m r) = True" | "is_LnCreate _ = False"

text \<open>Calls that only look at a rail.\<close>

fun is_look :: "event \<Rightarrow> bool" where
  "is_look (LnObserve h r) = True"
| "is_look (LnState h r) = True"
| "is_look (LnHeight r) = True"
| "is_look (EvTimestamp r) = True"
| "is_look (EvObserve k r) = True"
| "is_look (EvVerifyClaim q r) = True"
| "is_look (EvVerifyRefund q r) = True"
| "is_look _ = False"

text \<open>Calls to the liquidity inventory.\<close>

fun is_book :: "event \<Rightarrow> bool" where
  "is_book (InvReadiness t r) = True"
| "is_book (InvReserve a t i r) = True"
| "is_book (InvRelease i r) = True"
| "is_book (InvCommit i r) = True"
| "is_book (InvRestore i r) = True"
| "is_book (InvSettle i r) = True"
| "is_book (AwaitPrepare k r) = True"
| "is_book _ = False"

definition moves_money :: "event \<Rightarrow> bool" where
  "moves_money e \<longleftrightarrow> \<not> is_look e \<and> \<not> is_book e"

lemma money_classes:
  "is_LnSettle e \<Longrightarrow> moves_money e" "is_LnCancel e \<Longrightarrow> moves_money e" "is_EvFund e \<Longrightarrow> moves_money e"
  "is_EvRefund e \<Longrightarrow> moves_money e" "is_EvClaim e \<Longrightarrow> moves_money e" "is_LnCreate e \<Longrightarrow> moves_money e"
  by (cases e; simp add: moves_money_def)+

section \<open>Events of the parts\<close>

lemma only_assertLightningCltvSafety:
  assumes "\<And>r. A (EvTimestamp r)" "\<And>r. A (LnHeight r)"
  shows "only A (assertLightningCltvSafety b c i)"
  unfolding assertLightningCltvSafety_def remaining_base_seconds_def cltv_window_def getBlockTimestamp_def
  by (intro only_rules assms)

lemma only_reservation_step:
  assumes "\<And>rid. only A (operation rid)" "only A k"
  shows "only A (reservation_step b i operation s n f k)"
  unfolding reservation_step_def by (intro only_rules assms)

lemma only_restore_reservation:
  "(\<And>r. A (InvRestore i r)) \<Longrightarrow> (\<And>r. A (InvRelease i r)) \<Longrightarrow> only A (restore_reservation b i)"
  unfolding restore_reservation_def inv_release_def by (intro only_rules)

lemma only_settle_reservation:
  "(\<And>r. A (InvSettle i r)) \<Longrightarrow> only A (settle_reservation b i)"
  unfolding settle_reservation_def by (intro only_rules)

lemma only_commit_reservation:
  "(\<And>r. A (InvCommit rid r)) \<Longrightarrow> only A (commit_reservation b i rid)"
  unfolding commit_reservation_def inv_commit_def by (intro only_rules)

lemma only_release_reservation:
  "(\<And>r. A (InvRelease i r)) \<Longrightarrow> only A (release_reservation b i)"
  unfolding release_reservation_def inv_release_def by (intro only_rules)

lemma only_with_retry: "only A k \<Longrightarrow> only A (with_retry b c i g s e k)"
  unfolding with_retry_def by (intro only_rules)

lemma only_observeLightningForRecovery:
  "(\<And>h r. A (LnObserve h r)) \<Longrightarrow> only A (observeLightningForRecovery b i)"
  unfolding observeLightningForRecovery_def observeHoldInvoice_def by (intro only_rules)

lemma only_observeEvmForRecovery:
  "(\<And>k r. A (EvObserve k r)) \<Longrightarrow> only A (observeEvmForRecovery b i)"
  unfolding observeEvmForRecovery_def observeHtlc_def by (intro only_rules)

lemma only_settle_dispatch:
  "(\<And>r. A (LnSettle p r)) \<Longrightarrow> (\<And>h r. A (LnState h r)) \<Longrightarrow> only A (settle_dispatch b i p)"
  unfolding settle_dispatch_def settleHoldInvoice_def getInvoiceState_def by (intro only_rules)

lemma only_settle_evidence:
  "(\<And>q r. A (EvVerifyClaim q r)) \<Longrightarrow> only A (settle_evidence b policy i tx)"
  unfolding settle_evidence_def by (intro only_rules)

lemma only_settle:
  assumes "\<And>p r. A (LnSettle p r)" "\<And>h r. A (LnState h r)" "\<And>q r. A (EvVerifyClaim q r)"
    "\<And>r. A (EvTimestamp r)" "\<And>r. A (LnHeight r)"
  shows "only A (settleLightningFromEvmClaim b c i tx w)"
  unfolding settleLightningFromEvmClaim_def settle_body_def
  by (intro only_rules only_assertLightningCltvSafety only_settle_evidence only_settle_dispatch assms)

lemma only_fund_dispatch:
  "(\<And>p r. A (EvFund p r)) \<Longrightarrow> (\<And>k r. A (EvObserve k r)) \<Longrightarrow> only A (fund_dispatch b c i k t)"
  unfolding fund_dispatch_def observeHtlc_def by (intro only_rules)

lemma only_fund_checks:
  "(\<And>h r. A (LnState h r)) \<Longrightarrow> (\<And>r. A (EvTimestamp r)) \<Longrightarrow> (\<And>r. A (LnHeight r)) \<Longrightarrow>
   only A (fund_checks b c i)"
  unfolding fund_checks_def getInvoiceState_def
  by (intro only_rules only_assertLightningCltvSafety)

lemma only_fund:
  assumes "\<And>h r. A (LnState h r)" "\<And>r. A (EvTimestamp r)" "\<And>r. A (LnHeight r)"
    "\<And>p r. A (EvFund p r)" "\<And>k r. A (EvObserve k r)" "\<And>k r. A (InvCommit k r)"
  shows "only A (fundEvmHtlc b c i w)"
  unfolding fundEvmHtlc_def fund_body_def getBlockTimestamp_def inv_commit_def
  by (intro only_rules only_fund_checks only_fund_dispatch assms)

lemma only_cancel_and_close:
  "(\<And>h r. A (LnCancel h r)) \<Longrightarrow> (\<And>k r. A (InvRelease k r)) \<Longrightarrow> only A (cancel_and_close b i st reason)"
  unfolding cancel_and_close_def cancelHoldInvoice_def inv_release_def by (intro only_rules)

lemma only_refund_base:
  "(\<And>k r. A (EvObserve k r)) \<Longrightarrow> (\<And>k r. A (EvRefund k r)) \<Longrightarrow> only A (refund_base b i key)"
  unfolding refund_base_def observeHtlc_def refundHtlc_def by (intro only_rules)

lemma only_refund_finality:
  assumes "\<And>q r. A (EvVerifyRefund q r)"
  shows "only A (refund_finality b policy i key)"
  unfolding refund_finality_def prod.case
  by (intro only_rules assms)

lemma only_refund_cancel:
  "(\<And>h r. A (LnCancel h r)) \<Longrightarrow> (\<And>h r. A (LnState h r)) \<Longrightarrow> only A (refund_cancel b i)"
  unfolding refund_cancel_def cancelHoldInvoice_def getInvoiceState_def by (intro only_rules)

lemma only_refund:
  assumes "\<And>h r. A (LnState h r)" "\<And>h r. A (LnCancel h r)" "\<And>k r. A (EvRefund k r)"
    "\<And>k r. A (EvObserve k r)" "\<And>q r. A (EvVerifyRefund q r)"
    "\<And>k r. A (InvRelease k r)" "\<And>k r. A (InvRestore k r)"
  shows "only A (processRefund b c i w)"
  unfolding processRefund_def refund_body_def refund_funded_def refund_held_def observeHtlc_def
  by (intro only_rules only_cancel_and_close only_refund_base only_refund_finality only_refund_cancel
      only_reservation_step only_restore_reservation assms)

section \<open>What a handler needs to have seen\<close>

fun is_height :: "event \<Rightarrow> bool" where
  "is_height (LnHeight (Inr (Some n))) \<longleftrightarrow> n > 0" | "is_height _ = False"

text \<open>Evidence of this claim transaction, final at this number of confirmations, revealing the preimage.\<close>

fun is_final_claim :: "int \<Rightarrow> string \<Rightarrow> string \<Rightarrow> event \<Rightarrow> bool" where
  "is_final_claim confirmations tx p (EvVerifyClaim q (Inr ev)) \<longleftrightarrow>
     cq_claimTxHash q = tx \<and> cq_requiredConfirmations q = confirmations \<and>
     ce_finalityState ev = FS_FINAL \<and> ce_preimageRevealed ev = p"
| "is_final_claim _ _ _ _ = False"

fun is_accepted :: "event \<Rightarrow> bool" where
  "is_accepted (LnState ph (Inr st)) \<longleftrightarrow> st = HI_ACCEPTED" | "is_accepted _ = False"

fun is_funded :: "event \<Rightarrow> bool" where
  "is_funded (EvFund fp (Inr x)) = True"
| "is_funded (EvObserve k (Inr st)) \<longleftrightarrow> os_funded st = Some True"
| "is_funded _ = False"

fun is_returned :: "event \<Rightarrow> bool" where
  "is_returned (EvRefund k (Inr x)) = True"
| "is_returned (EvObserve k (Inr st)) \<longleftrightarrow> os_refunded st = Some True"
| "is_returned _ = False"

text \<open>The HTLC of this key was read neither claimed nor refunded, its timelock being over.\<close>

fun is_expired :: "string \<Rightarrow> event \<Rightarrow> bool" where
  "is_expired k (EvObserve k' (Inr st)) \<longleftrightarrow> k' = k \<and> os_completed st \<noteq> Some True \<and>
     os_refunded st \<noteq> Some True \<and> os_timelock st \<le> os_blockTimestamp st"
| "is_expired _ _ = False"

fun is_unfunded :: "event \<Rightarrow> bool" where
  "is_unfunded (EvObserve k (Inr st)) \<longleftrightarrow> os_funded st \<noteq> Some True" | "is_unfunded _ = False"

fun is_claimed :: "event \<Rightarrow> bool" where
  "is_claimed (EvObserve k (Inr st)) \<longleftrightarrow> os_completed st = Some True"
| "is_claimed (EvClaim k p d (Inr x)) \<longleftrightarrow> fst x"
| "is_claimed _ = False"

lemma unseen_class:
  "\<not> seen moves_money h \<Longrightarrow> \<not> seen is_LnSettle h" "\<not> seen moves_money h \<Longrightarrow> \<not> seen is_LnCancel h"
  "\<not> seen moves_money h \<Longrightarrow> \<not> seen is_EvFund h" "\<not> seen moves_money h \<Longrightarrow> \<not> seen is_LnCreate h"
  using money_classes by (auto simp: seen_def)

lemma seen_iff:
  "seen is_height h \<longleftrightarrow> (\<exists>n > 0. LnHeight (Inr (Some n)) \<in> set h)"
  "seen is_accepted h \<longleftrightarrow> (\<exists>ph. LnState ph (Inr HI_ACCEPTED) \<in> set h)"
  "seen (is_final_claim m tx p) h \<longleftrightarrow> (\<exists>q ev. EvVerifyClaim q (Inr ev) \<in> set h \<and>
     cq_claimTxHash q = tx \<and> cq_requiredConfirmations q = m \<and>
     ce_finalityState ev = FS_FINAL \<and> ce_preimageRevealed ev = p)"
  "seen is_funded h \<longleftrightarrow> (\<exists>fp x. EvFund fp (Inr x) \<in> set h) \<or>
     (\<exists>k st. EvObserve k (Inr st) \<in> set h \<and> os_funded st = Some True)"
  "seen is_returned h \<longleftrightarrow> (\<exists>k x. EvRefund k (Inr x) \<in> set h) \<or>
     (\<exists>k st. EvObserve k (Inr st) \<in> set h \<and> os_refunded st = Some True)"
  "seen (is_expired k) h \<longleftrightarrow> (\<exists>st. EvObserve k (Inr st) \<in> set h \<and> os_completed st \<noteq> Some True \<and>
     os_refunded st \<noteq> Some True \<and> os_timelock st \<le> os_blockTimestamp st)"
  "seen is_unfunded h \<longleftrightarrow> (\<exists>k st. EvObserve k (Inr st) \<in> set h \<and> os_funded st \<noteq> Some True)"
  "seen is_claimed h \<longleftrightarrow> (\<exists>k p d x. EvClaim k p d (Inr (True, x)) \<in> set h) \<or>
     (\<exists>k st. EvObserve k (Inr st) \<in> set h \<and> os_completed st = Some True)"
  by (force simp: seen_def elim!: is_height.elims is_accepted.elims is_final_claim.elims
        is_funded.elims is_returned.elims is_expired.elims is_unfunded.elims is_claimed.elims)+

lemma wp_assertLightningCltvSafety:
  assumes "P h" "\<And>h r. P h \<Longrightarrow> P (h @ [EvTimestamp r]) \<and> J h (EvTimestamp r)"
    "\<And>h r. P h \<Longrightarrow> P (h @ [LnHeight r]) \<and> J h (LnHeight r)"
  shows "wp J (assertLightningCltvSafety b c i) (\<lambda>_ h. P h \<and> seen is_height h) (\<lambda>_. P) h"
  unfolding assertLightningCltvSafety_def remaining_base_seconds_def cltv_window_def getBlockTimestamp_def
  by (intro wp_rules) (use assms in \<open>auto simp del: append_assoc\<close>)

lemma wp_settle_evidence:
  assumes "P h" "\<And>h q r. P h \<Longrightarrow> P (h @ [EvVerifyClaim q r]) \<and> J h (EvVerifyClaim q r)"
  shows "wp J (settle_evidence b policy i tx)
    (\<lambda>ev h. P h \<and> seen (is_final_claim (fl_requiredConfirmations policy) tx (ce_preimageRevealed ev)) h)
    (\<lambda>_. P) h"
  unfolding settle_evidence_def
  by (intro wp_rules) (use assms in \<open>auto simp:  claim_query_of_def\<close>)

section \<open>Polite guards\<close>

text \<open>
  A polite guard speaks about money-moving calls only; a persistent assertion survives all others.
\<close>

definition polite :: "(event list \<Rightarrow> event \<Rightarrow> bool) \<Rightarrow> bool" where
  "polite J \<longleftrightarrow> (\<forall>h e. \<not> moves_money e \<longrightarrow> J h e)"

definition persists :: "(event list \<Rightarrow> bool) \<Rightarrow> bool" where
  "persists P \<longleftrightarrow> (\<forall>h e. \<not> moves_money e \<longrightarrow> P h \<longrightarrow> P (h @ [e]))"

lemma politeD: "polite J \<Longrightarrow> \<not> moves_money e \<Longrightarrow> J h e"
  by (simp add: polite_def)

lemma persistsD: "persists P \<Longrightarrow> P h \<Longrightarrow> \<not> moves_money e \<Longrightarrow> P (h @ [e])"
  by (simp add: persists_def)

lemma persists_conj: "persists P \<Longrightarrow> persists Q \<Longrightarrow> persists (\<lambda>h. P h \<and> Q h)"
  by (simp add: persists_def)

lemma persists_seen: "persists (seen C)"
  by (simp add: persists_def)

lemma persists_unseen: "(\<And>e. C e \<Longrightarrow> moves_money e) \<Longrightarrow> persists (\<lambda>h. \<not> seen C h)"
  by (auto simp: persists_def)

lemma persists_True: "persists (\<lambda>_. True)"
  by (simp add: persists_def)

lemmas persists_intros = persists_conj persists_seen persists_unseen persists_True

text \<open>Calls that look or keep books do not move money, and these do.\<close>

lemma quiet_events [simp]:
  "\<not> moves_money (LnObserve h r1)" "\<not> moves_money (LnState h r2)" "\<not> moves_money (LnHeight r3)"
  "\<not> moves_money (EvTimestamp r4)" "\<not> moves_money (EvObserve k r5)"
  "\<not> moves_money (EvVerifyClaim q r6)" "\<not> moves_money (EvVerifyRefund q' r7)"
  "\<not> moves_money (InvReadiness k r8)" "\<not> moves_money (InvReserve n k k' r9)"
  "\<not> moves_money (InvRelease k r10)" "\<not> moves_money (InvCommit k r10)"
  "\<not> moves_money (InvRestore k r10)" "\<not> moves_money (InvSettle k r10)"
  "\<not> moves_money (AwaitPrepare k r11)"
  by (simp_all add: moves_money_def)

lemma money_events [simp]:
  "moves_money (LnSettle p r)" "moves_money (LnCancel h r)" "moves_money (EvFund fp r1)"
  "moves_money (EvRefund k r2)" "moves_money (EvClaim k p d r3)" "moves_money (LnCreate h n m k r4)"
  by (simp_all add: moves_money_def)

lemma wp_quietly:
  assumes "only (\<lambda>e. \<not> moves_money e) m" "polite J" "persists P" "P h"
    "\<And>x h. P h \<Longrightarrow> Q x h" "\<And>e h. P h \<Longrightarrow> E e h"
  shows "wp J m Q E h"
  by (rule wp_keep [OF assms(1), where P = P]) (use assms in \<open>auto intro: politeD persistsD\<close>)

lemma wp_cltv:
  assumes "polite J" "persists P" "P h" "\<And>h. P h \<Longrightarrow> seen is_height h \<Longrightarrow> Q () h" "\<And>e h. P h \<Longrightarrow> E e h"
  shows "wp J (assertLightningCltvSafety b c i) Q E h"
  by (rule wp_post [OF wp_assertLightningCltvSafety [where P = P]])
    (use assms in \<open>auto intro: politeD persistsD\<close>)

lemma wp_evidence:
  assumes "polite J" "persists P" "P h"
    "\<And>ev h. P h \<Longrightarrow> seen (is_final_claim (fl_requiredConfirmations policy) tx (ce_preimageRevealed ev)) h
       \<Longrightarrow> Q ev h" "\<And>e h. P h \<Longrightarrow> E e h"
  shows "wp J (settle_evidence b policy i tx) Q E h"
  by (rule wp_post [OF wp_settle_evidence [where P = P]])
    (use assms in \<open>auto intro: politeD persistsD\<close>)

section \<open>Settling\<close>

text \<open>The one settle call of the handler has a final claim and a block height behind it.\<close>

lemma wp_settleLightning:
  assumes "polite J" "persists P" "P h"
    "\<And>policy h p r. P h \<Longrightarrow> co_finalityPolicy c = Some policy \<Longrightarrow> seen is_height h \<Longrightarrow>
       seen (is_final_claim (fl_requiredConfirmations policy) tx p) h \<Longrightarrow> J h (LnSettle p r)"
  shows "wp J (settleLightningFromEvmClaim b c i tx w) (\<lambda>_ _. True) (\<lambda>_ _. True) h"
  unfolding settleLightningFromEvmClaim_def settle_body_def settle_dispatch_def settleHoldInvoice_def
    getInvoiceState_def
  by (intro wp_rules wp_cltv [OF assms(1,2)] TrueI assms(3)
      wp_evidence [OF assms(1) persists_conj [OF assms(2) persists_seen [of is_height]]])
    (use assms in \<open>auto intro: politeD intro!: wp_rules\<close>)

definition settle_guard :: "coordinator \<Rightarrow> string \<Rightarrow> event list \<Rightarrow> event \<Rightarrow> bool" where
  "settle_guard c tx h e \<longleftrightarrow> (moves_money e \<longrightarrow> \<not> seen moves_money h \<and>
     (\<exists>policy p r. e = LnSettle p r \<and> co_finalityPolicy c = Some policy \<and>
        seen (is_final_claim (fl_requiredConfirmations policy) tx p) h \<and> seen is_height h))"

lemma wp_settle_guard:
  "wp (settle_guard c tx) (settleLightningFromEvmClaim b c i tx w) (\<lambda>_ _. True) (\<lambda>_ _. True) []"
  by (rule wp_settleLightning [where P = "\<lambda>h. \<not> seen moves_money h"])
    (auto simp: polite_def settle_guard_def intro!: persists_intros)

text \<open>C2: Lightning is settled only against verified Base evidence. In
  \<open>settleLightningFromEvmClaim\<close>, with any backends and any interference, a settle call with a
  preimage comes only after the EVM backend returned claim evidence of this very
  transaction, checked at the configured number of confirmations, that is FINAL_ENOUGH_FOR_PROTOCOL and reveals
  that preimage, and after a positive Bitcoin block height for the CLTV gate. It is the only
  call of the handler that moves money: no cancel, fund, claim or refund comes before or after it.\<close>

theorem settle_needs_final_evidence:
  assumes "trace (settleLightningFromEvmClaim b c i tx w) s = pre @ LnSettle p r # post"
  shows "\<exists>policy q ev n. co_finalityPolicy c = Some policy \<and>
      EvVerifyClaim q (Inr ev) \<in> set pre \<and> cq_claimTxHash q = tx \<and>
      cq_requiredConfirmations q = fl_requiredConfirmations policy \<and>
      ce_finalityState ev = FS_FINAL \<and> ce_preimageRevealed ev = p \<and>
      LnHeight (Inr (Some n)) \<in> set pre \<and> n > 0 \<and>
      (\<forall>e \<in> set pre \<union> set post. \<not> moves_money e)"
proof -
  let ?J = "settle_guard c tx"
  have a: "allowed ?J [] (pre @ LnSettle p r # post)"
    using wp_trace [OF wp_settle_guard [of c tx b i w]] assms by metis
  have g: "settle_guard c tx pre (LnSettle p r)" using allowed_at [OF a] by simp
  have "\<forall>e \<in> set pre \<union> set post. \<not> moves_money e"
    using allowed_once [where M = moves_money, OF a] by (auto simp: settle_guard_def)
  then show ?thesis
    using g unfolding settle_guard_def seen_iff by auto
qed

section \<open>Funding\<close>

lemma wp_fund:
  assumes "polite J" "persists P" "P h"
    "\<And>h fp r. P h \<Longrightarrow> seen is_height h \<Longrightarrow> seen is_accepted h \<Longrightarrow> J h (EvFund fp r)"
  shows "wp J (fundEvmHtlc b c i w) (\<lambda>_ _. True) (\<lambda>_ _. True) h"
  unfolding fundEvmHtlc_def fund_body_def fund_checks_def fund_dispatch_def getInvoiceState_def
    getBlockTimestamp_def observeHtlc_def inv_commit_def
  by (intro wp_rules TrueI wp_cltv [OF assms(1) persists_conj [OF assms(2) persists_seen [of is_accepted]]])
    (simp_all add: politeD [OF assms(1)] persistsD [OF assms(2)] assms(3,4) del: append_assoc)

text \<open>The reservation is committed only once the HTLC is funded.\<close>

definition commit_guard :: "event list \<Rightarrow> event \<Rightarrow> bool" where
  "commit_guard h e \<longleftrightarrow> (\<forall>k r. e = InvCommit k r \<longrightarrow> seen is_funded h)"

lemma wp_fund_commit:
  "wp commit_guard (fundEvmHtlc b c i w) (\<lambda>_ _. True) (\<lambda>_ _. True) h"
  unfolding fundEvmHtlc_def fund_body_def fund_checks_def fund_dispatch_def getInvoiceState_def
    getBlockTimestamp_def observeHtlc_def inv_commit_def
  by (intro wp_rules TrueI
      wp_post [OF wp_assertLightningCltvSafety [where P = "\<lambda>_. True" and J = commit_guard]])
    (auto simp: commit_guard_def intro!: wp_rules)

definition fund_guard :: "event list \<Rightarrow> event \<Rightarrow> bool" where
  "fund_guard h e \<longleftrightarrow> (moves_money e \<longrightarrow>
     (\<exists>fp r. e = EvFund fp r) \<and> \<not> seen moves_money h \<and> seen is_height h \<and> seen is_accepted h)"

lemma wp_fund_guard: "wp fund_guard (fundEvmHtlc b c i w) (\<lambda>_ _. True) (\<lambda>_ _. True) []"
  by (rule wp_fund [where P = "\<lambda>h. \<not> seen moves_money h"])
    (auto simp: polite_def fund_guard_def intro!: persists_intros)

text \<open>C8: Operator capital is locked on Base only behind a held payment and the CLTV gate. In
  \<open>fundEvmHtlc\<close>, with any backends, the HTLC is funded at most once, and only after the Lightning
  backend answered that the invoice is ACCEPTED and gave a positive block height; no
  other call of the handler moves money. The reservation is committed only after the funding call returned
  or the HTLC was observed funded.\<close>

theorem fund_after_hold_and_gate:
  "(\<forall>pre fp r post. trace (fundEvmHtlc b c i w) s = pre @ EvFund fp r # post \<longrightarrow>
      (\<exists>ph. LnState ph (Inr HI_ACCEPTED) \<in> set pre) \<and> (\<exists>n > 0. LnHeight (Inr (Some n)) \<in> set pre) \<and>
      (\<forall>e \<in> set pre \<union> set post. \<not> moves_money e)) \<and>
   (\<forall>e \<in> set (trace (fundEvmHtlc b c i w) s). moves_money e \<longrightarrow> is_EvFund e) \<and>
   (\<forall>pre k r post. trace (fundEvmHtlc b c i w) s = pre @ InvCommit k r # post \<longrightarrow>
      (\<exists>fp x. EvFund fp (Inr x) \<in> set pre) \<or>
      (\<exists>k' st. EvObserve k' (Inr st) \<in> set pre \<and> os_funded st = Some True))"
    (is "?once \<and> ?only \<and> ?commit")
proof (intro conjI allI impI ballI)
  fix pre fp r post
  assume "trace (fundEvmHtlc b c i w) s = pre @ EvFund fp r # post"
  then have a: "allowed fund_guard [] (pre @ EvFund fp r # post)"
    using wp_trace [OF wp_fund_guard [of b c i w]] by metis
  show "\<exists>ph. LnState ph (Inr HI_ACCEPTED) \<in> set pre" "\<exists>n > 0. LnHeight (Inr (Some n)) \<in> set pre"
    using allowed_at [OF a] by (auto simp: fund_guard_def seen_iff)
  fix e assume "e \<in> set pre \<union> set post"
  then show "\<not> moves_money e"
    using allowed_once [where M = moves_money, OF a] by (auto simp: fund_guard_def)
next
  fix e assume "e \<in> set (trace (fundEvmHtlc b c i w) s)" "moves_money e"
  then obtain pre post where "trace (fundEvmHtlc b c i w) s = pre @ e # post" by (meson split_list)
  then have "fund_guard pre e" by (rule wp_at [OF wp_fund_guard])
  then show "is_EvFund e" using \<open>moves_money e\<close> by (auto simp: fund_guard_def)
next
  fix pre k r post
  assume "trace (fundEvmHtlc b c i w) s = pre @ InvCommit k r # post"
  then have "commit_guard pre (InvCommit k r)" by (rule wp_at [OF wp_fund_commit])
  then show "(\<exists>fp x. EvFund fp (Inr x) \<in> set pre) \<or>
      (\<exists>k' st. EvObserve k' (Inr st) \<in> set pre \<and> os_funded st = Some True)"
    by (auto simp: commit_guard_def seen_iff)
qed

section \<open>Refunding\<close>

lemma wp_refund_finality:
  assumes "polite J" "persists P" "P h" "\<And>x h. P h \<Longrightarrow> Q x h" "\<And>e h. P h \<Longrightarrow> E e h"
  shows "wp J (refund_finality b policy i key) Q E h"
  by (rule wp_quietly [OF only_refund_finality assms(1,2,3)]) (simp_all add: assms(4,5))

lemma wp_reservation_step:
  assumes "polite J" "persists P" "P h" "\<And>rid. only (\<lambda>e. \<not> moves_money e) (operation rid)"
    "\<And>h. P h \<Longrightarrow> wp J k Q E h" "\<And>x h. P h \<Longrightarrow> Q x h" "\<And>e h. P h \<Longrightarrow> E e h"
  shows "wp J (reservation_step b i operation a n f k) Q E h"
  unfolding reservation_step_def
  by (intro wp_rules wp_quietly [OF assms(4) assms(1,2)])
    (use assms in \<open>auto intro!: wp_rules\<close>)

lemma wp_refund_base:
  assumes "polite J" "persists P" "P h"
    "\<And>h r. P h \<Longrightarrow> seen (is_expired key) h \<Longrightarrow> J h (EvRefund key r) \<and> R (h @ [EvRefund key r])"
    "persists R" "\<And>h. P h \<Longrightarrow> R h"
  shows "wp J (refund_base b i key) (\<lambda>_ h. R h \<and> seen is_returned h) (\<lambda>_. R) h"
  unfolding refund_base_def observeHtlc_def refundHtlc_def
  by (intro wp_rules)
    (simp_all add: politeD [OF assms(1)] persistsD [OF assms(2)] persistsD [OF assms(5)] assms(3,6)
       assms(4) [THEN conjunct1] assms(4) [THEN conjunct2] del: append_assoc)

lemma wp_refund_funded:
  assumes "polite J" "persists P" "P h"
    "\<And>h k r. P h \<Longrightarrow> seen (is_expired k) h \<Longrightarrow> J h (EvRefund k r) \<and> R (h @ [EvRefund k r])"
    "persists R" "\<And>h. P h \<Longrightarrow> R h"
    "\<And>h ph r. R h \<Longrightarrow> seen is_returned h \<Longrightarrow> J h (LnCancel ph r)"
  shows "wp J (refund_funded b c i) (\<lambda>_ _. True) (\<lambda>_ _. True) h"
proof -
  have rest: "wp J (bnd (refund_cancel b i) (\<lambda>(x, canceledAt). reservation_step b i (restore_reservation b)
      st op why (bnd (the_invoice i) (\<lambda>hv. updateRecord b i (u canceledAt hv) tr)))) (\<lambda>_ _. True) (\<lambda>_ _. True) h"
    if "R h \<and> seen is_returned h" for st op why u tr h
    unfolding refund_cancel_def cancelHoldInvoice_def getInvoiceState_def
    by (intro wp_rules TrueI wp_reservation_step [where P = "\<lambda>_. True"] assms(1) persists_True
        only_restore_reservation quiet_events)
      (simp_all add: assms(7) that politeD [OF assms(1)])
  show ?thesis
    unfolding refund_funded_def
    by (intro wp_rules TrueI rest wp_post [OF wp_refund_base [where P = P and R = R]]
        wp_refund_finality [OF assms(1) persists_conj [OF assms(5) persists_seen [of is_returned]]])
      (simp_all add: assms(1-6))
qed

text \<open>Every refund call is for an HTLC whose timelock is over; a cancel needs \<open>R\<close>.\<close>

lemma wp_refund:
  assumes "polite J" "persists P" "P h"
    "\<And>h k r. P h \<Longrightarrow> seen (is_expired k) h \<Longrightarrow> J h (EvRefund k r) \<and> R (h @ [EvRefund k r])"
    "persists R" "\<And>h. P h \<Longrightarrow> R h" "\<And>h ph r. R h \<Longrightarrow> J h (LnCancel ph r)"
  shows "wp J (processRefund b c i w) (\<lambda>_ _. True) (\<lambda>_ _. True) h"
proof -
  have c: "wp J (cancel_and_close b i st why) (\<lambda>_ _. True) (\<lambda>_ _. True) h" if "P h" for st why h
    unfolding cancel_and_close_def cancelHoldInvoice_def inv_release_def
    by (intro wp_rules TrueI) (simp_all add: politeD [OF assms(1)] assms(6,7) that)
  show ?thesis
    unfolding processRefund_def refund_body_def refund_held_def observeHtlc_def
    by (intro wp_rules TrueI c wp_refund_funded [where P = P and R = R])
      (simp_all add: politeD [OF assms(1)] persistsD [OF assms(2)] assms)
qed

text \<open>Starting from the stored record of a swap.\<close>

lemma mustGetRecord_stored:
  assumes "getSovereignSwap i (s_db s) = Some r0"
  obtains hv s' where "mustGetRecord i s = (Inr (r0\<lparr>r_holdInvoice := hv\<rparr>), [], s')"
proof -
  have "\<exists>hv. merge_cached x r0 = r0\<lparr>r_holdInvoice := hv\<rparr>" for x
    by (cases r0) (auto simp: merge_cached_def split: option.split)
  then show ?thesis
    using assms that unfolding mustGetRecord_def bnd_def ask_def syncCache_def Let_def by fastforce
qed

lemma trace_mustGetRecord:
  assumes "getSovereignSwap i (s_db s) = Some r0"
    "\<And>hv. wp J (f (r0\<lparr>r_holdInvoice := hv\<rparr>)) Q E []"
  shows "allowed J [] (trace (bnd (mustGetRecord i) f) s)"
proof -
  obtain hv s' where m: "mustGetRecord i s = (Inr (r0\<lparr>r_holdInvoice := hv\<rparr>), [], s')"
    using mustGetRecord_stored [OF assms(1)] .
  have "trace (bnd (mustGetRecord i) f) s = trace (f (r0\<lparr>r_holdInvoice := hv\<rparr>)) s'"
    unfolding trace_def bnd_def m by (simp split: prod.split)
  then show ?thesis using wp_trace [OF assms(2)] by simp
qed

definition refund_guard :: "event list \<Rightarrow> event \<Rightarrow> bool" where
  "refund_guard h e \<longleftrightarrow> (moves_money e \<longrightarrow>
     (\<exists>ph r. e = LnCancel ph r \<and> \<not> seen is_LnCancel h \<and> seen is_returned h) \<or>
     (\<exists>k r. e = EvRefund k r \<and> \<not> seen moves_money h \<and> seen (is_expired k) h))"

definition base_locked_states :: "swap_state set" where
  "base_locked_states = {SA_EVM_FUNDED, SA_REFUND_ELIGIBLE, SA_EVM_REFUND_PENDING,
     SA_EVM_REFUND_CONFIRMED, SA_LIGHTNING_CANCEL_PENDING}"

lemma refund_guard_cancel: "refund_guard h e \<Longrightarrow> is_LnCancel e \<Longrightarrow> \<not> seen is_LnCancel h"
  by (cases e) (auto simp: refund_guard_def)

lemma refund_guard_trace:
  assumes "getSovereignSwap i (s_db s) = Some r0" "r_state r0 \<in> base_locked_states"
  shows "allowed refund_guard [] (trace (processRefund b c i w) s)"
proof -
  have f: "wp refund_guard (refund_funded b c i) (\<lambda>_ _. True) (\<lambda>_ _. True) []"
    by (rule wp_refund_funded
        [where P = "\<lambda>h. \<not> seen moves_money h" and R = "\<lambda>h. \<not> seen is_LnCancel h"])
      (auto simp: polite_def refund_guard_def persists_def seen_def dest: money_classes)
  have st: "r_state r0 \<noteq> SA_REFUNDED" "\<not> claimed_or_completed (r_state r0)"
      "refund_body b c i (r_state r0) = refund_funded b c i"
    using assms(2) by (auto simp: base_locked_states_def claimed_or_completed_def refund_body_def)
  show ?thesis
    unfolding processRefund_def
    by (rule trace_mustGetRecord [OF assms(1), where Q = "\<lambda>_ _. True" and E = "\<lambda>_ _. True"],
        intro wp_rules TrueI) (simp_all add: st f)
qed

text \<open>C6: Lightning is never cancelled while Base can still be claimed. For a swap stored in a
  state where Base collateral is or was locked, \<open>processRefund\<close> with any backends cancels the
  invoice at most once, and only after the HTLC was observed refunded or the refund call returned; it calls the Base
  refund at most once, for an HTLC it has read as neither claimed nor refunded and whose
  timelock the block timestamp has reached; and it makes no other call that moves money, in
  particular it never settles Lightning.\<close>

theorem refund_cancels_after_return:
  assumes "getSovereignSwap i (s_db s) = Some r0" "r_state r0 \<in> base_locked_states"
    "T = trace (processRefund b c i w) s"
  shows "(\<forall>pre ph r post. T = pre @ LnCancel ph r # post \<longrightarrow>
      ((\<exists>k x. EvRefund k (Inr x) \<in> set pre) \<or>
       (\<exists>k st. EvObserve k (Inr st) \<in> set pre \<and> os_refunded st = Some True)) \<and>
      (\<forall>e \<in> set pre \<union> set post. \<not> is_LnCancel e)) \<and>
    (\<forall>pre k r post. T = pre @ EvRefund k r # post \<longrightarrow>
      (\<exists>st. EvObserve k (Inr st) \<in> set pre \<and> os_completed st \<noteq> Some True \<and>
         os_refunded st \<noteq> Some True \<and> os_timelock st \<le> os_blockTimestamp st) \<and>
      (\<forall>e \<in> set pre. \<not> moves_money e)) \<and>
    (\<forall>e \<in> set T. moves_money e \<longrightarrow> is_LnCancel e \<or> is_EvRefund e)"
proof (intro conjI allI impI ballI)
  have a: "allowed refund_guard [] T" unfolding assms(3) by (rule refund_guard_trace [OF assms(1,2)])
  {
    fix pre ph r post assume t: "T = pre @ LnCancel ph r # post"
    show "(\<exists>k x. EvRefund k (Inr x) \<in> set pre) \<or>
       (\<exists>k st. EvObserve k (Inr st) \<in> set pre \<and> os_refunded st = Some True)"
      using allowed_at [OF a [unfolded t]] by (auto simp: refund_guard_def seen_iff)
    fix e assume "e \<in> set pre \<union> set post"
    then show "\<not> is_LnCancel e"
      using allowed_once [where M = is_LnCancel, OF a [unfolded t] _ refund_guard_cancel] by auto
  next
    fix pre k r post assume t: "T = pre @ EvRefund k r # post"
    have g: "refund_guard pre (EvRefund k r)" using allowed_at [OF a [unfolded t]] by simp
    then show "\<exists>st. EvObserve k (Inr st) \<in> set pre \<and> os_completed st \<noteq> Some True \<and>
         os_refunded st \<noteq> Some True \<and> os_timelock st \<le> os_blockTimestamp st"
      by (auto simp: refund_guard_def seen_iff)
    fix e assume "e \<in> set pre"
    then show "\<not> moves_money e" using g by (auto simp: refund_guard_def seen_def)
  next
    fix e assume e: "e \<in> set T" "moves_money e"
    then obtain pre post where t: "T = pre @ e # post" by (meson split_list)
    show "is_LnCancel e \<or> is_EvRefund e"
      using allowed_at [OF a [unfolded t]] e(2) by (auto simp: refund_guard_def)
  }
qed

section \<open>The direct claim\<close>

fun is_final :: "string \<Rightarrow> event \<Rightarrow> bool" where
  "is_final tx (EvVerifyClaim q (Inr ev)) \<longleftrightarrow> cq_claimTxHash q = tx \<and> ce_finalityState ev = FS_FINAL"
| "is_final _ _ = False"

fun is_completed :: "event \<Rightarrow> bool" where
  "is_completed (EvObserve k (Inr st)) \<longleftrightarrow> os_completed st = Some True" | "is_completed _ = False"

text \<open>A claim call with this preimage that returned success and this transaction hash.\<close>

fun is_claim_by :: "string \<Rightarrow> string \<Rightarrow> event \<Rightarrow> bool" where
  "is_claim_by p tx (EvClaim k p' d (Inr x)) \<longleftrightarrow> p' = p \<and> x = (True, tx)" | "is_claim_by _ _ _ = False"

lemma seen_claim_iff:
  "seen (is_final tx) h \<longleftrightarrow> (\<exists>q ev. EvVerifyClaim q (Inr ev) \<in> set h \<and> cq_claimTxHash q = tx \<and>
     ce_finalityState ev = FS_FINAL)"
  "seen is_completed h \<longleftrightarrow> (\<exists>k st. EvObserve k (Inr st) \<in> set h \<and> os_completed st = Some True)"
  "seen (is_claim_by p tx) h \<longleftrightarrow> (\<exists>k d. EvClaim k p d (Inr (True, tx)) \<in> set h)"
  by (force simp: seen_def elim!: is_final.elims is_completed.elims is_claim_by.elims)+

definition verifiable :: "'w backend \<Rightarrow> string \<Rightarrow> bool" where
  "verifiable b tx \<longleftrightarrow> b_verifyClaim b \<noteq> None \<and> tx \<noteq> '''' \<and> \<not> starts_with tx ''0x_preclaimed''"

definition claim_guard :: "'w backend \<Rightarrow> string \<Rightarrow> event list \<Rightarrow> event \<Rightarrow> bool" where
  "claim_guard b p h e \<longleftrightarrow> (moves_money e \<longrightarrow>
     (\<exists>k d r. e = EvClaim k p d r \<and> \<not> seen moves_money h) \<or>
     (\<exists>r. e = LnSettle p r \<and> \<not> seen is_LnSettle h \<and>
        (seen is_completed h \<and> \<not> seen is_EvClaim h \<or>
         (\<exists>tx. seen (is_claim_by p tx) h \<and> (verifiable b tx \<longrightarrow> seen (is_final tx) h)))))"

lemma claim_guard_settle: "claim_guard b p h e \<Longrightarrow> is_LnSettle e \<Longrightarrow> \<not> seen is_LnSettle h"
  by (cases e) (auto simp: claim_guard_def)

lemma wp_claim_finality:
  assumes "polite J" "persists P" "P h" "\<And>h. P h \<Longrightarrow> (verifiable b tx \<longrightarrow> seen (is_final tx) h) \<Longrightarrow> Q () h"
    "\<And>e h. P h \<Longrightarrow> E e h"
  shows "wp J (claim_finality b policy i tx) Q E h"
  unfolding claim_finality_def
  by (intro wp_rules)
    (use assms in \<open>auto simp: verifiable_def claim_query_of_def politeD [OF assms(1)]
       persistsD [OF assms(2)]\<close>)

lemma wp_claim_dispatch:
  assumes "polite J" "\<not> seen moves_money h" "\<And>h k d r. \<not> seen moves_money h \<Longrightarrow> J h (EvClaim k p d r)"
  shows "wp J (claim_dispatch b i p)
    (\<lambda>tx h. \<not> seen is_LnSettle h \<and> (seen is_completed h \<and> \<not> seen is_EvClaim h \<or> seen (is_claim_by p tx) h))
    (\<lambda>_ _. True) h"
  unfolding claim_dispatch_def observeHtlc_def
  by (intro wp_rules TrueI)
    (use assms(2) in \<open>auto simp: assms(3) politeD [OF assms(1)] seen_def dest: money_classes\<close>)

lemma wp_claim_body:
  "wp (claim_guard b p) (claim_body b policy i p) (\<lambda>_ _. True) (\<lambda>_ _. True) []"
  unfolding claim_body_def settleHoldInvoice_def
  apply (intro wp_rules TrueI)
  apply (rule wp_post [OF wp_claim_dispatch])
     apply (auto simp: polite_def claim_guard_def) [3]
  subgoal for x tx h
    by (intro wp_rules TrueI wp_claim_finality [where P = "\<lambda>h. \<not> seen is_LnSettle h \<and>
          (seen is_completed h \<and> \<not> seen is_EvClaim h \<or> seen (is_claim_by p tx) h)"])
      (auto simp: polite_def persists_def claim_guard_def dest: money_classes)
  by simp

lemma claim_guard_trace:
  assumes "getSovereignSwap i (s_db s) = Some r0"
  shows "allowed (\<lambda>h e. moves_money e \<longrightarrow> (\<exists>p. authorize_preimage preimage = Inr p \<and>
      matchesHashLock c p (r_hashLock r0) \<and> co_finalityPolicy c \<noteq> None \<and> claim_guard b p h e)) []
    (trace (claimSwap b c i preimage w) s)"
  unfolding claimSwap_def
  apply (rule trace_mustGetRecord [OF assms, where Q = "\<lambda>_ _. True" and E = "\<lambda>_ _. True"])
  apply (intro wp_rules TrueI)
  subgoal for hv policy rawHex claimed
    by (rule wp_guard_mono [OF wp_claim_body [of b rawHex policy i]]) (simp add: claim_guard_def)
  done

text \<open>C20: A direct claim reveals and settles only the right preimage. In \<open>claimSwap\<close> on a stored
  swap, with any backends, every money-moving call is a Base claim or a Lightning settle with
  the normalised 32-byte preimage, whose hash is the hash lock of the swap, and only with a finality
  policy configured. Lightning is settled at most once, and only after the HTLC was observed completed
  (without a claim call), or after a successful claim call whose transaction, when the backend can verify
  it, came back as final claim evidence.\<close>

theorem claim_settles_own_preimage:
  assumes "getSovereignSwap i (s_db s) = Some r0"
    "trace (claimSwap b c i preimage w) s = pre @ e # post" "moves_money e"
  shows "\<exists>p. authorize_preimage preimage = Inr p \<and> co_sha256 c p = to_lower (strip_0x (r_hashLock r0)) \<and>
    co_finalityPolicy c \<noteq> None \<and>
    ((\<exists>k d r. e = EvClaim k p d r \<and> (\<forall>x \<in> set pre. \<not> moves_money x)) \<or>
     (\<exists>r. e = LnSettle p r \<and> (\<forall>x \<in> set pre. \<not> is_LnSettle x) \<and>
       ((\<exists>k st. EvObserve k (Inr st) \<in> set pre \<and> os_completed st = Some True) \<or>
        (\<exists>k d tx. EvClaim k p d (Inr (True, tx)) \<in> set pre \<and>
           (b_verifyClaim b \<noteq> None \<and> tx \<noteq> '''' \<and> \<not> starts_with tx ''0x_preclaimed'' \<longrightarrow>
            (\<exists>q ev. EvVerifyClaim q (Inr ev) \<in> set pre \<and> cq_claimTxHash q = tx \<and>
               ce_finalityState ev = FS_FINAL))))))"
proof -
  obtain p where p: "authorize_preimage preimage = Inr p" "matchesHashLock c p (r_hashLock r0)"
      "co_finalityPolicy c \<noteq> None" "claim_guard b p pre e"
    using allowed_at [OF claim_guard_trace [OF assms(1), of preimage c b w, unfolded assms(2)]] assms(3)
    by auto
  have "(\<exists>k d r. e = EvClaim k p d r \<and> (\<forall>x \<in> set pre. \<not> moves_money x)) \<or>
     (\<exists>r. e = LnSettle p r \<and> (\<forall>x \<in> set pre. \<not> is_LnSettle x) \<and>
       ((\<exists>k st. EvObserve k (Inr st) \<in> set pre \<and> os_completed st = Some True) \<or>
        (\<exists>k d tx. EvClaim k p d (Inr (True, tx)) \<in> set pre \<and>
           (verifiable b tx \<longrightarrow> (\<exists>q ev. EvVerifyClaim q (Inr ev) \<in> set pre \<and>
              cq_claimTxHash q = tx \<and> ce_finalityState ev = FS_FINAL)))))"
    using p(4) [unfolded claim_guard_def seen_claim_iff, rule_format, OF assms(3)]
    by (elim disjE conjE exE) (simp_all add: seen_def, blast+)
  then show ?thesis
    using p(1-3) unfolding verifiable_def matchesHashLock_def by blast
qed

end
