(* ===== verification/Coord_Recovery.thy ===== *)
theory Coord_Recovery
  imports Coord_Laws
begin

text \<open>
  Reconciliation of a swap (\<open>reconcileSwap\<close> and \<open>reconcileAll\<close> of
  \<open>src/src/atomic/coordinator/coordinator.ts\<close>): every call that moves money is backed by what this very
  run has observed on both rails, and the sweep over all swaps never throws.
\<close>

section \<open>Observations\<close>

fun is_invoice :: "hold_invoice \<Rightarrow> event \<Rightarrow> bool" where
  "is_invoice hv (LnObserve ph (Inr x)) \<longleftrightarrow> x = hv" | "is_invoice _ _ = False"

fun is_htlc :: "htlc_state \<Rightarrow> event \<Rightarrow> bool" where
  "is_htlc st (EvObserve k (Inr x)) \<longleftrightarrow> x = st" | "is_htlc _ _ = False"

lemma seen_observed_iff:
  "seen (is_invoice hv) h \<longleftrightarrow> (\<exists>ph. LnObserve ph (Inr hv) \<in> set h)"
  "seen (is_htlc st) h \<longleftrightarrow> (\<exists>k. EvObserve k (Inr st) \<in> set h)"
  by (force simp: seen_def elim!: is_invoice.elims is_htlc.elims)+

definition ln_backed :: "ln_observation \<Rightarrow> event list \<Rightarrow> bool" where
  "ln_backed ln h \<longleftrightarrow> (\<forall>hv. observed_invoice ln = Some hv \<longrightarrow> seen (is_invoice hv) h)"

definition evm_backed :: "evm_observation \<Rightarrow> event list \<Rightarrow> bool" where
  "evm_backed evm h \<longleftrightarrow> (\<exists>r. evm = EO_UNKNOWN r) \<or> (\<exists>st. evm = classify_htlc st \<and> seen (is_htlc st) h)"

lemma wp_observeLightning:
  assumes "polite J" "persists P" "P h" "\<And>ln h. P h \<Longrightarrow> ln_backed ln h \<Longrightarrow> Q ln h" "\<And>e h. P h \<Longrightarrow> E e h"
  shows "wp J (observeLightningForRecovery b i) Q E h"
  unfolding observeLightningForRecovery_def observeHoldInvoice_def
  by (intro wp_rules)
    (use assms(3-5) in \<open>auto simp: ln_backed_def observed_invoice_def politeD [OF assms(1)]
       persistsD [OF assms(2)]\<close>)

lemma wp_observeEvm:
  assumes "polite J" "persists P" "P h" "\<And>evm h. P h \<Longrightarrow> evm_backed evm h \<Longrightarrow> Q evm h" "\<And>e h. P h \<Longrightarrow> E e h"
  shows "wp J (observeEvmForRecovery b i) Q E h"
  unfolding observeEvmForRecovery_def observeHtlc_def
  by (intro wp_rules)
    (use assms(3,5) in \<open>auto simp: evm_backed_def politeD [OF assms(1)] persistsD [OF assms(2)]
       intro!: assms(4)\<close>)

text \<open>The four flags read off a classified observation.\<close>

lemma classified:
  "is_base_claimed (classify_htlc st) \<Longrightarrow> os_completed st = Some True"
  "is_base_refunded (classify_htlc st) \<Longrightarrow> os_refunded st = Some True"
  "is_base_funded (classify_htlc st) \<Longrightarrow> os_funded st = Some True \<and> os_completed st \<noteq> Some True \<and>
     os_refunded st \<noteq> Some True \<and> observed_htlc (classify_htlc st) = Some st"
  "is_base_absent (classify_htlc st) \<Longrightarrow> os_funded st = Some False \<and> os_completed st = Some False \<and>
     os_refunded st = Some False"
  by (auto simp: classify_htlc_def is_base_claimed_def is_base_refunded_def is_base_funded_def
      is_base_absent_def observed_htlc_def split: if_splits)

section \<open>Parts that move no money\<close>

lemma quiet_parts:
  fixes b :: "'w backend"
  defines "A \<equiv> \<lambda>e. \<not> moves_money e"
  shows "only A (reconcile_ln_settled b i hv evm)"
    "only A (reconcile_claim_detected b i)"
    "only A (reconcile_refunded_close b i observed at)"
    "only A (reconcile_locked_waiting b i observed)"
    "only A (reconcile_absent_close b i observed)"
    "only A (reconcile_fund_intent b i)"
  unfolding reconcile_ln_settled_def reconcile_claim_detected_def reconcile_refunded_close_def
    reconcile_locked_waiting_def reconcile_absent_close_def reconcile_fund_intent_def
  by (intro only_rules only_reservation_step only_settle_reservation only_commit_reservation
      only_restore_reservation only_release_reservation; simp add: A_def)+

lemma wp_with_retry:
  "wp J k Q E h \<Longrightarrow> (\<And>x. Q x h) \<Longrightarrow> (\<And>e. E e h) \<Longrightarrow> wp J (with_retry b c i g s e k) Q E h"
  unfolding with_retry_def by (intro wp_rules)

section \<open>What backs a call that moves money\<close>

fun is_held :: "event \<Rightarrow> bool" where
  "is_held (LnObserve ph (Inr hv)) \<longleftrightarrow> hi_state hv = HI_ACCEPTED" | "is_held _ = False"

fun is_unsettled :: "event \<Rightarrow> bool" where
  "is_unsettled (LnObserve ph (Inr hv)) \<longleftrightarrow> hi_state hv = HI_ACCEPTED \<or> hi_state hv = HI_OPEN"
| "is_unsettled _ = False"

fun is_absent :: "event \<Rightarrow> bool" where
  "is_absent (EvObserve k (Inr st)) \<longleftrightarrow> os_funded st = Some False \<and> os_completed st = Some False \<and>
     os_refunded st = Some False"
| "is_absent _ = False"

fun is_refunded :: "event \<Rightarrow> bool" where
  "is_refunded (EvObserve k (Inr st)) \<longleftrightarrow> os_refunded st = Some True" | "is_refunded _ = False"

fun is_overdue :: "event \<Rightarrow> bool" where
  "is_overdue (EvObserve k (Inr st)) \<longleftrightarrow> os_funded st = Some True \<and> os_completed st \<noteq> Some True \<and>
     os_refunded st \<noteq> Some True \<and> os_timelock st \<le> os_blockTimestamp st"
| "is_overdue _ = False"

definition reconcile_guard :: "event list \<Rightarrow> event \<Rightarrow> bool" where
  "reconcile_guard h e \<longleftrightarrow> (moves_money e \<longrightarrow>
     (\<exists>p r. e = LnSettle p r \<and> \<not> seen moves_money h \<and> seen is_held h \<and> seen is_completed h \<and>
        seen is_height h \<and> (\<exists>n tx. seen (is_final_claim n tx p) h)) \<or>
     (\<exists>ph r. e = LnCancel ph r \<and> \<not> seen is_LnSettle h \<and> seen is_unsettled h \<and>
        (seen is_refunded h \<or> seen is_overdue h)) \<or>
     (\<exists>fp r. e = EvFund fp r \<and> \<not> seen moves_money h \<and> seen is_held h \<and> seen is_accepted h \<and>
        seen is_height h \<and> seen is_absent h) \<or>
     (\<exists>k r. e = EvRefund k r \<and> \<not> seen moves_money h \<and> seen is_held h \<and> seen is_overdue h \<and>
        seen (is_expired k) h))"

lemma polite_reconcile_guard: "polite reconcile_guard"
  by (simp add: polite_def reconcile_guard_def)

lemma persists_no_money: "persists P \<Longrightarrow> persists (\<lambda>h. \<not> seen moves_money h \<and> P h)"
  by (intro persists_conj persists_unseen)

lemma reconcile_quietly:
  assumes "only (\<lambda>e. \<not> moves_money e) m"
  shows "wp reconcile_guard m (\<lambda>_ _. True) (\<lambda>_ _. True) h"
  by (rule wp_quietly [OF assms polite_reconcile_guard persists_True]) simp_all

lemma invoice_held: "seen (is_invoice hv) h \<Longrightarrow> hi_state hv = HI_ACCEPTED \<Longrightarrow> seen is_held h \<and> seen is_unsettled h"
  unfolding seen_def by (force elim!: is_invoice.elims)

lemma invoice_unsettled: "seen (is_invoice hv) h \<Longrightarrow> hi_state hv = HI_OPEN \<Longrightarrow> seen is_unsettled h"
  unfolding seen_def by (force elim!: is_invoice.elims)

lemma htlc_facts:
  assumes "seen (is_htlc st) h"
  shows "os_completed st = Some True \<Longrightarrow> seen is_completed h"
    "os_refunded st = Some True \<Longrightarrow> seen is_refunded h"
    "os_funded st = Some False \<and> os_completed st = Some False \<and> os_refunded st = Some False \<Longrightarrow> seen is_absent h"
    "os_funded st = Some True \<and> os_completed st \<noteq> Some True \<and> os_refunded st \<noteq> Some True \<Longrightarrow>
     os_timelock st \<le> os_blockTimestamp st \<Longrightarrow> seen is_overdue h"
  using assms unfolding seen_def by (force elim!: is_htlc.elims)+

lemma wp_reconcile_claimed:
  assumes "\<not> seen moves_money h" "seen is_completed h"
    "\<And>hv. lnState = Some HI_ACCEPTED \<Longrightarrow> seen is_held h"
  shows "wp reconcile_guard (reconcile_claimed b c i w lnState) (\<lambda>_ _. True) (\<lambda>_ _. True) h"
proof (cases "lnState = Some HI_ACCEPTED")
  case True
  have s: "wp reconcile_guard (settleLightningFromEvmClaim b c i tx w) (\<lambda>_ _. True) (\<lambda>_ _. True) h" for tx
    by (rule wp_settleLightning [OF polite_reconcile_guard,
          where P = "\<lambda>h. \<not> seen moves_money h \<and> (seen is_completed h \<and> seen is_held h)"])
      (auto simp: assms(1,2) assms(3) [OF True] reconcile_guard_def intro!: persists_intros)
  show ?thesis
    unfolding reconcile_claimed_def True
    by simp (intro wp_rules TrueI wp_with_retry reconcile_quietly [OF quiet_parts(2)] wp_post [OF s])
next
  case False
  then show ?thesis
    unfolding reconcile_claimed_def
    by (cases lnState; simp) (auto split: hold_invoice_state.splits intro!: wp_rules)
qed

lemma wp_reconcile_refunded:
  assumes "\<not> seen moves_money h" "seen is_refunded h"
    "\<And>hv. observed = Some hv \<Longrightarrow> seen (is_invoice hv) h"
  shows "wp reconcile_guard (reconcile_refunded b c i observed) (\<lambda>_ _. True) (\<lambda>_ _. True) h"
proof -
  have l: "wp reconcile_guard (observeLightningForRecovery b i) (\<lambda>_ _. True) (\<lambda>_ _. True) h" for h
    by (rule reconcile_quietly, rule only_observeLightningForRecovery) simp
  have ns: "\<not> seen is_LnSettle h"
    using assms(1) money_classes(1) by (auto simp: seen_def)
  have c: "wp reconcile_guard (reconcile_cancel b i ph) (\<lambda>_ _. True) (\<lambda>_ _. True) h"
    if "seen is_unsettled h" for ph
    unfolding reconcile_cancel_def cancelHoldInvoice_def
    by (intro wp_rules TrueI wp_post [OF l])
      (auto simp: reconcile_guard_def that assms(2) ns split: ln_observation.split intro!: wp_rules)
  have "wp reconcile_guard (reconcile_refunded b c i (Some hv)) (\<lambda>_ _. True) (\<lambda>_ _. True) h"
    if hv: "seen (is_invoice hv) h" for hv
  proof (cases "hi_state hv = HI_OPEN \<or> hi_state hv = HI_ACCEPTED")
    case True
    then have u: "seen is_unsettled h" using invoice_held invoice_unsettled hv by blast
    show ?thesis
      unfolding reconcile_refunded_def using True
      by (auto intro!: wp_rules wp_with_retry wp_post [OF c [OF u]] reconcile_quietly [OF quiet_parts(3)])
  next
    case False
    then show ?thesis
      unfolding reconcile_refunded_def
      by (cases "hi_state hv") (auto intro!: wp_rules reconcile_quietly [OF quiet_parts(3)])
  qed
  then show ?thesis
    using assms(3) by (cases observed)
      (auto simp: reconcile_refunded_def intro!: reconcile_quietly [OF quiet_parts(3)])
qed

lemma wp_reconcile_locked:
  assumes "\<not> seen moves_money h" "seen (is_htlc st) h"
    "os_funded st = Some True \<and> os_completed st \<noteq> Some True \<and> os_refunded st \<noteq> Some True"
    "\<And>hv. observed = Some hv \<Longrightarrow> hi_state hv \<noteq> HI_SETTLED \<and> seen (is_invoice hv) h"
  shows "wp reconcile_guard (reconcile_locked b c i w observed (Some st)) (\<lambda>_ _. True) (\<lambda>_ _. True) h"
proof (cases "\<exists>hv. observed = Some hv \<and> hi_state hv = HI_ACCEPTED")
  case True
  then obtain hv where o: "observed = Some hv" "hi_state hv = HI_ACCEPTED" by blast
  have held: "seen is_held h" "seen is_unsettled h"
    using invoice_held assms(4) o by blast+
  have r: "wp reconcile_guard (processRefund b c i w) (\<lambda>_ _. True) (\<lambda>_ _. True) h"
    if "os_timelock st \<le> os_blockTimestamp st"
  proof -
    have over: "seen is_overdue h" using htlc_facts(4) [OF assms(2)] assms(3) that by blast
    show ?thesis
      by (rule wp_refund [OF polite_reconcile_guard,
            where P = "\<lambda>h. \<not> seen moves_money h \<and> (seen is_held h \<and> seen is_unsettled h \<and> seen is_overdue h)"
            and R = "\<lambda>h. \<not> seen is_LnSettle h \<and> (seen is_unsettled h \<and> seen is_overdue h)"])
        (auto simp: reconcile_guard_def assms(1) held over unseen_class intro!: persists_intros
           dest: money_classes)
  qed
  show ?thesis
    unfolding reconcile_locked_def o(1) using o(2)
    by (auto intro!: wp_rules wp_with_retry wp_post [OF r] reconcile_quietly [OF quiet_parts(4)])
next
  case False
  then show ?thesis
    using assms(4) unfolding reconcile_locked_def
    by (cases observed) (auto split: hold_invoice_state.splits intro!: wp_rules)
qed

lemma wp_reconcile_fund:
  assumes "\<not> seen moves_money h" "seen is_held h" "seen is_absent h"
  shows "wp reconcile_guard (reconcile_fund b c i w) (\<lambda>_ _. True) (\<lambda>_ _. True) h"
proof -
  have "wp reconcile_guard (fundEvmHtlc b c i w) (\<lambda>_ _. True) (\<lambda>_ _. True) h"
    by (rule wp_fund [OF polite_reconcile_guard,
          where P = "\<lambda>h. \<not> seen moves_money h \<and> (seen is_held h \<and> seen is_absent h)"])
      (auto simp: assms reconcile_guard_def intro!: persists_intros)
  then show ?thesis
    unfolding reconcile_fund_def
    by (intro wp_rules TrueI wp_with_retry) (auto elim!: wp_post intro!: wp_rules)
qed

lemma wp_fund_intent:
  assumes "\<not> seen moves_money h \<and> P h" "persists P"
  shows "wp reconcile_guard (reconcile_fund_intent b i) (\<lambda>_ h. \<not> seen moves_money h \<and> P h) (\<lambda>_ _. True) h"
  by (rule wp_quietly [OF quiet_parts(6) polite_reconcile_guard persists_no_money [OF assms(2)] assms(1)])
    simp_all

lemma wp_reconcile_absent:
  assumes "\<not> seen moves_money h" "seen is_absent h"
    "\<And>hv. observed = Some hv \<Longrightarrow> seen (is_invoice hv) h"
  shows "wp reconcile_guard (reconcile_absent b c i w observed) (\<lambda>_ _. True) (\<lambda>_ _. True) h"
proof -
  let ?P = "\<lambda>h. seen is_absent h \<and> (map_option hi_state observed = Some HI_ACCEPTED \<longrightarrow> seen is_held h)"
  have p: "persists ?P" by (simp add: persists_def)
  have h: "\<not> seen moves_money h \<and> ?P h" using assms invoice_held by (cases observed) auto
  show ?thesis
    unfolding reconcile_absent_def
    apply (rule wp_bnd)
    apply (rule wp_post [OF wp_fund_intent [OF h p]])
    subgoal for x h
      by (cases "map_option hi_state observed")
        (intro wp_rules TrueI reconcile_quietly [OF quiet_parts(5)] wp_reconcile_fund; auto)+
    by simp
qed

section \<open>The whole reconciliation\<close>

lemma settled_split:
  "(case (map_option hi_state x, x) of (Some HI_SETTLED, Some hv) \<Rightarrow> g hv | (l, _) \<Rightarrow> f l) =
   (case x of None \<Rightarrow> f None | Some hv \<Rightarrow> if hi_state hv = HI_SETTLED then g hv else f (Some (hi_state hv)))"
  by (cases x; simp; cases "hi_state (the x)"; simp)

lemma wp_reconcile_known:
  assumes "\<not> seen moves_money h" "seen (is_htlc st) h"
    "\<And>hv. observed = Some hv \<Longrightarrow> seen (is_invoice hv) h"
  shows "wp reconcile_guard (reconcile_known b c i w observed (classify_htlc st))
    (\<lambda>_ _. True) (\<lambda>_ _. True) h"
proof -
  let ?rest = "\<lambda>lnState. if is_base_claimed (classify_htlc st) then reconcile_claimed b c i w lnState
         else if is_base_refunded (classify_htlc st) then reconcile_refunded b c i observed
         else if is_base_funded (classify_htlc st)
         then reconcile_locked b c i w observed (observed_htlc (classify_htlc st))
         else if is_base_absent (classify_htlc st) then reconcile_absent b c i w observed
         else mustGetRecord i"
  have rest: "wp reconcile_guard (?rest (map_option hi_state observed)) (\<lambda>_ _. True) (\<lambda>_ _. True) h"
    if ns: "\<And>hv. observed = Some hv \<Longrightarrow> hi_state hv \<noteq> HI_SETTLED"
  proof (intro wp_if)
    assume "is_base_claimed (classify_htlc st)"
    then show "wp reconcile_guard (reconcile_claimed b c i w (map_option hi_state observed))
        (\<lambda>_ _. True) (\<lambda>_ _. True) h"
      using classified(1) htlc_facts(1) [OF assms(2)] assms(1,3) invoice_held
      by (intro wp_reconcile_claimed) (auto simp: map_option_eq_Some)
  next
    assume "is_base_refunded (classify_htlc st)"
    then show "wp reconcile_guard (reconcile_refunded b c i observed) (\<lambda>_ _. True) (\<lambda>_ _. True) h"
      using classified(2) htlc_facts(2) [OF assms(2)] assms(1,3) by (intro wp_reconcile_refunded) auto
  next
    assume "is_base_funded (classify_htlc st)"
    then show "wp reconcile_guard (reconcile_locked b c i w observed (observed_htlc (classify_htlc st)))
        (\<lambda>_ _. True) (\<lambda>_ _. True) h"
      using classified(3) assms ns by (auto intro!: wp_reconcile_locked)
  next
    assume "is_base_absent (classify_htlc st)"
    then show "wp reconcile_guard (reconcile_absent b c i w observed) (\<lambda>_ _. True) (\<lambda>_ _. True) h"
      using classified(4) htlc_facts(3) [OF assms(2)] assms(1,3) by (intro wp_reconcile_absent) auto
  qed (intro wp_rules TrueI)
  have k: "wp reconcile_guard (case (map_option hi_state observed, observed) of
       (Some HI_SETTLED, Some invoice) \<Rightarrow> reconcile_ln_settled b i invoice (classify_htlc st)
     | (lnState, _) \<Rightarrow> ?rest lnState) (\<lambda>_ _. True) (\<lambda>_ _. True) h"
      unfolding settled_split [where f = ?rest and g = "\<lambda>hv. reconcile_ln_settled b i hv (classify_htlc st)"]
    proof (rule wp_option)
      assume "observed = None"
      then show "wp reconcile_guard (?rest None) (\<lambda>_ _. True) (\<lambda>_ _. True) h"
        using rest by (metis option.map(1) option.distinct(1))
    next
      fix hv assume o: "observed = Some hv"
      show "wp reconcile_guard (if hi_state hv = HI_SETTLED then reconcile_ln_settled b i hv (classify_htlc st)
          else ?rest (Some (hi_state hv))) (\<lambda>_ _. True) (\<lambda>_ _. True) h"
      proof (rule wp_if)
        show "wp reconcile_guard (reconcile_ln_settled b i hv (classify_htlc st)) (\<lambda>_ _. True) (\<lambda>_ _. True) h"
          by (rule reconcile_quietly [OF quiet_parts(1)])
      next
        assume "hi_state hv \<noteq> HI_SETTLED"
        then show "wp reconcile_guard (?rest (Some (hi_state hv))) (\<lambda>_ _. True) (\<lambda>_ _. True) h"
          using rest o by (metis option.map(2) option.inject)
      qed
    qed
  show ?thesis
    unfolding reconcile_known_def
    by (rule wp_bnd, rule wp_quiet(1), rule wp_seq, rule wp_if, rule wp_seq, rule wp_quiet(4), rule wp_ret,
        rule k, rule TrueI, rule wp_ret, rule k, rule TrueI)
qed

lemma wp_reconcileSwap:
  "wp reconcile_guard (reconcileSwap b c i w) (\<lambda>_ _. True) (\<lambda>_ _. True) []"
proof -
  have known: "wp reconcile_guard (case (ln, evm) of
      (LO_UNKNOWN _, _) \<Rightarrow> markRecoveryRequired b i m1 m2
    | (_, EO_UNKNOWN _) \<Rightarrow> markRecoveryRequired b i m1 m2
    | _ \<Rightarrow> reconcile_known b c i w (observed_invoice ln) evm) (\<lambda>_ _. True) (\<lambda>_ _. True) h"
    if ab: "\<not> seen moves_money h \<and> ln_backed ln h" "evm_backed evm h" for ln evm m1 m2 h
  proof (cases "\<exists>r. evm = EO_UNKNOWN r")
    case True
    then show ?thesis by (cases ln) (auto intro!: wp_rules)
  next
    case False
    then obtain st where st: "evm = classify_htlc st" "seen (is_htlc st) h"
      using ab(2) by (auto simp: evm_backed_def)
    have k: "wp reconcile_guard (reconcile_known b c i w (observed_invoice ln) evm)
        (\<lambda>_ _. True) (\<lambda>_ _. True) h"
      unfolding st(1) by (rule wp_reconcile_known) (use ab st in \<open>auto simp: ln_backed_def\<close>)
    show ?thesis
      using False k by (cases ln; cases evm) (auto intro!: wp_rules)
  qed
  have p: "persists (\<lambda>h. \<not> seen moves_money h)" by (intro persists_intros)
  have pl: "persists (\<lambda>h. \<not> seen moves_money h \<and> ln_backed ln h)" for ln
    by (auto simp: persists_def ln_backed_def)
  show ?thesis
    unfolding reconcileSwap_def reconcile_body_def
    by (intro wp_rules TrueI wp_observeLightning [OF polite_reconcile_guard p]
        wp_observeEvm [OF polite_reconcile_guard pl] known) auto
qed

lemma seen_rails_iff:
  "seen is_held h \<longleftrightarrow> (\<exists>ph hv. LnObserve ph (Inr hv) \<in> set h \<and> hi_state hv = HI_ACCEPTED)"
  "seen is_unsettled h \<longleftrightarrow> (\<exists>ph hv. LnObserve ph (Inr hv) \<in> set h \<and>
     (hi_state hv = HI_ACCEPTED \<or> hi_state hv = HI_OPEN))"
  "seen is_absent h \<longleftrightarrow> (\<exists>k st. EvObserve k (Inr st) \<in> set h \<and> os_funded st = Some False \<and>
     os_completed st = Some False \<and> os_refunded st = Some False)"
  "seen is_refunded h \<longleftrightarrow> (\<exists>k st. EvObserve k (Inr st) \<in> set h \<and> os_refunded st = Some True)"
  "seen is_overdue h \<longleftrightarrow> (\<exists>k st. EvObserve k (Inr st) \<in> set h \<and> os_funded st = Some True \<and>
     os_completed st \<noteq> Some True \<and> os_refunded st \<noteq> Some True \<and> os_timelock st \<le> os_blockTimestamp st)"
  by (force simp: seen_def elim!: is_held.elims is_unsettled.elims is_absent.elims is_refunded.elims
        is_overdue.elims)+

text \<open>C3: Reconciliation acts only on what it has observed on both rails. In \<open>reconcileSwap\<close>, with any
  backends, a call that moves money is one of four: a settle, as the first such call, of an invoice observed ACCEPTED when the
  HTLC was observed claimed and final claim evidence reveals the preimage; a cancel of an invoice observed OPEN or
  ACCEPTED when the HTLC was observed refunded, or locked with its timelock over; a funding, as
  the first such call, behind an invoice observed ACCEPTED when the chain proved that no HTLC exists; a Base
  refund, as the first such call, of an HTLC observed locked with its timelock over. A failed
  or unknown observation on a rail therefore moves nothing.\<close>

theorem reconcile_money_backed:
  assumes "trace (reconcileSwap b c i w) s = pre @ e # post" "moves_money e"
  shows "(\<exists>p r. e = LnSettle p r \<and> (\<forall>x \<in> set pre. \<not> moves_money x) \<and>
      (\<exists>ph hv. LnObserve ph (Inr hv) \<in> set pre \<and> hi_state hv = HI_ACCEPTED) \<and>
      (\<exists>k st. EvObserve k (Inr st) \<in> set pre \<and> os_completed st = Some True) \<and>
      (\<exists>q ev. EvVerifyClaim q (Inr ev) \<in> set pre \<and> ce_finalityState ev = FS_FINAL \<and>
         ce_preimageRevealed ev = p)) \<or>
    (\<exists>ph r. e = LnCancel ph r \<and> (\<forall>x \<in> set pre. \<not> is_LnSettle x) \<and>
      (\<exists>ph hv. LnObserve ph (Inr hv) \<in> set pre \<and> (hi_state hv = HI_ACCEPTED \<or> hi_state hv = HI_OPEN)) \<and>
      (\<exists>k st. EvObserve k (Inr st) \<in> set pre \<and> (os_refunded st = Some True \<or>
         os_funded st = Some True \<and> os_completed st \<noteq> Some True \<and> os_timelock st \<le> os_blockTimestamp st))) \<or>
    (\<exists>fp r. e = EvFund fp r \<and> (\<forall>x \<in> set pre. \<not> moves_money x) \<and>
      (\<exists>ph hv. LnObserve ph (Inr hv) \<in> set pre \<and> hi_state hv = HI_ACCEPTED) \<and>
      (\<exists>k st. EvObserve k (Inr st) \<in> set pre \<and> os_funded st = Some False \<and>
         os_completed st = Some False \<and> os_refunded st = Some False)) \<or>
    (\<exists>k r. e = EvRefund k r \<and> (\<forall>x \<in> set pre. \<not> moves_money x) \<and>
      (\<exists>ph hv. LnObserve ph (Inr hv) \<in> set pre \<and> hi_state hv = HI_ACCEPTED) \<and>
      (\<exists>st. EvObserve k (Inr st) \<in> set pre \<and> os_completed st \<noteq> Some True \<and>
         os_refunded st \<noteq> Some True \<and> os_timelock st \<le> os_blockTimestamp st))"
  using wp_at [OF wp_reconcileSwap assms(1), unfolded reconcile_guard_def seen_rails_iff seen_iff
      seen_claim_iff, rule_format, OF assms(2)]
  by (elim disjE conjE exE) (simp_all add: seen_def, blast+)

text \<open>One reconciliation never both settles and cancels the Lightning invoice, whatever the
  backends answer: claim and refund exclude each other.\<close>

theorem reconcile_settle_xor_cancel:
  "\<not> ((\<exists>x \<in> set (trace (reconcileSwap b c i w) s). is_LnSettle x) \<and>
      (\<exists>y \<in> set (trace (reconcileSwap b c i w) s). is_LnCancel y))"
proof (rule ccontr)
  assume "\<not> ?thesis"
  then obtain x y where x: "x \<in> set (trace (reconcileSwap b c i w) s)" "is_LnSettle x"
    and y: "y \<in> set (trace (reconcileSwap b c i w) s)" "is_LnCancel y" by blast
  obtain pre post where t: "trace (reconcileSwap b c i w) s = pre @ x # post" using x(1) by (meson split_list)
  have a: "allowed reconcile_guard [] (pre @ x # post)"
    using wp_trace [OF wp_reconcileSwap [of b c i w]] t by metis
  have gx: "\<not> seen moves_money pre"
    using allowed_at [OF a] x(2) by (cases x) (auto simp: reconcile_guard_def)
  have "y \<in> set post" using y x(2) t gx money_classes(2) by (cases x) (auto simp: seen_def)
  then obtain us vs where "post = us @ y # vs" by (meson split_list)
  then have "reconcile_guard (pre @ x # us) y"
    using a allowed_at [of reconcile_guard "[]" "pre @ x # us" y vs] by simp
  then show False using x(2) y(2) by (cases y) (auto simp: reconcile_guard_def)
qed

section \<open>The sweep\<close>

lemma reconcile_each_total:
  "\<exists>rs. fst (reconcile_each b c w ids s) = Inr rs \<and> length rs \<le> length ids"
proof (induction ids arbitrary: s)
  case Nil
  then show ?case by (simp add: ret_def)
next
  case (Cons i ids)
  let ?one = "attempt (bnd (reconcileSwap b c i w) (\<lambda>r. ret [r]))
      (\<lambda>_. bnd (ask (\<lambda>s. getSovereignSwap i (s_db s)))
        (\<lambda>current. case current of None \<Rightarrow> ret [] | Some r \<Rightarrow> ret [r]))"
  obtain r t s' where o: "?one s = (r, t, s')" by (metis prod.collapse)
  obtain xs where xs: "r = Inr xs" "length xs \<le> 1"
    using o unfolding attempt_def bnd_def ask_def ret_def by (auto split: prod.splits sum.splits option.splits)
  obtain rs where rs: "fst (reconcile_each b c w ids s') = Inr rs" "length rs \<le> length ids"
    using Cons.IH by blast
  obtain t2 s2 where e: "reconcile_each b c w ids s' = (Inr rs, t2, s2)"
    using rs(1) by (metis prod.collapse)
  have "fst (reconcile_each b c w (i # ids) s) = Inr (xs @ rs)"
    using o xs(1) e by (simp add: bnd_def [of ?one] bnd_def [of "reconcile_each b c w ids"] ret_def)
  then show ?case using xs(2) rs(2) by simp
qed

text \<open>The recovery sweep always returns. \<open>reconcileAll\<close> never throws, whatever single swaps do: it
  returns at most one record per swap that was not terminal when it started.\<close>

theorem reconcileAll_total:
  "\<exists>rs. result (reconcileAll b c w) s = Inr rs \<and>
     length rs \<le> length (listNonTerminalSovereignSwaps (s_db s))"
  using reconcile_each_total [of b c w "map r_id (listNonTerminalSovereignSwaps (s_db s))" s]
  unfolding reconcileAll_def result_def bnd_def ask_def by (auto split: prod.splits)

end
