(* ===== verification/Coord_Bounds.thy ===== *)
theory Coord_Bounds
  imports Coord_Recovery
begin

text \<open>
  The numbers and the records of the coordinator: the block search of the CLTV gate ends with the
  least safe block count, the gate lets through only invoices that outlive the whole Base
  resolution, and records in a guarded terminal state stay there.
\<close>

section \<open>The block search\<close>

lemma search_finds:
  fixes k :: int
  assumes "\<not> T m" "k \<le> m"
  shows "\<exists>n. while_option T (\<lambda>k. k + 1) k = Some n \<and> k \<le> n \<and> n \<le> m \<and> \<not> T n \<and> (\<forall>j. k \<le> j \<longrightarrow> j < n \<longrightarrow> T j)"
  using assms(2)
proof (induction "nat (m - k)" arbitrary: k)
  case 0
  then show ?case using assms(1) by (auto simp: while_option_unfold)
next
  case (Suc d)
  show ?case
  proof (cases "T k")
    case True
    then have le: "k + 1 \<le> m" using assms(1) Suc.prems by (cases "k = m") auto
    then obtain n where n: "while_option T (\<lambda>k. k + 1) (k + 1) = Some n" "k + 1 \<le> n" "n \<le> m" "\<not> T n"
        "\<forall>j. k + 1 \<le> j \<longrightarrow> j < n \<longrightarrow> T j"
      using Suc.hyps(1) [of "k + 1", OF _ le] Suc.hyps(2) le by force
    have "\<forall>j. k \<le> j \<longrightarrow> j < n \<longrightarrow> T j" using n(5) True by (metis add_le_same_cancel1 int_one_le_iff_zero_less le_less not_less zless_imp_add1_zle)
    then show ?thesis using n True by (auto simp: while_option_unfold [of T _ k])
  next
    case False
    then show ?thesis using Suc.prems by (auto simp: while_option_unfold [of T _ k])
  qed
qed

lemma required_blocks_iff:
  "computeRequiredBtcBlocksForBudget tailExceeds seconds = Some k \<longleftrightarrow>
     \<not> tailExceeds k seconds \<and> seconds \<le> 600 * k \<and>
     (\<forall>j < k. seconds \<le> 600 * j \<longrightarrow> tailExceeds j seconds)"
proof -
  let ?T = "\<lambda>k. tailExceeds k seconds" and ?k0 = "(seconds + 599) div 600"
  have nominal: "?k0 \<le> j \<longleftrightarrow> seconds \<le> 600 * j" for j by linarith
  show ?thesis
  proof
    assume c: "computeRequiredBtcBlocksForBudget tailExceeds seconds = Some k"
    then have stop: "\<not> ?T k" unfolding computeRequiredBtcBlocksForBudget_def by (rule while_option_stop)
    have "?k0 \<le> k"
      by (rule while_option_rule [where P = "\<lambda>j. ?k0 \<le> j", OF _ c [unfolded computeRequiredBtcBlocksForBudget_def]])
        auto
    with stop obtain n where n: "while_option ?T (\<lambda>k. k + 1) ?k0 = Some n" "\<forall>j. ?k0 \<le> j \<longrightarrow> j < n \<longrightarrow> ?T j"
      using search_finds [of ?T k ?k0] by blast
    then have "n = k" using c by (simp add: computeRequiredBtcBlocksForBudget_def)
    then show "\<not> ?T k \<and> seconds \<le> 600 * k \<and> (\<forall>j < k. seconds \<le> 600 * j \<longrightarrow> ?T j)"
      using n(2) stop \<open>?k0 \<le> k\<close> by (auto simp: nominal)
  next
    assume a: "\<not> ?T k \<and> seconds \<le> 600 * k \<and> (\<forall>j < k. seconds \<le> 600 * j \<longrightarrow> ?T j)"
    then obtain n where n: "while_option ?T (\<lambda>k. k + 1) ?k0 = Some n" "?k0 \<le> n" "n \<le> k" "\<not> ?T n"
      using search_finds [of ?T k ?k0] nominal by blast
    then have "n = k" using a nominal [of n] by (metis le_less)
    then show "computeRequiredBtcBlocksForBudget tailExceeds seconds = Some k"
      using n(1) by (simp add: computeRequiredBtcBlocksForBudget_def)
  qed
qed

text \<open>C35: The block search of \<open>computeRequiredBtcBlocksForBudget\<close> ends exactly when some block
  count from the nominal one upward meets the tail target, and then returns the least such
  count, never below the nominal number of blocks \<open>\<lceil>seconds / 600\<rceil>\<close>.\<close>

theorem required_blocks_least:
  "((\<exists>k. computeRequiredBtcBlocksForBudget tailExceeds seconds = Some k) \<longleftrightarrow>
      (\<exists>m. seconds \<le> 600 * m \<and> \<not> tailExceeds m seconds)) \<and>
   (\<forall>k. computeRequiredBtcBlocksForBudget tailExceeds seconds = Some k \<longleftrightarrow>
     \<not> tailExceeds k seconds \<and> seconds \<le> 600 * k \<and>
     (\<forall>j < k. seconds \<le> 600 * j \<longrightarrow> tailExceeds j seconds))"
proof (intro conjI allI)
  show "(\<exists>k. computeRequiredBtcBlocksForBudget tailExceeds seconds = Some k) \<longleftrightarrow>
      (\<exists>m. seconds \<le> 600 * m \<and> \<not> tailExceeds m seconds)"
  proof
    assume "\<exists>m. seconds \<le> 600 * m \<and> \<not> tailExceeds m seconds"
    then obtain m where m: "seconds \<le> 600 * m" "\<not> tailExceeds m seconds" by blast
    then have "(seconds + 599) div 600 \<le> m" by linarith
    then show "\<exists>k. computeRequiredBtcBlocksForBudget tailExceeds seconds = Some k"
      using search_finds [of "\<lambda>k. tailExceeds k seconds" m] m(2)
      unfolding computeRequiredBtcBlocksForBudget_def by blast
  qed (unfold required_blocks_iff, blast)
qed (rule required_blocks_iff)

section \<open>The CLTV gate\<close>

lemma bnd_Inr:
  assumes "bnd m f s = (Inr y, t, s')"
  obtains x t1 s1 t2 where "m s = (Inr x, t1, s1)" "f x s1 = (Inr y, t2, s')" "t = t1 @ t2"
  using assms by (cases rule: bnd_cases) auto

lemma cached_Inr: "cached i s = (Inr r, t, s') \<longleftrightarrow> s_cache s i = Some r \<and> t = [] \<and> s' = s"
  by (auto simp: cached_def split: option.split)

lemma call_Inr: "call ev f s = (Inr x, t, s') \<longleftrightarrow> f s = (Inr x, s') \<and> t = [ev (Inr x)]"
  by (auto simp: call_def split: prod.split)

text \<open>The Base seconds still to run: from the recorded lock time and a fresh timestamp, else the agreed timelock.\<close>

definition base_seconds :: "'w backend \<Rightarrow> string \<Rightarrow> 'w sys \<Rightarrow> int \<Rightarrow> bool" where
  "base_seconds b i s secs \<longleftrightarrow> (case s_cache s i of None \<Rightarrow> False | Some r0 \<Rightarrow>
     if truthy_num (r_refundLocktime r0) = None then secs = coalesce (r_timelockSeconds r0) 43200
     else \<exists>ts s1 r1. b_getBlockTimestamp b s = (Inr ts, s1) \<and> s_cache s1 i = Some r1 \<and>
       secs = max 0 (coalesce (r_refundLocktime r1) 0 - ts))"

lemma cltv_window_inv:
  assumes "cltv_window b i k s = (Inr (), t, s')"
  shows "\<exists>r h expiry. s_cache s' i = Some r \<and> LnHeight (Inr (Some h)) \<in> set t \<and> 0 < h \<and>
    accepted_expiry r = Some expiry \<and> k \<le> remaining_blocks r expiry h"
  using assms unfolding cltv_window_def
  by (auto simp: thr_def ret_def cached_Inr call_Inr split: option.splits if_splits
      elim!: bnd_Inr attempt_cases)

lemma remaining_base_seconds_inv:
  "remaining_base_seconds b i s = (Inr secs, t, s') \<Longrightarrow> base_seconds b i s secs"
  unfolding remaining_base_seconds_def base_seconds_def getBlockTimestamp_def
  by (auto simp: ret_def cached_Inr call_Inr split: option.splits elim!: bnd_Inr)

lemma accepted_expiry_le:
  assumes "accepted_expiry r = Some x" "r_holdInvoice r = Some hv" "hi_htlcs hv = Some htlcs"
    "Some e \<in> set htlcs" "0 < e"
  shows "x \<le> e"
proof -
  let ?valid = "filter (\<lambda>h. h > 0) (List.map_filter (\<lambda>h. h) htlcs)"
  have e: "e \<in> set ?valid" using assms(4,5) by (force simp: List.map_filter_def)
  then obtain v vs where v: "?valid = v # vs" by (cases ?valid) auto
  have "fold min vs v \<le> e"
    using e unfolding v Min.set_eq_fold [symmetric] by (intro Min_le) auto
  then show ?thesis
    using assms(1-3) v by (auto simp: accepted_expiry_def inv_field_def Let_def split: option.splits)
qed

text \<open>C24: The CLTV gate leaves Lightning enough blocks. When \<open>assertLightningCltvSafety\<close> passes, the
  accepted payment expires, measured from a positive block height fetched during the call, no sooner than \<open>k\<close> blocks
  from now, where \<open>k\<close> covers the remaining Base seconds plus the dispatch, finality, resolution and
  safety budgets at 600 seconds a block and meets the fast-block tail target; the invoice's own
  CLTV budget and every HTLC it holds leave \<open>k\<close> blocks too.\<close>

theorem cltv_gate_bounds:
  assumes "assertLightningCltvSafety b c i s = (Inr (), t, s')"
  shows "\<exists>r h k secs. s_cache s' i = Some r \<and> LnHeight (Inr (Some h)) \<in> set t \<and> 0 < h \<and>
    base_seconds b i s secs \<and> total_budget c secs \<le> 600 * k \<and>
    \<not> co_tailExceeds c k (total_budget c secs) \<and>
    (\<exists>expiry. accepted_expiry r = Some expiry \<and> k \<le> max 0 (expiry - h)) \<and>
    (\<forall>hv. r_holdInvoice r = Some hv \<longrightarrow> k \<le> hi_cltvExpiryBlocks hv \<and>
       (\<forall>e htlcs. hi_htlcs hv = Some htlcs \<longrightarrow> Some e \<in> set htlcs \<longrightarrow> 0 < e \<longrightarrow> k \<le> max 0 (e - h)))"
proof -
  from assms obtain secs t1 s1 t2 where m: "remaining_base_seconds b i s = (Inr secs, t1, s1)"
      "t = t1 @ t2" and
    rest: "(case computeRequiredBtcBlocksForBudget (co_tailExceeds c) (total_budget c secs) of
      None \<Rightarrow> thr (Thrown C_DIVERGES ''computeRequiredBtcBlocksForBudget does not return'')
    | Some k \<Rightarrow> cltv_window b i k) s1 = (Inr (), t2, s')"
    unfolding assertLightningCltvSafety_def by (rule bnd_Inr)
  note secs = remaining_base_seconds_inv [OF m(1)]
  from rest obtain k where k: "computeRequiredBtcBlocksForBudget (co_tailExceeds c) (total_budget c secs) = Some k"
      "cltv_window b i k s1 = (Inr (), t2, s')"
    by (auto simp: thr_def split: option.splits)
  from cltv_window_inv [OF k(2)] obtain r h expiry where g: "s_cache s' i = Some r"
      "LnHeight (Inr (Some h)) \<in> set t2" "0 < h" "accepted_expiry r = Some expiry"
      "k \<le> remaining_blocks r expiry h" by blast
  have own: "k \<le> max 0 (expiry - h)" "\<And>hv. r_holdInvoice r = Some hv \<Longrightarrow> k \<le> hi_cltvExpiryBlocks hv"
    using g(5) by (auto simp: remaining_blocks_def Let_def split: option.splits)
  have each: "k \<le> max 0 (e - h)"
    if "r_holdInvoice r = Some hv" "hi_htlcs hv = Some htlcs" "Some e \<in> set htlcs" "0 < e" for hv htlcs e
    using accepted_expiry_le [OF g(4) that] own(1) by simp
  have least: "total_budget c secs \<le> 600 * k" "\<not> co_tailExceeds c k (total_budget c secs)"
    using k(1) unfolding required_blocks_iff by blast+
  show ?thesis
    by (rule exI [of _ r], rule exI [of _ h], rule exI [of _ k], rule exI [of _ secs])
      (use g(1-4) secs m(2) own each least in auto)
qed

section \<open>Guarded terminal states\<close>

lemma getSovereignSwap_row: "getSovereignSwap i d = Some r \<longleftrightarrow> (\<exists>w. get_swap_row i d = Some w \<and> r = mapRowToSovereignRecord w)"
  by (auto simp: getSovereignSwap_def)

lemma update_get_state:
  assumes "updateSovereignSwap i u tr now d = (Inr r, d')" "get_swap_row i d = Some w"
  shows "get_swap_row i d' = Some (apply_row_updates u now w)"
proof -
  have k: "\<And>w. sw_id (apply_row_updates u now w) = sw_id w"
    by (simp add: apply_row_updates_def Let_def)
  have "sovereign_swaps d' = sql_update (\<lambda>w. sw_id w = i) (apply_row_updates u now) (sovereign_swaps d)"
    using assms unfolding updateSovereignSwap_def
    by (auto simp: Let_def recordSovereignTransition_def split: if_splits option.splits)
  then show ?thesis
    using assms(2) sql_get_Some unfolding get_swap_row_def
    by (auto simp: sql_get_update [of "\<lambda>w. sw_id w = i", OF arg_cong [where f = "\<lambda>x. x = i", OF k]] dest: sql_get_Some)
qed

lemma sw_state_apply: "sw_state (apply_row_updates u now w) = coalesce (su_state u) (sw_state w)"
  by (simp add: apply_row_updates_def Let_def)

lemma db_syncCache: "bnd (db_act f) syncCache s = (r, t, s') \<Longrightarrow> s_db s' = snd (f (s_db s))"
  by (auto simp: bnd_def db_act_def syncCache_def Let_def split: prod.splits sum.splits)

text \<open>A stale worker cannot revert a closed swap through \<open>updateRecord\<close>: when the stored state is
  COMPLETED, REFUNDED or INVOICE_CANCELED, any update leaves the stored state as it is and writes no
  audit row.\<close>

theorem updateRecord_keeps_closed:
  assumes "getSovereignSwap i (s_db s) = Some r" "r_state r \<in> set guarded_states"
    "updateRecord b i u tr s = (res, t, s')"
  shows "map_option r_state (getSovereignSwap i (s_db s')) = Some (r_state r) \<and>
    sovereign_swap_transitions (s_db s') = sovereign_swap_transitions (s_db s)"
proof (cases "su_state u \<noteq> None \<and> su_state u \<noteq> Some (r_state r)")
  case True
  then have "s_db s' = s_db s"
    using assms by (auto simp: updateRecord_def bnd_def ask_def syncCache_def Let_def)
  then show ?thesis using assms(1) by simp
next
  case False
  obtain w where w: "get_swap_row i (s_db s) = Some w" "r = mapRowToSovereignRecord w"
    using assms(1) by (auto simp: getSovereignSwap_row)
  have sw: "sw_state w = r_state r" using w(2) by (simp add: mapRowToSovereignRecord_def)
  have "bnd (db_act (updateSovereignSwap i u tr (b_now b s))) syncCache s = (res, t, s')"
    using assms False by (auto simp: updateRecord_def bnd_def ask_def split: prod.splits)
  from db_syncCache [OF this] have d: "s_db s' = snd (updateSovereignSwap i u tr (b_now b s) (s_db s))" .
  show ?thesis
  proof (cases "updateSovereignSwap i u tr (b_now b s) (s_db s)")
    case (Pair x d')
    show ?thesis
    proof (cases x)
      case (Inl e)
      then have "d' = s_db s" using Pair w(1) unfolding updateSovereignSwap_def
        by (auto simp: Let_def split: if_splits option.splits prod.splits)
      then show ?thesis using d Pair assms(1) by simp
    next
      case (Inr y)
      have "get_swap_row i d' = Some (apply_row_updates u (b_now b s) w)"
        using update_get_state Pair Inr w(1) by blast
      then have 1: "map_option r_state (getSovereignSwap i d') = Some (r_state r)"
        using False sw by (cases "su_state u") (auto simp: getSovereignSwap_def mapRowToSovereignRecord_def sw_state_apply)
      have "sovereign_swap_transitions d' = sovereign_swap_transitions (s_db s)"
        using Pair Inr w False sw unfolding updateSovereignSwap_def
        by (auto simp: Let_def split: if_splits option.splits)
      then show ?thesis using 1 d Pair by simp
    qed
  qed
qed

text \<open>The counterpart: \<open>markRecoveryRequired\<close> has no such guard.\<close>

lemma mark_recovery_overrides_closed:
  assumes "getSovereignSwap i (s_db s) = Some r"
    "markRecoveryRequired b i why reason s = (Inr r', t, s')"
  shows "map_option r_state (getSovereignSwap i (s_db s')) = Some SA_RECOVERY_REQUIRED"
proof -
  obtain w where w: "get_swap_row i (s_db s) = Some w" using assms(1) by (auto simp: getSovereignSwap_row)
  let ?u = "no_updates\<lparr>su_state := Some SA_RECOVERY_REQUIRED, su_recoveryRequired := Some True,
              su_failureReason := Some (Some why)\<rparr>"
  obtain x where "updateSovereignSwap i ?u (Some (reason, None)) (b_now b s) (s_db s) = (Inr x, s_db s')"
    using assms by (auto simp: markRecoveryRequired_def markSovereignRecoveryRequired_def transaction_def
        bnd_def ask_def db_act_def syncCache_def Let_def split: prod.splits sum.splits)
  from update_get_state [OF this w] show ?thesis
    by (simp add: getSovereignSwap_def mapRowToSovereignRecord_def sw_state_apply)
qed

end
