(* ===== verification/Coord_Prepare.thy ===== *)
theory Coord_Prepare
  imports Coord_Recovery
begin

text \<open>
  Preparing a swap (\<open>prepareSwap\<close> of \<open>src/src/atomic/coordinator/coordinator.ts\<close>): it is
  idempotent and refuses changed terms, it reserves before it invoices, it releases only on proven absence, and the text behind the
  economic fingerprint determines the agreed terms.
\<close>

section \<open>The fingerprint text\<close>

text \<open>The economic fingerprint covers the whole agreement: when the addresses and the hash lock hold no
  bar character, two agreements with the same fingerprint text have the same amounts and, up to letter case, the
  same hash lock, claiming, target, token and refund addresses. So two different agreements share a fingerprint
  only through a SHA-256 collision.\<close>

theorem fingerprint_text_injective:
  assumes "CHR ''|'' \<notin> set (to_lower h @ to_lower cl @ to_lower ta @ to_lower tk @ to_lower re)"
    "CHR ''|'' \<notin> set (to_lower h' @ to_lower cl' @ to_lower ta' @ to_lower tk' @ to_lower re')"
    "economic_text a u h cl ta tk re = economic_text a' u' h' cl' ta' tk' re'"
  shows "a = a' \<and> u = u' \<and> to_lower h = to_lower h' \<and> to_lower cl = to_lower cl' \<and>
    to_lower ta = to_lower ta' \<and> to_lower tk = to_lower tk' \<and> to_lower re = to_lower re'"
proof -
  have "[bigint_text a, bigint_text u, to_lower h, to_lower cl, to_lower ta, to_lower tk, to_lower re] =
      [bigint_text a', bigint_text u', to_lower h', to_lower cl', to_lower ta', to_lower tk', to_lower re']"
    by (rule join_with_inj [where c = "CHR ''|''"])
      (use assms bigint_text_no_bar in \<open>auto simp: economic_text_def\<close>)
  then show ?thesis using bigint_text_inj by simp
qed

text \<open>The theorem at two spellings of one agreement.\<close>

theorem fingerprint_text_injective_witness:
  "to_lower ''0xAb'' = to_lower ''0xaB'' \<and>
   economic_text 100 5 ''0xAb'' ''0xc'' ''0xd'' ''0xt'' ''0xr'' = economic_text 100 5 ''0xaB'' ''0xc'' ''0xd'' ''0xt'' ''0xr''"
proof -
  have e: "economic_text 100 5 ''0xAb'' ''0xc'' ''0xd'' ''0xt'' ''0xr'' =
      economic_text 100 5 ''0xaB'' ''0xc'' ''0xd'' ''0xt'' ''0xr''" by code_simp
  have b: "CHR ''|'' \<notin> set (to_lower ''0xAb'' @ to_lower ''0xc'' @ to_lower ''0xd'' @ to_lower ''0xt'' @ to_lower ''0xr'')"
    "CHR ''|'' \<notin> set (to_lower ''0xaB'' @ to_lower ''0xc'' @ to_lower ''0xd'' @ to_lower ''0xt'' @ to_lower ''0xr'')"
    by code_simp+
  from fingerprint_text_injective [OF b e] e show ?thesis by blast
qed

section \<open>Repeating a request\<close>

definition valid_params :: "prepare_params \<Rightarrow> bool" where
  "valid_params p \<longleftrightarrow> valid_hash_lock (pp_hashLock p) \<and> 0 < pp_amountSats p \<and> 0 < pp_expectedUsdcAmount p"

text \<open>With an invoice, or closed, the stored swap is the answer to the same terms.\<close>

lemma prepare_answers_stored:
  assumes "valid_params p" "getSovereignSwapByIdempotencyKey (pp_idempotencyKey p) (s_db s) = Some x"
    "r_holdInvoice x \<noteq> None \<or> terminal_record x"
    "r_recoveryRequired x \<noteq> Some True" "r_state x \<noteq> SA_RECOVERY_REQUIRED"
    "r_economicFingerprint x \<noteq> None"
  shows "(if r_economicFingerprint x = Some (computeEconomicFingerprint c p)
          then result (prepareSwap b c p) s = Inr x
          else result (prepareSwap b c p) s = Inl (Thrown C_ERROR ''IMMUTABLE_FINGERPRINT_MISMATCH'')) \<and>
    trace (prepareSwap b c p) s = [] \<and> s_db (snd (snd (prepareSwap b c p s))) = s_db s"
  using assms
  by (auto simp: prepareSwap_def valid_params_def Let_def bnd_def ask_def prepare_existing_def seq_def
      syncCache_def ret_def thr_def result_def trace_def)


section \<open>A new agreement\<close>

lemma trace_ask: "trace (bnd (ask f) g) s = trace (g (f s)) s"
  by (simp add: trace_def bnd_def ask_def split: prod.split)

lemma trace_change: "trace (seq (change f) k) s = trace k (f s)"
  by (simp add: trace_def seq_def bnd_def change_def split: prod.split)

lemma trace_ensure_change: "trace (ensure m (change f)) s = trace m s"
  by (simp add: trace_def ensure_def change_def split: prod.split)

lemma trace_ret: "trace (bnd (ret x) f) s = trace (f x) s"
  by (simp add: trace_def bnd_def ret_def split: prod.split)

fun is_reserved :: "int \<Rightarrow> string \<Rightarrow> event \<Rightarrow> bool" where
  "is_reserved n tok (InvReserve n' tok' i (Inr x)) \<longleftrightarrow> n' = n \<and> tok' = tok \<and> snd x"
| "is_reserved _ _ _ = False"

fun is_ready :: "string \<Rightarrow> event \<Rightarrow> bool" where
  "is_ready tok (InvReadiness tok' (Inr x)) \<longleftrightarrow> tok' = tok \<and> x = IR_READY"
| "is_ready _ _ = False"

fun is_create_failure :: "event \<Rightarrow> bool" where
  "is_create_failure (LnCreate h a m k (Inl e)) = True" | "is_create_failure _ = False"

fun is_absence :: "event \<Rightarrow> bool" where
  "is_absence (LnObserve h (Inl e)) \<longleftrightarrow> err_class_of e = C_INVOICE_NOT_FOUND" | "is_absence _ = False"

lemma seen_prepare_iff:
  "seen (is_reserved n tok) h \<longleftrightarrow> (\<exists>i rid. InvReserve n tok i (Inr (rid, True)) \<in> set h)"
  "seen (is_ready tok) h \<longleftrightarrow> InvReadiness tok (Inr IR_READY) \<in> set h"
  "seen is_create_failure h \<longleftrightarrow> (\<exists>hl a m k e. LnCreate hl a m k (Inl e) \<in> set h)"
  "seen is_absence h \<longleftrightarrow> (\<exists>ph e. LnObserve ph (Inl e) \<in> set h \<and> err_class_of e = C_INVOICE_NOT_FOUND)"
  by (force simp: seen_def elim!: is_reserved.elims is_ready.elims is_create_failure.elims is_absence.elims)+

definition prepare_guard ::
  "'w backend \<Rightarrow> coordinator \<Rightarrow> prepare_params \<Rightarrow> event list \<Rightarrow> event \<Rightarrow> bool" where
  "prepare_guard b c p h e \<longleftrightarrow>
     (moves_money e \<longrightarrow> (\<exists>m k r. e = LnCreate (pp_hashLock p) (pp_amountSats p) m k r) \<and> \<not> seen moves_money h \<and>
        seen (is_reserved (pp_expectedUsdcAmount p) (co_tokenAddress c)) h \<and>
        (b_getReadinessState b \<noteq> None \<longrightarrow> seen (is_ready (co_tokenAddress c)) h)) \<and>
     (\<forall>k r. e = InvRelease k r \<longrightarrow> seen is_create_failure h \<and> seen is_absence h)"

lemma wp_readiness [wp_rules]:
  "(st = IR_NOT_READY \<Longrightarrow> wp J m1 Q E h) \<Longrightarrow> (st = IR_RECONCILING \<Longrightarrow> wp J m2 Q E h) \<Longrightarrow>
   (st = IR_READY \<Longrightarrow> wp J m3 Q E h) \<Longrightarrow> (st = IR_DEFICIT \<Longrightarrow> wp J m4 Q E h) \<Longrightarrow>
   (st = IR_UNKNOWN \<Longrightarrow> wp J m5 Q E h) \<Longrightarrow> (st = IR_DEGRADED \<Longrightarrow> wp J m6 Q E h) \<Longrightarrow>
   wp J (case st of IR_NOT_READY \<Rightarrow> m1 | IR_RECONCILING \<Rightarrow> m2 | IR_READY \<Rightarrow> m3
     | IR_DEFICIT \<Rightarrow> m4 | IR_UNKNOWN \<Rightarrow> m5 | IR_DEGRADED \<Rightarrow> m6) Q E h"
  by (cases st) auto

lemma wp_readiness_gate:
  assumes "P h" "\<And>h t r. P h \<Longrightarrow> J h (InvReadiness t r) \<and> P (h @ [InvReadiness t r])"
    "\<And>h. P h \<Longrightarrow> (b_getReadinessState b \<noteq> None \<longrightarrow> seen (is_ready tok) h) \<Longrightarrow> Q () h"
    "\<And>e h. P h \<Longrightarrow> E e h"
  shows "wp J (readiness_gate b tok) Q E h"
  unfolding readiness_gate_def
  by (intro wp_rules) (use assms in auto)


lemma wp_prepare_reserve:
  assumes "P h" "\<And>h n t i r. P h \<Longrightarrow> J h (InvReserve n t i r) \<and> P (h @ [InvReserve n t i r])"
    "\<And>h. P h \<Longrightarrow> seen (is_reserved (pp_expectedUsdcAmount p) (co_tokenAddress c)) h \<Longrightarrow> Q () h"
    "\<And>e h. P h \<Longrightarrow> E e h"
  shows "wp J (prepare_reserve b c p i f m n t) Q E h"
  unfolding prepare_reserve_def
  by (intro wp_rules) (use assms in auto)

lemma wp_prepare_invoice:
  assumes "\<And>r. prepare_guard b c p h (LnCreate (pp_hashLock p) (pp_amountSats p) cltv (''Sovereign swap '' @ i) r)"
  shows "wp (prepare_guard b c p) (prepare_invoice b p ph rc i cltv) (\<lambda>_ _. True) (\<lambda>_ _. True) h"
  unfolding prepare_invoice_def prepare_ambiguity_def observeHoldInvoice_def inv_release_def
  by (intro wp_rules TrueI) (use assms in \<open>auto simp: prepare_guard_def\<close>)

lemma wp_prepare_new:
  "wp (prepare_guard b c p) (prepare_new b c p ph f None) (\<lambda>_ _. True) (\<lambda>_ _. True) []"
proof -
  let ?P = "\<lambda>h. \<not> seen moves_money h"
  let ?R = "\<lambda>h. ?P h \<and> (b_getReadinessState b \<noteq> None \<longrightarrow> seen (is_ready (co_tokenAddress c)) h)"
  show ?thesis
    unfolding prepare_new_def option.case
    by (intro wp_rules TrueI wp_readiness_gate [where P = ?P] wp_prepare_reserve [where P = ?R]
        wp_post [OF wp_prepare_invoice])
      (auto simp: prepare_guard_def)
qed

lemma prepare_new_trace:
  assumes "getSovereignSwapByIdempotencyKey (pp_idempotencyKey p) (s_db s) = None"
  shows "allowed (prepare_guard b c p) [] (trace (prepareSwap b c p) s)"
proof -
  let ?J = "prepare_guard b c p"
  let ?s = "s\<lparr>s_inflight := pp_idempotencyKey p # s_inflight s\<rparr>"
  have n: "allowed ?J [] (trace (prepare_dispatch b c p ph f) ?s)" for ph f
    using wp_trace [OF wp_prepare_new] assms by (simp add: prepare_dispatch_def trace_ask)
  have t: "allowed ?J [] (trace (thr e :: (_, swap_rec) act) s)" for e by (simp add: trace_def thr_def)
  have a: "allowed ?J [] (trace (call (AwaitPrepare k) g) s)" for k g
    by (simp add: trace_def call_def prepare_guard_def split: prod.split)
  show ?thesis
    using assms
    by (simp add: prepareSwap_def Let_def trace_ask trace_ret trace_change trace_ensure_change t a n)
qed

text \<open>C19: A new agreement reserves before it invoices, and gives back only what it can prove unused. When no swap is
  stored under the idempotency key, \<open>prepareSwap\<close> with any backends asks Lightning for an invoice at most
  once, with the agreed hash lock and amount, and only after the inventory granted a reservation of the expected amount
  (and answered READY, where it has a readiness state); no other call moves money. A reservation is
  released only after that invoice call failed and Lightning answered, typed, that the invoice does not exist.\<close>

theorem prepare_reserves_first:
  assumes "getSovereignSwapByIdempotencyKey (pp_idempotencyKey p) (s_db s) = None"
    "T = trace (prepareSwap b c p) s"
  shows "(\<forall>pre e post. T = pre @ e # post \<longrightarrow> moves_money e \<longrightarrow>
      (\<exists>m k r. e = LnCreate (pp_hashLock p) (pp_amountSats p) m k r) \<and>
      (\<exists>i rid. InvReserve (pp_expectedUsdcAmount p) (co_tokenAddress c) i (Inr (rid, True)) \<in> set pre) \<and>
      (b_getReadinessState b \<noteq> None \<longrightarrow> InvReadiness (co_tokenAddress c) (Inr IR_READY) \<in> set pre) \<and>
      (\<forall>x \<in> set pre \<union> set post. \<not> moves_money x)) \<and>
    (\<forall>pre k r post. T = pre @ InvRelease k r # post \<longrightarrow>
      (\<exists>hl a m memo e. LnCreate hl a m memo (Inl e) \<in> set pre) \<and>
      (\<exists>ph e. LnObserve ph (Inl e) \<in> set pre \<and> err_class_of e = C_INVOICE_NOT_FOUND))"
proof (intro conjI allI impI ballI)
  have a: "allowed (prepare_guard b c p) [] T" unfolding assms(2) by (rule prepare_new_trace [OF assms(1)])
  {
    fix pre e post assume t: "T = pre @ e # post" and m: "moves_money e"
    note g = allowed_at [OF a [unfolded t], unfolded prepare_guard_def seen_prepare_iff, simplified]
    show "\<exists>m k r. e = LnCreate (pp_hashLock p) (pp_amountSats p) m k r"
      "\<exists>i rid. InvReserve (pp_expectedUsdcAmount p) (co_tokenAddress c) i (Inr (rid, True)) \<in> set pre"
      using g m by blast+
    show "InvReadiness (co_tokenAddress c) (Inr IR_READY) \<in> set pre" if "b_getReadinessState b \<noteq> None"
      using g m that by blast
    fix x assume "x \<in> set pre \<union> set post"
    then show "\<not> moves_money x"
      using allowed_once [where M = moves_money, OF a [unfolded t] m] by (auto simp: prepare_guard_def)
  next
    fix pre k r post assume t: "T = pre @ InvRelease k r # post"
    have g: "prepare_guard b c p pre (InvRelease k r)" using allowed_at [OF a [unfolded t]] by simp
    then show "\<exists>hl a m memo e. LnCreate hl a m memo (Inl e) \<in> set pre"
      "\<exists>ph e. LnObserve ph (Inl e) \<in> set pre \<and> err_class_of e = C_INVOICE_NOT_FOUND"
      unfolding prepare_guard_def seen_prepare_iff by blast+
  }
qed

section \<open>A repeated agreement\<close>

text \<open>Lightning, asked for this payment hash, did not show an invoice of it: a typed absence, or an invoice of another hash.\<close>

fun is_not_held :: "string \<Rightarrow> event \<Rightarrow> bool" where
  "is_not_held ph (LnObserve ph' r) \<longleftrightarrow> ph' = ph \<and>
     (case r of Inl e \<Rightarrow> err_class_of e = C_INVOICE_NOT_FOUND | Inr h \<Rightarrow> to_lower (hi_paymentHash h) \<noteq> ph)"
| "is_not_held _ _ \<longleftrightarrow> False"

lemma seen_not_held_iff:
  "seen (is_not_held ph) h \<longleftrightarrow> (\<exists>r. LnObserve ph r \<in> set h \<and>
     (case r of Inl e \<Rightarrow> err_class_of e = C_INVOICE_NOT_FOUND | Inr i \<Rightarrow> to_lower (hi_paymentHash i) \<noteq> ph))"
  by (auto simp: seen_def elim!: is_not_held.elims) force

definition repeat_guard :: "prepare_params \<Rightarrow> string \<Rightarrow> event list \<Rightarrow> event \<Rightarrow> bool" where
  "repeat_guard p ph h e \<longleftrightarrow> (\<forall>n t i r. e \<noteq> InvReserve n t i r) \<and>
     (moves_money e \<longrightarrow> (\<exists>m k r. e = LnCreate (pp_hashLock p) (pp_amountSats p) m k r) \<and> \<not> seen moves_money h \<and> seen (is_not_held ph) h) \<and>
     (\<forall>k r. e = InvRelease k r \<longrightarrow> seen is_create_failure h \<and> seen is_absence h)"

lemma updateRecord_error:
  assumes "updateRecord b i u tr s = (Inl e, t, s')"
  shows "t = [] \<and> err_class_of e \<noteq> C_INVOICE_NOT_FOUND"
  using assms
  by (auto simp: updateRecord_def bnd_def ask_def db_act_def syncCache_def change_def ret_def seq_def Let_def split: option.splits if_splits sum.splits prod.splits)

lemma wp_update_checked:
  assumes "\<And>x. Q x h" "\<And>e. err_class_of e \<noteq> C_INVOICE_NOT_FOUND \<Longrightarrow> E e h"
  shows "wp J (updateRecord b i u tr) Q E h"
proof (rule wpI)
  fix s r t s' assume u: "updateRecord b i u tr s = (r, t, s')"
  have "set t = {}" using onlyD [OF only_updateRecord [of "\<lambda>_. False"] u] by (cases t) auto
  then show "allowed J h t \<and> (case r of Inr x \<Rightarrow> Q x (h @ t) | Inl e \<Rightarrow> E e (h @ t))"
    using u assms updateRecord_error by (cases r) fastforce+
qed

lemma wp_converge:
  "wp (repeat_guard p ph) (prepare_converge b ph x)
     (\<lambda>r h. \<not> seen moves_money h \<and> (r = None \<longrightarrow> seen (is_not_held ph) h)) (\<lambda>_ _. True) []"
  unfolding prepare_converge_def observeHoldInvoice_def
  by (intro wp_rules wp_update_checked) (auto simp: repeat_guard_def moves_money_def seen_def)

lemma wp_prepare_invoice_again:
  assumes "\<And>r. repeat_guard p ph h (LnCreate (pp_hashLock p) (pp_amountSats p) cltv (''Sovereign swap '' @ i) r)"
  shows "wp (repeat_guard p ph) (prepare_invoice b p ph' rc i cltv) (\<lambda>_ _. True) (\<lambda>_ _. True) h"
  unfolding prepare_invoice_def prepare_ambiguity_def observeHoldInvoice_def inv_release_def
  by (intro wp_rules TrueI) (use assms in \<open>auto simp: repeat_guard_def\<close>)

lemma wp_prepare_again:
  assumes "\<not> seen moves_money h" "seen (is_not_held ph) h"
  shows "wp (repeat_guard p ph) (prepare_new b c p ph' f (Some x)) (\<lambda>_ _. True) (\<lambda>_ _. True) h"
proof -
  let ?P = "\<lambda>h. \<not> seen moves_money h \<and> seen (is_not_held ph) h"
  show ?thesis
    unfolding prepare_new_def option.case
    by (intro wp_rules TrueI wp_readiness_gate [where P = ?P] wp_post [OF wp_prepare_invoice_again])
      (use assms in \<open>auto simp: repeat_guard_def\<close>)
qed

lemma wp_dispatch_again:
  assumes "r_holdInvoice x = None"
  shows "wp (repeat_guard p ph) (bnd (prepare_converge b ph x) (\<lambda>converged.
    case converged of Some r' \<Rightarrow> ret r' | None \<Rightarrow> prepare_new b c p ph f (Some x))) (\<lambda>_ _. True) (\<lambda>_ _. True) []"
  by (rule wp_bnd, rule wp_post [OF wp_converge]) (auto intro!: wp_rules wp_prepare_again)

definition decided :: "coordinator \<Rightarrow> prepare_params \<Rightarrow> swap_rec \<Rightarrow> bool" where
  "decided c p x \<longleftrightarrow> r_holdInvoice x \<noteq> None \<or> terminal_record x \<or> r_recoveryRequired x = Some True \<or> r_state x = SA_RECOVERY_REQUIRED \<or>
     (r_economicFingerprint x \<noteq> None \<and> r_economicFingerprint x \<noteq> Some (computeEconomicFingerprint c p))"

lemma trace_thr: "trace (thr e) s = []"
  by (simp add: trace_def thr_def)

lemma prepare_existing_run:
  assumes "getSovereignSwapByIdempotencyKey (pp_idempotencyKey p) (s_db s) = Some x" "T = trace (prepareSwap b c p) s"
  shows "T = [] \<or> \<not> decided c p x \<and>
     (\<exists>s1. s_db s1 = s_db s \<and> (T = trace (prepare_dispatch b c p (to_lower (strip_0x (pp_hashLock p))) (computeEconomicFingerprint c p)) s1 \<or>
        (\<exists>r. T = [AwaitPrepare (pp_idempotencyKey p) r])))"
proof -
  let ?f = "computeEconomicFingerprint c p" and ?s = "snd (snd (syncCache x s))"
  have db: "s_db ?s = s_db s" "s_inflight ?s = s_inflight s" by (simp_all add: syncCache_def Let_def)
  show ?thesis
  proof (cases "decided c p x")
    case True
    have q: "trace (prepare_existing ?f x) s = [] \<and> result (prepare_existing ?f x) s \<noteq> Inr None"
      using True by (auto simp: prepare_existing_def decided_def seq_def bnd_def syncCache_def Let_def ret_def thr_def trace_def result_def)
    obtain r s' where e: "prepare_existing ?f x s = (r, [], s')" "r \<noteq> Inr None"
      using q by (cases "prepare_existing ?f x s") (simp add: trace_def result_def)
    then have "trace (bnd (prepare_existing ?f x) (\<lambda>done. case done of Some r \<Rightarrow> ret r | None \<Rightarrow> g)) s = []" for g
      by (cases r) (auto simp: trace_def bnd_def ret_def split: option.split)
    then have "T = []" using assms by (auto simp: prepareSwap_def Let_def trace_ask trace_thr)
    then show ?thesis ..
  next
    case False
    then have e: "prepare_existing ?f x s = (Inr None, [], ?s)"
      by (auto simp: prepare_existing_def decided_def seq_def bnd_def syncCache_def Let_def ret_def)
    have t: "trace (bnd (prepare_existing ?f x) k) s = trace (k None) ?s" for k
      by (simp add: trace_def bnd_def e split: prod.split)
    have a: "\<exists>r. trace (call (AwaitPrepare k) g) s = [AwaitPrepare k r]" for k g s
      by (auto simp: trace_def call_def split: prod.split)
    let ?s1 = "?s\<lparr>s_inflight := pp_idempotencyKey p # s_inflight ?s\<rparr>"
    have "T = [] \<or> T = trace (call (AwaitPrepare (pp_idempotencyKey p)) (b_otherPrepare b (pp_idempotencyKey p))) ?s \<or>
        T = trace (prepare_dispatch b c p (to_lower (strip_0x (pp_hashLock p))) ?f) ?s1"
      using assms db by (simp add: prepareSwap_def Let_def trace_ask trace_ret trace_change trace_ensure_change trace_thr t)
    moreover have "s_db ?s1 = s_db s" using db by simp
    ultimately show ?thesis using False a by metis
  qed
qed

lemma repeat_trace:
  assumes "getSovereignSwapByIdempotencyKey (pp_idempotencyKey p) (s_db s) = Some x" "T = trace (prepareSwap b c p) s"
  shows "allowed (repeat_guard p (to_lower (strip_0x (pp_hashLock p)))) [] T"
proof -
  let ?ph = "to_lower (strip_0x (pp_hashLock p))" and ?f = "computeEconomicFingerprint c p"
  from prepare_existing_run [OF assms] consider "T = []" | r where "T = [AwaitPrepare (pp_idempotencyKey p) r]"
    | s1 where "\<not> decided c p x" "s_db s1 = s_db s" "T = trace (prepare_dispatch b c p ?ph ?f) s1" by blast
  then show ?thesis
  proof cases
    case 2
    then show ?thesis by (simp add: repeat_guard_def)
  next
    case 3
    then have n: "r_holdInvoice x = None" by (simp add: decided_def)
    from wp_trace [OF wp_dispatch_again [OF n]] 3 n assms(1) show ?thesis by (simp add: prepare_dispatch_def trace_ask)
  qed simp
qed

text \<open>C36: A repeated agreement reserves nothing and doubles no invoice. When a swap is stored under the idempotency key, \<open>prepareSwap\<close> with
  any backends never asks for a reservation. It calls no backend at all when the stored swap has an invoice, is closed, is in recovery or was
  agreed on other terms. Otherwise it asks for an invoice at most once, with the agreed hash lock and amount, and only after Lightning, asked
  in this call for the payment hash, answered that it has no such invoice; no other call moves money. A reservation is
  released only after that invoice call failed and Lightning answered, typed, that the invoice does not exist.\<close>

theorem repeated_prepare_converges:
  assumes "getSovereignSwapByIdempotencyKey (pp_idempotencyKey p) (s_db s) = Some x"
    "T = trace (prepareSwap b c p) s"
  shows "(\<forall>n t i r. InvReserve n t i r \<notin> set T) \<and>
    (r_holdInvoice x \<noteq> None \<or> terminal_record x \<or> r_recoveryRequired x = Some True \<or> r_state x = SA_RECOVERY_REQUIRED \<or>
     (r_economicFingerprint x \<noteq> None \<and> r_economicFingerprint x \<noteq> Some (computeEconomicFingerprint c p)) \<longrightarrow> T = []) \<and>
    (\<forall>pre e post. T = pre @ e # post \<longrightarrow> moves_money e \<longrightarrow>
      (\<exists>m k r. e = LnCreate (pp_hashLock p) (pp_amountSats p) m k r) \<and>
      (\<exists>r. LnObserve (to_lower (strip_0x (pp_hashLock p))) r \<in> set pre \<and>
         (case r of Inl err \<Rightarrow> err_class_of err = C_INVOICE_NOT_FOUND
          | Inr i \<Rightarrow> to_lower (hi_paymentHash i) \<noteq> to_lower (strip_0x (pp_hashLock p)))) \<and>
      (\<forall>y \<in> set pre \<union> set post. \<not> moves_money y)) \<and>
    (\<forall>pre k r post. T = pre @ InvRelease k r # post \<longrightarrow>
      (\<exists>hl a m memo e. LnCreate hl a m memo (Inl e) \<in> set pre) \<and>
      (\<exists>ph e. LnObserve ph (Inl e) \<in> set pre \<and> err_class_of e = C_INVOICE_NOT_FOUND))"
proof (intro conjI allI impI ballI)
  note a = repeat_trace [OF assms]
  show "InvReserve n t i r \<notin> set T" for n t i r
  proof
    assume "InvReserve n t i r \<in> set T"
    then obtain pre post where "T = pre @ InvReserve n t i r # post" by (meson split_list)
    from allowed_at [OF a [unfolded this]] show False by (simp add: repeat_guard_def)
  qed
  {
    assume "r_holdInvoice x \<noteq> None \<or> terminal_record x \<or> r_recoveryRequired x = Some True \<or> r_state x = SA_RECOVERY_REQUIRED \<or>
     (r_economicFingerprint x \<noteq> None \<and> r_economicFingerprint x \<noteq> Some (computeEconomicFingerprint c p))"
    then have "decided c p x" by (simp add: decided_def)
    then show "T = []" using prepare_existing_run [OF assms] by blast
  next
    fix pre e post assume t: "T = pre @ e # post" and m: "moves_money e"
    note g = allowed_at [OF a [unfolded t], unfolded repeat_guard_def seen_not_held_iff, simplified]
    show "\<exists>m k r. e = LnCreate (pp_hashLock p) (pp_amountSats p) m k r" using g m by blast
    show "\<exists>r. LnObserve (to_lower (strip_0x (pp_hashLock p))) r \<in> set pre \<and>
         (case r of Inl err \<Rightarrow> err_class_of err = C_INVOICE_NOT_FOUND
          | Inr i \<Rightarrow> to_lower (hi_paymentHash i) \<noteq> to_lower (strip_0x (pp_hashLock p)))"
      using g m by blast
    fix y assume "y \<in> set pre \<union> set post"
    then show "\<not> moves_money y"
      using allowed_once [where M = moves_money, OF a [unfolded t] m] by (auto simp: repeat_guard_def)
  next
    fix pre k r post assume t: "T = pre @ InvRelease k r # post"
    have g: "repeat_guard p (to_lower (strip_0x (pp_hashLock p))) pre (InvRelease k r)" using allowed_at [OF a [unfolded t]] by simp
    then show "\<exists>hl a m memo e. LnCreate hl a m memo (Inl e) \<in> set pre"
      "\<exists>ph e. LnObserve ph (Inl e) \<in> set pre \<and> err_class_of e = C_INVOICE_NOT_FOUND"
      unfolding repeat_guard_def seen_prepare_iff by blast+
  }
qed

end
