(* ===== verification/Coord_Demo.thy ===== *)
theory Coord_Demo
  imports Coord_Bounds Coord_Prepare
begin

text \<open>
  Concrete runs of the coordinator against a backend that answers with fixed values: the
  theorems of the coordinator at inputs where their hypotheses hold, and the runs behind the recorded findings.
\<close>

section \<open>A backend with fixed answers\<close>

definition demo_coordinator :: coordinator where
  "demo_coordinator = \<lparr> co_tokenAddress = ''0xt'', co_refundAddress = ''0xr'', co_workerId = ''w'',
     co_leaseMs = 60000,
     co_finalityPolicy = Some \<lparr> fl_policyTag = ''P'', fl_requiredConfirmations = 2 \<rparr>,
     co_maxRetries = 5, co_baseDispatchBudgetSeconds = 600, co_baseFinalityBudgetSeconds = 300,
     co_lndResolutionBudgetSeconds = 300, co_safetyMarginSeconds = 1800,
     co_tailExceeds = (\<lambda>k total. k * 300 < total), co_sha256 = (\<lambda>p. ''h''), co_sha256text = (\<lambda>t. t) \<rparr>"

definition demo_invoice :: "hold_invoice_state \<Rightarrow> hold_invoice" where
  "demo_invoice st = \<lparr> hi_paymentHash = ''h'', hi_bolt11 = ''b'', hi_amountSats = 100,
     hi_cltvExpiryBlocks = 400, hi_expiryHeight = Some 1400, hi_state = st, hi_createdAt = 1,
     hi_acceptedAt = None, hi_settledAt = None, hi_canceledAt = None, hi_htlcs = None \<rparr>"

definition demo_htlc :: "bool \<Rightarrow> bool \<Rightarrow> bool \<Rightarrow> htlc_state" where
  "demo_htlc funded completed refunded = \<lparr> os_htlcId = Some ''id'', os_funded = Some funded,
     os_completed = Some completed, os_refunded = Some refunded, os_balance = 5,
     os_timelock = 50, os_blockTimestamp = 100 \<rparr>"

definition demo_claim :: claim_evidence where
  "demo_claim = \<lparr> ce_chainId = 84532, ce_contractAddress = ''0xc'', ce_htlcId = ''id'',
     ce_hashLock = ''0xh'', ce_preimageRevealed = ''p'', ce_claimAddress = ''0xa'', ce_amount = 5,
     ce_txHash = ''tx'', ce_blockNumber = 7, ce_blockTimestamp = 90, ce_confirmations = 3,
     ce_finalityState = FS_FINAL \<rparr>"

definition demo_backend :: "hold_invoice_state \<Rightarrow> htlc_state \<Rightarrow> 'w backend" where
  "demo_backend ln htlc = \<lparr>
     b_now = (\<lambda>s. 1000), b_uuid = (\<lambda>s. ''u''),
     b_createHoldInvoice = (\<lambda>h a c m s. (Inr (demo_invoice HI_OPEN), s)),
     b_observeHoldInvoice = (\<lambda>h s. (Inr (demo_invoice ln), s)),
     b_settleHoldInvoice = (\<lambda>p s. (Inr (True, 1001), s)),
     b_cancelHoldInvoice = (\<lambda>h s. (Inr (True, 1001), s)),
     b_getInvoiceState = (\<lambda>h s. (Inr ln, s)),
     b_getBlockHeight = Some (\<lambda>s. (Inr (Some 1000), s)),
     b_getBlockTimestamp = (\<lambda>s. (Inr 100, s)),
     b_fundHtlc = (\<lambda>p s. (Inr (''tx'', 7, Some ''id''), s)),
     b_observeHtlc = (\<lambda>k s. (Inr htlc, s)),
     b_refundHtlc = (\<lambda>k s. (Inr ''rtx'', s)),
     b_claimHtlc = None,
     b_verifyClaim = Some (\<lambda>q s. (Inr demo_claim, s)),
     b_verifyRefund = None,
     b_getReadinessState = None,
     b_reserve = (\<lambda>a t i s. (Inr (''res'', True), s)),
     b_release = (\<lambda>i s. (Inr (), s)),
     b_commit = (\<lambda>i s. (Inr (), s)),
     b_restoreRefund = None, b_settleReservation = None, b_isSqliteInventory = False,
     b_otherPrepare = (\<lambda>k s. (Inl (Thrown C_ERROR ''''), s)) \<rparr>"

definition demo_params :: prepare_params where
  "demo_params = \<lparr> pp_idempotencyKey = ''k'', pp_hashLock = ''0xh'', pp_claimingAddress = ''0xa'',
     pp_targetDestinationAddress = ''0xd'', pp_amountSats = 100, pp_expectedUsdcAmount = 5,
     pp_cltvExpiryBlocks = None, pp_timelockSeconds = None \<rparr>"

definition demo_record :: "swap_state \<Rightarrow> swap_rec" where
  "demo_record st = (initial_record demo_coordinator demo_params ''s'' ''f'' 144 43200 ''res'' 0)
     \<lparr> r_state := st, r_holdInvoice := Some (demo_invoice HI_ACCEPTED), r_evmHtlcId := Some ''id'',
       r_reservedAmountUnits := Some 5, r_cltvExpiryBlocks := Some 400 \<rparr>"

definition demo_sys :: "swap_state \<Rightarrow> unit sys" where
  "demo_sys st = \<lparr> s_db = empty_db\<lparr>sovereign_swaps := [row_of_record (demo_record st) ''f'']\<rparr>,
     s_cache = (\<lambda>_. None), s_claims = (\<lambda>_. None), s_inflight = [], s_world = () \<rparr>"

section \<open>Runs that move money\<close>

abbreviation demo_open :: "unit backend" where
  "demo_open \<equiv> demo_backend HI_ACCEPTED (demo_htlc False False False)"

abbreviation demo_locked :: "unit backend" where
  "demo_locked \<equiv> demo_backend HI_ACCEPTED (demo_htlc True False False)"

abbreviation demo_redeemed :: "unit backend" where
  "demo_redeemed \<equiv> demo_backend HI_ACCEPTED (demo_htlc True True False)"

definition demo_preimage :: string where
  "demo_preimage = replicate 64 CHR ''1''"

lemma split_class:
  assumes "list_ex M T"
  obtains pre e post where "T = pre @ e # post" "M e"
  using assms by (metis list_ex_iff split_list)

lemma settle_run:
  "list_ex is_LnSettle (trace (settleLightningFromEvmClaim demo_redeemed demo_coordinator ''s'' ''tx'' ''w'')
     (demo_sys SA_EVM_FUNDED))"
  by code_simp

lemma fund_run:
  "list_ex is_EvFund (trace (fundEvmHtlc demo_open demo_coordinator ''s'' ''w'') (demo_sys SA_LIGHTNING_HELD))"
  by code_simp

lemma refund_run:
  "list_ex is_LnCancel (trace (processRefund demo_locked demo_coordinator ''s'' ''w'') (demo_sys SA_EVM_FUNDED))"
  by code_simp

lemma claim_run:
  "list_ex is_LnSettle (trace (claimSwap demo_redeemed demo_coordinator ''s'' demo_preimage ''w'') (demo_sys SA_EVM_FUNDED))"
  by code_simp

lemma reconcile_run:
  "list_ex is_LnCancel (trace (reconcileSwap demo_locked demo_coordinator ''s'' ''w'') (demo_sys SA_EVM_FUNDED))"
  by code_simp

lemma prepare_run:
  "list_ex is_LnCreate (trace (prepareSwap demo_open demo_coordinator
     (demo_params\<lparr>pp_hashLock := ''0x'' @ demo_preimage\<rparr>)) ((demo_sys SA_EVM_FUNDED)\<lparr>s_db := empty_db\<rparr>))"
  by code_simp

lemma demo_stored:
  "getSovereignSwap ''s'' (s_db (demo_sys SA_EVM_FUNDED)) \<noteq> None"
  "map_option r_state (getSovereignSwap ''s'' (s_db (demo_sys SA_EVM_FUNDED))) = Some SA_EVM_FUNDED"
  "map_option r_state (getSovereignSwap ''s'' (s_db (demo_sys SA_REFUNDED))) = Some SA_REFUNDED"
  by code_simp+

theorem settle_needs_final_evidence_witness:
  "\<exists>q ev. EvVerifyClaim q (Inr ev) \<in> set (trace (settleLightningFromEvmClaim demo_redeemed demo_coordinator
      ''s'' ''tx'' ''w'') (demo_sys SA_EVM_FUNDED)) \<and> cq_claimTxHash q = ''tx'' \<and>
    cq_requiredConfirmations q = 2 \<and> ce_finalityState ev = FS_FINAL"
proof -
  obtain pre e post where t: "trace (settleLightningFromEvmClaim demo_redeemed demo_coordinator ''s'' ''tx'' ''w'')
      (demo_sys SA_EVM_FUNDED) = pre @ e # post" "is_LnSettle e"
    using split_class [OF settle_run] .
  then obtain p r where "e = LnSettle p r" by (cases e) auto
  from settle_needs_final_evidence [OF t(1) [unfolded this]] show ?thesis
    unfolding t(1) by (auto simp: demo_coordinator_def)
qed

theorem fund_after_hold_and_gate_witness:
  "\<exists>ph n. {LnState ph (Inr HI_ACCEPTED), LnHeight (Inr (Some n))} \<subseteq>
     set (trace (fundEvmHtlc demo_open demo_coordinator ''s'' ''w'') (demo_sys SA_LIGHTNING_HELD)) \<and> 0 < n"
proof -
  obtain pre e post where t: "trace (fundEvmHtlc demo_open demo_coordinator ''s'' ''w'')
      (demo_sys SA_LIGHTNING_HELD) = pre @ e # post" "is_EvFund e"
    using split_class [OF fund_run] .
  then obtain fp r where "e = EvFund fp r" by (cases e) auto
  from fund_after_hold_and_gate [THEN conjunct1, rule_format, OF t(1) [unfolded this]] show ?thesis
    unfolding t(1) by auto
qed

theorem refund_cancels_after_return_witness:
  "\<exists>pre ph r post. trace (processRefund demo_locked demo_coordinator ''s'' ''w'') (demo_sys SA_EVM_FUNDED) =
      pre @ LnCancel ph r # post \<and>
    ((\<exists>k x. EvRefund k (Inr x) \<in> set pre) \<or>
     (\<exists>k st. EvObserve k (Inr st) \<in> set pre \<and> os_refunded st = Some True))"
proof -
  obtain pre e post where t: "trace (processRefund demo_locked demo_coordinator ''s'' ''w'')
      (demo_sys SA_EVM_FUNDED) = pre @ e # post" "is_LnCancel e"
    using split_class [OF refund_run] .
  then obtain ph r where e: "e = LnCancel ph r" by (cases e) auto
  obtain r0 where r0: "getSovereignSwap ''s'' (s_db (demo_sys SA_EVM_FUNDED)) = Some r0"
      "r_state r0 \<in> base_locked_states"
    using demo_stored(2) by (auto simp: base_locked_states_def)
  from refund_cancels_after_return [OF r0 refl, THEN conjunct1, rule_format, OF t(1) [unfolded e]] t(1) e
  show ?thesis by blast
qed

theorem claim_settles_own_preimage_witness:
  "\<exists>p r0. authorize_preimage demo_preimage = Inr p \<and>
    getSovereignSwap ''s'' (s_db (demo_sys SA_EVM_FUNDED)) = Some r0 \<and>
    co_sha256 demo_coordinator p = to_lower (strip_0x (r_hashLock r0))"
proof -
  obtain pre e post where t: "trace (claimSwap demo_redeemed demo_coordinator ''s'' demo_preimage ''w'')
      (demo_sys SA_EVM_FUNDED) = pre @ e # post" "is_LnSettle e"
    using split_class [OF claim_run] .
  obtain r0 where r0: "getSovereignSwap ''s'' (s_db (demo_sys SA_EVM_FUNDED)) = Some r0"
    using demo_stored(1) by auto
  from claim_settles_own_preimage [OF r0 t(1) money_classes(1) [OF t(2)]] r0 show ?thesis by blast
qed

text \<open>
  The finding on \<open>claimSwap\<close>: with the HTLC already completed and no claim transaction stored, it
  settles Lightning without asking the backend for any claim evidence.
\<close>

lemma claim_settles_unverified:
  "list_ex is_LnSettle (trace (claimSwap demo_redeemed demo_coordinator ''s'' demo_preimage ''w'')
     (demo_sys SA_EVM_FUNDED)) \<and>
   list_all (\<lambda>e. case e of EvVerifyClaim q r \<Rightarrow> False | _ \<Rightarrow> True)
     (trace (claimSwap demo_redeemed demo_coordinator ''s'' demo_preimage ''w'') (demo_sys SA_EVM_FUNDED))"
  by code_simp

theorem reconcile_money_backed_witness:
  "\<exists>pre e post. trace (reconcileSwap demo_locked demo_coordinator ''s'' ''w'') (demo_sys SA_EVM_FUNDED) =
      pre @ e # post \<and> moves_money e \<and> (\<exists>ph hv. LnObserve ph (Inr hv) \<in> set pre)"
proof -
  obtain pre e post where t: "trace (reconcileSwap demo_locked demo_coordinator ''s'' ''w'')
      (demo_sys SA_EVM_FUNDED) = pre @ e # post" "is_LnCancel e"
    using split_class [OF reconcile_run] .
  from reconcile_money_backed [OF t(1) money_classes(2) [OF t(2)]] t money_classes(2) show ?thesis by blast
qed

theorem prepare_reserves_first_witness:
  "\<exists>pre e post i rid. trace (prepareSwap demo_open demo_coordinator
      (demo_params\<lparr>pp_hashLock := ''0x'' @ demo_preimage\<rparr>)) ((demo_sys SA_EVM_FUNDED)\<lparr>s_db := empty_db\<rparr>) =
      pre @ e # post \<and> is_LnCreate e \<and> InvReserve 5 ''0xt'' i (Inr (rid, True)) \<in> set pre"
proof -
  let ?p = "demo_params\<lparr>pp_hashLock := ''0x'' @ demo_preimage\<rparr>"
  let ?s = "(demo_sys SA_EVM_FUNDED)\<lparr>s_db := empty_db\<rparr>"
  obtain pre e post where t: "trace (prepareSwap demo_open demo_coordinator ?p) ?s = pre @ e # post" "is_LnCreate e"
    using split_class [OF prepare_run] .
  have n: "getSovereignSwapByIdempotencyKey (pp_idempotencyKey ?p) (s_db ?s) = None" by code_simp
  from prepare_reserves_first [OF n refl, of demo_open demo_coordinator, THEN conjunct1, rule_format, OF t(1) money_classes(6) [OF t(2)]] t
  show ?thesis by (auto simp: demo_params_def demo_coordinator_def)
qed

section \<open>Runs that refuse or return\<close>

theorem cltv_gate_bounds_witness:
  "\<exists>t s' h k. assertLightningCltvSafety demo_open demo_coordinator ''s''
      ((demo_sys SA_LIGHTNING_HELD)\<lparr>s_cache := (\<lambda>_. Some (demo_record SA_LIGHTNING_HELD))\<rparr>) = (Inr (), t, s') \<and>
    LnHeight (Inr (Some h)) \<in> set t \<and> 0 < h \<and> total_budget demo_coordinator 43200 \<le> 600 * k"
proof -
  let ?s = "(demo_sys SA_LIGHTNING_HELD)\<lparr>s_cache := (\<lambda>_. Some (demo_record SA_LIGHTNING_HELD))\<rparr>"
  have "fst (assertLightningCltvSafety demo_open demo_coordinator ''s'' ?s) = Inr ()" by code_simp
  then obtain t s' where g: "assertLightningCltvSafety demo_open demo_coordinator ''s'' ?s = (Inr (), t, s')"
    by (metis prod.collapse)
  have secs: "base_seconds demo_open ''s'' ?s x \<longleftrightarrow> x = 43200" for x
    by (simp add: base_seconds_def demo_record_def initial_record_def truthy_num_def)
  from cltv_gate_bounds [OF g] g show ?thesis unfolding secs by blast
qed

theorem required_blocks_least_witness:
  "\<exists>k. computeRequiredBtcBlocksForBudget (\<lambda>k total. k * 300 < total) 6000 = Some k \<and> 6000 \<le> 600 * k"
  using required_blocks_least [of "\<lambda>k total. k * 300 < total" 6000] by (auto intro: exI [of _ 20])

theorem updateRecord_keeps_closed_witness:
  "\<exists>res t s'. updateRecord demo_open ''s'' (no_updates\<lparr>su_state := Some SA_EVM_FUNDED\<rparr>) None
      (demo_sys SA_REFUNDED) = (res, t, s') \<and>
    map_option r_state (getSovereignSwap ''s'' (s_db s')) = Some SA_REFUNDED"
proof -
  obtain r where r: "getSovereignSwap ''s'' (s_db (demo_sys SA_REFUNDED)) = Some r" "r_state r = SA_REFUNDED"
    using demo_stored(3) by auto
  obtain res t s' where u: "updateRecord demo_open ''s'' (no_updates\<lparr>su_state := Some SA_EVM_FUNDED\<rparr>) None
      (demo_sys SA_REFUNDED) = (res, t, s')" by (metis prod.collapse)
  have "r_state r \<in> set guarded_states" using r(2) by (simp add: guarded_states_def)
  from updateRecord_keeps_closed [OF r(1) this u] u r(2) show ?thesis by auto
qed

section \<open>A repeated agreement\<close>

abbreviation demo_terms :: prepare_params where
  "demo_terms \<equiv> demo_params\<lparr>pp_hashLock := ''0x'' @ demo_preimage\<rparr>"

text \<open>The plan is stored, its invoice is not, and Lightning knows an invoice of another hash only.\<close>

definition demo_planned :: "unit sys" where
  "demo_planned = (let f = computeEconomicFingerprint demo_coordinator demo_terms in
     (demo_sys SA_PLAN_PREPARED)\<lparr>s_db := empty_db\<lparr>sovereign_swaps :=
       [row_of_record (initial_record demo_coordinator demo_terms ''s'' f 144 43200 ''res'' 0) f]\<rparr>\<rparr>)"

lemma repeat_run: "list_ex is_LnCreate (trace (prepareSwap demo_open demo_coordinator demo_terms) demo_planned)"
  by code_simp

theorem repeated_prepare_converges_witness:
  "\<exists>pre e post r. trace (prepareSwap demo_open demo_coordinator demo_terms) demo_planned = pre @ e # post \<and> is_LnCreate e \<and>
    LnObserve (to_lower (strip_0x (''0x'' @ demo_preimage))) r \<in> set pre"
proof -
  obtain pre e post where t: "trace (prepareSwap demo_open demo_coordinator demo_terms) demo_planned = pre @ e # post" "is_LnCreate e"
    using split_class [OF repeat_run] .
  have "getSovereignSwapByIdempotencyKey (pp_idempotencyKey demo_terms) (s_db demo_planned) \<noteq> None" by code_simp
  then obtain x where x: "getSovereignSwapByIdempotencyKey (pp_idempotencyKey demo_terms) (s_db demo_planned) = Some x" by blast
  from repeated_prepare_converges [OF x refl, of demo_open demo_coordinator, THEN conjunct2, THEN conjunct2, THEN conjunct1, rule_format,
      OF t(1) money_classes(6) [OF t(2)]]
  have "\<exists>r. LnObserve (to_lower (strip_0x (pp_hashLock demo_terms))) r \<in> set pre" by blast
  then show ?thesis using t by auto
qed

end
