(* ===== verification/Planner.thy ===== *)
theory Planner
  imports Actions Numerals Tables Exec_Machine "HOL-Library.AList"
begin

text \<open>
  The route planner (\<open>RoutePlanner\<close> of \<open>src/src/routing/planner.ts\<close>): the registry of edges, the
  search for routes that are executable right now, the ranking of the candidates, and the plan
  snapshot. Asking an edge for its availability is an awaited call on a state this code does not look into.
\<close>

section \<open>Errors\<close>

text \<open>Errors of the provider path: \<open>RouterError\<close> with its code, plain and type errors, refused transitions, store errors.\<close>

datatype rclass =
    R_ROUTER domain_error_code | R_ERROR | R_TYPE | R_SYNTAX | R_DIVERGES
  | R_TRANSITION transition_error | R_DB db_error

datatype rerr = RErr rclass string

fun rerr_class :: "rerr \<Rightarrow> rclass" where
  "rerr_class (RErr c m) = c"

fun rerr_message :: "rerr \<Rightarrow> string" where
  "rerr_message (RErr c m) = m"

section \<open>Edges and candidates\<close>

record availability =
  av_isAvailable :: bool
  av_recvEnabled :: bool
  av_isMaintenance :: bool
  av_minAmountAtomic :: string
  av_maxAmountAtomic :: "string option"
  av_estimatedLatencyMs :: "int option"
  av_reason :: "string option"

record 's edge =
  eg_id :: string
  eg_edgeClass :: edge_class
  eg_supportsRoute :: "asset_node \<Rightarrow> asset_node \<Rightarrow> bool"
  eg_getRuntimeAvailability :: "'s \<Rightarrow> (rerr + availability) \<times> 's"

datatype routing_policy = RP_FASTEST | RP_CHEAPEST | RP_TRUST_MINIMIZED | RP_BALANCED

record 's route_candidate =
  rc_routeId :: string
  rc_edge :: "'s edge"
  rc_sourceNode :: asset_node
  rc_destinationNode :: asset_node
  rc_availability :: availability

text \<open>The edge map in insertion order; setting a known key keeps its place.\<close>

type_synonym 's edges = "(string \<times> 's edge) list"

definition registerEdge :: "'s edge \<Rightarrow> 's edges \<Rightarrow> 's edges" where
  "registerEdge edge edges = AList.update (eg_id edge) edge edges"

definition create_planner :: "'s edge list \<Rightarrow> 's edges" where
  "create_planner initialEdges = fold registerEdge initialEdges []"

definition getEdge :: "string \<Rightarrow> 's edges \<Rightarrow> 's edge option" where
  "getEdge i edges = map_of edges i"

definition getAllEdges :: "'s edges \<Rightarrow> 's edge list" where
  "getAllEdges edges = map snd edges"

section \<open>Checking the edges\<close>

datatype planner_event = EdgeAvailability string "rerr + availability"

text \<open>What the loop over the matching edges collects.\<close>

record 's route_scan =
  sc_candidates :: "'s route_candidate list"
  sc_maintenance :: "string option"
  sc_unavailable :: "string option"
  sc_min :: "string option"
  sc_max :: "string option"

definition empty_scan :: "'s route_scan" where
  "empty_scan = \<lparr> sc_candidates = [], sc_maintenance = None, sc_unavailable = None, sc_min = None, sc_max = None \<rparr>"

definition parse_amount :: "string \<Rightarrow> rerr + int" where
  "parse_amount s = (case js_BigInt s of
     Some n \<Rightarrow> Inr n | None \<Rightarrow> Inl (RErr R_SYNTAX (''Cannot convert '' @ s @ '' to a BigInt'')))"

datatype verdict = V_MAINTENANCE string | V_UNAVAILABLE string | V_BELOW string | V_ABOVE string | V_ELIGIBLE

text \<open>One edge: maintenance, availability, dynamic minimum, dynamic maximum, in this order.\<close>

definition judge_edge :: "int \<Rightarrow> availability \<Rightarrow> rerr + verdict" where
  "judge_edge amount a =
    (if av_isMaintenance a
     then Inr (V_MAINTENANCE (coalesce (av_reason a) ''Route edge is currently under maintenance''))
     else if \<not> av_isAvailable a \<or> \<not> av_recvEnabled a
     then Inr (V_UNAVAILABLE (coalesce (av_reason a) ''Route edge is currently unavailable''))
     else
       (case parse_amount (av_minAmountAtomic a) of
          Inl e \<Rightarrow> Inl e
        | Inr minAmount \<Rightarrow>
            if amount < minAmount then Inr (V_BELOW (av_minAmountAtomic a))
            else
              (case truthy_str (av_maxAmountAtomic a) of
                 None \<Rightarrow> Inr V_ELIGIBLE
               | Some m \<Rightarrow>
                   (case parse_amount m of
                      Inl e \<Rightarrow> Inl e
                    | Inr maxAmount \<Rightarrow> if amount > maxAmount then Inr (V_ABOVE m) else Inr V_ELIGIBLE))))"

definition note_verdict ::
  "string \<Rightarrow> asset_node \<Rightarrow> asset_node \<Rightarrow> 's edge \<Rightarrow> availability \<Rightarrow> verdict \<Rightarrow> 's route_scan \<Rightarrow> 's route_scan" where
  "note_verdict routeId source destination edge a v sc = (case v of
     V_MAINTENANCE r \<Rightarrow> sc\<lparr>sc_maintenance := Some r\<rparr>
   | V_UNAVAILABLE r \<Rightarrow> sc\<lparr>sc_unavailable := Some r\<rparr>
   | V_BELOW m \<Rightarrow> sc\<lparr>sc_min := Some m\<rparr>
   | V_ABOVE m \<Rightarrow> sc\<lparr>sc_max := Some m\<rparr>
   | V_ELIGIBLE \<Rightarrow> sc\<lparr>sc_candidates := sc_candidates sc @
       [\<lparr> rc_routeId = routeId, rc_edge = edge, rc_sourceNode = source,
          rc_destinationNode = destination, rc_availability = a \<rparr>]\<rparr>)"

fun scan_edges ::
  "('s \<Rightarrow> string) \<Rightarrow> asset_node \<Rightarrow> asset_node \<Rightarrow> int \<Rightarrow> 's edge list \<Rightarrow> 's route_scan
   \<Rightarrow> (rerr, planner_event, 's, 's route_scan) action" where
  "scan_edges uuid source destination amount [] sc = ret sc"
| "scan_edges uuid source destination amount (edge # edges) sc =
    bnd (call (EdgeAvailability (eg_id edge)) (eg_getRuntimeAvailability edge)) (\<lambda>a.
    case judge_edge amount a of
      Inl e \<Rightarrow> thr e
    | Inr v \<Rightarrow>
        bnd (ask uuid) (\<lambda>u.
        scan_edges uuid source destination amount edges
          (note_verdict (''route_'' @ u) source destination edge a v sc)))"

text \<open>Every candidate was disqualified: the most specific reason found.\<close>

definition no_candidate :: "string \<Rightarrow> 's route_scan \<Rightarrow> rerr" where
  "no_candidate amountAtomic sc =
    (case truthy_str (sc_maintenance sc) of Some r \<Rightarrow> RErr (R_ROUTER PROVIDER_MAINTENANCE) r
     | None \<Rightarrow>
    (case truthy_str (sc_unavailable sc) of Some r \<Rightarrow> RErr (R_ROUTER ROUTE_UNAVAILABLE) r
     | None \<Rightarrow>
    (case truthy_str (sc_min sc) of
       Some m \<Rightarrow> RErr (R_ROUTER AMOUNT_BELOW_MINIMUM) (''Amount '' @ amountAtomic @ '' is below live minimum '' @ m)
     | None \<Rightarrow>
    (case truthy_str (sc_max sc) of
       Some m \<Rightarrow> RErr (R_ROUTER AMOUNT_ABOVE_MAXIMUM) (''Amount '' @ amountAtomic @ '' exceeds live maximum '' @ m)
     | None \<Rightarrow> RErr (R_ROUTER ROUTE_UNAVAILABLE)
         ''No eligible route candidates currently available for requested parameters''))))"

section \<open>Ranking\<close>

definition trust_rank :: "edge_class \<Rightarrow> int" where
  "trust_rank c = (case c of SELF_CUSTODY_EDGE \<Rightarrow> 1 | ATOMIC_EDGE \<Rightarrow> 2 | PROTOCOL_EDGE \<Rightarrow> 3 | TRUSTED_PROVIDER_EDGE \<Rightarrow> 4)"

definition latency :: "'s route_candidate \<Rightarrow> int" where
  "latency c = coalesce (av_estimatedLatencyMs (rc_availability c)) 60000"

text \<open>\<open>collate\<close> is \<open>String.localeCompare\<close>.\<close>

definition compare_candidates ::
  "(string \<Rightarrow> string \<Rightarrow> int) \<Rightarrow> routing_policy \<Rightarrow> 's route_candidate \<Rightarrow> 's route_candidate \<Rightarrow> int" where
  "compare_candidates collate policy a b =
    (if policy = RP_TRUST_MINIMIZED
     then trust_rank (eg_edgeClass (rc_edge a)) - trust_rank (eg_edgeClass (rc_edge b))
     else if policy = RP_FASTEST then latency a - latency b
     else collate (eg_id (rc_edge a)) (eg_id (rc_edge b)))"

definition rankCandidates ::
  "(string \<Rightarrow> string \<Rightarrow> int) \<Rightarrow> 's route_candidate list \<Rightarrow> routing_policy \<Rightarrow> 's route_candidate list" where
  "rankCandidates collate candidates policy =
    (if length candidates \<le> 1 then candidates else js_sort (compare_candidates collate policy) candidates)"

section \<open>Finding routes\<close>

definition findRoutes ::
  "(string \<Rightarrow> string \<Rightarrow> int) \<Rightarrow> ('s \<Rightarrow> string) \<Rightarrow> 's edges \<Rightarrow> asset_node \<Rightarrow> asset_node \<Rightarrow> string
   \<Rightarrow> routing_policy \<Rightarrow> (rerr, planner_event, 's, 's route_candidate list) action" where
  "findRoutes collate uuid edges source destination amountAtomic policy =
    (case parse_amount amountAtomic of
       Inl e \<Rightarrow> thr e
     | Inr amount \<Rightarrow>
         let matchingEdges = filter (\<lambda>edge. eg_supportsRoute edge source destination) (getAllEdges edges)
         in if matchingEdges = []
            then thr (RErr (R_ROUTER ROUTE_NOT_FOUND)
              (''No route found from '' @ assetNodeToString source @ '' to '' @ assetNodeToString destination))
            else
              bnd (scan_edges uuid source destination amount matchingEdges empty_scan) (\<lambda>sc.
                if sc_candidates sc = [] then thr (no_candidate amountAtomic sc)
                else ret (rankCandidates collate (sc_candidates sc) policy)))"

definition createExecutionPlan ::
  "string \<Rightarrow> int \<Rightarrow> 's route_candidate \<Rightarrow> route_quote \<Rightarrow> string \<Rightarrow> string \<Rightarrow> execution_plan" where
  "createExecutionPlan uuid now candidate quote destinationAddress refundAddress = \<lparr>
     pl_planId = ''plan_'' @ uuid, pl_edgeId = eg_id (rc_edge candidate), pl_routeId = rc_routeId candidate,
     pl_quoteSnapshot = quote, pl_destinationAddress = destinationAddress,
     pl_refundAddress = refundAddress, pl_createdAt = now \<rparr>"

section \<open>Laws of ranking\<close>

lemma mset_rankCandidates: "mset (rankCandidates collate cs policy) = mset cs"
  by (simp add: rankCandidates_def)

lemma set_rankCandidates [simp]: "set (rankCandidates collate cs policy) = set cs"
  by (metis mset_rankCandidates set_mset_mset)

lemma sort_key_short: "length xs \<le> 1 \<Longrightarrow> sort_key f xs = xs"
  by (cases xs) auto

text \<open>A stable sort by a key with four values puts the elements of each value, in order, one group after the other.\<close>

lemma sort_in_groups:
  assumes "\<And>x. x \<in> set xs \<Longrightarrow> (f x :: int) \<in> {1, 2, 3, 4}"
  shows "sort_key f xs = filter (\<lambda>x. f x = 1) xs @ filter (\<lambda>x. f x = 2) xs @ filter (\<lambda>x. f x = 3) xs @ filter (\<lambda>x. f x = 4) xs"
    (is "_ = ?ys")
proof (rule properties_for_sort_key)
  show "mset ?ys = mset xs" using assms by (induction xs) auto
  show "filter (\<lambda>x. f k = f x) ?ys = filter (\<lambda>x. f k = f x) xs" if "k \<in> set ?ys" for k
    using that by (auto intro: filter_cong)
  show "sorted (map f ?ys)" using sorted_map_same [of f "\<lambda>_. k" xs for k] by (auto simp: sorted_append)
qed

text \<open>The candidates whose route is over an edge of this class, in the given order.\<close>

definition of_class :: "edge_class \<Rightarrow> 's route_candidate list \<Rightarrow> 's route_candidate list" where
  "of_class k cs = filter (\<lambda>c. eg_edgeClass (rc_edge c) = k) cs"

text \<open>What an edge says about its latency, a missing answer counting as a minute.\<close>

definition expected_ms :: "'s route_candidate \<Rightarrow> int" where
  "expected_ms c = (case av_estimatedLatencyMs (rc_availability c) of None \<Rightarrow> 60000 | Some ms \<Rightarrow> ms)"

lemma rank_by_trust:
  fixes cs :: "'s route_candidate list"
  shows "rankCandidates collate cs RP_TRUST_MINIMIZED =
    of_class SELF_CUSTODY_EDGE cs @ of_class ATOMIC_EDGE cs @ of_class PROTOCOL_EDGE cs @ of_class TRUSTED_PROVIDER_EDGE cs"
proof -
  let ?f = "\<lambda>c :: 's route_candidate. trust_rank (eg_edgeClass (rc_edge c))"
  have "compare_candidates collate RP_TRUST_MINIMIZED = (\<lambda>a b. ?f a - ?f b)"
    by (intro ext) (simp add: compare_candidates_def)
  then have sorted: "rankCandidates collate cs RP_TRUST_MINIMIZED = sort_key ?f cs"
    by (simp add: rankCandidates_def js_sort_key sort_key_short)
  have ranks: "trust_rank k = 1 \<longleftrightarrow> k = SELF_CUSTODY_EDGE" "trust_rank k = 2 \<longleftrightarrow> k = ATOMIC_EDGE"
    "trust_rank k = 3 \<longleftrightarrow> k = PROTOCOL_EDGE" "trust_rank k = 4 \<longleftrightarrow> k = TRUSTED_PROVIDER_EDGE" "trust_rank k \<in> {1, 2, 3, 4}" for k
    by (cases k; simp add: trust_rank_def)+
  show ?thesis unfolding sorted of_class_def ranks(1-4) [symmetric] by (rule sort_in_groups) (rule ranks(5))
qed

lemma rank_by_latency:
  fixes cs :: "'s route_candidate list"
  shows "rankCandidates collate cs RP_FASTEST = sort_key expected_ms cs"
proof -
  have "latency c = expected_ms c" for c :: "'s route_candidate"
    by (simp add: latency_def expected_ms_def coalesce_def)
  then have "compare_candidates collate RP_FASTEST = (\<lambda>a b :: 's route_candidate. expected_ms a - expected_ms b)"
    by (intro ext) (simp add: compare_candidates_def)
  then show ?thesis by (simp add: rankCandidates_def js_sort_key sort_key_short)
qed

text \<open>C38: The ranking of the planner. No policy drops or repeats a candidate. TRUST_MINIMIZED lists the self-custody routes first,
  then the atomic, the protocol and the trusted-provider ones; FASTEST lists by ascending latency, a missing one counting
  as a minute. Either way equally ranked candidates keep the order in which their edges were asked.\<close>

theorem rank_by_policy:
  "mset (rankCandidates collate cs policy) = mset cs \<and>
   rankCandidates collate cs RP_TRUST_MINIMIZED =
     of_class SELF_CUSTODY_EDGE cs @ of_class ATOMIC_EDGE cs @ of_class PROTOCOL_EDGE cs @ of_class TRUSTED_PROVIDER_EDGE cs \<and>
   sorted (map expected_ms (rankCandidates collate cs RP_FASTEST)) \<and>
   (\<forall>ms. filter (\<lambda>c. expected_ms c = ms) (rankCandidates collate cs RP_FASTEST) = filter (\<lambda>c. expected_ms c = ms) cs)"
  by (simp add: mset_rankCandidates rank_by_trust rank_by_latency sort_key_stable)

section \<open>Laws of the search\<close>

definition executable :: "int \<Rightarrow> availability \<Rightarrow> bool" where
  "executable amount a \<longleftrightarrow> \<not> av_isMaintenance a \<and> av_isAvailable a \<and> av_recvEnabled a \<and>
     (case js_BigInt (av_minAmountAtomic a) of None \<Rightarrow> False | Some m \<Rightarrow> m \<le> amount) \<and>
     (case truthy_str (av_maxAmountAtomic a) of None \<Rightarrow> True
      | Some x \<Rightarrow> (case js_BigInt x of None \<Rightarrow> False | Some m \<Rightarrow> amount \<le> m))"

lemma judge_eligible: "judge_edge amount a = Inr V_ELIGIBLE \<longleftrightarrow> executable amount a"
  by (auto simp: judge_edge_def executable_def parse_amount_def split: option.splits)

lemma note_candidates:
  "sc_candidates (note_verdict i src dst edge a v sc) = sc_candidates sc @
     (if v = V_ELIGIBLE then [\<lparr> rc_routeId = i, rc_edge = edge, rc_sourceNode = src,
        rc_destinationNode = dst, rc_availability = a \<rparr>] else [])"
  by (cases v) (simp_all add: note_verdict_def)

text \<open>A successful scan: what it logs is the answers, its new candidates are the executable ones, in order.\<close>

lemma scan_edges_result:
  assumes "scan_edges uuid src dst amount edges sc s = (Inr sc', t, s')"
  shows "\<exists>as. length as = length edges \<and>
    t = map (\<lambda>(e, a). EdgeAvailability (eg_id e) (Inr a)) (zip edges as) \<and>
    (\<exists>cs. sc_candidates sc' = sc_candidates sc @ cs \<and>
      map (\<lambda>c. (rc_edge c, rc_availability c)) cs = filter (\<lambda>(e, a). executable amount a) (zip edges as))"
  using assms
proof (induction edges arbitrary: sc s t)
  case Nil
  then show ?case by (auto simp: ret_def)
next
  case (Cons edge edges)
  obtain a t1 s1 t2 where c: "call (EdgeAvailability (eg_id edge)) (eg_getRuntimeAvailability edge) s = (Inr a, t1, s1)"
    and r: "(case judge_edge amount a of Inl e \<Rightarrow> thr e
        | Inr v \<Rightarrow> bnd (ask uuid) (\<lambda>u. scan_edges uuid src dst amount edges
            (note_verdict (''route_'' @ u) src dst edge a v sc))) s1 = (Inr sc', t2, s')" and t: "t = t1 @ t2"
    using Cons.prems by (auto elim: bnd_cases)
  have t1: "t1 = [EdgeAvailability (eg_id edge) (Inr a)]"
    using c by (auto simp: call_def split: prod.splits)
  from r obtain v where v: "judge_edge amount a = Inr v" by (cases "judge_edge amount a") (auto simp: thr_def)
  let ?sc = "note_verdict (''route_'' @ uuid s1) src dst edge a v sc"
  have "scan_edges uuid src dst amount edges ?sc s1 = (Inr sc', t2, s')"
    using r v by (simp add: bnd_def ask_def split: prod.splits)
  from Cons.IH [OF this] obtain as cs where ih: "length as = length edges"
      "t2 = map (\<lambda>(e, a). EdgeAvailability (eg_id e) (Inr a)) (zip edges as)"
      "sc_candidates sc' = sc_candidates ?sc @ cs"
      "map (\<lambda>c. (rc_edge c, rc_availability c)) cs = filter (\<lambda>(e, a). executable amount a) (zip edges as)"
    by blast
  have e: "v = V_ELIGIBLE \<longleftrightarrow> executable amount a" using v judge_eligible by force
  show ?case
    by (rule exI [of _ "a # as"]) (use ih t t1 e in \<open>auto simp: note_candidates\<close>)
qed

text \<open>C37: The planner offers exactly the routes that are executable now. When \<open>findRoutes\<close> returns, it
  has asked each registered edge that supports the pair once, in order, and its list is not empty and holds
  exactly the edges whose answer is executable: not in maintenance, available and receiving, the
  amount inside the live bounds.\<close>

theorem find_routes_exact:
  assumes "findRoutes collate uuid edges src dst text policy s = (Inr cs, t, s')"
    "matching = filter (\<lambda>e. eg_supportsRoute e src dst) (getAllEdges edges)"
  shows "cs \<noteq> [] \<and> (\<exists>amount as. js_BigInt text = Some amount \<and> length as = length matching \<and>
    t = map (\<lambda>(e, a). EdgeAvailability (eg_id e) (Inr a)) (zip matching as) \<and>
    (\<lambda>c. (rc_edge c, rc_availability c)) ` set cs = {(e, a). (e, a) \<in> set (zip matching as) \<and> executable amount a})"
proof -
  obtain amount where amount: "js_BigInt text = Some amount"
    using assms(1) by (auto simp: findRoutes_def parse_amount_def thr_def split: option.splits)
  have b: "bnd (scan_edges uuid src dst amount matching empty_scan) (\<lambda>sc.
      if sc_candidates sc = [] then thr (no_candidate text sc)
      else ret (rankCandidates collate (sc_candidates sc) policy)) s = (Inr cs, t, s')"
    using assms amount by (auto simp: findRoutes_def parse_amount_def Let_def thr_def split: if_splits)
  obtain sc where sc: "scan_edges uuid src dst amount matching empty_scan s = (Inr sc, t, s')"
      "sc_candidates sc \<noteq> []" "cs = rankCandidates collate (sc_candidates sc) policy"
    using b by (auto simp: ret_def thr_def split: if_splits elim!: bnd_cases)
  from scan_edges_result [OF sc(1)] obtain as where as: "length as = length matching"
      "t = map (\<lambda>(e, a). EdgeAvailability (eg_id e) (Inr a)) (zip matching as)"
      "map (\<lambda>c. (rc_edge c, rc_availability c)) (sc_candidates sc) =
         filter (\<lambda>(e, a). executable amount a) (zip matching as)"
    by (auto simp: empty_scan_def)
  have "(\<lambda>c. (rc_edge c, rc_availability c)) ` set cs = {(e, a). (e, a) \<in> set (zip matching as) \<and> executable amount a}"
    using arg_cong [OF as(3), where f = set] sc(3) by auto
  moreover have "set cs \<noteq> {}" using sc(2,3) by simp
  ultimately show ?thesis using amount as(1,2) by auto
qed

text \<open>Two edges, one of them in maintenance.\<close>

definition demo_availability :: "bool \<Rightarrow> availability" where
  "demo_availability down = \<lparr> av_isAvailable = True, av_recvEnabled = True, av_isMaintenance = down,
     av_minAmountAtomic = ''10'', av_maxAmountAtomic = Some ''500'', av_estimatedLatencyMs = None, av_reason = None \<rparr>"

definition demo_edge :: "string \<Rightarrow> bool \<Rightarrow> unit edge" where
  "demo_edge i down = \<lparr> eg_id = i, eg_edgeClass = PROTOCOL_EDGE, eg_supportsRoute = (\<lambda>_ _. True),
     eg_getRuntimeAvailability = (\<lambda>s. (Inr (demo_availability down), s)) \<rparr>"

theorem find_routes_exact_witness:
  "\<exists>cs t s'. findRoutes (\<lambda>_ _. 0) (\<lambda>_. ''u'') (create_planner [demo_edge ''a'' True, demo_edge ''b'' False])
      (createAssetNode ''BTC'' ''lightning'' None) (createAssetNode ''USDC'' ''base'' None) ''100'' RP_FASTEST () =
      (Inr cs, t, s') \<and> cs \<noteq> [] \<and> length t = 2"
proof -
  let ?edges = "create_planner [demo_edge ''a'' True, demo_edge ''b'' False]"
  let ?src = "createAssetNode ''BTC'' ''lightning'' None" and ?dst = "createAssetNode ''USDC'' ''base'' None"
  have m: "filter (\<lambda>e. eg_supportsRoute e ?src ?dst) (getAllEdges ?edges) = [demo_edge ''a'' True, demo_edge ''b'' False]"
    by (simp add: create_planner_def registerEdge_def getAllEdges_def demo_edge_def)
  have "is_ok (fst (findRoutes (\<lambda>_ _. 0) (\<lambda>_. ''u'') ?edges ?src ?dst ''100'' RP_FASTEST ()))"
    by code_simp
  then obtain cs t s' where f: "findRoutes (\<lambda>_ _. 0) (\<lambda>_. ''u'') ?edges ?src ?dst ''100'' RP_FASTEST () = (Inr cs, t, s')"
    by (metis is_ok_E prod.collapse)
  from find_routes_exact [OF f m [symmetric]] have "cs \<noteq> []" "length t = 2" by auto
  with f show ?thesis by blast
qed

end
