(* ===== verification/Orchestrator.thy ===== *)
theory Orchestrator
  imports Planner Exec_Store
begin

text \<open>
  The provider orchestrator (\<open>ExecutionOrchestrator\<close> of \<open>src/src/orchestrator/orchestrator.ts\<close>): getting a
  quote, initiating an execution, waiting for another worker, executing a plan, and reconciling with the provider.

  A handler is an action on the database, the in-flight keys of the process and a world no code
  here looks into. Before every store call other processes may write (\<open>oc_others\<close>, an arbitrary step on the whole
  state); every awaited provider or verifier call is arbitrary. Provider calls, verifier calls and the
  store calls that create, claim or move an execution are logged. Texts are those of the code, with interpolated
  numbers, ids and states left out; the raw payloads and transition metadata are left out.
\<close>

section \<open>Provider and verifier data\<close>

record create_request =
  xq_quoteId :: string
  xq_idempotencyKey :: string
  xq_intent :: normalized_intent
  xq_quote :: normalized_quote

record provider_result =
  pv_providerExecutionId :: string
  pv_orderToken :: "string option"
  pv_depositAddress :: string

datatype provider_status_kind =
    PS_WAITING_FOR_DEPOSIT | PS_DEPOSIT_RECEIVED | PS_PROCESSING | PS_SETTLING | PS_COMPLETED
  | PS_FAILED | PS_REFUNDED | PS_EXPIRED | PS_UNKNOWN

record provider_status =
  ps_status :: provider_status_kind
  ps_depositTxId :: "string option"
  ps_settleTxId :: "string option"
  ps_settleAmountActualAtomic :: "string option"
  ps_failureReason :: "string option"

record chain_request =
  vq_txHash :: string
  vq_network :: string
  vq_expectedRecipient :: string
  vq_expectedToken :: string
  vq_expectedMinAmountAtomic :: string

record chain_result =
  vr_verified :: bool
  vr_status :: on_chain_status
  vr_blockNumber :: "int option"
  vr_confirmedTokenContract :: "string option"
  vr_reason :: "string option"
  vr_evidence :: "destination_evidence option"

section \<open>State, events, context\<close>

datatype orch_event =
    PvQuote string "rerr + normalized_quote"
  | PvCreate string create_request "rerr + provider_result"
  | PvStatus string "string option" "string option" "rerr + provider_status"
  | PvCapabilities string "rerr + execution_class \<times> bool"
  | PvAvailability string "rerr + availability"
  | ChVerify chain_request "rerr + chain_result"
  | StCreate string "rerr + execution_row"
  | StClaim string "rerr + bool"
  | StMove string exec_state "rerr + execution_row"
  | AwaitExecution string "rerr + execution_row"

record 'w osys =
  o_db :: db
  o_inflight :: "string list"
  o_world :: 'w

type_synonym ('w, 'a) ocall = "'w osys \<Rightarrow> (rerr + 'a) \<times> 'w osys"
type_synonym ('w, 'a) oact = "(rerr, orch_event, 'w osys, 'a) action"

text \<open>\<open>None\<close> is a method or property the provider does not have.\<close>

record 'w provider =
  pr_capabilities :: "('w, execution_class \<times> bool) ocall option"
  pr_executionClass :: "execution_class option"
  pr_getQuote :: "normalized_intent \<Rightarrow> ('w, normalized_quote) ocall"
  pr_createExecution :: "create_request \<Rightarrow> ('w, provider_result) ocall"
  pr_getStatus :: "string option \<Rightarrow> string option \<Rightarrow> ('w, provider_status) ocall"
  pr_getRuntimeAvailability :: "('w, availability) ocall option"

text \<open>
  \<open>oc_plannerEdge\<close> is \<open>routePlanner?.getEdge\<close>, as the availability call of the edge; \<open>oc_now\<close> is \<open>nowFn\<close>, \<open>oc_date\<close>
  the system clock, \<open>oc_sleep\<close> a 25 ms timer with whatever runs meanwhile, \<open>oc_otherExecution\<close> the wait
  for the promise of the same key.
\<close>

record 'w orchestrator =
  oc_providers :: "(string \<times> 'w provider) list"
  oc_plannerEdge :: "string \<Rightarrow> ('w, availability) ocall option"
  oc_verifySettlement :: "chain_request \<Rightarrow> ('w, chain_result) ocall"
  oc_maxRecoveryAttempts :: int
  oc_now :: "'w osys \<Rightarrow> int"
  oc_date :: "'w osys \<Rightarrow> int"
  oc_uuid :: "'w osys \<Rightarrow> string"
  oc_others :: "'w osys \<Rightarrow> 'w osys"
  oc_sleep :: "'w osys \<Rightarrow> 'w osys"
  oc_otherExecution :: "string \<Rightarrow> ('w, execution_row) ocall"

definition the_provider :: "'w orchestrator \<Rightarrow> string \<Rightarrow> 'w provider option" where
  "the_provider c i = map_of (oc_providers c) i"

section \<open>Store calls\<close>

definition store_error :: "db_error \<Rightarrow> rerr" where
  "store_error e = (case e of
     RouterErr code \<Rightarrow> RErr (R_ROUTER code) ''Idempotency key was previously used with a different intent payload''
   | ExecutionNotFound i \<Rightarrow> RErr (R_DB e) (''Execution ['' @ i @ ''] not found'')
   | _ \<Rightarrow> RErr (R_DB e) '''')"

text \<open>Other processes first, then the store operation.\<close>

definition store_call ::
  "'w orchestrator \<Rightarrow> ('w osys \<Rightarrow> db \<Rightarrow> (db_error + 'a) \<times> db) \<Rightarrow> ('w, 'a) ocall" where
  "store_call c f s0 =
    (let s = oc_others c s0 in
     case f s (o_db s) of
       (Inl e, d) \<Rightarrow> (Inl (store_error e), s\<lparr>o_db := d\<rparr>)
     | (Inr x, d) \<Rightarrow> (Inr x, s\<lparr>o_db := d\<rparr>))"

definition peek :: "'w orchestrator \<Rightarrow> (db \<Rightarrow> 'a) \<Rightarrow> ('w, 'a) oact" where
  "peek c f = seq (change (oc_others c)) (ask (\<lambda>s. f (o_db s)))"

definition st_create ::
  "'w orchestrator \<Rightarrow> string \<Rightarrow> normalized_intent \<Rightarrow> execution_plan option \<Rightarrow> ('w, execution_row) oact" where
  "st_create c key intent plan =
     call (StCreate key) (store_call c (\<lambda>s d.
       createExecution (\<lambda>d'. o_db (oc_others c (s\<lparr>o_db := d'\<rparr>))) key intent plan (oc_date c s)
         (''exec_'' @ oc_uuid c s) d))"

definition st_claim ::
  "'w orchestrator \<Rightarrow> string \<Rightarrow> string \<Rightarrow> string \<Rightarrow> string \<Rightarrow> int \<Rightarrow> ('w, bool) oact" where
  "st_claim c i operation journalId providerId startTime =
     call (StClaim i) (store_call c (\<lambda>s d.
       case acquireDispatchClaim i operation journalId providerId startTime (oc_date c s) d of
         (granted, d') \<Rightarrow> (Inr granted, d')))"

definition st_move ::
  "'w orchestrator \<Rightarrow> string \<Rightarrow> exec_state \<Rightarrow> string \<Rightarrow> string \<Rightarrow> exec_updates \<Rightarrow> ('w, execution_row) oact" where
  "st_move c i toState reason trigger u =
     call (StMove i toState) (store_call c (\<lambda>s d. transitionState i toState reason trigger u (oc_date c s) d))"

definition st_journal :: "'w orchestrator \<Rightarrow> string \<Rightarrow> (int \<Rightarrow> journal_updates) \<Rightarrow> ('w, unit) oact" where
  "st_journal c journalId u = change (\<lambda>s0. let s = oc_others c s0 in
     s\<lparr>o_db := updateProviderRequest journalId (u (oc_date c s)) (o_db s)\<rparr>)"

definition check_transition :: "exec_state \<Rightarrow> exec_state \<Rightarrow> ('w, unit) oact" where
  "check_transition fromState toState = (case validateTransition (Some fromState) toState None of
     Inl e \<Rightarrow> thr (RErr (R_TRANSITION e) ''Illegal state transition'') | Inr _ \<Rightarrow> ret ())"

text \<open>\<open>findById(id)!\<close>\<close>

definition current_execution :: "'w orchestrator \<Rightarrow> string \<Rightarrow> ('w, execution_row) oact" where
  "current_execution c i = bnd (peek c (findById i)) (\<lambda>r.
     case r of None \<Rightarrow> thr (RErr R_TYPE ''Cannot read properties of null'') | Some x \<Rightarrow> ret x)"

definition failure :: "string \<Rightarrow> exec_updates" where
  "failure reason = no_exec_updates\<lparr>xu_failureReason := Some (Some reason)\<rparr>"

section \<open>Quotes\<close>

definition getQuote :: "'w orchestrator \<Rightarrow> normalized_intent \<Rightarrow> string option \<Rightarrow> ('w, normalized_quote) oact" where
  "getQuote c intent preferredProviderId =
    (let providerId = (case preferredProviderId of Some i \<Rightarrow> Some i
                       | None \<Rightarrow> (case oc_providers c of [] \<Rightarrow> None | (i, _) # _ \<Rightarrow> Some i))
     in case truthy_str providerId of
          None \<Rightarrow> thr (RErr R_ERROR ''No providers registered in orchestrator'')
        | Some i \<Rightarrow>
            (case the_provider c i of
               None \<Rightarrow> thr (RErr R_ERROR (''Provider ['' @ i @ ''] not found''))
             | Some p \<Rightarrow> call (PvQuote i) (pr_getQuote p intent)))"

section \<open>Reconciling with the provider\<close>

definition handleRecoveryRetry :: "'w orchestrator \<Rightarrow> execution_row \<Rightarrow> string \<Rightarrow> ('w, execution_row) oact" where
  "handleRecoveryRetry c record reason =
    (let attempts = ex_recovery_attempts record + 1
     in if attempts \<ge> oc_maxRecoveryAttempts c then
          (let fullReason = ''Exceeded max recovery attempts. Human inspection required: '' @ reason
           in st_move c (ex_id record) ES_MANUAL_REVIEW fullReason ''RECOVERY_WORKER''
                ((failure fullReason)\<lparr>xu_recoveryAttempts := Some attempts\<rparr>))
        else
          st_move c (ex_id record) ES_RECOVERY_REQUIRED (''Recovery attempt failed: '' @ reason) ''RECOVERY_WORKER''
            (no_exec_updates\<lparr>xu_recoveryAttempts := Some attempts\<rparr>))"

definition source_evidence_of :: "execution_row \<Rightarrow> string option \<Rightarrow> int \<Rightarrow> int option \<Rightarrow> int option \<Rightarrow> source_evidence" where
  "source_evidence_of record txId confirmations detectedAt confirmedAt = \<lparr>
     se_network = ni_sourceNetwork (ex_intent record), se_asset = ni_sourceAsset (ex_intent record),
     se_amountAtomic = ni_sourceAmountAtomic (ex_intent record),
     se_depositAddressOrInvoice = coalesce (ex_deposit_address record) ''unknown'',
     se_txIdOrPaymentHash = txId, se_confirmations = confirmations, se_detectedAt = detectedAt,
     se_confirmedAt = confirmedAt, se_evidenceSource = SE_PROVIDER_STATUS \<rparr>"

definition on_waiting :: "'w orchestrator \<Rightarrow> execution_row \<Rightarrow> ('w, execution_row) oact" where
  "on_waiting c record =
    bnd (current_execution c (ex_id record)) (\<lambda>current.
    if ex_state current = ES_RECOVERING then
      st_move c (ex_id record) ES_DEPOSIT_INSTRUCTION_READY
        ''Reconciled: Provider order verified active; awaiting inbound deposit'' ''RECOVERY_WORKER''
        (no_exec_updates\<lparr>xu_sourceFundsMoved := Some False\<rparr>)
    else ret current)"

definition on_deposit :: "'w orchestrator \<Rightarrow> execution_row \<Rightarrow> provider_status \<Rightarrow> ('w, execution_row) oact" where
  "on_deposit c record status =
    bnd (ask (oc_date c)) (\<lambda>now.
    st_move c (ex_id record) ES_SOURCE_FUNDS_DETECTED ''Inbound deposit recognized by provider (0-conf)'' ''POLLING''
      (no_exec_updates\<lparr>
         xu_sourceEvidence := Some (Some (source_evidence_of record (ps_depositTxId status) 0 (Some now) None)),
         xu_sourceFundsMoved := Some True\<rparr>))"

definition on_processing :: "'w orchestrator \<Rightarrow> execution_row \<Rightarrow> provider_status \<Rightarrow> ('w, execution_row) oact" where
  "on_processing c record status =
    bnd (ask (oc_date c)) (\<lambda>now.
    let evidence = source_evidence_of record (ps_depositTxId status) 1
          (some_or (Option.bind (ex_source_evidence record) se_detectedAt) (Some now)) (Some now)
    in seq (if ex_state record \<in> {ES_DEPOSIT_INSTRUCTION_READY, ES_SOURCE_FUNDS_DETECTED, ES_RECOVERING}
            then seq (st_move c (ex_id record) ES_SOURCE_FUNDS_CONFIRMED
                        ''Inbound deposit confirmed; source funds securely locked'' ''POLLING''
                        (no_exec_updates\<lparr>xu_sourceEvidence := Some (Some evidence), xu_sourceFundsMoved := Some True\<rparr>))
                   (ret ())
            else ret ())
       (st_move c (ex_id record) ES_SWAP_IN_PROGRESS
          ''Provider accepted deposit and is executing the asset transformation'' ''POLLING''
          (no_exec_updates\<lparr>xu_sourceFundsMoved := Some True\<rparr>)))"

definition on_settling :: "'w orchestrator \<Rightarrow> execution_row \<Rightarrow> ('w, execution_row) oact" where
  "on_settling c record =
     st_move c (ex_id record) ES_SWAP_IN_PROGRESS
       ''Conversion complete; provider is broadcasting payout transaction'' ''POLLING''
       (no_exec_updates\<lparr>xu_sourceFundsMoved := Some True\<rparr>)"

definition verification_request :: "execution_row \<Rightarrow> string \<Rightarrow> chain_request" where
  "verification_request record settleTxId = \<lparr>
     vq_txHash = settleTxId, vq_network = ni_targetNetwork (ex_intent record),
     vq_expectedRecipient = ni_destinationAddress (ex_intent record),
     vq_expectedToken = ni_targetAsset (ex_intent record),
     vq_expectedMinAmountAtomic = (case ex_quote record of Some q \<Rightarrow> nq_settleAmountAtomic q | None \<Rightarrow> ''0'') \<rparr>"

text \<open>The evidence stored at completion: the verifier's own, else built from record and status.\<close>

definition completion_evidence ::
  "execution_row \<Rightarrow> provider_status \<Rightarrow> string \<Rightarrow> chain_result \<Rightarrow> int \<Rightarrow> rerr + destination_evidence" where
  "completion_evidence record status settleTxId v now =
    (case vr_evidence v of
       Some ev \<Rightarrow> Inr ev
     | None \<Rightarrow>
         (case (case ps_settleAmountActualAtomic status of Some a \<Rightarrow> Some a
                | None \<Rightarrow> map_option nq_settleAmountAtomic (ex_quote record)) of
            None \<Rightarrow> Inl (RErr R_TYPE ''Cannot read properties of null'')
          | Some amount \<Rightarrow> Inr \<lparr>
              de_network = ni_targetNetwork (ex_intent record), de_asset = ni_targetAsset (ex_intent record),
              de_amountAtomic = amount, de_destinationAddress = ni_destinationAddress (ex_intent record),
              de_txHash = Some settleTxId, de_blockNumber = vr_blockNumber v,
              de_tokenContract = vr_confirmedTokenContract v, de_verifiedOnChain = True,
              de_onChainStatus = OC_CONFIRMED, de_verifiedAt = Some now, de_evidenceSource = BASE_RPC \<rparr>))"

definition on_completed :: "'w orchestrator \<Rightarrow> execution_row \<Rightarrow> provider_status \<Rightarrow> ('w, execution_row) oact" where
  "on_completed c record status =
    (case truthy_str (ps_settleTxId status) of
       None \<Rightarrow> st_move c (ex_id record) ES_MANUAL_REVIEW
         ''Provider reported COMPLETED but provided no settlement tx hash'' ''RECOVERY_WORKER''
         (failure ''Missing settlement tx hash from provider'')
     | Some settleTxId \<Rightarrow>
         seq (st_move c (ex_id record) ES_DESTINATION_TX_DETECTED
                (''Provider reported settlement broadcast with txHash: '' @ settleTxId) ''POLLING'' no_exec_updates)
         (let request = verification_request record settleTxId in
          bnd (call (ChVerify request) (oc_verifySettlement c request)) (\<lambda>v.
          if \<not> vr_verified v then
            (let reason = ''Chain verification discrepancy: '' @ coalesce (vr_reason v) ''undefined''
             in st_move c (ex_id record) ES_MANUAL_REVIEW reason ''RECOVERY_WORKER''
                  ((failure reason)\<lparr>xu_destinationEvidence := Some (vr_evidence v),
                     xu_destinationFundsArrived := Some False\<rparr>))
          else
            bnd (ask (oc_date c)) (\<lambda>now.
            case completion_evidence record status settleTxId v now of
              Inl e \<Rightarrow> thr e
            | Inr evidence \<Rightarrow>
                st_move c (ex_id record) ES_COMPLETED
                  ''Settlement independently verified on Base blockchain (Receipt Status 1, Token & Recipient Verified)''
                  ''RECOVERY_WORKER''
                  (no_exec_updates\<lparr>xu_destinationEvidence := Some (Some evidence),
                     xu_destinationFundsArrived := Some True, xu_sourceFundsMoved := Some True\<rparr>)))))"

definition on_refunded :: "'w orchestrator \<Rightarrow> execution_row \<Rightarrow> provider_status \<Rightarrow> ('w, execution_row) oact" where
  "on_refunded c record status =
    (case truthy_str (ps_settleTxId status) of
       None \<Rightarrow>
         (let reason = ''Provider reported REFUNDED but provided zero refund transaction evidence or hash''
          in st_move c (ex_id record) ES_MANUAL_REVIEW reason ''RECOVERY_WORKER'' (failure reason))
     | Some txId \<Rightarrow>
         st_move c (ex_id record) ES_REFUNDED
           (''Provider verified funds refunded to caller refund address with tx: '' @ txId) ''RECOVERY_WORKER''
           (no_exec_updates\<lparr>xu_sourceFundsMoved := Some True\<rparr>))"

definition awaiting_deposit :: "exec_state \<Rightarrow> bool" where
  "awaiting_deposit st \<longleftrightarrow> st \<in> {ES_DEPOSIT_INSTRUCTION_READY, ES_RECOVERING}"

definition on_expired :: "'w orchestrator \<Rightarrow> execution_row \<Rightarrow> ('w, execution_row) oact" where
  "on_expired c record =
    bnd (current_execution c (ex_id record)) (\<lambda>current.
    if awaiting_deposit (ex_state current) then
      st_move c (ex_id record) ES_FAILED ''Provider order expired with zero funds deposited'' ''RECOVERY_WORKER''
        ((failure ''Deposit window expired with zero deposit'')\<lparr>xu_sourceFundsMoved := Some False\<rparr>)
    else ret current)"

definition on_failed :: "'w orchestrator \<Rightarrow> execution_row \<Rightarrow> provider_status \<Rightarrow> ('w, execution_row) oact" where
  "on_failed c record status =
    bnd (current_execution c (ex_id record)) (\<lambda>current.
    if ex_source_funds_moved current \<or> haveSourceFundsMoved (ex_state current) then
      st_move c (ex_id record) ES_MANUAL_REVIEW
        ''CRITICAL DISCREPANCY: Provider reported FAILED, but source funds have already moved. Manual intervention required.''
        ''RECOVERY_WORKER''
        (failure (coalesce (ps_failureReason status) ''Provider reported FAILED after source deposit''))
    else if awaiting_deposit (ex_state current) then
      st_move c (ex_id record) ES_FAILED
        (''Provider order cancelled/failed with verified zero deposit: '' @
           coalesce (ps_failureReason status) ''Cancelled by provider'') ''RECOVERY_WORKER''
        ((failure (coalesce (ps_failureReason status) ''Provider reported FAILED with zero deposit''))
           \<lparr>xu_sourceFundsMoved := Some False\<rparr>)
    else ret current)"

definition on_status :: "'w orchestrator \<Rightarrow> execution_row \<Rightarrow> provider_status \<Rightarrow> ('w, execution_row) oact" where
  "on_status c record status = (case ps_status status of
     PS_WAITING_FOR_DEPOSIT \<Rightarrow> on_waiting c record
   | PS_DEPOSIT_RECEIVED \<Rightarrow> on_deposit c record status
   | PS_PROCESSING \<Rightarrow> on_processing c record status
   | PS_SETTLING \<Rightarrow> on_settling c record
   | PS_COMPLETED \<Rightarrow> on_completed c record status
   | PS_REFUNDED \<Rightarrow> on_refunded c record status
   | PS_EXPIRED \<Rightarrow> on_expired c record
   | PS_FAILED \<Rightarrow> on_failed c record status
   | PS_UNKNOWN \<Rightarrow> handleRecoveryRetry c record ''Provider returned unhandled status: UNKNOWN'')"

text \<open>
  No provider id is stored: \<open>Some\<close> is the execution after the decision, \<open>None\<close> lets the status
  query go on.
\<close>

definition missing_provider_id ::
  "'w orchestrator \<Rightarrow> string \<Rightarrow> 'w provider \<Rightarrow> execution_row \<Rightarrow> ('w, execution_row option) oact" where
  "missing_provider_id c providerId p record =
    bnd (case pr_capabilities p of
           Some f \<Rightarrow> call (PvCapabilities providerId) f
         | None \<Rightarrow> ret (coalesce (pr_executionClass p) PASSIVE_DEPOSIT, False))
      (\<lambda>(executionClass, supportsStrongIdempotency).
        if executionClass = ACTIVE_EXECUTION then
          bnd (st_move c (ex_id record) ES_MANUAL_REVIEW
                 ''ACTIVE_EXECUTION_AMBIGUITY: Outbound execution timed out before confirmation. Provider is Class B (Active Execution); funds may have moved. Escalating to MANUAL_REVIEW.''
                 ''RECOVERY_WORKER''
                 (failure ''ACTIVE_EXECUTION_AMBIGUITY: Active execution provider cannot safely fail without deterministic proof.''))
              (\<lambda>r. ret (Some r))
        else if supportsStrongIdempotency then ret None
        else if ex_deposit_address record = None then
          bnd (st_move c (ex_id record) ES_FAILED
                 ''PASSIVE_DEPOSIT_AMBIGUITY_ABORT: PROVIDER_DOES_NOT_SUPPORT_STRONG_EXECUTION_IDEMPOTENCY: Outbound order creation timed out before providerExecutionId was received. Verified zero deposit address was issued; safe failure enforced.''
                 ''RECOVERY_WORKER''
                 ((failure ''PASSIVE_DEPOSIT_AMBIGUITY_ABORT: PROVIDER_DOES_NOT_SUPPORT_STRONG_EXECUTION_IDEMPOTENCY: Ambiguous create on passive deposit provider aborted safely.'')
                    \<lparr>xu_sourceFundsMoved := Some False\<rparr>))
              (\<lambda>r. ret (Some r))
        else
          bnd (st_move c (ex_id record) ES_MANUAL_REVIEW
                 ''Deposit address exists but providerExecutionId is missing and provider does not support client idempotency lookup.''
                 ''RECOVERY_WORKER'' (failure ''Missing provider ID with active deposit address''))
              (\<lambda>r. ret (Some r)))"

definition query_status ::
  "'w orchestrator \<Rightarrow> string \<Rightarrow> 'w provider \<Rightarrow> execution_row \<Rightarrow> ('w, execution_row) oact" where
  "query_status c providerId p record =
    seq (if ex_state record = ES_RECOVERY_REQUIRED
         then seq (st_move c (ex_id record) ES_RECOVERING ''Starting automated provider status query''
                     ''RECOVERY_WORKER'' no_exec_updates) (ret ())
         else ret ())
    (attempt
       (bnd (call (PvStatus providerId (ex_provider_execution_id record) (ex_order_token record))
               (pr_getStatus p (ex_provider_execution_id record) (ex_order_token record)))
          (on_status c record))
       (\<lambda>e. handleRecoveryRetry c record (''Status query failed: '' @ rerr_message e)))"

definition reconcileExecution :: "'w orchestrator \<Rightarrow> string \<Rightarrow> ('w, execution_row) oact" where
  "reconcileExecution c executionId =
    bnd (peek c (findById executionId)) (\<lambda>found.
    case found of
      None \<Rightarrow> thr (RErr R_ERROR (''Execution ['' @ executionId @ ''] not found''))
    | Some record \<Rightarrow>
        if isTerminal (ex_state record) then ret record
        else
          (case truthy_str (ex_provider_id record) of
             None \<Rightarrow> ret record
           | Some providerId \<Rightarrow>
               (case the_provider c providerId of
                  None \<Rightarrow> ret record
                | Some p \<Rightarrow>
                    bnd (if truthy_str (ex_provider_execution_id record) = None
                         then missing_provider_id c providerId p record else ret None) (\<lambda>done.
                    case done of
                      Some r \<Rightarrow> ret r
                    | None \<Rightarrow> query_status c providerId p record))))"

section \<open>Waiting for another worker\<close>

text \<open>
  The polling loop, with fuel: it polls while less than 2000 ms have passed. A clock that moves by at
  least a millisecond per sleep makes 2001 rounds enough (\<open>await_fuel_enough\<close> in \<open>Orch_Laws\<close>); without it the code
  polls for ever, as does the value here.
\<close>

fun await_loop :: "'w orchestrator \<Rightarrow> nat \<Rightarrow> string \<Rightarrow> int \<Rightarrow> ('w, execution_row) oact" where
  "await_loop c 0 i startTime = thr (RErr R_DIVERGES ''The clock does not advance'')"
| "await_loop c (Suc fuel) i startTime =
    bnd (ask (oc_date c)) (\<lambda>now.
    if now - startTime < 2000 then
      bnd (peek c (findById i)) (\<lambda>found.
      case found of
        None \<Rightarrow> thr (RErr R_ERROR (''Execution ['' @ i @ ''] not found''))
      | Some current \<Rightarrow>
          if truthy_str (ex_deposit_address current) \<noteq> None then ret current
          else if ex_state current \<noteq> ES_EXECUTING \<and> ex_state current \<noteq> ES_EXECUTION_PENDING then ret current
          else seq (change (oc_sleep c)) (await_loop c fuel i startTime))
    else reconcileExecution c i)"

definition awaitOrReconcileExecution :: "'w orchestrator \<Rightarrow> string \<Rightarrow> ('w, execution_row) oact" where
  "awaitOrReconcileExecution c i = bnd (ask (oc_date c)) (\<lambda>startTime. await_loop c 2001 i startTime)"

section \<open>Initiating an execution\<close>

definition default_plan :: "string \<Rightarrow> int \<Rightarrow> normalized_intent \<Rightarrow> normalized_quote \<Rightarrow> execution_plan" where
  "default_plan uuid now intent quote = \<lparr>
     pl_planId = ''plan_'' @ uuid, pl_edgeId = nq_providerId quote, pl_routeId = ''route_'' @ nq_quoteId quote,
     pl_quoteSnapshot = \<lparr>
       rq_quoteId = nq_quoteId quote, rq_edgeId = nq_providerId quote,
       rq_sourceNode = createAssetNode (nq_sourceAsset quote) (nq_sourceNetwork quote) None,
       rq_destinationNode = createAssetNode (nq_targetAsset quote) (nq_targetNetwork quote) None,
       rq_inputAmountAtomic = nq_depositAmountAtomic quote,
       rq_estimatedOutputAmountAtomic = nq_settleAmountAtomic quote, rq_rate = nq_rate quote,
       rq_networkFeeEstimatedAtomic = nq_networkFeeEstimatedAtomic quote,
       rq_minAmountAtomic = nq_minDepositAtomic quote, rq_maxAmountAtomic = nq_maxDepositAtomic quote,
       rq_expiresAt = nq_expiresAt quote, rq_edgeClass = TRUSTED_PROVIDER_EDGE,
       rq_executionClass = PASSIVE_DEPOSIT \<rparr>,
     pl_destinationAddress = ni_destinationAddress intent, pl_refundAddress = ni_refundAddress intent,
     pl_createdAt = now \<rparr>"

text \<open>An execution another worker has already moved on.\<close>

definition dispatched_elsewhere :: "exec_state \<Rightarrow> bool" where
  "dispatched_elsewhere st \<longleftrightarrow> st \<in> {ES_QUOTED, ES_EXECUTION_PENDING, ES_EXECUTING}"

definition existing_execution :: "'w orchestrator \<Rightarrow> execution_row \<Rightarrow> ('w, execution_row) oact" where
  "existing_execution c record =
    (if truthy_str (ex_deposit_address record) \<noteq> None then ret record
     else if dispatched_elsewhere (ex_state record) then awaitOrReconcileExecution c (ex_id record)
     else ret record)"

definition is_definitive :: "string \<Rightarrow> bool" where
  "is_definitive m \<longleftrightarrow> str_includes m ''400'' \<or> str_includes m ''Invalid'' \<or> str_includes m ''BAD_USER_INPUT'' \<or>
     str_includes m ''LIMIT_MIN'' \<or> str_includes m ''MAINTENANCE''"

definition no_journal_updates :: journal_updates where
  "no_journal_updates = \<lparr> ju_requestCompletedAt = None, ju_providerExecutionId = None,
     ju_resultClassification = None, ju_responsePersisted = None, ju_errorMessage = None \<rparr>"

definition dispatch_provider ::
  "'w orchestrator \<Rightarrow> string \<Rightarrow> 'w provider \<Rightarrow> create_request \<Rightarrow> string \<Rightarrow> string \<Rightarrow> ('w, execution_row) oact" where
  "dispatch_provider c providerId p request i journalId =
    bnd (call (PvCreate providerId request) (pr_createExecution p request)) (\<lambda>result.
    seq (check_transition ES_EXECUTING ES_DEPOSIT_INSTRUCTION_READY)
    (bnd (st_move c i ES_DEPOSIT_INSTRUCTION_READY
            ''Deposit instructions generated by provider; awaiting inbound asset transfer'' ''API''
            (no_exec_updates\<lparr>xu_providerExecutionId := Some (Some (pv_providerExecutionId result)),
               xu_orderToken := Some (pv_orderToken result),
               xu_depositAddress := Some (Some (pv_depositAddress result)),
               xu_sourceFundsMoved := Some False, xu_destinationFundsArrived := Some False\<rparr>))
       (\<lambda>updatedRecord.
         seq (st_journal c journalId (\<lambda>now. no_journal_updates\<lparr>ju_requestCompletedAt := Some now,
                ju_providerExecutionId := Some (pv_providerExecutionId result),
                ju_resultClassification := Some RC_SUCCESS, ju_responsePersisted := Some True\<rparr>))
             (ret updatedRecord))))"

definition dispatch_error :: "'w orchestrator \<Rightarrow> string \<Rightarrow> string \<Rightarrow> rerr \<Rightarrow> ('w, execution_row) oact" where
  "dispatch_error c i journalId err =
    (let errorMessage = rerr_message err
     in seq (st_journal c journalId (\<lambda>now. no_journal_updates\<lparr>ju_requestCompletedAt := Some now,
               ju_resultClassification :=
                 Some (if is_definitive errorMessage then RC_ERROR else RC_AMBIGUOUS_TIMEOUT),
               ju_errorMessage := Some (take 500 errorMessage)\<rparr>))
        (if is_definitive errorMessage then
           seq (check_transition ES_EXECUTING ES_FAILED)
             (st_move c i ES_FAILED
                (''Definitively rejected by provider before order creation: '' @ errorMessage) ''API''
                ((failure errorMessage)\<lparr>xu_sourceFundsMoved := Some False\<rparr>))
         else
           seq (check_transition ES_EXECUTING ES_RECOVERY_REQUIRED)
             (bnd (st_move c i ES_RECOVERY_REQUIRED
                (''Ambiguous response during provider dispatch: '' @ errorMessage @ ''. Automated reconciliation required.'')
                ''API'' (failure errorMessage)) (\<lambda>recoveryRecord.
              reconcileExecution c (ex_id recoveryRecord)))))"

definition dispatch_execution ::
  "'w orchestrator \<Rightarrow> string \<Rightarrow> normalized_intent \<Rightarrow> normalized_quote \<Rightarrow> string \<Rightarrow> ('w, execution_row) oact" where
  "dispatch_execution c idempotencyKey intent quote i =
    (case the_provider c (nq_providerId quote) of
       None \<Rightarrow> st_move c i ES_RECOVERY_REQUIRED ''Configured provider missing from registry'' ''API''
                 (failure ''Missing provider adapter'')
     | Some p \<Rightarrow>
         bnd (ask (oc_uuid c)) (\<lambda>u.
         let journalId = ''jnl_'' @ u in
         bnd (ask (oc_date c)) (\<lambda>startTime.
         bnd (st_claim c i ''createExecution'' journalId (nq_providerId quote) startTime) (\<lambda>dispatchClaimed.
         if \<not> dispatchClaimed then awaitOrReconcileExecution c i
         else
           (let request = \<lparr> xq_quoteId = nq_quoteId quote, xq_idempotencyKey = idempotencyKey,
                  xq_intent = intent, xq_quote = quote \<rparr>
            in attempt (dispatch_provider c (nq_providerId quote) p request i journalId)
                 (dispatch_error c i journalId))))))"

definition executeInternal ::
  "'w orchestrator \<Rightarrow> string \<Rightarrow> normalized_intent \<Rightarrow> normalized_quote \<Rightarrow> execution_plan option
   \<Rightarrow> ('w, execution_row) oact" where
  "executeInternal c idempotencyKey intent quote plan =
    bnd (ask (oc_now c)) (\<lambda>now.
    if nq_expiresAt quote \<le> now then
      bnd (st_create c idempotencyKey intent None) (\<lambda>expiredRecord.
      st_move c (ex_id expiredRecord) ES_FAILED ''Cannot initiate execution: Quote has already expired'' ''API''
        (failure ''Quote expired prior to execution dispatch''))
    else
      bnd (ask (oc_uuid c)) (\<lambda>u.
      bnd (ask (oc_date c)) (\<lambda>date.
      let executionPlan = coalesce plan (default_plan u date intent quote) in
      bnd (st_create c idempotencyKey intent (Some executionPlan)) (\<lambda>record.
      if ex_state record \<noteq> ES_CREATED then existing_execution c record
      else
        seq (check_transition (ex_state record) ES_QUOTED)
        (seq (st_move c (ex_id record) ES_QUOTED ''Quote secured from provider'' ''API''
                (no_exec_updates\<lparr>xu_selectedQuote := Some (Some quote),
                   xu_providerId := Some (Some (nq_providerId quote)), xu_plan := Some (Some executionPlan)\<rparr>))
        (seq (check_transition ES_QUOTED ES_EXECUTION_PENDING)
        (seq (st_move c (ex_id record) ES_EXECUTION_PENDING
                ''Execution authorized by client; locked against duplicate dispatches'' ''API'' no_exec_updates)
        (dispatch_execution c idempotencyKey intent quote (ex_id record)))))))))"

definition initiateExecution ::
  "'w orchestrator \<Rightarrow> string \<Rightarrow> normalized_intent \<Rightarrow> normalized_quote \<Rightarrow> execution_plan option
   \<Rightarrow> ('w, execution_row) oact" where
  "initiateExecution c idempotencyKey intent quote plan =
    bnd (ask (\<lambda>s. idempotencyKey \<in> set (o_inflight s))) (\<lambda>inFlight.
    if inFlight then call (AwaitExecution idempotencyKey) (oc_otherExecution c idempotencyKey)
    else
      bnd (peek c (findByIdempotencyKey idempotencyKey)) (\<lambda>found.
      case found of
        Some existing \<Rightarrow>
          if \<not> areIntentsSemanticallyEqual (ex_intent existing) intent
          then thr (RErr (R_ROUTER IDEMPOTENCY_CONFLICT)
            ''Idempotency key was previously used with a different intent payload'')
          else existing_execution c existing
      | None \<Rightarrow>
          seq (change (\<lambda>s. s\<lparr>o_inflight := idempotencyKey # o_inflight s\<rparr>))
          (ensure (executeInternal c idempotencyKey intent quote plan)
             (change (\<lambda>s. s\<lparr>o_inflight := filter (\<lambda>k. k \<noteq> idempotencyKey) (o_inflight s)\<rparr>)))))"

section \<open>Executing a plan\<close>

text \<open>The availability check of an edge right before dispatch.\<close>

definition plan_available :: "string \<Rightarrow> availability \<Rightarrow> ('w, unit) oact" where
  "plan_available inputAmountAtomic a =
    (if av_isMaintenance a
     then thr (RErr (R_ROUTER PROVIDER_MAINTENANCE) (coalesce (av_reason a) ''Edge is currently under maintenance''))
     else if \<not> av_isAvailable a \<or> \<not> av_recvEnabled a
     then thr (RErr (R_ROUTER ROUTE_UNAVAILABLE) (coalesce (av_reason a) ''Edge is currently unavailable for execution''))
     else
       (case parse_amount inputAmountAtomic of
          Inl e \<Rightarrow> thr e
        | Inr inputAmount \<Rightarrow>
       (case parse_amount (av_minAmountAtomic a) of
          Inl e \<Rightarrow> thr e
        | Inr minAmount \<Rightarrow>
            if inputAmount < minAmount
            then thr (RErr (R_ROUTER AMOUNT_BELOW_MINIMUM) ''Amount is below live edge minimum'')
            else
              (case truthy_str (av_maxAmountAtomic a) of
                 None \<Rightarrow> ret ()
               | Some m \<Rightarrow>
                   (case parse_amount m of
                      Inl e \<Rightarrow> thr e
                    | Inr maxAmount \<Rightarrow>
                        if inputAmount > maxAmount
                        then thr (RErr (R_ROUTER AMOUNT_ABOVE_MAXIMUM) ''Amount exceeds live edge maximum'')
                        else ret ())))))"

definition plan_intent :: "execution_plan \<Rightarrow> normalized_intent" where
  "plan_intent plan = (let q = pl_quoteSnapshot plan in \<lparr>
     ni_sourceAsset = an_asset (rq_sourceNode q), ni_sourceNetwork = an_network (rq_sourceNode q),
     ni_targetAsset = an_asset (rq_destinationNode q), ni_targetNetwork = an_network (rq_destinationNode q),
     ni_sourceAmountAtomic = rq_inputAmountAtomic q, ni_destinationAddress = pl_destinationAddress plan,
     ni_refundAddress = pl_refundAddress plan \<rparr>)"

definition plan_quote :: "execution_plan \<Rightarrow> normalized_quote" where
  "plan_quote plan = (let q = pl_quoteSnapshot plan; intent = plan_intent plan in \<lparr>
     nq_quoteId = rq_quoteId q, nq_providerId = pl_edgeId plan,
     nq_sourceAsset = ni_sourceAsset intent, nq_sourceNetwork = ni_sourceNetwork intent,
     nq_targetAsset = ni_targetAsset intent, nq_targetNetwork = ni_targetNetwork intent,
     nq_depositAmountAtomic = rq_inputAmountAtomic q, nq_settleAmountAtomic = rq_estimatedOutputAmountAtomic q,
     nq_rate = rq_rate q, nq_networkFeeEstimatedAtomic = rq_networkFeeEstimatedAtomic q,
     nq_minDepositAtomic = rq_minAmountAtomic q, nq_maxDepositAtomic = rq_maxAmountAtomic q,
     nq_expiresAt = rq_expiresAt q \<rparr>)"

text \<open>The availability call of the edge of a plan: a planner edge, else the provider of that id.\<close>

definition plan_edge :: "'w orchestrator \<Rightarrow> string \<Rightarrow> ('w, availability) ocall option option" where
  "plan_edge c edgeId = (case oc_plannerEdge c edgeId of
     Some f \<Rightarrow> Some (Some f)
   | None \<Rightarrow> map_option pr_getRuntimeAvailability (the_provider c edgeId))"

definition executePlan :: "'w orchestrator \<Rightarrow> execution_plan \<Rightarrow> string \<Rightarrow> ('w, execution_row) oact" where
  "executePlan c plan idempotencyKey =
    (case plan_edge c (pl_edgeId plan) of
       None \<Rightarrow> thr (RErr (R_ROUTER ROUTE_NOT_FOUND) ''Execution edge is not registered in orchestrator'')
     | Some availability_call \<Rightarrow>
         bnd (ask (oc_now c)) (\<lambda>now.
         if rq_expiresAt (pl_quoteSnapshot plan) \<le> now
         then thr (RErr (R_ROUTER QUOTE_EXPIRED) ''ExecutionPlan quote has already expired'')
         else
           seq (case availability_call of
                  None \<Rightarrow> ret ()
                | Some f \<Rightarrow> bnd (call (PvAvailability (pl_edgeId plan)) f)
                              (plan_available (rq_inputAmountAtomic (pl_quoteSnapshot plan))))
             (initiateExecution c idempotencyKey (plan_intent plan) (plan_quote plan) (Some plan))))"

section \<open>Reconciling everything\<close>

text \<open>One after the other; the first error ends the sweep.\<close>

fun reconcile_ids :: "'w orchestrator \<Rightarrow> string list \<Rightarrow> ('w, execution_row list) oact" where
  "reconcile_ids c [] = ret []"
| "reconcile_ids c (i # ids) =
    bnd (reconcileExecution c i) (\<lambda>r. bnd (reconcile_ids c ids) (\<lambda>rs. ret (r # rs)))"

definition reconcileAllInFlight :: "'w orchestrator \<Rightarrow> ('w, execution_row list) oact" where
  "reconcileAllInFlight c =
    bnd (peek c (findByStates AMBIGUOUS_STATES)) (\<lambda>inFlight. reconcile_ids c (map ex_id inFlight))"

end
