(* ===== verification/Orch_Laws.thy ===== *)
theory Orch_Laws
  imports Orchestrator
begin

text \<open>
  What the provider orchestrator can do, whatever providers, verifier and other processes do: a
  provider order is created only behind a durable claim, an execution is closed only on evidence,
  and waiting ends.
\<close>

section \<open>Event classes\<close>

fun is_create :: "orch_event \<Rightarrow> bool" where
  "is_create (PvCreate p q r) = True" | "is_create _ = False"

fun is_granted :: "orch_event \<Rightarrow> bool" where
  "is_granted (StClaim i (Inr g)) \<longleftrightarrow> g" | "is_granted _ = False"

text \<open>The provider answered a status of this kind.\<close>

fun is_status :: "(provider_status \<Rightarrow> bool) \<Rightarrow> orch_event \<Rightarrow> bool" where
  "is_status P (PvStatus p i t (Inr st)) \<longleftrightarrow> P st" | "is_status P _ = False"

fun is_verified :: "string \<Rightarrow> orch_event \<Rightarrow> bool" where
  "is_verified tx (ChVerify q (Inr v)) \<longleftrightarrow> vq_txHash q = tx \<and> vr_verified v" | "is_verified _ _ = False"

fun is_rejected :: "orch_event \<Rightarrow> bool" where
  "is_rejected (PvCreate p q (Inl e)) \<longleftrightarrow> is_definitive (rerr_message e)" | "is_rejected _ = False"

text \<open>The provider did not call itself active: its class was asked and passive, or taken from its properties.\<close>

fun is_active :: "orch_event \<Rightarrow> bool" where
  "is_active (PvCapabilities p (Inr x)) \<longleftrightarrow> fst x = ACTIVE_EXECUTION" | "is_active _ = False"

definition completed_with :: "string \<Rightarrow> provider_status \<Rightarrow> bool" where
  "completed_with tx st \<longleftrightarrow> ps_status st = PS_COMPLETED \<and> ps_settleTxId st = Some tx \<and> tx \<noteq> ''''"

definition refunded_with_tx :: "provider_status \<Rightarrow> bool" where
  "refunded_with_tx st \<longleftrightarrow> ps_status st = PS_REFUNDED \<and> truthy_str (ps_settleTxId st) \<noteq> None"

definition order_closed :: "provider_status \<Rightarrow> bool" where
  "order_closed st \<longleftrightarrow> ps_status st = PS_EXPIRED \<or> ps_status st = PS_FAILED"

definition orch_guard :: "orch_event list \<Rightarrow> orch_event \<Rightarrow> bool" where
  "orch_guard h e \<longleftrightarrow>
     (is_create e \<longrightarrow> seen is_granted h \<and> \<not> seen is_create h) \<and>
     (\<forall>i r. e = StMove i ES_COMPLETED r \<longrightarrow>
        (\<exists>tx. seen (is_status (completed_with tx)) h \<and> seen (is_verified tx) h)) \<and>
     (\<forall>i r. e = StMove i ES_REFUNDED r \<longrightarrow> seen (is_status refunded_with_tx) h)"

text \<open>Events that the guard does not restrict.\<close>

lemma guard_other:
  "orch_guard h (PvQuote p r1)" "orch_guard h (PvStatus p i t r2)" "orch_guard h (PvCapabilities p r3)"
  "orch_guard h (PvAvailability p r4)" "orch_guard h (ChVerify q r5)" "orch_guard h (StCreate k r6)"
  "orch_guard h (StClaim i' r7)" "orch_guard h (AwaitExecution k r6)"
  "st \<noteq> ES_COMPLETED \<Longrightarrow> st \<noteq> ES_REFUNDED \<Longrightarrow> orch_guard h (StMove i' st r6)"
  by (auto simp: orch_guard_def)

section \<open>Rules for the store calls\<close>

lemma wp_peek [wp_rules]: "(\<And>x. Q x h) \<Longrightarrow> wp J (peek c f) Q E h"
  unfolding peek_def by (intro wp_rules)

lemma wp_current [wp_rules]: "(\<And>x. Q x h) \<Longrightarrow> (\<And>e. E e h) \<Longrightarrow> wp J (current_execution c i) Q E h"
  unfolding current_execution_def by (intro wp_rules)

lemma wp_journal [wp_rules]: "Q () h \<Longrightarrow> wp J (st_journal c j u) Q E h"
  unfolding st_journal_def by (intro wp_rules)

lemma wp_check [wp_rules]: "Q () h \<Longrightarrow> (\<And>e. E e h) \<Longrightarrow> wp J (check_transition a b) Q E h"
  unfolding check_transition_def by (intro wp_rules)

lemma wp_move:
  assumes "\<And>r. J h (StMove i st r)" "\<And>x r. Q x (h @ [StMove i st r])" "\<And>e r. E e (h @ [StMove i st r])"
  shows "wp J (st_move c i st reason trigger u) Q E h"
  unfolding st_move_def by (intro wp_rules assms)

text \<open>Moves to other states than COMPLETED and REFUNDED are free.\<close>

lemma wp_free_move:
  "st \<noteq> ES_COMPLETED \<Longrightarrow> st \<noteq> ES_REFUNDED \<Longrightarrow> (\<And>x r. Q x (h @ [StMove i st r])) \<Longrightarrow>
   (\<And>e r. E e (h @ [StMove i st r])) \<Longrightarrow> wp orch_guard (st_move c i st reason trigger u) Q E h"
  by (rule wp_move) (simp_all add: guard_other)

lemma wp_any: "wp J m (\<lambda>_ _. True) (\<lambda>_ _. True) h \<Longrightarrow> (\<And>x h. Q x h) \<Longrightarrow> (\<And>e h. E e h) \<Longrightarrow> wp J m Q E h"
  by (rule wp_post)

lemma wp_recovery_retry: "wp orch_guard (handleRecoveryRetry c record reason) (\<lambda>_ _. True) (\<lambda>_ _. True) h"
  unfolding handleRecoveryRetry_def Let_def by (intro wp_rules wp_free_move TrueI) simp_all

lemma wp_on_completed:
  assumes "seen (is_status ((=) st)) h" "ps_status st = PS_COMPLETED"
  shows "wp orch_guard (on_completed c record st) (\<lambda>_ _. True) (\<lambda>_ _. True) h"
proof -
  have s: "seen (is_status (completed_with tx)) h" if "truthy_str (ps_settleTxId st) = Some tx" for tx
    using assms that by (auto simp: seen_def completed_with_def truthy_str_def split: if_splits
        elim!: is_status.elims intro!: bexI)
  show ?thesis
    unfolding on_completed_def Let_def
    by (intro wp_rules wp_free_move wp_move TrueI)
      (auto simp: guard_other orch_guard_def verification_request_def intro!: exI dest: s)
qed

lemma wp_on_status:
  assumes "seen (is_status ((=) st)) h"
  shows "wp orch_guard (on_status c record st) (\<lambda>_ _. True) (\<lambda>_ _. True) h"
proof (cases "ps_status st")
  case PS_COMPLETED
  then show ?thesis using wp_on_completed [OF assms] by (simp add: on_status_def)
next
  case PS_REFUNDED
  have "seen (is_status refunded_with_tx) h" if "truthy_str (ps_settleTxId st) \<noteq> None"
    using assms PS_REFUNDED that by (force simp: seen_def refunded_with_tx_def elim!: is_status.elims)
  then have "wp orch_guard (on_refunded c record st) (\<lambda>_ _. True) (\<lambda>_ _. True) h"
    unfolding on_refunded_def Let_def
    by (intro wp_rules wp_move TrueI) (auto simp: orch_guard_def)
  then show ?thesis using PS_REFUNDED by (simp add: on_status_def)
qed (simp_all add: on_status_def on_waiting_def on_deposit_def on_processing_def on_settling_def
    on_expired_def on_failed_def Let_def wp_recovery_retry, (intro wp_rules wp_free_move TrueI; simp)+)

section \<open>Reconciliation\<close>

lemma wp_reconcileExecution: "wp orch_guard (reconcileExecution c i) (\<lambda>_ _. True) (\<lambda>_ _. True) h"
proof -
  have q: "wp orch_guard (query_status c pid p x) (\<lambda>_ _. True) (\<lambda>_ _. True) h" for pid p x h
    unfolding query_status_def
    by (intro wp_rules wp_free_move TrueI wp_any [OF wp_on_status] wp_recovery_retry)
      (simp_all add: guard_other seen_def wp_recovery_retry)
  have m: "wp orch_guard (missing_provider_id c pid p x) (\<lambda>_ _. True) (\<lambda>_ _. True) h" for pid p x h
    unfolding missing_provider_id_def by (intro wp_rules wp_free_move TrueI) (simp_all add: guard_other)
  show ?thesis
    unfolding reconcileExecution_def by (intro wp_rules TrueI q wp_any [OF m]) 
qed

lemma wp_await_loop: "wp orch_guard (await_loop c n i start) (\<lambda>_ _. True) (\<lambda>_ _. True) h"
proof (induction n arbitrary: h)
  case 0
  then show ?case by (simp add: wp_thr)
next
  case (Suc n)
  then show ?case by (simp, intro wp_rules TrueI wp_reconcileExecution)
qed

lemma wp_existing: "wp orch_guard (existing_execution c record) (\<lambda>_ _. True) (\<lambda>_ _. True) h"
  unfolding existing_execution_def awaitOrReconcileExecution_def by (intro wp_rules TrueI wp_await_loop)

section \<open>Dispatch\<close>

lemma wp_dispatch_error: "wp orch_guard (dispatch_error c i j e) (\<lambda>_ _. True) (\<lambda>_ _. True) h"
  unfolding dispatch_error_def Let_def
  by (intro wp_rules wp_free_move TrueI wp_reconcileExecution) simp_all

lemma wp_dispatch:
  assumes "\<not> seen is_create h"
  shows "wp orch_guard (dispatch_execution c key intent quote i) (\<lambda>_ _. True) (\<lambda>_ _. True) h"
  unfolding dispatch_execution_def dispatch_provider_def awaitOrReconcileExecution_def st_claim_def Let_def
  by (intro wp_rules wp_free_move TrueI wp_await_loop wp_dispatch_error)
    (use assms in \<open>auto simp: guard_other orch_guard_def\<close>)

lemma wp_initiate:
  assumes "\<not> seen is_create h"
  shows "wp orch_guard (initiateExecution c key intent quote plan) (\<lambda>_ _. True) (\<lambda>_ _. True) h"
  unfolding initiateExecution_def executeInternal_def st_create_def Let_def
  by (intro wp_rules wp_free_move TrueI wp_existing wp_dispatch) (use assms in \<open>auto simp: guard_other\<close>)

lemma wp_executePlan: "wp orch_guard (executePlan c plan key) (\<lambda>_ _. True) (\<lambda>_ _. True) []"
  unfolding executePlan_def plan_available_def
  by (intro wp_rules TrueI wp_initiate) (auto simp: guard_other)

lemma wp_reconcile_ids: "wp orch_guard (reconcile_ids c ids) (\<lambda>_ _. True) (\<lambda>_ _. True) h"
proof (induction ids arbitrary: h)
  case Nil
  then show ?case by (simp add: wp_ret)
next
  case (Cons i ids)
  have rest: "wp orch_guard (bnd (reconcile_ids c ids) (\<lambda>rs. ret (x # rs))) (\<lambda>_ _. True) (\<lambda>_ _. True) h" for x h
    by (intro wp_bnd wp_any [OF Cons.IH] wp_ret TrueI)
  show ?case by (simp, intro wp_bnd wp_any [OF wp_reconcileExecution] rest TrueI)
qed

section \<open>Properties\<close>

text \<open>A public entry point of the orchestrator with its arguments; its result is not looked at.\<close>

datatype orch_op =
    OpInitiate string normalized_intent normalized_quote "execution_plan option"
  | OpPlan execution_plan string
  | OpReconcile string
  | OpReconcileAll

fun run_orch :: "'w orchestrator \<Rightarrow> orch_op \<Rightarrow> ('w, unit) oact" where
  "run_orch c (OpInitiate key intent quote plan) = seq (initiateExecution c key intent quote plan) (ret ())"
| "run_orch c (OpPlan plan key) = seq (executePlan c plan key) (ret ())"
| "run_orch c (OpReconcile i) = seq (reconcileExecution c i) (ret ())"
| "run_orch c OpReconcileAll = seq (reconcileAllInFlight c) (ret ())"

lemma wp_run_orch: "wp orch_guard (run_orch c oper) (\<lambda>_ _. True) (\<lambda>_ _. True) []"
  by (cases oper) (simp_all add: reconcileAllInFlight_def, (intro wp_rules TrueI wp_any [OF wp_initiate]
    wp_any [OF wp_executePlan] wp_any [OF wp_reconcileExecution] wp_any [OF wp_reconcile_ids]; simp add: wp_ret)+)

text \<open>C16: A provider order is created only behind a durable claim. Whatever entry point of the
  orchestrator runs, and whatever providers and other processes do, it calls a provider's
  \<open>createExecution\<close> at most once, and only after the store granted it a dispatch claim.\<close>

theorem provider_create_needs_claim:
  assumes "trace (run_orch c oper) s = pre @ PvCreate pid request r # post"
  shows "(\<exists>i. StClaim i (Inr True) \<in> set pre) \<and>
    \<not> (\<exists>p q r'. PvCreate p q r' \<in> set pre \<union> set post)"
proof -
  have a: "allowed orch_guard [] (pre @ PvCreate pid request r # post)"
    using wp_trace [OF wp_run_orch] assms by metis
  have "\<not> is_create x" if "x \<in> set pre \<or> x \<in> set post" for x
    using allowed_once [where M = is_create, OF a _ _ that] by (simp add: orch_guard_def)
  then have "\<not> (\<exists>p q r'. PvCreate p q r' \<in> set pre \<union> set post)" by fastforce
  moreover have "seen is_granted pre" using allowed_at [OF a] by (simp add: orch_guard_def)
  ultimately show ?thesis by (auto simp: seen_def elim!: is_granted.elims)
qed

text \<open>C28: An execution is closed as paid or refunded only on evidence. Whatever entry point runs, it moves an
  execution to COMPLETED only after the provider reported COMPLETED with a settlement transaction and the chain
  verifier confirmed that very transaction, and to REFUNDED only after the provider reported
  REFUNDED with a transaction.\<close>

theorem closed_only_on_evidence:
  assumes "trace (run_orch c oper) s = pre @ StMove i st r # post" "st = ES_COMPLETED \<or> st = ES_REFUNDED"
  shows "(st = ES_COMPLETED \<and> (\<exists>tx p j t status q v. tx \<noteq> '''' \<and> PvStatus p j t (Inr status) \<in> set pre \<and>
        ps_status status = PS_COMPLETED \<and> ps_settleTxId status = Some tx \<and>
        ChVerify q (Inr v) \<in> set pre \<and> vq_txHash q = tx \<and> vr_verified v)) \<or>
    (st = ES_REFUNDED \<and> (\<exists>tx p j t status. tx \<noteq> '''' \<and> PvStatus p j t (Inr status) \<in> set pre \<and>
        ps_status status = PS_REFUNDED \<and> ps_settleTxId status = Some tx))"
proof -
  have g: "orch_guard pre (StMove i st r)" by (rule wp_at [OF wp_run_orch assms(1)])
  from assms(2) show ?thesis
  proof
    assume st: "st = ES_COMPLETED"
    obtain tx where "seen (is_status (completed_with tx)) pre" "seen (is_verified tx) pre"
      using g st by (auto simp: orch_guard_def)
    then obtain a b where ab: "a \<in> set pre" "is_status (completed_with tx) a" "b \<in> set pre" "is_verified tx b"
      by (auto simp: seen_def)
    obtain p j t status where "a = PvStatus p j t (Inr status)" "completed_with tx status"
      using ab(2) by (auto elim: is_status.elims)
    moreover obtain q v where "b = ChVerify q (Inr v)" "vq_txHash q = tx" "vr_verified v"
      using ab(4) by (auto elim: is_verified.elims)
    ultimately show ?thesis using ab st unfolding completed_with_def by blast
  next
    assume st: "st = ES_REFUNDED"
    then have "seen (is_status refunded_with_tx) pre" using g by (simp add: orch_guard_def)
    then obtain p j t status where "PvStatus p j t (Inr status) \<in> set pre" "refunded_with_tx status"
      by (auto simp: seen_def elim!: is_status.elims)
    then show ?thesis using st unfolding refunded_with_tx_def truthy_str_def by (auto split: if_splits) blast
  qed
qed

section \<open>Waiting ends\<close>

text \<open>The clock never goes back, and a 25 ms sleep takes at least a millisecond of it.\<close>

definition clock_runs :: "'w orchestrator \<Rightarrow> bool" where
  "clock_runs c \<longleftrightarrow> (\<forall>s. oc_date c s \<le> oc_date c (oc_others c s) \<and> oc_date c s < oc_date c (oc_sleep c s))"

lemma bnd_peek: "bnd (peek c f) k s = k (f (o_db (oc_others c s))) (oc_others c s)"
  by (simp add: peek_def bnd_def seq_def change_def ask_def split: prod.split)

lemma await_fuel:
  assumes "clock_runs c" "start + 2000 - oc_date c s \<le> int n"
  shows "await_loop c (Suc n + k) i start s = await_loop c (Suc n) i start s"
  using assms(2)
proof (induction n arbitrary: s)
  case 0
  then show ?case by (simp add: bnd_ask)
next
  case (Suc n)
  let ?s = "oc_sleep c (oc_others c s)"
  have "oc_date c s < oc_date c ?s"
    using assms(1) unfolding clock_runs_def by (meson le_less_trans)
  then have "await_loop c (Suc n + k) i start ?s = await_loop c (Suc n) i start ?s"
    using Suc.prems by (intro Suc.IH) linarith
  moreover have "await_loop c (Suc m) i start s = await_loop c (Suc m') i start s"
    if "await_loop c m i start ?s = await_loop c m' i start ?s" for m m'
    by (simp add: bnd_ask bnd_peek seq_change that split: option.split)
  ultimately show ?case unfolding add_Suc [of "Suc n"] by blast
qed

text \<open>Waiting for another worker ends. When the clock runs, the 2001 polls of the model are as many as the
  code can ever make: no larger bound changes what \<open>awaitOrReconcileExecution\<close> returns, logs or
  writes, so its time-out is always reached.\<close>

theorem await_terminates:
  assumes "clock_runs c"
  shows "awaitOrReconcileExecution c i s = await_loop c (2001 + k) i (oc_date c s) s"
  unfolding awaitOrReconcileExecution_def bnd_ask
  using await_fuel [OF assms, of "oc_date c s" s 2000 k i] by simp

section \<open>Runs\<close>

definition demo_intent :: normalized_intent where
  "demo_intent = \<lparr> ni_sourceAsset = ''BTC'', ni_sourceNetwork = ''lightning'', ni_targetAsset = ''USDC'',
     ni_targetNetwork = ''base'', ni_sourceAmountAtomic = ''100'', ni_destinationAddress = ''0xd'',
     ni_refundAddress = ''bc1'' \<rparr>"

definition demo_quote :: normalized_quote where
  "demo_quote = \<lparr> nq_quoteId = ''q'', nq_providerId = ''p'', nq_sourceAsset = ''BTC'',
     nq_sourceNetwork = ''lightning'', nq_targetAsset = ''USDC'', nq_targetNetwork = ''base'',
     nq_depositAmountAtomic = ''100'', nq_settleAmountAtomic = ''90'', nq_rate = ''0.9'',
     nq_networkFeeEstimatedAtomic = ''1'', nq_minDepositAtomic = ''1'', nq_maxDepositAtomic = ''1000'',
     nq_expiresAt = 50 \<rparr>"

definition demo_status :: "provider_status_kind \<Rightarrow> provider_status" where
  "demo_status k = \<lparr> ps_status = k, ps_depositTxId = None, ps_settleTxId = Some ''0xtx'',
     ps_settleAmountActualAtomic = None, ps_failureReason = None \<rparr>"

text \<open>A provider whose order creation leaves the state to \<open>meanwhile\<close> before it succeeds.\<close>

definition demo_provider :: "(unit osys \<Rightarrow> unit osys) \<Rightarrow> provider_status_kind \<Rightarrow> unit provider" where
  "demo_provider meanwhile k = \<lparr> pr_capabilities = None, pr_executionClass = None,
     pr_getQuote = (\<lambda>intent s. (Inr demo_quote, s)),
     pr_createExecution = (\<lambda>request s. (Inr \<lparr> pv_providerExecutionId = ''order'', pv_orderToken = None,
        pv_depositAddress = ''lnbc1'' \<rparr>, meanwhile s)),
     pr_getStatus = (\<lambda>i t s. (Inr (demo_status k), s)), pr_getRuntimeAvailability = None \<rparr>"

definition demo_orchestrator :: "'w provider \<Rightarrow> 'w orchestrator" where
  "demo_orchestrator p = \<lparr> oc_providers = [(''p'', p)], oc_plannerEdge = (\<lambda>_. None),
     oc_verifySettlement = (\<lambda>q s. (Inr \<lparr> vr_verified = True, vr_status = OC_CONFIRMED,
        vr_blockNumber = Some 7, vr_confirmedTokenContract = None, vr_reason = None, vr_evidence = None \<rparr>, s)),
     oc_maxRecoveryAttempts = 5, oc_now = (\<lambda>s. 10), oc_date = (\<lambda>s. 10), oc_uuid = (\<lambda>s. ''u''),
     oc_others = (\<lambda>s. s), oc_sleep = (\<lambda>s. s),
     oc_otherExecution = (\<lambda>k s. (Inl (RErr R_ERROR ''''), s)) \<rparr>"

definition demo_osys :: "unit osys" where
  "demo_osys = \<lparr> o_db = empty_db, o_inflight = [], o_world = () \<rparr>"

definition demo_paid :: "unit osys" where
  "demo_paid = demo_osys\<lparr>o_db := empty_db\<lparr>executions := [(new_execution ''e'' ''k'' demo_intent None 1)\<lparr>
     ex_state := ES_SWAP_IN_PROGRESS, ex_quote := Some demo_quote, ex_provider_id := Some ''p'',
     ex_provider_execution_id := Some ''order'', ex_deposit_address := Some ''lnbc1''\<rparr>]\<rparr>\<rparr>"

lemma create_run:
  "list_ex is_create (trace (run_orch (demo_orchestrator (demo_provider (\<lambda>s. s) PS_PROCESSING))
     (OpInitiate ''k'' demo_intent demo_quote None)) demo_osys)"
  by code_simp

theorem provider_create_needs_claim_witness:
  "\<exists>i. StClaim i (Inr True) \<in> set (trace (run_orch (demo_orchestrator (demo_provider (\<lambda>s. s) PS_PROCESSING))
     (OpInitiate ''k'' demo_intent demo_quote None)) demo_osys)"
proof -
  obtain e pre post where t: "trace (run_orch (demo_orchestrator (demo_provider (\<lambda>s. s) PS_PROCESSING))
     (OpInitiate ''k'' demo_intent demo_quote None)) demo_osys = pre @ e # post" "is_create e"
    using create_run by (metis list_ex_iff split_list)
  then obtain p q r where "e = PvCreate p q r" by (cases e) auto
  from provider_create_needs_claim [OF t(1) [unfolded this]] t(1) show ?thesis by auto
qed

lemma completed_run:
  "list_ex (\<lambda>e. case e of StMove i st r \<Rightarrow> st = ES_COMPLETED | _ \<Rightarrow> False)
     (trace (run_orch (demo_orchestrator (demo_provider (\<lambda>s. s) PS_COMPLETED)) (OpReconcile ''e'')) demo_paid)"
  by code_simp

theorem closed_only_on_evidence_witness:
  "\<exists>p j t status. PvStatus p j t (Inr status) \<in> set (trace (run_orch (demo_orchestrator
      (demo_provider (\<lambda>s. s) PS_COMPLETED)) (OpReconcile ''e'')) demo_paid) \<and> ps_status status = PS_COMPLETED"
proof -
  obtain e pre post where t: "trace (run_orch (demo_orchestrator (demo_provider (\<lambda>s. s) PS_COMPLETED)) (OpReconcile ''e''))
      demo_paid = pre @ e # post" "case e of StMove i st r \<Rightarrow> st = ES_COMPLETED | _ \<Rightarrow> False"
    using completed_run unfolding list_ex_iff by (metis split_list)
  then obtain i r where "e = StMove i ES_COMPLETED r" by (cases e) auto
  from closed_only_on_evidence [OF t(1) [unfolded this] disjI1 [OF refl]] t(1) show ?thesis by auto
qed

theorem await_terminates_witness:
  "awaitOrReconcileExecution ((demo_orchestrator (demo_provider (\<lambda>s. s) PS_PROCESSING))
      \<lparr>oc_date := (\<lambda>s. int (length (o_inflight s))), oc_sleep := (\<lambda>s. s\<lparr>o_inflight := [] # o_inflight s\<rparr>)\<rparr>) ''e'' demo_paid =
   await_loop ((demo_orchestrator (demo_provider (\<lambda>s. s) PS_PROCESSING))
      \<lparr>oc_date := (\<lambda>s. int (length (o_inflight s))), oc_sleep := (\<lambda>s. s\<lparr>o_inflight := [] # o_inflight s\<rparr>)\<rparr>)
      5001 ''e'' 0 demo_paid"
proof -
  let ?c = "(demo_orchestrator (demo_provider (\<lambda>s. s) PS_PROCESSING))
      \<lparr>oc_date := (\<lambda>s. int (length (o_inflight s))), oc_sleep := (\<lambda>s. s\<lparr>o_inflight := [] # o_inflight s\<rparr>)\<rparr>"
  have "clock_runs ?c" by (simp add: clock_runs_def demo_orchestrator_def)
  from await_terminates [OF this, of "''e''" demo_paid 3000] show ?thesis
    by (simp add: demo_paid_def demo_osys_def)
qed

text \<open>
  The finding on reconciliation during dispatch: a worker that lost the claim reconciles after its
  time-out and closes the execution as FAILED while the winner still waits for the provider; the winner then moves the
  FAILED execution to DEPOSIT_INSTRUCTION_READY, which the state machine forbids, and hands out a deposit address.
\<close>

lemma failed_execution_resurrected:
  "map (\<lambda>t. (et_from_state t, et_to_state t)) (state_transitions (o_db (snd (snd
     (initiateExecution (demo_orchestrator (demo_provider
        (\<lambda>s. snd (snd (reconcileExecution (demo_orchestrator (demo_provider (\<lambda>s. s) PS_PROCESSING)) ''exec_u'' s)))
        PS_PROCESSING)) ''k'' demo_intent demo_quote None demo_osys))))) =
   [(None, ES_CREATED), (Some ES_CREATED, ES_QUOTED), (Some ES_QUOTED, ES_EXECUTION_PENDING),
    (Some ES_EXECUTION_PENDING, ES_EXECUTING), (Some ES_EXECUTING, ES_FAILED),
    (Some ES_FAILED, ES_DEPOSIT_INSTRUCTION_READY)] \<and>
   \<not> is_ok (validateTransition (Some ES_FAILED) ES_DEPOSIT_INSTRUCTION_READY None)"
  by code_simp

end
