(* ===== verification/Tx_Errors.thy ===== *)
theory Tx_Errors
  imports Actions Numerals
begin

text \<open>
  Error objects of the EVM client as \<open>src/src/atomic/evm/transaction-manager.ts\<close> looks at them, and the
  three classifications of that file: execution reverts, transport failures, and observation errors of a receipt.
  A missing text field is the empty string, as in \<open>err.message || ''\<close>.
\<close>

datatype js_error = JsError
  (je_isError: bool) (je_name: string) (je_message: string) (je_shortMessage: string)
  (je_details: string) (je_cause: "js_error option")

definition plain_error :: "string \<Rightarrow> js_error" where
  "plain_error m = JsError True ''Error'' m '''' '''' None"

definition cause_name :: "js_error \<Rightarrow> string" where
  "cause_name e = (case je_cause e of None \<Rightarrow> '''' | Some x \<Rightarrow> je_name x)"

definition cause_message :: "js_error \<Rightarrow> string" where
  "cause_message e = (case je_cause e of None \<Rightarrow> '''' | Some x \<Rightarrow> je_message x)"

definition includes_any :: "string list \<Rightarrow> string \<Rightarrow> bool" where
  "includes_any needles s \<longleftrightarrow> list_ex (str_includes s) needles"

definition isExecutionRevertError :: "js_error \<Rightarrow> bool" where
  "isExecutionRevertError err \<longleftrightarrow>
    (let name = to_lower (je_name err); causeName = to_lower (cause_name err)
     in if name = ''estimategasexecutionerror'' \<or> name = ''contractfunctionexecutionerror'' \<or>
           causeName = ''callexecutionerror'' \<or> causeName = ''contractfunctionrevertederror'' then True
        else includes_any [''execution reverted'', ''transaction reverted'', ''contract call: revert'',
               ''call reverted'', ''reverted with reason'', ''reverted with custom error'',
               ''always failing transaction'', ''gas required exceeds allowance'']
             (to_lower (je_message err) @ '' '' @ to_lower (je_shortMessage err) @ '' '' @
              to_lower (je_details err) @ '' '' @ to_lower (cause_message err)))"

definition isTransportFailure :: "js_error \<Rightarrow> bool" where
  "isTransportFailure err \<longleftrightarrow>
    (if to_lower (je_name err) \<in> {''timeouterror'', ''httprequesterror'', ''rpcrequesterror'', ''socketclosederror''}
     then True
     else includes_any [''timeout'', ''econnrefused'', ''econnreset'', ''etimedout'', ''network error'',
            ''fetch failed'', ''502'', ''503'', ''504'', ''temporarily unavailable'']
          (to_lower (je_message err) @ '' '' @ to_lower (je_shortMessage err) @ '' '' @ to_lower (je_details err)))"

datatype receipt_class = RECEIPT_NOT_FOUND | RPC_UNAVAILABLE | RPC_PROTOCOL_ERROR | RC_UNKNOWN

text \<open>The typed error, looked for along at most four causes.\<close>

fun names_not_found :: "nat \<Rightarrow> js_error option \<Rightarrow> bool" where
  "names_not_found 0 current = False"
| "names_not_found (Suc n) None = False"
| "names_not_found (Suc n) (Some e) =
    (if je_isError e \<and> je_name e = ''TransactionReceiptNotFoundError'' then True
     else names_not_found n (je_cause e))"

definition classifyReceiptObservationError :: "js_error \<Rightarrow> receipt_class" where
  "classifyReceiptObservationError err =
    (if names_not_found 4 (Some err) then RECEIPT_NOT_FOUND
     else if isTransportFailure err then RPC_UNAVAILABLE
     else if je_isError err \<and> je_name err \<in> {''RpcRequestError'', ''InvalidInputRpcError''}
     then RPC_PROTOCOL_ERROR
     else RC_UNKNOWN)"

definition receipt_class_name :: "receipt_class \<Rightarrow> string" where
  "receipt_class_name c = (case c of RECEIPT_NOT_FOUND \<Rightarrow> ''RECEIPT_NOT_FOUND''
     | RPC_UNAVAILABLE \<Rightarrow> ''RPC_UNAVAILABLE'' | RPC_PROTOCOL_ERROR \<Rightarrow> ''RPC_PROTOCOL_ERROR''
     | RC_UNKNOWN \<Rightarrow> ''UNKNOWN'')"

text \<open>\<open>EvmTransactionObservationUnknownError\<close>\<close>

definition observation_unknown :: "receipt_class \<Rightarrow> js_error \<Rightarrow> js_error" where
  "observation_unknown c err = JsError True ''EvmTransactionObservationUnknownError''
     (''EVM_TRANSACTION_OBSERVATION_UNKNOWN: '' @ receipt_class_name c @ '': '' @ je_message err)
     '''' '''' (Some err)"

end
