(* ===== verification/Tx_Manager.thy ===== *)
theory Tx_Manager
  imports Tx_Errors Intent_Store Numerals
begin

text \<open>
  The EVM transaction manager (\<open>BaseTransactionManager\<close> of \<open>src/src/atomic/evm/transaction-manager.ts\<close>): preparing an
  attempt within the fee policy, broadcasting, replacing a stalled transaction, reconciling with receipts,
  recovery at start-up, and waiting for confirmation.

  A method is an action on the database, the replacement locks of the process and a world no code here
  looks into. RPC and signing calls are arbitrary functions on the whole state; before every store call other
  processes may write (\<open>tc_others\<close>). RPC, signing and store calls are logged. Reason texts are those of
  the code without the interpolated numbers and ids.
\<close>

section \<open>Policy\<close>

record tx_policy =
  tp_minPriorityFeeBumpPercent :: int
  tp_maxReplacements :: int
  tp_maxFeePerGasCapWei :: int
  tp_maxPriorityFeePerGasCapWei :: int
  tp_maxGasLimitCap :: int
  tp_maxWorstCaseCostWeiCap :: int
  tp_requiredConfirmations :: int
  tp_stalledAgeMs :: int

definition DEFAULT_BASE_TRANSACTION_POLICY :: tx_policy where
  "DEFAULT_BASE_TRANSACTION_POLICY = \<lparr> tp_minPriorityFeeBumpPercent = 10, tp_maxReplacements = 3,
     tp_maxFeePerGasCapWei = 50000000000, tp_maxPriorityFeePerGasCapWei = 10000000000,
     tp_maxGasLimitCap = 1000000, tp_maxWorstCaseCostWeiCap = 50000000000000000,
     tp_requiredConfirmations = 2, tp_stalledAgeMs = 15000 \<rparr>"

section \<open>State, calls, events\<close>

record tx_log =
  lg_address :: string
  lg_topics :: "string list"

record receipt =
  rp_blockNumber :: int
  rp_success :: bool
  rp_transactionHash :: string
  rp_to :: "string option"
  rp_logs :: "tx_log list"

record gas_query =
  gq_to :: string
  gq_data :: string
  gq_value :: int

record tx_request =
  tq_chainId :: int
  tq_to :: string
  tq_data :: string
  tq_value :: int
  tq_nonce :: int
  tq_gas :: int
  tq_maxFeePerGas :: int
  tq_maxPriorityFeePerGas :: int

datatype tx_event =
    RpcEstimateGas gas_query "js_error + int"
  | RpcFees "js_error + int option \<times> int option"
  | RpcPendingNonce string "js_error + int"
  | RpcMinedNonce string "js_error + int"
  | RpcSend string "js_error + unit"
  | RpcReceipt string "js_error + receipt option"
  | RpcBlock "js_error + int"
  | SignTx tx_request "js_error + string"
  | TxIntent intent_params "js_error + intent_row"
  | TxAttempts string "attempt_row list"
  | TxReserve string "js_error + intent_row \<times> int"
  | TxRecord attempt_params "js_error + attempt_row"
  | TxBroadcast string "js_error + unit"
  | TxMined string string
  | TxReverted string string
  | TxBlocked string intent_state
  | TxConflict string
  | AwaitReplacement string "js_error + attempt_row \<times> string"

record 'w tsys =
  t_db :: db
  t_locks :: "string list"
  t_world :: 'w

type_synonym ('w, 'a) tcall = "'w tsys \<Rightarrow> (js_error + 'a) \<times> 'w tsys"
type_synonym ('w, 'a) tact = "(js_error, tx_event, 'w tsys, 'a) action"

text \<open>
  The public client, the operator account (\<open>tc_sign = None\<close>: it cannot sign), the configuration and the
  clock. \<open>tc_fees\<close> answers priority fee and maximum fee, \<open>None\<close> for a value that is not a bigint.
  \<open>tc_keccak\<close> is \<open>keccak256\<close>.
\<close>

record 'w tx_manager =
  tc_estimateGas :: "gas_query \<Rightarrow> ('w, int) tcall"
  tc_fees :: "('w, int option \<times> int option) tcall"
  tc_pendingNonce :: "string \<Rightarrow> ('w, int) tcall"
  tc_minedNonce :: "string \<Rightarrow> ('w, int) tcall"
  tc_send :: "string \<Rightarrow> ('w, unit) tcall"
  tc_receipt :: "string \<Rightarrow> ('w, receipt option) tcall"
  tc_block :: "('w, int) tcall"
  tc_sign :: "(tx_request \<Rightarrow> ('w, string) tcall) option"
  tc_keccak :: "string \<Rightarrow> string"
  tc_chainId :: int
  tc_policy :: tx_policy
  tc_date :: "'w tsys \<Rightarrow> int"
  tc_uuid :: "'w tsys \<Rightarrow> string"
  tc_others :: "'w tsys \<Rightarrow> 'w tsys"
  tc_sleep :: "'w tsys \<Rightarrow> 'w tsys"
  tc_otherReplacement :: "string \<Rightarrow> ('w, attempt_row \<times> string) tcall"

section \<open>Store calls\<close>

definition tx_store_error :: "db_error \<Rightarrow> js_error" where
  "tx_store_error e = plain_error (case e of
     EvmIntentNotFound i \<Rightarrow> ''EVM intent '' @ i @ '' not found''
   | AttemptNotFound i \<Rightarrow> ''EVM attempt '' @ i @ '' not found''
   | UnresolvedNonceReservation i \<Rightarrow> ''UNRESOLVED_NONCE_RESERVATION: Intent '' @ i
   | _ \<Rightarrow> '''')"

definition tx_store :: "'w tx_manager \<Rightarrow> ('w tsys \<Rightarrow> db \<Rightarrow> (db_error + 'a) \<times> db) \<Rightarrow> ('w, 'a) tcall" where
  "tx_store m f s0 =
    (let s = tc_others m s0 in
     case f s (t_db s) of
       (Inl e, d) \<Rightarrow> (Inl (tx_store_error e), s\<lparr>t_db := d\<rparr>)
     | (Inr x, d) \<Rightarrow> (Inr x, s\<lparr>t_db := d\<rparr>))"

definition tx_peek :: "'w tx_manager \<Rightarrow> (db \<Rightarrow> 'a) \<Rightarrow> ('w, 'a) tact" where
  "tx_peek m f = seq (change (tc_others m)) (ask (\<lambda>s. f (t_db s)))"

text \<open>A store operation that returns nothing and cannot fail, logged.\<close>

definition tx_mark :: "'w tx_manager \<Rightarrow> tx_event \<Rightarrow> (int \<Rightarrow> db \<Rightarrow> db) \<Rightarrow> ('w, unit) tact" where
  "tx_mark m e f s0 = (let s = tc_others m s0 in (Inr (), [e], s\<lparr>t_db := f (tc_date m s) (t_db s)\<rparr>))"

definition attempts_of :: "'w tx_manager \<Rightarrow> string \<Rightarrow> ('w, attempt_row list) tact" where
  "attempts_of m i s0 =
    (let s = tc_others m s0; as = getEvmAttemptsForIntent i (t_db s) in (Inr as, [TxAttempts i as], s))"

definition block_intent :: "'w tx_manager \<Rightarrow> intent_state \<Rightarrow> string \<Rightarrow> string \<Rightarrow> string \<Rightarrow> ('w, 'a) tact" where
  "block_intent m st i reason prefix =
     seq (tx_mark m (TxBlocked i st) (\<lambda>now. mark_unmined st i reason now)) (thr (plain_error (prefix @ reason)))"

text \<open>\<open>markEvmFeeCapBlocked\<close> and \<open>markEvmSimulationReverted\<close>, each followed by the throw.\<close>

definition cap_blocked :: "'w tx_manager \<Rightarrow> string \<Rightarrow> string \<Rightarrow> string \<Rightarrow> ('w, 'a) tact" where
  "cap_blocked m i code reason = block_intent m EI_FEE_CAP_BLOCKED i reason (code @ '': '')"

section \<open>Fees\<close>

definition clean_fees :: "int option \<Rightarrow> int option \<Rightarrow> int \<times> int" where
  "clean_fees priority0 maxFee0 =
    (let priority = (case priority0 of Some p \<Rightarrow> if p \<le> 0 then 1000000000 else p | None \<Rightarrow> 1000000000);
         maxFee = (case maxFee0 of Some f \<Rightarrow> if f \<le> 0 then priority + 1000000000 else f
                   | None \<Rightarrow> priority + 1000000000)
     in (priority, maxFee))"

text \<open>Priority fee and maximum fee.\<close>

definition getRpcFeeEstimates :: "'w tx_manager \<Rightarrow> ('w, int \<times> int) tact" where
  "getRpcFeeEstimates m =
     attempt (bnd (call RpcFees (tc_fees m)) (\<lambda>(p, f). ret (clean_fees p f)))
       (\<lambda>_. ret (1000000000, 2000000000))"

record prepare_options =
  po_previousAttempt :: "attempt_row option"
  po_customFeeBumpPercent :: "int option"
  po_customGasLimit :: "int option"

definition no_options :: prepare_options where
  "no_options = \<lparr> po_previousAttempt = None, po_customFeeBumpPercent = None, po_customGasLimit = None \<rparr>"

definition bumped :: "int \<Rightarrow> int \<Rightarrow> int" where
  "bumped fee pct = js_div (fee * (100 + pct)) 100 + 1"

definition attempt_fees :: "tx_policy \<Rightarrow> prepare_options \<Rightarrow> int \<times> int \<Rightarrow> int \<times> int" where
  "attempt_fees policy opts rpcFees =
    (case po_previousAttempt opts of
       None \<Rightarrow> rpcFees
     | Some prev \<Rightarrow>
         (let bumpPct = max (tp_minPriorityFeeBumpPercent policy) (coalesce (po_customFeeBumpPercent opts) 0);
              bumpedPriority = bumped (ap_max_priority_fee_per_gas_wei prev) bumpPct;
              bumpedMaxFee = bumped (ap_max_fee_per_gas_wei prev) bumpPct
          in (if bumpedPriority > fst rpcFees then bumpedPriority else fst rpcFees,
              if bumpedMaxFee > snd rpcFees then bumpedMaxFee else snd rpcFees)))"

section \<open>Preparing an attempt\<close>

definition estimate_gas :: "'w tx_manager \<Rightarrow> intent_row \<Rightarrow> string \<Rightarrow> int option \<Rightarrow> ('w, int) tact" where
  "estimate_gas m intent calldata customGasLimit =
    (case truthy_num customGasLimit of
       Some g \<Rightarrow> ret g
     | None \<Rightarrow>
         let query = \<lparr> gq_to = it_target_contract intent, gq_data = calldata, gq_value = it_value_wei intent \<rparr>
         in attempt (bnd (call (RpcEstimateGas query) (tc_estimateGas m query)) (\<lambda>est. ret (js_div (est * 120) 100)))
              (\<lambda>err.
                if isExecutionRevertError err then
                  block_intent m EI_REVERTED (it_id intent)
                    (''SIMULATION_REVERTED: Contract simulation failed: '' @
                     (if je_shortMessage err = '''' then je_message err else je_shortMessage err)) ''''
                else ret 350000))"

definition check_caps :: "'w tx_manager \<Rightarrow> intent_row \<Rightarrow> int \<Rightarrow> int \<Rightarrow> int \<Rightarrow> ('w, unit) tact" where
  "check_caps m intent gasLimit priorityFee maxFee =
    (let policy = tc_policy m; i = it_id intent in
     if priorityFee > tp_maxPriorityFeePerGasCapWei policy
     then cap_blocked m i ''PRIORITY_FEE_CAP_EXCEEDED'' ''Priority fee exceeds cap''
     else if maxFee > tp_maxFeePerGasCapWei policy
     then cap_blocked m i ''MAX_FEE_CAP_EXCEEDED'' ''Max fee exceeds cap''
     else if gasLimit * maxFee + it_value_wei intent > tp_maxWorstCaseCostWeiCap policy
     then cap_blocked m i ''WORST_CASE_COST_CAP_EXCEEDED'' ''Worst-case cost exceeds cap''
     else ret ())"

text \<open>The nonce: the stored one, else a durable reservation, refused while another one is unresolved.\<close>

definition assign_nonce :: "'w tx_manager \<Rightarrow> intent_row \<Rightarrow> ('w, intent_row \<times> int) tact" where
  "assign_nonce m intent =
    (case it_nonce intent of
       Some n \<Rightarrow> ret (intent, n)
     | None \<Rightarrow>
         bnd (tx_peek m (getUnresolvedNonceReservation (tc_chainId m) (it_signer_address intent) (Some (it_id intent))))
           (\<lambda>unresolved. case unresolved of
              Some u \<Rightarrow> thr (plain_error (''UNRESOLVED_NONCE_RESERVATION: Intent '' @ it_id u))
            | None \<Rightarrow>
                bnd (call (RpcPendingNonce (it_signer_address intent)) (tc_pendingNonce m (it_signer_address intent)))
                  (\<lambda>rpcPendingNonce.
                    call (TxReserve (it_id intent)) (tx_store m (\<lambda>s d.
                      reserveEvmNonce (it_id intent) rpcPendingNonce True (tc_date m s) d)))))"

definition sign_tx :: "'w tx_manager \<Rightarrow> tx_request \<Rightarrow> ('w, string) tact" where
  "sign_tx m request = (case tc_sign m of
     None \<Rightarrow> thr (plain_error ''Operator account does not support signTransaction'')
   | Some sign \<Rightarrow> call (SignTx request) (sign request))"

definition request_of :: "attempt_row \<Rightarrow> tx_request" where
  "request_of a = \<lparr> tq_chainId = ap_chain_id a, tq_to = ap_to_address a, tq_data = ap_data a,
     tq_value = ap_value_wei a, tq_nonce = ap_nonce a, tq_gas = ap_gas_limit a,
     tq_maxFeePerGas = ap_max_fee_per_gas_wei a, tq_maxPriorityFeePerGas = ap_max_priority_fee_per_gas_wei a \<rparr>"

definition attempt_params_of ::
  "'w tx_manager \<Rightarrow> intent_row \<Rightarrow> string \<Rightarrow> int \<Rightarrow> int \<Rightarrow> int \<Rightarrow> int \<Rightarrow> int \<Rightarrow> string \<Rightarrow> attempt_params" where
  "attempt_params_of m intent calldata attemptNumber nonce gasLimit maxFee priorityFee txHash = \<lparr>
     pa_intentId = it_id intent, pa_attemptNumber = attemptNumber, pa_chainId = tc_chainId m,
     pa_signerAddress = it_signer_address intent, pa_nonce = nonce, pa_txHash = txHash,
     pa_toAddress = it_target_contract intent, pa_valueWei = it_value_wei intent, pa_data = calldata,
     pa_gasLimit = gasLimit, pa_maxFeePerGas = maxFee, pa_maxPriorityFeePerGas = priorityFee \<rparr>"

text \<open>Sign, store the attempt before any broadcast, and sign again when another process stored this generation first.\<close>

definition sign_and_record ::
  "'w tx_manager \<Rightarrow> intent_row \<Rightarrow> string \<Rightarrow> int \<Rightarrow> int \<Rightarrow> int \<Rightarrow> int \<Rightarrow> int
   \<Rightarrow> ('w, attempt_row \<times> string) tact" where
  "sign_and_record m intent calldata attemptNumber nonce gasLimit maxFee priorityFee =
    bnd (sign_tx m \<lparr> tq_chainId = tc_chainId m, tq_to = it_target_contract intent, tq_data = calldata,
           tq_value = it_value_wei intent, tq_nonce = nonce, tq_gas = gasLimit,
           tq_maxFeePerGas = maxFee, tq_maxPriorityFeePerGas = priorityFee \<rparr>) (\<lambda>rawSignedTx.
    let txHash = tc_keccak m rawSignedTx;
        p = attempt_params_of m intent calldata attemptNumber nonce gasLimit maxFee priorityFee txHash
    in bnd (call (TxRecord p) (tx_store m (\<lambda>s d.
              recordEvmAttempt (tc_keccak m) p (tc_date m s) (tc_uuid m s) d))) (\<lambda>row.
       if to_lower (ap_tx_hash row) \<noteq> to_lower txHash
       then bnd (sign_tx m (request_of row)) (\<lambda>reconstructed. ret (row, reconstructed))
       else ret (row, rawSignedTx)))"

definition prepareAttempt ::
  "'w tx_manager \<Rightarrow> intent_row \<Rightarrow> string \<Rightarrow> prepare_options \<Rightarrow> ('w, attempt_row \<times> string) tact" where
  "prepareAttempt m intentParam calldata opts =
    bnd (tx_peek m (getEvmIntentById (it_id intentParam))) (\<lambda>found.
    let intent = coalesce found intentParam; i = it_id intent; policy = tc_policy m in
    if to_lower (tc_keccak m calldata) \<noteq> to_lower (it_calldata_hash intent)
    then thr (plain_error (''Calldata fingerprint mismatch for intent '' @ i))
    else
      bnd (attempts_of m i) (\<lambda>existingAttempts.
      let attemptNumber = int (length existingAttempts) + 1 in
      if attemptNumber > tp_maxReplacements policy + 1
      then cap_blocked m i ''MAX_REPLACEMENTS_EXCEEDED'' ''Maximum replacement count exceeded''
      else
        bnd (estimate_gas m intent calldata (po_customGasLimit opts)) (\<lambda>gasLimit.
        if gasLimit > tp_maxGasLimitCap policy
        then cap_blocked m i ''GAS_LIMIT_CAP_EXCEEDED'' ''Gas limit exceeds policy cap''
        else
          bnd (getRpcFeeEstimates m) (\<lambda>rpcFees.
          let fees = attempt_fees policy opts rpcFees; priorityFee = fst fees; maxFee = snd fees in
          seq (check_caps m intent gasLimit priorityFee maxFee)
          (bnd (assign_nonce m intent) (\<lambda>(intent', nonce).
           sign_and_record m intent' calldata attemptNumber nonce gasLimit maxFee priorityFee))))))"

section \<open>Reconciling an intent\<close>

record outcome =
  ro_intentId :: string
  ro_status :: intent_state
  ro_minedTxHash :: "string option"
  ro_minedBlockNumber :: "int option"
  ro_reason :: "string option"

definition outcome_of :: "string \<Rightarrow> intent_state \<Rightarrow> outcome" where
  "outcome_of i st = \<lparr> ro_intentId = i, ro_status = st, ro_minedTxHash = None, ro_minedBlockNumber = None, ro_reason = None \<rparr>"

definition failed_status :: "intent_state \<Rightarrow> bool" where
  "failed_status st \<longleftrightarrow> st \<in> {EI_REVERTED, EI_FEE_CAP_BLOCKED, EI_NONCE_CONFLICT, EI_FAILED}"

text \<open>The receipts of the attempts in order; the first one found decides.\<close>

fun check_receipts :: "'w tx_manager \<Rightarrow> string \<Rightarrow> attempt_row list \<Rightarrow> ('w, outcome option) tact" where
  "check_receipts m i [] = ret None"
| "check_receipts m i (a # as) =
    bnd (attempt (call (RpcReceipt (ap_tx_hash a)) (tc_receipt m (ap_tx_hash a)))
           (\<lambda>err. if classifyReceiptObservationError err = RECEIPT_NOT_FOUND then ret None
                  else thr (observation_unknown (classifyReceiptObservationError err) err)))
      (\<lambda>found. case found of
         None \<Rightarrow> check_receipts m i as
       | Some r \<Rightarrow>
           if rp_success r then
             seq (tx_mark m (TxMined i (ap_tx_hash a))
                    (\<lambda>now. markEvmMinedSuccess i (ap_id a) (ap_tx_hash a) (rp_blockNumber r) now))
             (ret (Some ((outcome_of i EI_CONFIRMED)\<lparr>ro_minedTxHash := Some (ap_tx_hash a),
                     ro_minedBlockNumber := Some (rp_blockNumber r)\<rparr>)))
           else
             seq (tx_mark m (TxReverted i (ap_tx_hash a))
                    (\<lambda>now. markEvmMinedRevert i (ap_id a) (rp_blockNumber r) (Some ''Transaction reverted on-chain'') now))
             (ret (Some ((outcome_of i EI_REVERTED)\<lparr>ro_minedTxHash := Some (ap_tx_hash a),
                     ro_minedBlockNumber := Some (rp_blockNumber r),
                     ro_reason := Some ''Transaction reverted on-chain''\<rparr>))))"

text \<open>An advanced account nonce is evidence of nothing; the intent stays pending.\<close>

definition check_nonce :: "'w tx_manager \<Rightarrow> intent_row \<Rightarrow> ('w, outcome) tact" where
  "check_nonce m intent =
    (let i = it_id intent in
     case it_nonce intent of
       None \<Rightarrow> ret (outcome_of i EI_PENDING)
     | Some n \<Rightarrow>
         bnd (attempt (call (RpcMinedNonce (it_signer_address intent)) (tc_minedNonce m (it_signer_address intent)))
                (\<lambda>err. thr (observation_unknown (if isTransportFailure err then RPC_UNAVAILABLE else RC_UNKNOWN) err)))
           (\<lambda>onChainMinedNonce.
             ret (if onChainMinedNonce > n
                  then (outcome_of i EI_PENDING)\<lparr>ro_reason := Some ''NONCE_ADVANCED_OUTCOME_UNKNOWN''\<rparr>
                  else outcome_of i EI_PENDING)))"

definition reconcileIntent :: "'w tx_manager \<Rightarrow> string \<Rightarrow> ('w, outcome) tact" where
  "reconcileIntent m intentId =
    bnd (tx_peek m (getEvmIntentById intentId)) (\<lambda>found.
    case found of
      None \<Rightarrow> thr (plain_error (''Intent '' @ intentId @ '' not found''))
    | Some intent \<Rightarrow>
        if it_status intent = EI_CONFIRMED
        then ret ((outcome_of intentId EI_CONFIRMED)\<lparr>ro_minedTxHash := it_canonical_tx_hash intent\<rparr>)
        else if failed_status (it_status intent)
        then ret ((outcome_of intentId (it_status intent))\<lparr>ro_reason := it_failure_reason intent\<rparr>)
        else
          bnd (attempts_of m intentId) (\<lambda>as.
          if as = [] then ret (outcome_of intentId (it_status intent))
          else
            bnd (check_receipts m intentId as) (\<lambda>decided.
            case decided of Some r \<Rightarrow> ret r | None \<Rightarrow> check_nonce m intent)))"

section \<open>Broadcasting\<close>

definition mark_broadcast :: "'w tx_manager \<Rightarrow> string \<Rightarrow> ('w, unit) tact" where
  "mark_broadcast m attemptId = call (TxBroadcast attemptId) (tx_store m (\<lambda>s d.
     markEvmAttemptBroadcast attemptId (tc_date m s) d))"

definition nonce_conflict :: "'w tx_manager \<Rightarrow> string \<Rightarrow> string \<Rightarrow> string \<Rightarrow> ('w, 'a) tact" where
  "nonce_conflict m i code reason =
     seq (tx_mark m (TxConflict i) (\<lambda>now. markEvmNonceConflict i reason now))
         (thr (plain_error (code @ '': '' @ reason)))"

text \<open>After \<open>nonce too low\<close>: only a mined attempt of this intent ends well.\<close>

definition nonce_too_low :: "'w tx_manager \<Rightarrow> attempt_row \<Rightarrow> ('w, unit) tact" where
  "nonce_too_low m a =
    bnd (reconcileIntent m (ap_intent_id a)) (\<lambda>r.
    if ro_status r = EI_CONFIRMED \<or> ro_status r = EI_REVERTED then ret ()
    else
      bnd (attempt (call (RpcMinedNonce (ap_signer_address a)) (tc_minedNonce m (ap_signer_address a)))
             (\<lambda>e. thr (plain_error (''NONCE_TOO_LOW_RECONCILIATION_FAILED: Failed to fetch on-chain nonce: '' @ je_message e))))
        (\<lambda>onChainMinedNonce.
          if onChainMinedNonce > ap_nonce a
          then nonce_conflict m (ap_intent_id a) ''NONCE_CONFLICT''
            ''NONCE_TOO_LOW: On-chain nonce advanced past attempt nonce. Zero router attempts mined. External transaction consumed nonce.''
          else nonce_conflict m (ap_intent_id a) ''UNKNOWN_NONCE_CONSUMPTION''
            ''UNKNOWN_NONCE_CONSUMPTION: RPC rejected broadcast with nonce too low, but no router attempt mined''))"

definition broadcastAttempt :: "'w tx_manager \<Rightarrow> attempt_row \<Rightarrow> string \<Rightarrow> ('w, unit) tact" where
  "broadcastAttempt m a rawSignedTx =
    attempt (seq (call (RpcSend rawSignedTx) (tc_send m rawSignedTx)) (mark_broadcast m (ap_id a)))
      (\<lambda>err. let msg = to_lower (je_message err) in
         if includes_any [''already known'', ''alreadyknown'', ''known transaction''] msg
         then mark_broadcast m (ap_id a)
         else if includes_any [''nonce too low'', ''noncetoolow''] msg then nonce_too_low m a
         else thr err)"

section \<open>Replacing\<close>

definition replace_body :: "'w tx_manager \<Rightarrow> string \<Rightarrow> string \<Rightarrow> int option \<Rightarrow> ('w, attempt_row \<times> string) tact" where
  "replace_body m intentId calldata customFeeBumpPercent =
    bnd (tx_peek m (getEvmIntentById intentId)) (\<lambda>found.
    case found of
      None \<Rightarrow> thr (plain_error (''Intent '' @ intentId @ '' not found''))
    | Some intent \<Rightarrow>
        if it_status intent \<noteq> EI_PENDING \<and> it_status intent \<noteq> EI_DISPATCHING
        then thr (plain_error ''Cannot replace transaction for intent in this status'')
        else
          bnd (attempts_of m intentId) (\<lambda>as.
          if as = [] then thr (plain_error (''No previous attempts found for intent '' @ intentId))
          else
            bnd (prepareAttempt m intent calldata
                   (no_options\<lparr>po_previousAttempt := Some (last as),
                      po_customFeeBumpPercent := customFeeBumpPercent\<rparr>)) (\<lambda>(a, raw).
            seq (broadcastAttempt m a raw) (ret (a, raw)))))"

text \<open>Concurrent replacements of one intent share the promise of the first.\<close>

definition replacePendingTransaction ::
  "'w tx_manager \<Rightarrow> string \<Rightarrow> string \<Rightarrow> int option \<Rightarrow> ('w, attempt_row \<times> string) tact" where
  "replacePendingTransaction m intentId calldata customFeeBumpPercent =
    bnd (ask (\<lambda>s. intentId \<in> set (t_locks s))) (\<lambda>locked.
    if locked then call (AwaitReplacement intentId) (tc_otherReplacement m intentId)
    else
      seq (change (\<lambda>s. s\<lparr>t_locks := intentId # t_locks s\<rparr>))
      (ensure (replace_body m intentId calldata customFeeBumpPercent)
         (change (\<lambda>s. s\<lparr>t_locks := filter (\<lambda>k. k \<noteq> intentId) (t_locks s)\<rparr>))))"

section \<open>Waiting for confirmation\<close>

definition same_hash :: "string \<Rightarrow> attempt_row \<Rightarrow> bool" where
  "same_hash h a \<longleftrightarrow> to_lower (ap_tx_hash a) = to_lower h"

definition terminated :: "string \<Rightarrow> js_error" where
  "terminated i = plain_error (''EVM intent '' @ i @ '' terminated'')"

definition null_error :: js_error where
  "null_error = JsError True ''TypeError'' ''Cannot read properties of null'' '''' '''' None"

text \<open>A confirmed outcome with its transaction: the result once it is deep enough, \<open>None\<close> to go on.\<close>

definition confirmed_result ::
  "'w tx_manager \<Rightarrow> string \<Rightarrow> string \<Rightarrow> ('w, (intent_row option \<times> attempt_row option \<times> receipt option) option) tact" where
  "confirmed_result m i h =
    bnd (call (RpcReceipt h) (tc_receipt m h)) (\<lambda>found.
    bnd (call RpcBlock (tc_block m)) (\<lambda>currentBlock.
    case found of
      None \<Rightarrow> thr null_error
    | Some r \<Rightarrow>
        if currentBlock - rp_blockNumber r + 1 \<ge> tp_requiredConfirmations (tc_policy m) then
          bnd (tx_peek m (getEvmIntentById i)) (\<lambda>intent.
          bnd (attempts_of m i) (\<lambda>as.
          ret (Some (intent, some_or (find (same_hash h) as) (if as = [] then None else Some (last as)), Some r))))
        else ret None))"

text \<open>A stalled transaction is replaced; a failed replacement is ignored.\<close>

definition replace_stalled :: "'w tx_manager \<Rightarrow> string \<Rightarrow> string \<Rightarrow> ('w, unit) tact" where
  "replace_stalled m i calldata =
    bnd (attempts_of m i) (\<lambda>as.
    if as \<noteq> [] \<and> int (length as) \<le> tp_maxReplacements (tc_policy m) then
      bnd (ask (tc_date m)) (\<lambda>now.
      if now - ap_created_at (last as) > tp_stalledAgeMs (tc_policy m)
      then attempt (seq (replacePendingTransaction m i calldata None) (ret ())) (\<lambda>_. ret ())
      else ret ())
    else ret ())"

fun wait_loop ::
  "'w tx_manager \<Rightarrow> nat \<Rightarrow> string \<Rightarrow> string \<Rightarrow> int \<Rightarrow> int
   \<Rightarrow> ('w, intent_row option \<times> attempt_row option \<times> receipt option) tact" where
  "wait_loop m 0 i calldata timeoutMs startTime = thr (plain_error ''The clock does not advance'')"
| "wait_loop m (Suc fuel) i calldata timeoutMs startTime =
    bnd (ask (tc_date m)) (\<lambda>now.
    if now - startTime < timeoutMs then
      bnd (reconcileIntent m i) (\<lambda>r.
      bnd (case (ro_status r = EI_CONFIRMED, truthy_str (ro_minedTxHash r)) of
             (True, Some h) \<Rightarrow> confirmed_result m i h
           | _ \<Rightarrow> ret None) (\<lambda>result.
      case result of
        Some x \<Rightarrow> ret x
      | None \<Rightarrow>
          if failed_status (ro_status r) then thr (terminated i)
          else seq (replace_stalled m i calldata)
                 (seq (change (tc_sleep m)) (wait_loop m fuel i calldata timeoutMs startTime))))
    else thr (plain_error (''Timeout waiting for EVM intent '' @ i @ '' confirmation'')))"

text \<open>The fuel is enough when a sleep takes at least a millisecond (\<open>Tx_Laws\<close>).\<close>

definition waitForConfirmation ::
  "'w tx_manager \<Rightarrow> string \<Rightarrow> string \<Rightarrow> int option
   \<Rightarrow> ('w, intent_row option \<times> attempt_row option \<times> receipt option) tact" where
  "waitForConfirmation m i calldata timeoutMs =
    (let timeout = coalesce timeoutMs 60000 in
     bnd (ask (tc_date m)) (\<lambda>startTime. wait_loop m (Suc (nat timeout)) i calldata timeout startTime))"

section \<open>Executing an intent\<close>

definition mismatch_error :: js_error where
  "mismatch_error = plain_error ''DETERMINISTIC_SIGNATURE_MISMATCH: Reconstructed transaction hash does not match persisted hash''"

text \<open>\<open>signAttemptTransaction\<close>: chain and target of manager and intent, the rest of the attempt.\<close>

definition signAttemptTransaction ::
  "'w tx_manager \<Rightarrow> intent_row \<Rightarrow> attempt_row \<Rightarrow> string \<Rightarrow> ('w, string) tact" where
  "signAttemptTransaction m intent a calldata = sign_tx m \<lparr> tq_chainId = tc_chainId m,
     tq_to = it_target_contract intent, tq_data = calldata, tq_value = it_value_wei intent,
     tq_nonce = ap_nonce a, tq_gas = ap_gas_limit a, tq_maxFeePerGas = ap_max_fee_per_gas_wei a,
     tq_maxPriorityFeePerGas = ap_max_priority_fee_per_gas_wei a \<rparr>"

text \<open>A stored but unsent attempt is signed again; it goes out only when the hash is the stored one.\<close>

definition rebroadcast :: "'w tx_manager \<Rightarrow> intent_row \<Rightarrow> attempt_row \<Rightarrow> string \<Rightarrow> ('w, unit) tact" where
  "rebroadcast m intent a calldata =
    bnd (signAttemptTransaction m intent a calldata) (\<lambda>raw.
    if to_lower (tc_keccak m raw) \<noteq> to_lower (ap_tx_hash a) then thr mismatch_error
    else broadcastAttempt m a raw)"

text \<open>With attempts on record, the receipts are asked first; a confirmed one is the result.\<close>

definition already_mined ::
  "'w tx_manager \<Rightarrow> string \<Rightarrow> attempt_row list
   \<Rightarrow> ('w, (intent_row option \<times> attempt_row option \<times> receipt option) option) tact" where
  "already_mined m i as =
    bnd (reconcileIntent m i) (\<lambda>r.
    case (ro_status r = EI_CONFIRMED, truthy_str (ro_minedTxHash r)) of
      (True, Some h) \<Rightarrow>
        bnd (call (RpcReceipt h) (tc_receipt m h)) (\<lambda>rc.
        bnd (tx_peek m (getEvmIntentById i)) (\<lambda>intent.
        ret (Some (intent, some_or (find (same_hash h) as) (Some (hd as)), rc))))
    | _ \<Rightarrow> ret None)"

definition executeIntent ::
  "'w tx_manager \<Rightarrow> intent_params \<Rightarrow> int option
   \<Rightarrow> ('w, intent_row option \<times> attempt_row option \<times> receipt option) tact" where
  "executeIntent m params timeoutMs =
    bnd (call (TxIntent params) (tx_store m (\<lambda>s d.
           getOrCreateEvmIntent (tc_keccak m) params (tc_date m s) (tc_uuid m s) d))) (\<lambda>intent.
    if it_status intent = EI_CONFIRMED then
      bnd (attempts_of m (it_id intent)) (\<lambda>as.
      let winner = some_or (case it_canonical_tx_hash intent of None \<Rightarrow> None | Some h \<Rightarrow> find (same_hash h) as)
                     (case as of [] \<Rightarrow> None | a # _ \<Rightarrow> Some a)
      in case winner of
           None \<Rightarrow> thr null_error
         | Some a \<Rightarrow> bnd (call (RpcReceipt (ap_tx_hash a)) (tc_receipt m (ap_tx_hash a)))
                       (\<lambda>r. ret (Some intent, Some a, r)))
    else if failed_status (it_status intent) then thr (terminated (it_id intent))
    else
      bnd (attempts_of m (it_id intent)) (\<lambda>as.
      bnd (if as = [] then ret None else already_mined m (it_id intent) as) (\<lambda>done.
      case done of
        Some x \<Rightarrow> ret x
      | None \<Rightarrow>
          seq (if as = [] then
                 bnd (prepareAttempt m intent (pi_calldata params) no_options) (\<lambda>(a, raw). broadcastAttempt m a raw)
               else if ap_status (last as) = EA_PREPARED
               then rebroadcast m intent (last as) (pi_calldata params)
               else ret ())
          (waitForConfirmation m (it_id intent) (pi_calldata params) timeoutMs))))"

section \<open>Recovery\<close>

fun reconcile_intents :: "'w tx_manager \<Rightarrow> intent_row list \<Rightarrow> ('w, outcome list) tact" where
  "reconcile_intents m [] = ret []"
| "reconcile_intents m (intent # rest) =
    bnd (attempt (reconcileIntent m (it_id intent))
           (\<lambda>err. ret ((outcome_of (it_id intent) (it_status intent))\<lparr>ro_reason := Some (je_message err)\<rparr>)))
      (\<lambda>r. bnd (reconcile_intents m rest) (\<lambda>rs. ret (r # rs)))"

definition tx_reconcileAll :: "'w tx_manager \<Rightarrow> ('w, outcome list) tact" where
  "tx_reconcileAll m = bnd (tx_peek m (getActiveEvmIntents (Some (tc_chainId m)))) (reconcile_intents m)"

text \<open>Start-up recovery rebroadcasts a prepared attempt before it reconciles; an error ends it.\<close>

fun recover_intents :: "'w tx_manager \<Rightarrow> intent_row list \<Rightarrow> ('w, outcome list) tact" where
  "recover_intents m [] = ret []"
| "recover_intents m (intent # rest) =
    bnd (attempts_of m (it_id intent)) (\<lambda>as.
    seq (case find (\<lambda>a. ap_status a = EA_PREPARED) as of
           Some a \<Rightarrow> rebroadcast m intent a (ap_data a)
         | None \<Rightarrow> ret ())
    (bnd (reconcileIntent m (it_id intent)) (\<lambda>r.
     bnd (recover_intents m rest) (\<lambda>rs. ret (r # rs)))))"

definition recoverOnStartup :: "'w tx_manager \<Rightarrow> ('w, outcome list) tact" where
  "recoverOnStartup m = bnd (tx_peek m (getActiveEvmIntents (Some (tc_chainId m)))) (recover_intents m)"

definition recoverUnresolvedIntent ::
  "'w tx_manager \<Rightarrow> string \<Rightarrow> string option \<Rightarrow> ('w, attempt_row \<times> string) tact" where
  "recoverUnresolvedIntent m intentId calldata =
    bnd (tx_peek m (getEvmIntentById intentId)) (\<lambda>found.
    case found of
      None \<Rightarrow> thr (plain_error (''Intent '' @ intentId @ '' not found for recovery''))
    | Some intent \<Rightarrow>
        let stored = it_calldata_bytes intent;
            cd = coalesce calldata (if stored = '''' then ''0x'' else stored)
        in bnd (prepareAttempt m intent cd no_options) (\<lambda>(a, raw).
           seq (broadcastAttempt m a raw) (ret (a, raw))))"

end
