(* ===== verification/Tx_Laws.thy ===== *)
theory Tx_Laws
  imports Tx_Manager
begin

text \<open>
  What the transaction manager can do, whatever the RPC, the signer and other processes do: it
  broadcasts only stored attempts, stores only attempts within the fee policy, declares an outcome
  only on a receipt, raises the fees of every replacement, and ends its waiting.
\<close>

section \<open>What has to be known\<close>

text \<open>The attempt came from the store: it was just recorded, or read back.\<close>

definition stored_attempt :: "attempt_row \<Rightarrow> tx_event list \<Rightarrow> bool" where
  "stored_attempt a h \<longleftrightarrow> (\<exists>p. TxRecord p (Inr a) \<in> set h) \<or> (\<exists>i as. TxAttempts i as \<in> set h \<and> a \<in> set as)"

text \<open>The raw transaction is the one of the attempt: its hash, or signed from the stored fields.\<close>

definition ready :: "'w tx_manager \<Rightarrow> attempt_row \<Rightarrow> string \<Rightarrow> tx_event list \<Rightarrow> bool" where
  "ready m a raw h \<longleftrightarrow> stored_attempt a h \<and> (\<exists>request. SignTx request (Inr raw) \<in> set h \<and>
     (to_lower (tc_keccak m raw) = to_lower (ap_tx_hash a) \<or> request = request_of a))"

definition reserved_in :: "tx_event list \<Rightarrow> bool" where
  "reserved_in h \<longleftrightarrow> (\<exists>i r. TxReserve i r \<in> set h)"

definition within_policy :: "tx_policy \<Rightarrow> attempt_params \<Rightarrow> bool" where
  "within_policy policy p \<longleftrightarrow> pa_gasLimit p \<le> tp_maxGasLimitCap policy \<and>
     pa_maxFeePerGas p \<le> tp_maxFeePerGasCapWei policy \<and>
     pa_maxPriorityFeePerGas p \<le> tp_maxPriorityFeePerGasCapWei policy \<and>
     pa_attemptNumber p \<le> tp_maxReplacements policy + 1"

definition cost :: "attempt_params \<Rightarrow> int" where
  "cost p = pa_gasLimit p * pa_maxFeePerGas p + pa_valueWei p"

definition signed_for :: "'w tx_manager \<Rightarrow> attempt_params \<Rightarrow> tx_event list \<Rightarrow> bool" where
  "signed_for m p h \<longleftrightarrow> (\<exists>request raw. SignTx request (Inr raw) \<in> set h \<and> pa_txHash p = tc_keccak m raw \<and>
     tq_nonce request = pa_nonce p \<and> tq_gas request = pa_gasLimit p \<and>
     tq_maxFeePerGas request = pa_maxFeePerGas p \<and> tq_maxPriorityFeePerGas request = pa_maxPriorityFeePerGas p \<and>
     tq_to request = pa_toAddress p \<and> tq_value request = pa_valueWei p \<and> tq_data request = pa_data p)"

definition receipt_seen :: "string \<Rightarrow> bool \<Rightarrow> tx_event list \<Rightarrow> bool" where
  "receipt_seen hash ok h \<longleftrightarrow> (\<exists>r. RpcReceipt hash (Inr (Some r)) \<in> set h \<and> rp_success r = ok)"

definition tx_guard :: "'w tx_manager \<Rightarrow> tx_event list \<Rightarrow> tx_event \<Rightarrow> bool" where
  "tx_guard m h e \<longleftrightarrow>
     (\<forall>raw r. e = RpcSend raw r \<longrightarrow> (\<exists>a. ready m a raw h)) \<and>
     (\<forall>p r. e = TxRecord p r \<longrightarrow> within_policy (tc_policy m) p \<and> signed_for m p h \<and>
        (reserved_in h \<or> cost p \<le> tp_maxWorstCaseCostWeiCap (tc_policy m))) \<and>
     (\<forall>i hash. e = TxMined i hash \<longrightarrow> receipt_seen hash True h) \<and>
     (\<forall>i hash. e = TxReverted i hash \<longrightarrow> receipt_seen hash False h)"

lemma tx_guard_other:
  "tx_guard m h (RpcEstimateGas q r1)" "tx_guard m h (RpcFees r2)" "tx_guard m h (RpcPendingNonce k r1)"
  "tx_guard m h (RpcMinedNonce k r1)" "tx_guard m h (RpcReceipt k r3)" "tx_guard m h (RpcBlock r1)"
  "tx_guard m h (SignTx rq r4)" "tx_guard m h (TxIntent ip r5)" "tx_guard m h (TxAttempts k as)"
  "tx_guard m h (TxReserve k r6)" "tx_guard m h (TxBroadcast k r7)" "tx_guard m h (TxBlocked k st)"
  "tx_guard m h (TxConflict k)" "tx_guard m h (AwaitReplacement k r8)"
  by (simp_all add: tx_guard_def)

lemma known_append [simp]:
  "stored_attempt a h \<Longrightarrow> stored_attempt a (h @ t)" "ready m a raw h \<Longrightarrow> ready m a raw (h @ t)"
  "receipt_seen hash ok h \<Longrightarrow> receipt_seen hash ok (h @ t)" "signed_for m p h \<Longrightarrow> signed_for m p (h @ t)"
  by (auto simp: stored_attempt_def ready_def receipt_seen_def signed_for_def)

section \<open>Rules for the helpers\<close>

lemma wp_tx_peek [wp_rules]: "(\<And>x. Q x h) \<Longrightarrow> wp J (tx_peek m f) Q E h"
  unfolding tx_peek_def by (intro wp_rules)

lemma wp_tx_mark [wp_rules]: "J h e \<Longrightarrow> Q () (h @ [e]) \<Longrightarrow> wp J (tx_mark m e f) Q E h"
  by (rule wpI) (auto simp: tx_mark_def Let_def)

lemma wp_attempts_of [wp_rules]:
  "(\<And>as. J h (TxAttempts i as)) \<Longrightarrow> (\<And>as. Q as (h @ [TxAttempts i as])) \<Longrightarrow> wp J (attempts_of m i) Q E h"
  by (rule wpI) (auto simp: attempts_of_def Let_def)

lemma wp_block_intent:
  "(\<And>e h. E e h) \<Longrightarrow> wp (tx_guard m) (block_intent m st i reason prefix) Q E h"
  unfolding block_intent_def by (intro wp_rules) (simp_all add: tx_guard_other)

section \<open>Preparing\<close>

lemma wp_estimate_gas:
  assumes "\<And>g h'. Q g (h @ h')" "\<And>e h. E e h"
  shows "wp (tx_guard m) (estimate_gas m intent cd g0) Q E h"
  unfolding estimate_gas_def Let_def
  using assms(1) [of _ "[]"] assms
  by (intro wp_rules wp_block_intent) (auto simp: tx_guard_other)

lemma wp_rpc_fees:
  assumes "\<And>f h'. Q f (h @ h')"
  shows "wp (tx_guard m) (getRpcFeeEstimates m) Q E h"
  unfolding getRpcFeeEstimates_def by (intro wp_rules) (auto simp: tx_guard_other assms)

lemma wp_check_caps:
  assumes "\<And>e h. E e h"
    "p \<le> tp_maxPriorityFeePerGasCapWei (tc_policy m) \<Longrightarrow> f \<le> tp_maxFeePerGasCapWei (tc_policy m) \<Longrightarrow>
     g * f + it_value_wei intent \<le> tp_maxWorstCaseCostWeiCap (tc_policy m) \<Longrightarrow> Q () h"
  shows "wp (tx_guard m) (check_caps m intent g p f) Q E h"
  unfolding check_caps_def Let_def cap_blocked_def
  by (intro wp_rules wp_block_intent assms) auto

lemma wp_assign_nonce:
  assumes "\<And>e h. E e h" "\<And>n. Q (intent, n) h" "\<And>x h'. reserved_in (h @ h') \<Longrightarrow> Q x (h @ h')"
  shows "wp (tx_guard m) (assign_nonce m intent) Q E h"
proof -
  have q: "Q (x, y) (h @ [RpcPendingNonce a r, TxReserve i r'])" for x y a r i r'
    by (rule assms(3)) (auto simp: reserved_in_def)
  show ?thesis
    unfolding assign_nonce_def
    by (intro wp_rules) (auto simp: tx_guard_other assms(1,2) q)
qed

lemma signed_forI:
  assumes "SignTx rq (Inr raw) \<in> set h" "pa_txHash p = tc_keccak m raw" "tq_nonce rq = pa_nonce p"
    "tq_gas rq = pa_gasLimit p" "tq_maxFeePerGas rq = pa_maxFeePerGas p"
    "tq_maxPriorityFeePerGas rq = pa_maxPriorityFeePerGas p" "tq_to rq = pa_toAddress p"
    "tq_value rq = pa_valueWei p" "tq_data rq = pa_data p"
  shows "signed_for m p h"
  using assms unfolding signed_for_def by metis

lemma wp_sign_and_record:
  assumes "\<And>e h. E e h"
    "g \<le> tp_maxGasLimitCap (tc_policy m)" "f \<le> tp_maxFeePerGasCapWei (tc_policy m)"
    "pr \<le> tp_maxPriorityFeePerGasCapWei (tc_policy m)" "n \<le> tp_maxReplacements (tc_policy m) + 1"
    "reserved_in h \<or> g * f + it_value_wei intent \<le> tp_maxWorstCaseCostWeiCap (tc_policy m)"
    "\<And>a raw h. ready m a raw h \<Longrightarrow> Q (a, raw) h"
  shows "wp (tx_guard m) (sign_and_record m intent cd n nonce g f pr) Q E h"
proof -
  have record_ok: "tx_guard m (h @ [SignTx \<lparr> tq_chainId = tc_chainId m, tq_to = it_target_contract intent, tq_data = cd,
           tq_value = it_value_wei intent, tq_nonce = nonce, tq_gas = g,
           tq_maxFeePerGas = f, tq_maxPriorityFeePerGas = pr \<rparr> (Inr raw)])
       (TxRecord (attempt_params_of m intent cd n nonce g f pr (tc_keccak m raw)) r)" for raw r
    using assms(2-6)
    by (auto simp: tx_guard_def within_policy_def cost_def attempt_params_of_def reserved_in_def
          intro!: signed_forI)
  show ?thesis
    unfolding sign_and_record_def sign_tx_def Let_def
    by (intro wp_rules record_ok) (auto simp: tx_guard_other assms(1) intro!: assms(7) simp: ready_def stored_attempt_def)
qed

lemma wp_prepareAttempt:
  assumes "\<And>e h. E e h" "\<And>a raw h. ready m a raw h \<Longrightarrow> Q (a, raw) h"
  shows "wp (tx_guard m) (prepareAttempt m intent cd opts) Q E h"
  unfolding prepareAttempt_def Let_def cap_blocked_def
  by (intro wp_rules wp_block_intent wp_estimate_gas wp_rpc_fees wp_check_caps wp_assign_nonce)
     (auto simp: tx_guard_other assms(1) intro!: wp_sign_and_record assms)

section \<open>The operations\<close>

definition safe :: "'w tx_manager \<Rightarrow> ('w, 'a) tact \<Rightarrow> bool" where
  "safe m act \<longleftrightarrow> (\<forall>h. wp (tx_guard m) act (\<lambda>_ _. True) (\<lambda>_ _. True) h)"

lemma safeI: "(\<And>h. wp (tx_guard m) act (\<lambda>_ _. True) (\<lambda>_ _. True) h) \<Longrightarrow> safe m act"
  by (simp add: safe_def)

lemma wp_safe:
  assumes "safe m act" "\<And>x t. Q x (h @ t)" "\<And>e t. E e (h @ t)"
  shows "wp (tx_guard m) act Q E h"
proof -
  have "wp (tx_guard m) act (\<lambda>_ _. True) (\<lambda>_ _. True) h" using assms(1) by (simp add: safe_def)
  then show ?thesis unfolding wp_def using assms(2,3) by (fastforce split: sum.splits)
qed

named_theorems safe_rules "the operations proved safe"

lemma safe_ret: "safe m (ret x)"
  by (intro safeI wp_rules TrueI)

lemma safe_check_receipts [safe_rules]: "safe m (check_receipts m i as)"
proof (rule safeI)
  show "wp (tx_guard m) (check_receipts m i as) (\<lambda>_ _. True) (\<lambda>_ _. True) h" for h
  proof (induction as arbitrary: h)
    case (Cons a as)
    show ?case
      unfolding check_receipts.simps
      by (intro wp_rules Cons) (auto simp: tx_guard_other, auto simp: tx_guard_def receipt_seen_def)
  qed (auto intro: wp_rules)
qed

lemma safe_reconcileIntent [safe_rules]: "safe m (reconcileIntent m i)"
  unfolding reconcileIntent_def check_nonce_def Let_def
  by (intro safeI wp_rules wp_safe [OF safe_check_receipts]) (simp_all add: tx_guard_other)

lemma safe_mark_broadcast: "safe m (mark_broadcast m i)"
  unfolding mark_broadcast_def by (intro safeI wp_rules) (simp_all add: tx_guard_other)

lemma safe_nonce_conflict: "safe m (nonce_conflict m i c r)"
  unfolding nonce_conflict_def by (intro safeI wp_rules) (simp_all add: tx_guard_other)

lemma safe_nonce_too_low: "safe m (nonce_too_low m a)"
  unfolding nonce_too_low_def
  by (intro safeI wp_rules wp_safe [OF safe_reconcileIntent] wp_safe [OF safe_nonce_conflict])
     (simp_all add: tx_guard_other)

lemma wp_broadcast:
  assumes "ready m a raw h" "\<And>x t. Q x (h @ t)" "\<And>e t. E e (h @ t)"
  shows "wp (tx_guard m) (broadcastAttempt m a raw) Q E h"
proof -
  have send: "tx_guard m h (RpcSend raw r)" for r
    using assms(1) by (auto simp: tx_guard_def)
  show ?thesis
    unfolding broadcastAttempt_def Let_def
    by (intro wp_rules wp_safe [OF safe_mark_broadcast] wp_safe [OF safe_nonce_too_low] send)
       (simp_all add: assms(2,3))
qed

lemma wp_rebroadcast:
  assumes "stored_attempt a h" "\<And>x t. Q x (h @ t)" "\<And>e t. E e (h @ t)"
  shows "wp (tx_guard m) (rebroadcast m intent a cd) Q E h"
  unfolding rebroadcast_def signAttemptTransaction_def sign_tx_def
  using assms(2,3) [of _ "[]"] assms
  by (intro wp_rules wp_broadcast) (auto simp: tx_guard_other ready_def intro!: known_append)

lemma safe_prepareAttempt [safe_rules]: "safe m (prepareAttempt m intent cd opts)"
  by (intro safeI wp_prepareAttempt) simp_all

lemma wp_prepare_and_send:
  "wp (tx_guard m) (bnd (prepareAttempt m intent cd opts) (\<lambda>(a, raw). seq (broadcastAttempt m a raw) (k a raw)))
     (\<lambda>_ _. True) (\<lambda>_ _. True) h" if "\<And>a raw. safe m (k a raw)"
  by (intro wp_rules wp_prepareAttempt wp_broadcast wp_safe [OF that]) simp_all

lemma safe_replace [safe_rules]: "safe m (replacePendingTransaction m i cd pct)"
  unfolding replacePendingTransaction_def replace_body_def
  by (intro safeI wp_rules wp_prepareAttempt wp_broadcast) (simp_all add: tx_guard_other)

lemma safe_confirmed_result: "safe m (confirmed_result m i hash)"
  unfolding confirmed_result_def by (intro safeI wp_rules) (simp_all add: tx_guard_other)

lemma safe_replace_stalled: "safe m (replace_stalled m i cd)"
  unfolding replace_stalled_def
  by (intro safeI wp_rules wp_safe [OF safe_replace]) (simp_all add: tx_guard_other)

lemma wp_confirmed:
  "(\<And>x t. Q x (h @ t)) \<Longrightarrow> (\<And>e t. E e (h @ t)) \<Longrightarrow>
   wp (tx_guard m) (case (b, o') of (True, Some hash) \<Rightarrow> confirmed_result m i hash | _ \<Rightarrow> ret None) Q E h"
  by (cases b; cases o')
     (auto intro!: wp_safe [OF safe_confirmed_result] wp_ret simp del: append_Nil2 intro: append_Nil2 [THEN subst])

lemma safe_wait_loop: "safe m (wait_loop m fuel i cd timeout start)"
proof (rule safeI)
  show "wp (tx_guard m) (wait_loop m fuel i cd timeout start) (\<lambda>_ _. True) (\<lambda>_ _. True) h" for h
  proof (induction fuel arbitrary: h)
    case (Suc fuel)
    show ?case
      unfolding wait_loop.simps
      by (intro wp_rules wp_safe [OF safe_reconcileIntent] wp_confirmed wp_safe [OF safe_replace_stalled] Suc) simp_all
  qed (auto intro: wp_rules)
qed

lemma safe_waitForConfirmation [safe_rules]: "safe m (waitForConfirmation m i cd t)"
  unfolding waitForConfirmation_def Let_def
  by (intro safeI wp_rules wp_safe [OF safe_wait_loop]) simp_all

lemma stored_here: "TxAttempts i as \<in> set h \<Longrightarrow> a \<in> set as \<Longrightarrow> stored_attempt a h"
  by (auto simp: stored_attempt_def)

lemma safe_already_mined: "safe m (already_mined m i as)"
proof -
  have k: "wp (tx_guard m) (case (b, o') of (True, Some hash) \<Rightarrow> f hash | _ \<Rightarrow> ret None) (\<lambda>_ _. True) (\<lambda>_ _. True) h"
    if "\<And>hash h. wp (tx_guard m) (f hash) (\<lambda>_ _. True) (\<lambda>_ _. True) h" for b o' f h
    by (cases b; cases o') (simp_all add: that wp_ret)
  show ?thesis
    unfolding already_mined_def
    by (intro safeI wp_bnd wp_safe [OF safe_reconcileIntent] k TrueI) (intro wp_rules; simp add: tx_guard_other)
qed

lemma safe_executeIntent [safe_rules]: "safe m (executeIntent m p timeout)"
  unfolding executeIntent_def Let_def
  by (intro safeI wp_rules wp_safe [OF safe_already_mined] wp_prepareAttempt wp_broadcast wp_rebroadcast
        wp_safe [OF safe_waitForConfirmation])
     (auto simp: tx_guard_other intro!: stored_here)

lemma safe_bnd:
  assumes "safe m act" "\<And>x. safe m (f x)"
  shows "safe m (bnd act f)"
  by (intro safeI wp_bnd wp_safe [OF assms(1)] TrueI) (use assms(2) in \<open>simp add: safe_def\<close>)

lemma safe_reconcile_intents: "safe m (reconcile_intents m is)"
proof (induction "is")
  case (Cons i "is")
  have "safe m (attempt (reconcileIntent m (it_id i)) (\<lambda>err. ret (f err)))" for f :: "js_error \<Rightarrow> outcome"
    by (intro safeI wp_attempt wp_safe [OF safe_reconcileIntent] wp_ret TrueI)
  then show ?case unfolding reconcile_intents.simps by (intro safe_bnd Cons safe_ret)
qed (simp add: safe_ret)

lemma safe_tx_reconcileAll [safe_rules]: "safe m (tx_reconcileAll m)"
  unfolding tx_reconcileAll_def by (intro safeI wp_rules wp_safe [OF safe_reconcile_intents] TrueI)

lemma found_stored: "find P as = Some a \<Longrightarrow> TxAttempts i as \<in> set h \<Longrightarrow> stored_attempt a h"
  by (rule stored_here) (auto simp: find_Some_iff)

lemma safe_recover_intents: "safe m (recover_intents m is)"
proof (induction "is")
  case (Cons i "is")
  have rest: "safe m (bnd (reconcileIntent m (it_id i)) (\<lambda>r. bnd (recover_intents m is) (\<lambda>rs. ret (r # rs))))"
    by (intro safe_bnd Cons safe_reconcileIntent safe_ret)
  show ?case
    unfolding recover_intents.simps
    by (intro safeI wp_rules wp_rebroadcast wp_safe [OF rest] TrueI) (auto simp: tx_guard_other intro: found_stored)
qed (simp add: safe_ret)

lemma safe_recoverOnStartup [safe_rules]: "safe m (recoverOnStartup m)"
  unfolding recoverOnStartup_def by (intro safeI wp_rules wp_safe [OF safe_recover_intents] TrueI)

lemma safe_recoverUnresolvedIntent [safe_rules]: "safe m (recoverUnresolvedIntent m i cd)"
  unfolding recoverUnresolvedIntent_def Let_def
  by (intro safeI wp_rules wp_prepareAttempt wp_broadcast) simp_all

section \<open>Every public operation\<close>

text \<open>\<open>broadcastAttempt\<close> is public too, with the attempt and raw transaction of its caller; it is part of the others.\<close>

datatype tx_op = ExecuteIntent intent_params "int option" | ReplacePending string string "int option"
  | WaitForConfirmation string string "int option" | ReconcileIntent string | TxReconcileAll
  | RecoverOnStartup | RecoverUnresolved string "string option" | PrepareAttempt intent_row string prepare_options

definition silence :: "('x, 'e, 's, 'a) action \<Rightarrow> ('x, 'e, 's, unit) action" where
  "silence act = bnd act (\<lambda>_. ret ())"

fun run_tx :: "'w tx_manager \<Rightarrow> tx_op \<Rightarrow> ('w, unit) tact" where
  "run_tx m (ExecuteIntent p t) = silence (executeIntent m p t)"
| "run_tx m (ReplacePending i cd pct) = silence (replacePendingTransaction m i cd pct)"
| "run_tx m (WaitForConfirmation i cd t) = silence (waitForConfirmation m i cd t)"
| "run_tx m (ReconcileIntent i) = silence (reconcileIntent m i)"
| "run_tx m TxReconcileAll = silence (tx_reconcileAll m)"
| "run_tx m RecoverOnStartup = silence (recoverOnStartup m)"
| "run_tx m (RecoverUnresolved i cd) = silence (recoverUnresolvedIntent m i cd)"
| "run_tx m (PrepareAttempt intent cd opts) = silence (prepareAttempt m intent cd opts)"

lemma safe_silence: "safe m act \<Longrightarrow> safe m (silence act)"
  unfolding silence_def by (intro safe_bnd safe_ret)

lemma run_tx_guarded: "trace (run_tx m opn) s = pre @ e # post \<Longrightarrow> tx_guard m pre e"
proof -
  have "safe m (run_tx m opn)" by (cases opn) (simp_all add: safe_silence safe_rules)
  then show "trace (run_tx m opn) s = pre @ e # post \<Longrightarrow> tx_guard m pre e"
    unfolding safe_def by (blast intro: wp_at)
qed

section \<open>Waiting ends\<close>

text \<open>The clock depends on the world only, no call sets it back, and a poll interval takes time.\<close>

definition tx_clock_runs :: "'w tx_manager \<Rightarrow> bool" where
  "tx_clock_runs m \<longleftrightarrow>
     (\<forall>s d l. tc_date m (s\<lparr>t_db := d\<rparr>) = tc_date m s \<and> tc_date m (s\<lparr>t_locks := l\<rparr>) = tc_date m s) \<and>
     (\<forall>s. tc_date m s \<le> tc_date m (tc_others m s) \<and> tc_date m s < tc_date m (tc_sleep m s)) \<and>
     (\<forall>s k q rq sg raw. tc_date m s \<le> tc_date m (snd (tc_estimateGas m q s)) \<and> tc_date m s \<le> tc_date m (snd (tc_fees m s)) \<and>
        tc_date m s \<le> tc_date m (snd (tc_pendingNonce m k s)) \<and> tc_date m s \<le> tc_date m (snd (tc_minedNonce m k s)) \<and>
        tc_date m s \<le> tc_date m (snd (tc_send m raw s)) \<and> tc_date m s \<le> tc_date m (snd (tc_receipt m k s)) \<and>
        tc_date m s \<le> tc_date m (snd (tc_block m s)) \<and> tc_date m s \<le> tc_date m (snd (tc_otherReplacement m k s)) \<and>
        (tc_sign m = Some sg \<longrightarrow> tc_date m s \<le> tc_date m (snd (sg rq s))))"

abbreviation waits :: "'w tx_manager \<Rightarrow> ('w, 'a) tact \<Rightarrow> bool" where
  "waits m \<equiv> grows (tc_date m)"

lemma tx_store_waits: "tx_clock_runs m \<Longrightarrow> tc_date m s \<le> tc_date m (snd (tx_store m f s))"
  unfolding tx_store_def tx_clock_runs_def by (simp add: Let_def split: prod.split sum.split)

lemma tx_mark_waits: "tx_clock_runs m \<Longrightarrow> waits m (tx_mark m e f)"
  by (rule growsI) (auto simp: tx_mark_def Let_def tx_clock_runs_def)

lemma attempts_of_waits: "tx_clock_runs m \<Longrightarrow> waits m (attempts_of m i)"
  by (rule growsI) (auto simp: attempts_of_def Let_def tx_clock_runs_def)

lemma tx_peek_waits: "tx_clock_runs m \<Longrightarrow> waits m (tx_peek m f)"
  unfolding tx_peek_def by (intro grows_rules) (simp add: tx_clock_runs_def)

lemma sign_waits: "tx_clock_runs m \<Longrightarrow> waits m (sign_tx m rq)"
  unfolding sign_tx_def by (cases "tc_sign m") (auto simp: tx_clock_runs_def intro!: grows_rules)

lemma rpc_waits:
  assumes "tx_clock_runs m"
  shows "waits m (call e1 (tc_estimateGas m q))" "waits m (call e2 (tc_fees m))"
    "waits m (call e3 (tc_pendingNonce m k))" "waits m (call e3 (tc_minedNonce m k))"
    "waits m (call e4 (tc_send m raw))" "waits m (call e5 (tc_receipt m k))" "waits m (call e3 (tc_block m))"
    "waits m (call e6 (tc_otherReplacement m k))"
  using assms unfolding tx_clock_runs_def by (auto intro!: grows_call)

lemmas helpers_wait = grows_rules tx_mark_waits attempts_of_waits tx_peek_waits sign_waits rpc_waits tx_store_waits

lemma prepareAttempt_waits:
  assumes "tx_clock_runs m"
  shows "waits m (prepareAttempt m intent cd opts)"
  unfolding prepareAttempt_def estimate_gas_def getRpcFeeEstimates_def check_caps_def cap_blocked_def block_intent_def
    assign_nonce_def sign_and_record_def
  by (intro helpers_wait assms)

lemma check_receipts_waits: "tx_clock_runs m \<Longrightarrow> waits m (check_receipts m i as)"
  by (induction as) (auto intro!: helpers_wait)

lemma reconcileIntent_waits: "tx_clock_runs m \<Longrightarrow> waits m (reconcileIntent m i)"
  unfolding reconcileIntent_def check_nonce_def by (intro helpers_wait check_receipts_waits)

lemma broadcast_waits: "tx_clock_runs m \<Longrightarrow> waits m (broadcastAttempt m a raw)"
  unfolding broadcastAttempt_def mark_broadcast_def nonce_too_low_def nonce_conflict_def
  by (intro helpers_wait reconcileIntent_waits)

lemma replace_stalled_waits: "tx_clock_runs m \<Longrightarrow> waits m (replace_stalled m i cd)"
  unfolding replace_stalled_def replacePendingTransaction_def replace_body_def
  by (intro helpers_wait prepareAttempt_waits broadcast_waits) (simp_all add: tx_clock_runs_def)

lemma confirmed_result_waits: "tx_clock_runs m \<Longrightarrow> waits m (confirmed_result m i hash)"
  unfolding confirmed_result_def by (intro helpers_wait)

lemma reconciled_or_confirmed_waits:
  "tx_clock_runs m \<Longrightarrow>
   waits m (case (b, o') of (True, Some hash) \<Rightarrow> confirmed_result m i hash | _ \<Rightarrow> ret None)"
  by (cases b; cases o') (auto intro: helpers_wait confirmed_result_waits)

lemma wait_fuel:
  assumes "tx_clock_runs m" "start + timeout - tc_date m s \<le> int n"
  shows "wait_loop m (Suc n + k) i cd timeout start s = wait_loop m (Suc n) i cd timeout start s"
  using assms(2)
proof (induction n arbitrary: s)
  case 0
  then show ?case by (simp add: bnd_def ask_def thr_def)
next
  case (Suc n)
  let ?on = "\<lambda>l r x. case x of Some y \<Rightarrow> ret y | None \<Rightarrow> if failed_status (ro_status r) then thr (terminated i)
    else seq (replace_stalled m i cd) (seq (change (tc_sleep m)) (wait_loop m l i cd timeout start))"
  have next_round: "seq (change (tc_sleep m)) (wait_loop m (Suc n + k) i cd timeout start) s' =
      seq (change (tc_sleep m)) (wait_loop m (Suc n) i cd timeout start) s'" if "tc_date m s \<le> tc_date m s'" for s'
  proof -
    have "tc_date m s' < tc_date m (tc_sleep m s')" using assms(1) unfolding tx_clock_runs_def by blast
    then have "start + timeout - tc_date m (tc_sleep m s') \<le> int n" using Suc.prems that by linarith
    from Suc.IH [OF this] show ?thesis by (simp add: seq_def bnd_def change_def)
  qed
  have after: "bnd (reconcileIntent m i) (\<lambda>r. bnd (A r) (?on (Suc n + k) r)) s =
      bnd (reconcileIntent m i) (\<lambda>r. bnd (A r) (?on (Suc n) r)) s"
    if "\<And>r. waits m (A r)" for A
  proof (intro bnd_same)
    fix r t s1 assume "reconcileIntent m i s = (Inr r, t, s1)"
    then have one: "tc_date m s \<le> tc_date m s1" by (rule growsD [OF reconcileIntent_waits [OF assms(1)]])
    fix x t' s2 assume "A r s1 = (Inr x, t', s2)"
    then have two: "tc_date m s \<le> tc_date m s2" using growsD [OF that] one by (blast intro: order.trans)
    have "seq (replace_stalled m i cd) (seq (change (tc_sleep m)) (wait_loop m (Suc n + k) i cd timeout start)) s2 =
      seq (replace_stalled m i cd) (seq (change (tc_sleep m)) (wait_loop m (Suc n) i cd timeout start)) s2"
      unfolding seq_def [of "replace_stalled m i cd"]
      by (intro bnd_same next_round)
         (use growsD [OF replace_stalled_waits [OF assms(1)]] two in \<open>blast intro: order.trans\<close>)
    then show "?on (Suc n + k) r x s2 = ?on (Suc n) r x s2"
      by (cases x) auto
  qed
  have step: "wait_loop m (Suc l) i cd timeout start s =
     (if tc_date m s - start < timeout then
        bnd (reconcileIntent m i) (\<lambda>r. bnd (case (ro_status r = EI_CONFIRMED, truthy_str (ro_minedTxHash r)) of
             (True, Some h) \<Rightarrow> confirmed_result m i h | _ \<Rightarrow> ret None) (?on l r)) s
      else thr (plain_error (''Timeout waiting for EVM intent '' @ i @ '' confirmation'')) s)" for l
    unfolding wait_loop.simps bnd_def [of "ask _"] ask_def
    by (auto split: prod.split intro!: arg_cong2 [where f = bnd] ext option.case_cong)
  show ?case unfolding add_Suc [of "Suc n"] step
    using after [OF reconciled_or_confirmed_waits [OF assms(1)]] by simp
qed

section \<open>Replacements\<close>

definition outbids :: "tx_policy \<Rightarrow> attempt_row \<Rightarrow> attempt_params \<Rightarrow> bool" where
  "outbids policy a p \<longleftrightarrow>
     100 * pa_maxFeePerGas p > ap_max_fee_per_gas_wei a * (100 + tp_minPriorityFeeBumpPercent policy) \<and>
     100 * pa_maxPriorityFeePerGas p > ap_max_priority_fee_per_gas_wei a * (100 + tp_minPriorityFeeBumpPercent policy)"

fun is_record :: "tx_event \<Rightarrow> bool" where
  "is_record (TxRecord p r) = True"
| "is_record _ = False"

definition outbid_guard :: "'w tx_manager \<Rightarrow> string \<Rightarrow> tx_event list \<Rightarrow> tx_event \<Rightarrow> bool" where
  "outbid_guard m i h e \<longleftrightarrow> (\<forall>p r. e = TxRecord p r \<longrightarrow> (\<exists>as. TxAttempts i as \<in> set h \<and> as \<noteq> [] \<and>
     (0 \<le> ap_max_fee_per_gas_wei (last as) \<and> 0 \<le> ap_max_priority_fee_per_gas_wei (last as) \<longrightarrow>
      outbids (tc_policy m) (last as) p)))"

lemma js_div_above: "100 * js_div x 100 + 100 > x"
proof (cases "0 \<le> x")
  case True
  then have "js_div x 100 = x div 100" by (simp add: js_div_nonneg)
  then show ?thesis by presburger
next
  case False
  then have "js_div x 100 = - ((- x) div 100)" by (simp add: js_div_def)
  then show ?thesis by presburger
qed

lemma bumped_above:
  assumes "0 \<le> fee" "least \<le> pct"
  shows "fee * (100 + least) < 100 * bumped fee pct"
proof -
  have "fee * (100 + least) \<le> fee * (100 + pct)" using assms by (intro mult_left_mono) auto
  then show ?thesis using js_div_above [of "fee * (100 + pct)"] by (simp add: bumped_def algebra_simps)
qed

lemma attempt_fees_outbid:
  assumes "po_previousAttempt opts = Some a" "0 \<le> ap_max_fee_per_gas_wei a" "0 \<le> ap_max_priority_fee_per_gas_wei a"
    "pa_maxPriorityFeePerGas p = fst (attempt_fees policy opts rpc)" "pa_maxFeePerGas p = snd (attempt_fees policy opts rpc)"
  shows "outbids policy a p"
proof -
  let ?pct = "max (tp_minPriorityFeeBumpPercent policy) (coalesce (po_customFeeBumpPercent opts) 0)"
  have "bumped (ap_max_fee_per_gas_wei a) ?pct \<le> pa_maxFeePerGas p"
    "bumped (ap_max_priority_fee_per_gas_wei a) ?pct \<le> pa_maxPriorityFeePerGas p"
    using assms(1,4,5) by (simp_all add: attempt_fees_def Let_def)
  moreover have "tp_minPriorityFeeBumpPercent policy \<le> ?pct" by simp
  ultimately show ?thesis
    unfolding outbids_def using bumped_above [OF assms(2)] bumped_above [OF assms(3)]
    by (smt (verit, best))
qed

text \<open>What does not record an attempt.\<close>

abbreviation no_record :: "('w, 'a) tact \<Rightarrow> bool" where
  "no_record \<equiv> only (\<lambda>e. \<not> is_record e)"

lemma no_record_helpers:
  "no_record (tx_peek m f)" "no_record (attempts_of m i)" "\<not> is_record e \<Longrightarrow> no_record (tx_mark m e g)"
  by (simp_all add: tx_peek_def only_rules)
     (auto intro!: onlyI simp: attempts_of_def tx_mark_def Let_def)

lemma no_record_block: "no_record (block_intent m st i reason prefix)"
  unfolding block_intent_def by (intro only_rules no_record_helpers) simp

lemma no_record_parts:
  "no_record (estimate_gas m intent cd g)" "no_record (getRpcFeeEstimates m)" "no_record (check_caps m intent lim p f)"
  "no_record (assign_nonce m intent)" "no_record (sign_tx m rq)"
  unfolding estimate_gas_def getRpcFeeEstimates_def check_caps_def cap_blocked_def assign_nonce_def sign_tx_def Let_def
  by (intro only_rules no_record_helpers no_record_block; simp)+

lemma no_record_receipts: "no_record (check_receipts m i as)"
  by (induction as) (auto intro!: only_rules no_record_helpers)

lemma no_record_broadcast: "no_record (broadcastAttempt m a raw)"
  unfolding broadcastAttempt_def mark_broadcast_def nonce_too_low_def nonce_conflict_def reconcileIntent_def
    check_nonce_def Let_def
  by (intro only_rules no_record_helpers no_record_receipts; simp)

lemma wp_no_record:
  assumes "no_record act" "TxAttempts i as \<in> set h"
    "\<And>x h. TxAttempts i as \<in> set h \<Longrightarrow> Q x h" "\<And>e h. E e h"
  shows "wp (outbid_guard m i) act Q E h"
  by (rule wp_keep [where P = "\<lambda>h. TxAttempts i as \<in> set h", OF assms(1)])
     (use assms(2-) in \<open>auto simp: outbid_guard_def\<close>)

lemma wp_block_outbids: "(\<And>e h. E e h) \<Longrightarrow> wp (outbid_guard m i) (block_intent m st k reason prefix) Q E h"
  unfolding block_intent_def by (intro wp_rules) (simp_all add: outbid_guard_def)

lemma wp_prepare_outbids:
  assumes "TxAttempts i as \<in> set h" "as \<noteq> []" "po_previousAttempt opts = Some (last as)"
    "\<And>x h. TxAttempts i as \<in> set h \<Longrightarrow> Q x h" "\<And>e h. E e h"
  shows "wp (outbid_guard m i) (prepareAttempt m intent cd opts) Q E h"
proof -
  have rec: "outbid_guard m i h' (TxRecord (attempt_params_of m intent' cd n nonce lim
      (snd (attempt_fees (tc_policy m) opts rpc)) (fst (attempt_fees (tc_policy m) opts rpc)) hash) r)"
    if "TxAttempts i as \<in> set h'" for intent' n nonce lim rpc hash r h'
    unfolding outbid_guard_def
    using that assms(2,3) by (auto simp: attempt_params_of_def intro!: attempt_fees_outbid exI [of _ as])
  have sign: "wp (outbid_guard m i) (sign_and_record m intent' cd n nonce lim
      (snd (attempt_fees (tc_policy m) opts rpc)) (fst (attempt_fees (tc_policy m) opts rpc))) Q E h'"
    if "TxAttempts i as \<in> set h'" for intent' n nonce lim rpc h'
    unfolding sign_and_record_def Let_def
    by (intro wp_bnd wp_if wp_call wp_ret wp_no_record [OF no_record_parts(5), where as = as])
       (use that assms(4,5) in \<open>auto intro!: rec\<close>)
  show ?thesis
    unfolding prepareAttempt_def Let_def cap_blocked_def
    by (intro wp_bnd wp_seq wp_if wp_thr wp_prod sign wp_block_outbids
          wp_no_record [where as = as] no_record_parts no_record_helpers)
       (simp_all add: assms(1,5))
qed

lemma wp_replace_outbids:
  "wp (outbid_guard m i) (replacePendingTransaction m i cd pct) (\<lambda>_ _. True) (\<lambda>_ _. True) h"
  unfolding replacePendingTransaction_def replace_body_def
  by (intro wp_rules TrueI wp_prepare_outbids wp_no_record [OF no_record_broadcast])
     (auto simp: outbid_guard_def no_options_def)

section \<open>Properties\<close>

text \<open>C17: Nothing is broadcast that is not on record. Whatever operation the transaction manager runs, and
  whatever the RPC, the signer and other processes do, it sends a raw transaction only for an attempt that the store
  had just recorded or returned, and only one the operator account signed, whose hash is the recorded
  one or whose fields are all those of the record.\<close>

theorem broadcast_only_recorded:
  assumes "trace (run_tx m opn) s = pre @ RpcSend raw r # post"
  shows "\<exists>a request. ((\<exists>p. TxRecord p (Inr a) \<in> set pre) \<or> (\<exists>i as. TxAttempts i as \<in> set pre \<and> a \<in> set as)) \<and>
    SignTx request (Inr raw) \<in> set pre \<and>
    (to_lower (tc_keccak m raw) = to_lower (ap_tx_hash a) \<or> request = request_of a)"
proof -
  obtain a where "ready m a raw pre" using run_tx_guarded [OF assms] by (auto simp: tx_guard_def)
  then obtain request where "stored_attempt a pre" "SignTx request (Inr raw) \<in> set pre"
    "to_lower (tc_keccak m raw) = to_lower (ap_tx_hash a) \<or> request = request_of a"
    unfolding ready_def by metis
  then show ?thesis unfolding stored_attempt_def by (intro exI conjI)
qed

text \<open>Every attempt stays within the fee policy. An operation records an attempt only when its
  gas limit, maximum fee and priority fee are within the caps, its number is at most
  \<open>maxReplacements + 1\<close>, the account signed exactly these fields under this hash, and, unless the
  same run reserved its nonce (which reads the intent again), its worst-case cost is within the cap.\<close>

theorem attempts_within_policy:
  assumes "trace (run_tx m opn) s = pre @ TxRecord p r # post"
  shows "within_policy (tc_policy m) p \<and> signed_for m p pre \<and>
    (\<not> reserved_in pre \<longrightarrow> cost p \<le> tp_maxWorstCaseCostWeiCap (tc_policy m))"
  using run_tx_guarded [OF assms] by (auto simp: tx_guard_def)

text \<open>An outcome is declared only on a receipt. An operation marks an intent mined, or reverted, only
  after the RPC answered with a receipt of that transaction with success, or with failure; an advanced
  nonce, a timeout or an unavailable RPC never does.\<close>

theorem outcome_needs_receipt:
  assumes "trace (run_tx m opn) s = pre @ e # post" "e = TxMined i hash \<and> ok \<or> e = TxReverted i hash \<and> \<not> ok"
  shows "\<exists>rc. RpcReceipt hash (Inr (Some rc)) \<in> set pre \<and> rp_success rc = ok"
proof -
  have "receipt_seen hash ok pre"
    using run_tx_guarded [OF assms(1)] assms(2) by (auto simp: tx_guard_def)
  then show ?thesis by (simp add: receipt_seen_def)
qed

text \<open>A replacement outbids the attempt it replaces. A replacement attempt is recorded only with
  maximum and priority fee more than \<open>minPriorityFeeBumpPercent\<close> percent above those of the last attempt
  the store returned, whatever fees the RPC suggests.\<close>

theorem replacement_outbids:
  assumes "trace (replacePendingTransaction m i calldata pct) s = pre @ TxRecord p r # post"
  shows "\<exists>as. TxAttempts i as \<in> set pre \<and> as \<noteq> [] \<and>
     (0 \<le> ap_max_fee_per_gas_wei (last as) \<and> 0 \<le> ap_max_priority_fee_per_gas_wei (last as) \<longrightarrow>
      100 * pa_maxFeePerGas p > ap_max_fee_per_gas_wei (last as) * (100 + tp_minPriorityFeeBumpPercent (tc_policy m)) \<and>
      100 * pa_maxPriorityFeePerGas p >
        ap_max_priority_fee_per_gas_wei (last as) * (100 + tp_minPriorityFeeBumpPercent (tc_policy m)))"
  using wp_at [OF wp_replace_outbids assms] unfolding outbid_guard_def outbids_def by blast

text \<open>Waiting for a confirmation ends. When the clock runs, the rounds of the model are as many as the code can
  make before its timeout: no larger bound changes what \<open>waitForConfirmation\<close> returns, logs or writes.\<close>

theorem wait_terminates:
  assumes "tx_clock_runs m"
  shows "waitForConfirmation m i calldata t s =
    wait_loop m (Suc (nat (coalesce t 60000) + k)) i calldata (coalesce t 60000) (tc_date m s) s"
  unfolding waitForConfirmation_def Let_def bnd_ask
  by (rule sym, rule wait_fuel [OF assms, unfolded add_Suc]) simp

section \<open>Runs\<close>

text \<open>The world is the clock; raw transactions are their own hashes.\<close>

definition demo_tx :: "receipt option \<Rightarrow> int tx_manager" where
  "demo_tx rc = \<lparr> tc_estimateGas = (\<lambda>q s. (Inr 100000, s)), tc_fees = (\<lambda>s. (Inr (Some 5, Some 70), s)),
     tc_pendingNonce = (\<lambda>a s. (Inr 3, s)), tc_minedNonce = (\<lambda>a s. (Inr 3, s)), tc_send = (\<lambda>raw s. (Inr (), s)),
     tc_receipt = (\<lambda>h s. (Inr rc, s)), tc_block = (\<lambda>s. (Inr 9, s)), tc_sign = Some (\<lambda>rq s. (Inr (if tq_maxFeePerGas rq = 70 then ''0x7'' else ''0x8''), s)),
     tc_keccak = (\<lambda>x. x), tc_chainId = 84532, tc_policy = DEFAULT_BASE_TRANSACTION_POLICY,
     tc_date = t_world, tc_uuid = (\<lambda>s. if t_world s = 0 then ''u'' else ''v''), tc_others = (\<lambda>s. s),
     tc_sleep = (\<lambda>s. s\<lparr>t_world := t_world s + 1\<rparr>), tc_otherReplacement = (\<lambda>i s. (Inl null_error, s)) \<rparr>"

definition demo_intent_params :: intent_params where
  "demo_intent_params = \<lparr> pi_swapKey = ''k'', pi_chainId = 84532, pi_signerAddress = ''0x1'',
     pi_actionType = AT_FUND, pi_targetAddress = ''0x2'', pi_calldata = ''0x3'', pi_valueWei = None \<rparr>"

definition demo_tsys :: "int tsys" where
  "demo_tsys = \<lparr> t_db = empty_db, t_locks = [], t_world = 0 \<rparr>"

abbreviation demo_run :: "tx_event list" where
  "demo_run \<equiv> trace (run_tx (demo_tx (Some \<lparr> rp_blockNumber = 8, rp_success = True, rp_transactionHash = ''0xh'', rp_to = None, rp_logs = [] \<rparr>))
     (ExecuteIntent demo_intent_params (Some 1))) demo_tsys"

lemma demo_run_events:
  "list_ex (\<lambda>e. case e of RpcSend raw r \<Rightarrow> True | _ \<Rightarrow> False) demo_run"
  "list_ex is_record demo_run"
  "list_ex (\<lambda>e. case e of TxMined i h \<Rightarrow> True | _ \<Rightarrow> False) demo_run"
  by code_simp+

lemma event_of: "list_ex P t \<Longrightarrow> (\<And>pre e post. t = pre @ e # post \<Longrightarrow> P e \<Longrightarrow> thesis) \<Longrightarrow> thesis"
  unfolding list_ex_iff by (metis split_list)

theorem broadcast_only_recorded_witness: "\<exists>request raw. SignTx request (Inr raw) \<in> set demo_run"
proof (rule event_of [OF demo_run_events(1)])
  fix pre e post assume t: "demo_run = pre @ e # post" "case e of RpcSend raw r \<Rightarrow> True | _ \<Rightarrow> False"
  then obtain raw r where "e = RpcSend raw r" by (cases e) auto
  from broadcast_only_recorded [OF t(1) [unfolded this]] show ?thesis unfolding t(1) by auto
qed

theorem attempts_within_policy_witness:
  "\<exists>p r. TxRecord p r \<in> set demo_run \<and> within_policy DEFAULT_BASE_TRANSACTION_POLICY p"
proof (rule event_of [OF demo_run_events(2)])
  fix pre e post assume t: "demo_run = pre @ e # post" "is_record e"
  then obtain p r where "e = TxRecord p r" by (cases e) auto
  with attempts_within_policy [OF t(1) [unfolded this]] show ?thesis unfolding t(1) by (auto simp: demo_tx_def)
qed

theorem outcome_needs_receipt_witness:
  "\<exists>h rc. RpcReceipt h (Inr (Some rc)) \<in> set demo_run \<and> rp_success rc"
proof (rule event_of [OF demo_run_events(3)])
  fix pre e post assume t: "demo_run = pre @ e # post" "case e of TxMined i h \<Rightarrow> True | _ \<Rightarrow> False"
  then obtain i h where "e = TxMined i h" by (cases e) auto
  with outcome_needs_receipt [OF t(1), of i h True] show ?thesis unfolding t(1) by auto
qed

text \<open>The fund transaction is not mined within a millisecond and is replaced.\<close>

definition demo_waiting :: "int tsys" where
  "demo_waiting = snd (snd (run_tx (demo_tx None) (ExecuteIntent demo_intent_params (Some 1)) demo_tsys))"

abbreviation demo_replacement :: "tx_event list" where
  "demo_replacement \<equiv> trace (replacePendingTransaction (demo_tx None) ''u'' ''0x3'' None) demo_waiting"

lemma demo_replacement_event: "list_ex is_record demo_replacement"
  by code_simp

theorem replacement_outbids_witness:
  "\<exists>p r as. TxRecord p r \<in> set demo_replacement \<and> TxAttempts ''u'' as \<in> set demo_replacement \<and> as \<noteq> []"
proof (rule event_of [OF demo_replacement_event])
  fix pre e post assume t: "demo_replacement = pre @ e # post" "is_record e"
  then obtain p r where "e = TxRecord p r" by (cases e) auto
  with replacement_outbids [OF t(1) [unfolded this]] show ?thesis unfolding t(1) by auto
qed

theorem wait_terminates_witness:
  "waitForConfirmation (demo_tx None) ''u'' ''0x3'' (Some 1) demo_waiting =
   wait_loop (demo_tx None) 7 ''u'' ''0x3'' 1 (t_world demo_waiting) demo_waiting"
proof -
  have "tx_clock_runs (demo_tx None)" by (simp add: tx_clock_runs_def demo_tx_def)
  from wait_terminates [OF this, of "''u''" "''0x3''" "Some 1" demo_waiting 5] show ?thesis
    by (simp add: demo_tx_def)
qed

end
