(* ===== verification/Pricing.thy ===== *)
theory Pricing
  imports Actions Numerals
begin

text \<open>
  Pricing between Lightning BTC and Base USDC: the aggregation of price feeds
  (\<open>src/src/pricing/price-aggregator.ts\<close>) and signed quotes (\<open>src/src/pricing/quote-engine.ts\<close>). All amounts are
  bigints. Fetching a price is an awaited call on a state this code does not look into; the HMAC and the
  random identifier are parameters. Error texts leave out the interpolated dates.
\<close>

section \<open>Errors\<close>

datatype pricing_error =
    NoProviders
  | InsufficientPriceFeeds nat int
  | InvalidPriceValue int
  | CrossFeedDispersionTooHigh int int int int
  | SwapAmountTooLow int int
  | SwapAmountTooHigh int int
  | QuoteOutputTooLow int int
  | QuoteExpired string int int
  | QuoteTampered string string
  | PriceTypeError
  | PriceRangeError
  | FeedFailed

section \<open>Price feeds\<close>

record price_sample =
  sp_provider :: string
  sp_priceMicroUsd :: int
  sp_timestampMs :: int

datatype price_event = FetchPrice string "pricing_error + price_sample"

record 's aggregator =
  ag_providers :: "(string \<times> ('s \<Rightarrow> (pricing_error + price_sample) \<times> 's)) list"
  ag_maxStalePriceMs :: int
  ag_minFeedsRequired :: int
  ag_maxCrossFeedDispersionBps :: int

definition create_aggregator ::
  "(string \<times> ('s \<Rightarrow> (pricing_error + price_sample) \<times> 's)) list \<Rightarrow> int option \<Rightarrow> int option \<Rightarrow> int option
   \<Rightarrow> pricing_error + 's aggregator" where
  "create_aggregator providers stale feeds dispersion =
    (if providers = [] then Inl NoProviders
     else Inr \<lparr> ag_providers = providers, ag_maxStalePriceMs = coalesce stale 30000,
       ag_minFeedsRequired = coalesce feeds 2, ag_maxCrossFeedDispersionBps = coalesce dispersion 150 \<rparr>)"

text \<open>\<open>Promise.allSettled\<close>: a rejected feed is no sample.\<close>

fun fetch_all ::
  "(string \<times> ('s \<Rightarrow> (pricing_error + price_sample) \<times> 's)) list
   \<Rightarrow> (pricing_error, price_event, 's, price_sample option list) action" where
  "fetch_all [] = ret []"
| "fetch_all ((name, fetchPrice) # rest) =
    bnd (attempt (bnd (call (FetchPrice name) fetchPrice) (\<lambda>x. ret (Some x))) (\<lambda>_. ret None)) (\<lambda>r.
    bnd (fetch_all rest) (\<lambda>rs. ret (r # rs)))"

definition fresh :: "'s aggregator \<Rightarrow> int \<Rightarrow> price_sample \<Rightarrow> bool" where
  "fresh ag nowMs sample =
    (let ageMs = nowMs - sp_timestampMs sample in ageMs \<le> ag_maxStalePriceMs ag \<and> ageMs \<ge> - 5000)"

fun valid_samples :: "'s aggregator \<Rightarrow> int \<Rightarrow> price_sample option list \<Rightarrow> price_sample list" where
  "valid_samples ag nowMs [] = []"
| "valid_samples ag nowMs (None # rs) = valid_samples ag nowMs rs"
| "valid_samples ag nowMs (Some x # rs) =
    (if fresh ag nowMs x then x # valid_samples ag nowMs rs else valid_samples ag nowMs rs)"

definition compare_prices :: "price_sample \<Rightarrow> price_sample \<Rightarrow> int" where
  "compare_prices a b =
    (if sp_priceMicroUsd a < sp_priceMicroUsd b then - 1 else if sp_priceMicroUsd a > sp_priceMicroUsd b then 1 else 0)"

definition median_price :: "price_sample list \<Rightarrow> int" where
  "median_price samples =
    (let mid = length samples div 2 in
     if length samples mod 2 = 1 then sp_priceMicroUsd (samples ! mid)
     else js_div (sp_priceMicroUsd (samples ! (mid - 1)) + sp_priceMicroUsd (samples ! mid)) 2)"

definition getAuthoritativePrice ::
  "'s aggregator \<Rightarrow> int \<Rightarrow> (pricing_error, price_event, 's, int \<times> price_sample list) action" where
  "getAuthoritativePrice ag nowMs =
    bnd (fetch_all (ag_providers ag)) (\<lambda>results.
    let validSamples = valid_samples ag nowMs results in
    if int (length validSamples) < ag_minFeedsRequired ag
    then thr (InsufficientPriceFeeds (length validSamples) (ag_minFeedsRequired ag))
    else
      (let sorted = js_sort compare_prices validSamples in
       if sorted = [] then thr PriceTypeError
       else
         (let minPrice = sp_priceMicroUsd (hd sorted); maxPrice = sp_priceMicroUsd (last sorted) in
          if minPrice \<le> 0 then thr (InvalidPriceValue minPrice)
          else
            (let dispersionBps = js_div ((maxPrice - minPrice) * 10000) minPrice in
             if dispersionBps > ag_maxCrossFeedDispersionBps ag
             then thr (CrossFeedDispersionTooHigh dispersionBps (ag_maxCrossFeedDispersionBps ag) minPrice maxPrice)
             else ret (median_price sorted, sorted)))))"

section \<open>Quotes\<close>

record quote_policy =
  qp_validityMs :: int
  qp_spreadBps :: int
  qp_fixedFeeUsdcAtomic :: int
  qp_minSwapSats :: int
  qp_maxSwapUsdcAtomic :: int
  qp_hmacSecret :: string

definition DEFAULT_QUOTE_POLICY :: quote_policy where
  "DEFAULT_QUOTE_POLICY = \<lparr> qp_validityMs = 20000, qp_spreadBps = 50, qp_fixedFeeUsdcAtomic = 250000,
     qp_minSwapSats = 5000, qp_maxSwapUsdcAtomic = 250000000,
     qp_hmacSecret = ''sovroute_default_local_quote_secret_change_in_prod'' \<rparr>"

text \<open>\<open>SovereignQuote\<close>; the pair is a constant.\<close>

record sovereign_quote =
  sq_quoteId :: string
  sq_amountSats :: int
  sq_referencePriceMicroUsd :: int
  sq_grossUsdcAtomic :: int
  sq_spreadAmountAtomic :: int
  sq_fixedFeeAtomic :: int
  sq_netUsdcAtomic :: int
  sq_effectiveRate :: string
  sq_activeFeedCount :: nat
  sq_createdAt :: int
  sq_expiresAt :: int
  sq_targetDestinationAddress :: "string option"
  sq_quoteSignature :: string

text \<open>The engine: its aggregator and policy; \<open>qe_hmac secret payload\<close> is HMAC-SHA256 in hexadecimal.\<close>

record 's quote_engine =
  qe_aggregator :: "'s aggregator"
  qe_policy :: quote_policy
  qe_hmac :: "string \<Rightarrow> string \<Rightarrow> string"

definition quote_payload :: "string \<Rightarrow> int \<Rightarrow> int \<Rightarrow> int \<Rightarrow> string option \<Rightarrow> string" where
  "quote_payload quoteId amountSats netUsdcAtomic expiresAt target =
    join_with (CHR ''|'') [quoteId, ''BTC_LIGHTNING_TO_BASE_USDC'', bigint_text amountSats, bigint_text netUsdcAtomic,
      bigint_text expiresAt, coalesce target '''']"

definition computeQuoteSignature ::
  "'s quote_engine \<Rightarrow> string \<Rightarrow> int \<Rightarrow> int \<Rightarrow> int \<Rightarrow> string option \<Rightarrow> string" where
  "computeQuoteSignature qe quoteId amountSats netUsdcAtomic expiresAt target =
    qe_hmac qe (qp_hmacSecret (qe_policy qe)) (quote_payload quoteId amountSats netUsdcAtomic expiresAt target)"

definition pad_start :: "nat \<Rightarrow> string \<Rightarrow> string" where
  "pad_start n s = replicate (n - length s) CHR ''0'' @ s"

text \<open>The remainder of bigints has the sign of the dividend.\<close>

definition js_rem :: "int \<Rightarrow> int \<Rightarrow> int" where
  "js_rem a b = a - b * js_div a b"

definition effective_rate :: "int \<Rightarrow> int \<Rightarrow> string" where
  "effective_rate net sats =
    (let scaled = js_div (net * 100000000) sats in
     bigint_text (js_div scaled 1000000) @ ''.'' @ pad_start 6 (bigint_text (js_rem scaled 1000000)))"

text \<open>The amounts of a quote: gross, spread, net; a division by zero sats is a \<open>RangeError\<close>.\<close>

definition quote_amounts :: "quote_policy \<Rightarrow> int \<Rightarrow> int \<Rightarrow> pricing_error + int \<times> int \<times> int" where
  "quote_amounts policy amountSats price =
    (let gross = js_div (amountSats * price) 100000000;
         spread = js_div (gross * qp_spreadBps policy) 10000;
         deductions = spread + qp_fixedFeeUsdcAtomic policy;
         net = gross - deductions
     in if gross \<le> deductions then Inl (QuoteOutputTooLow gross deductions)
        else if net > qp_maxSwapUsdcAtomic policy then Inl (SwapAmountTooHigh net (qp_maxSwapUsdcAtomic policy))
        else if amountSats = 0 then Inl PriceRangeError
        else Inr (gross, spread, net))"

definition createQuote ::
  "'s quote_engine \<Rightarrow> ('s \<Rightarrow> string) \<Rightarrow> int \<Rightarrow> string option \<Rightarrow> int
   \<Rightarrow> (pricing_error, price_event, 's, sovereign_quote) action" where
  "createQuote qe randomHex amountSats target nowMs =
    (let policy = qe_policy qe in
     if amountSats < qp_minSwapSats policy then thr (SwapAmountTooLow amountSats (qp_minSwapSats policy))
     else
       bnd (getAuthoritativePrice (qe_aggregator qe) nowMs) (\<lambda>(price, samples).
       case quote_amounts policy amountSats price of
         Inl e \<Rightarrow> thr e
       | Inr (gross, spread, net) \<Rightarrow>
           bnd (ask randomHex) (\<lambda>random.
           let quoteId = ''quote_'' @ bigint_text nowMs @ ''_'' @ random;
               expiresAt = nowMs + qp_validityMs policy
           in ret \<lparr> sq_quoteId = quoteId, sq_amountSats = amountSats, sq_referencePriceMicroUsd = price,
                sq_grossUsdcAtomic = gross, sq_spreadAmountAtomic = spread,
                sq_fixedFeeAtomic = qp_fixedFeeUsdcAtomic policy, sq_netUsdcAtomic = net,
                sq_effectiveRate = effective_rate net amountSats, sq_activeFeedCount = length samples,
                sq_createdAt = nowMs, sq_expiresAt = expiresAt, sq_targetDestinationAddress = target,
                sq_quoteSignature = computeQuoteSignature qe quoteId amountSats net expiresAt target \<rparr>)))"

text \<open>\<open>verifyQuote\<close>: \<open>None\<close> when valid, else the reason.\<close>

definition verifyQuote :: "'s quote_engine \<Rightarrow> sovereign_quote \<Rightarrow> string option \<Rightarrow> int \<Rightarrow> string option" where
  "verifyQuote qe quote target nowMs =
    (let addressToVerify = some_or target (sq_targetDestinationAddress quote);
         bound = truthy_str (sq_targetDestinationAddress quote)
     in if nowMs > sq_expiresAt quote then Some ''QUOTE_EXPIRED: Expired''
        else if bound \<noteq> None \<and> addressToVerify \<noteq> bound
        then Some (''DESTINATION_ADDRESS_MISMATCH: Quote bound to '' @ the bound @ '', but received '' @
               coalesce addressToVerify ''undefined'')
        else if sq_quoteSignature quote \<noteq> computeQuoteSignature qe (sq_quoteId quote) (sq_amountSats quote)
                  (sq_netUsdcAtomic quote) (sq_expiresAt quote) addressToVerify
        then Some ''SIGNATURE_INVALID: Quote fields have been tampered with or HMAC secret mismatch.''
        else None)"

definition verifyOrReject ::
  "'s quote_engine \<Rightarrow> sovereign_quote \<Rightarrow> string option \<Rightarrow> int \<Rightarrow> pricing_error + sovereign_quote" where
  "verifyOrReject qe quote target nowMs =
    (case verifyQuote qe quote target nowMs of
       None \<Rightarrow> Inr quote
     | Some reason \<Rightarrow>
         if str_includes reason ''QUOTE_EXPIRED''
         then Inl (QuoteExpired (sq_quoteId quote) (sq_expiresAt quote) nowMs)
         else Inl (QuoteTampered (sq_quoteId quote) reason))"

end
