(* ===== verification/Anti_Abuse.thy ===== *)
theory Anti_Abuse
  imports Pricing
begin

text \<open>
  Admission control: the durable event table (\<open>src/src/anti-abuse/persistence.ts\<close>) and the engine over it
  (\<open>src/src/anti-abuse/anti-abuse-engine.ts\<close>). The table is the list of its rows in insertion order; an admission is
  one transaction, since it runs under \<open>BEGIN IMMEDIATE\<close>. Amounts are stored as decimal text and read back
  with \<open>BigInt\<close>, so the model stores the integers.
\<close>

section \<open>Policy, rows, errors\<close>

record abuse_policy =
  aa_cooldownMs :: int
  aa_rollingWindowMs :: int
  aa_maxRollingVolume :: int
  aa_maxDestinationRollingVolume :: int
  aa_maxSingleSwap :: int
  aa_maxGlobalRollingVolume :: int
  aa_maxConcurrentInFlight :: int

definition DEFAULT_ANTI_ABUSE_CONFIG :: abuse_policy where
  "DEFAULT_ANTI_ABUSE_CONFIG = \<lparr> aa_cooldownMs = 60000, aa_rollingWindowMs = 86400000,
     aa_maxRollingVolume = 500000000, aa_maxDestinationRollingVolume = 1000000000,
     aa_maxSingleSwap = 250000000, aa_maxGlobalRollingVolume = 5000000000,
     aa_maxConcurrentInFlight = 1000000000 \<rparr>"

datatype admission_status = AS_ADMITTED | AS_COMPLETED | AS_CANCELLED | AS_REFUNDED | AS_FAILED

record admission_request =
  rq_idempotencyKey :: string
  rq_walletAddress :: string
  rq_destinationAddress :: string
  rq_quote :: sovereign_quote
  rq_clientIp :: "string option"

record abuse_event =
  ae_id :: string
  ae_idempotency_key :: string
  ae_wallet_address :: string
  ae_destination_address :: string
  ae_amount_usdc_atomic :: int
  ae_amount_sats :: int
  ae_status :: admission_status
  ae_created_at_ms :: int
  ae_updated_at_ms :: int
  ae_client_ip :: "string option"

record admission_ticket =
  tk_ticketId :: string
  tk_idempotencyKey :: string
  tk_walletAddress :: string
  tk_destinationAddress :: string
  tk_amountSats :: int
  tk_amountUsdcAtomic :: int
  tk_admittedAtMs :: int
  tk_volumeBefore :: int
  tk_volumeAfter :: int
  tk_remainingBudget :: int

datatype abuse_error =
    WalletCooldownActive string int
  | RollingVolumeLimitExceeded string int int int
  | DestinationVolumeLimitExceeded string int int int
  | GlobalCapacityExceeded int int
  | ConcurrentExposureLimitExceeded int int
  | IdempotencyConflict string
  | TicketIdTaken
  | QuoteRejected pricing_error

section \<open>The event table\<close>

text \<open>\<open>SELECT amount ... WHERE\<close>, summed.\<close>

definition volume :: "(abuse_event \<Rightarrow> bool) \<Rightarrow> abuse_event list \<Rightarrow> int" where
  "volume P rows = sum_list (map ae_amount_usdc_atomic (filter P rows))"

definition calculateRollingVolumeInternal :: "string \<Rightarrow> int \<Rightarrow> int \<Rightarrow> abuse_event list \<Rightarrow> int" where
  "calculateRollingVolumeInternal wallet nowMs window =
    volume (\<lambda>r. ae_wallet_address r = wallet \<and> ae_created_at_ms r > nowMs - window \<and> ae_status r \<noteq> AS_FAILED)"

text \<open>\<open>ORDER BY created_at_ms DESC LIMIT 1\<close>\<close>

definition latest_created :: "(abuse_event \<Rightarrow> bool) \<Rightarrow> abuse_event list \<Rightarrow> int option" where
  "latest_created P rows =
    (case map ae_created_at_ms (filter P rows) of [] \<Rightarrow> None | t # ts \<Rightarrow> Some (fold max ts t))"

definition remaining_budget :: "abuse_policy \<Rightarrow> int \<Rightarrow> int" where
  "remaining_budget policy used = (if aa_maxRollingVolume policy > used then aa_maxRollingVolume policy - used else 0)"

text \<open>The replay of a known key: the stored ticket, or a conflict.\<close>

definition replay_admission ::
  "abuse_policy \<Rightarrow> admission_request \<Rightarrow> int \<Rightarrow> abuse_event \<Rightarrow> abuse_event list \<Rightarrow> abuse_error + admission_ticket" where
  "replay_admission policy req nowMs existing rows =
    (let wallet = to_lower (rq_walletAddress req) in
     if ae_wallet_address existing \<noteq> wallet \<or>
        ae_destination_address existing \<noteq> to_lower (rq_destinationAddress req) \<or>
        ae_amount_usdc_atomic existing \<noteq> sq_netUsdcAtomic (rq_quote req) \<or>
        ae_amount_sats existing \<noteq> sq_amountSats (rq_quote req)
     then Inl (IdempotencyConflict (rq_idempotencyKey req))
     else
       (let volumeBefore = calculateRollingVolumeInternal wallet nowMs (aa_rollingWindowMs policy) rows in
        Inr \<lparr> tk_ticketId = ae_id existing, tk_idempotencyKey = ae_idempotency_key existing,
          tk_walletAddress = ae_wallet_address existing, tk_destinationAddress = ae_destination_address existing,
          tk_amountSats = ae_amount_sats existing, tk_amountUsdcAtomic = ae_amount_usdc_atomic existing,
          tk_admittedAtMs = ae_created_at_ms existing, tk_volumeBefore = volumeBefore, tk_volumeAfter = volumeBefore,
          tk_remainingBudget = remaining_budget policy volumeBefore \<rparr>))"

text \<open>The limits in the order of the code: cooldown, wallet, destination, in-flight, global.\<close>

definition cooldown_left :: "abuse_policy \<Rightarrow> string \<Rightarrow> int \<Rightarrow> abuse_event list \<Rightarrow> int option" where
  "cooldown_left policy wallet nowMs rows =
    (case latest_created (\<lambda>r. ae_wallet_address r = wallet \<and> ae_created_at_ms r > nowMs - aa_cooldownMs policy) rows of
       None \<Rightarrow> None
     | Some t \<Rightarrow> (let remaining = aa_cooldownMs policy - (nowMs - t) in if remaining > 0 then Some remaining else None))"

definition admission_limits ::
  "abuse_policy \<Rightarrow> string \<Rightarrow> string \<Rightarrow> int \<Rightarrow> int \<Rightarrow> abuse_event list \<Rightarrow> abuse_error + int" where
  "admission_limits policy wallet dest requested nowMs rows =
    (case cooldown_left policy wallet nowMs rows of
       Some remaining \<Rightarrow> Inl (WalletCooldownActive wallet remaining)
     | None \<Rightarrow>
         (let cutoff = nowMs - aa_rollingWindowMs policy;
              walletRollingVolume = calculateRollingVolumeInternal wallet nowMs (aa_rollingWindowMs policy) rows;
              destRollingVolume = volume (\<lambda>r. ae_destination_address r = dest \<and> ae_created_at_ms r > cutoff \<and>
                ae_status r \<noteq> AS_FAILED) rows;
              currentInFlightVolume = volume (\<lambda>r. ae_status r = AS_ADMITTED \<and> ae_created_at_ms r > nowMs - 7200000) rows;
              globalRollingVolume = volume (\<lambda>r. ae_created_at_ms r > cutoff \<and> ae_status r \<noteq> AS_FAILED) rows
          in if walletRollingVolume + requested > aa_maxRollingVolume policy
             then Inl (RollingVolumeLimitExceeded wallet walletRollingVolume requested (aa_maxRollingVolume policy))
             else if destRollingVolume + requested > aa_maxDestinationRollingVolume policy
             then Inl (DestinationVolumeLimitExceeded dest destRollingVolume requested (aa_maxDestinationRollingVolume policy))
             else if currentInFlightVolume + requested > aa_maxConcurrentInFlight policy
             then Inl (ConcurrentExposureLimitExceeded currentInFlightVolume (aa_maxConcurrentInFlight policy))
             else if globalRollingVolume + requested > aa_maxGlobalRollingVolume policy
             then Inl (GlobalCapacityExceeded globalRollingVolume (aa_maxGlobalRollingVolume policy))
             else Inr walletRollingVolume))"

definition new_event :: "admission_request \<Rightarrow> string \<Rightarrow> int \<Rightarrow> abuse_event" where
  "new_event req ticketId nowMs = \<lparr> ae_id = ticketId, ae_idempotency_key = rq_idempotencyKey req,
     ae_wallet_address = to_lower (rq_walletAddress req), ae_destination_address = to_lower (rq_destinationAddress req),
     ae_amount_usdc_atomic = sq_netUsdcAtomic (rq_quote req), ae_amount_sats = sq_amountSats (rq_quote req),
     ae_status = AS_ADMITTED, ae_created_at_ms = nowMs, ae_updated_at_ms = nowMs, ae_client_ip = rq_clientIp req \<rparr>"

definition evaluateAndRecordAdmission ::
  "admission_request \<Rightarrow> abuse_policy \<Rightarrow> int \<Rightarrow> string \<Rightarrow> abuse_event list
   \<Rightarrow> (abuse_error + admission_ticket) \<times> abuse_event list" where
  "evaluateAndRecordAdmission req policy nowMs uuid rows =
    (let wallet = to_lower (rq_walletAddress req); dest = to_lower (rq_destinationAddress req);
         requested = sq_netUsdcAtomic (rq_quote req); ticketId = ''ticket_'' @ uuid
     in if requested > aa_maxSingleSwap policy
        then (Inl (RollingVolumeLimitExceeded wallet 0 requested (aa_maxSingleSwap policy)), rows)
        else
          (case sql_get (\<lambda>r. ae_idempotency_key r = rq_idempotencyKey req) rows of
             Some existing \<Rightarrow> (replay_admission policy req nowMs existing rows, rows)
           | None \<Rightarrow>
               (case admission_limits policy wallet dest requested nowMs rows of
                  Inl e \<Rightarrow> (Inl e, rows)
                | Inr walletRollingVolume \<Rightarrow>
                    if \<exists>r \<in> set rows. ae_id r = ticketId then (Inl TicketIdTaken, rows)
                    else
                      (let volumeAfter = walletRollingVolume + requested in
                       (Inr \<lparr> tk_ticketId = ticketId, tk_idempotencyKey = rq_idempotencyKey req,
                          tk_walletAddress = wallet, tk_destinationAddress = dest,
                          tk_amountSats = sq_amountSats (rq_quote req), tk_amountUsdcAtomic = requested,
                          tk_admittedAtMs = nowMs, tk_volumeBefore = walletRollingVolume,
                          tk_volumeAfter = volumeAfter, tk_remainingBudget = remaining_budget policy volumeAfter \<rparr>,
                        rows @ [new_event req ticketId nowMs])))))"

definition updateSwapStatus :: "string \<Rightarrow> admission_status \<Rightarrow> int \<Rightarrow> abuse_event list \<Rightarrow> abuse_event list" where
  "updateSwapStatus key status nowMs =
    sql_update (\<lambda>r. ae_idempotency_key r = key) (\<lambda>r. r\<lparr>ae_status := status, ae_updated_at_ms := nowMs\<rparr>)"

record wallet_metrics =
  wm_lastRequestAtMs :: "int option"
  wm_rollingVolume :: int
  wm_activeInFlightCount :: nat
  wm_activeInFlightVolume :: int

definition getWalletMetrics :: "string \<Rightarrow> abuse_policy \<Rightarrow> int \<Rightarrow> abuse_event list \<Rightarrow> wallet_metrics" where
  "getWalletMetrics walletAddress policy nowMs rows =
    (let wallet = to_lower walletAddress;
         inFlight = (\<lambda>r. ae_wallet_address r = wallet \<and> ae_status r = AS_ADMITTED \<and>
           ae_created_at_ms r > nowMs - aa_rollingWindowMs policy)
     in \<lparr> wm_lastRequestAtMs = latest_created (\<lambda>r. ae_wallet_address r = wallet) rows,
          wm_rollingVolume = calculateRollingVolumeInternal wallet nowMs (aa_rollingWindowMs policy) rows,
          wm_activeInFlightCount = length (filter inFlight rows), wm_activeInFlightVolume = volume inFlight rows \<rparr>)"

section \<open>The engine\<close>

record 's abuse_engine =
  en_quoteEngine :: "'s quote_engine"
  en_policy :: abuse_policy

definition admitSwap ::
  "'s abuse_engine \<Rightarrow> admission_request \<Rightarrow> int \<Rightarrow> string \<Rightarrow> abuse_event list
   \<Rightarrow> (abuse_error + admission_ticket) \<times> abuse_event list" where
  "admitSwap en request nowMs uuid rows =
    (case verifyOrReject (en_quoteEngine en) (rq_quote request) (Some (rq_destinationAddress request)) nowMs of
       Inl e \<Rightarrow> (Inl (QuoteRejected e), rows)
     | Inr q \<Rightarrow> evaluateAndRecordAdmission request (en_policy en) nowMs uuid rows)"

definition markCompleted :: "string \<Rightarrow> int \<Rightarrow> abuse_event list \<Rightarrow> abuse_event list" where
  "markCompleted key nowMs = updateSwapStatus key AS_COMPLETED nowMs"

definition markRefunded :: "string \<Rightarrow> int \<Rightarrow> abuse_event list \<Rightarrow> abuse_event list" where
  "markRefunded key nowMs = updateSwapStatus key AS_REFUNDED nowMs"

definition markCancelled :: "string \<Rightarrow> int \<Rightarrow> abuse_event list \<Rightarrow> abuse_event list" where
  "markCancelled key nowMs = updateSwapStatus key AS_CANCELLED nowMs"

text \<open>The limits shown to a wallet, in atomic units (the code divides them by a million for display).\<close>

record wallet_status =
  ws_walletAddress :: string
  ws_limit :: int
  ws_used :: int
  ws_remainingBudget :: int
  ws_cooldownRemainingSeconds :: int
  ws_isCooldownActive :: bool
  ws_activeInFlightCount :: nat

definition getWalletStatus :: "abuse_policy \<Rightarrow> string \<Rightarrow> int \<Rightarrow> abuse_event list \<Rightarrow> wallet_status" where
  "getWalletStatus policy walletAddress nowMs rows =
    (let metrics = getWalletMetrics walletAddress policy nowMs rows;
         cooldownRemainingMs = (case wm_lastRequestAtMs metrics of
            Some t \<Rightarrow> max 0 (aa_cooldownMs policy - (nowMs - t)) | None \<Rightarrow> 0)
     in \<lparr> ws_walletAddress = to_lower walletAddress, ws_limit = aa_maxRollingVolume policy,
          ws_used = wm_rollingVolume metrics,
          ws_remainingBudget = remaining_budget policy (wm_rollingVolume metrics),
          ws_cooldownRemainingSeconds = (cooldownRemainingMs + 999) div 1000,
          ws_isCooldownActive = (cooldownRemainingMs > 0),
          ws_activeInFlightCount = wm_activeInFlightCount metrics \<rparr>)"

end
