(* ===== verification/Pricing_Laws.thy ===== *)
theory Pricing_Laws
  imports Pricing
begin

text \<open>
  What the pricing promises: the reference price is the median of fresh feeds that agree within the
  dispersion limit, a quote never pays more than the reference value, it verifies until it expires, and its
  signature binds its terms unless the quote id contains the separator.
\<close>

section \<open>Medians of sorted lists\<close>

lemma fewer_below:
  assumes "sorted xs" "k < length xs" "p \<le> xs ! k"
  shows "length (filter (\<lambda>x. x < p) xs) \<le> k"
proof -
  have "\<forall>x \<in> set (drop k xs). p \<le> x"
    using assms(2) by (auto simp: in_set_conv_nth intro!: order_trans [OF assms(3)] sorted_nth_mono [OF assms(1)])
  then have "filter (\<lambda>x. x < p) (drop k xs) = []" by (simp add: filter_empty_conv not_less)
  then have "filter (\<lambda>x. x < p) xs = filter (\<lambda>x. x < p) (take k xs)"
    by (metis append_Nil2 append_take_drop_id filter_append)
  then show ?thesis using length_filter_le [of "\<lambda>x. x < p" "take k xs"] by simp
qed

lemma fewer_above:
  assumes "sorted xs" "k < length xs" "xs ! k \<le> p"
  shows "length (filter (\<lambda>x. p < x) xs) \<le> length xs - Suc k"
proof -
  have "\<forall>x \<in> set (take (Suc k) xs). x \<le> p"
    using assms(2) by (auto simp: in_set_conv_nth less_Suc_eq_le intro!: order_trans [OF _ assms(3)] sorted_nth_mono [OF assms(1)])
  then have "filter (\<lambda>x. p < x) (take (Suc k) xs) = []" by (simp add: filter_empty_conv not_less)
  then have "filter (\<lambda>x. p < x) xs = filter (\<lambda>x. p < x) (drop (Suc k) xs)"
    by (metis append_Nil append_take_drop_id filter_append)
  then show ?thesis using length_filter_le [of "\<lambda>x. p < x" "drop (Suc k) xs"] by simp
qed

text \<open>The middle element, or the mean of the middle two, halves the list and lies between its ends.\<close>

definition middle :: "int list \<Rightarrow> int" where
  "middle xs = (let mid = length xs div 2 in
     if length xs mod 2 = 1 then xs ! mid else (xs ! (mid - 1) + xs ! mid) div 2)"

lemma middle_between:
  assumes "sorted xs" "xs \<noteq> []"
  shows "xs ! ((length xs - 1) div 2) \<le> middle xs \<and> middle xs \<le> xs ! (length xs div 2)"
proof (cases "length xs mod 2 = 1")
  case True
  then have "(length xs - 1) div 2 = length xs div 2" by presburger
  then show ?thesis using True by (simp add: middle_def)
next
  case False
  then have n: "(length xs - 1) div 2 = length xs div 2 - 1" "length xs div 2 < length xs"
    using assms(2) by (presburger, simp)
  have "xs ! (length xs div 2 - 1) \<le> xs ! (length xs div 2)"
    using assms(1) n(2) by (intro sorted_nth_mono) auto
  moreover have "a \<le> (a + b) div 2 \<and> (a + b) div 2 \<le> b" if "a \<le> b" for a b :: int
    using that by presburger
  ultimately show ?thesis unfolding n(1) using False by (simp add: middle_def Let_def)
qed

lemma middle_halves:
  assumes "sorted xs" "xs \<noteq> []"
  shows "2 * length (filter (\<lambda>x. x < middle xs) xs) \<le> length xs"
    "2 * length (filter (\<lambda>x. middle xs < x) xs) \<le> length xs"
proof -
  have "0 < length xs" using assms(2) by simp
  then have l: "(length xs - 1) div 2 < length xs" "length xs div 2 < length xs" by presburger+
  show "2 * length (filter (\<lambda>x. x < middle xs) xs) \<le> length xs"
    using fewer_below [OF assms(1) l(2)] middle_between [OF assms] by fastforce
  show "2 * length (filter (\<lambda>x. middle xs < x) xs) \<le> length xs"
    using fewer_above [OF assms(1) l(1)] middle_between [OF assms] by fastforce
qed

section \<open>The reference price\<close>

lemma compare_prices_sgn: "compare_prices = (\<lambda>a b. sgn (sp_priceMicroUsd a - sp_priceMicroUsd b))"
  by (intro ext) (simp add: compare_prices_def sgn_if)

lemma valid_samples_fresh: "x \<in> set (valid_samples ag now rs) \<Longrightarrow> fresh ag now x \<and> Some x \<in> set rs"
  by (induction rs rule: valid_samples.induct [of _ ag now]) (auto split: if_splits)

lemma fetch_all_answers:
  assumes "fetch_all ps s = (r, t, s')"
  shows "\<exists>rs. r = Inr rs \<and> (\<forall>x. Some x \<in> set rs \<longrightarrow> (\<exists>name. FetchPrice name (Inr x) \<in> set t))"
  using assms
proof (induction ps arbitrary: s r t s')
  case Nil
  then show ?case by (auto simp: ret_def)
next
  case (Cons p ps)
  obtain name f where p: "p = (name, f)" by force
  let ?one = "attempt (bnd (call (FetchPrice name) f) (\<lambda>x. ret (Some x))) (\<lambda>_. ret None)"
  have one: "\<exists>o'. r1 = Inr o' \<and> (\<forall>x. o' = Some x \<longrightarrow> FetchPrice name (Inr x) \<in> set t1)"
    if "?one s = (r1, t1, s1)" for r1 t1 s1
    using that by (auto simp: attempt_def bnd_def call_def ret_def split: prod.splits sum.splits)
  from Cons.prems [unfolded p fetch_all.simps] show ?case
  proof (cases rule: bnd_cases)
    case (throws e)
    then show ?thesis using one by fastforce
  next
    case (goes_on x t1 s1 t2)
    from goes_on(2) show ?thesis
    proof (cases rule: bnd_cases)
      case (throws e)
      then show ?thesis using Cons.IH by fastforce
    next
      case (goes_on xs u1 s2 u2)
      then show ?thesis using Cons.IH [OF goes_on(1)] one [OF \<open>?one s = (Inr x, t1, s1)\<close>] \<open>t = t1 @ t2\<close>
        by (auto simp: ret_def) blast+
    qed
  qed
qed

lemma median_price_middle:
  assumes "\<forall>x \<in> set xs. 0 < sp_priceMicroUsd x" "xs \<noteq> []"
  shows "median_price xs = middle (map sp_priceMicroUsd xs)"
proof -
  have l: "length xs div 2 < length xs" "length xs div 2 - 1 < length xs" using assms(2) by (auto simp: less_imp_diff_less)
  then have "0 < sp_priceMicroUsd (xs ! (length xs div 2))" "0 < sp_priceMicroUsd (xs ! (length xs div 2 - 1))"
    using assms(1) by simp_all
  then show ?thesis using l by (simp add: median_price_def middle_def Let_def js_div_nonneg)
qed

lemma price_result:
  assumes "getAuthoritativePrice ag now s = (Inr (p, samples), t, s')"
  obtains rs where "\<forall>x. Some x \<in> set rs \<longrightarrow> (\<exists>name. FetchPrice name (Inr x) \<in> set t)"
    "samples = sort_key sp_priceMicroUsd (valid_samples ag now rs)" "samples \<noteq> []"
    "ag_minFeedsRequired ag \<le> int (length samples)" "p = median_price samples"
    "0 < sp_priceMicroUsd (hd samples)"
    "js_div ((sp_priceMicroUsd (last samples) - sp_priceMicroUsd (hd samples)) * 10000) (sp_priceMicroUsd (hd samples))
       \<le> ag_maxCrossFeedDispersionBps ag"
proof -
  have sort: "js_sort compare_prices = sort_key sp_priceMicroUsd"
    unfolding compare_prices_sgn by (rule js_sort_sgn)
  from assms [unfolded getAuthoritativePrice_def] show ?thesis
  proof (cases rule: bnd_cases)
    case (goes_on rs t1 s1 t2)
    have a: "\<forall>x. Some x \<in> set rs \<longrightarrow> (\<exists>name. FetchPrice name (Inr x) \<in> set t)"
      using fetch_all_answers [OF goes_on(1)] goes_on(3) by auto
    show ?thesis
      by (rule that [OF a]) (use goes_on(2) in \<open>auto simp: Let_def sort thr_def ret_def split: if_splits\<close>)
  qed simp
qed

lemma price_facts:
  assumes "getAuthoritativePrice ag now s = (Inr (p, samples), t, s')"
  shows "sorted (map sp_priceMicroUsd samples)" "samples \<noteq> []" "0 < sp_priceMicroUsd (hd samples)"
    "p = middle (map sp_priceMicroUsd samples)"
    "sp_priceMicroUsd (hd samples) \<le> p \<and> p \<le> sp_priceMicroUsd (last samples)"
    "x \<in> set samples \<Longrightarrow> sp_priceMicroUsd (hd samples) \<le> sp_priceMicroUsd x \<and>
       sp_priceMicroUsd x \<le> sp_priceMicroUsd (last samples)"
proof -
  obtain rs where r: "samples = sort_key sp_priceMicroUsd (valid_samples ag now rs)" "samples \<noteq> []"
    "p = median_price samples" "0 < sp_priceMicroUsd (hd samples)"
    by (rule price_result [OF assms])
  let ?ps = "map sp_priceMicroUsd samples"
  have sorted: "sorted ?ps" "?ps \<noteq> []" using r(1,2) by auto
  have ends: "sp_priceMicroUsd (hd samples) \<le> ?ps ! i \<and> ?ps ! i \<le> sp_priceMicroUsd (last samples)"
    if "i < length samples" for i
    using sorted_nth_mono [OF sorted(1), of 0 i] sorted_nth_mono [OF sorted(1), of i "length samples - 1"] that r(2)
    by (simp add: hd_conv_nth last_conv_nth)
  have all: "sp_priceMicroUsd (hd samples) \<le> sp_priceMicroUsd x \<and>
       sp_priceMicroUsd x \<le> sp_priceMicroUsd (last samples)" if "x \<in> set samples" for x
    using ends that by (fastforce simp: in_set_conv_nth)
  have "0 < sp_priceMicroUsd x" if "x \<in> set samples" for x
    using all [OF that] r(4) by linarith
  then have p: "p = middle ?ps" using r(2,3) by (simp add: median_price_middle)
  have "0 < length samples" using r(2) by simp
  then have "(length samples - 1) div 2 < length samples" "length samples div 2 < length samples" by presburger+
  from ends [OF this(1)] ends [OF this(2)] middle_between [OF sorted] p
  have between: "sp_priceMicroUsd (hd samples) \<le> p \<and> p \<le> sp_priceMicroUsd (last samples)" by force
  show "sorted ?ps" by (rule sorted(1))
  show "samples \<noteq> []" "0 < sp_priceMicroUsd (hd samples)" by (rule r)+
  show "p = middle ?ps" by (rule p)
  show "sp_priceMicroUsd (hd samples) \<le> p \<and> p \<le> sp_priceMicroUsd (last samples)" by (rule between)
  show "x \<in> set samples \<Longrightarrow> sp_priceMicroUsd (hd samples) \<le> sp_priceMicroUsd x \<and>
       sp_priceMicroUsd x \<le> sp_priceMicroUsd (last samples)" by (rule all)
qed

text \<open>C33: The reference price is a median of agreeing fresh feeds. When \<open>getAuthoritativePrice\<close> answers, every
  sample it returns was fetched in this call and is fresh, there are at least \<open>minFeedsRequired\<close> of them, at most half are below
  and at most half above the price, and no sample is further from the price than the dispersion limit
  (rounded up to the next basis point).\<close>

theorem price_is_agreed_median:
  assumes "getAuthoritativePrice ag now s = (Inr (p, samples), t, s')"
  shows "ag_minFeedsRequired ag \<le> int (length samples) \<and>
    2 * length (filter (\<lambda>x. sp_priceMicroUsd x < p) samples) \<le> length samples \<and>
    2 * length (filter (\<lambda>x. p < sp_priceMicroUsd x) samples) \<le> length samples \<and>
    (\<forall>x \<in> set samples. (\<exists>name. FetchPrice name (Inr x) \<in> set t) \<and> fresh ag now x \<and>
      10000 * \<bar>p - sp_priceMicroUsd x\<bar> < (ag_maxCrossFeedDispersionBps ag + 1) * sp_priceMicroUsd x)"
proof -
  let ?m = "sp_priceMicroUsd (hd samples)" and ?M = "sp_priceMicroUsd (last samples)"
    and ?D = "ag_maxCrossFeedDispersionBps ag"
  obtain rs where r: "\<forall>x. Some x \<in> set rs \<longrightarrow> (\<exists>name. FetchPrice name (Inr x) \<in> set t)"
    "samples = sort_key sp_priceMicroUsd (valid_samples ag now rs)"
    "ag_minFeedsRequired ag \<le> int (length samples)" "js_div ((?M - ?m) * 10000) ?m \<le> ?D"
    by (rule price_result [OF assms])
  note f = price_facts [OF assms]
  have "2 * length (filter (\<lambda>x. x < p) (map sp_priceMicroUsd samples)) \<le> length (map sp_priceMicroUsd samples)"
    "2 * length (filter (\<lambda>x. p < x) (map sp_priceMicroUsd samples)) \<le> length (map sp_priceMicroUsd samples)"
    unfolding f(4) using middle_halves [OF f(1)] f(2) by simp_all
  then have halves: "2 * length (filter (\<lambda>x. sp_priceMicroUsd x < p) samples) \<le> length samples"
    "2 * length (filter (\<lambda>x. p < sp_priceMicroUsd x) samples) \<le> length samples"
    by (simp_all add: filter_map comp_def)
  have le: "?m \<le> ?M" using f(5) by linarith
  then have disp: "(?M - ?m) * 10000 < (?D + 1) * ?m"
    using r(4) f(3) by (intro div_le_less) (simp_all add: js_div_nonneg)
  have agree: "10000 * \<bar>p - sp_priceMicroUsd x\<bar> < (?D + 1) * sp_priceMicroUsd x" if x: "x \<in> set samples" for x
  proof -
    have "\<bar>p - sp_priceMicroUsd x\<bar> \<le> ?M - ?m" using f(5) f(6) [OF x] by (intro abs_leI) linarith+
    then have "10000 * \<bar>p - sp_priceMicroUsd x\<bar> \<le> (?M - ?m) * 10000"
      using mult_right_mono [of _ _ 10000] by (simp only: mult.commute [of 10000]) simp
    also have "\<dots> < (?D + 1) * ?m" by (rule disp)
    also have "\<dots> \<le> (?D + 1) * sp_priceMicroUsd x"
    proof (rule mult_left_mono)
      have "0 \<le> (?M - ?m) * 10000" using le by simp
      then have "0 < (?D + 1) * ?m" using disp by linarith
      then show "0 \<le> ?D + 1" using f(3) by (simp add: zero_less_mult_iff)
    qed (use f(6) [OF x] in simp)
    finally show ?thesis .
  qed
  have "(\<exists>name. FetchPrice name (Inr x) \<in> set t) \<and> fresh ag now x" if "x \<in> set samples" for x
    using that r(1,2) valid_samples_fresh [of x ag now rs] by auto
  then show ?thesis using r(3) halves agree by blast
qed

section \<open>Quotes\<close>

lemma createQuote_result:
  assumes "createQuote qe rnd sats target now s = (Inr q, t, s')"
  obtains price samples t1 s1 gross spread net
  where "getAuthoritativePrice (qe_aggregator qe) now s = (Inr (price, samples), t1, s1)"
    "quote_amounts (qe_policy qe) sats price = Inr (gross, spread, net)" "qp_minSwapSats (qe_policy qe) \<le> sats"
    "sq_netUsdcAtomic q = net" "sq_spreadAmountAtomic q = spread" "sq_grossUsdcAtomic q = gross"
    "sq_fixedFeeAtomic q = qp_fixedFeeUsdcAtomic (qe_policy qe)" "sq_referencePriceMicroUsd q = price"
    "sq_amountSats q = sats" "sq_expiresAt q = now + qp_validityMs (qe_policy qe)"
    "sq_targetDestinationAddress q = target"
    "sq_quoteSignature q = computeQuoteSignature qe (sq_quoteId q) sats net (now + qp_validityMs (qe_policy qe)) target"
proof -
  have least: "qp_minSwapSats (qe_policy qe) \<le> sats"
    using assms by (auto simp: createQuote_def Let_def thr_def split: if_splits)
  have body: "createQuote qe rnd sats target now = bnd (getAuthoritativePrice (qe_aggregator qe) now) (\<lambda>(price, samples).
       case quote_amounts (qe_policy qe) sats price of
         Inl e \<Rightarrow> thr e
       | Inr (gross, spread, net) \<Rightarrow>
           bnd (ask rnd) (\<lambda>random.
           let quoteId = ''quote_'' @ bigint_text now @ ''_'' @ random;
               expiresAt = now + qp_validityMs (qe_policy qe)
           in ret \<lparr> sq_quoteId = quoteId, sq_amountSats = sats, sq_referencePriceMicroUsd = price,
                sq_grossUsdcAtomic = gross, sq_spreadAmountAtomic = spread,
                sq_fixedFeeAtomic = qp_fixedFeeUsdcAtomic (qe_policy qe), sq_netUsdcAtomic = net,
                sq_effectiveRate = effective_rate net sats, sq_activeFeedCount = length samples,
                sq_createdAt = now, sq_expiresAt = expiresAt, sq_targetDestinationAddress = target,
                sq_quoteSignature = computeQuoteSignature qe quoteId sats net expiresAt target \<rparr>))"
    using least by (simp add: createQuote_def Let_def)
  from assms [unfolded body] show ?thesis
  proof (cases rule: bnd_cases)
    case (goes_on x t1 s1 t2)
    obtain price samples where x: "x = (price, samples)" by force
    obtain y where y: "quote_amounts (qe_policy qe) sats price = Inr y"
      using goes_on(2) x by (cases "quote_amounts (qe_policy qe) sats price") (auto simp: thr_def)
    obtain gross spread net where "y = (gross, spread, net)" by (metis prod.exhaust)
    then show ?thesis
      using that [OF goes_on(1) [unfolded x] _ least] y goes_on(2) x
      by (auto simp: bnd_ask ret_def Let_def)
  qed simp
qed

text \<open>C34: A quote never pays more than the reference value of the sats. With non-negative fees and minimum, a
  created quote pays a positive net amount within the swap limit, net plus both fees is the gross amount, the gross amount
  rounds the reference value down, the spread is at least the agreed basis points less one unit, and
  the quote expires after the validity time.\<close>

theorem quote_pays_at_most_value:
  assumes "createQuote qe rnd sats target now s = (Inr q, t, s')"
    "0 \<le> qp_minSwapSats (qe_policy qe)" "0 \<le> qp_spreadBps (qe_policy qe)" "0 \<le> qp_fixedFeeUsdcAtomic (qe_policy qe)"
  shows "0 < sq_netUsdcAtomic q \<and> sq_netUsdcAtomic q \<le> qp_maxSwapUsdcAtomic (qe_policy qe) \<and>
    sq_netUsdcAtomic q + sq_spreadAmountAtomic q + sq_fixedFeeAtomic q = sq_grossUsdcAtomic q \<and>
    100000000 * sq_grossUsdcAtomic q \<le> sats * sq_referencePriceMicroUsd q \<and>
    sats * sq_referencePriceMicroUsd q < 100000000 * (sq_grossUsdcAtomic q + 1) \<and>
    sq_grossUsdcAtomic q * qp_spreadBps (qe_policy qe) < 10000 * (sq_spreadAmountAtomic q + 1) \<and>
    sq_amountSats q = sats \<and> qp_minSwapSats (qe_policy qe) \<le> sats \<and>
    sq_expiresAt q = now + qp_validityMs (qe_policy qe)"
proof -
  let ?p = "qe_policy qe"
  obtain price samples t1 s1 gross spread net
    where price: "getAuthoritativePrice (qe_aggregator qe) now s = (Inr (price, samples), t1, s1)"
      and amounts: "quote_amounts ?p sats price = Inr (gross, spread, net)" and least: "qp_minSwapSats ?p \<le> sats"
      and q: "sq_netUsdcAtomic q = net" "sq_spreadAmountAtomic q = spread" "sq_grossUsdcAtomic q = gross"
        "sq_fixedFeeAtomic q = qp_fixedFeeUsdcAtomic ?p" "sq_referencePriceMicroUsd q = price"
        "sq_amountSats q = sats" "sq_expiresAt q = now + qp_validityMs ?p"
    by (rule createQuote_result [OF assms(1)])
  have nonneg: "0 \<le> sats * price" using price_facts(3,5) [OF price] least assms(2) by (intro mult_nonneg_nonneg) linarith+
  have gross: "gross = sats * price div 100000000"
    using amounts nonneg by (auto simp: quote_amounts_def Let_def js_div_nonneg split: if_splits)
  have gross0: "0 \<le> gross" using nonneg unfolding gross by (simp add: pos_imp_zdiv_nonneg_iff)
  have spread: "spread = gross * qp_spreadBps ?p div 10000"
    using amounts nonneg gross0 assms(3) unfolding gross
    by (auto simp: quote_amounts_def Let_def js_div_nonneg split: if_splits)
  have net: "net = gross - (spread + qp_fixedFeeUsdcAtomic ?p)" "0 < net" "net \<le> qp_maxSwapUsdcAtomic ?p"
    using amounts by (auto simp: quote_amounts_def Let_def split: if_splits)
  have "100000000 * (x div 100000000) \<le> x \<and> x < 100000000 * (x div 100000000 + 1)"
    "x < 10000 * (x div 10000 + 1)" for x :: int
    by presburger+
  then have "100000000 * gross \<le> sats * price \<and> sats * price < 100000000 * (gross + 1)"
    "gross * qp_spreadBps ?p < 10000 * (spread + 1)"
    unfolding gross spread by blast+
  then show ?thesis using net least q by simp
qed

text \<open>A created quote verifies until it expires: for the address it was created for, \<open>verifyQuote\<close> accepts
  it exactly while its expiry has not passed.\<close>

theorem created_quote_verifies:
  assumes "createQuote qe rnd sats (Some target) now s = (Inr q, t, s')"
  shows "verifyQuote qe q (Some target) later = None \<longleftrightarrow> later \<le> now + qp_validityMs (qe_policy qe)"
  by (rule createQuote_result [OF assms]) (auto simp: verifyQuote_def Let_def truthy_str_def some_or_def)

text \<open>The signature of a quote binds its terms. If two quotes carry the same signature, the HMAC has no
  collision and neither quote id contains the separator, then id, amounts, expiry and target address agree.\<close>

theorem quote_signature_binds:
  assumes "inj (qe_hmac qe (qp_hmacSecret (qe_policy qe)))" "CHR ''|'' \<notin> set i" "CHR ''|'' \<notin> set i'"
    "computeQuoteSignature qe i sats net expiry target = computeQuoteSignature qe i' sats' net' expiry' target'"
  shows "i = i' \<and> sats = sats' \<and> net = net' \<and> expiry = expiry' \<and> coalesce target '''' = coalesce target' ''''"
proof -
  have "quote_payload i sats net expiry target = quote_payload i' sats' net' expiry' target'"
    using assms(1,4) by (simp add: computeQuoteSignature_def inj_eq)
  then have "[i, ''BTC_LIGHTNING_TO_BASE_USDC'', bigint_text sats, bigint_text net, bigint_text expiry, coalesce target ''''] =
    [i', ''BTC_LIGHTNING_TO_BASE_USDC'', bigint_text sats', bigint_text net', bigint_text expiry', coalesce target' '''']"
    unfolding quote_payload_def
    by (intro join_with_inj [where c = "CHR ''|''"]) (use assms(2,3) bigint_text_no_bar in auto)
  then show ?thesis using bigint_text_inj by simp
qed

text \<open>
  The finding on the separator: nothing keeps it out of the target address a client asks a quote for, nor out of the
  quote id a client sends back. The signature of a quote for 50 sats is that of a quote for one sat with more to pay out.
\<close>

lemma quote_signature_forged:
  "computeQuoteSignature qe ''quote_1_ab'' 50 40 21
     (Some ''BTC_LIGHTNING_TO_BASE_USDC|1|99|99|0xattacker'') =
   computeQuoteSignature qe ''quote_1_ab|BTC_LIGHTNING_TO_BASE_USDC|50|40|21'' 1 99 99
     (Some ''0xattacker'')"
proof -
  have "quote_payload ''quote_1_ab'' 50 40 21
     (Some ''BTC_LIGHTNING_TO_BASE_USDC|1|99|99|0xattacker'') =
   quote_payload ''quote_1_ab|BTC_LIGHTNING_TO_BASE_USDC|50|40|21'' 1 99 99
     (Some ''0xattacker'')" by code_simp
  then show ?thesis by (simp add: computeQuoteSignature_def)
qed

section \<open>A market of three feeds\<close>

definition demo_feed :: "string \<Rightarrow> int \<Rightarrow> string \<times> (unit \<Rightarrow> (pricing_error + price_sample) \<times> unit)" where
  "demo_feed name price = (name, \<lambda>s. (Inr \<lparr> sp_provider = name, sp_priceMicroUsd = price, sp_timestampMs = 1 \<rparr>, s))"

definition demo_aggregator :: "unit aggregator" where
  "demo_aggregator = \<lparr> ag_providers = [demo_feed ''a'' 100000300, demo_feed ''b'' 100000100,
       (''c'', \<lambda>s. (Inl FeedFailed, s)), demo_feed ''d'' 100000000],
     ag_maxStalePriceMs = 30000, ag_minFeedsRequired = 2, ag_maxCrossFeedDispersionBps = 150 \<rparr>"

definition demo_engine :: "unit quote_engine" where
  "demo_engine = \<lparr> qe_aggregator = demo_aggregator,
     qe_policy = \<lparr> qp_validityMs = 20, qp_spreadBps = 50, qp_fixedFeeUsdcAtomic = 2, qp_minSwapSats = 50,
       qp_maxSwapUsdcAtomic = 250, qp_hmacSecret = ''k'' \<rparr>,
     qe_hmac = (\<lambda>k p. k @ p) \<rparr>"

abbreviation demo_price :: "(pricing_error + int \<times> price_sample list) \<times> price_event list \<times> unit" where
  "demo_price \<equiv> getAuthoritativePrice demo_aggregator 5 ()"

lemma demo_price_value: "map_sum id (map_prod id (map sp_provider)) (fst demo_price) = Inr (100000100, [''d'', ''b'', ''a''])"
  by code_simp

theorem price_is_agreed_median_witness:
  "\<exists>samples. fst demo_price = Inr (100000100, samples) \<and> length samples = 3 \<and>
     length (filter (\<lambda>x. sp_priceMicroUsd x < 100000100) samples) \<le> 1"
proof -
  obtain r t s' where d: "demo_price = (r, t, s')" by (metis prod.exhaust)
  then obtain samples where r: "r = Inr (100000100, samples)" "length samples = 3"
    using demo_price_value by (cases r) (auto dest: arg_cong [where f = length])
  from price_is_agreed_median [OF d [unfolded r(1)]] r d show ?thesis by auto
qed

abbreviation demo_created :: "(pricing_error + sovereign_quote) \<times> price_event list \<times> unit" where
  "demo_created \<equiv> createQuote demo_engine (\<lambda>_. ''ff'') 100 (Some ''0xd'') 5 ()"

lemma demo_quote_made: "\<exists>q t. demo_created = (Inr q, t, ())"
proof -
  obtain r t where d: "demo_price = (r, t, ())" by (metis prod.exhaust old.unit.exhaust)
  then obtain samples where "r = Inr (100000100, samples)"
    using demo_price_value by (cases r) auto
  with d show ?thesis
    by (simp add: createQuote_def demo_engine_def quote_amounts_def js_div_def Let_def bnd_def ask_def ret_def)
qed

theorem quote_pays_at_most_value_witness:
  "\<exists>q t. demo_created = (Inr q, t, ()) \<and> 0 < sq_netUsdcAtomic q \<and> sq_netUsdcAtomic q \<le> 250"
proof -
  obtain q t where d: "demo_created = (Inr q, t, ())" using demo_quote_made by blast
  from quote_pays_at_most_value [OF d] d show ?thesis by (simp add: demo_engine_def)
qed

theorem created_quote_verifies_witness:
  "\<exists>q t. demo_created = (Inr q, t, ()) \<and> verifyQuote demo_engine q (Some ''0xd'') 25 = None \<and>
     verifyQuote demo_engine q (Some ''0xd'') 26 \<noteq> None"
proof -
  obtain q t where d: "demo_created = (Inr q, t, ())" using demo_quote_made by blast
  from created_quote_verifies [OF d, of 25] created_quote_verifies [OF d, of 26] d show ?thesis
    by (simp add: demo_engine_def)
qed

theorem quote_signature_binds_witness:
  "computeQuoteSignature demo_engine ''q'' 1 2 3 None = computeQuoteSignature demo_engine ''q'' 1 2 3 (Some '''') \<and>
   coalesce None '''' = coalesce (Some '''') ''''"
proof -
  have e: "computeQuoteSignature demo_engine ''q'' 1 2 3 None = computeQuoteSignature demo_engine ''q'' 1 2 3 (Some '''')"
    by (simp add: computeQuoteSignature_def quote_payload_def coalesce_def)
  have "inj (qe_hmac demo_engine (qp_hmacSecret (qe_policy demo_engine)))"
    by (simp add: demo_engine_def inj_def)
  from quote_signature_binds [OF this _ _ e] e show ?thesis by simp
qed

end
