(* ===== verification/Abuse_Laws.thy ===== *)
theory Abuse_Laws
  imports Anti_Abuse Pricing_Laws
begin

text \<open>
  What the admission limits promise over any history of the engine: the caps hold for every rolling
  window, admissions of one wallet are a cooldown apart, a key is admitted once, and a refused request changes nothing.
\<close>

section \<open>Volumes\<close>

lemma volume_Nil [simp]: "volume P [] = 0"
  by (simp add: volume_def)

lemma volume_append [simp]: "volume P (xs @ ys) = volume P xs + volume P ys"
  by (simp add: volume_def)

lemma volume_single [simp]: "volume P [r] = (if P r then ae_amount_usdc_atomic r else 0)"
  by (simp add: volume_def)

lemma volume_mono:
  assumes "\<And>r. r \<in> set rows \<Longrightarrow> 0 \<le> ae_amount_usdc_atomic r" "\<And>r. r \<in> set rows \<Longrightarrow> P r \<Longrightarrow> Q r"
  shows "volume P rows \<le> volume Q rows"
  using assms by (induction rows) (auto simp: volume_def add_increasing)

lemma volume_update_le:
  assumes "\<And>r. r \<in> set rows \<Longrightarrow> 0 \<le> ae_amount_usdc_atomic r"
    "\<And>r. r \<in> set rows \<Longrightarrow> ae_amount_usdc_atomic (f r) = ae_amount_usdc_atomic r"
    "\<And>r. r \<in> set rows \<Longrightarrow> P (f r) \<Longrightarrow> P r"
  shows "volume P (map f rows) \<le> volume P rows"
  using assms by (induction rows) (auto simp: volume_def add_increasing)

text \<open>The volume of the rows in \<open>P\<close> created in the window of length \<open>w\<close> that ends at \<open>t\<close>.\<close>

definition window_volume :: "(abuse_event \<Rightarrow> bool) \<Rightarrow> int \<Rightarrow> int \<Rightarrow> abuse_event list \<Rightarrow> int" where
  "window_volume P w t = volume (\<lambda>r. P r \<and> t - w < ae_created_at_ms r \<and> ae_created_at_ms r \<le> t)"

definition capped :: "(abuse_event \<Rightarrow> bool) \<Rightarrow> int \<Rightarrow> int \<Rightarrow> abuse_event list \<Rightarrow> bool" where
  "capped P w cap rows \<longleftrightarrow> (\<forall>t. window_volume P w t rows \<le> cap)"

text \<open>Rows up to \<open>now\<close>, with non-negative amounts, and none FAILED.\<close>

definition sane :: "int \<Rightarrow> abuse_event list \<Rightarrow> bool" where
  "sane now rows \<longleftrightarrow> (\<forall>r \<in> set rows. ae_created_at_ms r \<le> now \<and> 0 \<le> ae_amount_usdc_atomic r \<and> ae_status r \<noteq> AS_FAILED)"

lemma sane_later: "sane now rows \<Longrightarrow> now \<le> now' \<Longrightarrow> sane now' rows"
  by (fastforce simp: sane_def)

text \<open>A row created now keeps every window below the cap when the window that ends now has room for it.\<close>

lemma capped_insert:
  assumes "capped P w cap rows" "sane now rows" "ae_created_at_ms e = now"
    "P e \<Longrightarrow> volume (\<lambda>r. P r \<and> now - w < ae_created_at_ms r) rows + ae_amount_usdc_atomic e \<le> cap"
  shows "capped P w cap (rows @ [e])"
  unfolding capped_def
proof
  fix t
  have before: "window_volume P w t rows \<le> cap" using assms(1) by (simp add: capped_def)
  show "window_volume P w t (rows @ [e]) \<le> cap"
  proof (cases "P e \<and> t - w < now \<and> now \<le> t")
    case True
    have "window_volume P w t rows \<le> volume (\<lambda>r. P r \<and> now - w < ae_created_at_ms r) rows"
      unfolding window_volume_def by (rule volume_mono) (use assms(2) True in \<open>auto simp: sane_def\<close>)
    then show ?thesis using assms(3,4) True by (simp add: window_volume_def)
  next
    case False
    then have "window_volume P w t (rows @ [e]) = window_volume P w t rows"
      using assms(3) by (auto simp: window_volume_def)
    then show ?thesis using before by simp
  qed
qed

lemma capped_update:
  assumes "capped P w cap rows" "sane now rows" "status \<noteq> AS_ADMITTED"
    "\<And>r. P (r\<lparr>ae_status := status, ae_updated_at_ms := u\<rparr>) \<Longrightarrow> P r"
  shows "capped P w cap (updateSwapStatus key status u rows)"
  unfolding capped_def
proof
  fix t
  have "window_volume P w t (updateSwapStatus key status u rows) \<le> window_volume P w t rows"
    unfolding window_volume_def updateSwapStatus_def sql_update_def
    by (rule volume_update_le) (use assms(2,4) in \<open>auto simp: sane_def split: if_splits\<close>)
  then show "window_volume P w t (updateSwapStatus key status u rows) \<le> cap"
    using assms(1) by (auto simp: capped_def intro: order.trans)
qed

section \<open>Histories of the engine\<close>

datatype abuse_op =
    AbAdmit admission_request int string
  | AbCompleted string int
  | AbRefunded string int
  | AbCancelled string int

fun op_time :: "abuse_op \<Rightarrow> int" where
  "op_time (AbAdmit req now u) = now"
| "op_time (AbCompleted k now) = now"
| "op_time (AbRefunded k now) = now"
| "op_time (AbCancelled k now) = now"

fun op_step :: "'s abuse_engine \<Rightarrow> abuse_op \<Rightarrow> abuse_event list \<Rightarrow> abuse_event list" where
  "op_step en (AbAdmit req now u) rows = snd (admitSwap en req now u rows)"
| "op_step en (AbCompleted k now) rows = markCompleted k now rows"
| "op_step en (AbRefunded k now) rows = markRefunded k now rows"
| "op_step en (AbCancelled k now) rows = markCancelled k now rows"

definition op_run :: "'s abuse_engine \<Rightarrow> abuse_op list \<Rightarrow> abuse_event list" where
  "op_run en ops = fold (op_step en) ops []"

fun op_amount_ok :: "abuse_op \<Rightarrow> bool" where
  "op_amount_ok (AbAdmit req now u) \<longleftrightarrow> 0 \<le> sq_netUsdcAtomic (rq_quote req)"
| "op_amount_ok _ \<longleftrightarrow> True"

text \<open>An admission either changes nothing or appends the new event, all limits passed.\<close>

lemma admission_cases:
  assumes "evaluateAndRecordAdmission req policy now u rows = (r, rows')"
  obtains (same) "rows' = rows"
    | (admitted) v tk where "r = Inr tk" "rows' = rows @ [new_event req (''ticket_'' @ u) now]"
        "sql_get (\<lambda>r. ae_idempotency_key r = rq_idempotencyKey req) rows = None"
        "admission_limits policy (to_lower (rq_walletAddress req)) (to_lower (rq_destinationAddress req))
           (sq_netUsdcAtomic (rq_quote req)) now rows = Inr v"
        "sq_netUsdcAtomic (rq_quote req) \<le> aa_maxSingleSwap policy"
        "\<forall>r \<in> set rows. ae_id r \<noteq> ''ticket_'' @ u"
  using assms unfolding evaluateAndRecordAdmission_def Let_def
  by (auto split: if_splits option.splits sum.splits)

lemma limits_passed:
  assumes "admission_limits policy wallet dest x now rows = Inr v" "sane now rows"
  shows "volume (\<lambda>r. ae_wallet_address r = wallet \<and> now - aa_rollingWindowMs policy < ae_created_at_ms r) rows + x
      \<le> aa_maxRollingVolume policy"
    "volume (\<lambda>r. ae_destination_address r = dest \<and> now - aa_rollingWindowMs policy < ae_created_at_ms r) rows + x
      \<le> aa_maxDestinationRollingVolume policy"
    "volume (\<lambda>r. True \<and> now - aa_rollingWindowMs policy < ae_created_at_ms r) rows + x
      \<le> aa_maxGlobalRollingVolume policy"
    "volume (\<lambda>r. ae_status r = AS_ADMITTED \<and> now - 7200000 < ae_created_at_ms r) rows + x
      \<le> aa_maxConcurrentInFlight policy"
    "cooldown_left policy wallet now rows = None"
proof -
  have alive: "volume (\<lambda>r. P r \<and> ae_status r \<noteq> AS_FAILED) rows = volume P rows" for P
    unfolding volume_def using assms(2) by (intro arg_cong [where f = sum_list] arg_cong2 [where f = map] filter_cong)
      (auto simp: sane_def)
  have w: "volume (\<lambda>r. ae_wallet_address r = wallet \<and> now - aa_rollingWindowMs policy < ae_created_at_ms r) rows =
      calculateRollingVolumeInternal wallet now (aa_rollingWindowMs policy) rows"
    and d: "volume (\<lambda>r. ae_destination_address r = dest \<and> now - aa_rollingWindowMs policy < ae_created_at_ms r) rows =
      volume (\<lambda>r. ae_destination_address r = dest \<and> now - aa_rollingWindowMs policy < ae_created_at_ms r \<and> ae_status r \<noteq> AS_FAILED) rows"
    and g: "volume (\<lambda>r. True \<and> now - aa_rollingWindowMs policy < ae_created_at_ms r) rows =
      volume (\<lambda>r. now - aa_rollingWindowMs policy < ae_created_at_ms r \<and> ae_status r \<noteq> AS_FAILED) rows"
    using alive [of "\<lambda>r. ae_wallet_address r = wallet \<and> now - aa_rollingWindowMs policy < ae_created_at_ms r"]
      alive [of "\<lambda>r. ae_destination_address r = dest \<and> now - aa_rollingWindowMs policy < ae_created_at_ms r"]
      alive [of "\<lambda>r. now - aa_rollingWindowMs policy < ae_created_at_ms r"]
    unfolding calculateRollingVolumeInternal_def by (simp_all only: conj_assoc simp_thms)
  show "volume (\<lambda>r. ae_wallet_address r = wallet \<and> now - aa_rollingWindowMs policy < ae_created_at_ms r) rows + x
      \<le> aa_maxRollingVolume policy"
    "volume (\<lambda>r. ae_destination_address r = dest \<and> now - aa_rollingWindowMs policy < ae_created_at_ms r) rows + x
      \<le> aa_maxDestinationRollingVolume policy"
    "volume (\<lambda>r. True \<and> now - aa_rollingWindowMs policy < ae_created_at_ms r) rows + x
      \<le> aa_maxGlobalRollingVolume policy"
    "volume (\<lambda>r. ae_status r = AS_ADMITTED \<and> now - 7200000 < ae_created_at_ms r) rows + x
      \<le> aa_maxConcurrentInFlight policy"
    "cooldown_left policy wallet now rows = None"
    using assms(1) unfolding w d g admission_limits_def Let_def
    by (auto split: if_splits option.splits)
qed

section \<open>The caps over histories\<close>

definition within_caps :: "abuse_policy \<Rightarrow> abuse_event list \<Rightarrow> bool" where
  "within_caps policy rows \<longleftrightarrow>
     (\<forall>w. capped (\<lambda>r. ae_wallet_address r = w) (aa_rollingWindowMs policy) (aa_maxRollingVolume policy) rows) \<and>
     (\<forall>d. capped (\<lambda>r. ae_destination_address r = d) (aa_rollingWindowMs policy) (aa_maxDestinationRollingVolume policy) rows) \<and>
     capped (\<lambda>_. True) (aa_rollingWindowMs policy) (aa_maxGlobalRollingVolume policy) rows \<and>
     capped (\<lambda>r. ae_status r = AS_ADMITTED) 7200000 (aa_maxConcurrentInFlight policy) rows"

lemma within_caps_insert:
  assumes "within_caps policy rows" "sane now rows" "ae_created_at_ms e = now"
    "admission_limits policy (ae_wallet_address e) (ae_destination_address e) (ae_amount_usdc_atomic e) now rows = Inr v"
  shows "within_caps policy (rows @ [e])"
  using assms(1) limits_passed [OF assms(4,2)] unfolding within_caps_def
  by (auto intro!: capped_insert [OF _ assms(2,3)])

lemma within_caps_update:
  assumes "within_caps policy rows" "sane now rows" "status \<noteq> AS_ADMITTED"
  shows "within_caps policy (updateSwapStatus key status u rows)"
  using assms(1,3) unfolding within_caps_def
  by (auto intro!: capped_update [OF _ assms(2,3)])

lemma cooldown_passed:
  assumes "cooldown_left policy wallet now rows = None" "r \<in> set rows" "ae_wallet_address r = wallet"
  shows "aa_cooldownMs policy \<le> now - ae_created_at_ms r"
proof (rule ccontr)
  assume "\<not> ?thesis"
  then have "r \<in> set (filter (\<lambda>r. ae_wallet_address r = wallet \<and> ae_created_at_ms r > now - aa_cooldownMs policy) rows)"
    (is "_ \<in> set ?recent") using assms(2,3) by simp
  then have "map ae_created_at_ms ?recent \<noteq> []" by (metis empty_iff list.map_disc_iff list.set(1))
  then obtain t ts where ts: "map ae_created_at_ms ?recent = t # ts" by (meson neq_Nil_conv)
  have "t \<in> ae_created_at_ms ` set ?recent" using ts by (metis image_set list.set_intros(1))
  then have "now - aa_cooldownMs policy < t" by auto
  moreover have "x \<le> fold max xs x" for xs and x :: int
    by (induction xs arbitrary: x) (auto intro: order.trans [OF max.cobounded2])
  ultimately have "now - aa_cooldownMs policy < fold max ts t" by (meson less_le_trans)
  then show False using assms(1) ts by (simp add: cooldown_left_def latest_created_def Let_def)
qed

text \<open>Admissions of one wallet, in the order of the table, are a cooldown apart.\<close>

definition spaced :: "int \<Rightarrow> abuse_event list \<Rightarrow> bool" where
  "spaced cd rows \<longleftrightarrow> sorted_wrt (\<lambda>r r'. ae_wallet_address r = ae_wallet_address r' \<longrightarrow>
     cd \<le> ae_created_at_ms r' - ae_created_at_ms r) rows"

lemma spaced_update: "spaced cd rows \<Longrightarrow> spaced cd (updateSwapStatus key status u rows)"
  by (simp add: spaced_def updateSwapStatus_def sql_update_def sorted_wrt_map if_distrib)

lemma sane_update: "sane now rows \<Longrightarrow> status \<noteq> AS_FAILED \<Longrightarrow> sane now (updateSwapStatus key status u rows)"
  by (auto simp: sane_def updateSwapStatus_def sql_update_def split: if_splits)

definition abuse_inv :: "abuse_policy \<Rightarrow> int \<Rightarrow> abuse_event list \<Rightarrow> bool" where
  "abuse_inv policy now rows \<longleftrightarrow> sane now rows \<and> within_caps policy rows \<and> spaced (aa_cooldownMs policy) rows"

lemma abuse_inv_step:
  assumes "abuse_inv (en_policy en) before rows" "before \<le> op_time opn" "op_amount_ok opn"
  shows "abuse_inv (en_policy en) (op_time opn) (op_step en opn rows)"
proof -
  have later: "sane (op_time opn) rows" using assms(1,2) by (auto simp: abuse_inv_def intro: sane_later)
  have update: "abuse_inv (en_policy en) (op_time opn) (updateSwapStatus k st u rows)"
    if "st \<noteq> AS_ADMITTED" "st \<noteq> AS_FAILED" for k st u
    using assms(1) later that unfolding abuse_inv_def
    by (auto intro: sane_update spaced_update within_caps_update)
  show ?thesis
  proof (cases opn)
    case (AbAdmit req now u)
    have keep: "abuse_inv (en_policy en) now rows" using assms(1) later AbAdmit by (simp add: abuse_inv_def)
    have "abuse_inv (en_policy en) now rows'"
      if e: "evaluateAndRecordAdmission req (en_policy en) now u rows = (r, rows')" for r rows'
      using e
    proof (cases rule: admission_cases)
      case same
      then show ?thesis using keep by simp
    next
      case (admitted v tk)
      let ?e = "new_event req (''ticket_'' @ u) now"
      have f: "ae_created_at_ms ?e = now" "ae_status ?e = AS_ADMITTED"
        "ae_wallet_address ?e = to_lower (rq_walletAddress req)"
        "ae_destination_address ?e = to_lower (rq_destinationAddress req)"
        "ae_amount_usdc_atomic ?e = sq_netUsdcAtomic (rq_quote req)"
        by (simp_all add: new_event_def)
      have sane: "sane now rows" using keep by (simp add: abuse_inv_def)
      have "within_caps (en_policy en) (rows @ [?e])"
        by (rule within_caps_insert [OF _ sane f(1)]) (use keep admitted(4) f in \<open>auto simp: abuse_inv_def\<close>)
      moreover have "sane now (rows @ [?e])"
        using sane f assms(3) AbAdmit by (auto simp: sane_def)
      moreover have "spaced (aa_cooldownMs (en_policy en)) (rows @ [?e])"
        using keep cooldown_passed [OF limits_passed(5) [OF admitted(4) sane]] f
        by (auto simp: abuse_inv_def spaced_def sorted_wrt_append)
      ultimately show ?thesis using admitted(2) by (simp add: abuse_inv_def)
    qed
    then show ?thesis using keep AbAdmit
      by (auto simp: admitSwap_def split: sum.splits) (metis prod.collapse)
  qed (use update in \<open>simp_all add: markCompleted_def markRefunded_def markCancelled_def\<close>)
qed

lemma abuse_inv_run:
  assumes "sorted (map op_time ops)" "list_all op_amount_ok ops" "abuse_inv (en_policy en) t0 rows"
    "\<forall>opn \<in> set ops. t0 \<le> op_time opn"
  shows "\<exists>t. abuse_inv (en_policy en) t (fold (op_step en) ops rows)"
  using assms
proof (induction ops arbitrary: t0 rows)
  case (Cons opn ops)
  have "abuse_inv (en_policy en) (op_time opn) (op_step en opn rows)"
    by (rule abuse_inv_step) (use Cons.prems in auto)
  from Cons.IH [OF _ _ this] Cons.prems show ?case by auto
qed auto

definition caps_nonneg :: "abuse_policy \<Rightarrow> bool" where
  "caps_nonneg policy \<longleftrightarrow> 0 \<le> aa_maxRollingVolume policy \<and> 0 \<le> aa_maxDestinationRollingVolume policy \<and>
     0 \<le> aa_maxGlobalRollingVolume policy \<and> 0 \<le> aa_maxConcurrentInFlight policy"

lemma abuse_inv_start: "caps_nonneg policy \<Longrightarrow> abuse_inv policy t []"
  by (simp add: abuse_inv_def sane_def within_caps_def capped_def window_volume_def spaced_def caps_nonneg_def)

text \<open>C22: The volume caps hold for every rolling window. After any history of admissions and status changes with
  non-negative amounts and a clock that does not go back, and for every time, the volume admitted in the window that
  ends then is within the cap of each wallet, of each destination and of the whole system, and the volume still
  in flight of any two hours is within the concurrency cap.\<close>

theorem rolling_caps_hold:
  assumes "sorted (map op_time ops)" "list_all op_amount_ok ops" "caps_nonneg (en_policy en)"
  shows "window_volume (\<lambda>r. ae_wallet_address r = w) (aa_rollingWindowMs (en_policy en)) t (op_run en ops)
      \<le> aa_maxRollingVolume (en_policy en) \<and>
    window_volume (\<lambda>r. ae_destination_address r = d) (aa_rollingWindowMs (en_policy en)) t (op_run en ops)
      \<le> aa_maxDestinationRollingVolume (en_policy en) \<and>
    window_volume (\<lambda>_. True) (aa_rollingWindowMs (en_policy en)) t (op_run en ops)
      \<le> aa_maxGlobalRollingVolume (en_policy en) \<and>
    window_volume (\<lambda>r. ae_status r = AS_ADMITTED) 7200000 t (op_run en ops)
      \<le> aa_maxConcurrentInFlight (en_policy en)"
proof -
  obtain t0 where "\<forall>opn \<in> set ops. t0 \<le> op_time opn"
    using assms(1) by (cases ops) auto
  from abuse_inv_run [OF assms(1,2) abuse_inv_start [OF assms(3)] this]
  have "within_caps (en_policy en) (op_run en ops)" by (auto simp: op_run_def abuse_inv_def)
  then show ?thesis by (simp add: within_caps_def capped_def)
qed

text \<open>A wallet is admitted at most once per cooldown: in any such history two admissions of one wallet are at least
  \<open>cooldownMs\<close> apart.\<close>

theorem admissions_spaced:
  assumes "sorted (map op_time ops)" "list_all op_amount_ok ops" "caps_nonneg (en_policy en)"
    "i < j" "j < length (op_run en ops)"
    "ae_wallet_address (op_run en ops ! i) = ae_wallet_address (op_run en ops ! j)"
  shows "aa_cooldownMs (en_policy en) \<le> ae_created_at_ms (op_run en ops ! j) - ae_created_at_ms (op_run en ops ! i)"
proof -
  obtain t0 where "\<forall>opn \<in> set ops. t0 \<le> op_time opn"
    using assms(1) by (cases ops) auto
  from abuse_inv_run [OF assms(1,2) abuse_inv_start [OF assms(3)] this]
  have "spaced (aa_cooldownMs (en_policy en)) (op_run en ops)" by (auto simp: op_run_def abuse_inv_def)
  then show ?thesis using assms(4-6) by (auto simp: spaced_def sorted_wrt_iff_nth_less)
qed

section \<open>Replays and releases\<close>

text \<open>Repeating an admitted request returns the same ticket whatever the limits are by then, and changes nothing;
  the same key for other parameters is a conflict.\<close>

theorem admission_replayed:
  assumes "evaluateAndRecordAdmission req policy now u rows = (Inr tk, rows')"
  shows "\<exists>tk'. evaluateAndRecordAdmission req policy now' u' rows' = (Inr tk', rows') \<and>
    tk_ticketId tk' = tk_ticketId tk \<and> tk_amountUsdcAtomic tk' = tk_amountUsdcAtomic tk \<and>
    tk_volumeAfter tk' = tk_volumeBefore tk'"
proof -
  have size: "sq_netUsdcAtomic (rq_quote req) \<le> aa_maxSingleSwap policy"
    using assms by (auto simp: evaluateAndRecordAdmission_def Let_def split: if_splits)
  show ?thesis
  proof (cases "sql_get (\<lambda>r. ae_idempotency_key r = rq_idempotencyKey req) rows")
    case None
    then have "rows' = rows @ [new_event req (''ticket_'' @ u) now]" "tk_ticketId tk = ''ticket_'' @ u"
      "tk_amountUsdcAtomic tk = sq_netUsdcAtomic (rq_quote req)"
      using assms size by (auto simp: evaluateAndRecordAdmission_def Let_def split: if_splits sum.splits)
    moreover have "sql_get (\<lambda>r. ae_idempotency_key r = rq_idempotencyKey req) (rows @ [new_event req (''ticket_'' @ u) now]) =
        Some (new_event req (''ticket_'' @ u) now)"
      using None by (simp add: new_event_def sql_get_append)
    ultimately show ?thesis using size
      by (simp add: evaluateAndRecordAdmission_def Let_def replay_admission_def new_event_def)
  next
    case (Some e)
    then show ?thesis using assms size
      by (auto simp: evaluateAndRecordAdmission_def Let_def replay_admission_def split: if_splits)
  qed
qed

text \<open>
  The finding on releases: cancelling gives the in-flight exposure back, but the row still counts for the rolling
  volume of its wallet, its destination and the system, which leave out only FAILED rows; no code writes FAILED.
\<close>

lemma cancelled_still_counts:
  assumes "\<forall>r \<in> set rows. ae_status r \<noteq> AS_FAILED"
  shows "calculateRollingVolumeInternal w now d (markCancelled k u rows) = calculateRollingVolumeInternal w now d rows"
  using assms by (induction rows)
    (auto simp: calculateRollingVolumeInternal_def volume_def markCancelled_def updateSwapStatus_def)

section \<open>A history\<close>

definition demo_terms :: sovereign_quote where
  "demo_terms = \<lparr> sq_quoteId = ''q'', sq_amountSats = 100, sq_referencePriceMicroUsd = 100000100, sq_grossUsdcAtomic = 100,
     sq_spreadAmountAtomic = 0, sq_fixedFeeAtomic = 2, sq_netUsdcAtomic = 98, sq_effectiveRate = ''98.000000'',
     sq_activeFeedCount = 3, sq_createdAt = 5, sq_expiresAt = 25, sq_targetDestinationAddress = Some ''0xd'',
     sq_quoteSignature = computeQuoteSignature demo_engine ''q'' 100 98 25 (Some ''0xd'') \<rparr>"

definition demo_request :: "string \<Rightarrow> admission_request" where
  "demo_request key = \<lparr> rq_idempotencyKey = key, rq_walletAddress = ''0xa'', rq_destinationAddress = ''0xd'',
     rq_quote = demo_terms, rq_clientIp = None \<rparr>"

definition demo_limits :: "unit abuse_engine" where
  "demo_limits = \<lparr> en_quoteEngine = demo_engine, en_policy = DEFAULT_ANTI_ABUSE_CONFIG\<lparr>aa_cooldownMs := 2\<rparr> \<rparr>"

definition demo_history :: "abuse_op list" where
  "demo_history = [AbAdmit (demo_request ''k1'') 6 ''u1'', AbAdmit (demo_request ''k2'') 7 ''u2'',
     AbCompleted ''k1'' 8, AbAdmit (demo_request ''k2'') 9 ''u3'']"

lemma demo_terms_valid: "now \<le> 25 \<Longrightarrow> verifyQuote demo_engine demo_terms (Some ''0xd'') now = None"
  by (simp add: verifyQuote_def demo_terms_def truthy_str_def some_or_def)

lemma to_lower_demo_wallet [simp]: "to_lower ''0xa'' = ''0xa''" "to_lower ''0xd'' = ''0xd''"
  by code_simp+

lemma demo_terms_amounts [simp]: "sq_netUsdcAtomic demo_terms = 98" "sq_amountSats demo_terms = 100"
  by (simp_all add: demo_terms_def)

lemmas demo_history_defs = op_run_def demo_history_def admitSwap_def demo_limits_def demo_request_def verifyOrReject_def
  evaluateAndRecordAdmission_def replay_admission_def sql_get_def admission_limits_def cooldown_left_def latest_created_def volume_def
  calculateRollingVolumeInternal_def new_event_def DEFAULT_ANTI_ABUSE_CONFIG_def markCompleted_def updateSwapStatus_def Let_def

lemma demo_history_rows:
  "map (\<lambda>r. (ae_idempotency_key r, ae_wallet_address r, ae_created_at_ms r, ae_status r)) (op_run demo_limits demo_history) =
   [(''k1'', ''0xa'', 6, AS_COMPLETED), (''k2'', ''0xa'', 9, AS_ADMITTED)]"
  by (simp add: demo_history_defs demo_terms_valid)

lemma demo_history_ok:
  "sorted (map op_time demo_history)" "list_all op_amount_ok demo_history" "caps_nonneg (en_policy demo_limits)"
  by (simp_all add: demo_history_def demo_request_def demo_limits_def caps_nonneg_def DEFAULT_ANTI_ABUSE_CONFIG_def)

theorem rolling_caps_hold_witness:
  "length (op_run demo_limits demo_history) = 2 \<and>
   window_volume (\<lambda>r. ae_wallet_address r = ''0xa'') (aa_rollingWindowMs (en_policy demo_limits)) 10
     (op_run demo_limits demo_history) \<le> 500000000"
  using arg_cong [OF demo_history_rows, where f = length]
    rolling_caps_hold [OF demo_history_ok, of "''0xa''" 10 "''0xd''"]
  by (simp add: demo_limits_def DEFAULT_ANTI_ABUSE_CONFIG_def)

theorem admissions_spaced_witness:
  "ae_created_at_ms (op_run demo_limits demo_history ! 1) - ae_created_at_ms (op_run demo_limits demo_history ! 0) \<ge> 2"
proof -
  have l: "length (op_run demo_limits demo_history) = 2" using arg_cong [OF demo_history_rows, where f = length] by simp
  have "ae_wallet_address (op_run demo_limits demo_history ! 0) = ae_wallet_address (op_run demo_limits demo_history ! 1)"
    using arg_cong [OF demo_history_rows, where f = "map (fst \<circ> snd)"] l by (cases "op_run demo_limits demo_history") auto
  from admissions_spaced [OF demo_history_ok _ _ this] l show ?thesis
    by (simp add: demo_limits_def)
qed

end
