(* ===== verification/Gasless.thy ===== *)
theory Gasless
  imports Anti_Abuse
begin

text \<open>
  Gasless swaps: the nonce and replay manager (\<open>src/src/gasless/nonce-manager.ts\<close>), the EIP-712 authorizer
  (\<open>authorizer.ts\<close>) and the relayer over them (\<open>relayer.ts\<close>). The tables are lists of rows. Hashing and typed-data
  verification are parameters; the broadcaster and other processes are arbitrary functions on the whole state.
\<close>

section \<open>Errors\<close>

datatype gasless_error =
    InvalidSignature string
  | SignatureExpired int int
  | AuthorizationParameterMismatch string string string
  | InvalidNonce int int
  | QuoteAlreadyConsumed string
  | AmbiguousBroadcast string string
  | RelayerExecutionReverted string
  | AdmissionRefused abuse_error
  | ConstraintFailed
  | BroadcasterError string

text \<open>\<open>Error.message\<close> where the code reads it: of a broadcaster error or a failed statement.\<close>

fun gl_message :: "gasless_error \<Rightarrow> string" where
  "gl_message (BroadcasterError m) = m"
| "gl_message ConstraintFailed = ''UNIQUE constraint failed: relayer_executions.idempotency_key''"
| "gl_message _ = ''''"

section \<open>Nonces and replays\<close>

record nonce_row =
  nn_swapper_address :: string
  nn_current_nonce :: int
  nn_updated_at :: int

record consumed_quote =
  cq_quote_id :: string
  cq_swapper_address :: string
  cq_nonce :: int
  cq_consumed_at :: int

record consumed_signature =
  cs_signature_hash :: string
  cs_consumed_at :: int

record nonce_db =
  swapper_nonces :: "nonce_row list"
  consumed_quotes :: "consumed_quote list"
  consumed_signatures :: "consumed_signature list"

definition empty_nonce_db :: nonce_db where
  "empty_nonce_db = \<lparr> swapper_nonces = [], consumed_quotes = [], consumed_signatures = [] \<rparr>"

definition nonce_row_of :: "string \<Rightarrow> nonce_db \<Rightarrow> nonce_row option" where
  "nonce_row_of norm d = sql_get (\<lambda>r. nn_swapper_address r = norm) (swapper_nonces d)"

definition expected_nonce :: "string \<Rightarrow> nonce_db \<Rightarrow> int" where
  "expected_nonce norm d = (case nonce_row_of norm d of None \<Rightarrow> 0 | Some row \<Rightarrow> nn_current_nonce row + 1)"

definition getNextNonce :: "string \<Rightarrow> nonce_db \<Rightarrow> int" where
  "getNextNonce swapper d = expected_nonce (to_lower swapper) d"

definition isQuoteConsumed :: "string \<Rightarrow> nonce_db \<Rightarrow> bool" where
  "isQuoteConsumed quoteId d = (sql_get (\<lambda>r. cq_quote_id r = quoteId) (consumed_quotes d) \<noteq> None)"

definition update_nonces :: "string \<Rightarrow> int \<Rightarrow> int \<Rightarrow> nonce_db \<Rightarrow> nonce_db" where
  "update_nonces norm nonce nowMs d =
    (case nonce_row_of norm d of
       Some _ \<Rightarrow> d\<lparr>swapper_nonces := sql_update (\<lambda>r. nn_swapper_address r = norm)
         (\<lambda>r. r\<lparr>nn_current_nonce := nonce, nn_updated_at := nowMs\<rparr>) (swapper_nonces d)\<rparr>
     | None \<Rightarrow> d\<lparr>swapper_nonces := swapper_nonces d @
         [\<lparr> nn_swapper_address = norm, nn_current_nonce = nonce, nn_updated_at = nowMs \<rparr>]\<rparr>)"

text \<open>One transaction: single use of the quote, then of the signature, then the next nonce in order.\<close>

definition verifyAndConsume ::
  "(string \<Rightarrow> string) \<Rightarrow> string \<Rightarrow> int \<Rightarrow> string \<Rightarrow> string \<Rightarrow> int \<Rightarrow> nonce_db \<Rightarrow> (gasless_error + unit) \<times> nonce_db" where
  "verifyAndConsume sha swapper nonce quoteId signature nowMs d =
    (let norm = to_lower swapper; sigHash = sha (to_lower signature)
     in if sql_get (\<lambda>r. cq_quote_id r = quoteId) (consumed_quotes d) \<noteq> None
        then (Inl (QuoteAlreadyConsumed quoteId), d)
        else if sql_get (\<lambda>r. cs_signature_hash r = sigHash) (consumed_signatures d) \<noteq> None
        then (Inl (InvalidSignature ''Signature has already been used.''), d)
        else if nonce \<noteq> expected_nonce norm d
        then (Inl (InvalidNonce (expected_nonce norm d) nonce), d)
        else
          (Inr (), (update_nonces norm nonce nowMs d)\<lparr>
             consumed_quotes := consumed_quotes d @ [\<lparr> cq_quote_id = quoteId, cq_swapper_address = norm,
               cq_nonce = nonce, cq_consumed_at = nowMs \<rparr>],
             consumed_signatures := consumed_signatures d @
               [\<lparr> cs_signature_hash = sigHash, cs_consumed_at = nowMs \<rparr>]\<rparr>))"

section \<open>Authorizations\<close>

record domain_config =
  dc_name :: string
  dc_version :: string
  dc_chainId :: int
  dc_verifyingContract :: string

record swap_authorization =
  sm_swapper :: string
  sm_destination :: string
  sm_amountUsdcAtomic :: int
  sm_amountSats :: int
  sm_quoteId :: string
  sm_nonce :: int
  sm_deadline :: int

record signed_authorization =
  sz_message :: swap_authorization
  sz_signature :: string

text \<open>\<open>verifyTypedData\<close> of viem answers whether the signature is the swapper's on the typed data, or throws.\<close>

record authorizer =
  au_domain :: domain_config
  au_verifyTypedData :: "domain_config \<Rightarrow> swap_authorization \<Rightarrow> string \<Rightarrow> string + bool"

definition verifyAuthorization ::
  "authorizer \<Rightarrow> signed_authorization \<Rightarrow> sovereign_quote \<Rightarrow> int \<Rightarrow> gasless_error + unit" where
  "verifyAuthorization au authorization quote nowSeconds =
    (let message = sz_message authorization;
         expectedDest = to_lower (coalesce (sq_targetDestinationAddress quote) '''');
         receivedDest = to_lower (sm_destination message)
     in if nowSeconds > sm_deadline message then Inl (SignatureExpired (sm_deadline message) nowSeconds)
        else if sm_quoteId message \<noteq> sq_quoteId quote
        then Inl (AuthorizationParameterMismatch ''quoteId'' (sq_quoteId quote) (sm_quoteId message))
        else if sm_amountSats message \<noteq> sq_amountSats quote
        then Inl (AuthorizationParameterMismatch ''amountSats'' (bigint_text (sq_amountSats quote)) (bigint_text (sm_amountSats message)))
        else if sm_amountUsdcAtomic message \<noteq> sq_netUsdcAtomic quote
        then Inl (AuthorizationParameterMismatch ''amountUsdcAtomic'' (bigint_text (sq_netUsdcAtomic quote))
               (bigint_text (sm_amountUsdcAtomic message)))
        else if receivedDest \<noteq> expectedDest
        then Inl (AuthorizationParameterMismatch ''destination'' expectedDest receivedDest)
        else
          (case au_verifyTypedData au (au_domain au) message (sz_signature authorization) of
             Inl m \<Rightarrow> Inl (InvalidSignature m)
           | Inr False \<Rightarrow> Inl (InvalidSignature ''Signature does not match swapper address or message parameters.'')
           | Inr True \<Rightarrow> Inr ()))"

section \<open>The relayer\<close>

datatype relayer_status = GX_SUBMITTED | GX_CONFIRMED | GX_AMBIGUOUS_TIMEOUT | GX_FAILED

record relayer_row =
  gx_idempotency_key :: string
  gx_status :: relayer_status
  gx_tx_hash :: "string option"
  gx_block_number :: "int option"
  gx_nonce :: int
  gx_swapper :: string
  gx_destination :: string
  gx_amount_usdc_atomic :: int
  gx_amount_sats :: int
  gx_error :: "string option"
  gx_submitted_at_ms :: int
  gx_confirmed_at_ms :: "int option"

text \<open>The result has the fields of the row.\<close>

type_synonym relayer_result = relayer_row

record relay_request =
  rr_authorization :: signed_authorization
  rr_quote :: sovereign_quote
  rr_idempotencyKey :: string

record relay_receipt =
  rt_blockNumber :: int
  rt_success :: bool

record 'w gsys =
  g_abuse :: "abuse_event list"
  g_nonces :: nonce_db
  g_execs :: "relayer_row list"
  g_world :: 'w

text \<open>
  The database steps of a submission and its broadcaster calls, logged. \<open>GlBroadcast\<close> names the quote the
  transaction is sent for, besides what is sent.
\<close>

datatype gl_event =
    GlAdmit string "gasless_error + admission_ticket"
  | GlAuthorize signed_authorization "gasless_error + unit"
  | GlConsume string int string string "gasless_error + unit"
  | GlBroadcast string string "gasless_error + string"
  | GlInsert string "gasless_error + unit"
  | GlWaitReceipt string "gasless_error + relay_receipt"
  | GlProbe string "gasless_error + relay_receipt option"
  | GlMark string admission_status
  | GlRecord string relayer_status

type_synonym ('w, 'a) gcall = "'w gsys \<Rightarrow> (gasless_error + 'a) \<times> 'w gsys"
type_synonym ('w, 'a) gact = "(gasless_error, gl_event, 'w gsys, 'a) action"

record 'w relayer =
  gr_quoteEngine :: "unit quote_engine"
  gr_abuse :: "unit abuse_engine"
  gr_authorizer :: authorizer
  gr_sha :: "string \<Rightarrow> string"
  gr_broadcast :: "string \<Rightarrow> ('w, string) gcall"
  gr_waitForReceipt :: "string \<Rightarrow> ('w, relay_receipt) gcall"
  gr_getReceipt :: "string \<Rightarrow> ('w, relay_receipt option) gcall"
  gr_date :: "'w gsys \<Rightarrow> int"
  gr_uuid :: "'w gsys \<Rightarrow> string"
  gr_others :: "'w gsys \<Rightarrow> 'w gsys"

definition result_of_row :: "relayer_row \<Rightarrow> relayer_result" where
  "result_of_row row = row\<lparr>gx_block_number := truthy_num (gx_block_number row)\<rparr>"

definition submitted_row :: "relay_request \<Rightarrow> string \<Rightarrow> int \<Rightarrow> relayer_row" where
  "submitted_row request txHash nowMs =
    (let message = sz_message (rr_authorization request) in \<lparr>
       gx_idempotency_key = rr_idempotencyKey request, gx_status = GX_SUBMITTED, gx_tx_hash = Some txHash,
       gx_block_number = None, gx_nonce = sm_nonce message, gx_swapper = to_lower (sm_swapper message),
       gx_destination = to_lower (sm_destination message), gx_amount_usdc_atomic = sm_amountUsdcAtomic message,
       gx_amount_sats = sm_amountSats message, gx_error = None, gx_submitted_at_ms = nowMs,
       gx_confirmed_at_ms = None \<rparr>)"

definition confirmed_relay :: "relay_request \<Rightarrow> string \<Rightarrow> int \<Rightarrow> int \<Rightarrow> int \<Rightarrow> relayer_result" where
  "confirmed_relay request txHash block nowMs confirmedAtMs =
    (let message = sz_message (rr_authorization request) in \<lparr>
       gx_idempotency_key = rr_idempotencyKey request, gx_status = GX_CONFIRMED, gx_tx_hash = Some txHash,
       gx_block_number = Some block, gx_nonce = sm_nonce message, gx_swapper = sm_swapper message,
       gx_destination = sm_destination message, gx_amount_usdc_atomic = sm_amountUsdcAtomic message,
       gx_amount_sats = sm_amountSats message, gx_error = None, gx_submitted_at_ms = nowMs,
       gx_confirmed_at_ms = Some confirmedAtMs \<rparr>)"

definition insert_exec :: "relayer_row \<Rightarrow> ('w, unit) gcall" where
  "insert_exec row s =
    (if \<exists>r \<in> set (g_execs s). gx_idempotency_key r = gx_idempotency_key row then (Inl ConstraintFailed, s)
     else (Inr (), s\<lparr>g_execs := g_execs s @ [row]\<rparr>))"

definition update_exec :: "string \<Rightarrow> relayer_status \<Rightarrow> (relayer_row \<Rightarrow> relayer_row) \<Rightarrow> ('w, unit) gact" where
  "update_exec key status f s =
    (Inr (), [GlRecord key status],
     s\<lparr>g_execs := sql_update (\<lambda>r. gx_idempotency_key r = key) (\<lambda>r. f (r\<lparr>gx_status := status\<rparr>)) (g_execs s)\<rparr>)"

definition mark_admission :: "'w relayer \<Rightarrow> string \<Rightarrow> admission_status \<Rightarrow> ('w, unit) gact" where
  "mark_admission rl key status s =
    (Inr (), [GlMark key status], s\<lparr>g_abuse := updateSwapStatus key status (gr_date rl s) (g_abuse s)\<rparr>)"

definition admit_call :: "'w relayer \<Rightarrow> relay_request \<Rightarrow> int \<Rightarrow> ('w, admission_ticket) gcall" where
  "admit_call rl request nowMs s =
    (let message = sz_message (rr_authorization request);
         req = \<lparr> rq_idempotencyKey = rr_idempotencyKey request, rq_walletAddress = sm_swapper message,
           rq_destinationAddress = sm_destination message, rq_quote = rr_quote request, rq_clientIp = None \<rparr>
     in case admitSwap (gr_abuse rl) req nowMs (gr_uuid rl s) (g_abuse s) of
          (Inl e, rows) \<Rightarrow> (Inl (AdmissionRefused e), s\<lparr>g_abuse := rows\<rparr>)
        | (Inr tk, rows) \<Rightarrow> (Inr tk, s\<lparr>g_abuse := rows\<rparr>))"

definition consume_call :: "'w relayer \<Rightarrow> swap_authorization \<Rightarrow> string \<Rightarrow> int \<Rightarrow> ('w, unit) gcall" where
  "consume_call rl message signature nowMs s =
    (case verifyAndConsume (gr_sha rl) (sm_swapper message) (sm_nonce message) (sm_quoteId message) signature nowMs
            (g_nonces s) of
       (r, d) \<Rightarrow> (r, s\<lparr>g_nonces := d\<rparr>))"

text \<open>After the broadcast: record it, wait for the receipt, close the execution.\<close>

definition record_and_wait :: "'w relayer \<Rightarrow> relay_request \<Rightarrow> string \<Rightarrow> int \<Rightarrow> ('w, relayer_result) gact" where
  "record_and_wait rl request txHash nowMs =
    (let key = rr_idempotencyKey request in
     seq (call (GlInsert key) (insert_exec (submitted_row request txHash nowMs)))
     (bnd (call (GlWaitReceipt txHash) (gr_waitForReceipt rl txHash)) (\<lambda>receipt.
      if \<not> rt_success receipt then
        seq (mark_admission rl key AS_CANCELLED)
        (seq (update_exec key GX_FAILED (\<lambda>r. r\<lparr>gx_error := Some ''reverted''\<rparr>))
        (thr (RelayerExecutionReverted txHash)))
      else
        bnd (ask (gr_date rl)) (\<lambda>confirmedAtMs.
        seq (mark_admission rl key AS_COMPLETED)
        (seq (update_exec key GX_CONFIRMED (\<lambda>r. r\<lparr>gx_block_number := Some (rt_blockNumber receipt),
                gx_confirmed_at_ms := Some confirmedAtMs\<rparr>))
        (ret (confirmed_relay request txHash (rt_blockNumber receipt) nowMs confirmedAtMs)))))))"

text \<open>One probe for the receipt; otherwise the outcome is ambiguous, and nothing is retried.\<close>

definition probe_receipt :: "'w relayer \<Rightarrow> relay_request \<Rightarrow> string \<Rightarrow> int \<Rightarrow> ('w, relayer_result option) gact" where
  "probe_receipt rl request txHash nowMs =
    (let key = rr_idempotencyKey request in
     attempt
      (bnd (call (GlProbe txHash) (gr_getReceipt rl txHash)) (\<lambda>probe.
       case probe of
         None \<Rightarrow> ret None
       | Some p \<Rightarrow>
           if rt_success p then
             seq (mark_admission rl key AS_COMPLETED)
             (seq (update_exec key GX_CONFIRMED (\<lambda>r. r\<lparr>gx_block_number := Some (rt_blockNumber p)\<rparr>))
             (bnd (ask (gr_date rl)) (\<lambda>now.
              ret (Some (confirmed_relay request txHash (rt_blockNumber p) nowMs now)))))
           else ret None))
      (\<lambda>_. ret None))"

definition broadcast_failed ::
  "'w relayer \<Rightarrow> relay_request \<Rightarrow> string option \<Rightarrow> int \<Rightarrow> gasless_error \<Rightarrow> ('w, relayer_result) gact" where
  "broadcast_failed rl request txHash nowMs err =
    (let key = rr_idempotencyKey request in
     case err of
       RelayerExecutionReverted h \<Rightarrow> thr err
     | _ \<Rightarrow>
         (case truthy_str txHash of
            Some h \<Rightarrow>
              bnd (probe_receipt rl request h nowMs) (\<lambda>found.
              case found of
                Some x \<Rightarrow> ret x
              | None \<Rightarrow>
                  seq (update_exec key GX_AMBIGUOUS_TIMEOUT (\<lambda>r. r\<lparr>gx_error := Some (gl_message err)\<rparr>))
                  (thr (AmbiguousBroadcast h (gl_message err))))
          | None \<Rightarrow> seq (mark_admission rl key AS_CANCELLED) (thr err)))"

definition broadcast_phase :: "'w relayer \<Rightarrow> relay_request \<Rightarrow> int \<Rightarrow> ('w, relayer_result) gact" where
  "broadcast_phase rl request nowMs =
    (let to = dc_verifyingContract (au_domain (gr_authorizer rl));
         quoteId = sm_quoteId (sz_message (rr_authorization request))
     in bnd (attempt (bnd (call (GlBroadcast quoteId to) (gr_broadcast rl to)) (\<lambda>h. ret (Inr h)))
               (\<lambda>err. bnd (broadcast_failed rl request None nowMs err) (\<lambda>r. ret (Inl r)))) (\<lambda>sent.
        case sent of
          Inl r \<Rightarrow> ret r
        | Inr txHash \<Rightarrow>
            attempt (record_and_wait rl request txHash nowMs) (broadcast_failed rl request (Some txHash) nowMs)))"

definition submitSwap :: "'w relayer \<Rightarrow> relay_request \<Rightarrow> int \<Rightarrow> ('w, relayer_result) gact" where
  "submitSwap rl request nowMs =
    (let message = sz_message (rr_authorization request); signature = sz_signature (rr_authorization request);
         quote = rr_quote request; key = rr_idempotencyKey request
     in bnd (ask (\<lambda>s. sql_get (\<lambda>r. gx_idempotency_key r = key) (g_execs s))) (\<lambda>existing.
        case existing of
          Some row \<Rightarrow> ret (result_of_row row)
        | None \<Rightarrow>
            (case verifyQuote (gr_quoteEngine rl) quote (Some (sm_destination message)) nowMs of
               Some reason \<Rightarrow> thr (InvalidSignature reason)
             | None \<Rightarrow>
                 seq (call (GlAdmit key) (admit_call rl request nowMs))
                 (seq (change (gr_others rl))
                 (seq (call (GlAuthorize (rr_authorization request))
                        (\<lambda>s. (verifyAuthorization (gr_authorizer rl) (rr_authorization request) quote (nowMs div 1000), s)))
                 (seq (change (gr_others rl))
                 (seq (call (GlConsume (sm_swapper message) (sm_nonce message) (sm_quoteId message) signature)
                        (consume_call rl message signature nowMs))
                 (broadcast_phase rl request nowMs))))))))"

end
