(* ===== verification/Gasless_Laws.thy ===== *)
theory Gasless_Laws
  imports Gasless Abuse_Laws
begin

text \<open>
  What the gasless path promises: nonces are consumed in order without gaps, each quote and each signature
  once; a transaction is broadcast only behind admission, authorization and consumption, at most once per
  quote whatever is submitted; and a confirmed execution had a successful receipt.
\<close>

section \<open>Consumed nonces\<close>

definition nonces_of :: "string \<Rightarrow> nonce_db \<Rightarrow> int list" where
  "nonces_of norm d = map cq_nonce (filter (\<lambda>r. cq_swapper_address r = norm) (consumed_quotes d))"

definition nonce_inv :: "nonce_db \<Rightarrow> bool" where
  "nonce_inv d \<longleftrightarrow> keyed cq_quote_id (consumed_quotes d) \<and> keyed cs_signature_hash (consumed_signatures d) \<and>
     (\<forall>norm. 0 \<le> expected_nonce norm d \<and> nonces_of norm d = map int [0..<nat (expected_nonce norm d)])"

lemma expected_after_update:
  "expected_nonce norm' (update_nonces norm n t d) = (if norm' = norm then n + 1 else expected_nonce norm' d)"
proof (cases "nonce_row_of norm d")
  case None
  then show ?thesis
    by (auto simp: update_nonces_def expected_nonce_def nonce_row_of_def sql_get_append split: option.splits)
next
  case (Some row)
  then have row: "sql_get (\<lambda>r. nn_swapper_address r = norm) (swapper_nonces d) = Some row"
    "nn_swapper_address row = norm"
    using sql_get_Some by (fastforce simp: nonce_row_of_def)+
  show ?thesis
  proof (cases "norm' = norm")
    case True
    then show ?thesis using row by (simp add: update_nonces_def expected_nonce_def nonce_row_of_def sql_get_update)
  next
    case False
    let ?g = "sql_get (\<lambda>r. nn_swapper_address r = norm') (swapper_nonces d)"
    have "map_option (\<lambda>r. if nn_swapper_address r = norm then f r else r) ?g = ?g" for f
      using False sql_get_Some [of "\<lambda>r. nn_swapper_address r = norm'"] by (cases ?g) force+
    then show ?thesis using row False
      by (simp add: update_nonces_def expected_nonce_def nonce_row_of_def sql_get_update)
  qed
qed

lemma expected_only_nonces:
  "swapper_nonces d = swapper_nonces d' \<Longrightarrow> expected_nonce norm d = expected_nonce norm d'"
  by (simp add: expected_nonce_def nonce_row_of_def)

lemma consume_cases:
  assumes "verifyAndConsume sha sw n q sg t d = (r, d')"
  obtains (refused) e where "r = Inl e" "d' = d"
    | (consumed) "r = Inr ()" "n = getNextNonce sw d" "\<not> isQuoteConsumed q d"
        "\<forall>x \<in> set (consumed_signatures d). cs_signature_hash x \<noteq> sha (to_lower sg)"
        "d' = (update_nonces (to_lower sw) n t d)\<lparr>
           consumed_quotes := consumed_quotes d @ [\<lparr> cq_quote_id = q, cq_swapper_address = to_lower sw, cq_nonce = n,
             cq_consumed_at = t \<rparr>],
           consumed_signatures := consumed_signatures d @ [\<lparr> cs_signature_hash = sha (to_lower sg), cs_consumed_at = t \<rparr>]\<rparr>"
proof (cases "isQuoteConsumed q d \<or> sql_get (\<lambda>x. cs_signature_hash x = sha (to_lower sg)) (consumed_signatures d) \<noteq> None \<or>
    n \<noteq> getNextNonce sw d")
  case True
  then have "\<exists>e. verifyAndConsume sha sw n q sg t d = (Inl e, d)"
    by (auto simp: verifyAndConsume_def Let_def isQuoteConsumed_def getNextNonce_def)
  with assms refused show ?thesis by auto
next
  case False
  then have "(Inr (), (update_nonces (to_lower sw) n t d)\<lparr>
           consumed_quotes := consumed_quotes d @ [\<lparr> cq_quote_id = q, cq_swapper_address = to_lower sw, cq_nonce = n,
             cq_consumed_at = t \<rparr>],
           consumed_signatures := consumed_signatures d @ [\<lparr> cs_signature_hash = sha (to_lower sg), cs_consumed_at = t \<rparr>]\<rparr>) = (r, d')"
    using assms by (simp add: verifyAndConsume_def isQuoteConsumed_def getNextNonce_def Let_def)
  with False show ?thesis by (intro consumed) (simp_all add: sql_get_None_iff)
qed

lemma consume_inv:
  assumes "nonce_inv d"
  shows "nonce_inv (snd (verifyAndConsume sha sw n q sg t d))"
proof (cases "verifyAndConsume sha sw n q sg t d")
  case (Pair r d')
  then show ?thesis
  proof (cases rule: consume_cases)
    case refused
    then show ?thesis using assms Pair by simp
  next
    case consumed
    let ?norm = "to_lower sw"
    have e: "expected_nonce m d' = (if m = ?norm then n + 1 else expected_nonce m d)" for m
      using expected_after_update [of m ?norm n t d]
      by (subst expected_only_nonces [where d' = "update_nonces ?norm n t d"]) (simp_all add: consumed(5))
    have s: "nonces_of m d' = (if m = ?norm then nonces_of m d @ [n] else nonces_of m d)" for m
      by (simp add: nonces_of_def consumed(5))
    have n: "n = expected_nonce ?norm d" using consumed(2) by (simp add: getNextNonce_def)
    have next0: "map int [0..<nat (k + 1)] = map int [0..<nat k] @ [k]" if "0 \<le> k" for k
      using that by (simp add: nat_add_distrib)
    show ?thesis
      using assms consumed(3,4) next0 [of n] unfolding Pair nonce_inv_def snd_conv e s
      by (auto simp: consumed(5) keyed_append1 n isQuoteConsumed_def sql_get_None_iff)
  qed
qed

section \<open>Histories of the nonce manager\<close>

record consumption =
  cn_swapper :: string
  cn_nonce :: int
  cn_quoteId :: string
  cn_signature :: string
  cn_nowMs :: int

definition consume_step :: "(string \<Rightarrow> string) \<Rightarrow> consumption \<Rightarrow> nonce_db \<Rightarrow> nonce_db" where
  "consume_step sha c d =
    snd (verifyAndConsume sha (cn_swapper c) (cn_nonce c) (cn_quoteId c) (cn_signature c) (cn_nowMs c) d)"

definition nonce_history :: "(string \<Rightarrow> string) \<Rightarrow> consumption list \<Rightarrow> nonce_db" where
  "nonce_history sha cs = fold (consume_step sha) cs empty_nonce_db"

lemma history_inv: "nonce_inv (nonce_history sha cs)"
proof -
  have "nonce_inv d \<Longrightarrow> nonce_inv (fold (consume_step sha) cs d)" for d
    by (induction cs arbitrary: d) (simp_all add: consume_step_def consume_inv)
  then show ?thesis
    by (simp add: nonce_history_def nonce_inv_def empty_nonce_db_def nonces_of_def expected_nonce_def nonce_row_of_def)
qed

text \<open>C23: After any sequence of \<open>verifyAndConsume\<close> calls with any arguments, the nonces consumed for a swapper
  are 0, 1, 2, ... up to the one before \<open>getNextNonce\<close>, in this order and without gap or repetition, whatever
  the case of the address; no quote id and no signature hash is recorded twice.\<close>

theorem nonces_sequential:
  "map cq_nonce (filter (\<lambda>r. cq_swapper_address r = to_lower sw) (consumed_quotes (nonce_history sha cs)))
     = map int [0..<nat (getNextNonce sw (nonce_history sha cs))]
   \<and> distinct (map cq_quote_id (consumed_quotes (nonce_history sha cs)))
   \<and> distinct (map cs_signature_hash (consumed_signatures (nonce_history sha cs)))"
  using history_inv [of sha cs] by (simp add: nonce_inv_def keyed_def nonces_of_def getNextNonce_def)

section \<open>What precedes a broadcast\<close>

fun is_bcast :: "gl_event \<Rightarrow> bool" where
  "is_bcast (GlBroadcast q to r) = True" | "is_bcast _ = False"

fun sent_as :: "string \<Rightarrow> gl_event \<Rightarrow> bool" where
  "sent_as h (GlBroadcast q to (Inr h')) \<longleftrightarrow> h' = h" | "sent_as h _ = False"

fun is_admitted :: "string \<Rightarrow> gl_event \<Rightarrow> bool" where
  "is_admitted key (GlAdmit k (Inr t)) \<longleftrightarrow> k = key" | "is_admitted key _ = False"

fun is_consumed :: "swap_authorization \<Rightarrow> string \<Rightarrow> gl_event \<Rightarrow> bool" where
  "is_consumed m sig (GlConsume sw n q sg (Inr u)) \<longleftrightarrow> sw = sm_swapper m \<and> n = sm_nonce m \<and> q = sm_quoteId m \<and> sg = sig"
| "is_consumed m sig _ = False"

fun receipt_ok :: "string \<Rightarrow> gl_event \<Rightarrow> bool" where
  "receipt_ok h (GlWaitReceipt h' (Inr r)) \<longleftrightarrow> h' = h \<and> rt_success r"
| "receipt_ok h (GlProbe h' (Inr (Some r))) \<longleftrightarrow> h' = h \<and> rt_success r"
| "receipt_ok h _ = False"

fun closes_well :: "gl_event \<Rightarrow> bool" where
  "closes_well (GlRecord k st) \<longleftrightarrow> st = GX_CONFIRMED"
| "closes_well (GlMark k st) \<longleftrightarrow> st = AS_COMPLETED"
| "closes_well _ \<longleftrightarrow> False"

definition checked :: "'w relayer \<Rightarrow> relay_request \<Rightarrow> int \<Rightarrow> gl_event list \<Rightarrow> bool" where
  "checked rl request nowMs h \<longleftrightarrow>
     verifyQuote (gr_quoteEngine rl) (rr_quote request) (Some (sm_destination (sz_message (rr_authorization request)))) nowMs = None \<and>
     verifyAuthorization (gr_authorizer rl) (rr_authorization request) (rr_quote request) (nowMs div 1000) = Inr () \<and>
     seen (is_admitted (rr_idempotencyKey request)) h \<and>
     seen (is_consumed (sz_message (rr_authorization request)) (sz_signature (rr_authorization request))) h"

definition relay_guard :: "'w relayer \<Rightarrow> relay_request \<Rightarrow> int \<Rightarrow> gl_event list \<Rightarrow> gl_event \<Rightarrow> bool" where
  "relay_guard rl request nowMs h e \<longleftrightarrow>
     (\<forall>q to r. e = GlBroadcast q to r \<longrightarrow> q = sm_quoteId (sz_message (rr_authorization request)) \<and>
        \<not> seen is_bcast h \<and> checked rl request nowMs h) \<and>
     (closes_well e \<longrightarrow> (\<exists>tx. seen (sent_as tx) h \<and> seen (receipt_ok tx) h))"

lemma relay_guard_other:
  "relay_guard rl request nowMs h (GlAdmit k r1)" "relay_guard rl request nowMs h (GlAuthorize a r2)"
  "relay_guard rl request nowMs h (GlConsume sw n q sg r2)" "relay_guard rl request nowMs h (GlInsert k r2)"
  "relay_guard rl request nowMs h (GlWaitReceipt tx r3)" "relay_guard rl request nowMs h (GlProbe tx r4)"
  "st \<noteq> GX_CONFIRMED \<Longrightarrow> relay_guard rl request nowMs h (GlRecord k st)"
  "as \<noteq> AS_COMPLETED \<Longrightarrow> relay_guard rl request nowMs h (GlMark k as)"
  by (simp_all add: relay_guard_def)

lemma relay_guard_close:
  "seen (sent_as tx) h \<Longrightarrow> seen (receipt_ok tx) h \<Longrightarrow> closes_well e \<Longrightarrow> relay_guard rl request nowMs h e"
  by (auto simp: relay_guard_def)

lemma wp_update_exec [wp_rules]:
  "J h (GlRecord k st) \<Longrightarrow> Q () (h @ [GlRecord k st]) \<Longrightarrow> wp J (update_exec k st f) Q E h"
  by (rule wpI) (auto simp: update_exec_def)

lemma wp_mark_admission [wp_rules]:
  "J h (GlMark k st) \<Longrightarrow> Q () (h @ [GlMark k st]) \<Longrightarrow> wp J (mark_admission rl k st) Q E h"
  by (rule wpI) (auto simp: mark_admission_def)

text \<open>A call whose result does not depend on the state.\<close>

lemma wp_pure_call:
  "J h (ev v) \<Longrightarrow> (\<And>x. v = Inr x \<Longrightarrow> Q x (h @ [ev v])) \<Longrightarrow> (\<And>e. v = Inl e \<Longrightarrow> E e (h @ [ev v])) \<Longrightarrow>
   wp J (call ev (\<lambda>s. (v, s))) Q E h"
  by (rule wpI) (auto simp: call_def split: sum.split)

text \<open>What a submission returns that did not find a stored execution.\<close>

definition relay_confirmed :: "relayer_result \<Rightarrow> gl_event list \<Rightarrow> bool" where
  "relay_confirmed x h \<longleftrightarrow> gx_status x = GX_CONFIRMED \<and>
     (\<exists>tx. gx_tx_hash x = Some tx \<and> seen (sent_as tx) h \<and> seen (receipt_ok tx) h)"

lemma wp_record_and_wait:
  assumes "seen (sent_as tx) h"
  shows "wp (relay_guard rl request now) (record_and_wait rl request tx now') relay_confirmed (\<lambda>_ h. seen (sent_as tx) h) h"
  unfolding record_and_wait_def Let_def
  by (intro wp_rules TrueI) (auto simp: assms relay_guard_other relay_confirmed_def confirmed_relay_def Let_def intro: relay_guard_close [of tx])

lemma wp_probe_receipt:
  assumes "seen (sent_as tx) h"
  shows "wp (relay_guard rl request now) (probe_receipt rl request tx now') (\<lambda>x h. \<forall>y. x = Some y \<longrightarrow> relay_confirmed y h) (\<lambda>_ _. True) h"
  unfolding probe_receipt_def Let_def
  by (intro wp_rules TrueI) (auto simp: assms relay_guard_other relay_confirmed_def confirmed_relay_def Let_def intro: relay_guard_close [of tx])

lemma wp_broadcast_failed:
  assumes "\<And>tx. txHash = Some tx \<Longrightarrow> seen (sent_as tx) h"
  shows "wp (relay_guard rl request now) (broadcast_failed rl request txHash now' err) relay_confirmed (\<lambda>_ _. True) h"
proof -
  have s: "seen (sent_as tx) h" if "truthy_str txHash = Some tx" for tx
    using assms that by (auto simp: truthy_str_def split: option.splits if_splits)
  have "wp (relay_guard rl request now)
      (case truthy_str txHash of
         Some h \<Rightarrow> bnd (probe_receipt rl request h now') (\<lambda>found. case found of Some x \<Rightarrow> ret x
           | None \<Rightarrow> seq (update_exec (rr_idempotencyKey request) GX_AMBIGUOUS_TIMEOUT (\<lambda>r. r\<lparr>gx_error := Some (gl_message err)\<rparr>))
               (thr (AmbiguousBroadcast h (gl_message err))))
       | None \<Rightarrow> seq (mark_admission rl (rr_idempotencyKey request) AS_CANCELLED) (thr err)) relay_confirmed (\<lambda>_ _. True) h"
    by (intro wp_rules wp_post [OF wp_probe_receipt [OF s]] TrueI) (auto intro!: wp_rules simp: relay_guard_other split: option.split)
  moreover have "wp (relay_guard rl request now) (thr err) relay_confirmed (\<lambda>_ _. True) h" by (intro wp_rules TrueI)
  ultimately show ?thesis unfolding broadcast_failed_def Let_def by (cases err) simp_all
qed

lemma wp_broadcast_phase:
  assumes "checked rl request now h" "\<not> seen is_bcast h"
  shows "wp (relay_guard rl request now) (broadcast_phase rl request now) relay_confirmed (\<lambda>_ _. True) h"
  unfolding broadcast_phase_def Let_def
  by (intro wp_rules wp_post [OF wp_broadcast_failed] TrueI)
    (auto simp: relay_guard_def assms intro!: wp_rules wp_post [OF wp_record_and_wait] wp_broadcast_failed)

text \<open>Everything after the look-up of the idempotency key.\<close>

definition submit_fresh :: "'w relayer \<Rightarrow> relay_request \<Rightarrow> int \<Rightarrow> ('w, relayer_result) gact" where
  "submit_fresh rl request nowMs =
    (let message = sz_message (rr_authorization request); signature = sz_signature (rr_authorization request);
         quote = rr_quote request; key = rr_idempotencyKey request
     in case verifyQuote (gr_quoteEngine rl) quote (Some (sm_destination message)) nowMs of
          Some reason \<Rightarrow> thr (InvalidSignature reason)
        | None \<Rightarrow>
            seq (call (GlAdmit key) (admit_call rl request nowMs))
            (seq (change (gr_others rl))
            (seq (call (GlAuthorize (rr_authorization request))
                   (\<lambda>s. (verifyAuthorization (gr_authorizer rl) (rr_authorization request) quote (nowMs div 1000), s)))
            (seq (change (gr_others rl))
            (seq (call (GlConsume (sm_swapper message) (sm_nonce message) (sm_quoteId message) signature)
                   (consume_call rl message signature nowMs))
            (broadcast_phase rl request nowMs))))))"

lemma submitSwap_split:
  "submitSwap rl request now =
    bnd (ask (\<lambda>s. sql_get (\<lambda>r. gx_idempotency_key r = rr_idempotencyKey request) (g_execs s)))
      (\<lambda>existing. case existing of Some row \<Rightarrow> ret (result_of_row row) | None \<Rightarrow> submit_fresh rl request now)"
  unfolding submitSwap_def submit_fresh_def Let_def ..

lemma wp_submit_fresh:
  "wp (relay_guard rl request now) (submit_fresh rl request now) relay_confirmed (\<lambda>_ _. True) []"
  unfolding submit_fresh_def Let_def
  by (intro wp_rules wp_pure_call wp_broadcast_phase TrueI)
    (simp_all add: relay_guard_other checked_def)

lemma wp_submitSwap: "wp (relay_guard rl request now) (submitSwap rl request now) (\<lambda>_ _. True) (\<lambda>_ _. True) []"
  unfolding submitSwap_split by (intro wp_rules wp_post [OF wp_submit_fresh] TrueI)

text \<open>Without a stored execution of the key, a returned result is confirmed on chain.\<close>

lemma fresh_submission:
  assumes "sql_get (\<lambda>r. gx_idempotency_key r = rr_idempotencyKey request) (g_execs s) = None"
  shows "submitSwap rl request now s = submit_fresh rl request now s"
  by (simp add: submitSwap_split bnd_ask assms)

lemma only_broadcast:
  assumes "trace (submitSwap rl request now) s = pre @ GlBroadcast q to r # post"
  shows "\<not> seen is_bcast (pre @ post)"
proof -
  have "allowed (relay_guard rl request now) [] (pre @ GlBroadcast q to r # post)"
    using wp_trace [OF wp_submitSwap, of rl request now s] assms by simp
  then have "\<not> is_bcast x" if "x \<in> set pre \<or> x \<in> set post" for x
    by (rule allowed_once [where M = is_bcast, OF _ _ _ that]) (auto simp: relay_guard_def elim!: is_bcast.elims)
  then show ?thesis by (auto simp: seen_def)
qed

text \<open>A submission broadcasts at most one transaction, and only when the quote's signature, expiry and
  destination verify, the typed-data authorization verifies against the quote, and before it the admission
  of this key was granted and nonce, quote and signature of exactly this authorization were consumed, whatever
  other requests and processes do meanwhile.\<close>

theorem broadcast_fully_checked:
  assumes "trace (submitSwap rl request now) s = pre @ GlBroadcast q to r # post"
  shows "q = sm_quoteId (sz_message (rr_authorization request)) \<and>
    verifyQuote (gr_quoteEngine rl) (rr_quote request) (Some (sm_destination (sz_message (rr_authorization request)))) now = None \<and>
    verifyAuthorization (gr_authorizer rl) (rr_authorization request) (rr_quote request) (now div 1000) = Inr () \<and>
    seen (is_admitted (rr_idempotencyKey request)) pre \<and>
    seen (is_consumed (sz_message (rr_authorization request)) (sz_signature (rr_authorization request))) pre \<and>
    \<not> seen is_bcast (pre @ post)"
  using wp_at [OF wp_submitSwap assms] only_broadcast [OF assms] by (simp add: relay_guard_def checked_def)

text \<open>An execution row is set to CONFIRMED and an admission to COMPLETED only after the transaction of this
  submission was broadcast and a receipt of that transaction reported success.\<close>

theorem confirmed_needs_receipt:
  assumes "trace (submitSwap rl request now) s = pre @ e # post"
    "e = GlRecord key GX_CONFIRMED \<or> e = GlMark key AS_COMPLETED"
  shows "\<exists>tx. seen (sent_as tx) pre \<and> seen (receipt_ok tx) pre"
  using wp_at [OF wp_submitSwap assms(1)] assms(2) by (auto simp: relay_guard_def)

section \<open>One broadcast per quote\<close>

text \<open>A consumed quote stays consumed, whatever others do.\<close>

definition keeps_consumed :: "('w gsys \<Rightarrow> 'w gsys) \<Rightarrow> bool" where
  "keeps_consumed f \<longleftrightarrow> (\<forall>q s. isQuoteConsumed q (g_nonces s) \<longrightarrow> isQuoteConsumed q (g_nonces (f s)))"

definition others_keep_consumed :: "'w relayer \<Rightarrow> bool" where
  "others_keep_consumed rl \<longleftrightarrow> keeps_consumed (gr_others rl) \<and> (\<forall>to. keeps_consumed (snd \<circ> gr_broadcast rl to)) \<and>
     (\<forall>tx. keeps_consumed (snd \<circ> gr_waitForReceipt rl tx)) \<and> (\<forall>tx. keeps_consumed (snd \<circ> gr_getReceipt rl tx))"

definition spent :: "string \<Rightarrow> 'w gsys \<Rightarrow> int" where
  "spent q s = (if isQuoteConsumed q (g_nonces s) then 1 else 0)"

fun spends :: "string \<Rightarrow> gl_event \<Rightarrow> int" where
  "spends q (GlConsume sw n q' sg (Inr u)) = (if q' = q then 1 else 0)" | "spends q _ = 0"

lemma spent_keeps: "keeps_consumed f \<Longrightarrow> spent q s \<le> spent q (f s)"
  by (auto simp: spent_def keeps_consumed_def)

lemma spent_same: "g_nonces s' = g_nonces s \<Longrightarrow> spent q s' = spent q s"
  by (simp add: spent_def)

lemma weighs_consume:
  "weighs (spends q) (spent q) (call (GlConsume (sm_swapper m) (sm_nonce m) (sm_quoteId m) sg) (consume_call rl m sg t))"
proof (rule weighs_call)
  fix s :: "'a gsys"
  obtain r d where v: "verifyAndConsume (gr_sha rl) (sm_swapper m) (sm_nonce m) (sm_quoteId m) sg t (g_nonces s) = (r, d)"
    by fastforce
  have "isQuoteConsumed q d \<longleftrightarrow> isQuoteConsumed q (g_nonces s) \<or> is_ok r \<and> sm_quoteId m = q"
    "is_ok r \<Longrightarrow> \<not> isQuoteConsumed (sm_quoteId m) (g_nonces s)"
    using v by (cases rule: consume_cases; auto simp: isQuoteConsumed_def sql_get_append split: option.splits)+
  then show "spent q s + spends q (GlConsume (sm_swapper m) (sm_nonce m) (sm_quoteId m) sg (fst (consume_call rl m sg t s)))
      \<le> spent q (snd (consume_call rl m sg t s))"
    by (cases r) (auto simp: consume_call_def v spent_def)
qed

lemma weighs_admit: "weighs (spends q) (spent q) (call (GlAdmit k) (admit_call rl request t))"
  by (rule weighs_call) (auto simp: admit_call_def spent_def Let_def split: prod.split sum.split)

lemma weighs_steps [grows_rules]:
  "weighs (spends q) (spent q) (update_exec k st f)"
  "weighs (spends q) (spent q) (mark_admission rl k as)"
  "weighs (spends q) (spent q) (call (GlInsert k) (insert_exec row))"
  "weighs (spends q) (spent q) (call (GlAuthorize a) (\<lambda>s. (v, s)))"
  by (auto simp: weighs_def update_exec_def mark_admission_def call_def insert_exec_def spent_def split: if_splits)

lemma weighs_keeping_call:
  assumes "keeps_consumed (snd \<circ> c)" "\<And>r. spends q (ev r) = 0"
  shows "weighs (spends q) (spent q) (call ev c)"
  by (rule weighs_call) (use spent_keeps [OF assms(1)] assms(2) in simp)

lemma weighs_broadcaster:
  assumes "others_keep_consumed rl"
  shows "weighs (spends q) (spent q) (call (GlBroadcast q' to) (gr_broadcast rl to))"
    "weighs (spends q) (spent q) (call (GlWaitReceipt tx) (gr_waitForReceipt rl tx))"
    "weighs (spends q) (spent q) (call (GlProbe tx) (gr_getReceipt rl tx))"
    "weighs (spends q) (spent q) (change (gr_others rl))"
  using assms unfolding others_keep_consumed_def
  by (simp_all add: weighs_keeping_call weighs_change spent_keeps)

lemma weighs_broadcast_failed:
  assumes "others_keep_consumed rl"
  shows "weighs (spends q) (spent q) (broadcast_failed rl request tx t err)"
proof -
  have "weighs (spends q) (spent q) (probe_receipt rl request h t)" for h
    unfolding probe_receipt_def Let_def by (intro grows_rules weighs_broadcaster [OF assms])
  then show ?thesis
    unfolding broadcast_failed_def Let_def by (cases err) (simp_all, (intro grows_rules; assumption)+)
qed

lemma weighs_submitSwap:
  assumes "others_keep_consumed rl"
  shows "weighs (spends q) (spent q) (submitSwap rl request t)"
proof -
  have r: "weighs (spends q) (spent q) (record_and_wait rl request h t)" for h
    unfolding record_and_wait_def Let_def by (intro grows_rules weighs_broadcaster [OF assms])
  have "weighs (spends q) (spent q) (broadcast_phase rl request t)"
    unfolding broadcast_phase_def Let_def
    by (intro grows_rules weighs_broadcaster [OF assms] weighs_broadcast_failed [OF assms] r)
  then show ?thesis
    unfolding submitSwap_def Let_def
    by (intro grows_rules weighs_broadcaster [OF assms] weighs_admit weighs_consume)
qed

text \<open>Submissions one after the other, with anything else in between and within them.\<close>

fun submit_all :: "'w relayer \<Rightarrow> (relay_request \<times> int) list \<Rightarrow> 'w gsys \<Rightarrow> gl_event list \<times> 'w gsys" where
  "submit_all rl [] s = ([], s)"
| "submit_all rl ((request, now) # rest) s =
    (case submitSwap rl request now s of (r, t, s') \<Rightarrow>
     case submit_all rl rest (gr_others rl s') of (t', s'') \<Rightarrow> (t @ t', s''))"

fun bcast_of :: "string \<Rightarrow> gl_event \<Rightarrow> bool" where
  "bcast_of q (GlBroadcast q' to r) \<longleftrightarrow> q' = q" | "bcast_of q _ = False"

lemma bcast_of_is_bcast: "bcast_of q e \<Longrightarrow> is_bcast e"
  by (cases e) simp_all

lemma spends_nonneg: "0 \<le> spends q e"
  by (induction q e rule: spends.induct) simp_all

lemma total_spends_nonneg [simp]: "0 \<le> sum_list (map (spends q) t)"
  by (rule sum_list_nonneg) (auto simp: spends_nonneg)

lemma consumed_spends: "seen (is_consumed m sig) t \<Longrightarrow> sm_quoteId m = q \<Longrightarrow> 1 \<le> sum_list (map (spends q) t)"
proof (induction t)
  case (Cons e t)
  have "1 \<le> spends q e" if "is_consumed m sig e"
    using that Cons.prems(2) by (cases "(m, sig, e)" rule: is_consumed.cases) simp_all
  then show ?case using Cons spends_nonneg [of q e] total_spends_nonneg [of q t] by (fastforce simp del: total_spends_nonneg)
qed simp

lemma bcasts_le_spends:
  assumes "submitSwap rl request now s = (r, t, s')"
  shows "int (length (filter (bcast_of q) t)) \<le> sum_list (map (spends q) t)"
proof (cases "seen (bcast_of q) t")
  case False
  then have "filter (bcast_of q) t = []" by (auto simp: seen_def filter_empty_conv)
  then show ?thesis by simp
next
  case True
  then obtain e where e: "e \<in> set t" "bcast_of q e" by (auto simp: seen_def)
  obtain to x where ev: "e = GlBroadcast q to x" using e(2) by (cases e) auto
  obtain pre post where t: "t = pre @ GlBroadcast q to x # post" using e(1) ev by (metis split_list)
  have tr: "trace (submitSwap rl request now) s = pre @ GlBroadcast q to x # post" using assms t by (simp add: trace_def)
  have g: "relay_guard rl request now pre (GlBroadcast q to x)" by (rule wp_at [OF wp_submitSwap tr])
  have "1 \<le> sum_list (map (spends q) pre)"
    using g by (intro consumed_spends) (auto simp: relay_guard_def checked_def)
  moreover have "0 \<le> sum_list (map (spends q) post)" by simp
  moreover have "filter (bcast_of q) (pre @ post) = []"
    using only_broadcast [OF tr] bcast_of_is_bcast by (fastforce simp: seen_def filter_empty_conv)
  ultimately show ?thesis by (simp add: t del: total_spends_nonneg)
qed

text \<open>C10: Over any sequence of submissions, valid or forged, repeated or concurrent, at most one transaction is
  broadcast per quote, as long as the broadcaster and the other processes never delete a consumed quote.\<close>

theorem one_broadcast_per_quote:
  assumes "others_keep_consumed rl"
  shows "length (filter (bcast_of q) (fst (submit_all rl requests s))) \<le> 1"
proof -
  have "spent q s + int (length (filter (bcast_of q) (fst (submit_all rl requests s)))) \<le> spent q (snd (submit_all rl requests s))"
  proof (induction requests arbitrary: s)
    case (Cons a rest)
    obtain request now where a: "a = (request, now)" by fastforce
    obtain r t s' where x: "submitSwap rl request now s = (r, t, s')" by (metis prod_cases3)
    have o: "spent q s' \<le> spent q (gr_others rl s')" using assms by (simp add: others_keep_consumed_def spent_keeps)
    obtain t' s'' where y: "submit_all rl rest (gr_others rl s') = (t', s'')" by fastforce
    show ?case
      using Cons [of "gr_others rl s'"] o bcasts_le_spends [OF x, of q] weighsD [OF weighs_submitSwap [OF assms] x, of q]
      by (simp add: a x y)
  qed simp
  then show ?thesis by (simp add: spent_def split: if_splits)
qed

section \<open>Witnesses\<close>

definition demo_relayer :: "'w relayer" where
  "demo_relayer = \<lparr> gr_quoteEngine = demo_engine, gr_abuse = demo_limits,
     gr_authorizer = \<lparr> au_domain = \<lparr> dc_name = ''n'', dc_version = ''1'', dc_chainId = 8453, dc_verifyingContract = ''0xc'' \<rparr>,
       au_verifyTypedData = (\<lambda>dom m sig. Inr (sig = ''0xsig'' \<and> sm_swapper m = ''0xa'')) \<rparr>,
     gr_sha = id, gr_broadcast = (\<lambda>to s. (Inr ''0xh'', s)),
     gr_waitForReceipt = (\<lambda>tx s. (Inr \<lparr> rt_blockNumber = 7, rt_success = True \<rparr>, s)),
     gr_getReceipt = (\<lambda>tx s. (Inr None, s)), gr_date = (\<lambda>s. 8), gr_uuid = (\<lambda>s. ''u''), gr_others = id \<rparr>"

definition demo_relay :: "string \<Rightarrow> relay_request" where
  "demo_relay key = \<lparr> rr_authorization = \<lparr> sz_message = \<lparr> sm_swapper = ''0xa'', sm_destination = ''0xd'',
       sm_amountUsdcAtomic = 98, sm_amountSats = 100, sm_quoteId = ''q'', sm_nonce = 0, sm_deadline = 1 \<rparr>,
       sz_signature = ''0xsig'' \<rparr>, rr_quote = demo_terms, rr_idempotencyKey = key \<rparr>"

definition demo_gsys :: "unit gsys" where
  "demo_gsys = \<lparr> g_abuse = [], g_nonces = empty_nonce_db, g_execs = [], g_world = () \<rparr>"

abbreviation demo_relayed :: "gl_event list" where
  "demo_relayed \<equiv> trace (submitSwap demo_relayer (demo_relay ''k'') 6) demo_gsys"

lemma demo_broadcast: "demo_relayed = take 3 demo_relayed @ GlBroadcast ''q'' ''0xc'' (Inr ''0xh'') # drop 4 demo_relayed"
  by code_simp

lemma demo_confirmed: "demo_relayed = take 7 demo_relayed @ GlRecord ''k'' GX_CONFIRMED # []"
  by code_simp

theorem broadcast_fully_checked_witness:
  "verifyAuthorization (gr_authorizer (demo_relayer :: unit relayer)) (rr_authorization (demo_relay ''k'')) demo_terms 0 = Inr ()
   \<and> seen (is_admitted ''k'') (take 3 demo_relayed) \<and> \<not> seen is_bcast (take 3 demo_relayed @ drop 4 demo_relayed)"
  using broadcast_fully_checked [OF demo_broadcast] by (simp add: demo_relay_def)

theorem confirmed_needs_receipt_witness:
  "\<exists>tx. seen (sent_as tx) (take 7 demo_relayed) \<and> seen (receipt_ok tx) (take 7 demo_relayed)"
  by (rule confirmed_needs_receipt [OF demo_confirmed]) simp

theorem one_broadcast_per_quote_witness:
  "length (filter (bcast_of ''q'') (fst (submit_all demo_relayer [(demo_relay ''k'', 6), (demo_relay ''l'', 9)] demo_gsys))) \<le> 1"
  by (rule one_broadcast_per_quote) (simp add: others_keep_consumed_def keeps_consumed_def demo_relayer_def)

end
