(* ===== verification/Swap_Api.thy ===== *)
theory Swap_Api
  imports Coord_Ops Gasless
begin

text \<open>
  The unified swap interface: \<open>SwapOrchestrator\<close> (\<open>src/src/api/orchestrator.ts\<close>), which hands an authorized
  swap from the gasless relayer to the atomic coordinator, and the routes and error codes of the HTTP server
  (\<open>src/src/api/server.ts\<close>) over it.

  The state is the state of the gasless path, whose world is the system of the coordinator. Amounts that the code divides by a million
  for display stay in atomic units; the price of the health answer stays in micro dollars.
\<close>

section \<open>Errors, events, state\<close>

datatype api_error =
    ApiPricing pricing_error
  | ApiGasless gasless_error
  | ApiCore cerr
  | ApiRequest string
  | ApiTooLarge
  | ApiPending

datatype api_event =
    Feed price_event
  | Relay gl_event
  | Core event

type_synonym 'w api_state = "'w sys gsys"
type_synonym ('w, 'a) api_act = "(api_error, api_event, 'w api_state, 'a) action"

record 'w swap_orchestrator =
  so_quoteEngine :: "'w api_state quote_engine"
  so_relayer :: "'w sys relayer"
  so_backend :: "'w backend"
  so_coordinator :: coordinator
  so_date :: "'w api_state \<Rightarrow> int"
  so_randomHex :: "'w api_state \<Rightarrow> string"

definition on_relay :: "('w sys, 'a) gact \<Rightarrow> ('w, 'a) api_act" where
  "on_relay = within ApiGasless Relay (\<lambda>s. s) (\<lambda>x s. x)"

definition on_core :: "('w, 'a) act \<Rightarrow> ('w, 'a) api_act" where
  "on_core = within ApiCore Core g_world (\<lambda>x s. s\<lparr>g_world := x\<rparr>)"

definition on_feed :: "(pricing_error, price_event, 'w api_state, 'a) action \<Rightarrow> ('w, 'a) api_act" where
  "on_feed = within ApiPricing Feed (\<lambda>s. s) (\<lambda>x s. x)"

section \<open>The orchestrator\<close>

record health_response =
  he_healthy :: bool
  he_timestamp :: int
  he_btcPriceMicroUsd :: int
  he_activePriceFeeds :: nat
  he_chainId :: int

definition getHealth :: "'w swap_orchestrator \<Rightarrow> int \<Rightarrow> ('w, health_response) api_act" where
  "getHealth so nowMs =
    (let chain = dc_chainId (au_domain (gr_authorizer (so_relayer so))) in
     attempt
      (bnd (on_feed (getAuthoritativePrice (qe_aggregator (so_quoteEngine so)) nowMs)) (\<lambda>(price, samples).
       bnd (ask (so_date so)) (\<lambda>now.
       ret \<lparr> he_healthy = True, he_timestamp = now, he_btcPriceMicroUsd = price,
             he_activePriceFeeds = length samples, he_chainId = chain \<rparr>)))
      (\<lambda>_. bnd (ask (so_date so)) (\<lambda>now.
       ret \<lparr> he_healthy = False, he_timestamp = now, he_btcPriceMicroUsd = 0, he_activePriceFeeds = 0, he_chainId = chain \<rparr>)))"

definition api_getQuote :: "'w swap_orchestrator \<Rightarrow> int \<Rightarrow> string option \<Rightarrow> int \<Rightarrow> ('w, sovereign_quote) api_act" where
  "api_getQuote so amountSats target nowMs =
    on_feed (createQuote (so_quoteEngine so) (so_randomHex so) amountSats target nowMs)"

record limits_response =
  lr_walletAddress :: string
  lr_isCooldownActive :: bool
  lr_remainingCooldownMs :: int
  lr_rolling24hUsed :: int
  lr_remaining24h :: int
  lr_maxSingleSwap :: int

definition getLimits :: "'w swap_orchestrator \<Rightarrow> string \<Rightarrow> int \<Rightarrow> 'w api_state \<Rightarrow> limits_response" where
  "getLimits so walletAddress nowMs s =
    (let policy = en_policy (gr_abuse (so_relayer so)); status = getWalletStatus policy walletAddress nowMs (g_abuse s)
     in \<lparr> lr_walletAddress = to_lower walletAddress, lr_isCooldownActive = ws_isCooldownActive status,
          lr_remainingCooldownMs = ws_cooldownRemainingSeconds status * 1000, lr_rolling24hUsed = ws_used status,
          lr_remaining24h = ws_remainingBudget status, lr_maxSingleSwap = aa_maxSingleSwap policy \<rparr>)"

record submit_response =
  sr_idempotencyKey :: string
  sr_swapId :: string
  sr_status :: swap_state
  sr_paymentRequest :: string
  sr_hashLock :: string
  sr_amountSats :: string
  sr_expiresAt :: int
  sr_claimingAddress :: string
  sr_targetDestinationAddress :: string
  sr_expectedUsdcAmount :: string
  sr_relayerStatus :: relayer_status
  sr_relayerTxHash :: "string option"
  sr_relayerBlockNumber :: "string option"

text \<open>The hash lock handed to the coordinator is the hash of a text that both sides know.\<close>

definition swap_text :: "string \<Rightarrow> string \<Rightarrow> string" where
  "swap_text key quoteId = ''SOVROUTE-SWAP:'' @ key @ '':'' @ quoteId"

definition handoff_params :: "'w swap_orchestrator \<Rightarrow> relay_request \<Rightarrow> prepare_params" where
  "handoff_params so request =
    (let message = sz_message (rr_authorization request); key = rr_idempotencyKey request in \<lparr>
       pp_idempotencyKey = key,
       pp_hashLock = ''0x'' @ co_sha256text (so_coordinator so) (swap_text key (sm_quoteId message)),
       pp_claimingAddress = sm_destination message, pp_targetDestinationAddress = sm_destination message,
       pp_amountSats = sm_amountSats message, pp_expectedUsdcAmount = sm_amountUsdcAtomic message,
       pp_cltvExpiryBlocks = None, pp_timelockSeconds = None \<rparr>)"

definition submit_answer :: "string \<Rightarrow> relayer_result \<Rightarrow> swap_rec \<Rightarrow> submit_response" where
  "submit_answer key rr x = \<lparr>
     sr_idempotencyKey = key, sr_swapId = r_id x, sr_status = r_state x,
     sr_paymentRequest = (case r_holdInvoice x of Some i \<Rightarrow> hi_bolt11 i | None \<Rightarrow> ''''),
     sr_hashLock = r_hashLock x, sr_amountSats = bigint_text (r_amountSats x),
     sr_expiresAt = (case r_holdInvoice x of Some i \<Rightarrow> coalesce (hi_expiryHeight i) 0 | None \<Rightarrow> 0),
     sr_claimingAddress = r_claimingAddress x, sr_targetDestinationAddress = r_targetDestinationAddress x,
     sr_expectedUsdcAmount = bigint_text (r_expectedUsdcAmount x), sr_relayerStatus = gx_status rr,
     sr_relayerTxHash = gx_tx_hash rr, sr_relayerBlockNumber = map_option bigint_text (gx_block_number rr) \<rparr>"

definition submitGaslessSwap :: "'w swap_orchestrator \<Rightarrow> relay_request \<Rightarrow> int \<Rightarrow> ('w, submit_response) api_act" where
  "submitGaslessSwap so request nowMs =
    bnd (on_relay (submitSwap (so_relayer so) request nowMs)) (\<lambda>relayerResult.
    bnd (on_core (prepareSwap (so_backend so) (so_coordinator so) (handoff_params so request))) (\<lambda>x.
    ret (submit_answer (rr_idempotencyKey request) relayerResult x)))"

record status_response =
  st_idempotencyKey :: string
  st_swapId :: string
  st_state :: swap_state
  st_amountSats :: string
  st_expectedUsdcAmount :: string
  st_claimingAddress :: string
  st_targetDestinationAddress :: string
  st_paymentRequest :: "string option"
  st_createdAt :: int

definition getSwapStatus :: "string \<Rightarrow> 'w api_state \<Rightarrow> status_response option" where
  "getSwapStatus key s =
    map_option (\<lambda>x. \<lparr> st_idempotencyKey = r_idempotencyKey x, st_swapId = r_id x, st_state = r_state x,
        st_amountSats = bigint_text (r_amountSats x), st_expectedUsdcAmount = bigint_text (r_expectedUsdcAmount x),
        st_claimingAddress = r_claimingAddress x, st_targetDestinationAddress = r_targetDestinationAddress x,
        st_paymentRequest = map_option hi_bolt11 (r_holdInvoice x),
        st_createdAt = r_createdAt x \<rparr>)
      (getSovereignSwapByIdempotencyKey key (s_db (g_world s)))"

section \<open>The HTTP server\<close>

text \<open>
  The \<open>data\<close>, \<open>end\<close> and \<open>error\<close> events of a request stream, in the order in which they arrive; a chunk is its bytes.
\<close>

datatype body_event = Chunk string | BodyEnd | BodyError string

text \<open>
  A parsed body. A field is \<open>None\<close> when it is missing or falsy, and the amount is the integer \<open>BigInt\<close> reads from it, or the
  message it throws.
\<close>

record api_body =
  ab_amountSats :: "(string + int) option"
  ab_targetDestinationAddress :: "string option"
  ab_authorization :: "signed_authorization option"
  ab_quote :: "sovereign_quote option"
  ab_idempotencyKey :: "string option"

definition empty_body :: api_body where
  "empty_body = \<lparr> ab_amountSats = None, ab_targetDestinationAddress = None, ab_authorization = None, ab_quote = None,
     ab_idempotencyKey = None \<rparr>"

text \<open>
  A request. The path is \<open>None\<close> when \<open>new URL\<close> throws on the target or on the host header. The argument \<open>json\<close> of the routes is
  \<open>JSON.parse\<close> with the reviver: the message it throws, or the body, \<open>None\<close> for the value \<open>null\<close>.
\<close>

record api_http =
  ht_method :: string
  ht_pathname :: "string option"
  ht_body :: "body_event list"

type_synonym json_parser = "string \<Rightarrow> string + api_body option"

definition max_body_bytes :: nat where
  "max_body_bytes = 1000000"

text \<open>
  \<open>parseJsonBody\<close>. A body over the limit rejects with an error of its own kind, because \<open>req.destroy()\<close> closes the connection
  along with it; a stream that stops without an end or an error leaves the promise pending.
\<close>

fun parseJsonBody :: "json_parser \<Rightarrow> nat \<Rightarrow> string \<Rightarrow> nat \<Rightarrow> body_event list \<Rightarrow> api_error + api_body option" where
  "parseJsonBody json maxBytes body received [] = Inl ApiPending"
| "parseJsonBody json maxBytes body received (Chunk chunk # es) =
    (if received + length chunk > maxBytes then Inl ApiTooLarge
     else parseJsonBody json maxBytes (body @ chunk) (received + length chunk) es)"
| "parseJsonBody json maxBytes body received (BodyEnd # es) =
    (if trim body = '''' then Inr (Some empty_body)
     else (case json body of Inl m \<Rightarrow> Inl (ApiRequest (''INVALID_JSON: '' @ m)) | Inr parsed \<Rightarrow> Inr parsed))"
| "parseJsonBody json maxBytes body received (BodyError m # es) = Inl (ApiRequest m)"

text \<open>
  \<open>sendError\<close>: status and code by the class of the error, else by its message; \<open>ApiRequest\<close> is an error of the server itself
  or of the request stream.
\<close>

definition code_by_message :: "string \<Rightarrow> int \<times> string" where
  "code_by_message message =
    (if starts_with message ''INVALID_JSON'' \<or> starts_with message ''PAYLOAD_TOO_LARGE'' then (400, ''MALFORMED_REQUEST'')
     else (500, ''INTERNAL_ERROR''))"

fun pricing_code :: "pricing_error \<Rightarrow> (int \<times> string) option" where
  "pricing_code (QuoteExpired i t n) = Some (400, ''QuoteExpiredError'')"
| "pricing_code (QuoteTampered i r) = Some (400, ''QuoteTamperedError'')"
| "pricing_code (QuoteOutputTooLow g d) = Some (400, ''QuoteOutputTooLowError'')"
| "pricing_code (SwapAmountTooLow a m) = Some (400, ''SwapAmountOutOfBoundsError'')"
| "pricing_code (SwapAmountTooHigh a m) = Some (400, ''SwapAmountOutOfBoundsError'')"
| "pricing_code _ = None"

fun abuse_code :: "abuse_error \<Rightarrow> (int \<times> string) option" where
  "abuse_code (WalletCooldownActive w t) = Some (429, ''WALLET_COOLDOWN_ACTIVE'')"
| "abuse_code (RollingVolumeLimitExceeded w u r m) = Some (429, ''VOLUME_LIMIT_EXCEEDED'')"
| "abuse_code (DestinationVolumeLimitExceeded w u r m) = Some (429, ''VOLUME_LIMIT_EXCEEDED'')"
| "abuse_code (ConcurrentExposureLimitExceeded u m) = Some (429, ''VOLUME_LIMIT_EXCEEDED'')"
| "abuse_code (IdempotencyConflict k) = Some (409, ''IDEMPOTENCY_CONFLICT'')"
| "abuse_code (QuoteRejected e) = pricing_code e"
| "abuse_code _ = None"

fun gasless_code :: "gasless_error \<Rightarrow> (int \<times> string) option" where
  "gasless_code (InvalidSignature r) = Some (400, ''InvalidSignatureError'')"
| "gasless_code (SignatureExpired d n) = Some (400, ''SignatureExpiredError'')"
| "gasless_code (AuthorizationParameterMismatch f e r) = Some (400, ''AuthorizationParameterMismatchError'')"
| "gasless_code (InvalidNonce e r) = Some (400, ''InvalidNonceError'')"
| "gasless_code (QuoteAlreadyConsumed q) = Some (400, ''QuoteAlreadyConsumedError'')"
| "gasless_code (AmbiguousBroadcast h m) = Some (504, ''AMBIGUOUS_BROADCAST'')"
| "gasless_code (AdmissionRefused e) = abuse_code e"
| "gasless_code _ = None"

fun sendError :: "api_error \<Rightarrow> int \<times> string" where
  "sendError (ApiPricing e) = coalesce (pricing_code e) (500, ''INTERNAL_ERROR'')"
| "sendError (ApiGasless e) = coalesce (gasless_code e) (code_by_message (gl_message e))"
| "sendError (ApiCore e) = code_by_message (err_message e)"
| "sendError (ApiRequest m) = code_by_message m"
| "sendError ApiTooLarge = code_by_message ''PAYLOAD_TOO_LARGE: Request body exceeds 1MB limit.''"
| "sendError ApiPending = code_by_message ''''"

datatype api_payload =
    PlEmpty
  | PlHealth health_response
  | PlQuote sovereign_quote
  | PlLimits limits_response
  | PlSubmitted submit_response
  | PlStatus status_response
  | PlError string

text \<open>
  What the client sees: an answer; an answer written to a connection that \<open>req.destroy()\<close> has closed; or nothing, while the
  promise of the body is pending.
\<close>

datatype api_outcome =
    Answered int api_payload
  | Undelivered int api_payload
  | Unanswered

text \<open>The body; reading a field of \<open>null\<close> is a \<open>TypeError\<close>.\<close>

definition read_body :: "json_parser \<Rightarrow> api_http \<Rightarrow> ('w, api_body) api_act" where
  "read_body json req =
    (case parseJsonBody json max_body_bytes '''' 0 (ht_body req) of
       Inl e \<Rightarrow> thr e
     | Inr None \<Rightarrow> thr (ApiRequest ''Cannot read properties of null'')
     | Inr (Some body) \<Rightarrow> ret body)"

text \<open>\<open>pathname.replace(prefix, '').trim()\<close> on a path that starts with the prefix.\<close>

definition path_argument :: "string \<Rightarrow> string \<Rightarrow> string" where
  "path_argument prefix path = trim (drop (length prefix) path)"

definition route_post_quote :: "json_parser \<Rightarrow> 'w swap_orchestrator \<Rightarrow> api_http \<Rightarrow> ('w, int \<times> api_payload) api_act" where
  "route_post_quote json so req =
    bnd (read_body json req) (\<lambda>body.
    case (ab_amountSats body, ab_targetDestinationAddress body) of
      (Some amount, Some target) \<Rightarrow>
        bnd (case amount of Inl m \<Rightarrow> thr (ApiRequest m) | Inr n \<Rightarrow> ret n) (\<lambda>n.
        bnd (ask (so_date so)) (\<lambda>now.
        bnd (api_getQuote so n (Some target) now) (\<lambda>q. ret (200, PlQuote q))))
    | _ \<Rightarrow> ret (400, PlError ''MISSING_PARAMETERS''))"

definition route_submit :: "json_parser \<Rightarrow> 'w swap_orchestrator \<Rightarrow> api_http \<Rightarrow> ('w, int \<times> api_payload) api_act" where
  "route_submit json so req =
    bnd (read_body json req) (\<lambda>body.
    case (ab_authorization body, ab_quote body, ab_idempotencyKey body) of
      (Some authorization, Some quote, Some key) \<Rightarrow>
        bnd (ask (so_date so)) (\<lambda>now.
        bnd (submitGaslessSwap so \<lparr> rr_authorization = authorization, rr_quote = quote, rr_idempotencyKey = key \<rparr> now)
          (\<lambda>r. ret (200, PlSubmitted r)))
    | _ \<Rightarrow> ret (400, PlError ''MISSING_PARAMETERS''))"

definition route_get :: "'w swap_orchestrator \<Rightarrow> string \<Rightarrow> ('w, int \<times> api_payload) api_act" where
  "route_get so path =
    (if path = ''/api/health'' then
       bnd (ask (so_date so)) (\<lambda>now. bnd (getHealth so now) (\<lambda>r. ret (200, PlHealth r)))
     else if starts_with path ''/api/limits/'' then
       (let walletAddress = path_argument ''/api/limits/'' path in
        if walletAddress = '''' then ret (400, PlError ''MISSING_WALLET'')
        else bnd (ask (\<lambda>s. getLimits so walletAddress (so_date so s) s)) (\<lambda>r. ret (200, PlLimits r)))
     else if starts_with path ''/api/swap/'' then
       (let key = path_argument ''/api/swap/'' path in
        if key = '''' then ret (400, PlError ''MISSING_KEY'')
        else bnd (ask (getSwapStatus key)) (\<lambda>found.
          case found of None \<Rightarrow> ret (404, PlError ''NOT_FOUND'') | Some r \<Rightarrow> ret (200, PlStatus r)))
     else ret (404, PlError ''NOT_FOUND''))"

definition answer_error :: "api_error \<Rightarrow> api_outcome" where
  "answer_error e = (case sendError e of (code, name) \<Rightarrow>
     case e of ApiTooLarge \<Rightarrow> Undelivered code (PlError name) | ApiPending \<Rightarrow> Unanswered | _ \<Rightarrow> Answered code (PlError name))"

text \<open>The listener. The URL is parsed outside of the \<open>try\<close>, so that its error leaves the handler.\<close>

definition handle_request :: "json_parser \<Rightarrow> 'w swap_orchestrator \<Rightarrow> api_http \<Rightarrow> ('w, api_outcome) api_act" where
  "handle_request json so req =
    (if ht_method req = ''OPTIONS'' then ret (Answered 204 PlEmpty)
     else case ht_pathname req of
       None \<Rightarrow> thr (ApiRequest ''Invalid URL'')
     | Some path \<Rightarrow>
         attempt
          (bnd
            (if ht_method req = ''GET'' then route_get so path
             else if ht_method req = ''POST'' \<and> path = ''/api/quote'' then route_post_quote json so req
             else if ht_method req = ''POST'' \<and> path = ''/api/swap/submit'' then route_submit json so req
             else ret (404, PlError ''NOT_FOUND''))
            (\<lambda>(code, payload). ret (Answered code payload)))
          (\<lambda>e. ret (answer_error e)))"

end
