(* ===== verification/Api_Laws.thy ===== *)
theory Api_Laws
  imports Swap_Api Coord_Demo Gasless_Laws
begin

text \<open>
  What the hand-over from the gasless path to the coordinator promises: a new swap is prepared only after its
  on-chain transaction was confirmed, and Lightning and the inventory are asked for exactly the signed amounts;
  and where it promises less than it should.
\<close>

section \<open>What preparing a swap asks for\<close>

definition agreed_only :: "coordinator \<Rightarrow> prepare_params \<Rightarrow> event \<Rightarrow> bool" where
  "agreed_only c p e \<longleftrightarrow>
     (moves_money e \<longrightarrow> (\<exists>m k r. e = LnCreate (pp_hashLock p) (pp_amountSats p) m k r)) \<and>
     (\<forall>n t i r. e = InvReserve n t i r \<longrightarrow> n = pp_expectedUsdcAmount p \<and> t = co_tokenAddress c)"

lemma agreed_only_simps:
  "agreed_only c p (LnCreate (pp_hashLock p) (pp_amountSats p) m k r1)"
  "agreed_only c p (InvReserve (pp_expectedUsdcAmount p) (co_tokenAddress c) i r2)"
  "agreed_only c p (LnObserve h r3)" "agreed_only c p (InvReadiness t r4)" "agreed_only c p (InvRelease j r5)"
  "agreed_only c p (AwaitPrepare j r6)"
  by (simp_all add: agreed_only_def)

lemma only_prepare: "only (agreed_only c p) (prepareSwap b c p)"
proof -
  have r: "only (agreed_only c p) (readiness_gate b (co_tokenAddress c))"
    unfolding readiness_gate_def by (intro only_rules) (auto simp: agreed_only_simps intro!: only_rules split: readiness_state.split)
  have n: "only (agreed_only c p) (prepare_new b c p h f x)" for h f x
    unfolding prepare_new_def prepare_reserve_def prepare_invoice_def prepare_ambiguity_def
      observeHoldInvoice_def inv_release_def Let_def
    by (intro only_rules r) (auto simp: agreed_only_simps)
  have e: "only (agreed_only c p) (prepare_existing f x)" for f x
    unfolding prepare_existing_def by (intro only_rules)
  show ?thesis
    unfolding prepareSwap_def prepare_dispatch_def prepare_converge_def observeHoldInvoice_def Let_def
    by (intro only_rules n e) (auto simp: agreed_only_simps)
qed

section \<open>The hand-over\<close>

fun on_gl :: "(gl_event \<Rightarrow> bool) \<Rightarrow> api_event \<Rightarrow> bool" where
  "on_gl P (Relay e) \<longleftrightarrow> P e" | "on_gl P _ = False"

lemma seen_on_gl [simp]: "seen (on_gl P) (map Relay h) \<longleftrightarrow> seen P h"
  by (auto simp: seen_def)

lemma submit_cases:
  assumes "trace (submitGaslessSwap so request now) s = T"
  obtains (refused) "T = map Relay (trace (submitSwap (so_relayer so) request now) s)"
    | (handed_over) x t s1 where "submitSwap (so_relayer so) request now s = (Inr x, t, s1)"
        "T = map Relay t @ map Core (trace (prepareSwap (so_backend so) (so_coordinator so) (handoff_params so request)) (g_world s1))"
proof (cases "submitSwap (so_relayer so) request now s")
  case (fields r t s1)
  show ?thesis
  proof (cases r)
    case (Inl e)
    then show ?thesis using assms refused fields
      by (simp add: submitGaslessSwap_def on_relay_def within_def bnd_def trace_def)
  next
    case (Inr x)
    then show ?thesis using assms handed_over fields
      by (simp add: submitGaslessSwap_def on_relay_def on_core_def within_def bnd_def ret_def trace_def split: prod.splits sum.splits)
  qed
qed

text \<open>C9: When no execution is stored under its idempotency key, \<open>submitGaslessSwap\<close> reaches the coordinator only after
  a transaction broadcast in this very submission was confirmed by a successful receipt; and then the only call
  that moves money asks Lightning for an invoice over exactly the signed amount of sats, which is the amount of the quote,
  and the inventory is asked to reserve exactly the quoted net amount.\<close>

theorem handover_after_confirmation:
  assumes "sql_get (\<lambda>r. gx_idempotency_key r = rr_idempotencyKey request) (g_execs s) = None"
    "trace (submitGaslessSwap so request now) s = pre @ Core e # post"
  shows "(\<exists>tx. seen (on_gl (sent_as tx)) pre \<and> seen (on_gl (receipt_ok tx)) pre) \<and>
    (moves_money e \<longrightarrow> (\<exists>h m k r. e = LnCreate h (sq_amountSats (rr_quote request)) m k r)) \<and>
    (\<forall>n i j r. e = InvReserve n i j r \<longrightarrow> n = sq_netUsdcAtomic (rr_quote request))"
proof -
  let ?p = "handoff_params so request"
  let ?ct = "\<lambda>w. trace (prepareSwap (so_backend so) (so_coordinator so) ?p) w"
  obtain x t s1 where h: "submitSwap (so_relayer so) request now s = (Inr x, t, s1)"
    and T: "pre @ Core e # post = map Relay t @ map Core (?ct (g_world s1))"
  proof (cases rule: submit_cases [OF assms(2)])
    case 1
    then have "Core e \<in> set (map Relay (trace (submitSwap (so_relayer so) request now) s))"
      by (metis in_set_conv_decomp)
    then show ?thesis by auto
  next
    case (2 x t s1)
    then show ?thesis using that by simp
  qed
  have cut: "\<exists>mid. pre = map Relay t @ map Core mid \<and> e \<in> set (?ct (g_world s1))"
    using T
    by (auto simp: append_eq_append_conv2 Cons_eq_append_conv append_eq_Cons_conv map_eq_append_conv map_eq_Cons_conv
        Cons_eq_map_conv append_eq_map_conv)
  have f: "submit_fresh (so_relayer so) request now s = (Inr x, t, s1)"
    using h fresh_submission [OF assms(1)] by simp
  have c: "relay_confirmed x t" and al: "allowed (relay_guard (so_relayer so) request now) [] t"
    using wpD [OF wp_submit_fresh f] by simp_all
  then obtain tx where tx: "seen (sent_as tx) t" "seen (receipt_ok tx) t" by (auto simp: relay_confirmed_def)
  then have 1: "\<exists>tx. seen (on_gl (sent_as tx)) pre \<and> seen (on_gl (receipt_ok tx)) pre" using cut by auto
  have o: "agreed_only (so_coordinator so) ?p e" using only_trace [OF only_prepare] cut by blast
  obtain b where b: "b \<in> set t" "sent_as tx b" using tx(1) by (auto simp: seen_def)
  then obtain us vs where "t = us @ b # vs" by (meson split_list)
  with allowed_at [of _ "[]" us b vs] al have "relay_guard (so_relayer so) request now us b" by simp
  then have "verifyAuthorization (gr_authorizer (so_relayer so)) (rr_authorization request) (rr_quote request) (now div 1000) = Inr ()"
    using b(2) by (cases b) (auto simp: relay_guard_def checked_def)
  then have q: "sm_amountSats (sz_message (rr_authorization request)) = sq_amountSats (rr_quote request)"
    "sm_amountUsdcAtomic (sz_message (rr_authorization request)) = sq_netUsdcAtomic (rr_quote request)"
    by (auto simp: verifyAuthorization_def Let_def split: if_splits)
  have 2: "\<exists>h m k r. e = LnCreate h (sq_amountSats (rr_quote request)) m k r" if "moves_money e"
    using o that q by (auto simp: agreed_only_def handoff_params_def Let_def)
  have "n = sq_netUsdcAtomic (rr_quote request)" if "e = InvReserve n i j r" for n i j r
    using o that q by (auto simp: agreed_only_def handoff_params_def Let_def)
  with 1 2 show ?thesis by blast
qed

section \<open>The server\<close>

definition is_success :: "api_payload \<Rightarrow> bool" where
  "is_success p = (case p of PlEmpty \<Rightarrow> False | PlError c \<Rightarrow> False | _ \<Rightarrow> True)"

lemma error_codes:
  "pricing_code x = Some p \<Longrightarrow> fst p = 400"
  "abuse_code y = Some p \<Longrightarrow> fst p \<in> {400, 409, 429}"
  "gasless_code z = Some p \<Longrightarrow> fst p \<in> {400, 409, 429, 504}"
proof -
  show p: "pricing_code x = Some p \<Longrightarrow> fst p = 400" for x by (cases x) auto
  show a: "abuse_code y = Some p \<Longrightarrow> fst p \<in> {400, 409, 429}" for y by (cases y) (auto dest: p)
  show "gasless_code z = Some p \<Longrightarrow> fst p \<in> {400, 409, 429, 504}" by (cases z) (auto dest: a)
qed

lemma error_status: "fst (sendError e) \<in> {400, 409, 429, 500, 504}"
  by (cases e) (auto simp: coalesce_def code_by_message_def dest: error_codes split: option.splits)

lemma wp_always:
  assumes "\<And>x h. Q x h"
  shows "wp (\<lambda>_ _. True) m Q (\<lambda>_ _. True) h"
  by (rule wpI) (simp add: assms allowed_always split: sum.split)

text \<open>A success payload comes with 200, and nothing else does; the error of a body that is cut off comes from the body only.\<close>

abbreviation coded :: "int \<times> api_payload \<Rightarrow> 'h \<Rightarrow> bool" where
  "coded r h \<equiv> (fst r = 200) = is_success (snd r) \<and> fst r \<in> {200, 204, 400, 404, 409, 429, 500, 504}"

definition whole :: "api_error \<Rightarrow> bool" where
  "whole e \<longleftrightarrow> e \<noteq> ApiTooLarge \<and> e \<noteq> ApiPending"

section \<open>Request bodies\<close>

fun is_chunk :: "body_event \<Rightarrow> bool" where
  "is_chunk (Chunk c) = True" | "is_chunk _ = False"

fun chunk_bytes :: "body_event \<Rightarrow> string" where
  "chunk_bytes (Chunk c) = c" | "chunk_bytes _ = ''''"

text \<open>The bytes before the end of the stream, and the events from there on.\<close>

definition received :: "body_event list \<Rightarrow> string" where
  "received es = concat (map chunk_bytes (takeWhile is_chunk es))"

definition ending :: "body_event list \<Rightarrow> body_event list" where
  "ending es = dropWhile is_chunk es"

lemma parse_too_large:
  "n \<le> maxBytes \<Longrightarrow> maxBytes < n + length (received es) \<Longrightarrow> parseJsonBody json maxBytes body n es = Inl ApiTooLarge"
proof (induction es arbitrary: body n)
  case (Cons e es)
  then show ?case by (cases e) (auto simp: received_def split: sum.split)
qed (simp add: received_def)

lemma parse_within:
  "n + length (received es) \<le> maxBytes \<Longrightarrow>
   parseJsonBody json maxBytes body n es = parseJsonBody json maxBytes (body @ received es) (n + length (received es)) (ending es)"
proof (induction es arbitrary: body n)
  case (Cons e es)
  then show ?case by (cases e) (auto simp: received_def ending_def add.assoc)
qed (simp add: received_def ending_def)

text \<open>What becomes of a body, by its bytes and its end.\<close>

lemma parse_by_end:
  assumes "length (received es) \<le> max_body_bytes"
  shows "parseJsonBody json max_body_bytes '''' 0 es = (case ending es of
      [] \<Rightarrow> Inl ApiPending
    | BodyError m # _ \<Rightarrow> Inl (ApiRequest m)
    | _ \<Rightarrow> if trim (received es) = '''' then Inr (Some empty_body)
           else (case json (received es) of Inl m \<Rightarrow> Inl (ApiRequest (''INVALID_JSON: '' @ m)) | Inr parsed \<Rightarrow> Inr parsed))"
proof -
  have "ending es = [] \<or> \<not> is_chunk (hd (ending es))"
    unfolding ending_def by (metis hd_dropWhile)
  then show ?thesis
    using assms by (auto simp: parse_within split: list.split body_event.split)
qed

definition not_json :: "json_parser \<Rightarrow> body_event list \<Rightarrow> bool" where
  "not_json json es \<longleftrightarrow> ending es \<noteq> [] \<and> hd (ending es) = BodyEnd \<and> trim (received es) \<noteq> '''' \<and> isl (json (received es))"

section \<open>Routes\<close>

lemma map_sum_Inl: "map_sum f g x = Inl y \<Longrightarrow> \<exists>z. y = f z"
  by (cases x) auto

lemma wp_within_whole:
  assumes "\<And>x. whole (ex x)"
  shows "wp (\<lambda>_ _. True) (within ex ev get put m) (\<lambda>_ _. True) (\<lambda>e _. whole e) h"
  by (rule wpI, elim within_cases) (auto simp: allowed_always assms split: sum.splits dest!: map_sum_Inl)

lemma wp_route_get: "wp (\<lambda>_ _. True) (route_get so path) coded (\<lambda>e _. whole e) h"
  unfolding route_get_def getHealth_def on_feed_def Let_def
  by (intro wp_rules wp_always wp_post [OF wp_within_whole] TrueI; simp add: is_success_def whole_def)

lemma wp_route_post_quote:
  assumes "\<And>e. parseJsonBody json max_body_bytes '''' 0 (ht_body req) = Inl e \<Longrightarrow> whole e"
  shows "wp (\<lambda>_ _. True) (route_post_quote json so req) coded (\<lambda>e _. whole e) h"
  unfolding route_post_quote_def api_getQuote_def on_feed_def read_body_def
  by (intro wp_rules wp_post [OF wp_within_whole] TrueI; simp add: is_success_def whole_def assms [unfolded whole_def])

lemma wp_route_submit:
  assumes "\<And>e. parseJsonBody json max_body_bytes '''' 0 (ht_body req) = Inl e \<Longrightarrow> whole e"
  shows "wp (\<lambda>_ _. True) (route_submit json so req) coded (\<lambda>e _. whole e) h"
  unfolding route_submit_def submitGaslessSwap_def on_relay_def on_core_def read_body_def
  by (intro wp_rules wp_post [OF wp_within_whole] TrueI; simp add: is_success_def whole_def assms [unfolded whole_def])

definition reads_body :: "api_http \<Rightarrow> bool" where
  "reads_body req \<longleftrightarrow> ht_method req = ''POST'' \<and> ht_pathname req \<in> {Some ''/api/quote'', Some ''/api/swap/submit''}"

lemma handle_unread:
  assumes "reads_body req" "parseJsonBody json max_body_bytes '''' 0 (ht_body req) = Inl e"
  shows "result (handle_request json so req) s = Inr (answer_error e)"
  using assms by (auto simp: handle_request_def reads_body_def route_post_quote_def route_submit_def read_body_def attempt_def bnd_def
      ret_def thr_def result_def)

lemma wp_handle:
  assumes "ht_pathname req = Some path" "\<And>e. reads_body req \<Longrightarrow> parseJsonBody json max_body_bytes '''' 0 (ht_body req) = Inl e \<Longrightarrow> whole e"
  shows "wp (\<lambda>_ _. True) (handle_request json so req) (\<lambda>r h. \<exists>code payload. r = Answered code payload \<and> coded (code, payload) h)
    (\<lambda>_ _. False) []"
proof -
  have e: "\<exists>code payload. answer_error e = Answered code payload \<and> coded (code, payload) h" if "whole e" for e h
    using that error_status [of e] by (cases e) (auto simp: answer_error_def whole_def is_success_def split: prod.splits)
  have q: "ht_method req = ''POST'' \<Longrightarrow> path \<in> {''/api/quote'', ''/api/swap/submit''} \<Longrightarrow>
      parseJsonBody json max_body_bytes '''' 0 (ht_body req) = Inl e \<Longrightarrow> whole e" for e
    using assms by (auto simp: reads_body_def)
  show ?thesis
    unfolding handle_request_def assms(1) option.case
    by (intro wp_rules wp_post [OF wp_route_get] wp_post [OF wp_route_post_quote] wp_post [OF wp_route_submit])
      (use e q in \<open>auto simp: is_success_def intro!: wp_ret\<close>)
qed

lemma handle_preflight: "ht_method req = ''OPTIONS'' \<Longrightarrow> result (handle_request json so req) s = Inr (Answered 204 PlEmpty)"
  by (simp add: handle_request_def ret_def result_def)

lemma malformed_code: "sendError (ApiRequest (''INVALID_JSON: '' @ m)) = (400, ''MALFORMED_REQUEST'')" "sendError ApiTooLarge = (400, ''MALFORMED_REQUEST'')"
  by (simp_all add: code_by_message_def starts_with_def)

lemma body_too_large: "1000000 < length (received es) \<Longrightarrow> parseJsonBody json max_body_bytes '''' 0 es = Inl ApiTooLarge"
  using parse_too_large [of 0 max_body_bytes es] by (simp add: max_body_bytes_def)

lemma body_parsed:
  "\<not> 1000000 < length (received es) \<Longrightarrow> parseJsonBody json max_body_bytes '''' 0 es =
    (case ending es of [] \<Rightarrow> Inl ApiPending | BodyError m # _ \<Rightarrow> Inl (ApiRequest m)
     | _ \<Rightarrow> if trim (received es) = '''' then Inr (Some empty_body)
           else (case json (received es) of Inl m \<Rightarrow> Inl (ApiRequest (''INVALID_JSON: '' @ m)) | Inr x \<Rightarrow> Inr x))"
  by (rule parse_by_end) (simp add: max_body_bytes_def)

lemma body_pending:
  "\<not> 1000000 < length (received es) \<Longrightarrow> ending es = [] \<Longrightarrow> parseJsonBody json max_body_bytes '''' 0 es = Inl ApiPending"
  by (simp add: body_parsed)

lemma body_not_json:
  "\<not> 1000000 < length (received es) \<Longrightarrow> ending es \<noteq> [] \<Longrightarrow> not_json json es \<Longrightarrow>
    \<exists>m. parseJsonBody json max_body_bytes '''' 0 es = Inl (ApiRequest (''INVALID_JSON: '' @ m))"
  by (auto simp: body_parsed not_json_def isl_def neq_Nil_conv)

lemma body_whole:
  "\<not> 1000000 < length (received es) \<Longrightarrow> ending es \<noteq> [] \<Longrightarrow> \<not> not_json json es \<Longrightarrow>
    parseJsonBody json max_body_bytes '''' 0 es = Inl e \<Longrightarrow> whole e"
  by (auto simp: body_parsed not_json_def whole_def split: list.splits body_event.splits sum.splits if_splits)

text \<open>C40: What the client sees of each request. A target or host header that is no URL leaves the handler as an error and is not answered.
  On the two routes that read a body, a body of more than a million bytes is refused with 400 on a connection that is closed already,
  so the answer is not delivered; a body that never ends is not answered; a body that is no JSON is answered 400 MALFORMED_REQUEST. Every
  other request is answered, whatever the components throw: with 200 exactly when the operation returned a result, else with
  204 for a preflight or one of the error codes.\<close>

theorem server_answers:
  "if ht_method req \<noteq> ''OPTIONS'' \<and> ht_pathname req = None then result (handle_request json so req) s = Inl (ApiRequest ''Invalid URL'')
   else if reads_body req \<and> 1000000 < length (received (ht_body req))
   then result (handle_request json so req) s = Inr (Undelivered 400 (PlError ''MALFORMED_REQUEST''))
   else if reads_body req \<and> ending (ht_body req) = [] then result (handle_request json so req) s = Inr Unanswered
   else if reads_body req \<and> not_json json (ht_body req)
   then result (handle_request json so req) s = Inr (Answered 400 (PlError ''MALFORMED_REQUEST''))
   else \<exists>code payload. result (handle_request json so req) s = Inr (Answered code payload) \<and> (code = 200) = is_success payload \<and>
     code \<in> {200, 204, 400, 404, 409, 429, 500, 504}"
proof -
  let ?H = "result (handle_request json so req) s" and ?es = "ht_body req"
  have answered: "\<exists>code payload. ?H = Inr (Answered code payload) \<and> (code = 200) = is_success payload \<and>
      code \<in> {200, 204, 400, 404, 409, 429, 500, 504}"
    if "ht_pathname req = Some path"
      "\<And>e. reads_body req \<Longrightarrow> parseJsonBody json max_body_bytes '''' 0 ?es = Inl e \<Longrightarrow> whole e" for path
    using wp_result [OF wp_handle [OF that], of json so s] by (auto split: sum.splits)
  show ?thesis
  proof (cases "reads_body req")
    case True
    then have route: "ht_method req \<noteq> ''OPTIONS''" "ht_pathname req \<noteq> None" by (auto simp: reads_body_def)
    consider (big) "1000000 < length (received ?es)" | (pending) "\<not> 1000000 < length (received ?es)" "ending ?es = []"
      | (bad) "\<not> 1000000 < length (received ?es)" "ending ?es \<noteq> []" "not_json json ?es"
      | (fine) "\<not> 1000000 < length (received ?es)" "ending ?es \<noteq> []" "\<not> not_json json ?es" by blast
    then show ?thesis
    proof cases
      case big
      from handle_unread [OF True body_too_large [OF big], of json so s] show ?thesis
        using big True route malformed_code by (auto simp: answer_error_def)
    next
      case pending
      from handle_unread [OF True body_pending [OF pending], of json so s] show ?thesis
        using pending True route by (auto simp: answer_error_def split: prod.split)
    next
      case bad
      then obtain m where "parseJsonBody json max_body_bytes '''' 0 ?es = Inl (ApiRequest (''INVALID_JSON: '' @ m))"
        using body_not_json by blast
      from handle_unread [OF True this, of so s] show ?thesis
        using bad True route malformed_code(1) [of m] by (auto simp: answer_error_def)
    next
      case fine
      then show ?thesis using answered body_whole [OF fine] True route by auto
    qed
  next
    case False
    then show ?thesis
      using answered handle_preflight [of req json so s]
      by (cases "ht_pathname req"; cases "ht_method req = ''OPTIONS''")
        (auto simp: is_success_def handle_request_def thr_def result_def)
  qed
qed

text \<open>The finding on the admission codes: the global capacity limit is not among the mapped errors.\<close>

lemma global_capacity_answered_500: "sendError (ApiGasless (AdmissionRefused (GlobalCapacityExceeded u m))) = (500, ''INTERNAL_ERROR'')"
  by (simp add: code_by_message_def starts_with_def)

text \<open>The two routes with an argument in the path serve every argument.\<close>

lemma wallet_limits_served:
  assumes "wallet \<noteq> ''''" "trim wallet = wallet"
  shows "result (handle_request json so \<lparr> ht_method = ''GET'', ht_pathname = Some (''/api/limits/'' @ wallet), ht_body = es \<rparr>) s =
    Inr (Answered 200 (PlLimits (getLimits so wallet (so_date so s) s)))"
  using assms by (simp add: handle_request_def route_get_def path_argument_def starts_with_def attempt_def bnd_def ask_def ret_def result_def)

lemma stored_swap_served:
  assumes "key \<noteq> ''''" "trim key = key"
  shows "result (handle_request json so \<lparr> ht_method = ''GET'', ht_pathname = Some (''/api/swap/'' @ key), ht_body = es \<rparr>) s =
    Inr (case getSwapStatus key s of None \<Rightarrow> Answered 404 (PlError ''NOT_FOUND'') | Some r \<Rightarrow> Answered 200 (PlStatus r))"
  using assms
  by (simp add: handle_request_def route_get_def path_argument_def starts_with_def attempt_def bnd_def ask_def ret_def result_def
      split: option.split)

text \<open>The finding on the hash lock text: different keys and quotes share it.\<close>

lemma swap_text_not_injective: "swap_text ''a:b'' ''c'' = swap_text ''a'' ''b:c''"
  by (simp add: swap_text_def)

section \<open>Runs\<close>

definition demo_swap_orchestrator :: "unit swap_orchestrator" where
  "demo_swap_orchestrator = \<lparr>
     so_quoteEngine = \<lparr> qe_aggregator = \<lparr> ag_providers = [], ag_maxStalePriceMs = 30000, ag_minFeedsRequired = 2,
         ag_maxCrossFeedDispersionBps = 150 \<rparr>, qe_policy = qe_policy demo_engine, qe_hmac = qe_hmac demo_engine \<rparr>,
     so_relayer = demo_relayer, so_backend = demo_open,
     so_coordinator = demo_coordinator\<lparr>co_sha256text := (\<lambda>t. demo_preimage)\<rparr>, so_date = (\<lambda>s. 6), so_randomHex = (\<lambda>s. ''r'') \<rparr>"

definition demo_api :: "relayer_row list \<Rightarrow> unit api_state" where
  "demo_api rows = \<lparr> g_abuse = [], g_nonces = empty_nonce_db, g_execs = rows,
     g_world = (demo_sys SA_EVM_FUNDED)\<lparr>s_db := empty_db\<rparr> \<rparr>"

abbreviation demo_submitted :: "relayer_row list \<Rightarrow> api_event list" where
  "demo_submitted rows \<equiv> trace (submitGaslessSwap demo_swap_orchestrator (demo_relay ''k'') 6) (demo_api rows)"

definition asks_invoice :: "api_event \<Rightarrow> bool" where
  "asks_invoice e = (case e of Core c \<Rightarrow> is_LnCreate c | _ \<Rightarrow> False)"

lemma demo_submit_run: "list_ex asks_invoice (demo_submitted [])"
  by code_simp

theorem handover_after_confirmation_witness:
  "\<exists>pre h m k r post tx. demo_submitted [] = pre @ Core (LnCreate h 100 m k r) # post \<and> seen (on_gl (receipt_ok tx)) pre"
proof -
  obtain pre e post where t: "demo_submitted [] = pre @ e # post" "asks_invoice e"
    using demo_submit_run by (metis list_ex_iff split_list)
  then obtain c where c: "e = Core c" "is_LnCreate c" by (auto simp: asks_invoice_def split: api_event.splits)
  have n: "sql_get (\<lambda>r. gx_idempotency_key r = rr_idempotencyKey (demo_relay ''k'')) (g_execs (demo_api [])) = None"
    by (simp add: demo_api_def)
  note h = handover_after_confirmation [OF n t(1) [unfolded c(1)]]
  obtain tx where tx: "seen (on_gl (sent_as tx)) pre" "seen (on_gl (receipt_ok tx)) pre" using h by blast
  have "sq_amountSats (rr_quote (demo_relay ''k'')) = 100" by (simp add: demo_relay_def)
  with h money_classes(6) [OF c(2)] obtain h' m k r where "c = LnCreate h' 100 m k r" by metis
  then show ?thesis using t(1) c(1) tx(2) by blast
qed

text \<open>
  The finding on replays: with a FAILED execution stored under the key, the repeated request is answered from that row,
  nothing is broadcast or confirmed, and the swap is prepared all the same.
\<close>

definition demo_failed_row :: relayer_row where
  "demo_failed_row = (submitted_row (demo_relay ''k'') ''0xh'' 5)\<lparr>gx_status := GX_FAILED, gx_error := Some ''reverted''\<rparr>"

lemma failed_execution_prepares:
  "list_ex asks_invoice (demo_submitted [demo_failed_row]) \<and>
   list_all (\<lambda>e. case e of Relay x \<Rightarrow> False | _ \<Rightarrow> True) (demo_submitted [demo_failed_row])"
  by code_simp

end
