(* ===== verification/Chain_Reconciler.thy ===== *)
theory Chain_Reconciler
  imports Actions Swap_Store Liquidity_Store Tx_Manager
begin

text \<open>
  The chain inventory reconciler (\<open>src/src/atomic/liquidity/chain-reconciler.ts\<close>) and the inventory over it
  (\<open>src/src/atomic/liquidity/sqlite-inventory.ts\<close>): it compares the wallet on Base, the open funding intents and the
  on-chain state of active swaps with the database, and decides whether the router may accept new obligations.

  The capacity provider is arbitrary, and may do anything to the database while it is awaited. Store
  operations are logged with their results, and calls made for a swap with its id, so properties can speak of them. Of an error only the message matters;
  numbers are left out of the messages the reconciler makes up.
\<close>

section \<open>Data\<close>

datatype inv_error = InvError string

fun inv_message :: "inv_error \<Rightarrow> string" where
  "inv_message (InvError m) = m"

text \<open>The codes in front of the messages of the store's errors.\<close>

fun store_message :: "db_error \<Rightarrow> string" where
  "store_message (ReservationNotFound i) = ''RESERVATION_NOT_FOUND: '' @ i"
| "store_message (ReservationOwnerMismatch i) = ''RESERVATION_OWNER_MISMATCH: '' @ i"
| "store_message (InvalidReservationStatus st) = ''INVALID_RESERVATION_STATUS''"
| "store_message (SovereignSwapNotFound i) = ''SOVEREIGN_SWAP_NOT_FOUND: '' @ i"
| "store_message (SwapNotFound i) = ''SOVEREIGN_SWAP_NOT_FOUND: '' @ i"
| "store_message (EvmIntentNotFound i) = ''EVM_INTENT_NOT_FOUND: '' @ i"
| "store_message LiquidityDeficitErr = ''LIQUIDITY_DEFICIT''"
| "store_message EvmInventoryUnavailableErr = ''EVM_INVENTORY_UNAVAILABLE''"
| "store_message InventoryNotReadyErr = ''INVENTORY_NOT_READY''"
| "store_message _ = ''STORE_ERROR''"

record capacity_observation =
  ob_tokenAddress :: string
  ob_chainId :: int
  ob_operatorAddress :: string
  ob_walletBalanceLatest :: int
  ob_walletBalanceFinalized :: int
  ob_safeWalletCapacity :: int
  ob_latestBlockNumber :: int
  ob_finalizedBlockNumber :: int
  ob_blockHash :: "string option"
  ob_observedAt :: int

record inventory_policy =
  ip_maxFreshnessMs :: int
  ip_requiredConfirmations :: int
  ip_reorgLagTolerance :: int
  ip_failClosedOnDeficit :: bool

definition BASE_SEPOLIA_TEST_POLICY :: inventory_policy where
  "BASE_SEPOLIA_TEST_POLICY = \<lparr> ip_maxFreshnessMs = 60000, ip_requiredConfirmations = 2, ip_reorgLagTolerance = 3,
     ip_failClosedOnDeficit = True \<rparr>"

text \<open>
  What \<open>getContractHtlcState\<close> answers, an untyped value: nothing, something without a status, or a status, \<open>None\<close> when it is not an
  integer.
\<close>

datatype htlc_answer = HtNothing | HtMalformed | HtStatus "int option"

datatype inv_event =
    KvVerify int string "inv_error + bool \<times> string option"
  | KvRehydrate "inv_error + int"
  | KvObserve string "inv_error + capacity_observation"
  | KvActive "swap_rec list"
  | KvHtlc string string "inv_error + htlc_answer"
  | KvReconcileIntent "string option" string "inv_error + outcome"
  | KvReadiness string readiness_state
  | KvSnapshot snapshot_row
  | KvCommitAdvance string string "inv_error + unit"
  | KvCommit string string "inv_error + unit"
  | KvSettle string string "inv_error + unit"
  | KvRestore string string "inv_error + unit"
  | KvRecovery string "inv_error + swap_rec"
  | KvConfirmIntent string "inv_error + unit"
  | KvUpdateSwap string swap_state "inv_error + swap_rec"

record 'w ksys =
  k_db :: db
  k_readiness :: readiness_state
  k_lastTime :: int
  k_lastSnapshot :: "snapshot_row option"
  k_world :: 'w

type_synonym ('w, 'a) kcall = "'w ksys \<Rightarrow> (inv_error + 'a) \<times> 'w ksys"
type_synonym ('w, 'a) kact = "(inv_error, inv_event, 'w ksys, 'a) action"

record 'w capacity_provider =
  cp_verifyChainAndToken :: "int \<Rightarrow> string \<Rightarrow> ('w, bool \<times> string option) kcall"
  cp_observeWalletCapacity :: "string \<Rightarrow> ('w, capacity_observation) kcall"
  cp_getContractHtlcState :: "(string \<Rightarrow> ('w, htlc_answer) kcall) option"
  cp_rehydrateBindings :: "('w, int) kcall option"
  cp_reconcileIntent :: "(string \<Rightarrow> ('w, outcome) kcall) option"

record 'w reconciler =
  kr_provider :: "'w capacity_provider"
  kr_defaultTokenAddress :: string
  kr_expectedChainId :: int
  kr_policy :: inventory_policy
  kr_now :: "'w ksys \<Rightarrow> int"

definition create_reconciler ::
  "'w capacity_provider \<Rightarrow> string \<Rightarrow> int option \<Rightarrow> inventory_policy option \<Rightarrow> ('w ksys \<Rightarrow> int) \<Rightarrow> inv_error + 'w reconciler" where
  "create_reconciler provider token chainId policy clock =
    (case policy of
       None \<Rightarrow> Inl (InvError ''RECONCILER_CONFIG_ERROR: Explicit reconciliation policy is required.'')
     | Some p \<Rightarrow>
         if ip_maxFreshnessMs p \<le> 0 \<or> ip_requiredConfirmations p < 1 \<or> ip_reorgLagTolerance p < 0 \<or>
            \<not> ip_failClosedOnDeficit p
         then Inl (InvError ''RECONCILER_CONFIG_ERROR: Invalid fail-closed reconciliation policy.'')
         else Inr \<lparr> kr_provider = provider, kr_defaultTokenAddress = to_lower token,
                kr_expectedChainId = coalesce chainId 84532, kr_policy = p, kr_now = clock \<rparr>)"

section \<open>Store operations\<close>

definition store ::
  "(inv_error + 'a \<Rightarrow> inv_event) \<Rightarrow> 'w reconciler \<Rightarrow> (int \<Rightarrow> db \<Rightarrow> (db_error + 'a) \<times> db) \<Rightarrow> ('w, 'a) kact" where
  "store ev rc f = call ev (\<lambda>s. case f (kr_now rc s) (k_db s) of
     (r, d) \<Rightarrow> (map_sum (InvError \<circ> store_message) id r, s\<lparr>k_db := d\<rparr>))"

definition commit_advance :: "'w reconciler \<Rightarrow> string \<Rightarrow> string \<Rightarrow> ('w, unit) kact" where
  "commit_advance rc rid swapId =
    store (KvCommitAdvance swapId rid) rc (commitReservationAndAdvanceSwapToFunded rid swapId)"

definition mark_recovery :: "'w reconciler \<Rightarrow> string \<Rightarrow> string \<Rightarrow> string \<Rightarrow> ('w, swap_rec) kact" where
  "mark_recovery rc swapId failure reason =
    store (KvRecovery swapId) rc (markSovereignRecoveryRequired swapId failure reason)"

text \<open>\<open>this.readinessState = st; persistence.setInventoryReadinessState(token, st)\<close>\<close>

definition set_readiness :: "'w reconciler \<Rightarrow> string \<Rightarrow> readiness_state \<Rightarrow> ('w, unit) kact" where
  "set_readiness rc token st =
    call (\<lambda>_. KvReadiness token st) (\<lambda>s. (Inr (), s\<lparr>k_readiness := st,
      k_db := setInventoryReadinessState token st (kr_now rc s) (k_db s)\<rparr>))"

section \<open>Readiness\<close>

definition same_token :: "string \<Rightarrow> swap_rec \<Rightarrow> bool" where
  "same_token token x \<longleftrightarrow> (case truthy_str (r_tokenAddress x) of None \<Rightarrow> True | Some t \<Rightarrow> to_lower t = token)"

definition token_of :: "'w reconciler \<Rightarrow> string option \<Rightarrow> string" where
  "token_of rc tokenAddress = to_lower (coalesce tokenAddress (kr_defaultTokenAddress rc))"

definition reconciler_readiness :: "'w reconciler \<Rightarrow> string option \<Rightarrow> 'w ksys \<Rightarrow> readiness_state" where
  "reconciler_readiness rc tokenAddress s =
    (let token = token_of rc tokenAddress in
     if k_readiness s = IR_NOT_READY \<or> k_readiness s = IR_RECONCILING then k_readiness s
     else if \<exists>x \<in> set (listNonTerminalSovereignSwaps (k_db s)). same_token token x \<and>
         (r_recoveryRequired x = Some True \<or> r_state x = SA_RECOVERY_REQUIRED \<or> r_state x = SA_MANUAL_REVIEW)
     then IR_NOT_READY
     else case getLatestChainInventorySnapshot token (k_db s) of
       None \<Rightarrow> IR_NOT_READY
     | Some snapshot \<Rightarrow>
         if kr_now rc s - sn_observed_at snapshot > ip_maxFreshnessMs (kr_policy rc) then IR_DEGRADED
         else if sn_readiness_state snapshot = IR_DEFICIT then IR_DEFICIT
         else k_readiness s)"

section \<open>Capacity\<close>

definition snapshot_of ::
  "capacity_observation \<Rightarrow> string \<Rightarrow> readiness_state \<Rightarrow> int \<Rightarrow> int \<Rightarrow> snapshot_row" where
  "snapshot_of obs token st now freshUntil = \<lparr> sn_token_address = token, sn_chain_id = ob_chainId obs,
     sn_operator_address = ob_operatorAddress obs, sn_wallet_balance_latest = ob_walletBalanceLatest obs,
     sn_wallet_balance_finalized = ob_walletBalanceFinalized obs, sn_safe_wallet_capacity = ob_safeWalletCapacity obs,
     sn_latest_block_number = ob_latestBlockNumber obs, sn_finalized_block_number = ob_finalizedBlockNumber obs,
     sn_block_hash = ob_blockHash obs, sn_readiness_state = st, sn_observed_at = ob_observedAt obs,
     sn_fresh_until = Some freshUntil, sn_updated_at = now \<rparr>"

definition record_snapshot :: "'w reconciler \<Rightarrow> string \<Rightarrow> capacity_observation \<Rightarrow> readiness_state \<Rightarrow> int \<Rightarrow> ('w, unit) kact" where
  "record_snapshot rc token obs st now =
    (let row = snapshot_of obs token st now (now + ip_maxFreshnessMs (kr_policy rc)) in
     call (\<lambda>_. KvSnapshot row) (\<lambda>s. (Inr (), s\<lparr>k_readiness := st, k_db := recordChainInventorySnapshot row (kr_now rc s) (k_db s),
       k_lastSnapshot := Some row, k_lastTime := kr_now rc s\<rparr>)))"

definition finality_mismatch :: "inventory_policy \<Rightarrow> capacity_observation \<Rightarrow> bool" where
  "finality_mismatch policy obs =
    (let expectedFinalized = max 0 (ob_latestBlockNumber obs - ip_requiredConfirmations policy)
     in ob_finalizedBlockNumber obs > expectedFinalized \<or>
        ob_finalizedBlockNumber obs < max 0 (expectedFinalized - ip_reorgLagTolerance policy))"

text \<open>Everything after the observation runs without an await.\<close>

definition close_capacity :: "'w reconciler \<Rightarrow> string \<Rightarrow> capacity_observation \<Rightarrow> ('w, readiness_state \<times> int) kact" where
  "close_capacity rc token obs =
    bnd (ask (\<lambda>s. (ob_safeWalletCapacity obs - getReservedOperatorBalance token (k_db s)
           - getUnresolvedFundingIntentsAmountInternal token (k_db s), kr_now rc s))) (\<lambda>(headroom, now).
    if headroom < 0 \<and> ip_failClosedOnDeficit (kr_policy rc)
    then seq (record_snapshot rc token obs IR_DEFICIT now)
           (thr (InvError ''LIQUIDITY_DEFICIT: Safe wallet capacity is less than active obligations''))
    else
      seq (record_snapshot rc token obs IR_READY now)
      (seq (change (\<lambda>s. s\<lparr>k_db := setConfirmedOperatorBalance token (ob_safeWalletCapacity obs) (kr_now rc s) (k_db s)\<rparr>))
      (ret (IR_READY, headroom))))"

definition executeCapacityReconciliation :: "'w reconciler \<Rightarrow> string \<Rightarrow> ('w, readiness_state \<times> int) kact" where
  "executeCapacityReconciliation rc token =
    bnd (attempt (call (KvObserve token) (cp_observeWalletCapacity (kr_provider rc) token))
           (\<lambda>e. seq (set_readiness rc token IR_UNKNOWN)
                  (thr (InvError (''EVM_INVENTORY_UNAVAILABLE: Failed to observe chain capacity: '' @ inv_message e))))) (\<lambda>obs.
    if ob_chainId obs \<noteq> kr_expectedChainId rc
    then thr (InvError ''EVM_INVENTORY_UNAVAILABLE: Observed chain does not match configured chain'')
    else if finality_mismatch (kr_policy rc) obs
    then thr (InvError ''EVM_INVENTORY_UNAVAILABLE: FINALITY_POLICY_MISMATCH'')
    else close_capacity rc token obs)"

definition capacity_failed :: "'w reconciler \<Rightarrow> string \<Rightarrow> inv_error \<Rightarrow> ('w, readiness_state \<times> int \<times> string option) kact" where
  "capacity_failed rc token err =
    (let st = (if str_includes (inv_message err) ''LIQUIDITY_DEFICIT'' then IR_DEFICIT else IR_UNKNOWN) in
     seq (set_readiness rc token st) (ret (st, 0, Some (inv_message err))))"

definition reconcile :: "'w reconciler \<Rightarrow> string option \<Rightarrow> ('w, readiness_state \<times> int) kact" where
  "reconcile rc tokenAddress =
    (let token = token_of rc tokenAddress in
     attempt (executeCapacityReconciliation rc token)
       (\<lambda>err. bnd (capacity_failed rc token err) (\<lambda>(st, headroom, e). ret (st, headroom))))"

definition reconciler_headroom :: "'w reconciler \<Rightarrow> string option \<Rightarrow> ('w, int) kact" where
  "reconciler_headroom rc tokenAddress =
    (let token = token_of rc tokenAddress in
     bnd (ask (reconciler_readiness rc (Some token))) (\<lambda>current.
     if current = IR_NOT_READY \<or> current = IR_DEGRADED then
       bnd (reconcile rc (Some token)) (\<lambda>(st, headroom). ret (if st \<noteq> IR_READY then 0 else headroom))
     else if current \<noteq> IR_READY then ret 0
     else
       ask (\<lambda>s. case getLatestChainInventorySnapshot token (k_db s) of
         None \<Rightarrow> 0
       | Some snapshot \<Rightarrow>
           max 0 (sn_safe_wallet_capacity snapshot - getReservedOperatorBalance token (k_db s)
             - getUnresolvedFundingIntentsAmountInternal token (k_db s)))))"

section \<open>Active swaps against the chain\<close>

definition fail :: "string \<Rightarrow> ('w, 'a) kact" where
  "fail m = thr (InvError m)"

text \<open>A reservation step that must not fail once the chain has spoken; when it does, the swap goes to recovery.\<close>

definition or_recover ::
  "'w reconciler \<Rightarrow> swap_rec \<Rightarrow> string \<Rightarrow> string \<Rightarrow> string \<Rightarrow> ('w, unit) kact \<Rightarrow> ('w, unit) kact" where
  "or_recover rc swap violation reason failed step =
    attempt step
      (\<lambda>err. seq (mark_recovery rc (r_id swap) (violation @ '' ('' @ inv_message err @ ''); economic inconsistency'') reason)
              (fail (failed @ inv_message err)))"

definition with_reservation ::
  "'w reconciler \<Rightarrow> swap_rec \<Rightarrow> string \<Rightarrow> string \<Rightarrow> (string \<Rightarrow> ('w, unit) kact) \<Rightarrow> ('w, unit) kact" where
  "with_reservation rc swap violation failed step =
    (case truthy_str (r_reservationId swap) of
       Some rid \<Rightarrow> step rid
     | None \<Rightarrow>
         seq (mark_recovery rc (r_id swap) violation ''MISSING_RESERVATION_ID'') (fail failed))"

datatype sweep = SkipSwap | CheckSwap | FailSwap string

definition states_requiring_htlc :: "swap_state list" where
  "states_requiring_htlc = [SA_EVM_FUNDED, SA_CLAIMING, SA_EVM_CLAIM_DETECTED, SA_EVM_CLAIM_CONFIRMED,
     SA_LIGHTNING_SETTLEMENT_PENDING, SA_LIGHTNING_SETTLED, SA_DESTINATION_PENDING, SA_REFUND_ELIGIBLE,
     SA_EVM_REFUND_PENDING, SA_EVM_REFUND_CONFIRMED, SA_LIGHTNING_CANCEL_PENDING]"

text \<open>Whether an active swap is passed over, has to show its HTLC, or stops the sweep.\<close>

definition classify_swap :: "db \<Rightarrow> string \<Rightarrow> swap_rec \<Rightarrow> sweep" where
  "classify_swap d token swap =
    (if \<not> same_token token swap then SkipSwap
     else if r_state swap \<in> {SA_PLAN_PREPARED, SA_INVOICE_CREATED, SA_LIGHTNING_HELD} then SkipSwap
     else if r_state swap = SA_EVM_FUNDING_PENDING then
       (case truthy_str (r_evmSwapKey swap) of
          None \<Rightarrow> FailSwap ''ACTIVE_SWAP_RECONCILIATION_FAILED: Funding-pending swap has no durable evmSwapKey''
        | Some key \<Rightarrow>
            (case getEvmIntentBySwapKey key AT_FUND d of
               None \<Rightarrow> FailSwap ''ACTIVE_SWAP_RECONCILIATION_FAILED: Funding-pending swap has no durable FUND intent''
             | Some intent \<Rightarrow>
                 if it_status intent \<in> {EI_CREATED, EI_NONCE_RESERVED, EI_DISPATCHING, EI_PENDING} then SkipSwap
                 else if it_status intent \<noteq> EI_CONFIRMED
                 then FailSwap ''ACTIVE_SWAP_RECONCILIATION_FAILED: Funding-pending swap requires cross-rail recovery''
                 else CheckSwap))
     else if r_state swap = SA_RECOVERY_REQUIRED \<or> r_state swap = SA_MANUAL_REVIEW
     then FailSwap ''ACTIVE_SWAP_RECONCILIATION_FAILED: Swap requires coordinator cross-rail recovery''
     else if r_state swap \<notin> set states_requiring_htlc
     then FailSwap ''ACTIVE_SWAP_RECONCILIATION_FAILED: Unclassified non-terminal state''
     else CheckSwap)"

text \<open>The status of an existing HTLC, 1 locked, 2 claimed, 3 refunded; everything else fails.\<close>

definition htlc_status :: "htlc_answer \<Rightarrow> inv_error + int" where
  "htlc_status answer =
    (case answer of
       HtStatus (Some n) \<Rightarrow>
         if n = 1 \<or> n = 2 \<or> n = 3 then Inr n
         else if n = 0 then Inl (InvError ''ACTIVE_SWAP_RECONCILIATION_FAILED: HTLC does not exist on contract (status 0)'')
         else Inl (InvError ''ACTIVE_SWAP_RECONCILIATION_FAILED: Unknown HTLC status'')
     | HtStatus None \<Rightarrow> Inl (InvError ''ACTIVE_SWAP_RECONCILIATION_FAILED: Unknown HTLC status'')
     | HtNothing \<Rightarrow> Inl (InvError ''ACTIVE_SWAP_RECONCILIATION_FAILED: Onchain HTLC state returned null or indeterminate'')
     | HtMalformed \<Rightarrow> Inl (InvError ''ACTIVE_SWAP_RECONCILIATION_FAILED: Malformed HTLC state''))"

definition act_on_status :: "'w reconciler \<Rightarrow> swap_rec \<Rightarrow> int \<Rightarrow> ('w, unit) kact" where
  "act_on_status rc swap status =
    (if status = 1 then
       with_reservation rc swap
         ''CRITICAL_INVARIANT_VIOLATION: Onchain HTLC is LOCKED but swap has no reservationId; economic inconsistency''
         ''ACTIVE_SWAP_RECONCILIATION_FAILED: MISSING_RESERVATION_ID: no reservationId for locked onchain HTLC'' (\<lambda>rid.
         or_recover rc swap ''CRITICAL_INVARIANT_VIOLATION: Onchain HTLC is LOCKED but reservation commit failed''
           ''RESERVATION_COMMIT_FAILED'' ''ACTIVE_SWAP_RECONCILIATION_FAILED: reservation commit failed for locked HTLC: ''
           (commit_advance rc rid (r_id swap)))
     else if status = 2 then
       with_reservation rc swap
         ''CRITICAL_INVARIANT_VIOLATION: Onchain HTLC is CLAIMED but swap has no reservationId; economic inconsistency''
         ''ACTIVE_SWAP_RECONCILIATION_FAILED: MISSING_RESERVATION_ID: no reservationId for claimed onchain HTLC'' (\<lambda>rid.
         or_recover rc swap ''CRITICAL_INVARIANT_VIOLATION: Onchain HTLC is CLAIMED but reservation settle failed''
           ''RESERVATION_SETTLE_FAILED'' ''ACTIVE_SWAP_RECONCILIATION_FAILED: reservation settle failed for claimed HTLC: ''
           (store (KvSettle (r_id swap) rid) rc (settleLiquidityReservation rid)))
     else
       with_reservation rc swap
         ''CRITICAL_INVARIANT_VIOLATION: Onchain HTLC is REFUNDED but swap has no reservationId; economic inconsistency''
         ''ACTIVE_SWAP_RECONCILIATION_FAILED: MISSING_RESERVATION_ID: no reservationId for refunded onchain HTLC'' (\<lambda>rid.
         or_recover rc swap ''CRITICAL_INVARIANT_VIOLATION: Onchain HTLC is REFUNDED but reservation refund restoration failed''
           ''RESERVATION_REFUND_RESTORE_FAILED'' ''ACTIVE_SWAP_RECONCILIATION_FAILED: reservation restore failed for refunded HTLC: ''
           (store (KvRestore (r_id swap) rid) rc (restoreRefundLiquidityReservation rid))))"

definition check_swap :: "'w reconciler \<Rightarrow> swap_rec \<Rightarrow> ('w, unit) kact" where
  "check_swap rc swap =
    (case cp_getContractHtlcState (kr_provider rc) of
       None \<Rightarrow> fail ''ACTIVE_SWAP_RECONCILIATION_FAILED: Capacity provider does not support getContractHtlcState''
     | Some getState \<Rightarrow>
         (case truthy_str (r_evmHtlcId swap) of
            None \<Rightarrow> fail ''ACTIVE_SWAP_RECONCILIATION_FAILED: Active swap is missing required evmHtlcId''
          | Some htlcId \<Rightarrow>
              bnd (attempt (call (KvHtlc (r_id swap) htlcId) (getState htlcId))
                     (\<lambda>e. fail (''ACTIVE_SWAP_RECONCILIATION_FAILED: RPC error observing HTLC: '' @ inv_message e))) (\<lambda>answer.
              case htlc_status answer of
                Inl e \<Rightarrow> thr e
              | Inr status \<Rightarrow> act_on_status rc swap status)))"

fun sweep_swaps :: "'w reconciler \<Rightarrow> string \<Rightarrow> swap_rec list \<Rightarrow> ('w, unit) kact" where
  "sweep_swaps rc token [] = ret ()"
| "sweep_swaps rc token (swap # rest) =
    bnd (ask (\<lambda>s. classify_swap (k_db s) token swap)) (\<lambda>verdict.
    case verdict of
      SkipSwap \<Rightarrow> sweep_swaps rc token rest
    | FailSwap m \<Rightarrow> fail m
    | CheckSwap \<Rightarrow> seq (check_swap rc swap) (sweep_swaps rc token rest))"

definition reconcileActiveSwaps :: "'w reconciler \<Rightarrow> string \<Rightarrow> ('w, unit) kact" where
  "reconcileActiveSwaps rc token =
    bnd (call (\<lambda>r. KvActive (case r of Inr xs \<Rightarrow> xs | Inl _ \<Rightarrow> [])) (\<lambda>s. (Inr (listNonTerminalSovereignSwaps (k_db s)), s)))
      (sweep_swaps rc token)"

section \<open>Open funding intents against the chain\<close>

definition cross_rail_terminal :: "swap_state \<Rightarrow> bool" where
  "cross_rail_terminal st \<longleftrightarrow> st \<in> {SA_COMPLETED, SA_REFUNDED, SA_INVOICE_CANCELED, SA_EXPIRED}"

definition funding_dead :: "intent_state \<Rightarrow> bool" where
  "funding_dead st \<longleftrightarrow> st = EI_REVERTED \<or> st = EI_FAILED \<or> st = EI_NONCE_CONFLICT"

fun funding_reason :: "intent_state \<Rightarrow> string" where
  "funding_reason EI_REVERTED = ''BASE_FUNDING_REVERTED_CROSS_RAIL_RESERVED''"
| "funding_reason EI_FAILED = ''BASE_FUNDING_FAILED_CROSS_RAIL_RESERVED''"
| "funding_reason _ = ''BASE_FUNDING_NONCE_CONFLICT_CROSS_RAIL_RESERVED''"

text \<open>A dead funding transaction never proves that Lightning is done: the swap goes to recovery and keeps its reservation.\<close>

definition escalate :: "'w reconciler \<Rightarrow> swap_rec option \<Rightarrow> intent_row \<Rightarrow> intent_state \<Rightarrow> ('w, unit) kact" where
  "escalate rc swap intent st =
    (case swap of
       Some x \<Rightarrow>
         if \<not> cross_rail_terminal (r_state x) \<and> funding_dead st
         then seq (mark_recovery rc (r_id x)
                (''Base FUND intent '' @ it_id intent @ '' is dead; authoritative cross-rail recovery required'') (funding_reason st)) (ret ())
         else ret ()
     | None \<Rightarrow> ret ())"

definition intent_confirmed :: "'w reconciler \<Rightarrow> swap_rec option \<Rightarrow> ('w, unit) kact" where
  "intent_confirmed rc swap =
    (case swap of
       None \<Rightarrow> ret ()
     | Some x \<Rightarrow>
         with_reservation rc x
           ''CRITICAL_INVARIANT_VIOLATION: Funding intent is CONFIRMED but swap has no reservationId; economic inconsistency''
           ''UNRESOLVED_INTENT_RECONCILIATION_FAILED: MISSING_RESERVATION_ID: no reservationId for confirmed intent'' (\<lambda>rid.
           if r_state x = SA_EVM_FUNDING_PENDING then
             or_recover rc x ''CRITICAL_INVARIANT_VIOLATION: Funding intent is CONFIRMED but reservation commit failed''
               ''RESERVATION_COMMIT_FAILED'' ''UNRESOLVED_INTENT_RECONCILIATION_FAILED: reservation commit failed for confirmed intent: ''
               (commit_advance rc rid (r_id x))
           else store (KvCommit (r_id x) rid) rc (commitLiquidityReservation rid)))"

definition rethrow :: "string \<Rightarrow> ('w, 'a) kact \<Rightarrow> ('w, 'a) kact" where
  "rethrow prefix m = attempt m (\<lambda>e. fail (prefix @ inv_message e))"

definition intent_by_manager ::
  "'w reconciler \<Rightarrow> (string \<Rightarrow> ('w, outcome) kcall) \<Rightarrow> swap_rec option \<Rightarrow> intent_row \<Rightarrow> ('w, unit) kact" where
  "intent_by_manager rc f swap intent =
    rethrow (''UNRESOLVED_INTENT_RECONCILIATION_FAILED: Failed to reconcile funding intent '' @ it_id intent @ '': '')
      (bnd (call (KvReconcileIntent (map_option r_id swap) (it_id intent)) (f (it_id intent))) (\<lambda>out.
       if ro_status out = EI_CONFIRMED then intent_confirmed rc swap
       else escalate rc swap intent (ro_status out)))"

definition htlc_evidence_status :: "htlc_answer \<Rightarrow> inv_error + int" where
  "htlc_evidence_status answer =
    (case answer of
       HtStatus (Some n) \<Rightarrow>
         if n = 1 \<or> n = 2 \<or> n = 3 then Inr n
         else if n = 0 then Inl (InvError ''HTLC absence does not resolve a durable pending FUND intent'')
         else Inl (InvError ''Unknown HTLC status'')
     | HtStatus None \<Rightarrow> Inl (InvError ''Unknown HTLC status'')
     | _ \<Rightarrow> Inl (InvError ''Indeterminate or malformed HTLC state''))"

definition resolved_state :: "int \<Rightarrow> swap_state" where
  "resolved_state status =
    (if status = 1 then SA_EVM_FUNDED else if status = 2 then SA_EVM_CLAIM_DETECTED else SA_EVM_REFUND_CONFIRMED)"

definition move_reservation :: "'w reconciler \<Rightarrow> swap_rec \<Rightarrow> int \<Rightarrow> string \<Rightarrow> ('w, unit) kact" where
  "move_reservation rc swap status rid =
    (if status = 1 then store (KvCommit (r_id swap) rid) rc (commitLiquidityReservation rid)
     else if status = 2 then store (KvSettle (r_id swap) rid) rc (settleLiquidityReservation rid)
     else store (KvRestore (r_id swap) rid) rc (restoreRefundLiquidityReservation rid))"

definition intent_by_htlc ::
  "'w reconciler \<Rightarrow> (string \<Rightarrow> ('w, htlc_answer) kcall) \<Rightarrow> swap_rec \<Rightarrow> string \<Rightarrow> intent_row \<Rightarrow> ('w, unit) kact" where
  "intent_by_htlc rc getState swap htlcId intent =
    rethrow (''UNRESOLVED_INTENT_RECONCILIATION_FAILED: Failed to check HTLC state for funding intent '' @ it_id intent @ '': '')
      (bnd (call (KvHtlc (r_id swap) htlcId) (getState htlcId)) (\<lambda>answer.
       case htlc_evidence_status answer of
         Inl e \<Rightarrow> thr e
       | Inr status \<Rightarrow>
           seq (store (KvConfirmIntent (it_id intent)) rc
                 (markEvmIntentConfirmedByChainEvidence (it_id intent) (it_canonical_tx_hash intent)))
           (with_reservation rc swap
              ''CRITICAL_INVARIANT_VIOLATION: Funding intent resolved but swap has no reservationId; economic inconsistency''
              ''UNRESOLVED_INTENT_RECONCILIATION_FAILED: MISSING_RESERVATION_ID: no reservationId for resolved funding intent'' (\<lambda>rid.
              seq (or_recover rc swap ''CRITICAL_INVARIANT_VIOLATION: Funding intent resolved but reservation transition failed''
                     ''RESERVATION_TRANSITION_FAILED'' ''UNRESOLVED_INTENT_RECONCILIATION_FAILED: reservation transition failed: ''
                     (move_reservation rc swap status rid))
              (seq (store (KvUpdateSwap (r_id swap) (resolved_state status)) rc
                     (updateSovereignSwap (r_id swap)
                        (no_updates\<lparr>su_state := Some (resolved_state status), su_recoveryRequired := Some (status \<noteq> 1)\<rparr>) None))
              (ret ()))))))"

definition resolve_intent :: "'w reconciler \<Rightarrow> string \<Rightarrow> intent_row \<Rightarrow> ('w, unit) kact" where
  "resolve_intent rc token intent =
    bnd (ask (\<lambda>s. getSovereignSwapBySwapKey (it_swap_key intent) (k_db s))) (\<lambda>swap.
    if (case swap of Some x \<Rightarrow> \<not> same_token token x | None \<Rightarrow> False) then ret ()
    else
      seq (escalate rc swap intent (it_status intent))
      (case cp_reconcileIntent (kr_provider rc) of
         Some f \<Rightarrow> intent_by_manager rc f swap intent
       | None \<Rightarrow>
           (case (cp_getContractHtlcState (kr_provider rc), swap, Option.bind swap (\<lambda>x. truthy_str (r_evmHtlcId x))) of
              (Some getState, Some x, Some htlcId) \<Rightarrow> intent_by_htlc rc getState x htlcId intent
            | _ \<Rightarrow>
                if it_status intent \<in> {EI_CREATED, EI_NONCE_RESERVED, EI_DISPATCHING, EI_PENDING}
                then fail ''UNRESOLVED_INTENT_RECONCILIATION_FAILED: No authoritative transaction manager or HTLC observation is available''
                else ret ())))"

text \<open>\<open>new Map\<close> over the ids keeps the place of the first and the value of the last intent of an id.\<close>

fun map_by_id :: "intent_row list \<Rightarrow> intent_row list \<Rightarrow> intent_row list" where
  "map_by_id acc [] = acc"
| "map_by_id acc (i # is) =
    map_by_id (if \<exists>j \<in> set acc. it_id j = it_id i then map (\<lambda>j. if it_id j = it_id i then i else j) acc else acc @ [i]) is"

fun each_intent :: "'w reconciler \<Rightarrow> string \<Rightarrow> intent_row list \<Rightarrow> ('w, unit) kact" where
  "each_intent rc token [] = ret ()"
| "each_intent rc token (i # is) = seq (resolve_intent rc token i) (each_intent rc token is)"

definition open_funding_intents :: "'w reconciler \<Rightarrow> db \<Rightarrow> intent_row list" where
  "open_funding_intents rc d =
    map_by_id [] (filter (\<lambda>i. it_action_type i = AT_FUND) (getActiveEvmIntents (Some (kr_expectedChainId rc)) d) @
      getFailedFundIntentsRequiringCrossRailRecovery (kr_expectedChainId rc) d)"

definition reconcileUnresolvedFundingIntents :: "'w reconciler \<Rightarrow> string \<Rightarrow> ('w, unit) kact" where
  "reconcileUnresolvedFundingIntents rc token = bnd (ask (\<lambda>s. open_funding_intents rc (k_db s))) (each_intent rc token)"

section \<open>Start-up\<close>

definition boot_phases :: "'w reconciler \<Rightarrow> string \<Rightarrow> ('w, readiness_state \<times> int \<times> string option) kact" where
  "boot_phases rc token =
    bnd (call (KvVerify (kr_expectedChainId rc) token) (cp_verifyChainAndToken (kr_provider rc) (kr_expectedChainId rc) token))
      (\<lambda>(valid, reason).
    if \<not> valid then
      seq (set_readiness rc token IR_NOT_READY)
      (ret (IR_NOT_READY, 0, Some (coalesce reason ''CHAIN_TOKEN_VERIFICATION_FAILED'')))
    else
      seq (case cp_rehydrateBindings (kr_provider rc) of None \<Rightarrow> ret () | Some f \<Rightarrow> seq (call KvRehydrate f) (ret ()))
      (seq (reconcileUnresolvedFundingIntents rc token)
      (seq (reconcileActiveSwaps rc token)
      (bnd (executeCapacityReconciliation rc token) (\<lambda>(st, headroom). ret (st, headroom, None))))))"

definition reconcileOnBoot :: "'w reconciler \<Rightarrow> string option \<Rightarrow> ('w, readiness_state \<times> int \<times> string option) kact" where
  "reconcileOnBoot rc tokenAddress =
    (let token = token_of rc tokenAddress in
     seq (set_readiness rc token IR_RECONCILING)
     (attempt (boot_phases rc token) (capacity_failed rc token)))"

end
