(* ===== verification/Sqlite_Inventory.thy ===== *)
theory Sqlite_Inventory
  imports Chain_Reconciler
begin

text \<open>
  \<open>SqliteLiquidityInventory\<close> (\<open>src/src/atomic/liquidity/sqlite-inventory.ts\<close>): the asynchronous inventory over the store and, where
  configured, over the reconciler, which then has to answer READY before anything is reserved.
\<close>

record 'w inventory =
  sq_reconciler :: "'w reconciler option"
  sq_legacyFallback :: bool
  sq_now :: "'w ksys \<Rightarrow> int"
  sq_uuid :: "'w ksys \<Rightarrow> string"
  sq_newId :: "'w ksys \<Rightarrow> string"

text \<open>\<open>sq_uuid\<close> and \<open>sq_newId\<close> are the ids drawn here and in the store. A store operation without a log entry:\<close>

definition inv_store :: "'w inventory \<Rightarrow> (int \<Rightarrow> db \<Rightarrow> (db_error + 'a) \<times> db) \<Rightarrow> ('w, 'a) kact" where
  "inv_store sq f s = (case f (sq_now sq s) (k_db s) of
     (r, d) \<Rightarrow> (map_sum (InvError \<circ> store_message) id r, [], s\<lparr>k_db := d\<rparr>))"

definition inv_readiness :: "'w inventory \<Rightarrow> string option \<Rightarrow> 'w ksys \<Rightarrow> readiness_state" where
  "inv_readiness sq tokenAddress s =
    (case sq_reconciler sq of
       Some rc \<Rightarrow> reconciler_readiness rc tokenAddress s
     | None \<Rightarrow>
         (let token = to_lower (coalesce tokenAddress ''0x0000000000000000000000000000000000000000'');
              st = getInventoryReadinessState (sq_legacyFallback sq) token (sq_now sq s) (k_db s)
          in if st = IR_NOT_READY \<and> getConfirmedOperatorBalance token (k_db s) > 0 then IR_READY else st))"

definition inv_safe_headroom :: "'w inventory \<Rightarrow> string \<Rightarrow> ('w, int) kact" where
  "inv_safe_headroom sq tokenAddress =
    (case sq_reconciler sq of
       Some rc \<Rightarrow> reconciler_headroom rc (Some tokenAddress)
     | None \<Rightarrow> ask (\<lambda>s. getSafeHeadroom tokenAddress (sq_now sq s) (k_db s)))"

definition inv_reconcile :: "'w inventory \<Rightarrow> string option \<Rightarrow> ('w, readiness_state \<times> int) kact" where
  "inv_reconcile sq tokenAddress =
    (case sq_reconciler sq of
       None \<Rightarrow> fail ''RECONCILER_NOT_CONFIGURED: Reconciler is required for reconciliation''
     | Some rc \<Rightarrow> reconcile rc tokenAddress)"

definition inv_reconcileOnBoot :: "'w inventory \<Rightarrow> string option \<Rightarrow> ('w, readiness_state \<times> int \<times> string option) kact" where
  "inv_reconcileOnBoot sq tokenAddress =
    (case sq_reconciler sq of
       None \<Rightarrow> fail ''RECONCILER_NOT_CONFIGURED: SqliteLiquidityInventory requires a ChainInventoryReconciler for startup reconciliation''
     | Some rc \<Rightarrow> reconcileOnBoot rc tokenAddress)"

definition reserve_gate :: "'w inventory \<Rightarrow> string \<Rightarrow> ('w, unit) kact" where
  "reserve_gate sq tokenAddress =
    (case sq_reconciler sq of
       None \<Rightarrow> ret ()
     | Some rc \<Rightarrow>
         bnd (ask (reconciler_readiness rc (Some tokenAddress))) (\<lambda>st.
         if st = IR_READY then ret ()
         else if st = IR_DEFICIT then fail (''LIQUIDITY_DEFICIT: Operator inventory is in DEFICIT for token '' @ tokenAddress)
         else if st = IR_UNKNOWN \<or> st = IR_DEGRADED
         then fail (''EVM_INVENTORY_UNAVAILABLE: Operator inventory state for token '' @ tokenAddress)
         else fail (''INVENTORY_NOT_READY: Operator inventory for token '' @ tokenAddress)))"

definition inv_reserve :: "'w inventory \<Rightarrow> int \<Rightarrow> string \<Rightarrow> string option \<Rightarrow> ('w, string \<times> bool) kact" where
  "inv_reserve sq amountUnits tokenAddress executionId =
    seq (reserve_gate sq tokenAddress)
    (bnd (ask (sq_uuid sq)) (\<lambda>uuid.
     let execId = coalesce executionId (''anon_'' @ uuid)
     in bnd (ask (sq_newId sq)) (\<lambda>newId.
        inv_store sq (\<lambda>now. reserveLiquidity (sq_legacyFallback sq) execId tokenAddress amountUnits
          (Some (sq_reconciler sq = None)) None now newId))))"

definition inv_release_reservation :: "'w inventory \<Rightarrow> string \<Rightarrow> ('w, unit) kact" where
  "inv_release_reservation sq rid = inv_store sq (releaseLiquidityReservation rid)"

definition inv_commit_reservation :: "'w inventory \<Rightarrow> string \<Rightarrow> ('w, unit) kact" where
  "inv_commit_reservation sq rid = inv_store sq (commitLiquidityReservation rid)"

definition inv_settle :: "'w inventory \<Rightarrow> string \<Rightarrow> ('w, unit) kact" where
  "inv_settle sq rid = inv_store sq (settleLiquidityReservation rid)"

definition inv_restoreRefund :: "'w inventory \<Rightarrow> string \<Rightarrow> ('w, unit) kact" where
  "inv_restoreRefund sq rid = inv_store sq (restoreRefundLiquidityReservation rid)"

definition inv_available :: "'w inventory \<Rightarrow> string \<Rightarrow> 'w ksys \<Rightarrow> int" where
  "inv_available sq tokenAddress s =
    (case getLatestChainInventorySnapshot tokenAddress (k_db s) of
       Some _ \<Rightarrow> getSafeHeadroom tokenAddress (sq_now sq s) (k_db s)
     | None \<Rightarrow> getAvailableOperatorBalance tokenAddress (k_db s))"

definition inv_set_confirmed :: "'w inventory \<Rightarrow> string \<Rightarrow> int \<Rightarrow> ('w, unit) kact" where
  "inv_set_confirmed sq tokenAddress amount =
    change (\<lambda>s. s\<lparr>k_db := setConfirmedOperatorBalance tokenAddress amount (sq_now sq s) (k_db s)\<rparr>)"

text \<open>The constructor sets the initial balances it is given, unless it is given options.\<close>

fun inv_init :: "'w inventory \<Rightarrow> (string \<times> int) list \<Rightarrow> ('w, unit) kact" where
  "inv_init sq [] = ret ()"
| "inv_init sq ((token, amount) # rest) = seq (inv_set_confirmed sq token amount) (inv_init sq rest)"

end
