(* ===== verification/Inventory_Laws.thy ===== *)
theory Inventory_Laws
  imports Sqlite_Inventory Liquidity_Laws
begin

text \<open>
  What the reconciler promises: it never throws and what it returns is what it remembers; READY is backed by a fresh
  observation of the right chain with capacity for all obligations, which no later reservation can oversell; a reservation
  moves only on the chain's own evidence about its swap; and a boot ends READY only when every
  active swap was accounted for.
\<close>

section \<open>READY is covered\<close>

lemma to_lower_token_of [simp]: "to_lower (token_of rc t) = token_of rc t"
  by (simp add: token_of_def)

lemma obligations_same:
  assumes "liquidity_reservations d' = liquidity_reservations d" "sovereign_swaps d' = sovereign_swaps d"
    "evm_transaction_intents d' = evm_transaction_intents d"
  shows "obligations token d' = obligations token d"
proof -
  have "intent_liability token d' = intent_liability token d"
    by (rule ext) (simp only: intent_liability_def assms)
  then show ?thesis
    by (simp add: obligations_def sum_reservations_def getUnresolvedFundingIntentsAmountInternal_def
        unresolved_fund_intents_def assms)
qed

lemma store_obligations [simp]:
  "obligations token (setConfirmedOperatorBalance t b n d) = obligations token d"
  "obligations token (recordChainInventorySnapshot row n d) = obligations token d"
  by (rule obligations_same; simp add: setConfirmedOperatorBalance_def recordChainInventorySnapshot_def Let_def
      split: option.split)+

lemma confirmed_snapshots [simp]:
  "chain_inventory_snapshots (setConfirmedOperatorBalance t b n d) = chain_inventory_snapshots d"
  by (simp add: setConfirmedOperatorBalance_def Let_def split: option.split)

lemma recorded_snapshot:
  assumes "to_lower (sn_token_address row) = token"
  shows "getLatestChainInventorySnapshot token (recordChainInventorySnapshot row n d) =
    Some (row\<lparr>sn_token_address := token, sn_operator_address := to_lower (sn_operator_address row),
       sn_fresh_until := Some (coalesce (sn_fresh_until row) (sn_observed_at row + 60000)), sn_updated_at := n\<rparr>)"
proof -
  have l: "to_lower token = token" using assms by auto
  show ?thesis
  proof (cases "sql_get (\<lambda>r. sn_token_address r = token) (chain_inventory_snapshots d)")
    case None
    then show ?thesis using assms
      by (simp add: getLatestChainInventorySnapshot_def recordChainInventorySnapshot_def Let_def sql_get_append l)
  next
    case (Some old)
    have "sql_get P (sql_update P (\<lambda>_. new) rows) = (if sql_get P rows = None then None else Some new)"
      if "P new" for P and new :: snapshot_row and rows
      using that by (induction rows) auto
    with Some assms show ?thesis
      by (simp add: getLatestChainInventorySnapshot_def recordChainInventorySnapshot_def Let_def l)
  qed
qed

text \<open>What a successful capacity step leaves behind.\<close>

definition ready_state :: "'w reconciler \<Rightarrow> string \<Rightarrow> capacity_observation \<Rightarrow> int \<Rightarrow> 'w ksys \<Rightarrow> bool" where
  "ready_state rc token obs headroom s \<longleftrightarrow>
     headroom = ob_safeWalletCapacity obs - obligations token (k_db s) \<and> 0 \<le> headroom \<and> k_readiness s = IR_READY \<and>
     (\<exists>row. getLatestChainInventorySnapshot token (k_db s) = Some row \<and> sn_readiness_state row = IR_READY \<and>
        sn_safe_wallet_capacity row = ob_safeWalletCapacity obs)"

lemma ready_state_covered: "to_lower token = token \<Longrightarrow> ready_state rc token obs headroom s \<Longrightarrow> covered token (k_db s)"
  by (auto simp: ready_state_def covered_def safe_capacity_def getLatestChainInventorySnapshot_def)

lemma close_capacity_eq:
  "close_capacity rc token obs s =
    (let h = ob_safeWalletCapacity obs - getReservedOperatorBalance token (k_db s)
           - getUnresolvedFundingIntentsAmountInternal token (k_db s);
         row = (\<lambda>st. snapshot_of obs token st (kr_now rc s) (kr_now rc s + ip_maxFreshnessMs (kr_policy rc)));
         s1 = (\<lambda>st. s\<lparr>k_readiness := st, k_db := recordChainInventorySnapshot (row st) (kr_now rc s) (k_db s),
            k_lastSnapshot := Some (row st), k_lastTime := kr_now rc s\<rparr>)
     in if h < 0 \<and> ip_failClosedOnDeficit (kr_policy rc)
        then (Inl (InvError ''LIQUIDITY_DEFICIT: Safe wallet capacity is less than active obligations''),
              [KvSnapshot (row IR_DEFICIT)], s1 IR_DEFICIT)
        else (Inr (IR_READY, h), [KvSnapshot (row IR_READY)],
              (s1 IR_READY)\<lparr>k_db := setConfirmedOperatorBalance token (ob_safeWalletCapacity obs) (kr_now rc (s1 IR_READY))
                 (k_db (s1 IR_READY))\<rparr>))"
  unfolding close_capacity_def bnd_ask Let_def
  by (simp add: seq_def bnd_def record_snapshot_def call_def change_def ret_def thr_def Let_def)

lemma close_ready:
  assumes "close_capacity rc token obs s = (Inr (st, h), t, s')" "ip_failClosedOnDeficit (kr_policy rc)" "to_lower token = token"
  shows "st = IR_READY \<and> ready_state rc token obs h s'"
proof -
  have l: "getLatestChainInventorySnapshot token (setConfirmedOperatorBalance t' b n d) = getLatestChainInventorySnapshot token d"
    for t' b n d by (simp add: getLatestChainInventorySnapshot_def)
  have o: "getReservedOperatorBalance token d + getUnresolvedFundingIntentsAmountInternal token d = obligations token d" for d
    using assms(3) by (simp add: obligations_def getReservedOperatorBalance_def)
  show ?thesis
    using assms(1,2) o [of "k_db s"]
    by (auto simp: close_capacity_eq Let_def ready_state_def l recorded_snapshot snapshot_of_def assms(3) split: if_splits)
qed

lemma execute_ready:
  assumes "executeCapacityReconciliation rc token s = (Inr (st, h), t, s')"
    "ip_failClosedOnDeficit (kr_policy rc)" "to_lower token = token"
  obtains obs where "st = IR_READY" "KvObserve token (Inr obs) \<in> set t" "ob_chainId obs = kr_expectedChainId rc"
    "\<not> finality_mismatch (kr_policy rc) obs" "ready_state rc token obs h s'"
  using assms(1) unfolding executeCapacityReconciliation_def
proof (cases rule: bnd_cases)
  case (goes_on obs t1 s1 t2)
  have o: "KvObserve token (Inr obs) \<in> set t1"
    using goes_on(1)
    by (auto simp: attempt_def call_def seq_def bnd_def thr_def set_readiness_def split: prod.splits sum.splits)
  have c: "ob_chainId obs = kr_expectedChainId rc" "\<not> finality_mismatch (kr_policy rc) obs"
    "close_capacity rc token obs s1 = (Inr (st, h), t2, s')"
    using goes_on(2) by (auto simp: thr_def split: if_splits)
  show ?thesis
    using that [of obs] o c(1,2) close_ready [OF c(3) assms(2,3)] goes_on(3) by simp
qed simp

lemma reconcile_ready:
  assumes "reconcile rc tokenAddress s = (Inr (IR_READY, headroom), t, s')" "ip_failClosedOnDeficit (kr_policy rc)"
  obtains obs where "KvObserve (token_of rc tokenAddress) (Inr obs) \<in> set t" "ob_chainId obs = kr_expectedChainId rc"
    "\<not> finality_mismatch (kr_policy rc) obs" "ready_state rc (token_of rc tokenAddress) obs headroom s'"
proof -
  have "\<exists>t1. executeCapacityReconciliation rc (token_of rc tokenAddress) s = (Inr (IR_READY, headroom), t1, s') \<and> set t1 \<subseteq> set t"
    using assms(1) unfolding reconcile_def Let_def
    by (elim attempt_cases)
      (auto simp: capacity_failed_def Let_def bnd_def seq_def set_readiness_def call_def ret_def split: if_splits)
  then obtain t1 where x: "executeCapacityReconciliation rc (token_of rc tokenAddress) s = (Inr (IR_READY, headroom), t1, s')"
    "set t1 \<subseteq> set t" by blast
  show ?thesis using execute_ready [OF x(1) assms(2)] x(2) that by auto
qed

text \<open>C14: READY is earned. When \<open>reconcile\<close> answers READY, then in this call the wallet was observed on the configured chain within the
  finality window; the headroom it returns is the observed safe capacity less the obligations R + P now in the database, and
  not negative; READY is remembered and stored with that capacity; and from then on no sequence of reservations takes the
  obligations of the token above it.\<close>

theorem reconcile_ready_backed:
  assumes "reconcile rc tokenAddress s = (Inr (IR_READY, headroom), t, s')" "ip_failClosedOnDeficit (kr_policy rc)"
  shows "(\<exists>obs. KvObserve (token_of rc tokenAddress) (Inr obs) \<in> set t \<and> ob_chainId obs = kr_expectedChainId rc \<and>
      \<not> finality_mismatch (kr_policy rc) obs \<and> ready_state rc (token_of rc tokenAddress) obs headroom s') \<and>
    (amounts_ok (k_db s') \<longrightarrow> covered (token_of rc tokenAddress) (reserve_run fallback calls (k_db s')))"
proof -
  obtain obs where o: "KvObserve (token_of rc tokenAddress) (Inr obs) \<in> set t" "ob_chainId obs = kr_expectedChainId rc"
    "\<not> finality_mismatch (kr_policy rc) obs" "ready_state rc (token_of rc tokenAddress) obs headroom s'"
    by (rule reconcile_ready [OF assms])
  moreover have "covered (token_of rc tokenAddress) (reserve_run fallback calls (k_db s'))" if "amounts_ok (k_db s')"
    by (rule reserve_run_covered [OF that ready_state_covered [OF _ o(4)]]) simp
  ultimately show ?thesis by blast
qed

section \<open>The reconciler never throws\<close>

lemma capacity_failed_result:
  "\<exists>st. capacity_failed rc token err s = (Inr (st, 0, Some (inv_message err)), [KvReadiness token st],
     s\<lparr>k_readiness := st, k_db := setInventoryReadinessState token st (kr_now rc s) (k_db s)\<rparr>) \<and> st \<in> {IR_DEFICIT, IR_UNKNOWN}"
  by (auto simp: capacity_failed_def Let_def bnd_def seq_def set_readiness_def call_def ret_def)

lemma boot_phases_result:
  assumes "boot_phases rc token s = (Inr (st, h, e), t, s')"
  shows "k_readiness s' = st \<and> st \<in> {IR_NOT_READY, IR_READY} \<and> (st = IR_READY \<or> h = 0)"
proof -
  have x: "k_readiness s' = st \<and> st = IR_READY"
    if "executeCapacityReconciliation rc token s = (Inr (st, h), t, s')" for s st h t s'
    using that unfolding executeCapacityReconciliation_def
    by (elim bnd_cases; simp split: if_splits add: thr_def)
      (auto simp: close_capacity_eq Let_def split: if_splits)
  show ?thesis
    using assms unfolding boot_phases_def
    by (elim bnd_cases; simp split: if_splits prod.splits)
      (auto simp: seq_def ret_def set_readiness_def call_def elim!: bnd_cases dest!: x split: if_splits)
qed

text \<open>The reconciler fails closed: \<open>reconcileOnBoot\<close> never throws, whatever the chain, the managers and the store
  do; it returns READY, DEFICIT, UNKNOWN or NOT_READY, headroom zero unless READY, and what it returns is the readiness it
  remembers.\<close>

theorem boot_fails_closed:
  "\<exists>st h e t s'. reconcileOnBoot rc tokenAddress s = (Inr (st, h, e), t, s') \<and> k_readiness s' = st \<and>
     st \<in> {IR_READY, IR_DEFICIT, IR_UNKNOWN, IR_NOT_READY} \<and> (st = IR_READY \<or> h = 0)"
proof -
  let ?tok = "token_of rc tokenAddress"
  obtain s0 t0 where "set_readiness rc ?tok IR_RECONCILING s = (Inr (), t0, s0)"
    by (simp add: set_readiness_def call_def)
  then have b: "reconcileOnBoot rc tokenAddress s =
      (case attempt (boot_phases rc ?tok) (capacity_failed rc ?tok) s0 of (r, t, s') \<Rightarrow> (r, t0 @ t, s'))"
    by (simp add: reconcileOnBoot_def Let_def seq_def bnd_def)
  show ?thesis
  proof (cases "boot_phases rc ?tok s0")
    case (fields r t1 s1)
    show ?thesis
    proof (cases r)
      case (Inl err)
      obtain st where "capacity_failed rc ?tok err s1 = (Inr (st, 0, Some (inv_message err)), [KvReadiness ?tok st],
          s1\<lparr>k_readiness := st, k_db := setInventoryReadinessState ?tok st (kr_now rc s1) (k_db s1)\<rparr>)"
        "st \<in> {IR_DEFICIT, IR_UNKNOWN}"
        using capacity_failed_result [of rc ?tok err s1] by blast
      then show ?thesis using b fields Inl by (auto simp: attempt_def)
    next
      case (Inr x)
      obtain st h e where "x = (st, h, e)" by (cases x)
      then show ?thesis using b fields Inr boot_phases_result [of rc ?tok s0 st h e t1 s1] by (auto simp: attempt_def)
    qed
  qed
qed

section \<open>Reservations move on evidence\<close>

text \<open>The chain showed the HTLC of this swap in this status.\<close>

fun shows_htlc :: "string \<Rightarrow> int set \<Rightarrow> inv_event \<Rightarrow> bool" where
  "shows_htlc i ns (KvHtlc i' h (Inr (HtStatus (Some n)))) \<longleftrightarrow> i' = i \<and> n \<in> ns"
| "shows_htlc i ns _ = False"

fun shows_confirmed :: "string \<Rightarrow> inv_event \<Rightarrow> bool" where
  "shows_confirmed i (KvReconcileIntent (Some i') k (Inr out)) \<longleftrightarrow> i' = i \<and> ro_status out = EI_CONFIRMED"
| "shows_confirmed i _ = False"

definition evidence_guard :: "inv_event list \<Rightarrow> inv_event \<Rightarrow> bool" where
  "evidence_guard h e \<longleftrightarrow>
     (\<forall>i rid r. e = KvSettle i rid r \<longrightarrow> seen (shows_htlc i {2}) h) \<and>
     (\<forall>i rid r. e = KvRestore i rid r \<longrightarrow> seen (shows_htlc i {3}) h) \<and>
     (\<forall>i rid r. e = KvCommit i rid r \<or> e = KvCommitAdvance i rid r \<longrightarrow> seen (shows_htlc i {1}) h \<or> seen (shows_confirmed i) h) \<and>
     (\<forall>i st r. e = KvUpdateSwap i st r \<longrightarrow> seen (shows_htlc i {1, 2, 3}) h)"

lemma evidence_other [simp]:
  "evidence_guard h (KvVerify c t r1)" "evidence_guard h (KvRehydrate r2)" "evidence_guard h (KvObserve t r3)"
  "evidence_guard h (KvHtlc i k r4)" "evidence_guard h (KvReconcileIntent j k r5)" "evidence_guard h (KvReadiness t st)"
  "evidence_guard h (KvSnapshot row)" "evidence_guard h (KvRecovery i r6)" "evidence_guard h (KvConfirmIntent i r7)"
  "evidence_guard h (KvActive xs)"
  by (simp_all add: evidence_guard_def)

lemma wp_store [wp_rules]:
  "(\<And>r. J h (ev r)) \<Longrightarrow> (\<And>x. Q x (h @ [ev (Inr x)])) \<Longrightarrow> (\<And>e. E e (h @ [ev (Inl e)])) \<Longrightarrow> wp J (store ev rc f) Q E h"
  unfolding store_def by (rule wp_call)

lemma wp_set_readiness [wp_rules]:
  "J h (KvReadiness token st) \<Longrightarrow> Q () (h @ [KvReadiness token st]) \<Longrightarrow> wp J (set_readiness rc token st) Q E h"
  unfolding set_readiness_def by (rule wpI) (auto simp: call_def)

lemma wp_fail [wp_rules]: "E (InvError m) h \<Longrightarrow> wp J (fail m) Q E h"
  unfolding fail_def by (rule wp_thr)

lemma wp_mark_recovery [wp_rules]:
  "(\<And>r. J h (KvRecovery i r)) \<Longrightarrow> (\<And>x r. Q x (h @ [KvRecovery i r])) \<Longrightarrow> (\<And>e r. E e (h @ [KvRecovery i r])) \<Longrightarrow>
   wp J (mark_recovery rc i f g) Q E h"
  unfolding mark_recovery_def by (rule wp_store)

lemma wp_record_snapshot [wp_rules]:
  "(\<And>row. J h (KvSnapshot row)) \<Longrightarrow> (\<And>row. Q () (h @ [KvSnapshot row])) \<Longrightarrow> wp J (record_snapshot rc token obs st now) Q E h"
  unfolding record_snapshot_def Let_def by (rule wpI) (auto simp: call_def)

lemma wp_or_recover:
  assumes "wp evidence_guard step (\<lambda>_. Q ()) (\<lambda>_ _. True) h" "\<And>e h. E e h"
  shows "wp evidence_guard (or_recover rc swap v g f step) Q E h"
  unfolding or_recover_def by (intro wp_rules wp_post [OF assms(1)]) (simp_all add: assms(2))

lemma wp_act_on_status:
  assumes "seen (shows_htlc (r_id swap) {n}) h" "n = 1 \<or> n = 2 \<or> n = 3" "\<And>h'. Q () (h @ h')"
  shows "wp evidence_guard (act_on_status rc swap n) Q (\<lambda>_ _. True) h"
  unfolding act_on_status_def with_reservation_def commit_advance_def
  by (intro wp_rules wp_or_recover TrueI) (use assms in \<open>auto simp: evidence_guard_def\<close>)

definition seen_htlc :: "swap_rec \<Rightarrow> inv_event list \<Rightarrow> bool" where
  "seen_htlc x h \<longleftrightarrow> seen (shows_htlc (r_id x) {1, 2, 3}) h"

text \<open>An assertion on the history as it was, carried along.\<close>

lemma wp_history: "wp J m Q E h \<Longrightarrow> wp J m (\<lambda>x h'. Q x h' \<and> (\<exists>t. h' = h @ t)) E h"
  unfolding wp_def by (fastforce split: sum.splits)

text \<open>Every swap of the token was accounted for: none in recovery, and the HTLC of each funded one was seen.\<close>

definition accounted :: "string \<Rightarrow> swap_rec list \<Rightarrow> inv_event list \<Rightarrow> bool" where
  "accounted token xs h \<longleftrightarrow> (\<forall>x \<in> set xs. same_token token x \<longrightarrow>
     r_state x \<notin> {SA_RECOVERY_REQUIRED, SA_MANUAL_REVIEW} \<and> (r_state x \<in> set states_requiring_htlc \<longrightarrow> seen_htlc x h))"

lemma accounted_later: "accounted token xs h \<Longrightarrow> accounted token xs (h @ h')"
  by (auto simp: accounted_def seen_htlc_def)

lemma wp_check_swap:
  assumes "\<And>h'. seen_htlc swap (h @ h') \<Longrightarrow> Q () (h @ h')"
  shows "wp evidence_guard (check_swap rc swap) Q (\<lambda>_ _. True) h"
  unfolding check_swap_def
  by (intro wp_rules wp_act_on_status TrueI)
    (use assms in \<open>auto simp: htlc_status_def seen_htlc_def split: htlc_answer.splits option.splits if_splits\<close>)

lemma wp_ask_from: "(\<And>s. Q (f s) h) \<Longrightarrow> wp J (ask f) Q E h"
  by (rule wpI) (auto simp: ask_def)

lemma wp_sweep:
  "accounted token ys h \<Longrightarrow>
   wp evidence_guard (sweep_swaps rc token xs) (\<lambda>_ h. accounted token (ys @ xs) h) (\<lambda>_ _. True) h"
proof (induction xs arbitrary: ys h)
  case Nil
  then show ?case by (simp add: wp_ret)
next
  case (Cons x xs)
  have k: "wp evidence_guard (sweep_swaps rc token xs) (\<lambda>_ h. accounted token (ys @ x # xs) h) (\<lambda>_ _. True) h'"
    if "accounted token (ys @ [x]) h'" for h'
    using Cons.IH [of "ys @ [x]" h'] that by simp
  have v: "wp evidence_guard (case classify_swap d token x of SkipSwap \<Rightarrow> sweep_swaps rc token xs | CheckSwap \<Rightarrow>
        seq (check_swap rc x) (sweep_swaps rc token xs) | FailSwap m \<Rightarrow> fail m)
      (\<lambda>_ h. accounted token (ys @ x # xs) h) (\<lambda>_ _. True) h" for d
  proof (cases "classify_swap d token x")
    case SkipSwap
    then have "accounted token (ys @ [x]) h"
      using Cons.prems by (auto simp: accounted_def classify_swap_def states_requiring_htlc_def split: if_splits option.splits)
    then show ?thesis using k SkipSwap by simp
  next
    case CheckSwap
    then have "accounted token (ys @ [x]) (h @ h')" if "seen_htlc x (h @ h')" for h'
      using accounted_later [OF Cons.prems, of h'] that
      by (auto simp: accounted_def classify_swap_def split: if_splits option.splits)
    then show ?thesis using CheckSwap by (auto intro!: wp_rules wp_check_swap k)
  qed (simp add: wp_fail)
  show ?case unfolding sweep_swaps.simps by (rule wp_bnd, rule wp_ask_from, rule v)
qed

lemma wp_resolve_intent: "wp evidence_guard (resolve_intent rc token i) (\<lambda>_ _. True) (\<lambda>_ _. True) h"
proof -
  have e: "wp evidence_guard (escalate rc sw i st) (\<lambda>_ _. True) E h" if "\<And>e h. E e h" for sw st h E
    unfolding escalate_def by (intro wp_rules TrueI that) simp_all
  have m: "wp evidence_guard (intent_by_manager rc f sw i) (\<lambda>_ _. True) (\<lambda>_ _. True) h" for f sw h
    unfolding intent_by_manager_def rethrow_def intent_confirmed_def with_reservation_def commit_advance_def
    by (intro wp_rules wp_or_recover e TrueI) (auto simp: evidence_guard_def)
  have c: "wp evidence_guard (intent_by_htlc rc f x k i) (\<lambda>_ _. True) (\<lambda>_ _. True) h" for f x k h
    unfolding intent_by_htlc_def rethrow_def with_reservation_def move_reservation_def
    by (intro wp_rules wp_or_recover TrueI)
      (auto simp: evidence_guard_def htlc_evidence_status_def split: htlc_answer.splits option.splits if_splits)
  show ?thesis
    unfolding resolve_intent_def
    by (intro wp_rules wp_post [OF e [OF TrueI]] m c TrueI) 
qed

lemma wp_intents: "wp evidence_guard (each_intent rc token is) (\<lambda>_ _. True) (\<lambda>_ _. True) h"
  by (induction "is" arbitrary: h) (simp_all add: wp_ret, intro wp_rules wp_post [OF wp_resolve_intent], simp_all)

lemma wp_execute: "(\<And>x h'. Q x (h @ h')) \<Longrightarrow> wp evidence_guard (executeCapacityReconciliation rc token) Q (\<lambda>_ _. True) h"
  unfolding executeCapacityReconciliation_def close_capacity_def
  by (intro wp_rules TrueI) simp_all

fun chain_verified :: "string \<Rightarrow> inv_event \<Rightarrow> bool" where
  "chain_verified token (KvVerify c t (Inr (valid, r))) \<longleftrightarrow> t = token \<and> valid" | "chain_verified token _ = False"

definition boot_accounted :: "string \<Rightarrow> readiness_state \<Rightarrow> inv_event list \<Rightarrow> bool" where
  "boot_accounted token st h \<longleftrightarrow> (st = IR_READY \<longrightarrow> seen (chain_verified token) h \<and>
     (\<exists>xs. KvActive xs \<in> set h \<and> accounted token xs h))"

lemma wp_boot: "wp evidence_guard (reconcileOnBoot rc t) (\<lambda>x h. boot_accounted (token_of rc t) (fst x) h) (\<lambda>_ _. True) []"
proof -
  let ?tok = "token_of rc t"
  let ?V = "seen (chain_verified ?tok)"
  have f: "wp evidence_guard (capacity_failed rc ?tok e) (\<lambda>x h. boot_accounted ?tok (fst x) h) (\<lambda>_ _. True) h" for e h
    unfolding capacity_failed_def Let_def by (intro wp_rules) (simp_all add: boot_accounted_def)
  have i: "wp evidence_guard (reconcileUnresolvedFundingIntents rc ?tok) (\<lambda>_. ?V) (\<lambda>_ _. True) h" if "?V h" for h
    unfolding reconcileUnresolvedFundingIntents_def
    by (intro wp_rules wp_post [OF wp_history [OF wp_intents]]) (use that in auto)
  have a: "wp evidence_guard (reconcileActiveSwaps rc ?tok)
      (\<lambda>_ h. ?V h \<and> (\<exists>xs. KvActive xs \<in> set h \<and> accounted ?tok xs h)) (\<lambda>_ _. True) h" if "?V h" for h
    unfolding reconcileActiveSwaps_def
    by (intro wp_rules wp_post [OF wp_history [OF wp_sweep [where ys = "[]"]]]) (use that in \<open>auto simp: accounted_def\<close>)
  have p: "wp evidence_guard (boot_phases rc ?tok) (\<lambda>x h. boot_accounted ?tok (fst x) h) (\<lambda>_ _. True) h" for h
    unfolding boot_phases_def
    by (intro wp_rules wp_post [OF i] wp_post [OF a] wp_execute TrueI)
      (auto simp: boot_accounted_def intro!: wp_rules wp_execute intro: accounted_later)
  show ?thesis
    unfolding reconcileOnBoot_def Let_def
    by (intro wp_rules wp_post [OF p] f) simp_all
qed

text \<open>During start-up reconciliation reservations move only on evidence about their own swap: settled only after the
  HTLC of the swap was seen claimed, given back only after it was seen refunded, committed only after it was seen locked or the
  transaction manager reported the funding confirmed; and a swap state is overwritten only after its HTLC was seen to exist.
  An absent, malformed or unreadable HTLC moves nothing.\<close>

theorem reservation_needs_evidence:
  assumes "trace (reconcileOnBoot rc tokenAddress) s = pre @ ev # post"
  shows "(ev = KvSettle i rid r \<longrightarrow> seen (shows_htlc i {2}) pre) \<and>
    (ev = KvRestore i rid r \<longrightarrow> seen (shows_htlc i {3}) pre) \<and>
    (ev = KvCommit i rid r \<or> ev = KvCommitAdvance i rid r \<longrightarrow> seen (shows_htlc i {1}) pre \<or> seen (shows_confirmed i) pre) \<and>
    (ev = KvUpdateSwap i st r' \<longrightarrow> seen (shows_htlc i {1, 2, 3}) pre)"
  using wp_at [OF wp_boot assms] by (auto simp: evidence_guard_def)

text \<open>C21: A boot ends READY only when chain and token were verified and every active swap is accounted for: of the
  non-terminal swaps it read, none of the token was in recovery or review, and for each whose state needs a funded HTLC that HTLC
  was seen locked, claimed or refunded.\<close>

theorem boot_ready_accounts:
  assumes "reconcileOnBoot rc tokenAddress s = (Inr (IR_READY, headroom, e), t, s')"
  shows "seen (chain_verified (token_of rc tokenAddress)) t \<and>
    (\<exists>xs. KvActive xs \<in> set t \<and> (\<forall>x \<in> set xs. same_token (token_of rc tokenAddress) x \<longrightarrow>
       r_state x \<notin> {SA_RECOVERY_REQUIRED, SA_MANUAL_REVIEW} \<and>
       (r_state x \<in> set states_requiring_htlc \<longrightarrow> seen (shows_htlc (r_id x) {1, 2, 3}) t)))"
  using wpD [OF wp_boot assms] by (simp add: boot_accounted_def accounted_def seen_htlc_def)

section \<open>The inventory over the reconciler\<close>

lemma readiness_READY:
  assumes "reconciler_readiness rc tokenAddress s = IR_READY"
  obtains row where "k_readiness s = IR_READY" "getLatestChainInventorySnapshot (token_of rc tokenAddress) (k_db s) = Some row"
    "kr_now rc s - sn_observed_at row \<le> ip_maxFreshnessMs (kr_policy rc)"
    "\<forall>x \<in> set (listNonTerminalSovereignSwaps (k_db s)). same_token (token_of rc tokenAddress) x \<longrightarrow>
       r_recoveryRequired x \<noteq> Some True \<and> r_state x \<notin> {SA_RECOVERY_REQUIRED, SA_MANUAL_REVIEW}"
  using assms by (auto simp: reconciler_readiness_def Let_def split: if_splits option.splits)

text \<open>A new reservation granted by the inventory over a reconciler is safe: the reconciler remembers READY, no active swap of the
  token waits for recovery, the wallet was observed within the freshness of the policy, and the stored snapshot is READY and its
  capacity covers all obligations R + P and the new amount.\<close>

theorem inventory_grant_backed:
  assumes "inv_reserve sq amount token (Some e) s = (Inr (rid, True), t, s')" "sq_reconciler sq = Some rc"
    "owned_reservation e (k_db s) = None"
  shows "k_readiness s = IR_READY \<and>
    (\<forall>x \<in> set (listNonTerminalSovereignSwaps (k_db s)). same_token (to_lower token) x \<longrightarrow>
       r_recoveryRequired x \<noteq> Some True \<and> r_state x \<notin> {SA_RECOVERY_REQUIRED, SA_MANUAL_REVIEW}) \<and>
    (\<exists>row. getLatestChainInventorySnapshot (to_lower token) (k_db s) = Some row \<and> sn_readiness_state row = IR_READY \<and>
       kr_now rc s - sn_observed_at row \<le> ip_maxFreshnessMs (kr_policy rc) \<and>
       obligations (to_lower token) (k_db s) + amount \<le> sn_safe_wallet_capacity row)"
proof -
  have tok: "token_of rc (Some token) = to_lower token" by (simp add: token_of_def)
  have r: "reconciler_readiness rc (Some token) s = IR_READY"
    using assms(1,2)
    by (auto simp: inv_reserve_def reserve_gate_def seq_def bnd_def ask_def ret_def thr_def fail_def split: if_splits)
  obtain row where row: "k_readiness s = IR_READY" "getLatestChainInventorySnapshot (to_lower token) (k_db s) = Some row"
    "kr_now rc s - sn_observed_at row \<le> ip_maxFreshnessMs (kr_policy rc)"
    "\<forall>x \<in> set (listNonTerminalSovereignSwaps (k_db s)). same_token (to_lower token) x \<longrightarrow>
       r_recoveryRequired x \<noteq> Some True \<and> r_state x \<notin> {SA_RECOVERY_REQUIRED, SA_MANUAL_REVIEW}"
    using readiness_READY [OF r] unfolding tok by metis
  obtain d' where v: "reserveLiquidity (sq_legacyFallback sq) e token amount (Some False) None (sq_now sq s) (sq_newId sq s) (k_db s)
      = (Inr (rid, True), d')"
    using assms(1,2) r
    by (auto simp: inv_reserve_def reserve_gate_def inv_store_def seq_def bnd_def ask_def ret_def Let_def map_sum_def
        split: prod.splits sum.splits)
  from v show ?thesis
  proof (cases rule: reserve_cases)
    case (granted av)
    have "sql_get (\<lambda>r. sn_token_address r = to_lower token) (chain_inventory_snapshots (k_db s)) = Some row"
      using row(2) by (simp add: getLatestChainInventorySnapshot_def)
    then show ?thesis using row reserve_capacity_snapshot [OF granted(4)] granted(5) by auto
  qed (use assms(3) in auto)
qed

section \<open>Runs\<close>

definition demo_observation :: capacity_observation where
  "demo_observation = \<lparr> ob_tokenAddress = ''t'', ob_chainId = 84532, ob_operatorAddress = ''o'', ob_walletBalanceLatest = 21,
     ob_walletBalanceFinalized = 20, ob_safeWalletCapacity = 20, ob_latestBlockNumber = 10, ob_finalizedBlockNumber = 8,
     ob_blockHash = None, ob_observedAt = 5 \<rparr>"

definition demo_reconciler :: "bool \<Rightarrow> int \<Rightarrow> unit reconciler" where
  "demo_reconciler valid status = \<lparr> kr_provider = \<lparr> cp_verifyChainAndToken = (\<lambda>c t s. (Inr (valid, None), s)),
       cp_observeWalletCapacity = (\<lambda>t s. (Inr demo_observation, s)),
       cp_getContractHtlcState = Some (\<lambda>h s. (Inr (HtStatus (Some status)), s)), cp_rehydrateBindings = None,
       cp_reconcileIntent = None \<rparr>,
     kr_defaultTokenAddress = ''t'', kr_expectedChainId = 84532, kr_policy = BASE_SEPOLIA_TEST_POLICY, kr_now = (\<lambda>s. 6) \<rparr>"

definition demo_ksys :: "db \<Rightarrow> unit ksys" where
  "demo_ksys d = \<lparr> k_db = d, k_readiness = IR_NOT_READY, k_lastTime = 0, k_lastSnapshot = None, k_world = () \<rparr>"

definition demo_htlc_db :: "swap_state \<Rightarrow> db" where
  "demo_htlc_db st = demo_funding_db\<lparr>sovereign_swaps := [(demo_swap st)\<lparr>sw_evm_htlc_id := Some ''h''\<rparr>]\<rparr>"

abbreviation demo_boot :: "(inv_error + readiness_state \<times> int \<times> string option) \<times> inv_event list \<times> unit ksys" where
  "demo_boot \<equiv> reconcileOnBoot (demo_reconciler True 1) None (demo_ksys (demo_htlc_db SA_EVM_FUNDED))"

lemma demo_boot_ready: "fst demo_boot = Inr (IR_READY, 20, None)"
  by code_simp

lemma demo_boot_run: "\<exists>t s'. demo_boot = (Inr (IR_READY, 20, None), t, s')"
  using demo_boot_ready by (metis prod.collapse)

theorem boot_ready_accounts_witness:
  "seen (chain_verified ''t'') (trace (reconcileOnBoot (demo_reconciler True 1) None) (demo_ksys (demo_htlc_db SA_EVM_FUNDED)))"
proof -
  obtain t s' where b: "demo_boot = (Inr (IR_READY, 20, None), t, s')" using demo_boot_run by blast
  have "token_of (demo_reconciler True 1) None = ''t''" by code_simp
  then show ?thesis using boot_ready_accounts [OF b] b by (simp add: trace_def)
qed

definition is_commit :: "inv_event \<Rightarrow> bool" where
  "is_commit e = (case e of KvCommitAdvance i rid r \<Rightarrow> i = ''e1'' | _ \<Rightarrow> False)"

lemma demo_boot_commits: "list_ex is_commit (fst (snd demo_boot))"
  by code_simp

theorem reservation_needs_evidence_witness:
  "\<exists>pre e post. trace (reconcileOnBoot (demo_reconciler True 1) None) (demo_ksys (demo_htlc_db SA_EVM_FUNDED)) = pre @ e # post \<and>
     is_commit e \<and> (seen (shows_htlc ''e1'' {1}) pre \<or> seen (shows_confirmed ''e1'') pre)"
proof -
  obtain pre e post where t: "trace (reconcileOnBoot (demo_reconciler True 1) None) (demo_ksys (demo_htlc_db SA_EVM_FUNDED)) = pre @ e # post"
    "is_commit e"
    using demo_boot_commits by (metis list_ex_iff split_list trace_def)
  then obtain rid r where "e = KvCommitAdvance ''e1'' rid r" by (auto simp: is_commit_def split: inv_event.splits)
  then show ?thesis using reservation_needs_evidence [OF t(1)] t by blast
qed

abbreviation demo_reconciled :: "(inv_error + readiness_state \<times> int) \<times> inv_event list \<times> unit ksys" where
  "demo_reconciled \<equiv> reconcile (demo_reconciler True 1) None (demo_ksys (demo_htlc_db SA_EVM_FUNDED))"

lemma demo_reconciled_ready: "fst demo_reconciled = Inr (IR_READY, 15)"
  by code_simp

theorem reconcile_ready_backed_witness:
  "covered ''t'' (reserve_run False demo_calls (k_db (snd (snd demo_reconciled))))"
proof -
  have r: "demo_reconciled = (Inr (IR_READY, 15), fst (snd demo_reconciled), snd (snd demo_reconciled))"
    using demo_reconciled_ready by (metis prod.collapse)
  have p: "ip_failClosedOnDeficit (kr_policy (demo_reconciler True 1))" by code_simp
  have a: "amounts_ok (k_db (snd (snd demo_reconciled)))" by code_simp
  have "token_of (demo_reconciler True 1) None = ''t''" by code_simp
  with reconcile_ready_backed [OF r p] a show ?thesis by simp
qed

definition demo_inventory :: "unit inventory" where
  "demo_inventory = \<lparr> sq_reconciler = Some (demo_reconciler True 1), sq_legacyFallback = False, sq_now = (\<lambda>s. 6),
     sq_uuid = (\<lambda>s. ''u''), sq_newId = (\<lambda>s. ''r2'') \<rparr>"

theorem inventory_grant_backed_witness:
  "\<exists>row. getLatestChainInventorySnapshot ''t'' (k_db (snd (snd demo_boot))) = Some row \<and>
     obligations ''t'' (k_db (snd (snd demo_boot))) + 7 \<le> sn_safe_wallet_capacity row"
proof -
  have "fst (inv_reserve demo_inventory 7 ''t'' (Some ''e2'') (snd (snd demo_boot))) = Inr (''r2'', True)" by code_simp
  then obtain t s' where r: "inv_reserve demo_inventory 7 ''t'' (Some ''e2'') (snd (snd demo_boot)) = (Inr (''r2'', True), t, s')"
    by (metis prod.collapse)
  have c: "sq_reconciler demo_inventory = Some (demo_reconciler True 1)" by (simp add: demo_inventory_def)
  have n: "owned_reservation ''e2'' (k_db (snd (snd demo_boot))) = None" by code_simp
  from inventory_grant_backed [OF r c n] show ?thesis by auto
qed

text \<open>
  The finding on the boot protocol: a boot that refused the chain or the token leaves NOT_READY, and the next reconciliation,
  which verifies neither and looks at no swap, makes the inventory READY.
\<close>

lemma boot_refusal_bypassed:
  "fst (reconcileOnBoot (demo_reconciler False 1) None (demo_ksys (demo_htlc_db SA_EVM_FUNDED))) =
     Inr (IR_NOT_READY, 0, Some ''CHAIN_TOKEN_VERIFICATION_FAILED'')"
  "reconciler_readiness (demo_reconciler False 1) None (snd (snd (reconcile (demo_reconciler False 1) None
     (snd (snd (reconcileOnBoot (demo_reconciler False 1) None (demo_ksys (demo_htlc_db SA_EVM_FUNDED)))))))) = IR_READY"
  by code_simp+

text \<open>
  The finding on terminal swaps: without a transaction manager, an open funding intent of a COMPLETED swap whose HTLC is claimed
  takes the swap back to EVM_CLAIM_DETECTED and marks it for recovery.
\<close>

definition demo_completed_db :: db where
  "demo_completed_db = (demo_htlc_db SA_COMPLETED)\<lparr>
     sovereign_swaps := [(demo_swap SA_COMPLETED)\<lparr>sw_evm_htlc_id := Some ''h'', sw_evm_swap_key := Some ''s''\<rparr>],
     liquidity_reservations := [demo_reservation RS_SETTLED],
     evm_transaction_intents := [\<lparr> it_id = ''i'', it_swap_key = ''s'', it_action_type = AT_FUND, it_chain_id = 84532,
       it_signer_address = ''o'', it_target_contract = ''c'', it_calldata_hash = '''', it_calldata_bytes = '''', it_value_wei = 0,
       it_nonce = Some 1, it_status = EI_PENDING, it_canonical_tx_hash = None, it_failure_reason = None, it_created_at = 0,
       it_updated_at = 0 \<rparr>]\<rparr>"

lemma completed_swap_reopened:
  "map_option (\<lambda>x. (r_state x, r_recoveryRequired x)) (getSovereignSwap ''e1'' (k_db (snd (snd
     (reconcileOnBoot (demo_reconciler True 2) None (demo_ksys demo_completed_db)))))) =
   Some (SA_EVM_CLAIM_DETECTED, Some True)"
  by code_simp

end
