(* ===== verification/Base_Backend.thy ===== *)
theory Base_Backend
  imports Coord_Ops Chain_Reconciler Fake_Inventory
begin

text \<open>
  The backend for Base Sepolia (\<open>src/src/atomic/evm/base-sepolia-backend.ts\<close>) with its network guard
  (\<open>base-guard.ts\<close>): it funds and refunds HTLCs through the transaction manager, observes them, and checks the evidence of
  a claim before Lightning may be settled.

  The client (\<open>publicClient\<close>, wallet) is a record of functions on the whole state of the backend, each of which may answer and change
  anything. ABI encoding, decoding and the hash functions are parameters. The answer of \<open>getHtlc\<close> is untyped in the code, so
  its status is a number, a \<open>bigint\<close> or something else.
\<close>

section \<open>Errors and constants\<close>

definition named_error :: "string \<Rightarrow> string \<Rightarrow> js_error" where
  "named_error name m = JsError True name m '''' '''' None"

definition gate_error :: "string \<Rightarrow> js_error" where
  "gate_error m = named_error ''LightningSettlementGateError'' (''LIGHTNING_SETTLEMENT_GATE_VIOLATION: '' @ m)"

definition undefined_read :: js_error where
  "undefined_read = named_error ''TypeError'' ''Cannot read properties of undefined''"

definition BASE_SEPOLIA_CHAIN_ID :: int where "BASE_SEPOLIA_CHAIN_ID = 84532"
definition BASE_MAINNET_CHAIN_ID :: int where "BASE_MAINNET_CHAIN_ID = 8453"
definition OFFICIAL_USDC_DECIMALS :: int where "OFFICIAL_USDC_DECIMALS = 6"
definition PINNED_HTLC_BYTECODE_RAW_SHA256 :: string where
  "PINNED_HTLC_BYTECODE_RAW_SHA256 = ''8627fe35109888bbb58873f4e8f3beb90c7c0efee1411f81de9aa21a602e1d67''"
definition zero_address :: string where
  "zero_address = ''0x0000000000000000000000000000000000000000''"

section \<open>The network guard\<close>

definition assertBaseSepoliaNetwork :: "int \<Rightarrow> js_error + unit" where
  "assertBaseSepoliaNetwork chainId =
    (if chainId = BASE_MAINNET_CHAIN_ID
     then Inl (named_error ''BaseNetworkGuardError'' ''BASE_NETWORK_GUARD_VIOLATION: Attempted mutation on Base Mainnet'')
     else if chainId \<noteq> BASE_SEPOLIA_CHAIN_ID
     then Inl (named_error ''BaseNetworkGuardError'' ''BASE_NETWORK_GUARD_VIOLATION: Expected Base Sepolia chain ID'')
     else Inr ())"

definition assertCanonicalBaseSepoliaUsdc :: "string \<Rightarrow> int option \<Rightarrow> js_error + unit" where
  "assertCanonicalBaseSepoliaUsdc tokenAddress decimals =
    (if to_lower tokenAddress \<noteq> to_lower OFFICIAL_BASE_SEPOLIA_USDC_ADDRESS
     then Inl (named_error ''BaseTokenGuardError'' ''BASE_TOKEN_GUARD_VIOLATION: TOKEN IDENTITY VIOLATION'')
     else if decimals \<noteq> None \<and> decimals \<noteq> Some OFFICIAL_USDC_DECIMALS
     then Inl (named_error ''BaseTokenGuardError'' ''BASE_TOKEN_GUARD_VIOLATION: TOKEN DECIMALS VIOLATION'')
     else Inr ())"

text \<open>\<open>Buffer.from(s, 'hex')\<close> as the hex text of its bytes: whole pairs of digits up to the first that is none.\<close>

fun hex_bytes :: "string \<Rightarrow> string" where
  "hex_bytes (a # b # s) = (if is_hex a \<and> is_hex b then char_lower a # char_lower b # hex_bytes s else [])"
| "hex_bytes _ = []"

definition assertContractBytecode :: "(string \<Rightarrow> string) \<Rightarrow> string \<Rightarrow> js_error + unit" where
  "assertContractBytecode sha256 deployed =
    (let clean = strip_0x deployed; err = (\<lambda>m. Inl (named_error ''BaseBytecodeMismatchError'' (''BASE_BYTECODE_MISMATCH: '' @ m)))
     in if length clean < 10 then err ''No contract bytecode found at specified address on Base Sepolia''
        else if length clean mod 2 \<noteq> 0 \<or> \<not> list_all is_hex clean then err ''Malformed bytecode hex representation''
        else if to_lower (sha256 (hex_bytes clean)) \<noteq> to_lower PINNED_HTLC_BYTECODE_RAW_SHA256
        then err ''Deployed Base Sepolia contract bytecode does not match pinned implementation raw hash''
        else Inr ())"

section \<open>Data\<close>

datatype js_value = JsNum int | JsBig int | JsOther

text \<open>\<open>typeof v === 'bigint' ? Number(v) : v\<close>, and \<open>v === n\<close> for a number \<open>n\<close>\<close>

fun plain_number :: "js_value \<Rightarrow> int option" where
  "plain_number (JsNum n) = Some n"
| "plain_number (JsBig n) = Some n"
| "plain_number JsOther = None"

record stored_htlc =
  sh_status :: js_value
  sh_amount :: int
  sh_hashLock :: string
  sh_claimAddress :: string
  sh_refundAddress :: string
  sh_timelock :: int

definition has_status :: "int \<Rightarrow> stored_htlc option \<Rightarrow> bool" where
  "has_status n stored \<longleftrightarrow> (case stored of None \<Rightarrow> False | Some x \<Rightarrow> sh_status x = JsNum n)"

record htlc_identity =
  hd_hashLock :: string
  hd_amountUnits :: int
  hd_tokenAddress :: string
  hd_sender :: string
  hd_claimAddress :: string
  hd_refundAddress :: string
  hd_refundLocktime :: int
  hd_chainId :: int

datatype contract_call =
    CallApprove string int
  | CallFund string int string string string int
  | CallRefund string

record chain_block =
  bk_timestamp :: int
  bk_hash :: "string option"

record funded_evidence =
  fe_chainId :: int
  fe_contractAddress :: string
  fe_htlcId :: string
  fe_hashLock :: string
  fe_token :: string
  fe_amount :: int
  fe_claimAddress :: string
  fe_refundAddress :: string
  fe_timelock :: int
  fe_txHash :: string
  fe_blockNumber :: int
  fe_blockTimestamp :: int

datatype htlc_evidence = FundedEv funded_evidence | ClaimedEv claim_evidence | RefundedEv refund_evidence

datatype action_status = ActionPending | ActionMined string

text \<open>Where a balance is read: \<open>blockTag: 'latest'\<close>, \<open>blockTag: 'finalized'\<close> or a block number.\<close>

datatype read_at = AtLatest | AtFinalized | AtBlock int

datatype base_event =
    BvChainId "js_error + int"
  | BvDecimals string "js_error + int"
  | BvBytecode string "js_error + string option"
  | BvCode string "js_error + string option"
  | BvBlockNumber "js_error + int"
  | BvBlock "int option" "js_error + chain_block"
  | BvBalance string read_at "js_error + int"
  | BvEth "js_error + int"
  | BvAllowance string string "js_error + int"
  | BvHtlc string string "js_error + stored_htlc option"
  | BvReceipt string "js_error + receipt option"
  | BvTransaction string "js_error + string"
  | BvWrite string contract_call "js_error + string"
  | BvWaitReceipt string "js_error + receipt"
  | BvExecute intent_params
  | BvTx tx_event

record 'w bsys =
  x_tx :: "'w tsys"
  x_keyToId :: "string \<Rightarrow> string option"
  x_idToKey :: "string \<Rightarrow> string option"
  x_evidenceLog :: "htlc_evidence list"
  x_durableActions :: "string \<Rightarrow> action_status option"
  x_htlcAddress :: string
  x_initialized :: bool

type_synonym ('w, 'a) bcall = "'w bsys \<Rightarrow> (js_error + 'a) \<times> 'w bsys"
type_synonym ('w, 'a) bact = "(js_error, base_event, 'w bsys, 'a) action"

section \<open>Configuration\<close>

record base_options =
  bo_chainId :: "int option"
  bo_htlcAddress :: "string option"
  bo_tokenAddress :: "string option"
  bo_operatorPrivateKey :: "string option"
  bo_requiredConfirmations :: "int option"
  bo_finalityPolicy :: "finality_policy option"
  bo_txRequiredConfirmations :: "int option"
  bo_persistence :: bool
  bo_unsafeDirectExecutionForTests :: bool

record base_settings =
  bs_chainId :: int
  bs_tokenAddress :: string
  bs_finalityPolicy :: finality_policy
  bs_operatorAddress :: "string option"
  bs_managed :: bool
  bs_unsafeDirect :: bool
  bs_persistence :: bool

text \<open>
  What the constructor decides; it also starts from \<open>htlcAddress\<close>, by default the zero address. \<open>account\<close> is the address of a private key.
\<close>

definition base_settings_of :: "(string \<Rightarrow> string) \<Rightarrow> base_options \<Rightarrow> js_error + base_settings" where
  "base_settings_of account config =
    (let finality = coalesce (bo_finalityPolicy config)
           \<lparr> fl_policyTag = ''BASE_SEPOLIA_TEST_POLICY'', fl_requiredConfirmations = coalesce (bo_requiredConfirmations config) 2 \<rparr>;
         operator = map_option account (truthy_str (bo_operatorPrivateKey config))
     in if bo_requiredConfirmations config \<noteq> None \<and>
           bo_requiredConfirmations config \<noteq> Some (fl_requiredConfirmations finality)
        then Inl (plain_error ''FINALITY_POLICY_MISMATCH: Backend confirmation settings disagree'')
        else if bo_txRequiredConfirmations config \<noteq> None \<and>
           bo_txRequiredConfirmations config \<noteq> Some (fl_requiredConfirmations finality)
        then Inl (plain_error ''FINALITY_POLICY_MISMATCH: Transaction manager confirmation settings disagree'')
        else if operator \<noteq> None \<and> \<not> bo_persistence config \<and> \<not> bo_unsafeDirectExecutionForTests config
        then Inl (plain_error ''RELIABILITY_MANAGER_REQUIRED: Live Base execution with operator signer requires SqlitePersistence'')
        else Inr \<lparr> bs_chainId = coalesce (bo_chainId config) BASE_SEPOLIA_CHAIN_ID,
               bs_tokenAddress = coalesce (bo_tokenAddress config) OFFICIAL_BASE_SEPOLIA_USDC_ADDRESS,
               bs_finalityPolicy = finality, bs_operatorAddress = operator,
               bs_managed = (operator \<noteq> None \<and> bo_persistence config),
               bs_unsafeDirect = (operator \<noteq> None \<and> \<not> bo_persistence config),
               bs_persistence = bo_persistence config \<rparr>)"

record 'w base_backend =
  bc_settings :: base_settings
  bc_manager :: "'w tx_manager"
  bc_chainId :: "('w, int) bcall"
  bc_decimals :: "string \<Rightarrow> ('w, int) bcall"
  bc_bytecode :: "string \<Rightarrow> ('w, string option) bcall"
  bc_code :: "string \<Rightarrow> ('w, string option) bcall"
  bc_blockNumber :: "('w, int) bcall"
  bc_block :: "int option \<Rightarrow> ('w, chain_block) bcall"
  bc_balanceOf :: "string \<Rightarrow> read_at \<Rightarrow> ('w, int) bcall"
  bc_ethBalance :: "('w, int) bcall"
  bc_allowance :: "string \<Rightarrow> string \<Rightarrow> ('w, int) bcall"
  bc_getHtlc :: "string \<Rightarrow> string \<Rightarrow> ('w, stored_htlc option) bcall"
  bc_receipt :: "string \<Rightarrow> ('w, receipt option) bcall"
  bc_transaction :: "string \<Rightarrow> ('w, string) bcall"
  bc_write :: "string \<Rightarrow> contract_call \<Rightarrow> ('w, string) bcall"
  bc_waitReceipt :: "string \<Rightarrow> ('w, receipt) bcall"
  bc_encodeIdentity :: "htlc_identity \<Rightarrow> js_error + string"
  bc_encodeCall :: "contract_call \<Rightarrow> js_error + string"
  bc_decodeCall :: "string \<Rightarrow> js_error + string \<times> string list"
  bc_keccak :: "string \<Rightarrow> string"
  bc_sha256 :: "string \<Rightarrow> string"
  bc_nowMs :: "'w bsys \<Rightarrow> int"
  bc_others :: "'w bsys \<Rightarrow> 'w bsys"

definition raise :: "(js_error + 'a) \<Rightarrow> ('w, 'a) bact" where
  "raise r = (case r of Inl e \<Rightarrow> thr e | Inr x \<Rightarrow> ret x)"

definition throw_error :: "string \<Rightarrow> ('w, 'a) bact" where
  "throw_error m = thr (plain_error m)"

definition requiredConfirmations :: "'w base_backend \<Rightarrow> int" where
  "requiredConfirmations b = fl_requiredConfirmations (bs_finalityPolicy (bc_settings b))"

text \<open>\<open>this.htlcAddress\<close>\<close>

definition htlc_address :: "('w, string) bact" where
  "htlc_address = ask x_htlcAddress"

section \<open>Bindings and guards\<close>

definition bind_htlc :: "string \<Rightarrow> string \<Rightarrow> 'w bsys \<Rightarrow> 'w bsys" where
  "bind_htlc swapKey htlcId s = s\<lparr>x_keyToId := (x_keyToId s)(swapKey \<mapsto> htlcId), x_idToKey := (x_idToKey s)(htlcId \<mapsto> swapKey)\<rparr>"

definition base_db :: "'w bsys \<Rightarrow> db" where
  "base_db s = t_db (x_tx s)"

definition rehydrateBindings :: "'w base_backend \<Rightarrow> ('w, nat) bact" where
  "rehydrateBindings b =
    (if \<not> bs_persistence (bc_settings b) then ret 0
     else bnd (ask (\<lambda>s. listSovereignSwapsWithEvmBindings (base_db s))) (\<lambda>bindings.
       seq (change (fold (\<lambda>(i, swapKey, htlcId). bind_htlc swapKey htlcId) bindings))
       (ret (length bindings))))"

definition setHtlcAddress :: "string \<Rightarrow> ('w, unit) bact" where
  "setHtlcAddress address = change (\<lambda>s. s\<lparr>x_htlcAddress := address\<rparr>)"

definition check_guards :: "'w base_backend \<Rightarrow> ('w, unit) bact" where
  "check_guards b =
    (let token = bs_tokenAddress (bc_settings b) in
     bnd (call BvChainId (bc_chainId b)) (\<lambda>actualChainId.
     seq (raise (assertBaseSepoliaNetwork actualChainId))
     (bnd (call (BvDecimals token) (bc_decimals b token)) (\<lambda>decimals.
     seq (raise (assertCanonicalBaseSepoliaUsdc token (Some decimals)))
     (bnd htlc_address (\<lambda>htlc.
     seq (if htlc = zero_address then ret ()
          else bnd (call (BvBytecode htlc) (bc_bytecode b htlc)) (\<lambda>bytecode.
            raise (assertContractBytecode (bc_sha256 b) (coalesce bytecode ''0x''))))
     (change (\<lambda>s. s\<lparr>x_initialized := True\<rparr>))))))))"

definition ensureGuards :: "'w base_backend \<Rightarrow> ('w, unit) bact" where
  "ensureGuards b = bnd (ask x_initialized) (\<lambda>initialized. if initialized then ret () else check_guards b)"

definition computeHtlcId :: "'w base_backend \<Rightarrow> htlc_identity \<Rightarrow> js_error + string" where
  "computeHtlcId b params = map_sum id (bc_keccak b) (bc_encodeIdentity b params)"

definition base_getBlockTimestamp :: "'w base_backend \<Rightarrow> ('w, int) bact" where
  "base_getBlockTimestamp b = bnd (call (BvBlock None) (bc_block b None)) (\<lambda>block. ret (bk_timestamp block))"

text \<open>\<open>blockTimestamp\<close> of evidence: of the block, or the clock where the block cannot be read.\<close>

definition timestamp_or_clock :: "'w base_backend \<Rightarrow> int \<Rightarrow> ('w, int) bact" where
  "timestamp_or_clock b blockNumber =
    bnd (ask (\<lambda>s. bc_nowMs b s div 1000)) (\<lambda>now.
    attempt (bnd (call (BvBlock (Some blockNumber)) (bc_block b (Some blockNumber))) (\<lambda>block. ret (bk_timestamp block)))
      (\<lambda>_. ret now))"

definition read_htlc :: "'w base_backend \<Rightarrow> string \<Rightarrow> ('w, stored_htlc option) bact" where
  "read_htlc b htlcId = bnd htlc_address (\<lambda>htlc. call (BvHtlc htlc htlcId) (bc_getHtlc b htlc htlcId))"

text \<open>\<open>for (let i = 0; i < 10; i++)\<close>: read the HTLC until it has the wanted status, a second apart; the last answer is kept.\<close>

fun poll_htlc :: "'w base_backend \<Rightarrow> string \<Rightarrow> int \<Rightarrow> nat \<Rightarrow> stored_htlc option \<Rightarrow> ('w, stored_htlc option) bact" where
  "poll_htlc b htlcId want 0 stored = ret stored"
| "poll_htlc b htlcId want (Suc n) stored =
    bnd (attempt (bnd (read_htlc b htlcId) (\<lambda>x. ret (x, has_status want x))) (\<lambda>_. ret (stored, False))) (\<lambda>(x, done).
    if done then ret x else seq (change (bc_others b)) (poll_htlc b htlcId want n x))"

section \<open>Observing\<close>

definition observe_capacity :: "'w base_backend \<Rightarrow> string \<Rightarrow> ('w, capacity_observation) bact" where
  "observe_capacity b token =
    (case bs_operatorAddress (bc_settings b) of
       None \<Rightarrow> throw_error ''NO_OPERATOR_ADDRESS: Operator wallet is not configured''
     | Some operator \<Rightarrow>
         bnd (call BvBlockNumber (bc_blockNumber b)) (\<lambda>latestBlockNumber.
         bnd (call (BvBalance token AtLatest) (bc_balanceOf b token AtLatest)) (\<lambda>latest.
         let finalizedBlockNumber = max 0 (latestBlockNumber - requiredConfirmations b) in
         bnd (attempt (call (BvBalance token AtFinalized) (bc_balanceOf b token AtFinalized))
                (\<lambda>_. attempt (call (BvBalance token (AtBlock finalizedBlockNumber))
                               (bc_balanceOf b token (AtBlock finalizedBlockNumber)))
                       (\<lambda>e. throw_error (''FINALITY_OBSERVATION_FAILED: '' @ je_message e)))) (\<lambda>finalized.
         bnd (attempt (bnd (call (BvBlock (Some latestBlockNumber)) (bc_block b (Some latestBlockNumber)))
                         (\<lambda>block. ret (bk_hash block))) (\<lambda>_. ret None)) (\<lambda>blockHash.
         bnd (ask (bc_nowMs b)) (\<lambda>now.
         ret \<lparr> ob_tokenAddress = token, ob_chainId = bs_chainId (bc_settings b), ob_operatorAddress = operator,
               ob_walletBalanceLatest = latest, ob_walletBalanceFinalized = finalized,
               ob_safeWalletCapacity = (if latest < finalized then latest else finalized),
               ob_latestBlockNumber = latestBlockNumber, ob_finalizedBlockNumber = finalizedBlockNumber,
               ob_blockHash = blockHash, ob_observedAt = now \<rparr>))))))"

definition base_observeWalletCapacity :: "'w base_backend \<Rightarrow> string \<Rightarrow> ('w, capacity_observation) bact" where
  "base_observeWalletCapacity b tokenAddress = seq (ensureGuards b) (observe_capacity b (to_lower tokenAddress))"

definition base_verifyChainAndToken :: "'w base_backend \<Rightarrow> int \<Rightarrow> string \<Rightarrow> ('w, bool \<times> string option) bact" where
  "base_verifyChainAndToken b expectedChainId tokenAddress =
    (let token = to_lower tokenAddress; invalid = (\<lambda>m. ret (False, Some m)) in
     attempt
      (bnd (call BvChainId (bc_chainId b)) (\<lambda>chainId.
       if chainId \<noteq> expectedChainId then invalid ''WRONG_CHAIN_ID''
       else if token \<noteq> to_lower OFFICIAL_BASE_SEPOLIA_USDC_ADDRESS then invalid ''TOKEN_CONTRACT_MISMATCH''
       else
         bnd (call (BvCode token) (bc_code b token)) (\<lambda>code.
         if truthy_str code = None \<or> code = Some ''0x'' then invalid ''TOKEN_CONTRACT_NOT_FOUND''
         else
           bnd (call (BvDecimals token) (bc_decimals b token)) (\<lambda>decimals.
           if decimals \<noteq> 6 then invalid ''INVALID_TOKEN_DECIMALS'' else ret (True, None)))))
      (\<lambda>e. invalid (''CHAIN_TOKEN_VERIFICATION_FAILED: '' @ je_message e)))"

text \<open>The on-chain identity of a swap: the binding in memory, the stored one, or computed from the stored terms; \<open>None\<close> when the
  transaction journal proves that nothing was dispatched.\<close>

definition swap_identity :: "'w base_backend \<Rightarrow> string \<Rightarrow> swap_rec \<Rightarrow> js_error + htlc_identity" where
  "swap_identity b swapKey swap =
    (case (bs_operatorAddress (bc_settings b), truthy_num (r_refundLocktime swap), truthy_str (r_tokenAddress swap),
           truthy_str (r_refundAddress swap)) of
       (Some operator, Some locktime, Some token, Some refund) \<Rightarrow>
         Inr \<lparr> hd_hashLock = r_hashLock swap, hd_amountUnits = r_expectedUsdcAmount swap, hd_tokenAddress = token,
               hd_sender = operator, hd_claimAddress = r_claimingAddress swap, hd_refundAddress = refund,
               hd_refundLocktime = locktime, hd_chainId = bs_chainId (bc_settings b) \<rparr>
     | _ \<Rightarrow> Inl (plain_error (''HTLC_BINDING_UNKNOWN: FUND attempt exists for '' @ swapKey @
              '', but deterministic HTLC inputs are incomplete'')))"

definition never_dispatched :: "string \<Rightarrow> db \<Rightarrow> bool" where
  "never_dispatched swapKey d \<longleftrightarrow> (case getEvmIntentBySwapKey swapKey AT_FUND d of
     None \<Rightarrow> True | Some fundIntent \<Rightarrow> getEvmAttemptsForIntent (it_id fundIntent) d = [])"

definition remember :: "string \<Rightarrow> string \<Rightarrow> ('w, string option) bact" where
  "remember swapKey htlcId = seq (change (bind_htlc swapKey htlcId)) (ret (Some htlcId))"

definition resolve_binding :: "'w base_backend \<Rightarrow> string \<Rightarrow> ('w, string option) bact" where
  "resolve_binding b swapKey =
    bnd (ask (\<lambda>s. (truthy_str (x_keyToId s swapKey), base_db s))) (\<lambda>(known, d).
    let unknown = throw_error (''HTLC_BINDING_UNKNOWN: Cannot authoritatively derive HTLC identity for '' @ swapKey) in
    case known of
      Some htlcId \<Rightarrow> ret (Some htlcId)
    | None \<Rightarrow>
        if \<not> bs_persistence (bc_settings b) then unknown
        else
          (case getSovereignSwapBySwapKey swapKey d of
             None \<Rightarrow> unknown
           | Some swap \<Rightarrow>
               (case truthy_str (r_evmHtlcId swap) of
                  Some htlcId \<Rightarrow> remember swapKey htlcId
                | None \<Rightarrow>
                    if never_dispatched swapKey d then ret None
                    else bnd (raise (swap_identity b swapKey swap)) (\<lambda>params.
                         bnd (raise (computeHtlcId b params)) (remember swapKey)))))"

definition htlc_state_of :: "int \<Rightarrow> stored_htlc \<Rightarrow> int \<Rightarrow> htlc_state" where
  "htlc_state_of status stored blockTimestamp = \<lparr> os_htlcId = None, os_funded = Some (status = 1 \<or> status = 2 \<or> status = 3),
     os_completed = Some (status = 2), os_refunded = Some (status = 3),
     os_balance = (if status = 1 then sh_amount stored else 0), os_timelock = sh_timelock stored,
     os_blockTimestamp = blockTimestamp \<rparr>"

definition base_observeHtlc :: "'w base_backend \<Rightarrow> string \<Rightarrow> ('w, htlc_state) bact" where
  "base_observeHtlc b swapKey =
    seq (ensureGuards b)
    (bnd (resolve_binding b swapKey) (\<lambda>binding.
     case binding of
       None \<Rightarrow>
         bnd (base_getBlockTimestamp b) (\<lambda>now.
         ret \<lparr> os_htlcId = None, os_funded = Some False, os_completed = Some False, os_refunded = Some False,
               os_balance = 0, os_timelock = 0, os_blockTimestamp = now \<rparr>)
     | Some htlcId \<Rightarrow>
         bnd (read_htlc b htlcId) (\<lambda>answer.
         let malformed = throw_error ''HTLC_STATE_UNKNOWN: Malformed contract status'' in
         case answer of
           None \<Rightarrow> malformed
         | Some stored \<Rightarrow>
             (case plain_number (sh_status stored) of
                None \<Rightarrow> malformed
              | Some status \<Rightarrow>
                  if status \<notin> {0, 1, 2, 3} then malformed
                  else bnd (base_getBlockTimestamp b) (\<lambda>now. ret (htlc_state_of status stored now))))))"

definition base_getContractHtlcState :: "'w base_backend \<Rightarrow> string \<Rightarrow> ('w, htlc_answer) bact" where
  "base_getContractHtlcState b htlcId =
    seq (ensureGuards b)
    (bnd (attempt (read_htlc b htlcId) (\<lambda>e. throw_error (''GET_CONTRACT_HTLC_STATE_FAILED: '' @ je_message e))) (\<lambda>stored.
     ret (case stored of None \<Rightarrow> HtNothing | Some x \<Rightarrow> HtStatus (plain_number (sh_status x)))))"

text \<open>The router has no key of a client.\<close>

definition base_claimHtlc :: "'w base_backend \<Rightarrow> string \<Rightarrow> string \<Rightarrow> string \<Rightarrow> ('w, bool \<times> string) bact" where
  "base_claimHtlc b swapKey preimage destination = throw_error ''ROUTER_DOES_NOT_OWN_CLIENT_SIGNER''"

section \<open>The settlement gate\<close>

definition with_0x :: "string \<Rightarrow> string" where
  "with_0x s = (if starts_with s ''0x'' then s else ''0x'' @ s)"

definition gate :: "string \<Rightarrow> ('w, 'a) bact" where
  "gate m = thr (gate_error m)"

text \<open>The log of the HTLC contract that names the HTLC; which event it is, is not looked at.\<close>

definition claim_log :: "string \<Rightarrow> string \<Rightarrow> tx_log \<Rightarrow> bool" where
  "claim_log htlc htlcId l \<longleftrightarrow> to_lower (lg_address l) = to_lower htlc \<and>
     (case lg_topics l of _ # t # _ \<Rightarrow> to_lower t = to_lower htlcId | _ \<Rightarrow> False)"

definition confirmations_of :: "int \<Rightarrow> receipt \<Rightarrow> int" where
  "confirmations_of currentBlock r =
    (if currentBlock \<ge> rp_blockNumber r then currentBlock - rp_blockNumber r + 1 else 1)"

text \<open>Steps 1 to 4: the receipt and what it says.\<close>

definition claim_receipt :: "'w base_backend \<Rightarrow> claim_query \<Rightarrow> int option \<Rightarrow> string \<Rightarrow> ('w, receipt \<times> int) bact" where
  "claim_receipt b q required txHash =
    bnd (attempt (call (BvReceipt txHash) (bc_receipt b txHash)) (\<lambda>_. gate ''Claim transaction not found on Base Sepolia'')) (\<lambda>answer.
    case answer of
      None \<Rightarrow> gate ''Claim transaction did not succeed on-chain (status: missing)''
    | Some receipt \<Rightarrow>
        if \<not> rp_success receipt then gate ''Claim transaction did not succeed on-chain (status: reverted)''
        else
          bnd htlc_address (\<lambda>htlc.
          if map_option to_lower (rp_to receipt) \<noteq> Some (to_lower htlc) then gate ''Claim transaction targets invalid contract''
          else
            bnd (call BvBlockNumber (bc_blockNumber b)) (\<lambda>currentBlock.
            let confirmations = confirmations_of currentBlock receipt in
            if confirmations < coalesce required (requiredConfirmations b)
            then gate ''Claim transaction has too few confirmations''
            else
              bnd htlc_address (\<lambda>htlc'.
              if \<not> list_ex (claim_log htlc' (cq_expectedHtlcId q)) (rp_logs receipt)
              then gate ''Transaction does not contain HtlcClaimed event for HTLC ID''
              else ret (receipt, confirmations)))))"

text \<open>Steps 5 and 6: the preimage of the claim call, bound to the hash lock.\<close>

definition claim_preimage :: "'w base_backend \<Rightarrow> claim_query \<Rightarrow> string \<Rightarrow> ('w, string) bact" where
  "claim_preimage b q txHash =
    bnd (call (BvTransaction txHash) (bc_transaction b txHash)) (\<lambda>input.
    bnd (raise (bc_decodeCall b input)) (\<lambda>(functionName, args).
    if functionName \<noteq> ''claim'' then gate ''Transaction function is not claim''
    else
      (case args of
         _ # preimageRevealed # _ \<Rightarrow>
           (let raw = hex_bytes (strip_0x preimageRevealed) in
            if to_lower (bc_sha256 b raw) \<noteq> to_lower (strip_0x (cq_expectedHashLock q))
            then gate ''Revealed preimage hash does not match expected hashlock''
            else ret raw)
       | _ \<Rightarrow> thr undefined_read)))"

text \<open>Step 7: the storage of the contract.\<close>

definition claim_storage :: "'w base_backend \<Rightarrow> claim_query \<Rightarrow> ('w, stored_htlc) bact" where
  "claim_storage b q =
    bnd (poll_htlc b (cq_expectedHtlcId q) 2 10 None) (\<lambda>answer.
    case answer of
      None \<Rightarrow> gate ''Authoritative HTLC status is undefined, required 2 (CLAIMED)''
    | Some stored \<Rightarrow>
        if sh_status stored \<noteq> JsNum 2 then gate ''Authoritative HTLC status is not 2 (CLAIMED)''
        else if to_lower (sh_claimAddress stored) \<noteq> to_lower (cq_expectedClaimAddress q)
        then gate ''Claim recipient does not match expected''
        else if sh_amount stored \<noteq> cq_expectedAmount q then gate ''Claim amount does not match expected''
        else if to_lower (sh_hashLock stored) \<noteq> to_lower (cq_expectedHashLock q)
        then gate ''Claim hashlock does not match expected''
        else ret stored)"

text \<open>\<open>requiredConfirmations\<close> of the query is optional, so it is its own argument.\<close>

definition extract_evidence :: "'w base_backend \<Rightarrow> claim_query \<Rightarrow> int option \<Rightarrow> ('w, claim_evidence) bact" where
  "extract_evidence b q required =
    (let txHash = with_0x (cq_claimTxHash q) in
     bnd (claim_receipt b q required txHash) (\<lambda>(receipt, confirmations).
     bnd (claim_preimage b q txHash) (\<lambda>preimage.
     bnd (claim_storage b q) (\<lambda>stored.
     bnd (timestamp_or_clock b (rp_blockNumber receipt)) (\<lambda>blockTimestamp.
     bnd htlc_address (\<lambda>htlc.
     let evidence = \<lparr> ce_chainId = bs_chainId (bc_settings b), ce_contractAddress = htlc, ce_htlcId = cq_expectedHtlcId q,
           ce_hashLock = cq_expectedHashLock q, ce_preimageRevealed = preimage, ce_claimAddress = sh_claimAddress stored,
           ce_amount = sh_amount stored, ce_txHash = txHash, ce_blockNumber = rp_blockNumber receipt,
           ce_blockTimestamp = blockTimestamp, ce_confirmations = confirmations, ce_finalityState = FS_FINAL \<rparr> in
     seq (change (\<lambda>s. s\<lparr>x_evidenceLog := x_evidenceLog s @ [ClaimedEv evidence]\<rparr>))
     (ret evidence)))))))"

definition base_extractClaimEvidence :: "'w base_backend \<Rightarrow> claim_query \<Rightarrow> int option \<Rightarrow> ('w, claim_evidence) bact" where
  "base_extractClaimEvidence b q required = seq (ensureGuards b) (extract_evidence b q required)"

section \<open>Dispatching\<close>

text \<open>\<open>transactionManager.executeIntent\<close>, announced in the log before its own events; while it is awaited other operations of the backend may run.\<close>

definition manage ::
  "'w base_backend \<Rightarrow> string \<Rightarrow> action_type \<Rightarrow> string \<Rightarrow> string \<Rightarrow> string \<Rightarrow> ('w, receipt option) bact" where
  "manage b operator action swapKey target calldata =
    (let params = \<lparr> pi_swapKey = swapKey, pi_chainId = bs_chainId (bc_settings b), pi_signerAddress = operator,
           pi_actionType = action, pi_targetAddress = target, pi_calldata = calldata, pi_valueWei = Some 0 \<rparr>
     in seq (call (\<lambda>_. BvExecute params) (\<lambda>s. (Inr (), s)))
        (bnd (within id BvTx x_tx (\<lambda>x s. s\<lparr>x_tx := x\<rparr>) (executeIntent (bc_manager b) params None)) (\<lambda>(intent, a, receipt).
         seq (change (bc_others b)) (ret receipt))))"

text \<open>Through the manager, or directly where that was asked for in a test.\<close>

definition dispatch ::
  "'w base_backend \<Rightarrow> string \<Rightarrow> action_type \<Rightarrow> string \<Rightarrow> string \<Rightarrow> contract_call \<Rightarrow> ('w, receipt) bact" where
  "dispatch b operator action swapKey target c =
    (if bs_managed (bc_settings b)
     then bnd (raise (bc_encodeCall b c)) (\<lambda>calldata.
          bnd (manage b operator action swapKey target calldata) (\<lambda>receipt.
          case receipt of None \<Rightarrow> thr undefined_read | Some r \<Rightarrow> ret r))
     else if \<not> bs_unsafeDirect (bc_settings b)
     then throw_error ''RELIABILITY_MANAGER_REQUIRED: Unmanaged direct wallet execution is forbidden''
     else bnd (call (BvWrite target c) (bc_write b target c)) (\<lambda>txHash.
          call (BvWaitReceipt txHash) (bc_waitReceipt b txHash)))"

definition set_action :: "string \<Rightarrow> action_status \<Rightarrow> ('w, unit) bact" where
  "set_action actionKey st = change (\<lambda>s. s\<lparr>x_durableActions := (x_durableActions s)(actionKey \<mapsto> st)\<rparr>)"

definition mined_receipt :: "'w base_backend \<Rightarrow> string \<Rightarrow> ('w, receipt) bact" where
  "mined_receipt b txHash =
    bnd (call (BvReceipt txHash) (bc_receipt b txHash)) (\<lambda>answer.
    case answer of None \<Rightarrow> thr undefined_read | Some receipt \<Rightarrow> ret receipt)"

definition log_evidence :: "htlc_evidence \<Rightarrow> ('w, unit) bact" where
  "log_evidence e = change (\<lambda>s. s\<lparr>x_evidenceLog := x_evidenceLog s @ [e]\<rparr>)"

definition no_signer :: "('w, 'a) bact" where
  "no_signer = throw_error ''OPERATOR_SIGNER_REQUIRED: Operator wallet not configured on BaseSepoliaAtomicBackend''"

section \<open>Funding\<close>

text \<open>The parameters with their texts prefixed, and the identity the contract will compute from them.\<close>

definition prefixed :: "fund_params \<Rightarrow> fund_params" where
  "prefixed p = p\<lparr>fp_hashLock := with_0x (fp_hashLock p), fp_tokenAddress := with_0x (fp_tokenAddress p),
     fp_claimAddress := with_0x (fp_claimAddress p), fp_refundAddress := with_0x (fp_refundAddress p)\<rparr>"

definition fund_identity :: "'w base_backend \<Rightarrow> string \<Rightarrow> fund_params \<Rightarrow> htlc_identity" where
  "fund_identity b operator p = \<lparr> hd_hashLock = fp_hashLock p, hd_amountUnits = fp_amountUnits p,
     hd_tokenAddress = fp_tokenAddress p, hd_sender = operator, hd_claimAddress = fp_claimAddress p,
     hd_refundAddress = fp_refundAddress p, hd_refundLocktime = fp_refundLocktime p,
     hd_chainId = bs_chainId (bc_settings b) \<rparr>"

definition fund_call :: "fund_params \<Rightarrow> contract_call" where
  "fund_call p = CallFund (fp_hashLock p) (fp_amountUnits p) (fp_tokenAddress p) (fp_claimAddress p) (fp_refundAddress p)
     (fp_refundLocktime p)"

type_synonym fund_result = "string \<times> int \<times> string option"

text \<open>The reconciliation before any dispatch: already funded, absent, or unknown.\<close>

definition existing_funding :: "'w base_backend \<Rightarrow> string \<Rightarrow> string \<Rightarrow> ('w, fund_result option) bact" where
  "existing_funding b swapKey htlcId =
    attempt
     (bnd (read_htlc b htlcId) (\<lambda>answer.
      let status = (case answer of None \<Rightarrow> None | Some x \<Rightarrow> plain_number (sh_status x)) in
      if status = Some 1
      then seq (change (bind_htlc swapKey htlcId)) (ret (Some (''0x_reconciled_existing_funding'', 0, Some htlcId)))
      else if status \<noteq> Some 0
      then throw_error ''HTLC_EXISTENCE_UNKNOWN: Unexpected or terminal existing HTLC status; refusing funding dispatch''
      else ret None))
     (\<lambda>e. throw_error (''HTLC_EXISTENCE_UNKNOWN: Pre-funding contract observation failed; refusing duplicate financial dispatch ('' @
            je_message e @ '')''))"

definition check_balances :: "'w base_backend \<Rightarrow> fund_params \<Rightarrow> ('w, unit) bact" where
  "check_balances b p =
    bnd (call BvEth (bc_ethBalance b)) (\<lambda>ethBalance.
    if ethBalance = 0 then throw_error ''TESTNET_FUNDING_REQUIRED: Operator wallet has 0 Base Sepolia ETH for gas.''
    else
      bnd (call (BvBalance (fp_tokenAddress p) AtLatest) (bc_balanceOf b (fp_tokenAddress p) AtLatest)) (\<lambda>usdcBalance.
      if usdcBalance < fp_amountUnits p
      then throw_error ''TESTNET_FUNDING_REQUIRED: Operator wallet has insufficient Base Sepolia test USDC''
      else ret ()))"

definition read_allowance :: "'w base_backend \<Rightarrow> string \<Rightarrow> ('w, int) bact" where
  "read_allowance b token =
    bnd htlc_address (\<lambda>htlc. call (BvAllowance token htlc) (bc_allowance b token htlc))"

fun await_allowance :: "'w base_backend \<Rightarrow> string \<Rightarrow> int \<Rightarrow> nat \<Rightarrow> ('w, unit) bact" where
  "await_allowance b token amount 0 = ret ()"
| "await_allowance b token amount (Suc n) =
    bnd (read_allowance b token) (\<lambda>al.
    if al \<ge> amount then ret () else seq (change (bc_others b)) (await_allowance b token amount n))"

text \<open>An allowance of exactly the amount, when the present one is too small.\<close>

definition ensure_allowance :: "'w base_backend \<Rightarrow> string \<Rightarrow> fund_params \<Rightarrow> ('w, unit) bact" where
  "ensure_allowance b operator p =
    bnd (read_allowance b (fp_tokenAddress p)) (\<lambda>currentAllowance.
    if currentAllowance \<ge> fp_amountUnits p then ret ()
    else
      bnd htlc_address (\<lambda>htlc.
      bnd (ask (bc_nowMs b)) (\<lambda>now.
      bnd (if bs_managed (bc_settings b)
           then bnd (raise (bc_encodeCall b (CallApprove htlc (fp_amountUnits p)))) (\<lambda>calldata.
                seq (manage b operator AT_APPROVE (''approve:'' @ fp_swapKey p @ '':'' @ bigint_text now)
                       (fp_tokenAddress p) calldata) (ret ()))
           else seq (dispatch b operator AT_APPROVE (fp_swapKey p) (fp_tokenAddress p) (CallApprove htlc (fp_amountUnits p)))
                  (ret ())) (\<lambda>_.
      await_allowance b (fp_tokenAddress p) (fp_amountUnits p) 10))))"

definition HTLC_FUNDED_TOPIC :: string where
  "HTLC_FUNDED_TOPIC = ''0x60bbdfe6cdbca189ae6be408012ffcf9b15dc857e5c5120412b73ee6bf3f7099''"

definition funded_log :: "string \<Rightarrow> tx_log \<Rightarrow> bool" where
  "funded_log htlc l \<longleftrightarrow> to_lower (lg_address l) = to_lower htlc \<and>
     (case lg_topics l of [] \<Rightarrow> False | t # _ \<Rightarrow> to_lower t = HTLC_FUNDED_TOPIC)"

definition canonical_id :: "string \<Rightarrow> string \<Rightarrow> receipt \<Rightarrow> string" where
  "canonical_id htlc htlcId receipt =
    (case List.find (funded_log htlc) (rp_logs receipt) of
       Some l \<Rightarrow> (case lg_topics l of _ # t # _ \<Rightarrow> t | _ \<Rightarrow> htlcId)
     | None \<Rightarrow> htlcId)"

text \<open>After the receipt: the HTLC has to be stored as LOCKED.\<close>

definition confirm_funding :: "'w base_backend \<Rightarrow> fund_params \<Rightarrow> string \<Rightarrow> receipt \<Rightarrow> ('w, fund_result) bact" where
  "confirm_funding b p htlcId receipt =
    bnd (timestamp_or_clock b (rp_blockNumber receipt)) (\<lambda>blockTimestamp.
    bnd htlc_address (\<lambda>htlc.
    let canonicalHtlcId = canonical_id htlc htlcId receipt in
    bnd (poll_htlc b canonicalHtlcId 1 10 None) (\<lambda>stored.
    if \<not> has_status 1 stored then throw_error ''STORAGE_VERIFICATION_FAILED: Expected LOCKED (1)''
    else
      seq (change (bind_htlc (fp_swapKey p) canonicalHtlcId))
      (bnd htlc_address (\<lambda>htlc.
       seq (log_evidence (FundedEv \<lparr> fe_chainId = bs_chainId (bc_settings b), fe_contractAddress = htlc,
              fe_htlcId = canonicalHtlcId, fe_hashLock = fp_hashLock p, fe_token = fp_tokenAddress p,
              fe_amount = fp_amountUnits p, fe_claimAddress = fp_claimAddress p, fe_refundAddress = fp_refundAddress p,
              fe_timelock = fp_refundLocktime p, fe_txHash = rp_transactionHash receipt,
              fe_blockNumber = rp_blockNumber receipt, fe_blockTimestamp = blockTimestamp \<rparr>))
       (seq (set_action (''fund:'' @ fp_swapKey p) (ActionMined (rp_transactionHash receipt)))
       (ret (rp_transactionHash receipt, rp_blockNumber receipt, Some htlcId))))))))"

definition fund_new :: "'w base_backend \<Rightarrow> string \<Rightarrow> fund_params \<Rightarrow> ('w, fund_result) bact" where
  "fund_new b operator p =
    bnd (raise (computeHtlcId b (fund_identity b operator p))) (\<lambda>htlcId.
    bnd (existing_funding b (fp_swapKey p) htlcId) (\<lambda>existing.
    case existing of
      Some r \<Rightarrow> ret r
    | None \<Rightarrow>
        seq (check_balances b p)
        (seq (ensure_allowance b operator p)
        (seq (set_action (''fund:'' @ fp_swapKey p) ActionPending)
        (bnd htlc_address (\<lambda>htlc.
         bnd (dispatch b operator AT_FUND (fp_swapKey p) htlc (fund_call p)) (confirm_funding b p htlcId)))))))"

definition fund_or_recall :: "'w base_backend \<Rightarrow> fund_params \<Rightarrow> ('w, fund_result) bact" where
  "fund_or_recall b params =
    (case bs_operatorAddress (bc_settings b) of
       None \<Rightarrow> no_signer
     | Some operator \<Rightarrow>
         bnd (ask (\<lambda>s. x_durableActions s (''fund:'' @ fp_swapKey params))) (\<lambda>existingAction.
         case existingAction of
           Some (ActionMined txHash) \<Rightarrow>
             bnd (mined_receipt b txHash) (\<lambda>receipt.
             bnd (ask (\<lambda>s. coalesce (x_keyToId s (fp_swapKey params)) ''0x'')) (\<lambda>htlcId.
             ret (rp_transactionHash receipt, rp_blockNumber receipt, Some htlcId)))
         | _ \<Rightarrow> fund_new b operator (prefixed params)))"

definition base_fundHtlc :: "'w base_backend \<Rightarrow> fund_params \<Rightarrow> ('w, fund_result) bact" where
  "base_fundHtlc b params = seq (ensureGuards b) (fund_or_recall b params)"

section \<open>Refunding\<close>

definition read_existing :: "'w base_backend \<Rightarrow> string \<Rightarrow> ('w, stored_htlc) bact" where
  "read_existing b htlcId = bnd (read_htlc b htlcId) (\<lambda>answer. case answer of None \<Rightarrow> thr undefined_read | Some x \<Rightarrow> ret x)"

definition confirm_refund ::
  "'w base_backend \<Rightarrow> string \<Rightarrow> string \<Rightarrow> stored_htlc \<Rightarrow> receipt \<Rightarrow> ('w, string \<times> int) bact" where
  "confirm_refund b swapKey htlcId stored receipt =
    bnd (call (BvBlock (Some (rp_blockNumber receipt))) (bc_block b (Some (rp_blockNumber receipt)))) (\<lambda>block.
    bnd (read_existing b htlcId) (\<lambda>postRefund.
    if sh_status postRefund \<noteq> JsNum 3 then throw_error ''STORAGE_VERIFICATION_FAILED: Expected REFUNDED (3)''
    else
      bnd htlc_address (\<lambda>htlc.
      seq (log_evidence (RefundedEv \<lparr> re_chainId = bs_chainId (bc_settings b), re_contractAddress = htlc,
             re_htlcId = htlcId, re_refundAddress = sh_refundAddress stored, re_txHash = rp_transactionHash receipt,
             re_blockNumber = rp_blockNumber receipt, re_blockTimestamp = bk_timestamp block, re_finalityState = None \<rparr>))
      (seq (set_action (''refund:'' @ swapKey) (ActionMined (rp_transactionHash receipt)))
      (ret (rp_transactionHash receipt, rp_blockNumber receipt))))))"

definition refund_new :: "'w base_backend \<Rightarrow> string \<Rightarrow> string \<Rightarrow> string \<Rightarrow> ('w, string \<times> int) bact" where
  "refund_new b operator swapKey htlcId =
    bnd (read_existing b htlcId) (\<lambda>stored.
    if sh_status stored = JsNum 3 then ret (''0x_already_refunded'', 0)
    else if sh_status stored = JsNum 2 then throw_error ''MUTUAL_EXCLUSION_VIOLATION: HTLC has already been claimed''
    else if sh_status stored \<noteq> JsNum 1 then throw_error ''INVALID_STATE: HTLC is not in LOCKED status''
    else
      bnd (base_getBlockTimestamp b) (\<lambda>currentTimestamp.
      if currentTimestamp < sh_timelock stored then throw_error ''PREMATURE_REFUND_DENIED: Timelock is not expired''
      else
        seq (set_action (''refund:'' @ swapKey) ActionPending)
        (bnd htlc_address (\<lambda>htlc.
         bnd (dispatch b operator AT_REFUND swapKey htlc (CallRefund htlcId))
           (confirm_refund b swapKey htlcId stored)))))"

definition refund_or_recall :: "'w base_backend \<Rightarrow> string \<Rightarrow> ('w, string \<times> int) bact" where
  "refund_or_recall b swapKey =
    (case bs_operatorAddress (bc_settings b) of
       None \<Rightarrow> no_signer
     | Some operator \<Rightarrow>
         bnd (ask (\<lambda>s. (x_durableActions s (''refund:'' @ swapKey), truthy_str (x_keyToId s swapKey)))) (\<lambda>(existingAction, binding).
         case existingAction of
           Some (ActionMined txHash) \<Rightarrow>
             bnd (mined_receipt b txHash) (\<lambda>receipt. ret (rp_transactionHash receipt, rp_blockNumber receipt))
         | _ \<Rightarrow>
             (case binding of
                None \<Rightarrow> throw_error (''HTLC for swapKey '' @ swapKey @ '' does not exist or is not funded'')
              | Some htlcId \<Rightarrow> refund_new b operator swapKey htlcId)))"

definition base_refundHtlc :: "'w base_backend \<Rightarrow> string \<Rightarrow> ('w, string \<times> int) bact" where
  "base_refundHtlc b swapKey = seq (ensureGuards b) (refund_or_recall b swapKey)"

section \<open>As the backend of the coordinator and of the reconciler\<close>

definition to_cerr :: "js_error \<Rightarrow> cerr" where
  "to_cerr e = Thrown (if je_name e = ''LightningSettlementGateError'' then C_GATE else C_ERROR) (je_message e)"

text \<open>
  The backend lives in the world of the coordinator and shares its database; \<open>others\<close> is what handlers of the coordinator
  do while it is awaited.
\<close>

definition on_base :: "('v bsys sys \<Rightarrow> 'v bsys sys) \<Rightarrow> ('v, 'a) bact \<Rightarrow> ('v bsys, 'a) call" where
  "on_base others m s =
    (let x = s_world s in
     case m (x\<lparr>x_tx := (x_tx x)\<lparr>t_db := s_db s\<rparr>\<rparr>) of
       (r, t, x') \<Rightarrow> (map_sum to_cerr id r, others (s\<lparr>s_db := base_db x', s_world := x'\<rparr>)))"

definition verify_claim_on_base ::
  "('v bsys sys \<Rightarrow> 'v bsys sys) \<Rightarrow> 'v base_backend \<Rightarrow> claim_query \<Rightarrow> ('v bsys, claim_evidence) call" where
  "verify_claim_on_base others b q =
     on_base others (base_extractClaimEvidence b q (Some (cq_requiredConfirmations q)))"

definition backend_on_base ::
  "('v bsys sys \<Rightarrow> 'v bsys sys) \<Rightarrow> 'v base_backend \<Rightarrow> 'v bsys backend \<Rightarrow> 'v bsys backend" where
  "backend_on_base others b rest = rest\<lparr>
     b_getBlockTimestamp := on_base others (base_getBlockTimestamp b),
     b_fundHtlc := \<lambda>p. on_base others (base_fundHtlc b p),
     b_observeHtlc := \<lambda>k. on_base others (base_observeHtlc b k),
     b_refundHtlc := \<lambda>k. on_base others (bnd (base_refundHtlc b k) (\<lambda>r. ret (fst r))),
     b_claimHtlc := Some (\<lambda>k p d. on_base others (base_claimHtlc b k p d)),
     b_verifyClaim := Some (verify_claim_on_base others b),
     b_verifyRefund := None\<rparr>"

definition on_chain :: "('v, 'a) bact \<Rightarrow> ('v bsys, 'a) kcall" where
  "on_chain m s =
    (let x = k_world s in
     case m (x\<lparr>x_tx := (x_tx x)\<lparr>t_db := k_db s\<rparr>\<rparr>) of
       (r, t, x') \<Rightarrow> (map_sum (InvError \<circ> je_message) id r, s\<lparr>k_db := base_db x', k_world := x'\<rparr>))"

text \<open>Funding intents are reconciled by the manager, where there is one.\<close>

definition capacity_on_base :: "'v base_backend \<Rightarrow> 'v bsys capacity_provider" where
  "capacity_on_base b = \<lparr>
     cp_verifyChainAndToken = (\<lambda>c t. on_chain (base_verifyChainAndToken b c t)),
     cp_observeWalletCapacity = (\<lambda>t. on_chain (base_observeWalletCapacity b t)),
     cp_getContractHtlcState = Some (\<lambda>h. on_chain (base_getContractHtlcState b h)),
     cp_rehydrateBindings = Some (on_chain (bnd (rehydrateBindings b) (\<lambda>n. ret (int n)))),
     cp_reconcileIntent = (if bs_managed (bc_settings b)
       then Some (\<lambda>i. on_chain (within id BvTx x_tx (\<lambda>x s. s\<lparr>x_tx := x\<rparr>) (reconcileIntent (bc_manager b) i)))
       else None) \<rparr>"

end
