(* ===== verification/State_Logic.thy ===== *)
theory State_Logic
  imports Actions
begin

text \<open>
  The program logic of \<open>Actions\<close> under an invariant of the state. An awaited call may change everything, except what the
  invariant \<open>I\<close> fixes: a field that no other code writes. Then what an action reads from that field is known.
\<close>

definition wpi ::
  "('s \<Rightarrow> bool) \<Rightarrow> ('e list \<Rightarrow> 'e \<Rightarrow> bool) \<Rightarrow> ('x, 'e, 's, 'a) action
   \<Rightarrow> ('a \<Rightarrow> 'e list \<Rightarrow> bool) \<Rightarrow> ('x \<Rightarrow> 'e list \<Rightarrow> bool) \<Rightarrow> 'e list \<Rightarrow> bool" where
  "wpi I J m Q E h \<longleftrightarrow> (\<forall>s r t s'. I s \<longrightarrow> m s = (r, t, s') \<longrightarrow>
     I s' \<and> allowed J h t \<and> (case r of Inr x \<Rightarrow> Q x (h @ t) | Inl e \<Rightarrow> E e (h @ t)))"

named_theorems wpi_rules "backward rules for wpi"

lemma wpiI:
  "(\<And>s r t s'. I s \<Longrightarrow> m s = (r, t, s') \<Longrightarrow>
     I s' \<and> allowed J h t \<and> (case r of Inr x \<Rightarrow> Q x (h @ t) | Inl e \<Rightarrow> E e (h @ t))) \<Longrightarrow> wpi I J m Q E h"
  unfolding wpi_def by blast

lemma wpiD:
  "wpi I J m Q E h \<Longrightarrow> I s \<Longrightarrow> m s = (r, t, s') \<Longrightarrow>
     I s' \<and> allowed J h t \<and> (case r of Inr x \<Rightarrow> Q x (h @ t) | Inl e \<Rightarrow> E e (h @ t))"
  unfolding wpi_def by blast

lemma wpi_at:
  assumes "wpi I J m Q E []" "I s" "trace m s = pre @ e # post"
  shows "J pre e"
proof -
  obtain r t s' where m: "m s = (r, t, s')" by (metis prod_cases3)
  then have "t = pre @ e # post" using assms(3) by (simp add: trace_def)
  then show ?thesis using wpiD [OF assms(1,2) m] allowed_at [of J "[]" pre e post] by simp
qed

lemma wpi_post:
  assumes "wpi I J m Q' E' h" "\<And>x h. Q' x h \<Longrightarrow> Q x h" "\<And>e h. E' e h \<Longrightarrow> E e h"
  shows "wpi I J m Q E h"
proof (rule wpiI)
  fix s r t s' assume s: "I s" "m s = (r, t, s')"
  from wpiD [OF assms(1) this]
  show "I s' \<and> allowed J h t \<and> (case r of Inr x \<Rightarrow> Q x (h @ t) | Inl e \<Rightarrow> E e (h @ t))"
    using assms(2,3) by (cases r) auto
qed

lemma wpi_ret [wpi_rules]: "Q x h \<Longrightarrow> wpi I J (ret x) Q E h"
  by (rule wpiI) (auto simp: ret_def)

lemma wpi_thr [wpi_rules]: "E e h \<Longrightarrow> wpi I J (thr e) Q E h"
  by (rule wpiI) (auto simp: thr_def)

lemma wpi_bnd [wpi_rules]:
  assumes "wpi I J m (\<lambda>x. wpi I J (f x) Q E) E h"
  shows "wpi I J (bnd m f) Q E h"
proof (rule wpiI)
  fix s r t s'
  assume s: "I s" and "bnd m f s = (r, t, s')"
  from this(2) show "I s' \<and> allowed J h t \<and> (case r of Inr x \<Rightarrow> Q x (h @ t) | Inl e \<Rightarrow> E e (h @ t))"
  proof (cases rule: bnd_cases)
    case throws then show ?thesis using wpiD [OF assms s] by fastforce
  next
    case (goes_on x t1 s1 t2)
    have a: "I s1" "allowed J h t1" "wpi I J (f x) Q E (h @ t1)" using wpiD [OF assms s goes_on(1)] by simp_all
    show ?thesis using a wpiD [OF a(3,1) goes_on(2)] goes_on(3) by (cases r) (simp_all add: allowed_append)
  qed
qed

lemma wpi_seq [wpi_rules]: "wpi I J m (\<lambda>_. wpi I J k Q E) E h \<Longrightarrow> wpi I J (seq m k) Q E h"
  unfolding seq_def by (rule wpi_bnd)

lemma wpi_attempt [wpi_rules]:
  assumes "wpi I J m Q (\<lambda>e. wpi I J (g e) Q E) h"
  shows "wpi I J (attempt m g) Q E h"
proof (rule wpiI)
  fix s r t s'
  assume s: "I s" and "attempt m g s = (r, t, s')"
  from this(2) show "I s' \<and> allowed J h t \<and> (case r of Inr x \<Rightarrow> Q x (h @ t) | Inl e \<Rightarrow> E e (h @ t))"
  proof (cases rule: attempt_cases)
    case returns then show ?thesis using wpiD [OF assms s] by fastforce
  next
    case (handled e t1 s1 t2)
    have a: "I s1" "allowed J h t1" "wpi I J (g e) Q E (h @ t1)" using wpiD [OF assms s handled(1)] by simp_all
    show ?thesis using a wpiD [OF a(3,1) handled(2)] handled(3) by (cases r) (simp_all add: allowed_append)
  qed
qed

text \<open>What is read satisfies what the invariant says; what is written has to keep it.\<close>

lemma wpi_ask: "(\<And>s. I s \<Longrightarrow> Q (f s) h) \<Longrightarrow> wpi I J (ask f) Q E h"
  by (rule wpiI) (auto simp: ask_def)

lemma wpi_ask_any [wpi_rules]: "(\<And>x. Q x h) \<Longrightarrow> wpi I J (ask f) Q E h"
  by (rule wpi_ask)

definition preserves :: "('s \<Rightarrow> bool) \<Rightarrow> ('s \<Rightarrow> 's) \<Rightarrow> bool" where
  "preserves I f \<longleftrightarrow> (\<forall>s. I s \<longrightarrow> I (f s))"

lemma wpi_change [wpi_rules]: "preserves I f \<Longrightarrow> Q () h \<Longrightarrow> wpi I J (change f) Q E h"
  by (rule wpiI) (auto simp: change_def preserves_def)

lemma wpi_call:
  assumes "preserves I (snd \<circ> f)" "\<And>r. J h (ev r)" "\<And>x. Q x (h @ [ev (Inr x)])" "\<And>e. E e (h @ [ev (Inl e)])"
  shows "wpi I J (call ev f) Q E h"
  by (rule wpiI) (use assms in \<open>auto simp: call_def preserves_def split: prod.splits sum.split\<close>)

lemma wpi_if [wpi_rules]:
  "(c \<Longrightarrow> wpi I J m Q E h) \<Longrightarrow> (\<not> c \<Longrightarrow> wpi I J n Q E h) \<Longrightarrow> wpi I J (if c then m else n) Q E h"
  by simp

lemma wpi_option [wpi_rules]:
  "(x = None \<Longrightarrow> wpi I J m Q E h) \<Longrightarrow> (\<And>y. x = Some y \<Longrightarrow> wpi I J (f y) Q E h) \<Longrightarrow>
   wpi I J (case x of None \<Rightarrow> m | Some y \<Rightarrow> f y) Q E h"
  by (cases x) auto

lemma wpi_prod [wpi_rules]:
  "(\<And>x y. p = (x, y) \<Longrightarrow> wpi I J (f x y) Q E h) \<Longrightarrow> wpi I J (case p of (x, y) \<Rightarrow> f x y) Q E h"
  by (cases p) auto

lemma wpi_sum [wpi_rules]:
  "(\<And>e. x = Inl e \<Longrightarrow> wpi I J (f e) Q E h) \<Longrightarrow> (\<And>y. x = Inr y \<Longrightarrow> wpi I J (g y) Q E h) \<Longrightarrow>
   wpi I J (case x of Inl e \<Rightarrow> f e | Inr y \<Rightarrow> g y) Q E h"
  by (cases x) auto

lemma wpi_list [wpi_rules]:
  "(xs = [] \<Longrightarrow> wpi I J m Q E h) \<Longrightarrow> (\<And>y ys. xs = y # ys \<Longrightarrow> wpi I J (f y ys) Q E h) \<Longrightarrow>
   wpi I J (case xs of [] \<Rightarrow> m | y # ys \<Rightarrow> f y ys) Q E h"
  by (cases xs) auto

lemma wpi_Let [wpi_rules]: "wpi I J (f x) Q E h \<Longrightarrow> wpi I J (let y = x in f y) Q E h"
  by simp

text \<open>A part that runs on a component of the state, whose events keep \<open>P\<close>.\<close>

lemma wpi_within:
  assumes "\<And>s x. I s \<Longrightarrow> I (put x s)" "P h" "\<And>h e. P h \<Longrightarrow> J h (ev e) \<and> P (h @ [ev e])"
    "\<And>x h. P h \<Longrightarrow> Q x h" "\<And>e h. P h \<Longrightarrow> E e h"
  shows "wpi I J (within ex ev get put m) Q E h"
proof (rule wpiI)
  fix s r t s' assume s: "I s" and w: "within ex ev get put m s = (r, t, s')"
  from w obtain r1 t1 x where t: "t = map ev t1" "s' = put x s"
    by (auto simp: within_def split: prod.splits)
  have "allowed J h t \<and> P (h @ t)"
    by (rule allowed_keep [where A = "\<lambda>e. e \<in> range ev"]) (use assms(2,3) t(1) in auto)
  then show "I s' \<and> allowed J h t \<and> (case r of Inr x \<Rightarrow> Q x (h @ t) | Inl e \<Rightarrow> E e (h @ t))"
    using assms(1) [OF s, of x] assms(4,5) t(2) by (cases r) auto
qed

text \<open>Events of an awaited call carry what it answered.\<close>

lemma only_answer: "(\<And>s. A (ev (fst (f s)))) \<Longrightarrow> only A (call ev f)"
  by (rule onlyI) (auto simp: call_def split_beta)

end
