(* ===== verification/Base_Laws.thy ===== *)
theory Base_Laws
  imports Base_Backend State_Logic Coord_Recovery Inventory_Laws
begin

text \<open>
  What the Base Sepolia backend promises, whatever its RPC node answers: it writes to the chain only behind the network guard, funds only what it
  found absent and can pay, refunds only what it found locked and expired, and accepts a claim only on evidence that
  binds transaction, preimage and contract storage to the query. Then what that makes of the coordinator and of the
  reconciler over it.
\<close>

section \<open>Vocabulary\<close>

text \<open>The calls that send a transaction, and what the manager logs while it does.\<close>

fun write_call :: "base_event \<Rightarrow> bool" where
  "write_call (BvWrite t c r) = True" | "write_call (BvExecute p) = True" | "write_call _ = False"

text \<open>An event sends this call for this action to this contract.\<close>

fun sends :: "'w base_backend \<Rightarrow> action_type \<Rightarrow> string \<Rightarrow> contract_call \<Rightarrow> base_event \<Rightarrow> bool" where
  "sends b action target c (BvExecute p) \<longleftrightarrow> pi_actionType p = action \<and> pi_targetAddress p = target \<and>
     bc_encodeCall b c = Inr (pi_calldata p) \<and> pi_valueWei p = Some 0 \<and> Some (pi_signerAddress p) = bs_operatorAddress (bc_settings b)"
| "sends b action target c (BvWrite t c' r) \<longleftrightarrow> t = target \<and> c' = c"
| "sends b action target c _ \<longleftrightarrow> False"

fun funds :: "base_event \<Rightarrow> bool" where
  "funds (BvExecute p) \<longleftrightarrow> pi_actionType p = AT_FUND"
| "funds (BvWrite t (CallFund h n tk c r l) x) \<longleftrightarrow> True"
| "funds _ \<longleftrightarrow> False"

lemma funds_writes: "funds e \<Longrightarrow> write_call e"
  by (cases e rule: funds.cases) simp_all

text \<open>Nobody changes the configured contract address during an operation: \<open>setHtlcAddress\<close> is called at set-up only.\<close>

abbreviation at_address :: "string \<Rightarrow> 'w bsys \<Rightarrow> bool" where
  "at_address a \<equiv> \<lambda>s. x_htlcAddress s = a"

definition leaves_address :: "('w bsys \<Rightarrow> 'w bsys) \<Rightarrow> bool" where
  "leaves_address f \<longleftrightarrow> (\<forall>s. x_htlcAddress (f s) = x_htlcAddress s)"

definition keeps_address :: "'w base_backend \<Rightarrow> bool" where
  "keeps_address b \<longleftrightarrow> leaves_address (bc_others b) \<and> leaves_address (snd \<circ> bc_chainId b) \<and>
     (\<forall>t. leaves_address (snd \<circ> bc_decimals b t)) \<and> (\<forall>t. leaves_address (snd \<circ> bc_bytecode b t)) \<and>
     (\<forall>t. leaves_address (snd \<circ> bc_code b t)) \<and> leaves_address (snd \<circ> bc_blockNumber b) \<and>
     (\<forall>n. leaves_address (snd \<circ> bc_block b n)) \<and> (\<forall>t r. leaves_address (snd \<circ> bc_balanceOf b t r)) \<and>
     leaves_address (snd \<circ> bc_ethBalance b) \<and> (\<forall>t h. leaves_address (snd \<circ> bc_allowance b t h)) \<and>
     (\<forall>h i. leaves_address (snd \<circ> bc_getHtlc b h i)) \<and> (\<forall>h. leaves_address (snd \<circ> bc_receipt b h)) \<and>
     (\<forall>h. leaves_address (snd \<circ> bc_transaction b h)) \<and> (\<forall>t c. leaves_address (snd \<circ> bc_write b t c)) \<and>
     (\<forall>h. leaves_address (snd \<circ> bc_waitReceipt b h))"

lemma preserves_address: "leaves_address f \<Longrightarrow> preserves (at_address a) f"
  by (simp add: leaves_address_def preserves_def)

lemma keeps_addressD:
  assumes "keeps_address b"
  shows "preserves (at_address a) (bc_others b)" "preserves (at_address a) (snd \<circ> bc_chainId b)"
    "preserves (at_address a) (snd \<circ> bc_decimals b t)" "preserves (at_address a) (snd \<circ> bc_bytecode b t)"
    "preserves (at_address a) (snd \<circ> bc_code b t)" "preserves (at_address a) (snd \<circ> bc_blockNumber b)"
    "preserves (at_address a) (snd \<circ> bc_block b n)" "preserves (at_address a) (snd \<circ> bc_balanceOf b t r)"
    "preserves (at_address a) (snd \<circ> bc_ethBalance b)" "preserves (at_address a) (snd \<circ> bc_allowance b t u)"
    "preserves (at_address a) (snd \<circ> bc_getHtlc b t u)" "preserves (at_address a) (snd \<circ> bc_receipt b t)"
    "preserves (at_address a) (snd \<circ> bc_transaction b t)" "preserves (at_address a) (snd \<circ> bc_write b t c)"
    "preserves (at_address a) (snd \<circ> bc_waitReceipt b t)"
  using assms unfolding keeps_address_def by (simp_all add: preserves_address)

lemma address_updates:
  "preserves (at_address a) (bind_htlc k i)" "preserves (at_address a) (\<lambda>s. s\<lparr>x_initialized := v\<rparr>)"
  "preserves (at_address a) (\<lambda>s. s\<lparr>x_evidenceLog := f s\<rparr>)" "preserves (at_address a) (\<lambda>s. s\<lparr>x_durableActions := g s\<rparr>)"
  "preserves (at_address a) (\<lambda>s. s)" "preserves (at_address a) (snd \<circ> (\<lambda>s. (r, s)))"
  by (simp_all add: preserves_def bind_htlc_def)

section \<open>Reading\<close>

text \<open>\<open>h'\<close> goes on from \<open>h\<close> without sending a transaction; a quiet guard lets everything else through.\<close>

definition later :: "base_event list \<Rightarrow> base_event list \<Rightarrow> bool" where
  "later h h' \<longleftrightarrow> (\<exists>t. h' = h @ t \<and> \<not> seen write_call t)"

definition quiet :: "(base_event list \<Rightarrow> base_event \<Rightarrow> bool) \<Rightarrow> bool" where
  "quiet J \<longleftrightarrow> (\<forall>h e. \<not> write_call e \<longrightarrow> J h e)"

lemma quietD: "quiet J \<Longrightarrow> \<not> write_call e \<Longrightarrow> J h e"
  by (simp add: quiet_def)

lemma later_refl [simp]: "later h h"
  by (simp add: later_def)

lemma later_snoc [simp]: "later h h' \<Longrightarrow> \<not> write_call e \<Longrightarrow> later h (h' @ [e])"
  by (auto simp: later_def)

lemma later_app [simp]: "later h (h @ t) \<longleftrightarrow> \<not> seen write_call t"
  by (simp add: later_def)

lemma later_trans: "later h h' \<Longrightarrow> later h' h'' \<Longrightarrow> later h h''"
  by (auto simp: later_def)

lemma later_mem: "later h h' \<Longrightarrow> e \<in> set h \<Longrightarrow> e \<in> set h'"
  by (auto simp: later_def)

lemma later_seen:
  assumes "later h h'" "\<And>e. C e \<Longrightarrow> write_call e"
  shows "seen C h' \<longleftrightarrow> seen C h"
proof -
  obtain t where t: "h' = h @ t" "\<not> seen write_call t" using assms(1) by (auto simp: later_def)
  then have "\<not> seen C t" using assms(2) by (auto simp: seen_def)
  with t(1) show ?thesis by simp
qed

lemma wpi_raise [wpi_rules]:
  "(\<And>e. r = Inl e \<Longrightarrow> E e h) \<Longrightarrow> (\<And>x. r = Inr x \<Longrightarrow> Q x h) \<Longrightarrow> wpi I J (raise r) Q E h"
  unfolding raise_def by (intro wpi_rules)

lemma wpi_htlc_address [wpi_rules]: "Q a h \<Longrightarrow> wpi (at_address a) J htlc_address Q E h"
  unfolding htlc_address_def by (rule wpi_ask) simp

lemma wpi_throw_error [wpi_rules]: "E (plain_error m) h \<Longrightarrow> wpi I J (throw_error m) Q E h"
  unfolding throw_error_def by (intro wpi_rules)

lemma wpi_gate [wpi_rules]: "E (gate_error m) h \<Longrightarrow> wpi I J (gate m) Q E h"
  unfolding gate_def by (intro wpi_rules)

lemmas address_rules = keeps_addressD address_updates

lemma wpi_read_htlc [wpi_rules]:
  assumes "keeps_address b" "quiet J" "\<And>x. Q x (h @ [BvHtlc a i (Inr x)])" "\<And>e. E e (h @ [BvHtlc a i (Inl e)])"
  shows "wpi (at_address a) J (read_htlc b i) Q E h"
  unfolding read_htlc_def
  by (intro wpi_rules wpi_call address_rules assms) (simp_all add: quietD [OF assms(2)] assms)

text \<open>The last answer of the poll is one the contract gave.\<close>

lemma wpi_poll:
  assumes "keeps_address b" "quiet J" "later h0 h" "stored = None \<or> BvHtlc a i (Inr stored) \<in> set h"
  shows "wpi (at_address a) J (poll_htlc b i want n stored)
    (\<lambda>x h'. later h0 h' \<and> (x = None \<or> BvHtlc a i (Inr x) \<in> set h')) E h"
  using assms(3,4)
proof (induction n arbitrary: stored h)
  case 0
  then show ?case by (simp add: wpi_ret)
next
  case (Suc n)
  show ?case
    unfolding poll_htlc.simps
    by (intro wpi_rules Suc.IH assms address_rules) (use Suc.prems in \<open>auto split: prod.splits\<close>)
qed

lemma wpi_timestamp:
  assumes "keeps_address b" "quiet J" "\<And>n h'. later h h' \<Longrightarrow> Q n h'"
  shows "wpi (at_address a) J (timestamp_or_clock b n) Q E h"
  unfolding timestamp_or_clock_def
  by (intro wpi_rules wpi_call address_rules assms) (simp_all add: quietD [OF assms(2)])

text \<open>The network guard has passed: chain, token and, when an address is configured, the bytecode of the contract.\<close>

definition guards_seen :: "'w base_backend \<Rightarrow> string \<Rightarrow> base_event list \<Rightarrow> bool" where
  "guards_seen b a h \<longleftrightarrow> BvChainId (Inr BASE_SEPOLIA_CHAIN_ID) \<in> set h \<and>
     to_lower (bs_tokenAddress (bc_settings b)) = to_lower OFFICIAL_BASE_SEPOLIA_USDC_ADDRESS \<and>
     BvDecimals (bs_tokenAddress (bc_settings b)) (Inr 6) \<in> set h \<and>
     (a \<noteq> zero_address \<longrightarrow> (\<exists>code. BvBytecode a (Inr code) \<in> set h \<and>
        assertContractBytecode (bc_sha256 b) (coalesce code ''0x'') = Inr ()))"

lemma guards_later: "later h h' \<Longrightarrow> guards_seen b a h \<Longrightarrow> guards_seen b a h'"
  unfolding guards_seen_def by (fast intro: later_mem)

lemma network_ok: "assertBaseSepoliaNetwork n = Inr u \<Longrightarrow> n = BASE_SEPOLIA_CHAIN_ID"
  by (simp add: assertBaseSepoliaNetwork_def split: if_splits)

lemma token_ok:
  "assertCanonicalBaseSepoliaUsdc t (Some d) = Inr u \<Longrightarrow> to_lower t = to_lower OFFICIAL_BASE_SEPOLIA_USDC_ADDRESS \<and> d = 6"
  by (simp add: assertCanonicalBaseSepoliaUsdc_def OFFICIAL_USDC_DECIMALS_def split: if_splits)

lemma wpi_check_guards:
  assumes "keeps_address b" "quiet J" "\<And>e h. E e h"
  shows "wpi (at_address a) J (check_guards b) (\<lambda>_ h'. later h h' \<and> guards_seen b a h') E h"
  unfolding check_guards_def
  by (intro wpi_rules wpi_call address_rules assms)
    (auto simp: quietD [OF assms(2)] guards_seen_def assms(3) dest!: network_ok token_ok)

text \<open>An operation behind the guards, from a state where they have or have not passed.\<close>

lemma run_behind:
  assumes "wpi I J check (\<lambda>_ h'. later [] h' \<and> G h') E []"
    "\<And>h. (fresh \<longrightarrow> G h) \<Longrightarrow> \<not> seen write_call h \<Longrightarrow> wpi I J m Q E h" "I s" "fresh \<longleftrightarrow> \<not> x_initialized s"
    "seq (bnd (ask x_initialized) (\<lambda>initialized. if initialized then ret () else check)) m s = (r, t, s')"
  shows "allowed J [] t \<and> (case r of Inr x \<Rightarrow> Q x t | Inl e \<Rightarrow> E e t)"
proof (cases fresh)
  case False
  then have m: "m s = (r, t, s')" using assms(4,5) by (auto simp: seq_def bnd_def ask_def ret_def split: prod.splits)
  show ?thesis using wpiD [OF assms(2) _ m, of "[]"] False assms(3) by (cases r) simp_all
next
  case True
  have e: "seq (bnd (ask x_initialized) (\<lambda>initialized. if initialized then ret () else check)) m s = seq check m s"
    using True assms(4) by (simp add: seq_def bnd_def ask_def ret_def split: prod.split)
  have "wpi I J (seq check m) Q E []"
    by (intro wpi_rules wpi_post [OF assms(1)] assms(2)) (auto simp: later_def)
  from wpiD [OF this _ assms(5) [unfolded e]] assms(3) show ?thesis by (cases r) simp_all
qed

lemma guarded_run:
  assumes "keeps_address b" "quiet J" "\<And>h. (fresh \<longrightarrow> guards_seen b a h) \<Longrightarrow> \<not> seen write_call h \<Longrightarrow> wpi (at_address a) J m Q E h"
    "\<And>e h. E e h" "x_htlcAddress s = a" "fresh \<longleftrightarrow> \<not> x_initialized s" "seq (ensureGuards b) m s = (r, t, s')"
  shows "allowed J [] t \<and> (case r of Inr x \<Rightarrow> Q x t | Inl e \<Rightarrow> E e t)"
  by (rule run_behind [OF wpi_check_guards [OF assms(1,2,4)] assms(3,5,6) assms(7) [unfolded ensureGuards_def]])

section \<open>The settlement gate\<close>

text \<open>What the chain showed of a claim: a successful transaction of the contract, deep enough, that logs this HTLC; its
  call \<open>claim\<close> with a preimage of the hash lock; and the HTLC stored as CLAIMED with the expected terms.\<close>

definition claim_mined :: "string \<Rightarrow> claim_query \<Rightarrow> int \<Rightarrow> string \<Rightarrow> receipt \<Rightarrow> int \<Rightarrow> base_event list \<Rightarrow> bool" where
  "claim_mined a q required tx receipt confirmations h \<longleftrightarrow> BvReceipt tx (Inr (Some receipt)) \<in> set h \<and> rp_success receipt \<and>
     map_option to_lower (rp_to receipt) = Some (to_lower a) \<and> required \<le> confirmations \<and>
     list_ex (claim_log a (cq_expectedHtlcId q)) (rp_logs receipt) \<and>
     (\<exists>currentBlock. BvBlockNumber (Inr currentBlock) \<in> set h \<and> confirmations = confirmations_of currentBlock receipt)"

definition reveals :: "'w base_backend \<Rightarrow> claim_query \<Rightarrow> string \<Rightarrow> string \<Rightarrow> base_event list \<Rightarrow> bool" where
  "reveals b q tx raw h \<longleftrightarrow> to_lower (bc_sha256 b raw) = to_lower (strip_0x (cq_expectedHashLock q)) \<and>
     (\<exists>input i preimage rest. BvTransaction tx (Inr input) \<in> set h \<and> bc_decodeCall b input = Inr (''claim'', i # preimage # rest) \<and>
        raw = hex_bytes (strip_0x preimage))"

definition stored_claimed :: "string \<Rightarrow> claim_query \<Rightarrow> stored_htlc \<Rightarrow> base_event list \<Rightarrow> bool" where
  "stored_claimed a q stored h \<longleftrightarrow> BvHtlc a (cq_expectedHtlcId q) (Inr (Some stored)) \<in> set h \<and> sh_status stored = JsNum 2 \<and>
     to_lower (sh_claimAddress stored) = to_lower (cq_expectedClaimAddress q) \<and> sh_amount stored = cq_expectedAmount q \<and>
     to_lower (sh_hashLock stored) = to_lower (cq_expectedHashLock q)"

lemma claim_facts_later:
  "later h h' \<Longrightarrow> claim_mined a q n tx r c h \<Longrightarrow> claim_mined a q n tx r c h'"
  "later h h' \<Longrightarrow> reveals b q tx raw h \<Longrightarrow> reveals b q tx raw h'"
  "later h h' \<Longrightarrow> stored_claimed a q x h \<Longrightarrow> stored_claimed a q x h'"
  unfolding claim_mined_def reveals_def stored_claimed_def by (fast intro: later_mem)+

lemma wpi_claim_receipt:
  assumes "keeps_address b" "quiet J" "\<And>e h. E e h"
  shows "wpi (at_address a) J (claim_receipt b q required tx)
    (\<lambda>(r, c) h'. later h h' \<and> claim_mined a q (coalesce required (requiredConfirmations b)) tx r c h') E h"
  unfolding claim_receipt_def
  by (intro wpi_rules wpi_call address_rules assms) (auto simp: quietD [OF assms(2)] assms(3) claim_mined_def)

lemma wpi_claim_preimage:
  assumes "keeps_address b" "quiet J" "\<And>e h. E e h"
  shows "wpi (at_address a) J (claim_preimage b q tx) (\<lambda>raw h'. later h h' \<and> reveals b q tx raw h') E h"
  unfolding claim_preimage_def
  by (intro wpi_rules wpi_call address_rules assms) (auto simp: quietD [OF assms(2)] reveals_def)

lemma wpi_claim_storage:
  assumes "keeps_address b" "quiet J" "\<And>e h. E e h"
  shows "wpi (at_address a) J (claim_storage b q) (\<lambda>x h'. later h h' \<and> stored_claimed a q x h') E h"
  unfolding claim_storage_def
  by (intro wpi_rules wpi_post [OF wpi_poll [OF assms(1,2) later_refl]] assms(3)) (auto simp: assms(3) stored_claimed_def)

text \<open>Evidence and what the chain showed of it.\<close>

definition evidence_backed ::
  "'w base_backend \<Rightarrow> string \<Rightarrow> claim_query \<Rightarrow> int option \<Rightarrow> claim_evidence \<Rightarrow> base_event list \<Rightarrow> bool" where
  "evidence_backed b a q required ev h \<longleftrightarrow>
     ce_txHash ev = with_0x (cq_claimTxHash q) \<and> ce_htlcId ev = cq_expectedHtlcId q \<and> ce_hashLock ev = cq_expectedHashLock q \<and>
     ce_amount ev = cq_expectedAmount q \<and> ce_contractAddress ev = a \<and>
     (\<exists>receipt. claim_mined a q (coalesce required (requiredConfirmations b)) (ce_txHash ev) receipt (ce_confirmations ev) h \<and>
        ce_blockNumber ev = rp_blockNumber receipt) \<and>
     reveals b q (ce_txHash ev) (ce_preimageRevealed ev) h \<and>
     (\<exists>stored. stored_claimed a q stored h \<and> ce_claimAddress ev = sh_claimAddress stored)"

lemma wpi_evidence:
  assumes "keeps_address b" "quiet J" "\<And>e h. E e h"
  shows "wpi (at_address a) J (extract_evidence b q required)
    (\<lambda>ev h'. later h h' \<and> ce_finalityState ev = FS_FINAL \<and> evidence_backed b a q required ev h') E h"
proof -
  have t: "wpi (at_address a) J (timestamp_or_clock b n) (\<lambda>_ h2. later h1 h2) E h1" for n h1
    by (rule wpi_timestamp [OF assms(1,2)])
  show ?thesis
    unfolding extract_evidence_def
    by (intro wpi_rules wpi_post [OF wpi_claim_receipt [OF assms(1,2)]] wpi_post [OF wpi_claim_preimage [OF assms(1,2)]]
        wpi_post [OF wpi_claim_storage [OF assms(1,2)]] wpi_post [OF t] address_rules assms(3))
      (auto simp: evidence_backed_def stored_claimed_def [THEN iffD1] intro: later_trans claim_facts_later,
        metis later_trans claim_facts_later(1))
qed

lemma claim_evidence_run:
  assumes "keeps_address b" "base_extractClaimEvidence b q required s = (Inr ev, t, s')"
  shows "ce_finalityState ev = FS_FINAL \<and> (x_initialized s \<or> guards_seen b (x_htlcAddress s) t) \<and>
    evidence_backed b (x_htlcAddress s) q required ev t"
proof -
  let ?a = "x_htlcAddress s"
  let ?Q = "\<lambda>ev h. ce_finalityState ev = FS_FINAL \<and> (\<not> x_initialized s \<longrightarrow> guards_seen b ?a h) \<and> evidence_backed b ?a q required ev h"
  have q: "quiet (\<lambda>h e. True)" by (simp add: quiet_def)
  have w: "wpi (at_address ?a) (\<lambda>h e. True) (extract_evidence b q required) ?Q (\<lambda>_ _. True) h"
    if "\<not> x_initialized s \<longrightarrow> guards_seen b ?a h" for h
    by (rule wpi_post [OF wpi_evidence [OF assms(1) q]]) (use that in \<open>auto intro: guards_later\<close>)
  show ?thesis
    using guarded_run [OF assms(1) q w _ refl refl assms(2) [unfolded base_extractClaimEvidence_def]] by auto
qed

text \<open>C5: The settlement gate: whatever the RPC node answers, claim evidence is returned only when the network guard has passed, in this call or
  before; the receipt read for the transaction is successful, is of the HTLC contract, has the required confirmations at a block number
  read in this call and logs the HTLC; the transaction read for it calls \<open>claim\<close> with the returned preimage, which hashes to the
  expected hash lock; and the contract was read as storing the HTLC CLAIMED with the expected recipient, amount and hash lock.\<close>

theorem claim_evidence_bound:
  assumes "keeps_address b" "base_extractClaimEvidence b q required s = (Inr ev, t, s')"
  shows "ce_finalityState ev = FS_FINAL \<and> (x_initialized s \<or> guards_seen b (x_htlcAddress s) t) \<and>
    evidence_backed b (x_htlcAddress s) q required ev t"
  by (rule claim_evidence_run [OF assms])

section \<open>Sending\<close>

lemma sends_writes: "sends b action target c e \<Longrightarrow> write_call e"
  by (cases e) simp_all

lemma approve_funds_not: "sends b AT_APPROVE t (CallApprove u n) e \<Longrightarrow> \<not> funds e"
  by (cases e) simp_all

text \<open>After the event that sends the call nothing else is sent.\<close>

lemma wpi_manage:
  assumes "keeps_address b" "quiet J" "bs_operatorAddress (bc_settings b) = Some operator" "bc_encodeCall b c = Inr calldata"
    "\<And>e. sends b action target c e \<Longrightarrow> J h e"
    "\<And>r e h'. sends b action target c e \<Longrightarrow> later (h @ [e]) h' \<Longrightarrow> Q r h'" "\<And>e h. E e h"
  shows "wpi (at_address a) J (manage b operator action swapKey target calldata) Q E h"
proof -
  let ?p = "\<lparr> pi_swapKey = swapKey, pi_chainId = bs_chainId (bc_settings b), pi_signerAddress = operator,
           pi_actionType = action, pi_targetAddress = target, pi_calldata = calldata, pi_valueWei = Some 0 \<rparr>"
  have e: "sends b action target c (BvExecute ?p)" using assms(3,4) by simp
  have q: "Q r h'" if "later (h @ [BvExecute ?p]) h'" for r h' by (rule assms(6) [OF e that])
  show ?thesis
    unfolding manage_def Let_def
    by (intro wpi_rules wpi_call wpi_within [where P = "later (h @ [BvExecute ?p])"] address_rules assms(1) assms(5) [OF e] assms(7))
      (auto intro!: q wpi_rules address_rules assms(1) quietD [OF assms(2)] split: prod.split)
qed

lemma wpi_dispatch:
  assumes "keeps_address b" "quiet J" "bs_operatorAddress (bc_settings b) = Some operator"
    "\<And>e. sends b action target c e \<Longrightarrow> J h e"
    "\<And>r e h'. sends b action target c e \<Longrightarrow> later (h @ [e]) h' \<Longrightarrow> Q r h'" "\<And>e h. E e h"
  shows "wpi (at_address a) J (dispatch b operator action swapKey target c) Q E h"
proof -
  have w: "Q r (h @ [BvWrite target c x, BvWaitReceipt y z])" for r x y z
    by (rule assms(5) [of "BvWrite target c x"]) (simp_all add: later_def)
  show ?thesis
    unfolding dispatch_def
    by (intro wpi_rules wpi_manage [where c = c] wpi_call address_rules assms(1-4,6))
      (auto intro: assms(4-6) w simp: assms(6) quietD [OF assms(2)])
qed

text \<open>What has to be known before an HTLC is funded: it does not exist yet, and gas and tokens are there.\<close>

definition absent :: "string \<Rightarrow> string \<Rightarrow> base_event list \<Rightarrow> bool" where
  "absent a htlcId h \<longleftrightarrow> (\<exists>x. BvHtlc a htlcId (Inr (Some x)) \<in> set h \<and> plain_number (sh_status x) = Some 0)"

definition affordable :: "fund_params \<Rightarrow> base_event list \<Rightarrow> bool" where
  "affordable p h \<longleftrightarrow> (\<exists>n. BvEth (Inr n) \<in> set h \<and> n \<noteq> 0) \<and>
     (\<exists>n. BvBalance (fp_tokenAddress p) AtLatest (Inr n) \<in> set h \<and> fp_amountUnits p \<le> n)"

lemma ready_mono: "set h \<subseteq> set h' \<Longrightarrow> absent a i h \<Longrightarrow> absent a i h'" "set h \<subseteq> set h' \<Longrightarrow> affordable p h \<Longrightarrow> affordable p h'"
  unfolding absent_def affordable_def by fast+

lemma later_set: "later h h' \<Longrightarrow> set h \<subseteq> set h'"
  by (auto simp: later_def)

text \<open>The two transactions of a funding: the approval of exactly the amount, before anything else, and the funding itself, once.\<close>

definition fund_backed :: "'w base_backend \<Rightarrow> string \<Rightarrow> fund_params \<Rightarrow> base_event list \<Rightarrow> base_event \<Rightarrow> bool" where
  "fund_backed b a p h e \<longleftrightarrow>
     (\<exists>operator htlcId. bs_operatorAddress (bc_settings b) = Some operator \<and>
        computeHtlcId b (fund_identity b operator p) = Inr htlcId \<and> absent a htlcId h \<and> affordable p h) \<and>
     (sends b AT_APPROVE (fp_tokenAddress p) (CallApprove a (fp_amountUnits p)) e \<and> \<not> seen write_call h \<or>
      sends b AT_FUND a (fund_call p) e \<and> \<not> seen funds h)"

definition observed_locked :: "string \<Rightarrow> base_event list \<Rightarrow> bool" where
  "observed_locked a h \<longleftrightarrow> (\<exists>i x. BvHtlc a i (Inr (Some x)) \<in> set h \<and> plain_number (sh_status x) = Some 1)"

lemma locked_observed: "BvHtlc a i (Inr (Some x)) \<in> set h \<Longrightarrow> sh_status x = JsNum 1 \<Longrightarrow> observed_locked a h"
  unfolding observed_locked_def by force

lemma wpi_existing:
  assumes "keeps_address b" "quiet J" "\<And>e h. E e h"
  shows "wpi (at_address a) J (existing_funding b k i)
    (\<lambda>x h'. later h h' \<and> (case x of Some r \<Rightarrow> observed_locked a h'
       | None \<Rightarrow> absent a i h')) E h"
  unfolding existing_funding_def
  by (intro wpi_rules address_rules assms)
    (auto simp: assms(3) observed_locked_def absent_def split: option.splits)

lemma wpi_balances:
  assumes "keeps_address b" "quiet J" "\<And>e h. E e h"
  shows "wpi (at_address a) J (check_balances b p)
    (\<lambda>_ h'. later h h' \<and> affordable p h') E h"
  unfolding check_balances_def
  by (intro wpi_rules wpi_call address_rules assms) (auto simp: assms(3) affordable_def quietD [OF assms(2)])

lemma wpi_read_allowance:
  assumes "keeps_address b" "quiet J" "\<And>x h'. later h h' \<Longrightarrow> Q x h'" "\<And>e h. E e h"
  shows "wpi (at_address a) J (read_allowance b t) Q E h"
  unfolding read_allowance_def
  by (intro wpi_rules wpi_call address_rules assms) (simp_all add: quietD [OF assms(2)] assms)

lemma wpi_await_allowance:
  assumes "keeps_address b" "quiet J" "\<And>e h. E e h" "later h0 h"
  shows "wpi (at_address a) J (await_allowance b t n k) (\<lambda>_ h'. later h0 h') E h"
  using assms(4)
proof (induction k arbitrary: h)
  case 0
  then show ?case by (simp add: wpi_ret)
next
  case (Suc k)
  show ?case
    unfolding await_allowance.simps
    by (intro wpi_rules wpi_read_allowance address_rules assms(1-3) Suc.IH) (use Suc.prems in \<open>auto intro: later_trans\<close>)
qed

lemma wpi_confirm_funding:
  assumes "keeps_address b" "quiet J" "\<And>e h. E e h"
  shows "wpi (at_address a) J (confirm_funding b p i r) (\<lambda>_ h'. observed_locked a h') E h"
  unfolding confirm_funding_def log_evidence_def set_action_def
  by (intro wpi_rules wpi_timestamp wpi_post [OF wpi_poll [OF assms(1,2) later_refl]] address_rules assms)
    (auto simp: has_status_def assms(3) locked_observed split: option.splits)

definition unfunded :: "base_event list \<Rightarrow> base_event list \<Rightarrow> bool" where
  "unfunded h h' \<longleftrightarrow> set h \<subseteq> set h' \<and> \<not> seen funds h'"

text \<open>Approving: at most one transaction, the first, and no funding.\<close>

lemma wpi_ensure_allowance:
  assumes "keeps_address b" "quiet J" "\<And>e h. E e h" "bs_operatorAddress (bc_settings b) = Some operator"
    "\<And>e h'. later h h' \<Longrightarrow> sends b AT_APPROVE (fp_tokenAddress p) (CallApprove a (fp_amountUnits p)) e \<Longrightarrow> J h' e"
    "\<not> seen funds h"
  shows "wpi (at_address a) J (ensure_allowance b operator p)
    (\<lambda>_. unfunded h) E h"
proof -
  have q: "unfunded h h'" if "later h h'" for h'
    using that later_seen [of h h' funds] assms(6) by (auto simp: funds_writes later_mem unfunded_def)
  have s: "unfunded h h3"
    if "later h h1" "sends b AT_APPROVE (fp_tokenAddress p) (CallApprove a (fp_amountUnits p)) e" "later (h1 @ [e]) h2" "later h2 h3"
    for h1 e h2 h3
    using q [OF that(1)] approve_funds_not [OF that(2)] later_trans [OF that(3,4)] later_seen [of "h1 @ [e]" h3 funds]
    by (auto simp: funds_writes later_mem unfunded_def)
  have w: "wpi (at_address a) J (await_allowance b t n k) (\<lambda>_. unfunded h) E h2"
    if "later h h1" "sends b AT_APPROVE (fp_tokenAddress p) (CallApprove a (fp_amountUnits p)) e" "later (h1 @ [e]) h2"
    for h1 e h2 t n k
    by (rule wpi_post [OF wpi_await_allowance [OF assms(1,2,3) later_refl]]) (use s that assms(3) in auto)
  show ?thesis
    unfolding ensure_allowance_def
    by (intro wpi_rules wpi_read_allowance wpi_manage [where c = "CallApprove a (fp_amountUnits p)"] wpi_dispatch
        address_rules assms(1-4)) (auto intro: q w assms(5))
qed

lemma wpi_fund_new:
  assumes "keeps_address b" "\<And>h e. J h e \<longleftrightarrow> (write_call e \<longrightarrow> pre h \<and> fund_backed b a p h e)"
    "\<And>h h'. pre h \<Longrightarrow> set h \<subseteq> set h' \<Longrightarrow> pre h'" "\<And>e h. E e h" "bs_operatorAddress (bc_settings b) = Some operator"
    "pre h" "\<not> seen write_call h"
  shows "wpi (at_address a) J (fund_new b operator p) (\<lambda>_ h'. observed_locked a h') E h"
proof -
  have q: "quiet J" by (simp add: quiet_def assms(2))
  have ready: "pre h2 \<and> fund_backed b a p h2 e"
    if "computeHtlcId b (fund_identity b operator p) = Inr i" "absent a i h0" "later h h0" "later h0 h1" "affordable p h1"
      "set h1 \<subseteq> set h2" "sends b AT_APPROVE (fp_tokenAddress p) (CallApprove a (fp_amountUnits p)) e \<and> \<not> seen write_call h2 \<or>
       sends b AT_FUND a (fund_call p) e \<and> \<not> seen funds h2" for i h0 h1 h2 e
  proof -
    have "pre h2" by (rule assms(3) [OF assms(6)]) (use that later_set in blast)
    moreover have "absent a i h2" "affordable p h2" using that ready_mono later_set by (meson subset_trans)+
    ultimately show ?thesis using that(1,7) assms(5) unfolding fund_backed_def by blast
  qed
  have clean: "\<not> seen write_call h1 \<and> \<not> seen funds h1" if "later h h0" "later h0 h1" for h0 h1
    using later_seen [OF later_trans [OF that]] assms(7) funds_writes by (auto simp: seen_def)
  have approve: "pre h2 \<and> fund_backed b a p h2 e"
    if "computeHtlcId b (fund_identity b operator p) = Inr i" "absent a i h0" "later h h0" "later h0 h1" "affordable p h1"
      "later h1 h2" "sends b AT_APPROVE (fp_tokenAddress p) (CallApprove a (fp_amountUnits p)) e" for i h0 h1 h2 e
    using ready [OF that(1-5) later_set [OF that(6)]] clean [OF that(3) later_trans [OF that(4,6)]] that(7) by blast
  have fund: "pre h2 \<and> fund_backed b a p h2 e"
    if "computeHtlcId b (fund_identity b operator p) = Inr i" "absent a i h0" "later h h0" "later h0 h1" "affordable p h1"
      "unfunded h1 h2" "sends b AT_FUND a (fund_call p) e" for i h0 h1 h2 e
    using ready [OF that(1-5)] that(6,7) unfolding unfunded_def by blast
  show ?thesis
    unfolding fund_new_def set_action_def
    by (intro wpi_rules wpi_post [OF wpi_existing [OF assms(1) q]] wpi_post [OF wpi_balances [OF assms(1) q]]
        wpi_post [OF wpi_ensure_allowance [OF assms(1) q _ assms(5)]] wpi_dispatch [OF assms(1) q assms(5)]
        wpi_confirm_funding [OF assms(1) q] address_rules assms(4))
      (auto simp: assms(2) clean dest: approve fund)
qed

lemma wpi_mined_receipt:
  assumes "keeps_address b" "quiet J" "\<And>x h'. later h h' \<Longrightarrow> Q x h'" "\<And>e h. E e h"
  shows "wpi (at_address a) J (mined_receipt b tx) Q E h"
  unfolding mined_receipt_def
  by (intro wpi_rules wpi_call address_rules assms) (simp_all add: quietD [OF assms(2)])

lemma wpi_action_status [wpi_rules]:
  "(st = ActionPending \<Longrightarrow> wpi I J m Q E h) \<Longrightarrow> (\<And>t. st = ActionMined t \<Longrightarrow> wpi I J (f t) Q E h) \<Longrightarrow>
   wpi I J (case st of ActionPending \<Rightarrow> m | ActionMined t \<Rightarrow> f t) Q E h"
  by (cases st) auto

text \<open>A funding returns after the HTLC was observed locked, or repeats the receipt of one it recorded.\<close>

lemma wpi_fund:
  assumes "keeps_address b" "\<And>h e. J h e \<longleftrightarrow> (write_call e \<longrightarrow> pre h \<and> fund_backed b a (prefixed params) h e)"
    "\<And>h h'. pre h \<Longrightarrow> set h \<subseteq> set h' \<Longrightarrow> pre h'" "\<And>e h. E e h" "pre h" "\<not> seen write_call h"
  shows "wpi (at_address a) J (fund_or_recall b params)
    (\<lambda>_ h'. observed_locked a h' \<or> \<not> seen write_call h') E h"
proof -
  have q: "quiet J" by (simp add: quiet_def assms(2))
  have s: "\<not> seen write_call h'" if "later h h'" for h' using later_seen [OF that, of write_call] assms(6) by simp
  show ?thesis
    unfolding fund_or_recall_def no_signer_def
    by (intro wpi_rules wpi_post [OF wpi_fund_new [OF assms(1-3)]] wpi_mined_receipt assms(1,4) q) (auto simp: assms(4-6) s)
qed

text \<open>What has to be known before a refund is sent: the HTLC is locked and a block is past its timelock. It is sent once.\<close>

definition refund_backed :: "'w base_backend \<Rightarrow> string \<Rightarrow> base_event list \<Rightarrow> base_event \<Rightarrow> bool" where
  "refund_backed b a h e \<longleftrightarrow> (\<exists>htlcId x block. BvHtlc a htlcId (Inr (Some x)) \<in> set h \<and> sh_status x = JsNum 1 \<and>
     BvBlock None (Inr block) \<in> set h \<and> sh_timelock x \<le> bk_timestamp block \<and>
     sends b AT_REFUND a (CallRefund htlcId) e) \<and> \<not> seen write_call h"

lemma refund_at:
  "BvHtlc a i (Inr (Some x)) \<in> set h \<Longrightarrow> sh_status x = JsNum 1 \<Longrightarrow> BvBlock None (Inr block) \<in> set h \<Longrightarrow>
   \<not> bk_timestamp block < sh_timelock x \<Longrightarrow> sends b AT_REFUND a (CallRefund i) e \<Longrightarrow> \<not> seen write_call h \<Longrightarrow>
   refund_backed b a h e"
  unfolding refund_backed_def by (metis not_less)

definition observed_refunded :: "string \<Rightarrow> base_event list \<Rightarrow> bool" where
  "observed_refunded a h \<longleftrightarrow> (\<exists>i x. BvHtlc a i (Inr (Some x)) \<in> set h \<and> sh_status x = JsNum 3)"

lemma wpi_read_existing [wpi_rules]:
  assumes "keeps_address b" "quiet J" "\<And>x. Q x (h @ [BvHtlc a i (Inr (Some x))])" "\<And>e h. E e h"
  shows "wpi (at_address a) J (read_existing b i) Q E h"
  unfolding read_existing_def by (intro wpi_rules assms) (auto intro: assms)

lemma wpi_refund:
  assumes "keeps_address b" "\<And>h e. J h e \<longleftrightarrow> (write_call e \<longrightarrow> pre h \<and> refund_backed b a h e)"
    "\<And>h h'. pre h \<Longrightarrow> set h \<subseteq> set h' \<Longrightarrow> pre h'" "\<And>e h. E e h" "pre h" "\<not> seen write_call h"
  shows "wpi (at_address a) J (refund_or_recall b k)
    (\<lambda>_ h'. observed_refunded a h' \<or> \<not> seen write_call h') E h"
proof -
  have q: "quiet J" by (simp add: quiet_def assms(2))
  have p: "pre (h @ t)" for t by (rule assms(3) [OF assms(5)]) simp
  show ?thesis
    unfolding refund_or_recall_def no_signer_def refund_new_def confirm_refund_def base_getBlockTimestamp_def set_action_def log_evidence_def
    by (intro wpi_rules wpi_read_existing wpi_mined_receipt wpi_call wpi_dispatch [OF assms(1) q] address_rules assms(1,4) q)
      (auto simp: assms(2,4,6) p observed_refunded_def later_seen intro: refund_at)
qed

section \<open>Every operation of the backend\<close>

datatype base_op =
    OpFund fund_params
  | OpRefund string
  | OpObserve string
  | OpContractState string
  | OpClaimEvidence claim_query "int option"
  | OpCapacity string
  | OpVerify int string
  | OpClaim string string string
  | OpTimestamp

definition ignore :: "('w, 'a) bact \<Rightarrow> ('w, unit) bact" where
  "ignore m = seq m (ret ())"

fun run_base :: "'w base_backend \<Rightarrow> base_op \<Rightarrow> ('w, unit) bact" where
  "run_base b (OpFund p) = ignore (base_fundHtlc b p)"
| "run_base b (OpRefund k) = ignore (base_refundHtlc b k)"
| "run_base b (OpObserve k) = ignore (base_observeHtlc b k)"
| "run_base b (OpContractState h) = ignore (base_getContractHtlcState b h)"
| "run_base b (OpClaimEvidence q n) = ignore (base_extractClaimEvidence b q n)"
| "run_base b (OpCapacity t) = ignore (base_observeWalletCapacity b t)"
| "run_base b (OpVerify c t) = ignore (base_verifyChainAndToken b c t)"
| "run_base b (OpClaim k p d) = ignore (base_claimHtlc b k p d)"
| "run_base b OpTimestamp = ignore (base_getBlockTimestamp b)"

abbreviation reads :: "base_event \<Rightarrow> bool" where
  "reads e \<equiv> \<not> write_call e"

lemma only_reads [only_rules]:
  "only reads (raise r)" "only reads (throw_error m)" "only reads (gate m)" "only reads htlc_address"
  unfolding raise_def throw_error_def gate_def htlc_address_def by (intro only_rules)+

lemma only_parts [only_rules]:
  "only reads (ensureGuards b)" "only reads (read_htlc b i)" "only reads (timestamp_or_clock b n)"
  "only reads (base_getBlockTimestamp b)" "only reads (resolve_binding b k)"
  unfolding ensureGuards_def check_guards_def read_htlc_def timestamp_or_clock_def base_getBlockTimestamp_def
    resolve_binding_def remember_def Let_def
  by (intro only_rules; simp)+

lemma only_poll [only_rules]: "only reads (poll_htlc b i want n stored)"
  by (induction n arbitrary: stored) (simp_all, intro only_rules, auto intro!: only_rules split: prod.split)

lemma reading_ops:
  "only reads (base_observeHtlc b k)" "only reads (base_getContractHtlcState b h)" "only reads (base_extractClaimEvidence b q n)"
  "only reads (base_observeWalletCapacity b t)" "only reads (base_verifyChainAndToken b c t)" "only reads (base_claimHtlc b k p d)"
  unfolding base_observeHtlc_def base_getContractHtlcState_def base_extractClaimEvidence_def extract_evidence_def
    claim_receipt_def claim_preimage_def claim_storage_def base_observeWalletCapacity_def observe_capacity_def
    base_verifyChainAndToken_def base_claimHtlc_def Let_def
  by (intro only_rules; auto intro!: only_rules split: list.split)+

lemma trace_ignore [simp]: "trace (ignore m) s = trace m s"
  by (simp add: trace_def ignore_def seq_def bnd_def ret_def split: prod.split sum.split)

text \<open>A guarded operation that sends something: its trace and result under its guard.\<close>

lemma sending_run:
  assumes "keeps_address b" "m = seq (ensureGuards b) body" "a = x_htlcAddress s" "m s = (r, t, s')"
    "\<And>J pre E h. (\<And>h e. J h e \<longleftrightarrow> (write_call e \<longrightarrow> pre h \<and> B h e)) \<Longrightarrow> (\<And>h h'. pre h \<Longrightarrow> set h \<subseteq> set h' \<Longrightarrow> pre h') \<Longrightarrow>
       (\<And>e h. E e h) \<Longrightarrow> pre h \<Longrightarrow> \<not> seen write_call h \<Longrightarrow> wpi (at_address a) J body Q E h"
  shows "allowed (\<lambda>h e. write_call e \<longrightarrow> (\<not> x_initialized s \<longrightarrow> guards_seen b a h) \<and> B h e) [] t \<and>
    (case r of Inr x \<Rightarrow> Q x t | Inl e \<Rightarrow> True)"
proof -
  let ?J = "\<lambda>h e. write_call e \<longrightarrow> (\<not> x_initialized s \<longrightarrow> guards_seen b a h) \<and> B h e"
  have g: "guards_seen b a h \<Longrightarrow> set h \<subseteq> set h' \<Longrightarrow> guards_seen b a h'" for h h'
    unfolding guards_seen_def by fast
  have w: "wpi (at_address a) ?J body Q (\<lambda>_ _. True) h"
    if "\<not> x_initialized s \<longrightarrow> guards_seen b a h" "\<not> seen write_call h" for h
    by (rule assms(5) [where pre = "\<lambda>h. \<not> x_initialized s \<longrightarrow> guards_seen b a h"]) (use that g in blast)+
  show ?thesis
    using guarded_run [OF assms(1) _ w _ assms(3) [symmetric] refl assms(4) [unfolded assms(2)]] by (auto simp: quiet_def)
qed

lemma fundHtlc_run:
  assumes "keeps_address b" "base_fundHtlc b p s = (r, t, s')"
  shows "allowed (\<lambda>h e. write_call e \<longrightarrow> (\<not> x_initialized s \<longrightarrow> guards_seen b (x_htlcAddress s) h) \<and>
      fund_backed b (x_htlcAddress s) (prefixed p) h e) [] t \<and>
    (case r of Inr x \<Rightarrow> observed_locked (x_htlcAddress s) t \<or> \<not> seen write_call t | Inl e \<Rightarrow> True)"
  by (rule sending_run [OF assms(1) base_fundHtlc_def refl assms(2)]) (rule wpi_fund [OF assms(1)])

lemma refundHtlc_run:
  assumes "keeps_address b" "base_refundHtlc b k s = (r, t, s')"
  shows "allowed (\<lambda>h e. write_call e \<longrightarrow> (\<not> x_initialized s \<longrightarrow> guards_seen b (x_htlcAddress s) h) \<and>
      refund_backed b (x_htlcAddress s) h e) [] t \<and>
    (case r of Inr x \<Rightarrow> observed_refunded (x_htlcAddress s) t \<or> \<not> seen write_call t | Inl e \<Rightarrow> True)"
  by (rule sending_run [OF assms(1) base_refundHtlc_def refl assms(2)]) (rule wpi_refund [OF assms(1)])

text \<open>C4: The Base Sepolia backend sends a transaction only when it may. In any operation, whatever the RPC node answers, a
  transaction (through the manager or directly) is sent only after the network guard has passed, in this operation or before;
  and it is either the approval of exactly the amount or the funding call of the given terms, after this call read the HTLC
  of these terms as non-existent and enough gas and tokens, the approval first and the funding once; or the refund of an HTLC
  that this call read as LOCKED with a block past its timelock, once. No other operation sends anything.\<close>

theorem base_writes_backed:
  assumes "keeps_address b" "trace (run_base b op) s = pre @ e # post" "write_call e"
  shows "(x_initialized s \<or> guards_seen b (x_htlcAddress s) pre) \<and>
    ((\<exists>p. op = OpFund p \<and> fund_backed b (x_htlcAddress s) (prefixed p) pre e) \<or>
     (\<exists>k. op = OpRefund k \<and> refund_backed b (x_htlcAddress s) pre e))"
proof (cases "\<exists>p k. op = OpFund p \<or> op = OpRefund k")
  case False
  then have "only reads (run_base b op)"
    by (cases op) (auto simp: ignore_def intro!: only_rules reading_ops)
  then have "\<not> write_call e" using only_trace [of reads "run_base b op" e s] assms(2) by simp
  then show ?thesis using assms(3) by simp
next
  case True
  then consider (fund) p where "op = OpFund p" | (refund) k where "op = OpRefund k" by blast
  then show ?thesis
  proof cases
    case (fund p)
    obtain r t s' where m: "base_fundHtlc b p s = (r, t, s')" by (metis prod_cases3)
    have "trace (base_fundHtlc b p) s = pre @ e # post" using assms(2) fund by simp
    then have t: "t = pre @ e # post" by (simp add: trace_def m)
    note fundHtlc_run [OF assms(1) m, THEN conjunct1]
    from allowed_at [OF this [unfolded t]] show ?thesis using assms(3) fund by auto
  next
    case (refund k)
    obtain r t s' where m: "base_refundHtlc b k s = (r, t, s')" by (metis prod_cases3)
    have "trace (base_refundHtlc b k) s = pre @ e # post" using assms(2) refund by simp
    then have t: "t = pre @ e # post" by (simp add: trace_def m)
    note refundHtlc_run [OF assms(1) m, THEN conjunct1]
    from allowed_at [OF this [unfolded t]] show ?thesis using assms(3) refund by auto
  qed
qed

text \<open>What the backend reports of its own transactions was read back from the contract: a funding that sent
  anything returns only after an HTLC of the contract was read LOCKED, a refund that sent anything only after one was
  read REFUNDED.\<close>

lemma base_outcomes_read_back:
  assumes "keeps_address b"
  shows "base_fundHtlc b p s = (Inr r, t, s') \<Longrightarrow> observed_locked (x_htlcAddress s) t \<or> \<not> seen write_call t"
    and "base_refundHtlc b k s = (Inr r', t, s') \<Longrightarrow> observed_refunded (x_htlcAddress s) t \<or> \<not> seen write_call t"
  using fundHtlc_run [OF assms] refundHtlc_run [OF assms] by fastforce+

section \<open>Under the coordinator\<close>

text \<open>Every answer to a claim verification came from the backend.\<close>

definition answered_by :: "(claim_query \<Rightarrow> ('w, claim_evidence) call) \<Rightarrow> event \<Rightarrow> bool" where
  "answered_by v e = (case e of EvVerifyClaim q r \<Rightarrow> \<exists>s. r = fst (v q s) | _ \<Rightarrow> True)"

lemma answered_by_simps [simp]:
  "answered_by v (EvVerifyClaim q r) \<longleftrightarrow> (\<exists>s. r = fst (v q s))"
  "\<not> is_look e \<Longrightarrow> answered_by v e" "answered_by v (LnObserve h a)" "answered_by v (LnState h c)" "answered_by v (LnHeight n)"
  "answered_by v (EvTimestamp d)" "answered_by v (EvObserve h f)" "answered_by v (EvVerifyRefund k g)"
  by (auto simp: answered_by_def split: event.split)

lemma only_settle_answered:
  assumes "b_verifyClaim bk = Some v"
  shows "only (answered_by v) (settleLightningFromEvmClaim bk c i tx w)"
  unfolding settleLightningFromEvmClaim_def settle_body_def settle_evidence_def assms option.case
  by (intro only_assertLightningCltvSafety only_settle_dispatch only_answer only_rules; auto)

text \<open>The other parts of a reconciliation verify no claim, so every such event is the settlement's.\<close>

lemma answered_other: "(\<And>q r. e \<noteq> EvVerifyClaim q r) \<Longrightarrow> answered_by v e"
  by (cases e) (auto simp: answered_by_def)

lemma only_ln_answer [only_rules]:
  "(\<And>x. only A (f x)) \<Longrightarrow> only A m \<Longrightarrow> (\<And>e. only A (g e)) \<Longrightarrow>
   only A (case ln of LO_FOUND x \<Rightarrow> f x | LO_NOT_FOUND \<Rightarrow> m | LO_UNKNOWN e \<Rightarrow> g e)"
  by (cases ln) auto

lemmas answered_rules = only_rules only_assertLightningCltvSafety only_reservation_step only_restore_reservation only_settle_reservation
  only_commit_reservation only_release_reservation only_with_retry only_observeLightningForRecovery only_observeEvmForRecovery
  only_fund only_refund only_cancel_and_close

lemma only_reconcile_small:
  "only (answered_by v) (reconcile_ln_settled bk i hv evm)"
  "only (answered_by v) (reconcile_claim_detected bk i)"
  "only (answered_by v) (reconcile_refunded_close bk i obs at)"
  "only (answered_by v) (reconcile_cancel bk i hash)"
  "only (answered_by v) (reconcile_locked_waiting bk i obs)"
  "only (answered_by v) (reconcile_fund bk c i w)"
  "only (answered_by v) (reconcile_absent_close bk i obs)"
  "only (answered_by v) (reconcile_fund_intent bk i)"
  unfolding reconcile_ln_settled_def reconcile_claim_detected_def reconcile_refunded_close_def reconcile_cancel_def
    reconcile_locked_waiting_def reconcile_fund_def reconcile_absent_close_def reconcile_fund_intent_def
    observeHtlc_def getBlockTimestamp_def cancelHoldInvoice_def
  by (intro answered_rules; simp add: answered_other)+

lemma only_reconcile_parts:
  "only (answered_by v) (reconcile_refunded bk c i obs)"
  "only (answered_by v) (reconcile_locked bk c i w obs st)"
  "only (answered_by v) (reconcile_absent bk c i w obs)"
  unfolding reconcile_refunded_def reconcile_locked_def reconcile_absent_def Let_def
  by (intro answered_rules only_reconcile_small; simp add: answered_other)+

lemma only_reconcile_answered:
  assumes "b_verifyClaim bk = Some v"
  shows "only (answered_by v) (reconcileSwap bk c i w)"
proof -
  have s: "only (answered_by v) (reconcile_claimed bk c i w st)" for st
    unfolding reconcile_claimed_def
    by (intro answered_rules only_settle_answered [OF assms] only_reconcile_small; simp add: answered_other)
  have k: "only (answered_by v) (reconcile_known bk c i w obs evm)" for obs evm
    unfolding reconcile_known_def
    by (intro answered_rules s only_reconcile_small only_reconcile_parts; simp add: answered_other)
  have "only (answered_by v) (reconcile_body bk c i w)"
    unfolding reconcile_body_def
    by (intro answered_rules k; auto simp: answered_other intro!: k answered_rules split: ln_observation.split evm_observation.split)
  then show ?thesis
    unfolding reconcileSwap_def by (intro answered_rules; simp add: answered_other)
qed

text \<open>An answered verification ran on the backend, and what it accepted is backed by its own run.\<close>

definition run_backed :: "'v base_backend \<Rightarrow> claim_query \<Rightarrow> claim_evidence \<Rightarrow> bool" where
  "run_backed b q ev \<longleftrightarrow> (let required = Some (cq_requiredConfirmations q) in
     \<exists>x. (x_initialized x \<or> guards_seen b (x_htlcAddress x) (trace (base_extractClaimEvidence b q required) x)) \<and>
        evidence_backed b (x_htlcAddress x) q required ev (trace (base_extractClaimEvidence b q required) x))"

lemma answered_backed:
  assumes "keeps_address b" "answered_by (verify_claim_on_base others b) (EvVerifyClaim q (Inr ev))"
  shows "run_backed b q ev"
proof -
  obtain s where s: "Inr ev = fst (verify_claim_on_base others b q s)" using assms(2) by auto
  let ?x = "(s_world s)\<lparr>x_tx := (x_tx (s_world s))\<lparr>t_db := s_db s\<rparr>\<rparr>"
  obtain r t x' where m: "base_extractClaimEvidence b q (Some (cq_requiredConfirmations q)) ?x = (r, t, x')" by (metis prod_cases3)
  then have "r = Inr ev"
    using s by (cases r) (auto simp: verify_claim_on_base_def on_base_def Let_def)
  with m have e: "base_extractClaimEvidence b q (Some (cq_requiredConfirmations q)) ?x = (Inr ev, t, x')" by simp
  have t: "trace (base_extractClaimEvidence b q (Some (cq_requiredConfirmations q))) ?x = t" by (simp add: trace_def e)
  show ?thesis
    unfolding run_backed_def Let_def using claim_evidence_run [OF assms(1) e] t by metis
qed

text \<open>C1: With the Base Sepolia backend, \<open>settleLightningFromEvmClaim\<close> and \<open>reconcileSwap\<close> settle Lightning only by a claim that the
  chain itself showed. The preimage they send to Lightning was revealed by evidence of a run of the
  settlement gate on that backend: a successful, sufficiently confirmed transaction of the HTLC contract that logs the HTLC, whose
  call \<open>claim\<close> carries this preimage, which hashes to the expected hash lock, and the contract storing the HTLC as CLAIMED by the
  expected recipient with the expected amount and hash lock. The third handler that settles, \<open>claimSwap\<close>, is outside of this
  statement: it holds the preimage already and may settle on an observed completion or a placeholder claim hash, without the gate.\<close>

theorem settlement_shown_on_chain:
  assumes "keeps_address b"
    "trace (settleLightningFromEvmClaim (backend_on_base others b rest) c i tx w) s = pre @ LnSettle p r # post \<or>
     trace (reconcileSwap (backend_on_base others b rest) c i w) s = pre @ LnSettle p r # post"
  shows "\<exists>q ev. EvVerifyClaim q (Inr ev) \<in> set pre \<and> ce_preimageRevealed ev = p \<and> run_backed b q ev"
proof -
  let ?bk = "backend_on_base others b rest"
  have v: "b_verifyClaim ?bk = Some (verify_claim_on_base others b)" by (simp add: backend_on_base_def)
  have m: "moves_money (LnSettle p r)" by (rule money_classes) simp
  from assms(2) have "\<exists>q ev. EvVerifyClaim q (Inr ev) \<in> set pre \<and> ce_preimageRevealed ev = p \<and>
      answered_by (verify_claim_on_base others b) (EvVerifyClaim q (Inr ev))"
  proof
    assume t: "trace (settleLightningFromEvmClaim ?bk c i tx w) s = pre @ LnSettle p r # post"
    then obtain q ev where q: "EvVerifyClaim q (Inr ev) \<in> set pre" "ce_preimageRevealed ev = p"
      using wp_at [OF wp_settle_guard t] unfolding settle_guard_def seen_iff by auto
    then show ?thesis using only_trace [OF only_settle_answered [OF v]] t by (metis in_set_conv_decomp append_Cons append_assoc)
  next
    assume t: "trace (reconcileSwap ?bk c i w) s = pre @ LnSettle p r # post"
    then obtain q ev where q: "EvVerifyClaim q (Inr ev) \<in> set pre" "ce_preimageRevealed ev = p"
      using wp_at [OF wp_reconcileSwap t] m unfolding reconcile_guard_def seen_iff by blast
    then show ?thesis using only_trace [OF only_reconcile_answered [OF v]] t by (metis in_set_conv_decomp append_Cons append_assoc)
  qed
  then show ?thesis using answered_backed [OF assms(1)] by blast
qed

section \<open>Under the reconciler\<close>

definition observed_by :: "'w capacity_provider \<Rightarrow> inv_event \<Rightarrow> bool" where
  "observed_by cp e = (case e of KvObserve t r \<Rightarrow> \<exists>s. r = fst (cp_observeWalletCapacity cp t s) | _ \<Rightarrow> True)"

lemma observed_by_simps [simp]:
  "observed_by cp (KvObserve t r) \<longleftrightarrow> (\<exists>s. r = fst (cp_observeWalletCapacity cp t s))"
  "observed_by cp (KvReadiness tk st)" "observed_by cp (KvSnapshot row)"
  by (simp_all add: observed_by_def)

lemma only_reconcile_observed: "only (observed_by (kr_provider rc)) (reconcile rc tokenAddress)"
  unfolding reconcile_def executeCapacityReconciliation_def close_capacity_def capacity_failed_def record_snapshot_def set_readiness_def Let_def
  by (intro only_answer only_rules; simp; (intro only_answer only_rules; simp)?; fastforce?)


text \<open>What an observation of the capacity read: the balance of the token now, and at the finalized block or that many
  confirmations back.\<close>

definition capacity_read :: "'w base_backend \<Rightarrow> string \<Rightarrow> capacity_observation \<Rightarrow> base_event list \<Rightarrow> bool" where
  "capacity_read b token obs h \<longleftrightarrow>
     BvBalance token AtLatest (Inr (ob_walletBalanceLatest obs)) \<in> set h \<and>
     (BvBalance token AtFinalized (Inr (ob_walletBalanceFinalized obs)) \<in> set h \<or>
      (\<exists>n. BvBlockNumber (Inr n) \<in> set h \<and>
         BvBalance token (AtBlock (max 0 (n - requiredConfirmations b))) (Inr (ob_walletBalanceFinalized obs)) \<in> set h)) \<and>
     ob_safeWalletCapacity obs = min (ob_walletBalanceLatest obs) (ob_walletBalanceFinalized obs) \<and>
     ob_finalizedBlockNumber obs = max 0 (ob_latestBlockNumber obs - requiredConfirmations b) \<and>
     bs_operatorAddress (bc_settings b) = Some (ob_operatorAddress obs)"

lemma wpi_observe_capacity:
  assumes "keeps_address b"
  shows "wpi (at_address a) (\<lambda>_ _. True) (observe_capacity b token)
    (\<lambda>obs h'. later h h' \<and> capacity_read b token obs h') (\<lambda>_ _. True) h"
  unfolding observe_capacity_def
  by (intro wpi_rules wpi_call address_rules assms) (auto simp: capacity_read_def min_def)

lemma capacity_run:
  assumes "keeps_address b" "base_observeWalletCapacity b token s = (Inr obs, t, s')"
  shows "capacity_read b (to_lower token) obs t \<and> (x_initialized s \<or> guards_seen b (x_htlcAddress s) t)"
proof -
  let ?a = "x_htlcAddress s"
  let ?Q = "\<lambda>obs h. capacity_read b (to_lower token) obs h \<and> (\<not> x_initialized s \<longrightarrow> guards_seen b ?a h)"
  have q: "quiet (\<lambda>h e. True)" by (simp add: quiet_def)
  have w: "wpi (at_address ?a) (\<lambda>_ _. True) (observe_capacity b (to_lower token)) ?Q (\<lambda>_ _. True) h"
    if "\<not> x_initialized s \<longrightarrow> guards_seen b ?a h" for h
    by (rule wpi_post [OF wpi_observe_capacity [OF assms(1)]]) (use that in \<open>auto intro: guards_later\<close>)
  show ?thesis
    using guarded_run [OF assms(1) q w _ refl refl assms(2) [unfolded base_observeWalletCapacity_def]] by auto
qed

text \<open>C11: READY over the Base Sepolia backend is read from the chain. When \<open>reconcile\<close> over it answers READY, an observation of the
  backend passed the network guard and read the balance of the token now and at a finalized block (or the configured number of
  confirmations back), and the obligations R + P left behind are at most both, the returned headroom being the difference to the smaller one.\<close>

theorem ready_capacity_read:
  assumes "keeps_address b" "kr_provider rc = capacity_on_base b" "ip_failClosedOnDeficit (kr_policy rc)"
    "reconcile rc tokenAddress s = (Inr (IR_READY, headroom), t, s')"
  shows "\<exists>x obs. (let h = trace (base_observeWalletCapacity b (token_of rc tokenAddress)) x in
      capacity_read b (token_of rc tokenAddress) obs h \<and> (x_initialized x \<or> guards_seen b (x_htlcAddress x) h)) \<and>
    obligations (token_of rc tokenAddress) (k_db s') \<le> ob_walletBalanceLatest obs \<and>
    obligations (token_of rc tokenAddress) (k_db s') \<le> ob_walletBalanceFinalized obs \<and>
    headroom = min (ob_walletBalanceLatest obs) (ob_walletBalanceFinalized obs) - obligations (token_of rc tokenAddress) (k_db s')"
proof -
  let ?tk = "token_of rc tokenAddress"
  obtain obs where o: "KvObserve ?tk (Inr obs) \<in> set t" "ready_state rc ?tk obs headroom s'"
    by (rule reconcile_ready [OF assms(4,3)])
  from onlyD [OF only_reconcile_observed assms(4) o(1)]
  obtain u where "fst (on_chain (base_observeWalletCapacity b ?tk) u) = Inr obs"
    unfolding assms(2) by (auto simp: capacity_on_base_def)
  then obtain x t1 x' where x: "base_observeWalletCapacity b ?tk x = (Inr obs, t1, x')"
    by (auto simp: on_chain_def Let_def map_sum_def split: prod.splits sum.splits)
  have l: "to_lower ?tk = ?tk" by simp
  have c: "capacity_read b ?tk obs t1 \<and> (x_initialized x \<or> guards_seen b (x_htlcAddress x) t1)"
    using capacity_run [OF assms(1) x] unfolding l .
  have "headroom = ob_safeWalletCapacity obs - obligations ?tk (k_db s')" "0 \<le> headroom"
    using o(2) by (simp_all add: ready_state_def)
  moreover have "ob_safeWalletCapacity obs = min (ob_walletBalanceLatest obs) (ob_walletBalanceFinalized obs)"
    using c by (simp add: capacity_read_def)
  moreover have "trace (base_observeWalletCapacity b ?tk) x = t1" by (simp add: trace_def x)
  ultimately show ?thesis using c by (intro exI [of _ x] exI [of _ obs]) (auto simp: Let_def)
qed

section \<open>Configuration\<close>

text \<open>The constructor: an operator key needs persistence or the test flag; all confirmation settings agree; the manager and the
  direct path exclude each other.\<close>

lemma base_settings_ok:
  assumes "base_settings_of account config = Inr st"
  shows "bs_operatorAddress st \<noteq> None \<longrightarrow> (bs_managed st \<longleftrightarrow> bo_persistence config)"
    "bs_unsafeDirect st \<Longrightarrow> bo_unsafeDirectExecutionForTests config \<and> \<not> bs_managed st"
    "bs_managed st \<Longrightarrow> bs_persistence st"
    "bo_requiredConfirmations config \<in> {None, Some (fl_requiredConfirmations (bs_finalityPolicy st))}"
    "bo_txRequiredConfirmations config \<in> {None, Some (fl_requiredConfirmations (bs_finalityPolicy st))}"
  using assms by (auto simp: base_settings_of_def Let_def split: if_splits)

end
