(* ===== verification/Base_Runs.thy ===== *)
theory Base_Runs
  imports Base_Laws Coord_Demo Tx_Laws
begin

text \<open>
  Concrete runs of the Base Sepolia backend: against a node that stores one HTLC, whose status is the world. They show the theorems
  of \<open>Base_Laws\<close> at work and the behaviour behind the recorded findings.
\<close>

section \<open>A node with one HTLC\<close>

abbreviation htlc_status_now :: "int bsys \<Rightarrow> int" where
  "htlc_status_now s \<equiv> t_world (x_tx s)"

definition demo_write :: "string \<Rightarrow> contract_call \<Rightarrow> (int, string) bcall" where
  "demo_write t c s = (Inr ''0xtx'', s\<lparr>x_tx := (x_tx s)\<lparr>t_world :=
     (case c of CallFund h n tk k r l \<Rightarrow> 1 | CallRefund i \<Rightarrow> 3 | CallApprove u n \<Rightarrow> htlc_status_now s)\<rparr>\<rparr>)"

definition demo_receipt :: receipt where
  "demo_receipt = \<lparr> rp_blockNumber = 8, rp_success = True, rp_transactionHash = ''0xtx'', rp_to = Some ''0xc'',
     rp_logs = [\<lparr> lg_address = ''0xc'', lg_topics = [''0xt'', ''id''] \<rparr>] \<rparr>"

definition demo_base_settings :: base_settings where
  "demo_base_settings = \<lparr> bs_chainId = BASE_SEPOLIA_CHAIN_ID, bs_tokenAddress = OFFICIAL_BASE_SEPOLIA_USDC_ADDRESS,
     bs_finalityPolicy = \<lparr> fl_policyTag = ''P'', fl_requiredConfirmations = 2 \<rparr>, bs_operatorAddress = Some ''0xo'',
     bs_managed = False, bs_unsafeDirect = True, bs_persistence = False \<rparr>"

definition demo_base :: "int base_backend" where
  "demo_base = \<lparr> bc_settings = demo_base_settings, bc_manager = demo_tx None,
     bc_chainId = (\<lambda>s. (Inr 84532, s)), bc_decimals = (\<lambda>t s. (Inr 6, s)),
     bc_bytecode = (\<lambda>a s. (Inr (Some ''0x6080604052''), s)), bc_code = (\<lambda>a s. (Inr (Some ''0x60''), s)),
     bc_blockNumber = (\<lambda>s. (Inr 10, s)), bc_block = (\<lambda>n s. (Inr \<lparr> bk_timestamp = 100, bk_hash = None \<rparr>, s)),
     bc_balanceOf = (\<lambda>t a s. (Inr (case a of AtLatest \<Rightarrow> 21 | _ \<Rightarrow> 20), s)), bc_ethBalance = (\<lambda>s. (Inr 1, s)),
     bc_allowance = (\<lambda>t a s. (Inr 9, s)),
     bc_getHtlc = (\<lambda>h i s. (Inr (Some \<lparr> sh_status = JsNum (htlc_status_now s), sh_amount = 5, sh_hashLock = ''0xh'',
        sh_claimAddress = ''0xa'', sh_refundAddress = ''0xo'', sh_timelock = 50 \<rparr>), s)),
     bc_receipt = (\<lambda>h s. (Inr (Some demo_receipt), s)), bc_transaction = (\<lambda>h s. (Inr ''input'', s)), bc_write = demo_write,
     bc_waitReceipt = (\<lambda>h s. (Inr demo_receipt, s)), bc_encodeIdentity = (\<lambda>d. Inr (hd_hashLock d)),
     bc_encodeCall = (\<lambda>c. Inr ''0x''), bc_decodeCall = (\<lambda>i. Inr (''claim'', [''id'', ''0x'' @ demo_preimage])),
     bc_keccak = (\<lambda>x. x), bc_sha256 = (\<lambda>x. if length x < 20 then PINNED_HTLC_BYTECODE_RAW_SHA256 else ''h''),
     bc_nowMs = (\<lambda>s. 5000), bc_others = (\<lambda>s. s) \<rparr>"

lemma demo_base_keeps: "keeps_address demo_base"
  by (simp add: keeps_address_def leaves_address_def demo_base_def demo_write_def)

definition demo_bsys :: "int \<Rightarrow> int bsys" where
  "demo_bsys status = \<lparr> x_tx = demo_tsys\<lparr>t_world := status\<rparr>, x_keyToId = [''k'' \<mapsto> ''id''], x_idToKey = [''id'' \<mapsto> ''k''],
     x_evidenceLog = [], x_durableActions = (\<lambda>_. None), x_htlcAddress = ''0xc'', x_initialized = False \<rparr>"

section \<open>Sending\<close>

definition demo_fund :: fund_params where
  "demo_fund = \<lparr> fp_swapKey = ''k'', fp_hashLock = ''0xh'', fp_amountUnits = 5, fp_tokenAddress = OFFICIAL_BASE_SEPOLIA_USDC_ADDRESS,
     fp_refundLocktime = 50, fp_claimAddress = ''0xa'', fp_refundAddress = ''0xo'' \<rparr>"

lemma demo_base_sends:
  "list_ex write_call (trace (run_base demo_base (OpFund demo_fund)) (demo_bsys 0))"
  "list_ex write_call (trace (run_base demo_base (OpRefund ''k'')) (demo_bsys 1))"
  by code_simp+

theorem base_writes_backed_witness:
  "(\<exists>pre e. fund_backed demo_base ''0xc'' (prefixed demo_fund) pre e) \<and> (\<exists>pre e. refund_backed demo_base ''0xc'' pre e)"
proof (rule event_of [OF demo_base_sends(1)], rule event_of [OF demo_base_sends(2)])
  fix pre e post pre' e' post'
  assume a: "trace (run_base demo_base (OpFund demo_fund)) (demo_bsys 0) = pre @ e # post" "write_call e"
    "trace (run_base demo_base (OpRefund ''k'')) (demo_bsys 1) = pre' @ e' # post'" "write_call e'"
  have "x_htlcAddress (demo_bsys s) = ''0xc''" for s by (simp add: demo_bsys_def)
  then show ?thesis
    using base_writes_backed [OF demo_base_keeps a(1,2)] base_writes_backed [OF demo_base_keeps a(3,4)] by auto
qed

section \<open>Settling\<close>

definition demo_query :: claim_query where
  "demo_query = \<lparr> cq_claimTxHash = ''tx'', cq_expectedHtlcId = ''id'', cq_expectedHashLock = ''0xh'',
     cq_expectedClaimAddress = ''0xA'', cq_expectedAmount = 5, cq_requiredConfirmations = 2 \<rparr>"

lemma demo_evidence: "\<not> isl (fst (base_extractClaimEvidence demo_base demo_query (Some 2) (demo_bsys 2)))"
  by code_simp

theorem claim_evidence_bound_witness:
  "\<exists>ev t. guards_seen demo_base ''0xc'' t \<and> evidence_backed demo_base ''0xc'' demo_query (Some 2) ev t"
proof -
  obtain ev t s' where r: "base_extractClaimEvidence demo_base demo_query (Some 2) (demo_bsys 2) = (Inr ev, t, s')"
    using demo_evidence by (metis prod.collapse sum.collapse(2) sum.exhaust_disc)
  have "x_htlcAddress (demo_bsys 2) = ''0xc''" "\<not> x_initialized (demo_bsys 2)" by (simp_all add: demo_bsys_def)
  then show ?thesis using claim_evidence_bound [OF demo_base_keeps r] by auto
qed

abbreviation demo_settle :: "int bsys backend" where
  "demo_settle \<equiv> backend_on_base (\<lambda>s. s) demo_base (demo_backend HI_ACCEPTED (demo_htlc True True False))"

definition demo_base_sys :: "int \<Rightarrow> swap_state \<Rightarrow> int bsys sys" where
  "demo_base_sys status st = \<lparr> s_db = empty_db\<lparr>sovereign_swaps := [row_of_record (demo_record st) ''f'']\<rparr>,
     s_cache = (\<lambda>_. None), s_claims = (\<lambda>_. None), s_inflight = [], s_world = demo_bsys status \<rparr>"

lemma demo_base_settles:
  "list_ex is_LnSettle (trace (settleLightningFromEvmClaim demo_settle demo_coordinator ''s'' ''tx'' ''w'')
     (demo_base_sys 2 SA_EVM_FUNDED))"
  by code_simp

theorem settlement_shown_on_chain_witness: "\<exists>q ev. run_backed demo_base q ev"
proof (rule event_of [OF demo_base_settles])
  fix pre e post
  assume t: "trace (settleLightningFromEvmClaim demo_settle demo_coordinator ''s'' ''tx'' ''w'') (demo_base_sys 2 SA_EVM_FUNDED)
      = pre @ e # post" "is_LnSettle e"
  then obtain p r where "e = LnSettle p r" by (cases e) auto
  from settlement_shown_on_chain [OF demo_base_keeps disjI1 [OF t(1) [unfolded this]]] show ?thesis by blast
qed

section \<open>Readiness\<close>

definition demo_base_reconciler :: "int bsys reconciler" where
  "demo_base_reconciler = \<lparr> kr_provider = capacity_on_base demo_base, kr_defaultTokenAddress = OFFICIAL_BASE_SEPOLIA_USDC_ADDRESS,
     kr_expectedChainId = 84532, kr_policy = BASE_SEPOLIA_TEST_POLICY, kr_now = (\<lambda>s. 6) \<rparr>"

definition demo_base_ksys :: "int bsys ksys" where
  "demo_base_ksys = \<lparr> k_db = empty_db, k_readiness = IR_NOT_READY, k_lastTime = 0, k_lastSnapshot = None, k_world = demo_bsys 1 \<rparr>"

lemma demo_base_ready: "fst (reconcile demo_base_reconciler None demo_base_ksys) = Inr (IR_READY, 20)"
  by code_simp

theorem ready_capacity_read_witness:
  "\<exists>x obs. capacity_read demo_base (to_lower OFFICIAL_BASE_SEPOLIA_USDC_ADDRESS) obs
     (trace (base_observeWalletCapacity demo_base (to_lower OFFICIAL_BASE_SEPOLIA_USDC_ADDRESS)) x) \<and>
     min (ob_walletBalanceLatest obs) (ob_walletBalanceFinalized obs) -
       obligations (to_lower OFFICIAL_BASE_SEPOLIA_USDC_ADDRESS) (k_db (snd (snd (reconcile demo_base_reconciler None demo_base_ksys)))) = 20"
proof -
  obtain t s' where r: "reconcile demo_base_reconciler None demo_base_ksys = (Inr (IR_READY, 20), t, s')"
    using demo_base_ready by (metis prod.collapse)
  have p: "kr_provider demo_base_reconciler = capacity_on_base demo_base" "ip_failClosedOnDeficit (kr_policy demo_base_reconciler)"
    by (simp_all add: demo_base_reconciler_def BASE_SEPOLIA_TEST_POLICY_def)
  have k: "token_of demo_base_reconciler None = to_lower OFFICIAL_BASE_SEPOLIA_USDC_ADDRESS"
    by (simp add: token_of_def demo_base_reconciler_def)
  from ready_capacity_read [OF demo_base_keeps p r] show ?thesis
    unfolding k Let_def r snd_conv by (elim exE conjE) (intro exI conjI, assumption, simp only:)
qed

section \<open>The findings\<close>

text \<open>
  A refund repeated after a restart finds the HTLC refunded and answers the placeholder \<open>0x_already_refunded\<close>, which is a
  transaction hash to its caller: \<open>processRefund\<close> knows only the placeholder \<open>0x_reconciled_refund\<close>. And the backend offers no
  verification of refund evidence, so the finality check before Lightning is cancelled is always skipped.
\<close>

lemma refund_placeholder:
  "fst (base_refundHtlc demo_base ''k'' (demo_bsys 3)) = Inr (''0x_already_refunded'', 0)"
  "\<not> starts_with ''0x_already_refunded'' ''0x_reconciled''"
  "b_verifyRefund demo_settle = None"
  by (code_simp, code_simp, simp add: backend_on_base_def)

text \<open>An address set after the first operation is used without its bytecode having been looked at.\<close>

lemma address_unguarded:
  "\<not> list_ex (\<lambda>e. case e of BvBytecode a r \<Rightarrow> True | _ \<Rightarrow> False)
     (trace (seq (setHtlcAddress ''0xevil'') (base_refundHtlc demo_base ''k'')) ((demo_bsys 1)\<lparr>x_initialized := True\<rparr>))"
  "list_ex (\<lambda>e. case e of BvWrite a c r \<Rightarrow> a = ''0xevil'' | _ \<Rightarrow> False)
     (trace (seq (setHtlcAddress ''0xevil'') (base_refundHtlc demo_base ''k'')) ((demo_bsys 1)\<lparr>x_initialized := True\<rparr>))"
  by code_simp+

text \<open>The guards check the configured token; \<open>fundHtlc\<close> funds in the token of its parameters.\<close>

lemma token_unguarded:
  "list_ex (\<lambda>e. case e of BvWrite a (CallFund h n tk k r l) x \<Rightarrow> tk = ''0xother'' | _ \<Rightarrow> False)
     (trace (base_fundHtlc demo_base (demo_fund\<lparr>fp_tokenAddress := ''0xother''\<rparr>)) (demo_bsys 0))"
  by code_simp

text \<open>
  The log of a claim is recognised by its contract and HTLC id only: the receipt below carries an event whose kind is the one
  of a funding.
\<close>

lemma any_event_is_a_claim:
  "claim_log ''0xc'' ''id'' \<lparr> lg_address = ''0xc'', lg_topics = [HTLC_FUNDED_TOPIC, ''id''] \<rparr>"
  by code_simp

text \<open>
  The reported finalized block is the latest one less the confirmations, whatever block the finalized balance was read at, so
  for a policy with the backend's confirmations the reconciler's check of the distance never fails.
\<close>

lemma finality_distance_by_construction:
  assumes "keeps_address b" "base_observeWalletCapacity b token s = (Inr obs, t, s')"
    "ip_requiredConfirmations policy = requiredConfirmations b" "0 \<le> ip_reorgLagTolerance policy"
  shows "\<not> finality_mismatch policy obs"
  using capacity_run [OF assms(1,2)] assms(3,4) by (auto simp: capacity_read_def finality_mismatch_def Let_def)

end
