(* ===== verification/Lnd.thy ===== *)
theory Lnd
  imports Base_Backend
begin

text \<open>
  The Lightning side: the REST client of LND (\<open>src/src/atomic/lightning/lnd-client.ts\<close>) with its network guard, the fault
  injecting wrapper (\<open>fault-injector.ts\<close>) and the backend over either (\<open>lnd-backend.ts\<close>).

  HTTP is a function of the client: a request has a status and a body, times out or fails. JSON decoders are parameters. Of
  LND's data, \<open>value\<close> is the decimal text that the backend parses; times and block counts are integers, a missing or empty text is
  \<open>None\<close>; the state of an invoice is any text.
\<close>

section \<open>Data\<close>

datatype lnd_error = RestError int string | InvoiceNotFound string | LndError string

record lnd_info =
  li_network :: "string option"
  li_block_height :: "int option"

record lnd_htlc =
  lh_accept_time :: "int option"
  lh_expiry_height :: "int option"
  lh_state :: string

record lnd_invoice =
  lv_value :: string
  lv_creation_date :: "int option"
  lv_settle_date :: "int option"
  lv_payment_request :: string
  lv_cltv_expiry :: int
  lv_state :: string
  lv_htlcs :: "lnd_htlc list option"

datatype lnd_request = Get string | Post string "(string \<times> string) list"

datatype http_outcome = HttpAnswer int string | HttpTimeout | HttpFailure string

datatype lnd_event = LvHttp lnd_request http_outcome

datatype fault_type = DROP_RESPONSE | TIMEOUT | FAULT_ERROR

datatype lnd_operation = OpAddHold | OpSettle | OpCancel | OpLookup

text \<open>\<open>None\<close> is the operation \<open>'all'\<close>.\<close>

record injected_fault =
  if_type :: fault_type
  if_operation :: "lnd_operation option"
  if_error :: "lnd_error option"

record 'w lnd_sys =
  ln_verifiedNetwork :: bool
  ln_pendingFaults :: "injected_fault list"
  ln_world :: 'w

type_synonym ('w, 'a) lact = "(lnd_error, lnd_event, 'w lnd_sys, 'a) action"

text \<open>\<open>ILndClient\<close>\<close>

record 'w ilnd =
  il_getInfo :: "('w, lnd_info) lact"
  il_addHoldInvoice :: "string \<Rightarrow> int \<Rightarrow> int \<Rightarrow> string option \<Rightarrow> ('w, string) lact"
  il_lookupInvoice :: "string \<Rightarrow> ('w, lnd_invoice) lact"
  il_settleInvoice :: "string \<Rightarrow> ('w, unit) lact"
  il_cancelInvoice :: "string \<Rightarrow> ('w, unit) lact"

section \<open>Base64\<close>

text \<open>\<open>Buffer.from(s, 'hex').toString('base64')\<close> of the hex text of whole bytes: three digits are two characters.\<close>

definition b64_char :: "nat \<Rightarrow> char" where
  "b64_char n = (if n < 26 then char_of (n + 65) else if n < 52 then char_of (n + 71)
     else if n < 62 then char_of (n - 4) else if n = 62 then CHR ''+'' else CHR ''/'')"

definition hex_value :: "char \<Rightarrow> nat" where
  "hex_value c = (case radix_digit 16 c of Some v \<Rightarrow> v | None \<Rightarrow> 0)"

fun base64 :: "string \<Rightarrow> string" where
  "base64 (a # b # c # s) =
     (let v = 256 * hex_value a + 16 * hex_value b + hex_value c in b64_char (v div 64) # b64_char (v mod 64) # base64 s)"
| "base64 [a, b] = (let v = 16 * hex_value a + hex_value b in [b64_char (v div 4), b64_char (16 * (v mod 4)), CHR ''='', CHR ''=''])"
| "base64 [a] = [b64_char (4 * hex_value a), CHR ''='']"
| "base64 [] = []"

section \<open>The client\<close>

record lnd_config =
  lg_restEndpoint :: string
  lg_tlsCertPath :: "string option"
  lg_tlsCertPem :: "string option"
  lg_macaroonPath :: "string option"
  lg_macaroonHex :: "string option"
  lg_expectedNetwork :: "string option"

record lnd_connection =
  lc_baseUrl :: string
  lc_expectedNetwork :: string
  lc_ca :: "string option"
  lc_rejectUnauthorized :: bool
  lc_macaroonHex :: string

text \<open>The constructor; \<open>file\<close> is the content of a file that exists, \<open>hex\<close> its bytes as text.\<close>

definition connection_of :: "(string \<Rightarrow> string option) \<Rightarrow> (string \<Rightarrow> string option) \<Rightarrow> lnd_config \<Rightarrow> lnd_connection" where
  "connection_of file hex config =
    (let ca = (case truthy_str (lg_tlsCertPem config) of
           Some pem \<Rightarrow> Some pem
         | None \<Rightarrow> (case truthy_str (lg_tlsCertPath config) of None \<Rightarrow> None | Some p \<Rightarrow> file p));
         macaroon = (case truthy_str (lg_macaroonHex config) of
           Some m \<Rightarrow> js_strip m
         | None \<Rightarrow> (case truthy_str (lg_macaroonPath config) of None \<Rightarrow> ''''
             | Some p \<Rightarrow> (case hex p of None \<Rightarrow> '''' | Some m \<Rightarrow> js_strip m)));
         url = lg_restEndpoint config
     in \<lparr> lc_baseUrl = (if url \<noteq> [] \<and> last url = CHR ''/'' then butlast url else url),
          lc_expectedNetwork = coalesce (lg_expectedNetwork config) ''regtest'', lc_ca = ca,
          lc_rejectUnauthorized = (ca \<noteq> None), lc_macaroonHex = macaroon \<rparr>)"

text \<open>\<open>lc_http\<close> is the transport, \<open>lc_error\<close> the message of an error body, and the rest decode bodies.\<close>

record 'w lnd_client =
  lc_connection :: lnd_connection
  lc_http :: "lnd_request \<Rightarrow> 'w lnd_sys \<Rightarrow> http_outcome \<times> 'w lnd_sys"
  lc_error :: "string \<Rightarrow> string option"
  lc_info :: "string \<Rightarrow> string + lnd_info"
  lc_added :: "string \<Rightarrow> string + string"
  lc_invoice :: "string \<Rightarrow> string + lnd_invoice"
  lc_done :: "string \<Rightarrow> string + unit"

definition lnd_send :: "'w lnd_client \<Rightarrow> lnd_request \<Rightarrow> ('w, http_outcome) lact" where
  "lnd_send c req = call (\<lambda>r. LvHttp req (case r of Inr out \<Rightarrow> out | Inl _ \<Rightarrow> HttpTimeout))
     (\<lambda>s. case lc_http c req s of (out, s') \<Rightarrow> (Inr out, s'))"

definition request_lnd :: "'w lnd_client \<Rightarrow> lnd_request \<Rightarrow> (string \<Rightarrow> string + 'a) \<Rightarrow> ('w, 'a) lact" where
  "request_lnd c req parse =
    bnd (lnd_send c req) (\<lambda>out.
    case out of
      HttpTimeout \<Rightarrow> thr (LndError ''LND request timeout'')
    | HttpFailure m \<Rightarrow> thr (LndError m)
    | HttpAnswer statusCode rawData \<Rightarrow>
        if 200 \<le> statusCode \<and> statusCode < 300
        then (case parse (if rawData = [] then ''{}'' else rawData) of Inl m \<Rightarrow> thr (LndError m) | Inr x \<Rightarrow> ret x)
        else thr (RestError statusCode (coalesce (truthy_str (lc_error c rawData))
               (''LND REST Error ('' @ bigint_text statusCode @ ''): '' @ rawData))))"

definition lnd_getInfo :: "'w lnd_client \<Rightarrow> ('w, lnd_info) lact" where
  "lnd_getInfo c = request_lnd c (Get ''/v1/getinfo'') (lc_info c)"

definition network_violation :: lnd_error where
  "network_violation = LndError ''P0_NETWORK_SAFETY_VIOLATION''"

definition verifyNetworkSafety :: "'w lnd_client \<Rightarrow> ('w, unit) lact" where
  "verifyNetworkSafety c =
    (let expectedNetwork = lc_expectedNetwork (lc_connection c) in
     bnd (lnd_getInfo c) (\<lambda>info.
     let activeNetwork = map_option to_lower (li_network info) in
     if activeNetwork \<noteq> Some expectedNetwork then thr network_violation
     else if expectedNetwork = ''regtest'' \<and> activeNetwork \<noteq> Some ''regtest'' then thr network_violation
     else change (\<lambda>s. s\<lparr>ln_verifiedNetwork := True\<rparr>)))"

definition assertNetworkVerified :: "('w, unit) lact" where
  "assertNetworkVerified = bnd (ask ln_verifiedNetwork) (\<lambda>verified. if verified then ret () else thr (LndError ''LND_UNVERIFIED_NETWORK''))"

definition add_request :: "string \<Rightarrow> int \<Rightarrow> int \<Rightarrow> string option \<Rightarrow> lnd_request" where
  "add_request hash amountSats cltvBlocks memo = Post ''/v2/invoices/hodl''
     [(''hash'', base64 (hex_bytes (strip_0x hash))), (''value'', bigint_text amountSats),
      (''cltv_expiry'', bigint_text cltvBlocks), (''memo'', coalesce memo ''Universal Agent Asset Router Swap'')]"

definition settle_request :: "string \<Rightarrow> lnd_request" where
  "settle_request preimage = Post ''/v2/invoices/settle'' [(''preimage'', base64 (hex_bytes (strip_0x preimage)))]"

definition cancel_request :: "string \<Rightarrow> lnd_request" where
  "cancel_request hash = Post ''/v2/invoices/cancel'' [(''payment_hash'', base64 (hex_bytes (strip_0x hash)))]"

definition lookup_request :: "string \<Rightarrow> lnd_request" where
  "lookup_request hash = Get (''/v1/invoice/'' @ strip_0x hash)"

definition lnd_client_of :: "'w lnd_client \<Rightarrow> 'w ilnd" where
  "lnd_client_of c = \<lparr>
     il_getInfo = lnd_getInfo c,
     il_addHoldInvoice = \<lambda>hash amount cltv memo.
       seq assertNetworkVerified (request_lnd c (add_request hash amount cltv memo) (lc_added c)),
     il_lookupInvoice = \<lambda>hash. seq assertNetworkVerified (request_lnd c (lookup_request hash) (lc_invoice c)),
     il_settleInvoice = \<lambda>preimage. seq assertNetworkVerified (request_lnd c (settle_request preimage) (lc_done c)),
     il_cancelInvoice = \<lambda>hash. seq assertNetworkVerified (request_lnd c (cancel_request hash) (lc_done c)) \<rparr>"

section \<open>The fault injecting client\<close>

definition fault_matches :: "lnd_operation \<Rightarrow> injected_fault \<Rightarrow> bool" where
  "fault_matches op f \<longleftrightarrow> if_operation f = Some op \<or> if_operation f = None"

definition takeFault :: "lnd_operation \<Rightarrow> ('w, injected_fault option) lact" where
  "takeFault op =
    bnd (ask (\<lambda>s. List.find (fault_matches op) (ln_pendingFaults s))) (\<lambda>fault.
    case fault of
      None \<Rightarrow> ret None
    | Some f \<Rightarrow> seq (change (\<lambda>s. s\<lparr>ln_pendingFaults := takeWhile (\<lambda>g. \<not> fault_matches op g) (ln_pendingFaults s) @
         tl (dropWhile (\<lambda>g. \<not> fault_matches op g) (ln_pendingFaults s))\<rparr>)) (ret (Some f)))"

text \<open>A mutation: \<open>DROP_RESPONSE\<close> lets the underlying call happen and loses its answer. A read has no such fault.\<close>

definition faulty :: "lnd_operation \<Rightarrow> ('w, 'a) lact \<Rightarrow> ('w, 'a) lact" where
  "faulty op m =
    bnd (takeFault op) (\<lambda>fault.
    case fault of
      None \<Rightarrow> m
    | Some f \<Rightarrow>
        (case if_type f of
           TIMEOUT \<Rightarrow> thr (LndError ''Injected RPC Timeout'')
         | DROP_RESPONSE \<Rightarrow> if op = OpLookup then m else seq m (thr (LndError ''Injected Socket Drop''))
         | FAULT_ERROR \<Rightarrow> thr (coalesce (if_error f) (LndError ''Injected Error''))))"

definition fault_injectable :: "'w ilnd \<Rightarrow> 'w ilnd" where
  "fault_injectable underlying = \<lparr>
     il_getInfo = il_getInfo underlying,
     il_addHoldInvoice = \<lambda>hash amount cltv memo. faulty OpAddHold (il_addHoldInvoice underlying hash amount cltv memo),
     il_lookupInvoice = \<lambda>hash. faulty OpLookup (il_lookupInvoice underlying hash),
     il_settleInvoice = \<lambda>preimage. faulty OpSettle (il_settleInvoice underlying preimage),
     il_cancelInvoice = \<lambda>hash. faulty OpCancel (il_cancelInvoice underlying hash) \<rparr>"

definition injectFault :: "injected_fault \<Rightarrow> ('w, unit) lact" where
  "injectFault fault = change (\<lambda>s. s\<lparr>ln_pendingFaults := ln_pendingFaults s @ [fault]\<rparr>)"

definition clearFaults :: "('w, unit) lact" where
  "clearFaults = change (\<lambda>s. s\<lparr>ln_pendingFaults := []\<rparr>)"

section \<open>The backend\<close>

record 'w lnd_backend =
  lb_client :: "'w ilnd"
  lb_now :: "'w lnd_sys \<Rightarrow> int"
  lb_sha256 :: "string \<Rightarrow> string"

definition clean_hash :: "string \<Rightarrow> string" where
  "clean_hash s = to_lower (strip_0x s)"

text \<open>\<open>/^[a-f0-9]{64}$/\<close>\<close>

definition is_hash32 :: "string \<Rightarrow> bool" where
  "is_hash32 s \<longleftrightarrow> length s = 64 \<and> list_all (\<lambda>c. is_hex c \<and> char_lower c = c) s"

definition mapLndState :: "string \<Rightarrow> lnd_error + hold_invoice_state" where
  "mapLndState s =
    (if s = ''OPEN'' then Inr HI_OPEN else if s = ''ACCEPTED'' then Inr HI_ACCEPTED
     else if s = ''SETTLED'' then Inr HI_SETTLED else if s = ''CANCELED'' then Inr HI_CANCELED
     else Inl (LndError ''UNKNOWN_LND_INVOICE_STATE: Fail closed.''))"

definition held_htlc :: "lnd_htlc \<Rightarrow> bool" where
  "held_htlc h \<longleftrightarrow> lh_state h \<in> {''ACCEPTED'', ''SETTLED''}"

definition nonzero_time :: "int option \<Rightarrow> int option" where
  "nonzero_time t = (case t of None \<Rightarrow> None | Some n \<Rightarrow> if n = 0 then None else Some (n * 1000))"

definition mapLndInvoiceToHoldInvoice :: "int \<Rightarrow> string \<Rightarrow> lnd_invoice \<Rightarrow> lnd_error + hold_invoice" where
  "mapLndInvoiceToHoldInvoice now paymentHash lnd =
    (case mapLndState (lv_state lnd) of
       Inl e \<Rightarrow> Inl e
     | Inr st \<Rightarrow>
         (let createdAt = (case lv_creation_date lnd of Some n \<Rightarrow> n * 1000 | None \<Rightarrow> now);
              acceptedHtlc = (if st = HI_ACCEPTED \<or> st = HI_SETTLED
                then (case lv_htlcs lnd of None \<Rightarrow> None | Some hs \<Rightarrow> List.find held_htlc hs) else None)
          in case js_BigInt (lv_value lnd) of
               None \<Rightarrow> Inl (LndError ''Cannot convert to a BigInt'')
             | Some amount \<Rightarrow>
                 Inr \<lparr> hi_paymentHash = paymentHash, hi_bolt11 = lv_payment_request lnd, hi_amountSats = amount,
                   hi_cltvExpiryBlocks = lv_cltv_expiry lnd,
                   hi_expiryHeight = Option.bind acceptedHtlc lh_expiry_height, hi_state = st, hi_createdAt = createdAt,
                   hi_acceptedAt = map_option (\<lambda>h. coalesce (nonzero_time (lh_accept_time h)) createdAt) acceptedHtlc,
                   hi_settledAt = nonzero_time (lv_settle_date lnd),
                   hi_canceledAt = (if st = HI_CANCELED then Some now else None), hi_htlcs = None \<rparr>))"

definition lnd_raise :: "lnd_error + 'a \<Rightarrow> ('w, 'a) lact" where
  "lnd_raise r = (case r of Inl e \<Rightarrow> thr e | Inr x \<Rightarrow> ret x)"

definition is_absent :: "lnd_error \<Rightarrow> bool" where
  "is_absent e \<longleftrightarrow> (\<exists>m. e = RestError 404 m)"

lemma is_absent_simps [simp, code]:
  "is_absent (RestError n m) \<longleftrightarrow> n = 404" "is_absent (InvoiceNotFound h) \<longleftrightarrow> False" "is_absent (LndError m) \<longleftrightarrow> False"
  by (simp_all add: is_absent_def)

text \<open>After a failed creation: the invoice of this hash, if the node has it with this amount; \<open>None\<close> only for an answered absence.\<close>

definition tryReconcileAddHoldInvoice :: "'w lnd_backend \<Rightarrow> string \<Rightarrow> int \<Rightarrow> ('w, hold_invoice option) lact" where
  "tryReconcileAddHoldInvoice b paymentHash expectedAmount =
    attempt
     (bnd (il_lookupInvoice (lb_client b) paymentHash) (\<lambda>existing.
      if lv_payment_request existing = [] then ret None
      else
        (case js_BigInt (lv_value existing) of
           None \<Rightarrow> thr (LndError ''Cannot convert to a BigInt'')
         | Some amount \<Rightarrow>
             if amount \<noteq> expectedAmount then thr (LndError ''SECURITY_VIOLATION: Reconciled invoice amount mismatch'')
             else
               bnd (ask (lb_now b)) (\<lambda>now.
               bnd (lnd_raise (mapLndInvoiceToHoldInvoice now paymentHash existing)) (\<lambda>invoice. ret (Some invoice))))))
     (\<lambda>e. if is_absent e then ret None else thr e)"

definition lnd_createHoldInvoice :: "'w lnd_backend \<Rightarrow> string \<Rightarrow> int \<Rightarrow> int \<Rightarrow> string option \<Rightarrow> ('w, hold_invoice) lact" where
  "lnd_createHoldInvoice b hashLock amountSats cltvExpiryBlocks memo =
    (let cleanHash = clean_hash hashLock in
     if amountSats \<le> 0 then thr (LndError ''Invalid invoice amount'')
     else if \<not> is_hash32 cleanHash then thr (LndError ''Invalid hashLock format: must be 32-byte hex'')
     else
       attempt
        (bnd (il_addHoldInvoice (lb_client b) cleanHash amountSats cltvExpiryBlocks memo) (\<lambda>payment_request.
         bnd (ask (lb_now b)) (\<lambda>now.
         ret \<lparr> hi_paymentHash = cleanHash, hi_bolt11 = payment_request, hi_amountSats = amountSats,
               hi_cltvExpiryBlocks = cltvExpiryBlocks, hi_expiryHeight = None, hi_state = HI_OPEN, hi_createdAt = now,
               hi_acceptedAt = None, hi_settledAt = None, hi_canceledAt = None, hi_htlcs = None \<rparr>)))
        (\<lambda>err.
         bnd (tryReconcileAddHoldInvoice b cleanHash amountSats) (\<lambda>reconciled.
         case reconciled of Some invoice \<Rightarrow> ret invoice | None \<Rightarrow> thr err)))"

definition lnd_observeHoldInvoice :: "'w lnd_backend \<Rightarrow> string \<Rightarrow> ('w, hold_invoice) lact" where
  "lnd_observeHoldInvoice b paymentHash =
    (let cleanHash = clean_hash paymentHash in
     attempt
      (bnd (il_lookupInvoice (lb_client b) cleanHash) (\<lambda>invoice.
       bnd (ask (lb_now b)) (\<lambda>now. lnd_raise (mapLndInvoiceToHoldInvoice now cleanHash invoice))))
      (\<lambda>e. if is_absent e then thr (InvoiceNotFound cleanHash) else thr e))"

text \<open>Settle and cancel: when the call fails, the node is asked whether it happened all the same.\<close>

definition lnd_settleHoldInvoice :: "'w lnd_backend \<Rightarrow> string \<Rightarrow> ('w, bool \<times> int) lact" where
  "lnd_settleHoldInvoice b preimage =
    (let cleanPreimage = clean_hash preimage in
     attempt
      (seq (il_settleInvoice (lb_client b) cleanPreimage) (bnd (ask (lb_now b)) (\<lambda>now. ret (True, now))))
      (\<lambda>err.
       bnd (attempt
         (bnd (il_lookupInvoice (lb_client b) (lb_sha256 b (hex_bytes cleanPreimage))) (\<lambda>inv.
          if lv_state inv = ''SETTLED''
          then bnd (ask (lb_now b)) (\<lambda>now. ret (Some (case lv_settle_date inv of Some n \<Rightarrow> n * 1000 | None \<Rightarrow> now)))
          else ret None))
         (\<lambda>_. ret None)) (\<lambda>settledAt.
       case settledAt of Some t \<Rightarrow> ret (True, t) | None \<Rightarrow> thr err)))"

definition lnd_cancelHoldInvoice :: "'w lnd_backend \<Rightarrow> string \<Rightarrow> ('w, bool \<times> int) lact" where
  "lnd_cancelHoldInvoice b paymentHash =
    (let cleanHash = clean_hash paymentHash in
     attempt
      (seq (il_cancelInvoice (lb_client b) cleanHash) (bnd (ask (lb_now b)) (\<lambda>now. ret (True, now))))
      (\<lambda>err.
       bnd (attempt
         (bnd (il_lookupInvoice (lb_client b) cleanHash) (\<lambda>inv. ret (lv_state inv = ''CANCELED'')))
         (\<lambda>_. ret False)) (\<lambda>canceled.
       if canceled then bnd (ask (lb_now b)) (\<lambda>now. ret (True, now)) else thr err)))"

definition lnd_getInvoiceState :: "'w lnd_backend \<Rightarrow> string \<Rightarrow> ('w, hold_invoice_state) lact" where
  "lnd_getInvoiceState b paymentHash =
    bnd (il_lookupInvoice (lb_client b) (clean_hash paymentHash)) (\<lambda>invoice. lnd_raise (mapLndState (lv_state invoice)))"

definition lnd_getBlockHeight :: "'w lnd_backend \<Rightarrow> ('w, int option) lact" where
  "lnd_getBlockHeight b = bnd (il_getInfo (lb_client b)) (\<lambda>info. ret (li_block_height info))"

definition recoverAfterRestart :: "'w lnd_backend \<Rightarrow> string \<Rightarrow> ('w, hold_invoice option) lact" where
  "recoverAfterRestart b paymentHash =
    attempt (bnd (lnd_observeHoldInvoice b (clean_hash paymentHash)) (\<lambda>invoice. ret (Some invoice)))
      (\<lambda>e. case e of InvoiceNotFound h \<Rightarrow> ret None | _ \<Rightarrow> thr e)"

section \<open>Under the coordinator\<close>

definition lnd_cerr :: "lnd_error \<Rightarrow> cerr" where
  "lnd_cerr e = (case e of RestError n m \<Rightarrow> Thrown C_ERROR m | LndError m \<Rightarrow> Thrown C_ERROR m
     | InvoiceNotFound h \<Rightarrow> Thrown C_INVOICE_NOT_FOUND (''LIGHTNING_INVOICE_NOT_FOUND: Invoice not found for payment hash '' @ h))"

text \<open>The node is a part of the world of the coordinator; \<open>others\<close> is what its handlers do while the backend is awaited.\<close>

definition on_lnd ::
  "('v \<Rightarrow> 'w lnd_sys) \<Rightarrow> ('w lnd_sys \<Rightarrow> 'v \<Rightarrow> 'v) \<Rightarrow> ('v sys \<Rightarrow> 'v sys) \<Rightarrow> ('w, 'a) lact \<Rightarrow> ('v, 'a) call" where
  "on_lnd get put others m s =
    (case m (get (s_world s)) of (r, t, l) \<Rightarrow> (map_sum lnd_cerr id r, others (s\<lparr>s_world := put l (s_world s)\<rparr>)))"

definition lightning_on_lnd ::
  "('v \<Rightarrow> 'w lnd_sys) \<Rightarrow> ('w lnd_sys \<Rightarrow> 'v \<Rightarrow> 'v) \<Rightarrow> ('v sys \<Rightarrow> 'v sys) \<Rightarrow> 'w lnd_backend \<Rightarrow> 'v backend \<Rightarrow> 'v backend" where
  "lightning_on_lnd get put others b rest = rest\<lparr>
     b_createHoldInvoice := \<lambda>h a n m. on_lnd get put others (lnd_createHoldInvoice b h a n (Some m)),
     b_observeHoldInvoice := \<lambda>h. on_lnd get put others (lnd_observeHoldInvoice b h),
     b_settleHoldInvoice := \<lambda>p. on_lnd get put others (lnd_settleHoldInvoice b p),
     b_cancelHoldInvoice := \<lambda>h. on_lnd get put others (lnd_cancelHoldInvoice b h),
     b_getInvoiceState := \<lambda>h. on_lnd get put others (lnd_getInvoiceState b h),
     b_getBlockHeight := Some (on_lnd get put others (lnd_getBlockHeight b))\<rparr>"

end
