(* ===== verification/Lnd_Laws.thy ===== *)
theory Lnd_Laws
  imports Lnd State_Logic Coord_Laws
begin

text \<open>
  What the Lightning backend promises: no request but the question for its network reaches a node of another network, and
  every outcome that the backend reports was accepted or shown by the node. The contract of the client interface is the
  locale \<open>lnd_interface\<close>, which the REST client gives and the fault injecting wrapper keeps.
\<close>

section \<open>The contract of the client\<close>

text \<open>What a request was answered, with a status of success.\<close>

fun answered :: "lnd_request \<Rightarrow> (string \<Rightarrow> bool) \<Rightarrow> lnd_event \<Rightarrow> bool" where
  "answered req P (LvHttp req' (HttpAnswer st body)) \<longleftrightarrow> req' = req \<and> 200 \<le> st \<and> st < 300 \<and> P (if body = [] then ''{}'' else body)"
| "answered req P (LvHttp req' _) \<longleftrightarrow> False"

definition getinfo_request :: lnd_request where
  "getinfo_request = Get ''/v1/getinfo''"

definition shows_invoice :: "'w lnd_client \<Rightarrow> string \<Rightarrow> lnd_invoice \<Rightarrow> lnd_event \<Rightarrow> bool" where
  "shows_invoice c hash invoice = answered (lookup_request hash) (\<lambda>body. lc_invoice c body = Inr invoice)"

definition accepts :: "lnd_request \<Rightarrow> lnd_event \<Rightarrow> bool" where
  "accepts req = answered req (\<lambda>_. True)"

definition adds_invoice :: "'w lnd_client \<Rightarrow> lnd_request \<Rightarrow> string \<Rightarrow> lnd_event \<Rightarrow> bool" where
  "adds_invoice c req payment_request = answered req (\<lambda>body. lc_added c body = Inr payment_request)"

definition shows_info :: "'w lnd_client \<Rightarrow> lnd_info \<Rightarrow> lnd_event \<Rightarrow> bool" where
  "shows_info c info = answered getinfo_request (\<lambda>body. lc_info c body = Inr info)"

text \<open>The node is of the expected network.\<close>

definition shows_network :: "'w lnd_client \<Rightarrow> lnd_event \<Rightarrow> bool" where
  "shows_network c e \<longleftrightarrow> (\<exists>info. shows_info c info e \<and>
     map_option to_lower (li_network info) = Some (lc_expectedNetwork (lc_connection c)))"

fun asks_info :: "lnd_event \<Rightarrow> bool" where
  "asks_info (LvHttp req out) \<longleftrightarrow> req = getinfo_request"

abbreviation free :: "'e list \<Rightarrow> 'e \<Rightarrow> bool" where "free \<equiv> \<lambda>_ _. True"
abbreviation whatever :: "'x \<Rightarrow> 'e list \<Rightarrow> bool" where "whatever \<equiv> \<lambda>_ _. True"

text \<open>An action that leaves the flag alone and asks only for the network while it is down.\<close>

definition flagged :: "bool \<Rightarrow> 'w lnd_sys \<Rightarrow> bool" where
  "flagged v s \<longleftrightarrow> ln_verifiedNetwork s = v"

definition behind_flag :: "bool \<Rightarrow> lnd_event list \<Rightarrow> lnd_event \<Rightarrow> bool" where
  "behind_flag v h e \<longleftrightarrow> v \<or> asks_info e"

definition guarded :: "('w, 'a) lact \<Rightarrow> bool" where
  "guarded m \<longleftrightarrow> (\<forall>v h. wpi (flagged v) (behind_flag v) m whatever whatever h)"

definition keeps_flag :: "'w lnd_client \<Rightarrow> bool" where
  "keeps_flag c \<longleftrightarrow> (\<forall>req s. ln_verifiedNetwork (snd (lc_http c req s)) = ln_verifiedNetwork s)"

locale lnd_interface =
  fixes c :: "'w lnd_client" and il :: "'w ilnd"
  assumes info: "wp free (il_getInfo il) (\<lambda>i. seen (shows_info c i)) whatever h"
    and add: "wp free (il_addHoldInvoice il hash amount cltv memo) (\<lambda>p. seen (adds_invoice c (add_request hash amount cltv memo) p)) whatever h"
    and lookup: "wp free (il_lookupInvoice il hash) (\<lambda>invoice. seen (shows_invoice c hash invoice)) whatever h"
    and settle: "wp free (il_settleInvoice il preimage) (\<lambda>_. seen (accepts (settle_request preimage))) whatever h"
    and cancel: "wp free (il_cancelInvoice il hash) (\<lambda>_. seen (accepts (cancel_request hash))) whatever h"
    and guards: "keeps_flag c \<Longrightarrow> guarded (il_getInfo il)" "keeps_flag c \<Longrightarrow> guarded (il_addHoldInvoice il hash amount cltv memo)"
      "keeps_flag c \<Longrightarrow> guarded (il_lookupInvoice il hash)" "keeps_flag c \<Longrightarrow> guarded (il_settleInvoice il preimage)"
      "keeps_flag c \<Longrightarrow> guarded (il_cancelInvoice il hash)"

subsection \<open>The REST client gives it\<close>

lemma wp_request:
  "wp free (request_lnd c req parse) (\<lambda>x. seen (answered req (\<lambda>body. parse body = Inr x))) whatever h"
  unfolding request_lnd_def lnd_send_def
  by (rule wpI) (auto simp: bnd_def call_def ret_def thr_def split: prod.splits sum.splits http_outcome.splits if_splits)

lemma guardedI: "(\<And>v h. wpi (flagged v) (behind_flag v) m whatever whatever h) \<Longrightarrow> guarded m"
  by (simp add: guarded_def)

lemma guardedD: "guarded m \<Longrightarrow> wpi (flagged v) (behind_flag v) m whatever whatever h"
  by (simp add: guarded_def)

lemma wpi_http_outcome [wpi_rules]:
  "(\<And>n b. out = HttpAnswer n b \<Longrightarrow> wpi I J (f n b) Q E h) \<Longrightarrow> (out = HttpTimeout \<Longrightarrow> wpi I J m Q E h) \<Longrightarrow>
   (\<And>e. out = HttpFailure e \<Longrightarrow> wpi I J (g e) Q E h) \<Longrightarrow>
   wpi I J (case out of HttpAnswer n b \<Rightarrow> f n b | HttpTimeout \<Rightarrow> m | HttpFailure e \<Rightarrow> g e) Q E h"
  by (cases out) auto

lemma wpi_send:
  assumes "keeps_flag c" "v \<or> req = getinfo_request"
  shows "wpi (flagged v) (behind_flag v) (lnd_send c req) whatever whatever h"
  unfolding lnd_send_def
  by (rule wpi_call) (use assms in \<open>auto simp: keeps_flag_def preserves_def flagged_def behind_flag_def split_beta\<close>)

lemma wpi_request:
  assumes "keeps_flag c" "v \<or> req = getinfo_request"
  shows "wpi (flagged v) (behind_flag v) (request_lnd c req parse) whatever whatever h"
  unfolding request_lnd_def
  by (intro wpi_rules wpi_post [OF wpi_send [OF assms]]) auto

lemma wpi_verified:
  assumes "v \<Longrightarrow> Q () h" "\<And>e. E e h"
  shows "wpi (flagged v) (behind_flag v) assertNetworkVerified Q E h"
  unfolding assertNetworkVerified_def
  by (rule wpi_bnd, rule wpi_ask) (use assms in \<open>cases v; simp add: flagged_def wpi_ret wpi_thr\<close>)

lemma guarded_request: "keeps_flag c \<Longrightarrow> guarded (seq assertNetworkVerified (request_lnd c req parse))"
  by (rule guardedI, rule wpi_seq, rule wpi_verified, rule wpi_request) simp_all

lemma wp_verified_request:
  "wp free (seq assertNetworkVerified (request_lnd c req parse))
     (\<lambda>x. seen (answered req (\<lambda>body. parse body = Inr x))) whatever h"
  unfolding assertNetworkVerified_def by (intro wp_rules wp_request) simp

lemma answered_weaken: "answered req P e \<Longrightarrow> (\<And>body. P body \<Longrightarrow> Q body) \<Longrightarrow> answered req Q e"
  by (cases "(req, Q, e)" rule: answered.cases) auto

lemma seen_answered: "seen (answered req P) h \<Longrightarrow> (\<And>body. P body \<Longrightarrow> Q body) \<Longrightarrow> seen (answered req Q) h"
  unfolding seen_def by (metis answered_weaken)

interpretation rest: lnd_interface c "lnd_client_of c" for c
proof unfold_locales
  fix h hash amount cltv memo preimage
  show "wp free (il_getInfo (lnd_client_of c)) (\<lambda>i. seen (shows_info c i)) whatever h"
    by (simp add: lnd_client_of_def lnd_getInfo_def shows_info_def getinfo_request_def wp_request)
  show "wp free (il_addHoldInvoice (lnd_client_of c) hash amount cltv memo) (\<lambda>p. seen (adds_invoice c (add_request hash amount cltv memo) p)) whatever h"
    by (simp add: lnd_client_of_def adds_invoice_def wp_verified_request)
  show "wp free (il_lookupInvoice (lnd_client_of c) hash) (\<lambda>i. seen (shows_invoice c hash i)) whatever h"
    by (simp add: lnd_client_of_def shows_invoice_def wp_verified_request)
  show "wp free (il_settleInvoice (lnd_client_of c) preimage) (\<lambda>_. seen (accepts (settle_request preimage))) whatever h"
    "wp free (il_cancelInvoice (lnd_client_of c) hash) (\<lambda>_. seen (accepts (cancel_request hash))) whatever h"
    by (simp_all add: lnd_client_of_def accepts_def; rule wp_post [OF wp_verified_request]; auto elim: seen_answered)+
  assume k: "keeps_flag c"
  show "guarded (il_getInfo (lnd_client_of c))"
    by (simp add: lnd_client_of_def lnd_getInfo_def getinfo_request_def [symmetric] guardedI wpi_request k)
  show "guarded (il_addHoldInvoice (lnd_client_of c) hash amount cltv memo)" "guarded (il_lookupInvoice (lnd_client_of c) hash)"
    "guarded (il_settleInvoice (lnd_client_of c) preimage)" "guarded (il_cancelInvoice (lnd_client_of c) hash)"
    by (simp_all add: lnd_client_of_def guarded_request k)
qed

subsection \<open>Faults keep it\<close>

lemma wpi_flag_same: "(\<And>s. ln_verifiedNetwork (f s) = ln_verifiedNetwork s) \<Longrightarrow> preserves (flagged v) f"
  by (simp add: preserves_def flagged_def)

lemma wp_faulty: 
  assumes "\<And>h. wp free m Q whatever h"
  shows "wp free (faulty op m) Q whatever h"
proof -
  have "wp free (seq m (thr e)) Q whatever h" for e h
    by (rule wp_seq, rule wp_post [OF assms]) (simp_all add: wp_thr)
  then show ?thesis
    unfolding faulty_def takeFault_def
    by (intro wp_rules) (auto simp: assms wp_thr split: fault_type.split)
qed

lemma guarded_faulty: 
  assumes "guarded m"
  shows "guarded (faulty op m)"
proof (rule guardedI)
  fix v h
  note m = guardedD [OF assms]
  have "wpi (flagged v) (behind_flag v) (seq m (thr e)) whatever whatever h" for e h
    by (rule wpi_seq, rule wpi_post [OF m]) (simp_all add: wpi_thr)
  then show "wpi (flagged v) (behind_flag v) (faulty op m) whatever whatever h"
    unfolding faulty_def takeFault_def
    by (intro wpi_rules wpi_flag_same m) (auto simp: m wpi_thr split: fault_type.split)
qed

context lnd_interface begin

lemma faults: "lnd_interface c (fault_injectable il)"
  by unfold_locales
    (simp_all add: fault_injectable_def info wp_faulty add lookup settle cancel guards guarded_faulty)

end

interpretation faulty: lnd_interface c "fault_injectable (lnd_client_of c)" for c
  by (rule rest.faults)

section \<open>The backend\<close>

text \<open>The word of the node for a state.\<close>

fun lnd_state_name :: "hold_invoice_state \<Rightarrow> string" where
  "lnd_state_name HI_OPEN = ''OPEN''"
| "lnd_state_name HI_ACCEPTED = ''ACCEPTED''"
| "lnd_state_name HI_SETTLED = ''SETTLED''"
| "lnd_state_name HI_CANCELED = ''CANCELED''"

lemma mapLndState_iff [simp]: "mapLndState t = Inr st \<longleftrightarrow> t = lnd_state_name st"
  by (cases st) (auto simp: mapLndState_def)

text \<open>A created invoice was added as asked, or the node has one of this hash with this amount.\<close>

definition created :: "'w lnd_client \<Rightarrow> string \<Rightarrow> int \<Rightarrow> int \<Rightarrow> string option \<Rightarrow> hold_invoice \<Rightarrow> lnd_event list \<Rightarrow> bool" where
  "created c hash amount cltv memo invoice h \<longleftrightarrow> is_hash32 hash \<and> 0 < amount \<and>
     hi_paymentHash invoice = hash \<and> hi_amountSats invoice = amount \<and>
     (seen (adds_invoice c (add_request hash amount cltv memo) (hi_bolt11 invoice)) h \<and>
        hi_state invoice = HI_OPEN \<and> hi_cltvExpiryBlocks invoice = cltv \<or>
      (\<exists>i. seen (shows_invoice c hash i) h \<and> lv_payment_request i = hi_bolt11 invoice \<and>
        lv_state i = lnd_state_name (hi_state invoice) \<and> js_BigInt (lv_value i) = Some amount))"

text \<open>The node shows the invoice in this state.\<close>

definition in_state :: "'w lnd_client \<Rightarrow> string \<Rightarrow> hold_invoice_state \<Rightarrow> lnd_event list \<Rightarrow> bool" where
  "in_state c hash st h \<longleftrightarrow> (\<exists>i. seen (shows_invoice c hash i) h \<and> lv_state i = lnd_state_name st)"

lemma in_stateI: "seen (shows_invoice c hash i) h \<Longrightarrow> lv_state i = lnd_state_name st \<Longrightarrow> in_state c hash st h"
  unfolding in_state_def by blast

lemma mapped_fields:
  assumes "mapLndInvoiceToHoldInvoice now hash i = Inr invoice"
  shows "hi_paymentHash invoice = hash" "hi_bolt11 invoice = lv_payment_request i" "lv_state i = lnd_state_name (hi_state invoice)"
    "js_BigInt (lv_value i) = Some (hi_amountSats invoice)" "hi_cltvExpiryBlocks invoice = lv_cltv_expiry i"
  using assms by (auto simp: mapLndInvoiceToHoldInvoice_def Let_def split: sum.splits option.splits)

lemma wp_lnd_raise [wp_rules]:
  "(\<And>e. r = Inl e \<Longrightarrow> E e h) \<Longrightarrow> (\<And>x. r = Inr x \<Longrightarrow> Q x h) \<Longrightarrow> wp J (lnd_raise r) Q E h"
  unfolding lnd_raise_def by (intro wp_rules)

lemma wpi_lnd_raise [wpi_rules]:
  "(\<And>e. r = Inl e \<Longrightarrow> E e h) \<Longrightarrow> (\<And>x. r = Inr x \<Longrightarrow> Q x h) \<Longrightarrow> wpi I J (lnd_raise r) Q E h"
  unfolding lnd_raise_def by (intro wpi_rules)

context lnd_interface begin

lemma created_backed:
  assumes "lb_client b = il"
  shows "wp free (lnd_createHoldInvoice b hash amount cltv memo)
    (\<lambda>invoice. created c (clean_hash hash) amount cltv memo invoice) whatever h"
  unfolding lnd_createHoldInvoice_def tryReconcileAddHoldInvoice_def assms
  by (intro wp_rules wp_post [OF add] wp_post [OF lookup]) (auto simp: created_def mapped_fields)

lemma observed_backed:
  assumes "lb_client b = il"
  shows "wp free (lnd_observeHoldInvoice b hash)
    (\<lambda>invoice. in_state c (clean_hash hash) (hi_state invoice)) whatever h"
  unfolding lnd_observeHoldInvoice_def assms
  by (intro wp_rules wp_post [OF lookup]) (auto simp: in_state_def dest: mapped_fields(3))

lemma state_backed:
  assumes "lb_client b = il"
  shows "wp free (lnd_getInvoiceState b hash) (\<lambda>st. in_state c (clean_hash hash) st) whatever h"
  unfolding lnd_getInvoiceState_def assms
  by (intro wp_rules wp_post [OF lookup]) (auto simp: in_state_def)

lemma settled_backed:
  assumes "lb_client b = il"
  shows "wp free (lnd_settleHoldInvoice b preimage)
    (\<lambda>(ok, d) h. ok \<and> (seen (accepts (settle_request (clean_hash preimage))) h \<or>
       in_state c (lb_sha256 b (hex_bytes (clean_hash preimage))) HI_SETTLED h)) whatever h"
  unfolding lnd_settleHoldInvoice_def assms
  by (intro wp_rules wp_post [OF settle] wp_post [OF lookup]) (auto intro: in_stateI)

lemma canceled_backed:
  assumes "lb_client b = il"
  shows "wp free (lnd_cancelHoldInvoice b hash)
    (\<lambda>(ok, d) h. ok \<and> (seen (accepts (cancel_request (clean_hash hash))) h \<or>
       in_state c (clean_hash hash) HI_CANCELED h)) whatever h"
  unfolding lnd_cancelHoldInvoice_def assms
  by (intro wp_rules wp_post [OF cancel] wp_post [OF lookup]) (auto intro: in_stateI)

lemma height_backed:
  assumes "lb_client b = il"
  shows "wp free (lnd_getBlockHeight b) (\<lambda>n h. \<exists>i. seen (shows_info c i) h \<and> li_block_height i = n) whatever h"
  unfolding lnd_getBlockHeight_def assms by (intro wp_rules wp_post [OF info]) auto

lemma backend_guarded:
  assumes "lb_client b = il" "keeps_flag c"
  shows "guarded (lnd_createHoldInvoice b hash amount cltv memo)" "guarded (lnd_observeHoldInvoice b hash)"
    "guarded (lnd_getInvoiceState b hash)" "guarded (lnd_settleHoldInvoice b preimage)" "guarded (lnd_cancelHoldInvoice b hash)"
    "guarded (lnd_getBlockHeight b)" "guarded (recoverAfterRestart b hash)"
proof -
  note g = guards [OF assms(2)]
  note rules = wpi_rules wpi_post [OF guardedD [OF g(1)]] wpi_post [OF guardedD [OF g(2)]] wpi_post [OF guardedD [OF g(3)]]
    wpi_post [OF guardedD [OF g(4)]] wpi_post [OF guardedD [OF g(5)]]
  show "guarded (lnd_createHoldInvoice b hash amount cltv memo)" "guarded (lnd_observeHoldInvoice b hash)"
    "guarded (lnd_getInvoiceState b hash)" "guarded (lnd_settleHoldInvoice b preimage)" "guarded (lnd_cancelHoldInvoice b hash)"
    "guarded (lnd_getBlockHeight b)" "guarded (recoverAfterRestart b hash)"
    unfolding lnd_createHoldInvoice_def tryReconcileAddHoldInvoice_def lnd_observeHoldInvoice_def lnd_getInvoiceState_def
      lnd_settleHoldInvoice_def lnd_cancelHoldInvoice_def lnd_getBlockHeight_def recoverAfterRestart_def assms(1)
    by (rule guardedI, intro rules; auto intro: wpi_ret wpi_thr split: lnd_error.split)+
qed

end

section \<open>Runs of operations\<close>

datatype lnd_op =
    LoVerify
  | LoCreate string int int "string option"
  | LoObserve string
  | LoState string
  | LoSettle string
  | LoCancel string
  | LoHeight
  | LoRecover string

definition quietly :: "('w, 'a) lact \<Rightarrow> ('w, unit) lact" where
  "quietly m = attempt (seq m (ret ())) (\<lambda>_. ret ())"

fun run_lnd :: "'w lnd_client \<Rightarrow> 'w lnd_backend \<Rightarrow> lnd_op \<Rightarrow> ('w, unit) lact" where
  "run_lnd c b LoVerify = quietly (verifyNetworkSafety c)"
| "run_lnd c b (LoCreate h a n m) = quietly (lnd_createHoldInvoice b h a n m)"
| "run_lnd c b (LoObserve h) = quietly (lnd_observeHoldInvoice b h)"
| "run_lnd c b (LoState h) = quietly (lnd_getInvoiceState b h)"
| "run_lnd c b (LoSettle p) = quietly (lnd_settleHoldInvoice b p)"
| "run_lnd c b (LoCancel h) = quietly (lnd_cancelHoldInvoice b h)"
| "run_lnd c b LoHeight = quietly (lnd_getBlockHeight b)"
| "run_lnd c b (LoRecover h) = quietly (recoverAfterRestart b h)"

fun run_lnds :: "'w lnd_client \<Rightarrow> 'w lnd_backend \<Rightarrow> lnd_op list \<Rightarrow> ('w, unit) lact" where
  "run_lnds c b [] = ret ()"
| "run_lnds c b (op # ops) = seq (run_lnd c b op) (run_lnds c b ops)"

text \<open>The flag is up only when the network has been shown.\<close>

definition network_guard :: "'w lnd_client \<Rightarrow> lnd_event list \<Rightarrow> lnd_event \<Rightarrow> bool" where
  "network_guard c h e \<longleftrightarrow> asks_info e \<or> seen (shows_network c) h"

lemma guarded_quietly:
  assumes "guarded m"
  shows "guarded (quietly m)"
  unfolding quietly_def
  by (rule guardedI, rule wpi_attempt, rule wpi_seq, rule wpi_post [OF guardedD [OF assms]]) (simp_all add: wpi_ret)

lemma guarded_step:
  assumes "guarded m" "m s = (r, t, s')"
  shows "ln_verifiedNetwork s' = ln_verifiedNetwork s \<and> (\<forall>e \<in> set t. ln_verifiedNetwork s \<or> asks_info e)"
proof -
  have "flagged (ln_verifiedNetwork s) s' \<and> allowed (behind_flag (ln_verifiedNetwork s)) [] t"
    using wpiD [OF guardedD [OF assms(1)] _ assms(2), of "ln_verifiedNetwork s" "[]"] by (simp add: flagged_def)
  then show ?thesis
    using allowed_at [of "behind_flag (ln_verifiedNetwork s)" "[]"] by (auto simp: flagged_def behind_flag_def dest!: split_list)
qed

lemma verify_run:
  assumes "keeps_flag c" "verifyNetworkSafety c s = (r, t, s')"
  shows "(\<forall>e \<in> set t. asks_info e) \<and> (ln_verifiedNetwork s' \<longrightarrow> ln_verifiedNetwork s \<or> seen (shows_network c) t)"
proof -
  have g: "guarded (lnd_getInfo c)" using rest.guards(1) [OF assms(1)] by (simp add: lnd_client_of_def)
  have o: "only asks_info (lnd_getInfo c)"
    unfolding lnd_getInfo_def request_lnd_def lnd_send_def
    by (intro only_rules) (auto simp: getinfo_request_def intro: only_rules split: http_outcome.split)
  have k: "ln_verifiedNetwork s1 = ln_verifiedNetwork s \<and> (\<forall>e \<in> set t1. asks_info e) \<and>
      (\<forall>i. r1 = Inr i \<longrightarrow> (\<exists>e \<in> set t1. shows_info c i e))" if "lnd_getInfo c s = (r1, t1, s1)" for r1 t1 s1
    using guarded_step [OF g that] onlyD [OF o that] wpD [OF rest.info [of c "[]", unfolded lnd_client_of_def ilnd.simps] that]
    by (auto simp: seen_def)
  show ?thesis
    using assms(2) unfolding verifyNetworkSafety_def Let_def
    by (elim bnd_cases) (auto simp: change_def thr_def shows_network_def seen_def dest!: k split: if_splits)
qed

lemma quietly_run:
  assumes "quietly m s = (r, t, s')"
  obtains r' where "m s = (r', t, s')"
  using assms by (auto simp: quietly_def attempt_def seq_def bnd_def ret_def split: prod.splits sum.splits)

lemma step_run:
  assumes "keeps_flag c" "lnd_interface c (lb_client b)" "run_lnd c b op s = (r, t, s')"
    "ln_verifiedNetwork s \<longrightarrow> seen (shows_network c) h"
  shows "allowed (network_guard c) h t \<and> (ln_verifiedNetwork s' \<longrightarrow> seen (shows_network c) (h @ t))"
proof (cases "op = LoVerify")
  case True
  then obtain r' where "verifyNetworkSafety c s = (r', t, s')" using assms(3) by (auto elim: quietly_run)
  from verify_run [OF assms(1) this] show ?thesis
    using assms(4) by (auto intro!: allowed_always simp: network_guard_def)
next
  case False
  note g = lnd_interface.backend_guarded [OF assms(2) refl assms(1)]
  have "guarded (run_lnd c b op)" using False by (cases op) (simp_all add: g guarded_quietly)
  note a = guarded_step [OF this assms(3)]
  show ?thesis
  proof (cases "ln_verifiedNetwork s")
    case True
    then have "allowed (network_guard c) h t \<and> seen (shows_network c) (h @ t)"
      using assms(4) by (intro allowed_keep [where A = "\<lambda>e. True"]) (auto simp: network_guard_def)
    then show ?thesis by simp
  next
    case False
    then show ?thesis using a by (auto intro!: allowed_always simp: network_guard_def)
  qed
qed

lemma runs_guarded:
  assumes "keeps_flag c" "lnd_interface c (lb_client b)" "run_lnds c b ops s = (r, t, s')"
    "ln_verifiedNetwork s \<longrightarrow> seen (shows_network c) h"
  shows "allowed (network_guard c) h t"
  using assms(3,4)
proof (induction ops arbitrary: s r t h)
  case Nil
  then show ?case by (simp add: ret_def)
next
  case (Cons op ops)
  from Cons.prems(1) obtain r1 t1 s1 where 1: "run_lnd c b op s = (r1, t1, s1)" by (metis prod_cases3)
  note a = step_run [OF assms(1,2) 1 Cons.prems(2)]
  show ?case
    using Cons.prems(1) 1 a Cons.IH [of s1 _ _ "h @ t1"]
    by (auto simp: seq_def bnd_def allowed_append split: prod.splits sum.splits)
qed

text \<open>C13: No request but the question for its network reaches a Lightning node of another network. Over any sequence of operations of
  the backend and of \<open>verifyNetworkSafety\<close>, with the REST client or the fault injecting one, from a client that has verified nothing,
  every other HTTP request is sent after an answer of \<open>/v1/getinfo\<close> that names the configured network.\<close>

theorem lnd_requests_on_network:
  assumes "keeps_flag c" "lb_client b \<in> {lnd_client_of c, fault_injectable (lnd_client_of c)}" "\<not> ln_verifiedNetwork s"
    "trace (run_lnds c b ops) s = pre @ LvHttp req out # post" "req \<noteq> getinfo_request"
  shows "seen (shows_network c) pre"
proof -
  have i: "lnd_interface c (lb_client b)"
    using assms(2) rest.lnd_interface_axioms faulty.lnd_interface_axioms by auto
  obtain r t s' where m: "run_lnds c b ops s = (r, t, s')" by (metis prod_cases3)
  then have "allowed (network_guard c) [] (pre @ LvHttp req out # post)"
    using runs_guarded [OF assms(1) i m, of "[]"] assms(3,4) by (simp add: trace_def)
  from allowed_at [OF this] show ?thesis using assms(5) by (simp add: network_guard_def)
qed

text \<open>C25: The Lightning backend reports only what the node accepted or shows. A created invoice has the hash and the amount asked for, and
  was added or is shown by the node; a settled or canceled one had its request accepted, or is shown SETTLED (for the hash of the
  preimage) or CANCELED; an observed state is the one shown for that hash.\<close>

theorem lnd_outcomes_shown:
  assumes "lb_client b \<in> {lnd_client_of c, fault_injectable (lnd_client_of c)}"
  shows "(lnd_createHoldInvoice b hash amount cltv memo s = (Inr invoice, t, s') \<longrightarrow>
      created c (clean_hash hash) amount cltv memo invoice t) \<and>
    (lnd_settleHoldInvoice b preimage s = (Inr (ok, d), t, s') \<longrightarrow> ok \<and>
      (seen (accepts (settle_request (clean_hash preimage))) t \<or>
       in_state c (lb_sha256 b (hex_bytes (clean_hash preimage))) HI_SETTLED t)) \<and>
    (lnd_cancelHoldInvoice b hash s = (Inr (ok, d), t, s') \<longrightarrow> ok \<and>
      (seen (accepts (cancel_request (clean_hash hash))) t \<or> in_state c (clean_hash hash) HI_CANCELED t)) \<and>
    (lnd_observeHoldInvoice b hash s = (Inr invoice, t, s') \<longrightarrow> in_state c (clean_hash hash) (hi_state invoice) t) \<and>
    (lnd_getInvoiceState b hash s = (Inr st, t, s') \<longrightarrow> in_state c (clean_hash hash) st t)"
proof -
  have i: "lnd_interface c (lb_client b)"
    using assms rest.lnd_interface_axioms faulty.lnd_interface_axioms by auto
  note w = wpD [where h = "[]", OF lnd_interface.created_backed [OF i refl]] wpD [where h = "[]", OF lnd_interface.settled_backed [OF i refl]]
    wpD [where h = "[]", OF lnd_interface.canceled_backed [OF i refl]] wpD [where h = "[]", OF lnd_interface.observed_backed [OF i refl]]
    wpD [where h = "[]", OF lnd_interface.state_backed [OF i refl]]
  show ?thesis by (intro conjI impI; drule w; simp)
qed

section \<open>Under the coordinator\<close>

text \<open>Every answered state of an invoice came from the backend.\<close>

definition state_by :: "(string \<Rightarrow> ('w, hold_invoice_state) call) \<Rightarrow> event \<Rightarrow> bool" where
  "state_by v e = (case e of LnState h r \<Rightarrow> \<exists>s. r = fst (v h s) | _ \<Rightarrow> True)"

lemma state_by_simps [simp]:
  "state_by v (LnState h r) \<longleftrightarrow> (\<exists>s. r = fst (v h s))" "state_by v (EvTimestamp d)" "state_by v (LnHeight n)" "state_by v (EvFund p f)"
  "state_by v (EvObserve k g)" "state_by v (InvCommit k u)"
  by (simp_all add: state_by_def)

lemma only_fund_state: "only (state_by (b_getInvoiceState bk)) (fundEvmHtlc bk co i w)"
  unfolding fundEvmHtlc_def fund_body_def getBlockTimestamp_def inv_commit_def fund_checks_def getInvoiceState_def
  by (intro only_answer only_assertLightningCltvSafety only_fund_dispatch only_rules; auto)

text \<open>A run of the backend that showed the invoice, behind the flag.\<close>

definition shown_by :: "'w lnd_client \<Rightarrow> 'w lnd_backend \<Rightarrow> string \<Rightarrow> hold_invoice_state \<Rightarrow> bool" where
  "shown_by c b hash st \<longleftrightarrow> (\<exists>x. ln_verifiedNetwork x \<and> in_state c (clean_hash hash) st (trace (lnd_getInvoiceState b hash) x))"

lemma state_shown:
  assumes "lnd_interface c (lb_client b)" "keeps_flag c" "fst (on_lnd get put others (lnd_getInvoiceState b hash) s) = Inr st"
  shows "shown_by c b hash st"
proof -
  let ?m = "lnd_getInvoiceState b hash"
  obtain t l where m: "?m (get (s_world s)) = (Inr st, t, l)"
    using assms(3) by (auto simp: on_lnd_def map_sum_def split: prod.splits sum.splits)
  have t: "trace ?m (get (s_world s)) = t" by (simp add: trace_def m)
  have i: "in_state c (clean_hash hash) st t"
    using wpD [where h = "[]", OF lnd_interface.state_backed [OF assms(1) refl] m] by simp
  have "ln_verifiedNetwork (get (s_world s))"
  proof (rule ccontr)
    assume "\<not> ?thesis"
    then have "\<forall>e \<in> set t. asks_info e"
      using guarded_step [OF lnd_interface.backend_guarded(3) [OF assms(1) refl assms(2)] m] by simp
    then show False
      using i by (auto simp: in_state_def seen_def shows_invoice_def lookup_request_def getinfo_request_def elim!: answered.elims)
  qed
  then show ?thesis unfolding shown_by_def using i t by blast
qed

text \<open>C12: With the Lightning backend, operator capital is locked on Base only while the Lightning node itself shows the payment as held: before
  \<open>fundEvmHtlc\<close> funds, the backend, on a verified network, read the invoice from the node in state ACCEPTED; whatever the EVM backend.\<close>

theorem funding_held_on_node:
  assumes "keeps_flag c" "lb_client b \<in> {lnd_client_of c, fault_injectable (lnd_client_of c)}"
    "trace (fundEvmHtlc (lightning_on_lnd get put others b rest) co i w) s = pre @ EvFund fp r # post"
  shows "\<exists>ph. LnState ph (Inr HI_ACCEPTED) \<in> set pre \<and> shown_by c b ph HI_ACCEPTED"
proof -
  let ?bk = "lightning_on_lnd get put others b rest"
  have i: "lnd_interface c (lb_client b)"
    using assms(2) rest.lnd_interface_axioms faulty.lnd_interface_axioms by auto
  have "seen is_accepted pre" using wp_at [OF wp_fund_guard assms(3)] by (simp add: fund_guard_def)
  then obtain ph where p: "LnState ph (Inr HI_ACCEPTED) \<in> set pre" by (auto simp: seen_iff)
  have "LnState ph (Inr HI_ACCEPTED) \<in> set (trace (fundEvmHtlc ?bk co i w) s)" using p assms(3) by simp
  from only_trace [OF only_fund_state this] have "shown_by c b ph HI_ACCEPTED"
    using state_shown [OF i assms(1)] by (force simp: lightning_on_lnd_def)
  with p show ?thesis by blast
qed

end
