(* ===== verification/Lnd_Runs.thy ===== *)
theory Lnd_Runs
  imports Lnd_Laws Coord_Demo
begin

text \<open>Concrete runs of the Lightning backend, against a node that holds one payment and loses every answer to a creation.\<close>

definition demo_lnd_invoice :: lnd_invoice where
  "demo_lnd_invoice = \<lparr> lv_value = ''100'', lv_creation_date = Some 1, lv_settle_date = None, lv_payment_request = ''lnbc'',
     lv_cltv_expiry = 144, lv_state = ''ACCEPTED'',
     lv_htlcs = Some [\<lparr> lh_accept_time = Some 2, lh_expiry_height = Some 900, lh_state = ''ACCEPTED'' \<rparr>,
       \<lparr> lh_accept_time = Some 3, lh_expiry_height = Some 700, lh_state = ''ACCEPTED'' \<rparr>] \<rparr>"

definition demo_connection :: lnd_config where
  "demo_connection = \<lparr> lg_restEndpoint = ''https://n/'', lg_tlsCertPath = None, lg_tlsCertPem = None, lg_macaroonPath = None,
     lg_macaroonHex = Some ''00'', lg_expectedNetwork = None \<rparr>"

definition demo_lnd :: "unit lnd_client" where
  "demo_lnd = \<lparr> lc_connection = connection_of (\<lambda>_. None) (\<lambda>_. None) demo_connection,
     lc_http = (\<lambda>req s. (case req of Post path body \<Rightarrow> if path = ''/v2/invoices/hodl'' then HttpTimeout else HttpAnswer 200 ''''
        | Get path \<Rightarrow> HttpAnswer 200 ''x'', s)),
     lc_error = (\<lambda>_. None), lc_info = (\<lambda>_. Inr \<lparr> li_network = Some ''Regtest'', li_block_height = Some 100 \<rparr>),
     lc_added = (\<lambda>_. Inr ''lnbc''), lc_invoice = (\<lambda>_. Inr demo_lnd_invoice), lc_done = (\<lambda>_. Inr ()) \<rparr>"

definition demo_lnd_backend :: "unit lnd_backend" where
  "demo_lnd_backend = \<lparr> lb_client = lnd_client_of demo_lnd, lb_now = (\<lambda>_. 7), lb_sha256 = (\<lambda>x. x) \<rparr>"

definition demo_lnd_sys :: "bool \<Rightarrow> unit lnd_sys" where
  "demo_lnd_sys v = \<lparr> ln_verifiedNetwork = v, ln_pendingFaults = [], ln_world = () \<rparr>"

lemma demo_lnd_flag: "keeps_flag demo_lnd"
  by (simp add: keeps_flag_def demo_lnd_def)

lemma demo_lnd_client: "lb_client demo_lnd_backend \<in> {lnd_client_of demo_lnd, fault_injectable (lnd_client_of demo_lnd)}"
  by (simp add: demo_lnd_backend_def)

lemma demo_lnd_asks: "trace (run_lnds demo_lnd demo_lnd_backend [LoState ''h'', LoVerify, LoState ''h'']) (demo_lnd_sys False) =
    [LvHttp getinfo_request (HttpAnswer 200 ''x'')] @ LvHttp (lookup_request ''h'') (HttpAnswer 200 ''x'') # []"
  by code_simp

theorem lnd_requests_on_network_witness: "shows_network demo_lnd (LvHttp getinfo_request (HttpAnswer 200 ''x''))"
proof -
  have "\<not> ln_verifiedNetwork (demo_lnd_sys False)" "lookup_request ''h'' \<noteq> getinfo_request"
    by (simp_all add: demo_lnd_sys_def lookup_request_def getinfo_request_def strip_0x_def)
  from lnd_requests_on_network [OF demo_lnd_flag demo_lnd_client this(1) demo_lnd_asks this(2)] show ?thesis by simp
qed

text \<open>The creation times out, and the invoice is found all the same.\<close>

definition demo_hash :: string where
  "demo_hash = replicate 64 CHR ''0''"

lemma demo_created: "\<not> isl (fst (lnd_createHoldInvoice demo_lnd_backend demo_hash 100 144 None (demo_lnd_sys True)))"
  by code_simp

theorem lnd_outcomes_shown_witness:
  "\<exists>invoice t. created demo_lnd demo_hash 100 144 None invoice t"
proof -
  obtain invoice t s' where r: "lnd_createHoldInvoice demo_lnd_backend demo_hash 100 144 None (demo_lnd_sys True) = (Inr invoice, t, s')"
    using demo_created by (metis prod.collapse sum.collapse(2))
  have c: "clean_hash demo_hash = demo_hash" by code_simp
  from lnd_outcomes_shown [OF demo_lnd_client] r have "created demo_lnd (clean_hash demo_hash) 100 144 None invoice t" by blast
  then show ?thesis unfolding c by blast
qed

abbreviation demo_on_lnd :: "unit lnd_sys backend" where
  "demo_on_lnd \<equiv> lightning_on_lnd (\<lambda>x. x) (\<lambda>l _. l) (\<lambda>s. s) demo_lnd_backend (demo_backend HI_OPEN (demo_htlc False False False))"

definition demo_ln_sys :: "unit lnd_sys sys" where
  "demo_ln_sys = \<lparr> s_db = empty_db\<lparr>sovereign_swaps := [row_of_record (demo_record SA_LIGHTNING_HELD) ''f'']\<rparr>,
     s_cache = (\<lambda>_. None), s_claims = (\<lambda>_. None), s_inflight = [], s_world = demo_lnd_sys True \<rparr>"

lemma demo_ln_funds: "list_ex is_EvFund (trace (fundEvmHtlc demo_on_lnd demo_coordinator ''s'' ''w'') demo_ln_sys)"
  by code_simp

theorem funding_held_on_node_witness: "\<exists>ph. shown_by demo_lnd demo_lnd_backend ph HI_ACCEPTED"
proof -
  obtain pre e post where t: "trace (fundEvmHtlc demo_on_lnd demo_coordinator ''s'' ''w'') demo_ln_sys = pre @ e # post" "is_EvFund e"
    using split_class [OF demo_ln_funds] .
  then obtain p r where "e = EvFund p r" by (cases e) auto
  from funding_held_on_node [OF demo_lnd_flag demo_lnd_client t(1) [unfolded this]] show ?thesis by blast
qed

section \<open>The findings\<close>

text \<open>The expiry reported for a payment in several parts is the one of the first accepted HTLC, not the earliest.\<close>

lemma first_expiry_not_earliest:
  "map_sum id hi_expiryHeight (mapLndInvoiceToHoldInvoice 7 ''h'' demo_lnd_invoice) = Inr (Some 900)"
  by code_simp

text \<open>A creation that failed is answered with whatever invoice the node has for the hash and amount: here a canceled one, with another
  block count than the one asked for.\<close>

lemma canceled_invoice_reconciled:
  "map_sum id (\<lambda>v. (hi_state v, hi_cltvExpiryBlocks v)) (fst (lnd_createHoldInvoice (demo_lnd_backend\<lparr>lb_client := lnd_client_of
     (demo_lnd\<lparr>lc_invoice := (\<lambda>_. Inr (demo_lnd_invoice\<lparr>lv_state := ''CANCELED''\<rparr>))\<rparr>)\<rparr>) demo_hash 100 40 None (demo_lnd_sys True)))
   = Inr (HI_CANCELED, 144)"
  by code_simp

text \<open>Without a certificate the client accepts any, and sends the macaroon.\<close>

lemma certificate_unchecked:
  "\<not> lc_rejectUnauthorized (lc_connection demo_lnd) \<and> lc_macaroonHex (lc_connection demo_lnd) = ''00''"
  by code_simp

text \<open>The client runs on any configured network, mainnet included.\<close>

lemma mainnet_accepted:
  "ln_verifiedNetwork (snd (snd (verifyNetworkSafety (demo_lnd\<lparr>lc_connection := connection_of (\<lambda>_. None) (\<lambda>_. None)
      (demo_connection\<lparr>lg_expectedNetwork := Some ''mainnet''\<rparr>), lc_info := (\<lambda>_. Inr \<lparr> li_network = Some ''mainnet'', li_block_height = None \<rparr>)\<rparr>)
     (demo_lnd_sys False))))"
  by code_simp

end
