(* ===== verification/Fake_Rails.thy ===== *)
theory Fake_Rails
  imports Base_Backend
begin

text \<open>
  The in-memory backends: hold invoices (\<open>src/src/atomic/lightning/fake-backend.ts\<close>) and HTLCs
  (\<open>src/src/atomic/evm/fake-backend.ts\<close>). They never await, so every method is one step of its state. \<open>now\<close> is the clock and \<open>sha256\<close>
  the hash of bytes given as hex text; \<open>sha256_text\<close> hashes a text.
\<close>

section \<open>Lightning\<close>

record fake_ln =
  fl_invoices :: "string \<Rightarrow> hold_invoice option"
  fl_hashLocks :: "string \<Rightarrow> string option"
  fl_currentBlockHeight :: int
  fl_failGetBlockHeight :: bool

definition fake_ln_init :: fake_ln where
  "fake_ln_init = \<lparr> fl_invoices = (\<lambda>_. None), fl_hashLocks = (\<lambda>_. None), fl_currentBlockHeight = 800000, fl_failGetBlockHeight = False \<rparr>"

definition refused :: "string \<Rightarrow> 's \<Rightarrow> (cerr + 'a) \<times> 's" where
  "refused m s = (Inl (Thrown C_ERROR m), s)"

definition fake_getBlockHeight :: "fake_ln \<Rightarrow> (cerr + int option) \<times> fake_ln" where
  "fake_getBlockHeight s =
    (if fl_failGetBlockHeight s then refused ''BITCOIN_RPC_UNAVAILABLE: Authoritative Bitcoin block height unavailable'' s
     else (Inr (Some (fl_currentBlockHeight s)), s))"

definition setFailGetBlockHeight :: "bool \<Rightarrow> fake_ln \<Rightarrow> fake_ln" where
  "setFailGetBlockHeight on s = s\<lparr>fl_failGetBlockHeight := on\<rparr>"

definition setBlockHeight :: "int \<Rightarrow> fake_ln \<Rightarrow> fake_ln" where
  "setBlockHeight height s = s\<lparr>fl_currentBlockHeight := height\<rparr>"

definition put_invoice :: "string \<Rightarrow> hold_invoice \<Rightarrow> fake_ln \<Rightarrow> fake_ln" where
  "put_invoice h v s = s\<lparr>fl_invoices := (fl_invoices s)(h \<mapsto> v)\<rparr>"

definition fake_createHoldInvoice :: "int \<Rightarrow> string \<Rightarrow> int \<Rightarrow> int \<Rightarrow> fake_ln \<Rightarrow> (cerr + hold_invoice) \<times> fake_ln" where
  "fake_createHoldInvoice now hashLock amountSats cltvExpiryBlocks s =
    (let paymentHash = to_lower (strip_0x hashLock) in
     if fl_invoices s paymentHash \<noteq> None then refused ''Hold invoice with payment hash already exists'' s
     else
       (let invoice = \<lparr> hi_paymentHash = paymentHash,
              hi_bolt11 = ''lnbc'' @ bigint_text amountSats @ ''n1fake_bolt11_invoice_'' @ take 16 paymentHash,
              hi_amountSats = amountSats, hi_cltvExpiryBlocks = cltvExpiryBlocks,
              hi_expiryHeight = Some (fl_currentBlockHeight s + cltvExpiryBlocks), hi_state = HI_OPEN, hi_createdAt = now,
              hi_acceptedAt = None, hi_settledAt = None, hi_canceledAt = None, hi_htlcs = None \<rparr>
        in (Inr invoice, (put_invoice paymentHash invoice s)
              \<lparr>fl_hashLocks := (fl_hashLocks s)(paymentHash \<mapsto> to_lower hashLock)\<rparr>)))"

definition fake_observeHoldInvoice :: "string \<Rightarrow> fake_ln \<Rightarrow> (cerr + hold_invoice) \<times> fake_ln" where
  "fake_observeHoldInvoice paymentHash s =
    (case fl_invoices s (to_lower paymentHash) of
       None \<Rightarrow> (Inl (Thrown C_INVOICE_NOT_FOUND (''LIGHTNING_INVOICE_NOT_FOUND: Invoice not found for payment hash '' @ paymentHash)), s)
     | Some invoice \<Rightarrow> (Inr invoice, s))"

definition fake_settleHoldInvoice :: "(string \<Rightarrow> string) \<Rightarrow> int \<Rightarrow> string \<Rightarrow> fake_ln \<Rightarrow> (cerr + bool \<times> int option) \<times> fake_ln" where
  "fake_settleHoldInvoice sha256 now preimage s =
    (let computedHash = sha256 (hex_bytes (strip_0x preimage)) in
     case fl_invoices s computedHash of
       None \<Rightarrow> refused ''No invoice found matching preimage hash'' s
     | Some invoice \<Rightarrow>
         if hi_state invoice = HI_CANCELED then refused ''Cannot settle canceled invoice (SEC-10 violation)'' s
         else if hi_state invoice = HI_SETTLED then (Inr (True, hi_settledAt invoice), s)
         else if hi_state invoice \<noteq> HI_ACCEPTED then refused ''Cannot settle invoice; payment must be HELD first'' s
         else (Inr (True, Some now), put_invoice computedHash (invoice\<lparr>hi_state := HI_SETTLED, hi_settledAt := Some now\<rparr>) s))"

definition fake_cancelHoldInvoice :: "int \<Rightarrow> string \<Rightarrow> fake_ln \<Rightarrow> (cerr + bool \<times> int option) \<times> fake_ln" where
  "fake_cancelHoldInvoice now paymentHash s =
    (case fl_invoices s (to_lower paymentHash) of
       None \<Rightarrow> refused ''Invoice not found'' s
     | Some invoice \<Rightarrow>
         if hi_state invoice = HI_SETTLED then refused ''Cannot cancel already settled invoice (SEC-10 violation)'' s
         else if hi_state invoice = HI_CANCELED then (Inr (True, hi_canceledAt invoice), s)
         else (Inr (True, Some now), put_invoice (to_lower paymentHash) (invoice\<lparr>hi_state := HI_CANCELED, hi_canceledAt := Some now\<rparr>) s))"

definition fake_getInvoiceState :: "string \<Rightarrow> fake_ln \<Rightarrow> (cerr + hold_invoice_state) \<times> fake_ln" where
  "fake_getInvoiceState paymentHash s =
    (case fake_observeHoldInvoice paymentHash s of (r, s') \<Rightarrow> (map_sum id hi_state r, s'))"

definition simulatePayerHold :: "int \<Rightarrow> string \<Rightarrow> int option \<Rightarrow> fake_ln \<Rightarrow> (cerr + unit) \<times> fake_ln" where
  "simulatePayerHold now paymentHash expiryHeight s =
    (case fl_invoices s (to_lower paymentHash) of
       None \<Rightarrow> refused ''Invoice not found'' s
     | Some invoice \<Rightarrow>
         if hi_state invoice \<noteq> HI_OPEN then refused ''Cannot hold payment'' s
         else (Inr (), put_invoice (to_lower paymentHash)
                (invoice\<lparr>hi_state := HI_ACCEPTED, hi_acceptedAt := Some now, hi_expiryHeight := some_or expiryHeight (hi_expiryHeight invoice)\<rparr>) s))"

section \<open>HTLCs\<close>

record fake_htlc =
  fh_params :: fund_params
  fh_funded :: bool
  fh_completed :: bool
  fh_refunded :: bool
  fh_balance :: int
  fh_fundingTxHash :: string
  fh_fundingBlockNumber :: int

datatype tx_outcome = TxSuccess | TxPending | TxReverted

record fake_receipt =
  fr_status :: tx_outcome
  fr_blockNumber :: int
  fr_txHash :: string
  fr_swapKey :: string
  fr_isClaim :: bool

text \<open>The HTLCs are a \<open>Map\<close>, which is searched in insertion order.\<close>

record fake_evm =
  fv_chainId :: int
  fv_finalityPolicy :: "finality_policy option"
  fv_htlcs :: "(string \<times> fake_htlc) list"
  fv_currentBlockTimestamp :: int
  fv_currentBlockNumber :: int
  fv_claimPreimages :: "string \<Rightarrow> string option"
  fv_txReceipts :: "string \<Rightarrow> fake_receipt option"
  fv_storageDisagreements :: "string \<Rightarrow> int option"
  fv_mockBalances :: "string \<Rightarrow> (int \<times> int) option"
  fv_swapKeyToHtlcId :: "string \<Rightarrow> string option"
  fv_htlcIdToSwapKey :: "string \<Rightarrow> string option"
  fv_chainValid :: bool
  fv_tokenValid :: bool
  fv_enforceExactCanonicalToken :: bool
  fv_verificationFailureReason :: "string option"

definition fake_evm_init :: "int \<Rightarrow> int option \<Rightarrow> bool option \<Rightarrow> fake_evm" where
  "fake_evm_init now chainId enforce = \<lparr> fv_chainId = coalesce chainId 84532,
     fv_finalityPolicy = Some \<lparr> fl_policyTag = ''BASE_SEPOLIA_TEST_POLICY'', fl_requiredConfirmations = 2 \<rparr>, fv_htlcs = [],
     fv_currentBlockTimestamp = now div 1000, fv_currentBlockNumber = 1000, fv_claimPreimages = (\<lambda>_. None), fv_txReceipts = (\<lambda>_. None),
     fv_storageDisagreements = (\<lambda>_. None), fv_mockBalances = (\<lambda>_. None), fv_swapKeyToHtlcId = (\<lambda>_. None),
     fv_htlcIdToSwapKey = (\<lambda>_. None), fv_chainValid = True, fv_tokenValid = True,
     fv_enforceExactCanonicalToken = coalesce enforce True, fv_verificationFailureReason = None \<rparr>"

definition setWalletBalance :: "string \<Rightarrow> int \<Rightarrow> int option \<Rightarrow> fake_evm \<Rightarrow> fake_evm" where
  "setWalletBalance tokenAddress latest finalized s =
    s\<lparr>fv_mockBalances := (fv_mockBalances s)(to_lower tokenAddress \<mapsto> (latest, coalesce finalized latest))\<rparr>"

definition setChainValidationResult :: "bool \<Rightarrow> string option \<Rightarrow> fake_evm \<Rightarrow> fake_evm" where
  "setChainValidationResult valid reason s = s\<lparr>fv_chainValid := valid, fv_verificationFailureReason := reason\<rparr>"

definition setTokenValidationResult :: "bool \<Rightarrow> string option \<Rightarrow> fake_evm \<Rightarrow> fake_evm" where
  "setTokenValidationResult valid reason s = s\<lparr>fv_tokenValid := valid, fv_verificationFailureReason := reason\<rparr>"

text \<open>The database, where the backend has one, is an argument.\<close>

definition fake_rehydrateBindings :: "db option \<Rightarrow> fake_evm \<Rightarrow> nat \<times> fake_evm" where
  "fake_rehydrateBindings persistence s =
    (case persistence of
       None \<Rightarrow> (0, s)
     | Some d \<Rightarrow>
         (let bindings = listSovereignSwapsWithEvmBindings d in
          (length bindings, fold (\<lambda>(i, swapKey, htlcId) x.
             x\<lparr>fv_swapKeyToHtlcId := (fv_swapKeyToHtlcId x)(swapKey \<mapsto> htlcId),
               fv_htlcIdToSwapKey := (fv_htlcIdToSwapKey x)(htlcId \<mapsto> swapKey)\<rparr>) bindings s)))"

definition fake_observeWalletCapacity :: "int \<Rightarrow> string \<Rightarrow> fake_evm \<Rightarrow> capacity_observation" where
  "fake_observeWalletCapacity now tokenAddress s =
    (let token = to_lower tokenAddress;
         (latest, finalized) = coalesce (fv_mockBalances s token) (0, 0)
     in \<lparr> ob_tokenAddress = token, ob_chainId = fv_chainId s, ob_operatorAddress = ''0x70997970C51812dc3A010C7d01b50e0d17dc79C8'',
          ob_walletBalanceLatest = latest, ob_walletBalanceFinalized = finalized,
          ob_safeWalletCapacity = (if latest < finalized then latest else finalized),
          ob_latestBlockNumber = fv_currentBlockNumber s,
          ob_finalizedBlockNumber = max 0 (fv_currentBlockNumber s -
            coalesce (map_option fl_requiredConfirmations (fv_finalityPolicy s)) 2),
          ob_blockHash = Some (''0x_mock_block_hash_'' @ bigint_text (fv_currentBlockNumber s)), ob_observedAt = now \<rparr>)"

definition fake_verifyChainAndToken :: "int \<Rightarrow> string \<Rightarrow> fake_evm \<Rightarrow> bool \<times> string option" where
  "fake_verifyChainAndToken expectedChainId tokenAddress s =
    (let invalid = (\<lambda>m. (False, Some (coalesce (fv_verificationFailureReason s) m))) in
     if \<not> fv_chainValid s \<or> expectedChainId \<noteq> 0 \<and> expectedChainId \<noteq> fv_chainId s then invalid ''WRONG_CHAIN_ID''
     else if fv_enforceExactCanonicalToken s \<and> to_lower tokenAddress \<noteq> to_lower OFFICIAL_BASE_SEPOLIA_USDC_ADDRESS
     then invalid ''TOKEN_CONTRACT_MISMATCH''
     else if \<not> fv_tokenValid s then invalid ''INVALID_TOKEN''
     else (True, None))"

definition put_htlc :: "string \<Rightarrow> fake_htlc \<Rightarrow> fake_evm \<Rightarrow> fake_evm" where
  "put_htlc k h s = s\<lparr>fv_htlcs := map (\<lambda>(k', x). if k' = k then (k, h) else (k', x)) (fv_htlcs s)\<rparr>"

definition fake_tx :: "(string \<Rightarrow> string) \<Rightarrow> string \<Rightarrow> string \<Rightarrow> int \<Rightarrow> string" where
  "fake_tx sha256_text swapKey kind blockNumber = ''0x'' @ sha256_text (swapKey @ kind @ bigint_text blockNumber)"

definition fake_fundHtlc ::
  "(string \<Rightarrow> string) \<Rightarrow> fund_params \<Rightarrow> fake_evm \<Rightarrow> (cerr + string \<times> int \<times> string option) \<times> fake_evm" where
  "fake_fundHtlc sha256_text params s =
    (if map_of (fv_htlcs s) (fp_swapKey params) \<noteq> None then refused ''HTLC with swapKey already exists'' s
     else
       (let block = fv_currentBlockNumber s + 1;
            txHash = fake_tx sha256_text (fp_swapKey params) '':fund:'' block;
            stored = \<lparr> fh_params = params, fh_funded = True, fh_completed = False, fh_refunded = False,
              fh_balance = fp_amountUnits params, fh_fundingTxHash = txHash, fh_fundingBlockNumber = block \<rparr>
        in (Inr (txHash, block, Some (''0x'' @ sha256_text (fp_swapKey params))),
            s\<lparr>fv_currentBlockNumber := block, fv_htlcs := fv_htlcs s @ [(fp_swapKey params, stored)]\<rparr>)))"

definition fake_observeHtlc :: "(string \<Rightarrow> string) \<Rightarrow> db option \<Rightarrow> string \<Rightarrow> fake_evm \<Rightarrow> htlc_state" where
  "fake_observeHtlc sha256_text persistence swapKey s =
    (case map_of (fv_htlcs s) swapKey of
       None \<Rightarrow>
         \<lparr> os_htlcId = some_or (fv_swapKeyToHtlcId s swapKey)
             (Option.bind (Option.bind persistence (getSovereignSwapBySwapKey swapKey)) r_evmHtlcId),
           os_funded = Some False, os_completed = Some False, os_refunded = Some False, os_balance = 0, os_timelock = 0,
           os_blockTimestamp = fv_currentBlockTimestamp s \<rparr>
     | Some htlc \<Rightarrow>
         \<lparr> os_htlcId = Some (coalesce (fv_swapKeyToHtlcId s swapKey) (''0x'' @ sha256_text swapKey)),
           os_funded = Some (fh_funded htlc), os_completed = Some (fh_completed htlc), os_refunded = Some (fh_refunded htlc),
           os_balance = fh_balance htlc, os_timelock = fp_refundLocktime (fh_params htlc),
           os_blockTimestamp = fv_currentBlockTimestamp s \<rparr>)"

definition fake_status :: "fake_htlc \<Rightarrow> int \<times> int" where
  "fake_status h = (if fh_completed h then (2, fh_balance h) else if fh_refunded h then (3, fh_balance h)
     else if fh_funded h then (1, fh_balance h) else (0, 0))"

definition fake_getContractHtlcState :: "(string \<Rightarrow> string) \<Rightarrow> string \<Rightarrow> fake_evm \<Rightarrow> (int \<times> int) option" where
  "fake_getContractHtlcState sha256_text htlcId s =
    (case truthy_str (fv_htlcIdToSwapKey s htlcId) of
       None \<Rightarrow> map_option (fake_status \<circ> snd)
         (List.find (\<lambda>(key, stored). coalesce (fv_swapKeyToHtlcId s key) (''0x'' @ sha256_text key) = htlcId) (fv_htlcs s))
     | Some swapKey \<Rightarrow> map_option fake_status (map_of (fv_htlcs s) swapKey))"

definition fake_claimHtlc ::
  "(string \<Rightarrow> string) \<Rightarrow> (string \<Rightarrow> string) \<Rightarrow> string \<Rightarrow> string \<Rightarrow> fake_evm \<Rightarrow> (cerr + bool \<times> string) \<times> fake_evm" where
  "fake_claimHtlc sha256 sha256_text swapKey preimage s =
    (case map_of (fv_htlcs s) swapKey of
       None \<Rightarrow> refused ''HTLC does not exist or is not funded'' s
     | Some htlc \<Rightarrow>
         if \<not> fh_funded htlc then refused ''HTLC does not exist or is not funded'' s
         else if fh_completed htlc then refused ''HTLC is already claimed'' s
         else if fh_refunded htlc then refused ''HTLC is already refunded (SEC-10 violation: mutual exclusion)'' s
         else
           (let raw = hex_bytes (strip_0x preimage) in
            if ''0x'' @ to_lower (sha256 raw) \<noteq> to_lower (fp_hashLock (fh_params htlc))
            then refused ''Invalid preimage: computed hash does not match hashlock'' s
            else
              (let blockNumber = fv_currentBlockNumber s + 1;
                   txHash = fake_tx sha256_text swapKey '':claim:'' blockNumber
               in (Inr (True, txHash),
                   (put_htlc swapKey (htlc\<lparr>fh_completed := True, fh_balance := 0\<rparr>) s)
                     \<lparr>fv_currentBlockNumber := fv_currentBlockNumber s + 2,
                      fv_claimPreimages := (fv_claimPreimages s)(txHash \<mapsto> raw),
                      fv_txReceipts := (fv_txReceipts s)(txHash \<mapsto> \<lparr> fr_status = TxSuccess, fr_blockNumber = blockNumber,
                        fr_txHash = txHash, fr_swapKey = swapKey, fr_isClaim = True \<rparr>)\<rparr>))))"

definition fake_refundHtlc :: "(string \<Rightarrow> string) \<Rightarrow> string \<Rightarrow> fake_evm \<Rightarrow> (cerr + string) \<times> fake_evm" where
  "fake_refundHtlc sha256_text swapKey s =
    (case map_of (fv_htlcs s) swapKey of
       None \<Rightarrow> refused ''HTLC does not exist or is not funded'' s
     | Some htlc \<Rightarrow>
         if \<not> fh_funded htlc then refused ''HTLC does not exist or is not funded'' s
         else if fh_completed htlc then refused ''HTLC is already completed/claimed (SEC-10 violation: mutual exclusion)'' s
         else if fh_refunded htlc then refused ''HTLC is already refunded'' s
         else if fv_currentBlockTimestamp s < fp_refundLocktime (fh_params htlc) then refused ''Timelock not expired'' s
         else
           (let blockNumber = fv_currentBlockNumber s + 1;
                txHash = fake_tx sha256_text swapKey '':refund:'' blockNumber
            in (Inr txHash,
                (put_htlc swapKey (htlc\<lparr>fh_refunded := True, fh_balance := 0\<rparr>) s)
                  \<lparr>fv_currentBlockNumber := fv_currentBlockNumber s + 2,
                   fv_txReceipts := (fv_txReceipts s)(txHash \<mapsto> \<lparr> fr_status = TxSuccess, fr_blockNumber = blockNumber,
                     fr_txHash = txHash, fr_swapKey = swapKey, fr_isClaim = False \<rparr>)\<rparr>)))"

section \<open>Evidence\<close>

definition fake_confirmations :: "fake_evm \<Rightarrow> fake_receipt \<Rightarrow> int" where
  "fake_confirmations s r = fv_currentBlockNumber s - fr_blockNumber r + 1"

definition storage_disagrees :: "fake_evm \<Rightarrow> int \<Rightarrow> (fake_htlc \<Rightarrow> bool) \<Rightarrow> string \<Rightarrow> bool" where
  "storage_disagrees s want flag swapKey =
    (case fv_storageDisagreements s swapKey of
       Some forced \<Rightarrow> forced \<noteq> want
     | None \<Rightarrow> (case map_of (fv_htlcs s) swapKey of None \<Rightarrow> True | Some h \<Rightarrow> \<not> flag h))"

definition fake_claim_evidence :: "fake_evm \<Rightarrow> claim_query \<Rightarrow> string \<Rightarrow> int \<Rightarrow> int \<Rightarrow> finality_state \<Rightarrow> claim_evidence" where
  "fake_claim_evidence s q preimage block confirmations finality = \<lparr> ce_chainId = fv_chainId s, ce_contractAddress = ''0xfake_htlc'',
     ce_htlcId = cq_expectedHtlcId q, ce_hashLock = cq_expectedHashLock q, ce_preimageRevealed = preimage,
     ce_claimAddress = cq_expectedClaimAddress q, ce_amount = cq_expectedAmount q, ce_txHash = cq_claimTxHash q,
     ce_blockNumber = block, ce_blockTimestamp = fv_currentBlockTimestamp s, ce_confirmations = confirmations,
     ce_finalityState = finality \<rparr>"

definition fake_extractClaimEvidence ::
  "(string \<Rightarrow> string) \<Rightarrow> claim_query \<Rightarrow> int option \<Rightarrow> fake_evm \<Rightarrow> (cerr + claim_evidence) \<times> fake_evm" where
  "fake_extractClaimEvidence sha256 q required s =
    (case fv_txReceipts s (cq_claimTxHash q) of
       None \<Rightarrow> refused ''Claim transaction not found'' s
     | Some receipt \<Rightarrow>
         if fr_status receipt = TxPending then (Inr (fake_claim_evidence s q '''' 0 0 FS_INSUFFICIENT), s)
         else if fr_status receipt \<noteq> TxSuccess then refused ''Claim transaction failed'' s
         else
           (let confirmations = fake_confirmations s receipt; preimage = coalesce (fv_claimPreimages s (cq_claimTxHash q)) '''' in
            if confirmations < coalesce required 2
            then (Inr (fake_claim_evidence s q preimage (fr_blockNumber receipt) confirmations FS_INSUFFICIENT), s)
            else if storage_disagrees s 2 fh_completed (fr_swapKey receipt)
            then refused ''EVM_FINALITY_DISAGREEMENT: Receipt succeeded but contract storage state is not CLAIMED'' s
            else if to_lower (sha256 (hex_bytes preimage)) \<noteq> to_lower (strip_0x (cq_expectedHashLock q))
            then refused ''Revealed preimage hash does not match expected hashlock'' s
            else (Inr (fake_claim_evidence s q preimage (fr_blockNumber receipt) confirmations FS_FINAL), s)))"

definition fake_refund_evidence :: "fake_evm \<Rightarrow> refund_query \<Rightarrow> int \<Rightarrow> finality_state \<Rightarrow> refund_evidence" where
  "fake_refund_evidence s q block finality = \<lparr> re_chainId = fv_chainId s, re_contractAddress = ''0xfake_htlc'',
     re_htlcId = rq_expectedHtlcId q, re_refundAddress = rq_expectedRefundAddress q, re_txHash = rq_refundTxHash q,
     re_blockNumber = block, re_blockTimestamp = fv_currentBlockTimestamp s, re_finalityState = Some finality \<rparr>"

definition fake_verifyRefundEvidence :: "refund_query \<Rightarrow> int option \<Rightarrow> fake_evm \<Rightarrow> (cerr + refund_evidence) \<times> fake_evm" where
  "fake_verifyRefundEvidence q required s =
    (case fv_txReceipts s (rq_refundTxHash q) of
       None \<Rightarrow> refused ''Refund transaction not found'' s
     | Some receipt \<Rightarrow>
         if fr_status receipt = TxPending then (Inr (fake_refund_evidence s q 0 FS_INSUFFICIENT), s)
         else if fr_status receipt \<noteq> TxSuccess then refused ''Refund transaction failed'' s
         else if fake_confirmations s receipt < coalesce required 2
         then (Inr (fake_refund_evidence s q (fr_blockNumber receipt) FS_INSUFFICIENT), s)
         else if storage_disagrees s 3 fh_refunded (fr_swapKey receipt)
         then refused ''EVM_FINALITY_DISAGREEMENT: Receipt succeeded but contract storage state is not REFUNDED'' s
         else (Inr (fake_refund_evidence s q (fr_blockNumber receipt) FS_FINAL), s))"

section \<open>Test controls\<close>

definition simulateTxPending :: "string \<Rightarrow> fake_evm \<Rightarrow> fake_evm" where
  "simulateTxPending txHash s = s\<lparr>fv_txReceipts := (fv_txReceipts s)(txHash := map_option (\<lambda>r. r\<lparr>fr_status := TxPending\<rparr>) (fv_txReceipts s txHash))\<rparr>"

definition setTxConfirmations :: "string \<Rightarrow> int \<Rightarrow> fake_evm \<Rightarrow> fake_evm" where
  "setTxConfirmations txHash confs s = s\<lparr>fv_txReceipts := (fv_txReceipts s)(txHash :=
     map_option (\<lambda>r. r\<lparr>fr_blockNumber := fv_currentBlockNumber s - confs + 1\<rparr>) (fv_txReceipts s txHash))\<rparr>"

definition simulateStorageDisagreement :: "string \<Rightarrow> int \<Rightarrow> fake_evm \<Rightarrow> fake_evm" where
  "simulateStorageDisagreement swapKey forceStatus s = s\<lparr>fv_storageDisagreements := (fv_storageDisagreements s)(swapKey \<mapsto> forceStatus)\<rparr>"

definition setBlockTimestamp :: "int \<Rightarrow> fake_evm \<Rightarrow> fake_evm" where
  "setBlockTimestamp ts s = s\<lparr>fv_currentBlockTimestamp := ts\<rparr>"

definition advanceTime :: "int \<Rightarrow> fake_evm \<Rightarrow> fake_evm" where
  "advanceTime seconds s = s\<lparr>fv_currentBlockTimestamp := fv_currentBlockTimestamp s + seconds\<rparr>"

end
