(* ===== verification/Fake_Laws.thy ===== *)
theory Fake_Laws
  imports Fake_Rails
begin

text \<open>
  What both in-memory backends promise. A swap leg is a key of a rail, an invoice or an HTLC, and the rail may only move it along
  \<open>rail_step\<close>: to hold the money, then either to pay or to return it, never both. The contract is the locale \<open>rail\<close>, which both
  backends interpret with all their operations and test controls.
\<close>

section \<open>The rail automaton\<close>

datatype rail = Absent | Offered | Held | Paid | Returned

inductive rail_step :: "rail \<Rightarrow> rail \<Rightarrow> bool" where
  offer: "rail_step Absent Offered"
| fund: "rail_step Absent Held"
| hold: "rail_step Offered Held"
| pay: "rail_step Held Paid"
| withdraw: "rail_step Offered Returned"
| give_back: "rail_step Held Returned"

code_pred rail_step .

inductive_cases absent_stepE [elim!]: "rail_step Absent y"
inductive_cases offered_stepE [elim!]: "rail_step Offered y"
inductive_cases held_stepE [elim!]: "rail_step Held y"
inductive_cases paid_stepE [elim!]: "rail_step Paid y"
inductive_cases returned_stepE [elim!]: "rail_step Returned y"

inductive_cases into_absentE [elim!]: "rail_step x Absent"

lemma paid_final: "rail_step\<^sup>*\<^sup>* Paid y \<Longrightarrow> y = Paid"
  by (auto elim: converse_rtranclpE)

lemma returned_final: "rail_step\<^sup>*\<^sup>* Returned y \<Longrightarrow> y = Returned"
  by (auto elim: converse_rtranclpE)

text \<open>\<open>opens s k p\<close>: the preimage opens the lock of this leg. \<open>offers\<close> is the preimage that an operation carries.\<close>

locale rail =
  fixes step :: "'op \<Rightarrow> 's \<Rightarrow> 's"
    and view :: "'s \<Rightarrow> string \<Rightarrow> rail"
    and offers :: "'op \<Rightarrow> string option"
    and opens :: "'s \<Rightarrow> string \<Rightarrow> string \<Rightarrow> bool"
  assumes moves: "view (step op s) k \<noteq> view s k \<Longrightarrow> rail_step (view s k) (view (step op s) k)"
    and pays: "view s k \<noteq> Paid \<Longrightarrow> view (step op s) k = Paid \<Longrightarrow> \<exists>p. offers op = Some p \<and> opens s k p"
    and lock_kept: "view s k \<noteq> Absent \<Longrightarrow> opens s k p \<Longrightarrow> opens (step op s) k p"
begin

lemma move: "rail_step\<^sup>*\<^sup>* (view s k) (view (step op s) k)"
  using moves [of op s k] by (cases "view (step op s) k = view s k") auto

lemma run_moves: "rail_step\<^sup>*\<^sup>* (view s k) (view (fold step ops s) k)"
proof (induction ops arbitrary: s)
  case (Cons op ops)
  show ?case using rtranclp_trans [OF move Cons.IH [of "step op s"]] by simp
qed simp

lemma present_kept: "view s k \<noteq> Absent \<Longrightarrow> view (step op s) k \<noteq> Absent"
  using moves [of op s k] into_absentE by metis

lemma run_lock_kept: "view s k \<noteq> Absent \<Longrightarrow> opens s k p \<Longrightarrow> opens (fold step ops s) k p"
  by (induction ops arbitrary: s) (auto simp: lock_kept present_kept)

lemma paid_by_preimage:
  assumes "view s k \<noteq> Paid" "view (fold step ops s) k = Paid"
  shows "\<exists>op \<in> set ops. \<exists>p. offers op = Some p \<and> opens (fold step ops s) k p"
  using assms
proof (induction ops arbitrary: s)
  case (Cons op ops)
  show ?case
  proof (cases "view (step op s) k = Paid")
    case True
    then obtain p where p: "offers op = Some p" "opens s k p" using pays Cons.prems(1) by blast
    have "view s k \<noteq> Absent" using True moves [of op s k] Cons.prems(1) by auto
    from run_lock_kept [OF this p(2), of "op # ops"] p(1) show ?thesis by force
  next
    case False
    from Cons.IH [OF this] Cons.prems(2) show ?thesis by auto
  qed
qed simp

end

section \<open>Lightning\<close>

datatype fake_ln_op =
    FlCreate int string int int
  | FlSettle int string
  | FlCancel int string
  | FlHold int string "int option"
  | FlHeight int
  | FlFail bool

fun fake_ln_step :: "(string \<Rightarrow> string) \<Rightarrow> fake_ln_op \<Rightarrow> fake_ln \<Rightarrow> fake_ln" where
  "fake_ln_step sha256 (FlCreate now h a n) s = snd (fake_createHoldInvoice now h a n s)"
| "fake_ln_step sha256 (FlSettle now p) s = snd (fake_settleHoldInvoice sha256 now p s)"
| "fake_ln_step sha256 (FlCancel now h) s = snd (fake_cancelHoldInvoice now h s)"
| "fake_ln_step sha256 (FlHold now h e) s = snd (simulatePayerHold now h e s)"
| "fake_ln_step sha256 (FlHeight n) s = setBlockHeight n s"
| "fake_ln_step sha256 (FlFail b) s = setFailGetBlockHeight b s"

fun rail_of_invoice :: "hold_invoice_state \<Rightarrow> rail" where
  "rail_of_invoice HI_OPEN = Offered"
| "rail_of_invoice HI_ACCEPTED = Held"
| "rail_of_invoice HI_SETTLED = Paid"
| "rail_of_invoice HI_CANCELED = Returned"

lemma rail_of_invoice_iff [simp]:
  "rail_of_invoice st = Offered \<longleftrightarrow> st = HI_OPEN" "rail_of_invoice st = Held \<longleftrightarrow> st = HI_ACCEPTED"
  "rail_of_invoice st = Paid \<longleftrightarrow> st = HI_SETTLED" "rail_of_invoice st = Returned \<longleftrightarrow> st = HI_CANCELED" "rail_of_invoice st \<noteq> Absent"
  by (cases st; simp)+

definition fake_ln_view :: "fake_ln \<Rightarrow> string \<Rightarrow> rail" where
  "fake_ln_view s k = (case fl_invoices s k of None \<Rightarrow> Absent | Some v \<Rightarrow> rail_of_invoice (hi_state v))"

fun ln_offers :: "fake_ln_op \<Rightarrow> string option" where
  "ln_offers (FlSettle now p) = Some p"
| "ln_offers _ = None"

definition ln_opens :: "(string \<Rightarrow> string) \<Rightarrow> fake_ln \<Rightarrow> string \<Rightarrow> string \<Rightarrow> bool" where
  "ln_opens sha256 s k p \<longleftrightarrow> sha256 (hex_bytes (strip_0x p)) = k"

lemma put_invoice_simps [simp]: "fl_invoices (put_invoice h v s) = (fl_invoices s)(h \<mapsto> v)"
  by (simp add: put_invoice_def)

lemmas fake_ln_defs = fake_createHoldInvoice_def fake_settleHoldInvoice_def fake_cancelHoldInvoice_def simulatePayerHold_def
  setBlockHeight_def setFailGetBlockHeight_def refused_def Let_def

lemma hi_state_cases: "st \<noteq> HI_CANCELED \<Longrightarrow> st \<noteq> HI_SETTLED \<Longrightarrow> st = HI_OPEN \<or> st = HI_ACCEPTED"
  by (cases st) auto

lemma fake_ln_moves:
  "fake_ln_view (fake_ln_step sha256 op s) k \<noteq> fake_ln_view s k \<Longrightarrow>
    rail_step (fake_ln_view s k) (fake_ln_view (fake_ln_step sha256 op s) k)"
  by (cases op) (auto simp: fake_ln_defs fake_ln_view_def intro: rail_step.intros dest!: hi_state_cases
      split: option.splits if_splits)

lemma fake_ln_pays:
  "fake_ln_view s k \<noteq> Paid \<Longrightarrow> fake_ln_view (fake_ln_step sha256 op s) k = Paid \<Longrightarrow> \<exists>p. ln_offers op = Some p \<and> ln_opens sha256 s k p"
  by (cases op) (auto simp: fake_ln_defs fake_ln_view_def ln_opens_def split: option.splits if_splits)

lemma fake_ln_lock_kept: "ln_opens sha256 s k p \<Longrightarrow> ln_opens sha256 (fake_ln_step sha256 op s) k p"
  by (simp add: ln_opens_def)

interpretation ln_rail: rail "fake_ln_step sha256" fake_ln_view ln_offers "ln_opens sha256" for sha256
  by unfold_locales (auto intro: fake_ln_moves fake_ln_pays fake_ln_lock_kept)

section \<open>HTLCs\<close>

datatype fake_evm_op =
    FvFund fund_params
  | FvClaim string string
  | FvRefund string
  | FvPending string
  | FvConfirmations string int
  | FvDisagree string int
  | FvTimestamp int
  | FvAdvance int
  | FvBalance string int "int option"
  | FvChainValid bool "string option"
  | FvTokenValid bool "string option"
  | FvRehydrate "db option"

fun fake_evm_step :: "(string \<Rightarrow> string) \<Rightarrow> (string \<Rightarrow> string) \<Rightarrow> fake_evm_op \<Rightarrow> fake_evm \<Rightarrow> fake_evm" where
  "fake_evm_step sha tx (FvFund params) s = snd (fake_fundHtlc tx params s)"
| "fake_evm_step sha tx (FvClaim k p) s = snd (fake_claimHtlc sha tx k p s)"
| "fake_evm_step sha tx (FvRefund k) s = snd (fake_refundHtlc tx k s)"
| "fake_evm_step sha tx (FvPending h) s = simulateTxPending h s"
| "fake_evm_step sha tx (FvConfirmations h n) s = setTxConfirmations h n s"
| "fake_evm_step sha tx (FvDisagree k n) s = simulateStorageDisagreement k n s"
| "fake_evm_step sha tx (FvTimestamp n) s = setBlockTimestamp n s"
| "fake_evm_step sha tx (FvAdvance n) s = advanceTime n s"
| "fake_evm_step sha tx (FvBalance t a b) s = setWalletBalance t a b s"
| "fake_evm_step sha tx (FvChainValid v r) s = setChainValidationResult v r s"
| "fake_evm_step sha tx (FvTokenValid v r) s = setTokenValidationResult v r s"
| "fake_evm_step sha tx (FvRehydrate d) s = snd (fake_rehydrateBindings d s)"

definition rail_of_htlc :: "fake_htlc \<Rightarrow> rail" where
  "rail_of_htlc h = (if fh_completed h then Paid else if fh_refunded h then Returned else Held)"

definition fake_evm_view :: "fake_evm \<Rightarrow> string \<Rightarrow> rail" where
  "fake_evm_view s k = (case map_of (fv_htlcs s) k of None \<Rightarrow> Absent | Some h \<Rightarrow> rail_of_htlc h)"

fun evm_offers :: "fake_evm_op \<Rightarrow> string option" where
  "evm_offers (FvClaim k p) = Some p"
| "evm_offers _ = None"

definition opens_htlc :: "(string \<Rightarrow> string) \<Rightarrow> fake_htlc \<Rightarrow> string \<Rightarrow> bool" where
  "opens_htlc sha h raw \<longleftrightarrow> ''0x'' @ to_lower (sha raw) = to_lower (fp_hashLock (fh_params h))"

definition evm_opens :: "(string \<Rightarrow> string) \<Rightarrow> fake_evm \<Rightarrow> string \<Rightarrow> string \<Rightarrow> bool" where
  "evm_opens sha s k p \<longleftrightarrow> (\<exists>h. map_of (fv_htlcs s) k = Some h \<and> opens_htlc sha h (hex_bytes (strip_0x p)))"

lemma map_of_update: "map_of (map (\<lambda>(k', x). if k' = k then (k, h) else (k', x)) xs) j =
    (if j = k \<and> map_of xs k \<noteq> None then Some h else map_of xs j)"
  by (induction xs) auto

lemma put_htlc_of [simp]: "map_of (fv_htlcs (put_htlc k h s)) j =
    (if j = k \<and> map_of (fv_htlcs s) k \<noteq> None then Some h else map_of (fv_htlcs s) j)"
  by (simp add: put_htlc_def map_of_update)

lemma put_htlc_other [simp]: "fv_claimPreimages (put_htlc k h s) = fv_claimPreimages s"
  by (simp add: put_htlc_def)

lemma rehydrate_keeps [simp]:
  "fv_htlcs (snd (fake_rehydrateBindings d s)) = fv_htlcs s" "fv_claimPreimages (snd (fake_rehydrateBindings d s)) = fv_claimPreimages s"
proof -
  have "fv_htlcs (fold (\<lambda>(i, swapKey, htlcId) x. x\<lparr>fv_swapKeyToHtlcId := (fv_swapKeyToHtlcId x)(swapKey \<mapsto> htlcId),
      fv_htlcIdToSwapKey := (fv_htlcIdToSwapKey x)(htlcId \<mapsto> swapKey)\<rparr>) bs x) = fv_htlcs x \<and>
    fv_claimPreimages (fold (\<lambda>(i, swapKey, htlcId) x. x\<lparr>fv_swapKeyToHtlcId := (fv_swapKeyToHtlcId x)(swapKey \<mapsto> htlcId),
      fv_htlcIdToSwapKey := (fv_htlcIdToSwapKey x)(htlcId \<mapsto> swapKey)\<rparr>) bs x) = fv_claimPreimages x" for bs x
    by (induction bs arbitrary: x) auto
  then show "fv_htlcs (snd (fake_rehydrateBindings d s)) = fv_htlcs s" "fv_claimPreimages (snd (fake_rehydrateBindings d s)) = fv_claimPreimages s"
    by (auto simp: fake_rehydrateBindings_def Let_def split: option.split)
qed

lemmas fake_evm_controls = simulateTxPending_def setTxConfirmations_def simulateStorageDisagreement_def setBlockTimestamp_def
  advanceTime_def setWalletBalance_def setChainValidationResult_def setTokenValidationResult_def

text \<open>What an operation does to the HTLCs: nothing, or one of the three.\<close>

definition fake_claimed :: "fake_htlc \<Rightarrow> fake_htlc" where
  "fake_claimed h = h\<lparr>fh_completed := True, fh_balance := 0\<rparr>"

definition fake_refunded :: "fake_htlc \<Rightarrow> fake_htlc" where
  "fake_refunded h = h\<lparr>fh_refunded := True, fh_balance := 0\<rparr>"

inductive htlc_effect :: "(string \<Rightarrow> string) \<Rightarrow> fake_evm_op \<Rightarrow> (string \<Rightarrow> fake_htlc option) \<Rightarrow> (string \<Rightarrow> fake_htlc option) \<Rightarrow> bool"
  for sha op where
  nothing: "htlc_effect sha op m m"
| funded: "m (fp_swapKey p) = None \<Longrightarrow> fh_params h = p \<Longrightarrow> \<not> fh_completed h \<Longrightarrow> \<not> fh_refunded h \<Longrightarrow> fh_balance h = fp_amountUnits p \<Longrightarrow>
    htlc_effect sha op m (m(fp_swapKey p \<mapsto> h))"
| claimed: "m k = Some h \<Longrightarrow> \<not> fh_completed h \<Longrightarrow> \<not> fh_refunded h \<Longrightarrow> evm_offers op = Some p \<Longrightarrow>
    opens_htlc sha h (hex_bytes (strip_0x p)) \<Longrightarrow> htlc_effect sha op m (m(k \<mapsto> fake_claimed h))"
| refunded: "m k = Some h \<Longrightarrow> \<not> fh_completed h \<Longrightarrow> \<not> fh_refunded h \<Longrightarrow> htlc_effect sha op m (m(k \<mapsto> fake_refunded h))"

lemma fund_effect: "htlc_effect sha op (map_of (fv_htlcs s)) (map_of (fv_htlcs (snd (fake_fundHtlc tx p s))))"
proof (cases "map_of (fv_htlcs s) (fp_swapKey p)")
  case None
  let ?h = "\<lparr> fh_params = p, fh_funded = True, fh_completed = False, fh_refunded = False, fh_balance = fp_amountUnits p,
    fh_fundingTxHash = fake_tx tx (fp_swapKey p) '':fund:'' (fv_currentBlockNumber s + 1), fh_fundingBlockNumber = fv_currentBlockNumber s + 1 \<rparr>"
  have "map_of (fv_htlcs (snd (fake_fundHtlc tx p s))) = (map_of (fv_htlcs s))(fp_swapKey p \<mapsto> ?h)"
    using None by (auto simp: fake_fundHtlc_def Let_def fun_eq_iff map_add_def split: option.splits)
  then show ?thesis using htlc_effect.funded [where m = "map_of (fv_htlcs s)" and h = ?h, OF None] by simp
qed (simp add: fake_fundHtlc_def refused_def htlc_effect.nothing)

lemma put_htlc_map: "map_of (fv_htlcs s) k \<noteq> None \<Longrightarrow> map_of (fv_htlcs (put_htlc k h s)) = (map_of (fv_htlcs s))(k \<mapsto> h)"
  by auto

lemma claim_effect: "htlc_effect sha (FvClaim k p) (map_of (fv_htlcs s)) (map_of (fv_htlcs (snd (fake_claimHtlc sha tx k p s))))"
proof (cases "map_of (fv_htlcs s) k")
  case (Some h)
  show ?thesis
    using htlc_effect.claimed [where op = "FvClaim k p" and sha = sha and m = "map_of (fv_htlcs s)", OF Some] Some
    by (simp add: fake_claimHtlc_def refused_def Let_def put_htlc_map opens_htlc_def fake_claimed_def htlc_effect.nothing del: put_htlc_of)
qed (simp add: fake_claimHtlc_def refused_def htlc_effect.nothing)

lemma refund_effect: "htlc_effect sha op (map_of (fv_htlcs s)) (map_of (fv_htlcs (snd (fake_refundHtlc tx k s))))"
proof (cases "map_of (fv_htlcs s) k")
  case (Some h)
  show ?thesis
    using htlc_effect.refunded [where op = op and sha = sha and m = "map_of (fv_htlcs s)", OF Some] Some
    by (simp add: fake_refundHtlc_def refused_def Let_def put_htlc_map fake_refunded_def htlc_effect.nothing del: put_htlc_of)
qed (simp add: fake_refundHtlc_def refused_def htlc_effect.nothing)

lemma step_effect: "htlc_effect sha op (map_of (fv_htlcs s)) (map_of (fv_htlcs (fake_evm_step sha tx op s)))"
proof (cases op)
  case (FvClaim k p)
  then show ?thesis using claim_effect by simp
qed (simp_all add: fake_evm_controls fund_effect refund_effect htlc_effect.nothing)

lemma fake_evm_moves:
  assumes "fake_evm_view (fake_evm_step sha tx op s) k \<noteq> fake_evm_view s k"
  shows "rail_step (fake_evm_view s k) (fake_evm_view (fake_evm_step sha tx op s) k)"
  using step_effect [of sha op s tx] assms unfolding fake_evm_view_def
  by cases (auto simp: rail_of_htlc_def fake_claimed_def fake_refunded_def intro: rail_step.intros split: if_splits)

lemma fake_evm_pays:
  assumes "fake_evm_view s k \<noteq> Paid" "fake_evm_view (fake_evm_step sha tx op s) k = Paid"
  shows "\<exists>p. evm_offers op = Some p \<and> evm_opens sha s k p"
  using step_effect [of sha op s tx] assms unfolding fake_evm_view_def evm_opens_def
  by cases (auto simp: rail_of_htlc_def fake_refunded_def split: if_splits)

lemma fake_evm_lock_kept:
  assumes "evm_opens sha s k p"
  shows "evm_opens sha (fake_evm_step sha tx op s) k p"
  using step_effect [of sha op s tx] assms unfolding evm_opens_def
  by cases (auto simp: opens_htlc_def fake_claimed_def fake_refunded_def)

interpretation evm_rail: rail "fake_evm_step sha tx" fake_evm_view evm_offers "evm_opens sha" for sha tx
  by unfold_locales (auto intro: fake_evm_moves fake_evm_pays fake_evm_lock_kept)

section \<open>Books and evidence\<close>

definition books :: "fake_evm \<Rightarrow> bool" where
  "books s \<longleftrightarrow> (\<forall>k h. map_of (fv_htlcs s) k = Some h \<longrightarrow>
     fh_balance h = (if rail_of_htlc h = Held then fp_amountUnits (fh_params h) else 0))"

lemma books_step: "books s \<Longrightarrow> books (fake_evm_step sha tx op s)"
  unfolding books_def using step_effect [of sha op s tx]
  by cases (auto simp: rail_of_htlc_def fake_claimed_def fake_refunded_def split: if_splits)

text \<open>Every remembered preimage opened an HTLC that has been claimed.\<close>

definition claimed_by :: "(string \<Rightarrow> string) \<Rightarrow> fake_evm \<Rightarrow> string \<Rightarrow> bool" where
  "claimed_by sha s raw \<longleftrightarrow> (\<exists>k h. map_of (fv_htlcs s) k = Some h \<and> fh_completed h \<and> opens_htlc sha h raw)"

definition revealed :: "(string \<Rightarrow> string) \<Rightarrow> fake_evm \<Rightarrow> bool" where
  "revealed sha s \<longleftrightarrow> (\<forall>h raw. fv_claimPreimages s h = Some raw \<longrightarrow> claimed_by sha s raw)"

lemma completed_kept: "map_of (fv_htlcs s) k = Some h \<Longrightarrow> fh_completed h \<Longrightarrow> map_of (fv_htlcs (fake_evm_step sha tx op s)) k = Some h"
  using step_effect [of sha op s tx] by cases auto

lemma claimed_by_step: "claimed_by sha s raw \<Longrightarrow> claimed_by sha (fake_evm_step sha tx op s) raw"
  unfolding claimed_by_def using completed_kept by blast

lemma claim_reveals:
  "fv_claimPreimages (snd (fake_claimHtlc sha tx k p s)) h = Some raw \<Longrightarrow>
    fv_claimPreimages s h = Some raw \<or> claimed_by sha (snd (fake_claimHtlc sha tx k p s)) raw"
  unfolding claimed_by_def opens_htlc_def
  by (auto simp: fake_claimHtlc_def refused_def Let_def split: option.splits if_splits)

lemma step_reveals:
  "fv_claimPreimages (fake_evm_step sha tx op s) h = Some raw \<Longrightarrow>
    fv_claimPreimages s h = Some raw \<or> claimed_by sha (fake_evm_step sha tx op s) raw"
proof (cases op)
  case (FvFund p)
  then show "fv_claimPreimages (fake_evm_step sha tx op s) h = Some raw \<Longrightarrow> ?thesis"
    by (simp add: fake_fundHtlc_def refused_def Let_def split: if_splits)
next
  case (FvClaim k p)
  then show "fv_claimPreimages (fake_evm_step sha tx op s) h = Some raw \<Longrightarrow> ?thesis"
    using claim_reveals by simp
next
  case (FvRefund k)
  then show "fv_claimPreimages (fake_evm_step sha tx op s) h = Some raw \<Longrightarrow> ?thesis"
    by (auto simp: fake_refundHtlc_def refused_def Let_def split: option.splits if_splits)
qed (simp_all add: fake_evm_controls)

lemma revealed_step: "revealed sha s \<Longrightarrow> revealed sha (fake_evm_step sha tx op s)"
  unfolding revealed_def using step_reveals claimed_by_step by blast

lemma run_invariants:
  "books s \<and> revealed sha s \<Longrightarrow> books (fold (fake_evm_step sha tx) ops s) \<and> revealed sha (fold (fake_evm_step sha tx) ops s)"
  by (induction ops arbitrary: s) (simp_all add: books_step revealed_step)

lemma init_invariants: "books (fake_evm_init now chain enforce) \<and> revealed sha (fake_evm_init now chain enforce)"
  by (simp add: books_def revealed_def fake_evm_init_def)

text \<open>C27: Both in-memory rails refine one automaton. Over any run of their operations and test controls an invoice or HTLC moves only from
  absent to offered or held, from held to paid, and from offered or held to returned, so nothing is both paid and returned; it becomes
  paid only through an operation with a preimage that opens its lock; and the HTLCs hold exactly the amounts of those still held.\<close>

theorem fakes_refine_rail:
  fixes sha256 tx :: "string \<Rightarrow> string" and l :: fake_ln and ls :: "fake_ln_op list" and es :: "fake_evm_op list"
    and now :: int and chain :: "int option" and enforce :: "bool option"
  defines "l' \<equiv> fold (fake_ln_step sha256) ls l" and "e' \<equiv> fold (fake_evm_step sha256 tx) es (fake_evm_init now chain enforce)"
  shows "rail_step\<^sup>*\<^sup>* (fake_ln_view l k) (fake_ln_view l' k) \<and>
    (fake_ln_view l k \<noteq> Paid \<longrightarrow> fake_ln_view l' k = Paid \<longrightarrow> (\<exists>op \<in> set ls. \<exists>p. ln_offers op = Some p \<and> ln_opens sha256 l' k p)) \<and>
    rail_step\<^sup>*\<^sup>* Absent (fake_evm_view e' k) \<and>
    (fake_evm_view e' k = Paid \<longrightarrow> (\<exists>op \<in> set es. \<exists>p. evm_offers op = Some p \<and> evm_opens sha256 e' k p)) \<and>
    (\<forall>h. map_of (fv_htlcs e') k = Some h \<longrightarrow> fh_balance h = (if fake_evm_view e' k = Held then fp_amountUnits (fh_params h) else 0))"
proof -
  have a: "fake_evm_view (fake_evm_init now chain enforce) k = Absent" by (simp add: fake_evm_view_def fake_evm_init_def)
  have "books e'" using run_invariants [OF init_invariants] by (simp add: e'_def)
  then have b: "\<forall>h. map_of (fv_htlcs e') k = Some h \<longrightarrow> fh_balance h = (if fake_evm_view e' k = Held then fp_amountUnits (fh_params h) else 0)"
    by (simp add: books_def fake_evm_view_def)
  show ?thesis
    using b ln_rail.run_moves ln_rail.paid_by_preimage evm_rail.run_moves [of "fake_evm_init now chain enforce" k] evm_rail.paid_by_preimage [of "fake_evm_init now chain enforce" k]
    unfolding l'_def e'_def a by auto
qed

text \<open>Claim evidence of the in-memory backend is backed by a claim. Over any run from a new backend, a preimage in the evidence opened an
  HTLC that is claimed; final evidence has it hash to the expected lock, with the confirmations asked for.\<close>

theorem fake_evidence_backed:
  assumes "fake_extractClaimEvidence sha256 q required (fold (fake_evm_step sha256 tx) ops (fake_evm_init now chain enforce)) = (Inr e, s')"
  shows "(ce_preimageRevealed e \<noteq> [] \<longrightarrow> claimed_by sha256 s' (ce_preimageRevealed e)) \<and>
    (ce_finalityState e = FS_FINAL \<longrightarrow> coalesce required 2 \<le> ce_confirmations e \<and>
      to_lower (sha256 (hex_bytes (ce_preimageRevealed e))) = to_lower (strip_0x (cq_expectedHashLock q)))"
proof -
  have r: "revealed sha256 (fold (fake_evm_step sha256 tx) ops (fake_evm_init now chain enforce))"
    using run_invariants [OF init_invariants] by blast
  show ?thesis
    by (cases "fv_claimPreimages (fold (fake_evm_step sha256 tx) ops (fake_evm_init now chain enforce)) (cq_claimTxHash q)";
      use assms r in \<open>auto simp: fake_extractClaimEvidence_def fake_claim_evidence_def refused_def Let_def revealed_def
        split: option.splits if_splits\<close>)
qed

end
