(* ===== verification/Fake_Runs.thy ===== *)
theory Fake_Runs
  imports Fake_Laws Coord_Demo
begin

text \<open>
  The in-memory rails at work: a run for the witnesses, and the rails under the coordinator, which takes a whole swap over them from
  the reservation to the end.
\<close>

section \<open>Runs\<close>

definition demo_lock :: fund_params where
  "demo_lock = \<lparr> fp_swapKey = ''00'', fp_hashLock = ''0x00'', fp_amountUnits = 5, fp_tokenAddress = ''0xt'', fp_refundLocktime = 50,
     fp_claimAddress = ''0xa'', fp_refundAddress = ''0xr'' \<rparr>"

definition demo_rail_ops :: "fake_evm_op list" where
  "demo_rail_ops = [FvFund demo_lock, FvClaim ''00'' ''0x00'', FvRefund ''00'', FvAdvance 3]"

definition demo_invoice_ops :: "fake_ln_op list" where
  "demo_invoice_ops = [FlCreate 0 ''0x00'' 100 40, FlSettle 1 ''00'', FlHold 2 ''00'' None, FlSettle 3 ''00'', FlCancel 4 ''00'']"

definition demo_claim_query :: claim_query where
  "demo_claim_query = \<lparr> cq_claimTxHash = ''0x00:claim:1002'', cq_expectedHtlcId = ''0x00'', cq_expectedHashLock = ''0x00'',
     cq_expectedClaimAddress = ''0xa'', cq_expectedAmount = 5, cq_requiredConfirmations = 2 \<rparr>"

abbreviation demo_rail_evm :: fake_evm where
  "demo_rail_evm \<equiv> fold (fake_evm_step (\<lambda>x. x) (\<lambda>x. x)) demo_rail_ops (fake_evm_init 0 None None)"

abbreviation demo_rail_ln :: fake_ln where
  "demo_rail_ln \<equiv> fold (fake_ln_step (\<lambda>x. x)) demo_invoice_ops fake_ln_init"

lemma demo_rails_paid: "fake_ln_view fake_ln_init ''00'' = Absent" "fake_ln_view demo_rail_ln ''00'' = Paid" "fake_evm_view demo_rail_evm ''00'' = Paid"
  by code_simp+

theorem fakes_refine_rail_witness:
  "(\<exists>p. ln_opens (\<lambda>x. x) demo_rail_ln ''00'' p) \<and> (\<exists>p. evm_opens (\<lambda>x. x) demo_rail_evm ''00'' p)"
  using fakes_refine_rail [where l = fake_ln_init and ls = demo_invoice_ops and k = "''00''" and ?sha256.0 = "\<lambda>x. x" and tx = "\<lambda>x. x"
      and es = demo_rail_ops and now = 0 and chain = None and enforce = None] demo_rails_paid by auto

lemma demo_rail_evidence:
  "map_sum id (\<lambda>e. (ce_finalityState e, ce_preimageRevealed e)) (fst (fake_extractClaimEvidence (\<lambda>x. x) demo_claim_query None demo_rail_evm))
    = Inr (FS_FINAL, ''00'')"
  by code_simp

theorem fake_evidence_backed_witness: "claimed_by (\<lambda>x. x) demo_rail_evm ''00''"
proof -
  obtain e s' where e: "fake_extractClaimEvidence (\<lambda>x. x) demo_claim_query None demo_rail_evm = (Inr e, s')"
      "ce_preimageRevealed e = ''00''"
    using demo_rail_evidence by (cases "fake_extractClaimEvidence (\<lambda>x. x) demo_claim_query None demo_rail_evm"; cases "fst (fake_extractClaimEvidence (\<lambda>x. x) demo_claim_query None demo_rail_evm)") auto
  have "s' = demo_rail_evm"
    using e(1) by (auto simp: fake_extractClaimEvidence_def refused_def Let_def split: option.splits if_splits)
  with fake_evidence_backed [OF e(1)] e(2) show ?thesis by simp
qed

section \<open>The coordinator over the in-memory rails\<close>

type_synonym rails = "fake_ln \<times> fake_evm"

definition over_ln :: "(fake_ln \<Rightarrow> (cerr + 'a) \<times> fake_ln) \<Rightarrow> (rails, 'a) call" where
  "over_ln f s = (case f (fst (s_world s)) of (r, l) \<Rightarrow> (r, s\<lparr>s_world := (l, snd (s_world s))\<rparr>))"

definition over_evm :: "(fake_evm \<Rightarrow> (cerr + 'a) \<times> fake_evm) \<Rightarrow> (rails, 'a) call" where
  "over_evm f s = (case f (snd (s_world s)) of (r, e) \<Rightarrow> (r, s\<lparr>s_world := (fst (s_world s), e)\<rparr>))"

definition settled_at :: "(cerr + bool \<times> int option) \<times> 's \<Rightarrow> (cerr + bool \<times> int) \<times> 's" where
  "settled_at = map_prod (map_sum id (map_prod id (\<lambda>t. coalesce t 0))) id"

definition rails_backend :: "(string \<Rightarrow> string) \<Rightarrow> (string \<Rightarrow> string) \<Rightarrow> int \<Rightarrow> rails backend \<Rightarrow> rails backend" where
  "rails_backend sha tx now rest = rest\<lparr>
     b_createHoldInvoice := \<lambda>h a n m. over_ln (fake_createHoldInvoice now h a n),
     b_observeHoldInvoice := \<lambda>h. over_ln (fake_observeHoldInvoice h),
     b_settleHoldInvoice := \<lambda>p. over_ln (settled_at \<circ> fake_settleHoldInvoice sha now p),
     b_cancelHoldInvoice := \<lambda>h. over_ln (settled_at \<circ> fake_cancelHoldInvoice now h),
     b_getInvoiceState := \<lambda>h. over_ln (fake_getInvoiceState h),
     b_getBlockHeight := Some (over_ln fake_getBlockHeight),
     b_getBlockTimestamp := over_evm (\<lambda>s. (Inr (fv_currentBlockTimestamp s), s)),
     b_fundHtlc := \<lambda>p. over_evm (fake_fundHtlc tx p),
     b_observeHtlc := \<lambda>k. over_evm (\<lambda>s. (Inr (fake_observeHtlc tx None k s), s)),
     b_refundHtlc := \<lambda>k. over_evm (fake_refundHtlc tx k),
     b_claimHtlc := Some (\<lambda>k p d. over_evm (fake_claimHtlc sha tx k p)),
     b_verifyClaim := Some (\<lambda>q. over_evm (fake_extractClaimEvidence sha q (Some (cq_requiredConfirmations q)))),
     b_verifyRefund := Some (\<lambda>q. over_evm (fake_verifyRefundEvidence q (Some (rq_requiredConfirmations q))))\<rparr>"

definition demo_rails :: "rails backend" where
  "demo_rails = rails_backend (\<lambda>_. ''h'') (\<lambda>x. x) 1000 (demo_backend HI_OPEN (demo_htlc False False False))"

text \<open>A swap in the middle: the payment is held, the HTLC is funded and its timelock is over. Then the client claims, or nobody does.\<close>

definition demo_middle :: "fake_evm_op list \<Rightarrow> rails sys" where
  "demo_middle ops = \<lparr> s_db = empty_db\<lparr>sovereign_swaps := [row_of_record (demo_record SA_EVM_FUNDED) ''f'']\<rparr>,
     s_cache = (\<lambda>_. None), s_claims = (\<lambda>_. None), s_inflight = [],
     s_world = (fold (fake_ln_step (\<lambda>_. ''h'')) [FlHeight 1000, FlCreate 0 ''0xh'' 100 400, FlHold 1 ''h'' None] fake_ln_init,
       fold (fake_evm_step (\<lambda>_. ''h'') (\<lambda>x. x)) (FvFund (demo_lock\<lparr>fp_swapKey := ''swap_s'', fp_hashLock := ''0xh''\<rparr>) # ops)
         (fake_evm_init 100000 None None)) \<rparr>"

definition ends_as :: "(rails, swap_rec) act \<Rightarrow> rails sys \<Rightarrow> (cerr + swap_state) \<times> rail \<times> rail" where
  "ends_as m s = (case m s of (r, t, s') \<Rightarrow>
     (map_sum id r_state r, fake_ln_view (fst (s_world s')) ''h'', fake_evm_view (snd (s_world s')) ''swap_s''))"

text \<open>The claim on Base reveals the preimage, and the router settles Lightning with it; or both rails give the money back.\<close>

lemma swap_settles:
  "ends_as (settleLightningFromEvmClaim demo_rails demo_coordinator ''s'' ''0xswap_s:claim:1002'' ''w'')
     (demo_middle [FvClaim ''swap_s'' ''00'']) = (Inr SA_DESTINATION_PENDING, Paid, Paid)"
  by code_simp

lemma swap_returns:
  "ends_as (processRefund demo_rails demo_coordinator ''s'' ''w'') (demo_middle []) = (Inr SA_REFUNDED, Returned, Returned)"
  by code_simp

section \<open>The findings\<close>

text \<open>The in-memory backend gives final claim evidence for any HTLC id that is asked for: here for one that does not exist.\<close>

lemma fake_evidence_unbound:
  "map_sum id (\<lambda>e. (ce_htlcId e, ce_finalityState e))
     (fst (fake_extractClaimEvidence (\<lambda>x. x) (demo_claim_query\<lparr>cq_expectedHtlcId := ''other''\<rparr>) None demo_rail_evm)) = Inr (''other'', FS_FINAL)"
  by code_simp

end
