(* ===== verification/Local_Backend.thy ===== *)
theory Local_Backend
  imports Base_Backend
begin

text \<open>
  The backend for a local test network (\<open>src/src/atomic/evm/real-local-backend.ts\<close>) with its guard (\<open>evm-guard.ts\<close>). Its client, its
  state and the first steps of its settlement gate are those of \<open>Base_Backend\<close>; it has no transaction manager, does not look for an HTLC before it
  funds one, reads the contract once instead of polling, and forgets its bindings with the process. The refunding wallet is its own.
\<close>

section \<open>The guard\<close>

definition ACCEPTED_LOCAL_DEVNET_CHAIN_ID :: int where "ACCEPTED_LOCAL_DEVNET_CHAIN_ID = 31337"

definition assertSafeLocalNetwork :: "int \<Rightarrow> js_error + unit" where
  "assertSafeLocalNetwork actualChainId =
    (if actualChainId \<noteq> ACCEPTED_LOCAL_DEVNET_CHAIN_ID
     then Inl (named_error ''EvmNetworkGuardError'' ''EVM_NETWORK_GUARD_VIOLATION: REFUSING_NON_LOCAL_NETWORK'')
     else Inr ())"

definition local_assertContractBytecode :: "(string \<Rightarrow> string) \<Rightarrow> string \<Rightarrow> js_error + unit" where
  "local_assertContractBytecode sha256 deployedBytecodeHex =
    (let clean = strip_0x deployedBytecodeHex;
         err = (\<lambda>m. Inl (named_error ''EvmBytecodeMismatchError'' (''EVM_BYTECODE_MISMATCH: '' @ m)))
     in if length clean < 10 then err ''No contract bytecode found at specified address''
        else if length clean mod 2 \<noteq> 0 \<or> \<not> list_all is_hex clean then err ''Malformed bytecode hex representation''
        else if to_lower (sha256 (hex_bytes clean)) \<noteq> to_lower PINNED_HTLC_BYTECODE_RAW_SHA256
        then err ''Deployed contract bytecode does not match pinned implementation raw hash''
        else Inr ())"

text \<open>\<open>ll_client\<close> is the public client and the operator wallet; its settings and manager are not used.\<close>

record 'w local_backend =
  ll_client :: "'w base_backend"
  ll_operatorAddress :: string
  ll_refundWrite :: "string \<Rightarrow> contract_call \<Rightarrow> ('w, string) bcall"

definition local_check_guards :: "'w local_backend \<Rightarrow> ('w, unit) bact" where
  "local_check_guards b =
    (let c = ll_client b in
     bnd (call BvChainId (bc_chainId c)) (\<lambda>actualChainId.
     seq (raise (assertSafeLocalNetwork actualChainId))
     (bnd htlc_address (\<lambda>htlc.
      bnd (call (BvBytecode htlc) (bc_bytecode c htlc)) (\<lambda>bytecode.
      seq (raise (local_assertContractBytecode (bc_sha256 c) (coalesce bytecode ''0x'')))
      (change (\<lambda>s. s\<lparr>x_initialized := True\<rparr>)))))))"

definition local_ensureGuards :: "'w local_backend \<Rightarrow> ('w, unit) bact" where
  "local_ensureGuards b = bnd (ask x_initialized) (\<lambda>initialized. if initialized then ret () else local_check_guards b)"

section \<open>Sending\<close>

text \<open>\<open>writeContract\<close> of a wallet and \<open>waitForTransactionReceipt\<close>\<close>

definition write_and_wait ::
  "'w base_backend \<Rightarrow> (string \<Rightarrow> contract_call \<Rightarrow> ('w, string) bcall) \<Rightarrow> string \<Rightarrow> contract_call \<Rightarrow> ('w, receipt) bact" where
  "write_and_wait c wallet target f =
    bnd (call (BvWrite target f) (wallet target f)) (\<lambda>txHash. call (BvWaitReceipt txHash) (bc_waitReceipt c txHash))"

definition block_timestamp :: "'w base_backend \<Rightarrow> int \<Rightarrow> ('w, int) bact" where
  "block_timestamp c n = bnd (call (BvBlock (Some n)) (bc_block c (Some n))) (\<lambda>block. ret (bk_timestamp block))"

section \<open>Funding\<close>

definition local_identity :: "'w local_backend \<Rightarrow> fund_params \<Rightarrow> htlc_identity" where
  "local_identity b p = \<lparr> hd_hashLock = fp_hashLock p, hd_amountUnits = fp_amountUnits p, hd_tokenAddress = fp_tokenAddress p,
     hd_sender = ll_operatorAddress b, hd_claimAddress = fp_claimAddress p, hd_refundAddress = fp_refundAddress p,
     hd_refundLocktime = fp_refundLocktime p, hd_chainId = ACCEPTED_LOCAL_DEVNET_CHAIN_ID \<rparr>"

definition local_confirm_funding :: "'w local_backend \<Rightarrow> fund_params \<Rightarrow> receipt \<Rightarrow> ('w, fund_result) bact" where
  "local_confirm_funding b p receipt =
    (let c = ll_client b in
     bnd (block_timestamp c (rp_blockNumber receipt)) (\<lambda>blockTimestamp.
     bnd (raise (computeHtlcId c (local_identity b p))) (\<lambda>htlcId.
     bnd (read_existing c htlcId) (\<lambda>storedHtlc.
     if sh_status storedHtlc \<noteq> JsNum 1 then throw_error ''STORAGE_VERIFICATION_FAILED: Expected LOCKED (1)''
     else
       seq (change (bind_htlc (fp_swapKey p) htlcId))
       (bnd htlc_address (\<lambda>htlc.
        seq (log_evidence (FundedEv \<lparr> fe_chainId = ACCEPTED_LOCAL_DEVNET_CHAIN_ID, fe_contractAddress = htlc,
               fe_htlcId = htlcId, fe_hashLock = fp_hashLock p, fe_token = fp_tokenAddress p, fe_amount = fp_amountUnits p,
               fe_claimAddress = fp_claimAddress p, fe_refundAddress = fp_refundAddress p, fe_timelock = fp_refundLocktime p,
               fe_txHash = rp_transactionHash receipt, fe_blockNumber = rp_blockNumber receipt,
               fe_blockTimestamp = blockTimestamp \<rparr>))
        (seq (set_action (''fund:'' @ fp_swapKey p) (ActionMined (rp_transactionHash receipt)))
        (ret (rp_transactionHash receipt, rp_blockNumber receipt, Some htlcId)))))))))"

definition local_fund_new :: "'w local_backend \<Rightarrow> fund_params \<Rightarrow> ('w, fund_result) bact" where
  "local_fund_new b p =
    (let c = ll_client b in
     seq (set_action (''fund:'' @ fp_swapKey p) ActionPending)
     (bnd htlc_address (\<lambda>htlc.
      seq (write_and_wait c (bc_write c) (fp_tokenAddress p) (CallApprove htlc (fp_amountUnits p)))
      (bnd htlc_address (\<lambda>htlc.
       bnd (write_and_wait c (bc_write c) htlc (fund_call p)) (local_confirm_funding b p))))))"

definition local_fundHtlc :: "'w local_backend \<Rightarrow> fund_params \<Rightarrow> ('w, fund_result) bact" where
  "local_fundHtlc b params =
    seq (local_ensureGuards b)
    (bnd (ask (\<lambda>s. x_durableActions s (''fund:'' @ fp_swapKey params))) (\<lambda>existingAction.
     case existingAction of
       Some (ActionMined txHash) \<Rightarrow>
         bnd (mined_receipt (ll_client b) txHash) (\<lambda>receipt.
         bnd (ask (\<lambda>s. coalesce (x_keyToId s (fp_swapKey params)) ''0x'')) (\<lambda>htlcId.
         ret (rp_transactionHash receipt, rp_blockNumber receipt, Some htlcId)))
     | _ \<Rightarrow> local_fund_new b (prefixed params)))"

section \<open>Observing\<close>

definition local_getBlockTimestamp :: "'w local_backend \<Rightarrow> ('w, int) bact" where
  "local_getBlockTimestamp b = bnd (call (BvBlock None) (bc_block (ll_client b) None)) (\<lambda>block. ret (bk_timestamp block))"

text \<open>A status that is no number compares unequal to all of them.\<close>

definition local_htlc_state :: "stored_htlc \<Rightarrow> int \<Rightarrow> htlc_state" where
  "local_htlc_state stored blockTimestamp =
    (let status = plain_number (sh_status stored) in
     \<lparr> os_htlcId = None, os_funded = Some (status = Some 1 \<or> status = Some 2 \<or> status = Some 3),
       os_completed = Some (status = Some 2), os_refunded = Some (status = Some 3),
       os_balance = (if status = Some 1 then sh_amount stored else 0), os_timelock = sh_timelock stored,
       os_blockTimestamp = blockTimestamp \<rparr>)"

definition local_observeHtlc :: "'w local_backend \<Rightarrow> string \<Rightarrow> ('w, htlc_state) bact" where
  "local_observeHtlc b swapKey =
    seq (local_ensureGuards b)
    (bnd (local_getBlockTimestamp b) (\<lambda>blockTimestamp.
     bnd (ask (\<lambda>s. truthy_str (x_keyToId s swapKey))) (\<lambda>binding.
     case binding of
       None \<Rightarrow>
         ret \<lparr> os_htlcId = None, os_funded = Some False, os_completed = Some False, os_refunded = Some False,
               os_balance = 0, os_timelock = 0, os_blockTimestamp = blockTimestamp \<rparr>
     | Some htlcId \<Rightarrow>
         bnd (read_existing (ll_client b) htlcId) (\<lambda>stored. ret (local_htlc_state stored blockTimestamp)))))"

definition local_claimHtlc :: "'w local_backend \<Rightarrow> string \<Rightarrow> string \<Rightarrow> string \<Rightarrow> ('w, bool \<times> string) bact" where
  "local_claimHtlc b swapKey preimage destination = throw_error ''ROUTER_DOES_NOT_OWN_CLIENT_SIGNER''"

section \<open>The settlement gate\<close>

definition local_claim_storage :: "'w base_backend \<Rightarrow> claim_query \<Rightarrow> ('w, stored_htlc) bact" where
  "local_claim_storage c q =
    bnd (read_existing c (cq_expectedHtlcId q)) (\<lambda>stored.
    if sh_status stored \<noteq> JsNum 2 then gate ''Authoritative HTLC status is not 2 (CLAIMED)''
    else if to_lower (sh_claimAddress stored) \<noteq> to_lower (cq_expectedClaimAddress q)
    then gate ''Claim recipient does not match expected''
    else if sh_amount stored \<noteq> cq_expectedAmount q then gate ''Claim amount does not match expected''
    else if to_lower (sh_hashLock stored) \<noteq> to_lower (cq_expectedHashLock q)
    then gate ''Claim hashlock does not match expected''
    else ret stored)"

text \<open>One confirmation is enough where the query asks for no number.\<close>

definition local_extract_evidence :: "'w local_backend \<Rightarrow> claim_query \<Rightarrow> int option \<Rightarrow> ('w, claim_evidence) bact" where
  "local_extract_evidence b q required =
    (let c = ll_client b; txHash = with_0x (cq_claimTxHash q) in
     bnd (claim_receipt c q (Some (coalesce required 1)) txHash) (\<lambda>(receipt, confirmations).
     bnd (claim_preimage c q txHash) (\<lambda>preimage.
     bnd (local_claim_storage c q) (\<lambda>stored.
     bnd (block_timestamp c (rp_blockNumber receipt)) (\<lambda>blockTimestamp.
     bnd htlc_address (\<lambda>htlc.
     let evidence = \<lparr> ce_chainId = ACCEPTED_LOCAL_DEVNET_CHAIN_ID, ce_contractAddress = htlc, ce_htlcId = cq_expectedHtlcId q,
           ce_hashLock = cq_expectedHashLock q, ce_preimageRevealed = preimage, ce_claimAddress = sh_claimAddress stored,
           ce_amount = sh_amount stored, ce_txHash = txHash, ce_blockNumber = rp_blockNumber receipt,
           ce_blockTimestamp = blockTimestamp, ce_confirmations = confirmations, ce_finalityState = FS_FINAL \<rparr> in
     seq (log_evidence (ClaimedEv evidence)) (ret evidence)))))))"

definition local_extractClaimEvidence :: "'w local_backend \<Rightarrow> claim_query \<Rightarrow> int option \<Rightarrow> ('w, claim_evidence) bact" where
  "local_extractClaimEvidence b q required = seq (local_ensureGuards b) (local_extract_evidence b q required)"

section \<open>Refunding\<close>

definition local_confirm_refund ::
  "'w local_backend \<Rightarrow> string \<Rightarrow> string \<Rightarrow> stored_htlc \<Rightarrow> receipt \<Rightarrow> ('w, string \<times> int) bact" where
  "local_confirm_refund b swapKey htlcId stored receipt =
    bnd (block_timestamp (ll_client b) (rp_blockNumber receipt)) (\<lambda>blockTimestamp.
    bnd (read_existing (ll_client b) htlcId) (\<lambda>postRefund.
    if sh_status postRefund \<noteq> JsNum 3 then throw_error ''STORAGE_VERIFICATION_FAILED: Expected REFUNDED (3)''
    else
      bnd htlc_address (\<lambda>htlc.
      seq (log_evidence (RefundedEv \<lparr> re_chainId = ACCEPTED_LOCAL_DEVNET_CHAIN_ID, re_contractAddress = htlc,
             re_htlcId = htlcId, re_refundAddress = sh_refundAddress stored, re_txHash = rp_transactionHash receipt,
             re_blockNumber = rp_blockNumber receipt, re_blockTimestamp = blockTimestamp, re_finalityState = None \<rparr>))
      (seq (set_action (''refund:'' @ swapKey) (ActionMined (rp_transactionHash receipt)))
      (ret (rp_transactionHash receipt, rp_blockNumber receipt))))))"

definition local_refund_new :: "'w local_backend \<Rightarrow> string \<Rightarrow> string \<Rightarrow> ('w, string \<times> int) bact" where
  "local_refund_new b swapKey htlcId =
    bnd (read_existing (ll_client b) htlcId) (\<lambda>stored.
    if sh_status stored = JsNum 3 then ret (''0x_already_refunded'', 0)
    else if sh_status stored = JsNum 2 then throw_error ''MUTUAL_EXCLUSION_VIOLATION: HTLC has already been claimed (EVM-SEC-9)''
    else if sh_status stored \<noteq> JsNum 1 then throw_error ''INVALID_STATE: HTLC is not in LOCKED status''
    else
      bnd (local_getBlockTimestamp b) (\<lambda>currentTimestamp.
      if currentTimestamp < sh_timelock stored
      then throw_error ''PREMATURE_REFUND_DENIED: Timelock is not expired (EVM-SEC-8)''
      else
        seq (set_action (''refund:'' @ swapKey) ActionPending)
        (bnd htlc_address (\<lambda>htlc.
         bnd (write_and_wait (ll_client b) (ll_refundWrite b) htlc (CallRefund htlcId))
           (local_confirm_refund b swapKey htlcId stored)))))"

definition local_refundHtlc :: "'w local_backend \<Rightarrow> string \<Rightarrow> ('w, string \<times> int) bact" where
  "local_refundHtlc b swapKey =
    seq (local_ensureGuards b)
    (bnd (ask (\<lambda>s. (x_durableActions s (''refund:'' @ swapKey), truthy_str (x_keyToId s swapKey)))) (\<lambda>(existingAction, binding).
     case existingAction of
       Some (ActionMined txHash) \<Rightarrow>
         bnd (mined_receipt (ll_client b) txHash) (\<lambda>receipt. ret (rp_transactionHash receipt, rp_blockNumber receipt))
     | _ \<Rightarrow>
         (case binding of
            None \<Rightarrow> throw_error (''HTLC for swapKey '' @ swapKey @ '' does not exist or is not funded'')
          | Some htlcId \<Rightarrow> local_refund_new b swapKey htlcId)))"

end
