(* ===== verification/Local_Laws.thy ===== *)
theory Local_Laws
  imports Local_Backend Base_Laws
begin

text \<open>
  What the backend for the local network promises: it writes only to a network that answered the local chain id, to the pinned contract;
  it approves exactly the amount and then funds, once; it refunds once, what it read locked and expired; and its settlement gate binds the
  evidence like the one of \<open>Base_Laws\<close>, whose vocabulary and lemmas it shares.
\<close>

definition keeps_local :: "'w local_backend \<Rightarrow> bool" where
  "keeps_local b \<longleftrightarrow> keeps_address (ll_client b) \<and> (\<forall>t f. leaves_address (snd \<circ> ll_refundWrite b t f))"

lemma keeps_localD:
  "keeps_local b \<Longrightarrow> keeps_address (ll_client b)" "keeps_local b \<Longrightarrow> preserves (at_address a) (snd \<circ> ll_refundWrite b t f)"
  by (simp_all add: keeps_local_def preserves_address)

section \<open>Reading\<close>

definition local_guards_seen :: "'w local_backend \<Rightarrow> string \<Rightarrow> base_event list \<Rightarrow> bool" where
  "local_guards_seen b a h \<longleftrightarrow> BvChainId (Inr ACCEPTED_LOCAL_DEVNET_CHAIN_ID) \<in> set h \<and>
     (\<exists>code. BvBytecode a (Inr code) \<in> set h \<and>
        local_assertContractBytecode (bc_sha256 (ll_client b)) (coalesce code ''0x'') = Inr ())"

lemma local_guards_mono: "set h \<subseteq> set h' \<Longrightarrow> local_guards_seen b a h \<Longrightarrow> local_guards_seen b a h'"
  unfolding local_guards_seen_def by fast

lemma local_network_ok: "assertSafeLocalNetwork n = Inr u \<Longrightarrow> n = ACCEPTED_LOCAL_DEVNET_CHAIN_ID"
  by (simp add: assertSafeLocalNetwork_def split: if_splits)

lemma wpi_local_guards:
  assumes "keeps_local b" "quiet J" "\<And>e h. E e h"
  shows "wpi (at_address a) J (local_check_guards b) (\<lambda>_ h'. later h h' \<and> local_guards_seen b a h') E h"
  unfolding local_check_guards_def Let_def
  by (intro wpi_rules wpi_call address_rules keeps_localD(1) assms)
    (auto simp: quietD [OF assms(2)] local_guards_seen_def assms(3) dest!: local_network_ok)

text \<open>A block, the last block, a transaction.\<close>

lemma wpi_block_timestamp:
  assumes "keeps_address c" "quiet J" "\<And>x. Q (bk_timestamp x) (h @ [BvBlock (Some n) (Inr x)])" "\<And>e h. E e h"
  shows "wpi (at_address a) J (block_timestamp c n) Q E h"
  unfolding block_timestamp_def
  by (intro wpi_rules wpi_call address_rules assms) (simp_all add: quietD [OF assms(2)])

lemma wpi_local_now [wpi_rules]:
  assumes "keeps_local b" "quiet J" "\<And>x. Q (bk_timestamp x) (h @ [BvBlock None (Inr x)])" "\<And>e h. E e h"
  shows "wpi (at_address a) J (local_getBlockTimestamp b) Q E h"
  unfolding local_getBlockTimestamp_def
  by (intro wpi_rules wpi_call address_rules keeps_localD(1) assms) (simp_all add: quietD [OF assms(2)])

lemma wpi_write_and_wait:
  assumes "keeps_address c" "quiet J" "preserves (at_address a) (snd \<circ> wallet t f)" "\<And>r. J h (BvWrite t f r)"
    "\<And>x y r. Q r (h @ [BvWrite t f (Inr x), BvWaitReceipt x y])" "\<And>e h. E e h"
  shows "wpi (at_address a) J (write_and_wait c wallet t f) Q E h"
  unfolding write_and_wait_def
  by (intro wpi_rules wpi_call address_rules assms) (simp_all add: quietD [OF assms(2)] assms(5,6))

section \<open>Sending\<close>

text \<open>The approval of exactly the amount is the first transaction, and the funding the second and last.\<close>

definition local_fund_step :: "string \<Rightarrow> fund_params \<Rightarrow> base_event list \<Rightarrow> base_event \<Rightarrow> bool" where
  "local_fund_step a p h e \<longleftrightarrow>
     (\<exists>r. e = BvWrite (fp_tokenAddress p) (CallApprove a (fp_amountUnits p)) r \<and> \<not> seen write_call h) \<or>
     (\<exists>r x. e = BvWrite a (fund_call p) r \<and> BvWrite (fp_tokenAddress p) (CallApprove a (fp_amountUnits p)) (Inr x) \<in> set h \<and> \<not> seen funds h)"

text \<open>A refund is the only transaction, of an HTLC read as LOCKED before a block whose time has reached the timelock.\<close>

definition local_refund_step :: "string \<Rightarrow> base_event list \<Rightarrow> base_event \<Rightarrow> bool" where
  "local_refund_step a h e \<longleftrightarrow> (\<exists>i r x block. e = BvWrite a (CallRefund i) r \<and> \<not> seen write_call h \<and>
     BvHtlc a i (Inr (Some x)) \<in> set h \<and> sh_status x = JsNum 1 \<and> BvBlock None (Inr block) \<in> set h \<and> sh_timelock x \<le> bk_timestamp block)"

lemma local_refund_stepI:
  "\<not> seen write_call h \<Longrightarrow> BvHtlc a i (Inr (Some x)) \<in> set h \<Longrightarrow> sh_status x = JsNum 1 \<Longrightarrow> BvBlock None (Inr block) \<in> set h \<Longrightarrow>
    \<not> bk_timestamp block < sh_timelock x \<Longrightarrow> local_refund_step a h (BvWrite a (CallRefund i) r)"
  unfolding local_refund_step_def by (intro exI [of _ i] exI [of _ r] exI [of _ x] exI [of _ block]) simp

definition local_guard :: "(base_event list \<Rightarrow> bool) \<Rightarrow> (base_event list \<Rightarrow> base_event \<Rightarrow> bool) \<Rightarrow> base_event list \<Rightarrow> base_event \<Rightarrow> bool" where
  "local_guard G step h e \<longleftrightarrow> (write_call e \<longrightarrow> G h \<and> step h e)"

lemma quiet_local_guard [simp]: "quiet (local_guard G step)"
  by (simp add: quiet_def local_guard_def)

lemma wpi_local_fund:
  assumes "keeps_local b" "\<And>h h'. set h \<subseteq> set h' \<Longrightarrow> G h \<Longrightarrow> G h'" "G h" "\<not> seen write_call h"
  shows "wpi (at_address a) (local_guard G (local_fund_step a p)) (local_fund_new b p) (\<lambda>_ _. True) (\<lambda>_ _. True) h"
proof -
  have g: "G (h @ t)" for t by (rule assms(2) [OF _ assms(3)]) auto
  have f: "\<not> seen funds h" using assms(4) funds_writes by (auto simp: seen_def)
  show ?thesis
    unfolding local_fund_new_def local_confirm_funding_def set_action_def log_evidence_def Let_def
    by (intro wpi_rules wpi_write_and_wait wpi_block_timestamp address_rules keeps_localD [OF assms(1)] quiet_local_guard TrueI)
      (auto simp: local_guard_def local_fund_step_def assms(3,4) g f fund_call_def)
qed

lemma wpi_local_refund:
  assumes "keeps_local b" "\<And>h h'. set h \<subseteq> set h' \<Longrightarrow> G h \<Longrightarrow> G h'" "G h" "\<not> seen write_call h"
  shows "wpi (at_address a) (local_guard G (local_refund_step a)) (local_refund_new b k i) (\<lambda>_ _. True) (\<lambda>_ _. True) h"
proof -
  have g: "G (h @ t)" for t by (rule assms(2) [OF _ assms(3)]) auto
  show ?thesis
    unfolding local_refund_new_def local_confirm_refund_def set_action_def log_evidence_def
    by (intro wpi_rules wpi_write_and_wait wpi_block_timestamp address_rules keeps_localD [OF assms(1)] assms(1) quiet_local_guard TrueI)
      (auto simp: local_guard_def assms(4) g intro: local_refund_stepI)
qed

section \<open>The settlement gate\<close>

definition local_evidence_backed ::
  "'w local_backend \<Rightarrow> string \<Rightarrow> claim_query \<Rightarrow> int option \<Rightarrow> claim_evidence \<Rightarrow> base_event list \<Rightarrow> bool" where
  "local_evidence_backed b a q required ev h \<longleftrightarrow> ce_finalityState ev = FS_FINAL \<and> ce_chainId ev = ACCEPTED_LOCAL_DEVNET_CHAIN_ID \<and>
     evidence_backed (ll_client b) a q (Some (coalesce required 1)) ev h"

lemma wpi_local_storage:
  assumes "keeps_address c" "quiet J" "\<And>e h. E e h"
  shows "wpi (at_address a) J (local_claim_storage c q) (\<lambda>x h'. later h h' \<and> stored_claimed a q x h') E h"
  unfolding local_claim_storage_def
  by (intro wpi_rules assms(1,2)) (auto simp: assms(3) stored_claimed_def)

lemma wpi_local_evidence:
  assumes "keeps_local b" "quiet J" "\<And>e h. E e h"
  shows "wpi (at_address a) J (local_extract_evidence b q required)
    (\<lambda>ev h'. later h h' \<and> local_evidence_backed b a q required ev h') E h"
proof -
  note k = keeps_localD(1) [OF assms(1)]
  have t: "wpi (at_address a) J (block_timestamp (ll_client b) n) (\<lambda>_ h2. later h1 h2) E h1" for n h1
    by (rule wpi_block_timestamp [OF k assms(2)]) (simp_all add: assms(3))
  show ?thesis
    unfolding local_extract_evidence_def log_evidence_def Let_def
    by (intro wpi_rules wpi_post [OF wpi_claim_receipt [OF k assms(2)]] wpi_post [OF wpi_claim_preimage [OF k assms(2)]]
        wpi_post [OF wpi_local_storage [OF k assms(2)]] wpi_post [OF t] address_rules assms(3))
      (auto simp: local_evidence_backed_def evidence_backed_def stored_claimed_def [THEN iffD1] intro: later_trans claim_facts_later,
        metis later_trans claim_facts_later(1))
qed

section \<open>The operations\<close>

datatype local_op = LpFund fund_params | LpObserve string | LpClaim string string string | LpEvidence claim_query "int option" | LpRefund string

fun local_trace :: "'w local_backend \<Rightarrow> local_op \<Rightarrow> 'w bsys \<Rightarrow> base_event list" where
  "local_trace b (LpFund p) s = trace (local_fundHtlc b p) s"
| "local_trace b (LpObserve k) s = trace (local_observeHtlc b k) s"
| "local_trace b (LpClaim k p d) s = trace (local_claimHtlc b k p d) s"
| "local_trace b (LpEvidence q n) s = trace (local_extractClaimEvidence b q n) s"
| "local_trace b (LpRefund k) s = trace (local_refundHtlc b k) s"

fun local_step :: "string \<Rightarrow> local_op \<Rightarrow> base_event list \<Rightarrow> base_event \<Rightarrow> bool" where
  "local_step a (LpFund p) h e \<longleftrightarrow> local_fund_step a (prefixed p) h e"
| "local_step a (LpRefund k) h e \<longleftrightarrow> local_refund_step a h e"
| "local_step a _ h e \<longleftrightarrow> False"

lemma local_behind:
  assumes "keeps_local b" "quiet J" "\<And>e h. E e h"
    "\<And>h. x_initialized s \<or> local_guards_seen b (x_htlcAddress s) h \<Longrightarrow> \<not> seen write_call h \<Longrightarrow> wpi (at_address (x_htlcAddress s)) J m Q E h"
    "seq (local_ensureGuards b) m s = (r, t, s')"
  shows "allowed J [] t \<and> (case r of Inr x \<Rightarrow> Q x t | Inl e \<Rightarrow> E e t)"
  by (rule run_behind [OF wpi_local_guards [OF assms(1-3)] assms(4) refl refl assms(5) [unfolded local_ensureGuards_def]]) auto

lemma local_behind_trace:
  assumes "keeps_local b" "quiet J"
    "\<And>h. x_initialized s \<or> local_guards_seen b (x_htlcAddress s) h \<Longrightarrow> \<not> seen write_call h \<Longrightarrow>
      wpi (at_address (x_htlcAddress s)) J m (\<lambda>_ _. True) (\<lambda>_ _. True) h"
  shows "allowed J [] (trace (seq (local_ensureGuards b) m) s)"
proof -
  obtain r t s' where m: "seq (local_ensureGuards b) m s = (r, t, s')" by (metis prod_cases3)
  show ?thesis using local_behind [OF assms(1,2) TrueI assms(3) m] m by (simp add: trace_def)
qed

lemma local_allowed:
  fixes s :: "'w bsys"
  assumes "keeps_local b"
  defines "J \<equiv> \<lambda>op. local_guard (\<lambda>h. x_initialized s \<or> local_guards_seen b (x_htlcAddress s) h) (local_step (x_htlcAddress s) op)"
  shows "allowed (J op) [] (local_trace b op s)"
proof -
  let ?a = "x_htlcAddress s"
  let ?G = "\<lambda>h. x_initialized s \<or> local_guards_seen b ?a h"
  note k = keeps_localD(1) [OF assms(1)]
  have q: "quiet (J op)" by (simp add: J_def)
  have mono: "set h \<subseteq> set h' \<Longrightarrow> ?G h \<Longrightarrow> ?G h'" for h h' using local_guards_mono by blast
  have g: "local_step ?a (LpFund p) = local_fund_step ?a (prefixed p)" "local_step ?a (LpRefund x) = local_refund_step ?a" for p x
    by (rule ext, rule ext, simp)+
  have fund: "wpi (at_address ?a) (J (LpFund p)) (local_fund_new b (prefixed p)) (\<lambda>_ _. True) (\<lambda>_ _. True) h"
    if "?G h" "\<not> seen write_call h" for p h
    unfolding J_def g by (rule wpi_local_fund [where G = ?G, OF assms(1) mono that])
  have refund: "wpi (at_address ?a) (J (LpRefund x)) (local_refund_new b x i) (\<lambda>_ _. True) (\<lambda>_ _. True) h"
    if "?G h" "\<not> seen write_call h" for x i h
    unfolding J_def g by (rule wpi_local_refund [where G = ?G, OF assms(1) mono that])
  show ?thesis
  proof (cases op)
    case (LpFund p)
    show ?thesis
      unfolding LpFund local_trace.simps local_fundHtlc_def
      by (rule local_behind_trace [OF assms(1) q [unfolded LpFund]])
        (intro wpi_rules wpi_mined_receipt [OF k q [unfolded LpFund]] fund TrueI; assumption?)
  next
    case (LpRefund x)
    show ?thesis
      unfolding LpRefund local_trace.simps local_refundHtlc_def
      by (rule local_behind_trace [OF assms(1) q [unfolded LpRefund]])
        (intro wpi_rules wpi_mined_receipt [OF k q [unfolded LpRefund]] refund TrueI; assumption?)
  next
    case (LpObserve x)
    show ?thesis
      unfolding LpObserve local_trace.simps local_observeHtlc_def
      by (rule local_behind_trace [OF assms(1) q [unfolded LpObserve]]) (intro wpi_rules k assms(1) q [unfolded LpObserve] TrueI)
  next
    case (LpEvidence x n)
    show ?thesis
      unfolding LpEvidence local_trace.simps local_extractClaimEvidence_def
      by (rule local_behind_trace [OF assms(1) q [unfolded LpEvidence]])
        (rule wpi_post [OF wpi_local_evidence [OF assms(1) q [unfolded LpEvidence]]]; simp)
  next
    case (LpClaim x p d)
    then show ?thesis by (simp add: local_claimHtlc_def throw_error_def thr_def trace_def)
  qed
qed

text \<open>What the backend for the local network sends. In any operation and whatever the node answers, a transaction is sent only behind the
  guard: the node answered the local chain id and the pinned bytecode, in this call or before. A funding sends the approval of exactly
  the amount and then, once the approval was sent, the funding of these terms, once; a refund sends one refund, of an HTLC read as locked whose
  timelock the last block has reached; nothing else sends anything.\<close>

theorem local_writes_backed:
  assumes "keeps_local b" "local_trace b op s = pre @ e # post" "write_call e"
  shows "(x_initialized s \<or> local_guards_seen b (x_htlcAddress s) pre) \<and> local_step (x_htlcAddress s) op pre e"
  using allowed_at [OF local_allowed [OF assms(1), of s op, unfolded assms(2)]] assms(3) by (simp add: local_guard_def)

text \<open>The settlement gate of the local backend: its evidence is final, names the local chain, and is bound like that of the Base backend,
  with one confirmation where the query asks for no number, behind the guard.\<close>

theorem local_evidence_bound:
  assumes "keeps_local b" "local_extractClaimEvidence b q required s = (Inr ev, t, s')"
  shows "(x_initialized s \<or> local_guards_seen b (x_htlcAddress s) t) \<and> local_evidence_backed b (x_htlcAddress s) q required ev t"
proof -
  let ?a = "x_htlcAddress s"
  let ?G = "\<lambda>h. x_initialized s \<or> local_guards_seen b ?a h"
  have q: "quiet (\<lambda>h e. True)" by (simp add: quiet_def)
  have w: "wpi (at_address ?a) (\<lambda>h e. True) (local_extract_evidence b q required) (\<lambda>ev h. ?G h \<and> local_evidence_backed b ?a q required ev h)
      (\<lambda>_ _. True) h" if "?G h" for h
    by (rule wpi_post [OF wpi_local_evidence [OF assms(1) q]]) (use that local_guards_mono later_set in blast)+
  show ?thesis using local_behind [OF assms(1) q TrueI w assms(2) [unfolded local_extractClaimEvidence_def]] by simp
qed

end
