(* ===== verification/Local_Runs.thy ===== *)
theory Local_Runs
  imports Local_Laws Base_Runs
begin

text \<open>The backend of the local network over the node of \<open>Base_Runs\<close>: runs for the witnesses and the findings.\<close>

definition demo_local :: "int local_backend" where
  "demo_local = \<lparr> ll_client = demo_base\<lparr>bc_chainId := (\<lambda>s. (Inr 31337, s))\<rparr>, ll_operatorAddress = ''0xo'', ll_refundWrite = demo_write \<rparr>"

lemma demo_local_keeps: "keeps_local demo_local"
  by (simp add: keeps_local_def keeps_address_def leaves_address_def demo_local_def demo_base_def demo_write_def)

lemma demo_local_sends:
  "list_ex write_call (local_trace demo_local (LpFund demo_fund) (demo_bsys 0))"
  "list_ex write_call (local_trace demo_local (LpRefund ''k'') (demo_bsys 1))"
  by code_simp+

theorem local_writes_backed_witness:
  "(\<exists>pre e. local_fund_step ''0xc'' (prefixed demo_fund) pre e) \<and> (\<exists>pre e. local_refund_step ''0xc'' pre e)"
proof (rule event_of [OF demo_local_sends(1)], rule event_of [OF demo_local_sends(2)])
  fix pre e post pre' e' post'
  assume a: "local_trace demo_local (LpFund demo_fund) (demo_bsys 0) = pre @ e # post" "write_call e"
    "local_trace demo_local (LpRefund ''k'') (demo_bsys 1) = pre' @ e' # post'" "write_call e'"
  have "x_htlcAddress (demo_bsys s) = ''0xc''" for s by (simp add: demo_bsys_def)
  then show ?thesis
    using local_writes_backed [OF demo_local_keeps a(1,2)] local_writes_backed [OF demo_local_keeps a(3,4)] by auto
qed

lemma demo_local_evidence: "\<not> isl (fst (local_extractClaimEvidence demo_local demo_query None (demo_bsys 2)))"
  by code_simp

theorem local_evidence_bound_witness:
  "\<exists>ev t. local_guards_seen demo_local ''0xc'' t \<and> local_evidence_backed demo_local ''0xc'' demo_query None ev t"
proof -
  obtain ev t s' where r: "local_extractClaimEvidence demo_local demo_query None (demo_bsys 2) = (Inr ev, t, s')"
    using demo_local_evidence by (metis prod.collapse sum.collapse(2) sum.exhaust_disc)
  have "x_htlcAddress (demo_bsys 2) = ''0xc''" "\<not> x_initialized (demo_bsys 2)" by (simp_all add: demo_bsys_def)
  then show ?thesis using local_evidence_bound [OF demo_local_keeps r] by auto
qed

section \<open>The findings\<close>

text \<open>
  An action that is pending, because its receipt was never seen, is not an obstacle: the HTLC is funded again, although it may be locked
  already.
\<close>

lemma pending_funding_repeated:
  "list_ex funds (local_trace demo_local (LpFund demo_fund)
     ((demo_bsys 1)\<lparr>x_durableActions := [''fund:k'' \<mapsto> ActionPending]\<rparr>))"
  by code_simp

text \<open>After a restart the bindings are gone, and a locked HTLC is observed as not funded.\<close>

lemma binding_forgotten:
  "map_sum id os_funded (fst (local_observeHtlc demo_local ''k'' ((demo_bsys 1)\<lparr>x_keyToId := (\<lambda>_. None)\<rparr>))) = Inr (Some False)"
  by code_simp

text \<open>A status that is no number is observed as not funded, where the Base backend throws.\<close>

lemma malformed_status_unfunded:
  "os_funded (local_htlc_state \<lparr> sh_status = JsOther, sh_amount = 5, sh_hashLock = ''0xh'', sh_claimAddress = ''0xa'',
     sh_refundAddress = ''0xo'', sh_timelock = 50 \<rparr> 100) = Some False"
  by code_simp

end
