(* ===== verification/Http_Json.thy ===== *)
theory Http_Json
  imports Planner "HOL-Library.Sublist"
begin

text \<open>
  What the HTTP adapters of the providers use of the language: JSON of a flat object, \<open>replaceAll\<close>, \<open>split\<close> and \<open>join\<close>,
  and \<open>fetch\<close> as an awaited call with the request in its event.
\<close>

section \<open>Texts\<close>

text \<open>\<open>s.replaceAll(n, r)\<close> for a non-empty \<open>n\<close>\<close>

function replace_all :: "string \<Rightarrow> string \<Rightarrow> string \<Rightarrow> string" where
  "replace_all n r [] = []"
| "replace_all n r (c # s) =
    (if n \<noteq> [] \<and> starts_with (c # s) n then r @ replace_all n r (drop (length n) (c # s)) else c # replace_all n r s)"
  by pat_completeness auto
termination by (relation "measure (\<lambda>(n, r, s). length s)") auto

text \<open>\<open>s.split(c)\<close> for one character\<close>

fun split_on :: "char \<Rightarrow> string \<Rightarrow> string list" where
  "split_on c [] = [[]]"
| "split_on c (d # s) = (if d = c then [] # split_on c s
     else (case split_on c s of [] \<Rightarrow> [[d]] | w # ws \<Rightarrow> (d # w) # ws))"

text \<open>\<open>xs.join(sep)\<close>\<close>

fun join_text :: "string \<Rightarrow> string list \<Rightarrow> string" where
  "join_text sep [] = []"
| "join_text sep [s] = s"
| "join_text sep (s # t # rest) = s @ sep @ join_text sep (t # rest)"

text \<open>\<open>s.padEnd(n, '0')\<close>\<close>

definition pad_end :: "nat \<Rightarrow> string \<Rightarrow> string" where
  "pad_end n s = s @ replicate (n - length s) CHR ''0''"

definition truthy_text :: "string option \<Rightarrow> bool" where
  "truthy_text s \<longleftrightarrow> truthy_str s \<noteq> None"

section \<open>JSON\<close>

text \<open>A number is the text that \<open>toString\<close> gives; \<open>undefined\<close> fields are left out of the list.\<close>

datatype json_value = J_str string | J_num string

definition hex_lower :: "nat \<Rightarrow> char" where
  "hex_lower n = (if n < 10 then char_of (48 + n) else char_of (87 + n))"

definition json_char :: "char \<Rightarrow> string" where
  "json_char c =
    (if c = CHR 0x22 then [CHR 0x5C, CHR 0x22]
     else if c = CHR 0x5C then [CHR 0x5C, CHR 0x5C]
     else if c = CHR 0x08 then [CHR 0x5C, CHR ''b'']
     else if c = CHR 0x0C then [CHR 0x5C, CHR ''f'']
     else if c = CHR 0x0A then [CHR 0x5C, CHR ''n'']
     else if c = CHR 0x0D then [CHR 0x5C, CHR ''r'']
     else if c = CHR 0x09 then [CHR 0x5C, CHR ''t'']
     else (let n = of_char c :: nat in
       if n < 32 then CHR 0x5C # ''u00'' @ [hex_lower (n div 16), hex_lower (n mod 16)] else [c]))"

definition json_quote :: "string \<Rightarrow> string" where
  "json_quote s = CHR 0x22 # concat (map json_char s) @ [CHR 0x22]"

fun json_value_text :: "json_value \<Rightarrow> string" where
  "json_value_text (J_str s) = json_quote s"
| "json_value_text (J_num n) = n"

definition json_object :: "(string \<times> json_value) list \<Rightarrow> string" where
  "json_object kvs = CHR ''{'' # join_with CHR '','' (map (\<lambda>(k, v). json_quote k @ CHR '':'' # json_value_text v) kvs) @ [CHR ''}'']"

definition optional_field :: "string \<Rightarrow> string option \<Rightarrow> (string \<times> json_value) list" where
  "optional_field k v = (case v of None \<Rightarrow> [] | Some s \<Rightarrow> [(k, J_str s)])"

section \<open>Requests\<close>

record http_request =
  hr_method :: string
  hr_url :: string
  hr_headers :: "(string \<times> string) list"
  hr_body :: "string option"

text \<open>An answer has a status and a text; the request is aborted by its timer, or fails.\<close>

datatype fetch_outcome = FetchAnswer int string | FetchAbort string | FetchFailure string

datatype provider_event = Fetched http_request fetch_outcome

type_synonym ('w, 'a) pact = "(rerr, provider_event, 'w, 'a) action"

definition fetch :: "(http_request \<Rightarrow> 'w \<Rightarrow> fetch_outcome \<times> 'w) \<Rightarrow> http_request \<Rightarrow> ('w, fetch_outcome) pact" where
  "fetch net req = call (\<lambda>r. Fetched req (case r of Inr out \<Rightarrow> out | Inl e \<Rightarrow> FetchFailure (rerr_message e)))
     (\<lambda>s. case net req s of (out, s') \<Rightarrow> (Inr out, s'))"

definition response_ok :: "int \<Rightarrow> bool" where
  "response_ok status \<longleftrightarrow> 200 \<le> status \<and> status < 300"

definition from_result :: "rerr + 'a \<Rightarrow> ('w, 'a) pact" where
  "from_result r = (case r of Inl e \<Rightarrow> thr e | Inr x \<Rightarrow> ret x)"

text \<open>Reading a property of \<open>undefined\<close>\<close>

definition deref :: "'a option \<Rightarrow> ('w, 'a) pact" where
  "deref x = (case x of None \<Rightarrow> thr (RErr R_TYPE ''Cannot read properties of undefined'') | Some v \<Rightarrow> ret v)"

section \<open>Refunds and capabilities\<close>

record refund_result =
  rf_success :: bool
  rf_refundTxId :: "string option"
  rf_reason :: "string option"

record supported_pair =
  sp_sourceAsset :: string
  sp_sourceNetwork :: string
  sp_targetAsset :: string
  sp_targetNetwork :: string
  sp_minAmountAtomic :: string
  sp_maxAmountAtomic :: string

record provider_capabilities =
  pc_supportedPairs :: "supported_pair list"
  pc_executionClass :: execution_class
  pc_supportsLightning :: bool
  pc_supportsRefunds :: bool
  pc_supportsStrongIdempotency :: bool

definition btc_to_usdc :: "string \<Rightarrow> string \<Rightarrow> string \<Rightarrow> supported_pair" where
  "btc_to_usdc network least most = \<lparr> sp_sourceAsset = ''BTC'', sp_sourceNetwork = network, sp_targetAsset = ''USDC'',
     sp_targetNetwork = ''base'', sp_minAmountAtomic = least, sp_maxAmountAtomic = most \<rparr>"

section \<open>Laws of \<open>replaceAll\<close>\<close>

lemma starts_with_prefix: "starts_with s p \<longleftrightarrow> prefix p s"
  by (auto simp: starts_with_def prefix_def) (metis append_take_drop_id)

lemma str_includes_sublist: "str_includes s p \<longleftrightarrow> sublist p s"
  by (induction s) (auto simp: sublist_Cons_right starts_with_prefix)

text \<open>A text without \<open>b\<close> that occurs in \<open>x @ b # y\<close> occurs in \<open>x\<close> or in \<open>y\<close>.\<close>

lemma prefix_before: "prefix n (x @ b # y) \<Longrightarrow> b \<notin> set n \<Longrightarrow> prefix n x"
  by (auto simp: prefix_append prefix_Cons)

lemma sublist_around: "sublist n (x @ b # y) \<Longrightarrow> b \<notin> set n \<Longrightarrow> sublist n x \<or> sublist n y"
proof (induction x)
  case Nil
  then show ?case by (auto simp: sublist_Cons_right prefix_Cons)
next
  case (Cons a x)
  then show ?case using prefix_before [of n "a # x" b y] by (auto simp: sublist_Cons_right)
qed

definition bracketed :: "string \<Rightarrow> string" where
  "bracketed m = CHR ''['' # m @ [CHR '']'']"

definition plain :: "string \<Rightarrow> bool" where
  "plain s \<longleftrightarrow> s \<noteq> [] \<and> CHR ''['' \<notin> set s \<and> CHR '']'' \<notin> set s"

lemma sublist_bracketed: "sublist x (bracketed m @ t) \<Longrightarrow> plain x \<Longrightarrow> sublist x m \<or> sublist x t"
  using sublist_around [of x "CHR ''['' # m" "CHR '']''" t] sublist_around [of x "[]" "CHR ''[''" m]
  by (auto simp: bracketed_def plain_def)

lemma prefix_replaced:
  "prefix p (replace_all n (bracketed m) s) \<Longrightarrow> CHR ''['' \<notin> set p \<Longrightarrow> prefix p s"
proof (induction n "bracketed m" s arbitrary: p rule: replace_all.induct)
  case (1 n)
  then show ?case by simp
next
  case (2 n c s)
  show ?case
  proof (cases "n \<noteq> [] \<and> starts_with (c # s) n")
    case True
    then have "p = []" using 2(3,4) by (auto simp: bracketed_def prefix_Cons)
    then show ?thesis by simp
  next
    case False
    show ?thesis
    proof (cases p)
      case (Cons d q)
      have d: "d = c" and q: "prefix q (replace_all n (bracketed m) s)"
        using 2(3) Cons by (simp_all only: replace_all.simps if_not_P [OF False] Cons_prefix_Cons)
      have "prefix q s" by (rule 2(2) [OF False q]) (use 2(4) Cons in simp)
      then show ?thesis using Cons d by simp
    qed simp
  qed
qed

lemma sublist_replaced:
  "sublist x (replace_all n (bracketed m) s) \<Longrightarrow> plain x \<Longrightarrow> sublist x m \<or> sublist x s"
proof (induction n "bracketed m" s rule: replace_all.induct)
  case (1 n)
  then show ?case by simp
next
  case (2 n c s)
  show ?case
  proof (cases "n \<noteq> [] \<and> starts_with (c # s) n")
    case True
    have "sublist x (bracketed m @ replace_all n (bracketed m) (drop (length n) (c # s)))" using 2(3) True by simp
    then have "sublist x m \<or> sublist x (drop (length n) (c # s))"
      using sublist_bracketed [OF _ 2(4)] 2(1) [OF True _ 2(4)] by blast
    then show ?thesis using sublist_appendI [of "drop (length n) (c # s)" "take (length n) (c # s)" "[]"] sublist_order.order_trans by fastforce
  next
    case False
    have "prefix x (c # replace_all n (bracketed m) s) \<or> sublist x (replace_all n (bracketed m) s)"
      using 2(3) by (simp only: replace_all.simps if_not_P [OF False] sublist_Cons_right)
    moreover have "prefix x (c # s)" if "prefix x (c # replace_all n (bracketed m) s)"
      using that prefix_replaced [of _ n m s] 2(4) by (auto simp: prefix_Cons plain_def)
    ultimately show ?thesis using 2(2) [OF False] 2(4) by (auto simp: sublist_Cons_right)
  qed
qed

lemma replaced_gone:
  "plain n \<Longrightarrow> \<not> sublist n m \<Longrightarrow> \<not> sublist n (replace_all n (bracketed m) s)"
proof (induction n "bracketed m" s rule: replace_all.induct)
  case (1 n)
  then show ?case by (simp add: plain_def)
next
  case (2 n c s)
  show ?case
  proof (cases "n \<noteq> [] \<and> starts_with (c # s) n")
    case True
    show ?thesis
    proof
      assume "sublist n (replace_all n (bracketed m) (c # s))"
      then have "sublist n (bracketed m @ replace_all n (bracketed m) (drop (length n) (c # s)))" using True by simp
      then show False using sublist_bracketed [OF _ 2(3)] 2(1) [OF True 2(3,4)] 2(4) by blast
    qed
  next
    case False
    have no: "\<not> prefix n (c # s)" using False 2(3) by (simp add: plain_def starts_with_prefix)
    show ?thesis
    proof
      assume "sublist n (replace_all n (bracketed m) (c # s))"
      then have "prefix n (c # replace_all n (bracketed m) s)"
        using 2(2) [OF False 2(3,4)] by (simp only: replace_all.simps if_not_P [OF False] sublist_Cons_right) blast
      then have "prefix n (c # s)"
        using prefix_replaced [of _ n m s] 2(3) by (auto simp: prefix_Cons plain_def)
      then show False using no by blast
    qed
  qed
qed

end
