(* ===== verification/Fixedfloat.thy ===== *)
theory Fixedfloat
  imports Http_Json Orchestrator Pricing
begin

text \<open>
  The FixedFloat adapter (\<open>src/src/providers/fixedfloat.ts\<close>; \<open>src/src/adapters/external/fixedfloat.ts\<close> is the same code):
  the signed POST request with its redaction of secrets, currencies and runtime availability, quotes, orders, status and refunds.

  Numbers in answers are the texts \<open>toString\<close> gives. An answer's JSON decoder, HMAC, \<open>parseFloat\<close>,
  the clock and the random suffix are arguments; \<open>undefined\<close> data is \<open>None\<close>.
\<close>

section \<open>Settings and data\<close>

record ff_settings =
  fs_baseUrl :: string
  fs_apiKey :: "string option"
  fs_apiSecret :: "string option"
  fs_timeoutMs :: int

definition ff_create :: "string option \<Rightarrow> string option \<Rightarrow> string option \<Rightarrow> int option \<Rightarrow> ff_settings" where
  "ff_create baseUrl apiKey apiSecret timeoutMs = \<lparr>
     fs_baseUrl = rev (dropWhile (\<lambda>c. c = CHR ''/'') (rev (coalesce baseUrl ''https://ff.io/api/v2''))),
     fs_apiKey = apiKey, fs_apiSecret = apiSecret, fs_timeoutMs = coalesce timeoutMs 15000 \<rparr>"

record ff_currency =
  fc_code :: string
  fc_recv :: bool
  fc_send :: bool

record ff_side =
  fx_amount :: string
  fx_rate :: string
  fx_min :: string
  fx_max :: string

record ff_price =
  fp_from :: ff_side
  fp_to :: ff_side
  fp_errors :: "string list option"

record ff_order =
  fo_id :: string
  fo_token :: string
  fo_status :: string
  fo_fromAddress :: string
  fo_errors :: "string list option"

text \<open>Transaction ids of the two sides, and the amount paid out.\<close>

record ff_order_status =
  ft_status :: string
  ft_fromTx :: "string option"
  ft_toTx :: "string option"
  ft_toAmount :: "string option"

text \<open>\<open>code\<close>, \<open>msg\<close> and \<open>data\<close> of an answer.\<close>

record 'a envelope =
  ev_code :: int
  ev_msg :: string
  ev_data :: "'a option"

record 'w fixedfloat =
  fa_settings :: ff_settings
  fa_net :: "http_request \<Rightarrow> 'w \<Rightarrow> fetch_outcome \<times> 'w"
  fa_hmac :: "string \<Rightarrow> string \<Rightarrow> string"
  fa_parseFloat :: "string \<Rightarrow> string"
  fa_now :: "'w \<Rightarrow> int"
  fa_random :: "'w \<Rightarrow> string"
  fa_ccies :: "string \<Rightarrow> ff_currency list envelope option"
  fa_price :: "string \<Rightarrow> ff_price envelope option"
  fa_order :: "string \<Rightarrow> ff_order envelope option"
  fa_status :: "string \<Rightarrow> ff_order_status envelope option"
  fa_emergency :: "string \<Rightarrow> string envelope option"

definition ff_sourceNode :: asset_node where
  "ff_sourceNode = createAssetNode ''BTC'' ''lightning'' None"

definition ff_destinationNode :: asset_node where
  "ff_destinationNode = createAssetNode ''USDC'' ''base'' (Some ''0x833589fCD6eDb6E08f4c7C32D4f71b54bdA02913'')"

section \<open>Amounts\<close>

definition atomicToDecimal :: "int \<Rightarrow> nat \<Rightarrow> string" where
  "atomicToDecimal amountAtomic decimals =
    (let factor = 10 ^ decimals;
         whole = js_div amountAtomic factor;
         frac = js_rem amountAtomic factor;
         fracStr = rev (dropWhile (\<lambda>c. c = CHR ''0'') (rev (pad_start decimals (bigint_text frac))))
     in if length fracStr > 0 then bigint_text whole @ ''.'' @ fracStr else bigint_text whole)"

definition decimalToAtomic :: "string \<Rightarrow> nat \<Rightarrow> rerr + string" where
  "decimalToAtomic amountDecimal decimals =
    (let parts = split_on CHR ''.'' amountDecimal;
         wholeStr = (case parts of [] \<Rightarrow> ''0'' | w # _ \<Rightarrow> w);
         fracStr = (case parts of w # f # _ \<Rightarrow> f | _ \<Rightarrow> '''');
         paddedFrac = take decimals (pad_end decimals fracStr)
     in case parse_amount wholeStr of Inl e \<Rightarrow> Inl e | Inr whole \<Rightarrow>
        (case parse_amount paddedFrac of Inl e \<Rightarrow> Inl e | Inr frac \<Rightarrow>
           Inr (bigint_text (whole * 10 ^ decimals + frac))))"

definition ff_atomic :: "string \<Rightarrow> nat \<Rightarrow> ('w, string) pact" where
  "ff_atomic s d = from_result (decimalToAtomic s d)"

section \<open>Requests\<close>

definition sanitizeError :: "ff_settings \<Rightarrow> string \<Rightarrow> string" where
  "sanitizeError st message =
    (let s1 = (case truthy_str (fs_apiSecret st) of Some secret \<Rightarrow> replace_all secret ''[REDACTED_SECRET]'' message | None \<Rightarrow> message)
     in case truthy_str (fs_apiKey st) of Some key \<Rightarrow> replace_all key ''[REDACTED_KEY]'' s1 | None \<Rightarrow> s1)"

definition ff_request :: "'w fixedfloat \<Rightarrow> string \<Rightarrow> (string \<times> json_value) list \<Rightarrow> http_request" where
  "ff_request c endpoint payload =
    (let st = fa_settings c; bodyStr = json_object payload in
     \<lparr> hr_method = ''POST'', hr_url = fs_baseUrl st @ endpoint,
       hr_headers = [(''Content-Type'', ''application/json; charset=UTF-8''), (''Accept'', ''application/json''),
           (''User-Agent'', ''UniversalAgentAssetRouter/0.2.0'')] @
         (case (truthy_str (fs_apiKey st), truthy_str (fs_apiSecret st)) of
            (Some key, Some secret) \<Rightarrow> [(''X-API-KEY'', key), (''X-API-SIGN'', fa_hmac c secret bodyStr)]
          | _ \<Rightarrow> []),
       hr_body = Some bodyStr \<rparr>)"

text \<open>What the body of the \<open>try\<close> makes of an answer: a message to throw, or data.\<close>

definition ff_answer :: "ff_settings \<Rightarrow> (string \<Rightarrow> 'a envelope option) \<Rightarrow> int \<Rightarrow> string \<Rightarrow> string + 'a option" where
  "ff_answer st decode status responseText =
    (if \<not> response_ok status
     then Inl (''FixedFloat HTTP '' @ bigint_text status @ '': '' @ sanitizeError st responseText)
     else
       (case decode responseText of
          None \<Rightarrow> Inl (''FixedFloat invalid JSON response: '' @ sanitizeError st responseText)
        | Some parsed \<Rightarrow>
            if ev_code parsed \<noteq> 0
            then Inl (''FixedFloat API Error ['' @ bigint_text (ev_code parsed) @ '']: '' @ ev_msg parsed)
            else Inr (ev_data parsed)))"

definition postRequest ::
  "'w fixedfloat \<Rightarrow> (string \<Rightarrow> 'a envelope option) \<Rightarrow> string \<Rightarrow> (string \<times> json_value) list \<Rightarrow> ('w, 'a option) pact" where
  "postRequest c decode endpoint payload =
    bnd (fetch (fa_net c) (ff_request c endpoint payload)) (\<lambda>out.
    let failed = (\<lambda>m. thr (RErr R_ERROR (sanitizeError (fa_settings c) m))) in
    case out of
      FetchAbort m \<Rightarrow> thr (RErr R_ERROR (''FixedFloat request timed out after '' @ bigint_text (fs_timeoutMs (fa_settings c)) @ ''ms''))
    | FetchFailure m \<Rightarrow> failed m
    | FetchAnswer status responseText \<Rightarrow>
        (case ff_answer (fa_settings c) decode status responseText of Inl m \<Rightarrow> failed m | Inr x \<Rightarrow> ret x))"

section \<open>Routes\<close>

definition ff_supportsRoute :: "asset_node \<Rightarrow> asset_node \<Rightarrow> bool" where
  "ff_supportsRoute source destination =
    (let isSourceValid = to_upper (an_asset source) = ''BTC'' \<and>
           (to_lower (an_network source) = ''lightning'' \<or> to_lower (an_network source) = ''bitcoin'');
         isDestValid = to_upper (an_asset destination) = ''USDC'' \<and> to_lower (an_network destination) = ''base'' \<and>
           (case truthy_str (an_tokenContract destination) of None \<Rightarrow> True
            | Some t \<Rightarrow> to_lower t = ''0x833589fcd6edb6e08f4c7c32d4f71b54bda02913'')
     in isSourceValid \<and> isDestValid)"

definition ff_capabilities :: provider_capabilities where
  "ff_capabilities = \<lparr> pc_supportedPairs = [btc_to_usdc ''lightning'' ''2000'' ''50000000'', btc_to_usdc ''bitcoin'' ''5000'' ''100000000''],
     pc_executionClass = PASSIVE_DEPOSIT, pc_supportsLightning = True, pc_supportsRefunds = True,
     pc_supportsStrongIdempotency = False \<rparr>"

definition toFixedFloatCcy :: "string \<Rightarrow> string \<Rightarrow> rerr + string" where
  "toFixedFloatCcy asset network =
    (let a = to_upper asset; n = to_lower network in
     if a = ''BTC'' \<and> n = ''lightning'' then Inr ''BTCLN''
     else if a = ''BTC'' \<and> (n = ''bitcoin'' \<or> n = ''btc'') then Inr ''BTC''
     else if a = ''USDC'' \<and> n = ''base'' then Inr ''USDCBASE''
     else if a = ''ETH'' \<and> n = ''base'' then Inr ''ETHBASE''
     else Inl (RErr R_ERROR (''FixedFloatAdapter: Unsupported pair mapping for '' @ asset @ '' on network '' @ network)))"

definition fromFixedFloatCcy :: "string \<Rightarrow> string \<times> string" where
  "fromFixedFloatCcy ccy =
    (let c = to_upper ccy in
     if c = ''BTCLN'' then (''BTC'', ''lightning'')
     else if c = ''BTC'' then (''BTC'', ''bitcoin'')
     else if c = ''USDCBASE'' then (''USDC'', ''base'')
     else if c = ''ETHBASE'' then (''ETH'', ''base'')
     else (ccy, ''unknown''))"

section \<open>Availability\<close>

record ff_availability = availability +
  av_sendEnabled :: bool
  av_lastCheckedAt :: int

definition getCurrencies :: "'w fixedfloat \<Rightarrow> ('w, ff_currency list option) pact" where
  "getCurrencies c = postRequest c (fa_ccies c) ''/ccies'' []"

definition price_payload :: "string \<Rightarrow> string \<Rightarrow> string \<Rightarrow> string \<Rightarrow> (string \<times> json_value) list" where
  "price_payload fromCcy toCcy amount typ = [(''fromCcy'', J_str fromCcy), (''toCcy'', J_str toCcy), (''amount'', J_num amount),
     (''direction'', J_str ''from''), (''type'', J_str typ)]"

definition getPriceDetails :: "'w fixedfloat \<Rightarrow> string \<Rightarrow> string \<Rightarrow> string \<Rightarrow> string \<Rightarrow> ('w, ff_price option) pact" where
  "getPriceDetails c fromCcy toCcy amountDecimal typ = postRequest c (fa_price c) ''/price'' (price_payload fromCcy toCcy amountDecimal typ)"

definition in_maintenance :: "int \<Rightarrow> bool \<Rightarrow> bool \<Rightarrow> string \<Rightarrow> string \<Rightarrow> ff_availability" where
  "in_maintenance now recv send least reason = \<lparr> av_isAvailable = False, av_recvEnabled = recv, av_isMaintenance = True,
     av_minAmountAtomic = least, av_maxAmountAtomic = None, av_estimatedLatencyMs = None, av_reason = Some reason,
     av_sendEnabled = send, av_lastCheckedAt = now \<rparr>"

definition in_service :: "int \<Rightarrow> string \<Rightarrow> string option \<Rightarrow> ff_availability" where
  "in_service now least most = \<lparr> av_isAvailable = True, av_recvEnabled = True, av_isMaintenance = False,
     av_minAmountAtomic = least, av_maxAmountAtomic = most, av_estimatedLatencyMs = Some 180000, av_reason = None,
     av_sendEnabled = True, av_lastCheckedAt = now \<rparr>"

definition find_currency :: "string \<Rightarrow> ff_currency list \<Rightarrow> ff_currency option" where
  "find_currency code cs = List.find (\<lambda>c. fc_code c = code) cs"

text \<open>The live minimum and maximum; a number is falsy when it is zero.\<close>

definition live_limits :: "'w fixedfloat \<Rightarrow> int \<Rightarrow> ('w, ff_availability) pact" where
  "live_limits c now =
    bnd (getPriceDetails c ''BTCLN'' ''USDCBASE'' ''0.0001'' ''float'') (\<lambda>p.
    bnd (deref p) (\<lambda>priceInfo.
    bnd (ff_atomic (fx_min (fp_from priceInfo)) 8) (\<lambda>minAtomic.
    bnd (if fx_max (fp_from priceInfo) \<noteq> ''0''
         then bnd (ff_atomic (fx_max (fp_from priceInfo)) 8) (\<lambda>m. ret (Some m)) else ret None) (\<lambda>maxAtomic.
    ret (in_service now minAtomic maxAtomic)))))"

definition ff_getRuntimeAvailability :: "'w fixedfloat \<Rightarrow> ('w, ff_availability) pact" where
  "ff_getRuntimeAvailability c =
    bnd (ask (fa_now c)) (\<lambda>now.
    attempt
      (bnd (getCurrencies c) (\<lambda>cs.
       bnd (deref cs) (\<lambda>currencies.
       case (find_currency ''BTCLN'' currencies, find_currency ''USDCBASE'' currencies) of
         (Some btcln, Some usdcbase) \<Rightarrow>
           if \<not> fc_recv btcln
           then ret (in_maintenance now False (fc_send usdcbase) ''1450''
                  ''PROVIDER_MAINTENANCE: BTCLN currency is not available for receiving at the moment'')
           else if \<not> fc_send usdcbase
           then ret (in_maintenance now True False ''1450''
                  ''PROVIDER_MAINTENANCE: USDCBASE withdrawal is temporarily disabled by provider'')
           else attempt (live_limits c now) (\<lambda>_. ret (in_service now ''1450'' None))
       | _ \<Rightarrow> ret (in_maintenance now False False ''0''
                ''PROVIDER_MAINTENANCE: Required currencies missing from FixedFloat catalog''))))
      (\<lambda>err. ret (in_maintenance now False False ''0''
         (''ROUTE_UNAVAILABLE: '' @ sanitizeError (fa_settings c) (rerr_message err)))))"

section \<open>Quotes\<close>

datatype intent_or_amount = IsIntent normalized_intent | IsAmount string

definition below_minimum :: "string \<Rightarrow> rerr" where
  "below_minimum m = RErr (R_ROUTER AMOUNT_BELOW_MINIMUM) m"

definition maintenance :: "string \<Rightarrow> rerr" where
  "maintenance m = RErr (R_ROUTER PROVIDER_MAINTENANCE) m"

text \<open>The \<open>catch\<close> of \<open>/price\<close> and \<open>/create\<close>.\<close>

definition classify_failure :: "ff_settings \<Rightarrow> string \<Rightarrow> rerr \<Rightarrow> rerr" where
  "classify_failure st text err =
    (let msg = sanitizeError st (rerr_message err) in
     if str_includes msg ''LIMIT_MIN'' then below_minimum ''Amount is below provider live minimum''
     else if str_includes msg ''MAINTENANCE'' then maintenance text
     else err)"

definition ff_getQuote :: "'w fixedfloat \<Rightarrow> intent_or_amount \<Rightarrow> ('w, normalized_quote \<times> route_quote) pact" where
  "ff_getQuote c intentOrAmount =
    (let field = (\<lambda>f d. case intentOrAmount of IsIntent i \<Rightarrow> f i | IsAmount a \<Rightarrow> d);
         sourceAsset = field ni_sourceAsset ''BTC'';
         sourceNetwork = field ni_sourceNetwork ''lightning'';
         targetAsset = field ni_targetAsset ''USDC'';
         targetNetwork = field ni_targetNetwork ''base'';
         sourceAmountAtomic = (case intentOrAmount of IsIntent i \<Rightarrow> ni_sourceAmountAtomic i | IsAmount a \<Rightarrow> a)
     in
     bnd (from_result (toFixedFloatCcy sourceAsset sourceNetwork)) (\<lambda>fromCcy.
     bnd (from_result (toFixedFloatCcy targetAsset targetNetwork)) (\<lambda>toCcy.
     bnd (from_result (parse_amount sourceAmountAtomic)) (\<lambda>satoshis.
     let payload = price_payload fromCcy toCcy (fa_parseFloat c (atomicToDecimal satoshis 8)) ''float'' in
     bnd (attempt (postRequest c (fa_price c) ''/price'' payload)
            (\<lambda>err. thr (classify_failure (fa_settings c) ''Provider is under maintenance for this route'' err))) (\<lambda>p.
     bnd (deref p) (\<lambda>response.
     let errors = coalesce (fp_errors response) [] in
     seq (if ''LIMIT_MIN'' \<in> set errors
          then bnd (ff_atomic (fx_min (fp_from response)) 8) (\<lambda>minAtomic.
               thr (below_minimum (''Amount '' @ sourceAmountAtomic @ '' is below live minimum '' @ minAtomic)))
          else if ''MAINTENANCE_FROM'' \<in> set errors \<or> ''MAINTENANCE_TO'' \<in> set errors
          then thr (maintenance (''Provider maintenance: '' @ join_text '', '' errors))
          else ret ())
     (bnd (ff_atomic (fx_amount (fp_to response)) 6) (\<lambda>settleAmountAtomic.
      bnd (ff_atomic (fx_min (fp_from response)) 8) (\<lambda>minDepositAtomic.
      bnd (ff_atomic (fx_max (fp_from response)) 8) (\<lambda>maxDepositAtomic.
      bnd (ask (fa_now c)) (\<lambda>now.
      bnd (ask (fa_random c)) (\<lambda>random.
      let quoteId = ''ff_'' @ bigint_text now @ ''_'' @ random; expiresAt = now + 10 * 60 * 1000 in
      ret (\<lparr> nq_quoteId = quoteId, nq_providerId = ''fixedfloat'', nq_sourceAsset = sourceAsset, nq_sourceNetwork = sourceNetwork,
             nq_targetAsset = targetAsset, nq_targetNetwork = targetNetwork, nq_depositAmountAtomic = sourceAmountAtomic,
             nq_settleAmountAtomic = settleAmountAtomic, nq_rate = fx_rate (fp_to response), nq_networkFeeEstimatedAtomic = ''0'',
             nq_minDepositAtomic = minDepositAtomic, nq_maxDepositAtomic = maxDepositAtomic, nq_expiresAt = expiresAt \<rparr>,
           \<lparr> rq_quoteId = quoteId, rq_edgeId = ''fixedfloat'', rq_sourceNode = ff_sourceNode, rq_destinationNode = ff_destinationNode,
             rq_inputAmountAtomic = sourceAmountAtomic, rq_estimatedOutputAmountAtomic = settleAmountAtomic,
             rq_rate = fx_rate (fp_to response), rq_networkFeeEstimatedAtomic = ''0'', rq_minAmountAtomic = minDepositAtomic,
             rq_maxAmountAtomic = maxDepositAtomic, rq_expiresAt = expiresAt, rq_edgeClass = TRUSTED_PROVIDER_EDGE,
             rq_executionClass = PASSIVE_DEPOSIT \<rparr>)))))))))))))"

section \<open>Orders\<close>

datatype request_or_plan = IsRequest create_request | IsPlan execution_plan

record order_result = provider_result +
  or_depositAmountAtomic :: string
  or_settleAddress :: string
  or_status :: string
  or_expiresAt :: int

definition create_payload :: "string \<Rightarrow> string \<Rightarrow> string \<Rightarrow> string \<Rightarrow> (string \<times> json_value) list" where
  "create_payload fromCcy toCcy toAddress amount = [(''fromCcy'', J_str fromCcy), (''toCcy'', J_str toCcy), (''toAddress'', J_str toAddress),
     (''amount'', J_num amount), (''direction'', J_str ''from''), (''type'', J_str ''float'')]"

definition order_terms :: "request_or_plan \<Rightarrow> string \<times> string \<times> string \<times> string \<times> string \<times> string" where
  "order_terms requestOrPlan = (case requestOrPlan of
     IsPlan p \<Rightarrow> (let q = pl_quoteSnapshot p in
       (pl_destinationAddress p, an_asset (rq_sourceNode q), an_network (rq_sourceNode q), an_asset (rq_destinationNode q),
        an_network (rq_destinationNode q), rq_inputAmountAtomic q))
   | IsRequest r \<Rightarrow> (let i = xq_intent r in
       (ni_destinationAddress i, ni_sourceAsset i, ni_sourceNetwork i, ni_targetAsset i, ni_targetNetwork i, ni_sourceAmountAtomic i)))"

definition ff_createExecution :: "'w fixedfloat \<Rightarrow> request_or_plan \<Rightarrow> ('w, order_result) pact" where
  "ff_createExecution c requestOrPlan =
    (case order_terms requestOrPlan of
       (destAddress, sourceAsset, sourceNetwork, targetAsset, targetNetwork, sourceAmountAtomic) \<Rightarrow>
     bnd (from_result (toFixedFloatCcy sourceAsset sourceNetwork)) (\<lambda>fromCcy.
     bnd (from_result (toFixedFloatCcy targetAsset targetNetwork)) (\<lambda>toCcy.
     bnd (from_result (parse_amount sourceAmountAtomic)) (\<lambda>satoshis.
     let payload = create_payload fromCcy toCcy destAddress (fa_parseFloat c (atomicToDecimal satoshis 8)) in
     bnd (attempt (postRequest c (fa_order c) ''/create'' payload)
            (\<lambda>err. thr (classify_failure (fa_settings c) ''FixedFloat currency is temporarily under maintenance'' err))) (\<lambda>p.
     bnd (deref p) (\<lambda>response.
     let errors = coalesce (fo_errors response) [] in
     seq (if ''LIMIT_MIN'' \<in> set errors then thr (below_minimum ''Amount is below provider live minimum'')
          else if ''MAINTENANCE_FROM'' \<in> set errors \<or> ''MAINTENANCE_TO'' \<in> set errors
          then thr (maintenance (''FixedFloat maintenance: '' @ join_text '', '' errors))
          else ret ())
     (bnd (ask (fa_now c)) (\<lambda>now.
      ret \<lparr> pv_providerExecutionId = fo_id response, pv_orderToken = Some (fo_token response),
            pv_depositAddress = fo_fromAddress response, or_depositAmountAtomic = sourceAmountAtomic, or_settleAddress = destAddress,
            or_status = fo_status response, or_expiresAt = now + 30 * 60 * 1000 \<rparr>))))))))"

section \<open>Status and refunds\<close>

definition mapFixedFloatStatus :: "string \<Rightarrow> provider_status_kind" where
  "mapFixedFloatStatus status =
    (let s = to_upper status in
     if s = ''NEW'' then PS_WAITING_FOR_DEPOSIT
     else if s = ''PENDING'' then PS_DEPOSIT_RECEIVED
     else if s = ''EXCHANGE'' then PS_PROCESSING
     else if s = ''WITHDRAW'' then PS_SETTLING
     else if s = ''DONE'' then PS_COMPLETED
     else if s = ''EXPIRED'' then PS_EXPIRED
     else if s = ''EMERGENCY'' \<or> s = ''REFUND'' then PS_REFUNDED
     else PS_UNKNOWN)"

definition paid_out :: "string option \<Rightarrow> ('w, string option) pact" where
  "paid_out amount = (case amount of
     Some a \<Rightarrow> if a \<noteq> ''0'' then bnd (ff_atomic a 6) (\<lambda>x. ret (Some x)) else ret None
   | None \<Rightarrow> ret None)"

definition ff_getStatus :: "'w fixedfloat \<Rightarrow> string \<Rightarrow> string option \<Rightarrow> ('w, provider_status) pact" where
  "ff_getStatus c providerExecutionId orderToken =
    (case truthy_str orderToken of
       None \<Rightarrow> ret \<lparr> ps_status = PS_UNKNOWN, ps_depositTxId = None, ps_settleTxId = None, ps_settleAmountActualAtomic = None,
                     ps_failureReason = Some ''FixedFloat order lookup requires both order ID and order token'' \<rparr>
     | Some token \<Rightarrow>
         bnd (postRequest c (fa_status c) ''/order'' [(''id'', J_str providerExecutionId), (''token'', J_str token)]) (\<lambda>p.
         bnd (deref p) (\<lambda>response.
         bnd (paid_out (ft_toAmount response)) (\<lambda>settleAmount.
         ret \<lparr> ps_status = mapFixedFloatStatus (ft_status response), ps_depositTxId = ft_fromTx response, ps_settleTxId = ft_toTx response,
               ps_settleAmountActualAtomic = settleAmount, ps_failureReason = None \<rparr>))))"

definition refund_refused :: "string \<Rightarrow> refund_result" where
  "refund_refused reason = \<lparr> rf_success = False, rf_refundTxId = None, rf_reason = Some reason \<rparr>"

definition ff_requestRefund :: "'w fixedfloat \<Rightarrow> string \<Rightarrow> string \<Rightarrow> string option \<Rightarrow> ('w, refund_result) pact" where
  "ff_requestRefund c providerExecutionId refundAddress orderToken =
    (case truthy_str orderToken of
       None \<Rightarrow> ret (refund_refused ''Missing secret orderToken for emergency action'')
     | Some token \<Rightarrow>
         attempt
           (bnd (postRequest c (fa_emergency c) ''/emergency''
                  [(''id'', J_str providerExecutionId), (''token'', J_str token), (''choice'', J_str ''REFUND''), (''address'', J_str refundAddress)]) (\<lambda>p.
            bnd (deref p) (\<lambda>status. ret \<lparr> rf_success = True, rf_refundTxId = Some status, rf_reason = None \<rparr>)))
           (\<lambda>err. ret (refund_refused (rerr_message err))))"

end
