(* ===== verification/Providers.thy ===== *)
theory Providers
  imports Fixedfloat
begin

text \<open>
  The other provider adapters, SideShift (\<open>src/src/providers/sideshift.ts\<close>; \<open>src/src/adapters/external/sideshift.ts\<close> is the
  same code) and the mock provider (\<open>src/src/providers/mock.ts\<close>), the mock chain verifier (\<open>src/src/verification/verifier.ts\<close>),
  and the adapters as providers of the orchestrator and as edges of the planner.

  SideShift computes amounts in floating point: these computations are arguments, \<open>None\<close> is a value that is not an
  integer. The mocks never await, so each of their methods is one step of their state.
\<close>

section \<open>SideShift\<close>

record ss_settings =
  sh_baseUrl :: string
  sh_secret :: "string option"
  sh_affiliateId :: "string option"
  sh_timeoutMs :: int

definition ss_create :: "string option \<Rightarrow> string option \<Rightarrow> string option \<Rightarrow> int option \<Rightarrow> ss_settings" where
  "ss_create baseUrl secret affiliateId timeoutMs = \<lparr> sh_baseUrl = coalesce baseUrl ''https://sideshift.ai/api/v2'',
     sh_secret = secret, sh_affiliateId = affiliateId, sh_timeoutMs = coalesce timeoutMs 10000 \<rparr>"

record ss_pair =
  sr_min :: string
  sr_max :: string
  sr_rate :: string
  sr_depositCoin :: string
  sr_settleCoin :: string
  sr_depositNetwork :: string
  sr_settleNetwork :: string

record ss_shift =
  sf_id :: string
  sf_depositAddress :: string
  sf_settleAddress :: string
  sf_status :: string
  sf_expiresAt :: int

record ss_status =
  sx_status :: string
  sx_depositHash :: "string option"
  sx_settleHash :: "string option"
  sx_settleAmount :: "string option"
  sx_reason :: "string option"

text \<open>
  \<open>sa_settle n r\<close> is \<open>Math.floor(Number(n) * parseFloat(r) / 100)\<close>, \<open>sa_ceil\<close> and \<open>sa_floor\<close> round \<open>parseFloat(x) * 1e8\<close>, and
  \<open>sa_micro\<close> rounds \<open>parseFloat(x) * 1e6\<close> down. A decoder gives the error of \<open>res.json()\<close> or the data.
\<close>

record 'w sideshift =
  sa_settings :: ss_settings
  sa_net :: "http_request \<Rightarrow> 'w \<Rightarrow> fetch_outcome \<times> 'w"
  sa_settle :: "int \<Rightarrow> string \<Rightarrow> int option"
  sa_ceil :: "string \<Rightarrow> int option"
  sa_floor :: "string \<Rightarrow> int option"
  sa_micro :: "string \<Rightarrow> int option"
  sa_now :: "'w \<Rightarrow> int"
  sa_random :: "'w \<Rightarrow> string"
  sa_pair :: "string \<Rightarrow> string + ss_pair"
  sa_shift :: "string \<Rightarrow> string + ss_shift"
  sa_status :: "string \<Rightarrow> string + ss_status"

definition ss_capabilities :: provider_capabilities where
  "ss_capabilities = \<lparr> pc_supportedPairs = [btc_to_usdc ''bitcoin'' ''3844'' ''27000000'', btc_to_usdc ''liquid'' ''3844'' ''27000000''],
     pc_executionClass = PASSIVE_DEPOSIT, pc_supportsLightning = False, pc_supportsRefunds = True,
     pc_supportsStrongIdempotency = False \<rparr>"

text \<open>\<open>BigInt(x)\<close> of a number is a \<open>RangeError\<close> unless it is an integer.\<close>

definition as_bigint :: "int option \<Rightarrow> ('w, int) pact" where
  "as_bigint x = (case x of None \<Rightarrow> thr (RErr R_ERROR ''The number cannot be converted to a BigInt because it is not an integer'') | Some n \<Rightarrow> ret n)"

definition ss_failed :: "string \<Rightarrow> ('w, 'a) pact" where
  "ss_failed m = thr (RErr R_ERROR m)"

text \<open>\<open>fetch\<close>, the \<open>ok\<close> check and \<open>res.json()\<close>; \<open>otherwise\<close> is what an answer that is not \<open>ok\<close> leads to.\<close>

definition ss_fetch ::
  "'w sideshift \<Rightarrow> http_request \<Rightarrow> (string \<Rightarrow> string + 'd) \<Rightarrow> (int \<Rightarrow> string \<Rightarrow> ('w, 'a) pact) \<Rightarrow> ('d \<Rightarrow> ('w, 'a) pact) \<Rightarrow> ('w, 'a) pact" where
  "ss_fetch c req decode otherwise k =
    bnd (fetch (sa_net c) req) (\<lambda>out.
    case out of
      FetchAbort m \<Rightarrow> ss_failed m
    | FetchFailure m \<Rightarrow> ss_failed m
    | FetchAnswer status text \<Rightarrow>
        if \<not> response_ok status then otherwise status text
        else (case decode text of Inl m \<Rightarrow> thr (RErr R_SYNTAX m) | Inr d \<Rightarrow> k d))"

definition ss_method :: "string \<Rightarrow> string \<Rightarrow> string" where
  "ss_method asset network = to_lower asset @ ''-'' @ to_lower network"

definition ss_getQuote :: "'w sideshift \<Rightarrow> normalized_intent \<Rightarrow> ('w, normalized_quote) pact" where
  "ss_getQuote c intent =
    (let depositMethod = ss_method (ni_sourceAsset intent) (ni_sourceNetwork intent);
         settleMethod = ss_method (ni_targetAsset intent) (ni_targetNetwork intent);
         req = \<lparr> hr_method = ''GET'', hr_url = sh_baseUrl (sa_settings c) @ ''/pair/'' @ depositMethod @ ''/'' @ settleMethod,
                 hr_headers = [(''User-Agent'', ''UniversalAgentAssetRouter/0.1.0''), (''Accept'', ''application/json'')], hr_body = None \<rparr>
     in ss_fetch c req (sa_pair c)
          (\<lambda>status errorText. ss_failed (''SideShift pair query failed HTTP '' @ bigint_text status @ '': '' @ errorText)) (\<lambda>data.
        bnd (from_result (parse_amount (ni_sourceAmountAtomic intent))) (\<lambda>sats.
        bnd (as_bigint (sa_settle c sats (sr_rate data))) (\<lambda>settle.
        bnd (as_bigint (sa_ceil c (sr_min data))) (\<lambda>minSats.
        bnd (as_bigint (sa_floor c (sr_max data))) (\<lambda>maxSats.
        bnd (ask (sa_now c)) (\<lambda>now.
        bnd (ask (sa_random c)) (\<lambda>random.
        ret \<lparr> nq_quoteId = ''ss_pair_'' @ bigint_text now @ ''_'' @ random, nq_providerId = ''sideshift'',
              nq_sourceAsset = sr_depositCoin data, nq_sourceNetwork = sr_depositNetwork data, nq_targetAsset = sr_settleCoin data,
              nq_targetNetwork = sr_settleNetwork data, nq_depositAmountAtomic = ni_sourceAmountAtomic intent,
              nq_settleAmountAtomic = bigint_text settle, nq_rate = sr_rate data, nq_networkFeeEstimatedAtomic = ''0'',
              nq_minDepositAtomic = bigint_text minSats, nq_maxDepositAtomic = bigint_text maxSats,
              nq_expiresAt = now + 10 * 60 * 1000 \<rparr>))))))))"

definition ss_createExecution :: "'w sideshift \<Rightarrow> create_request \<Rightarrow> ('w, order_result) pact" where
  "ss_createExecution c request =
    (let i = xq_intent request;
         body = [(''depositCoin'', J_str (ni_sourceAsset i)), (''depositNetwork'', J_str (ni_sourceNetwork i)),
           (''settleCoin'', J_str (ni_targetAsset i)), (''settleNetwork'', J_str (ni_targetNetwork i)),
           (''settleAddress'', J_str (ni_destinationAddress i)), (''refundAddress'', J_str (ni_refundAddress i))]
           @ optional_field ''affiliateId'' (sh_affiliateId (sa_settings c));
         req = \<lparr> hr_method = ''POST'', hr_url = sh_baseUrl (sa_settings c) @ ''/shifts/variable'',
           hr_headers = [(''Content-Type'', ''application/json''), (''User-Agent'', ''UniversalAgentAssetRouter/0.1.0'')]
             @ (case truthy_str (sh_secret (sa_settings c)) of None \<Rightarrow> [] | Some s \<Rightarrow> [(''x-sideshift-secret'', s)]),
           hr_body = Some (json_object body) \<rparr>
     in ss_fetch c req (sa_shift c)
          (\<lambda>status errText. ss_failed (''SideShift create shift failed HTTP '' @ bigint_text status @ '': '' @ errText)) (\<lambda>data.
        ret \<lparr> pv_providerExecutionId = sf_id data, pv_orderToken = None, pv_depositAddress = sf_depositAddress data,
              or_depositAmountAtomic = ni_sourceAmountAtomic i, or_settleAddress = sf_settleAddress data,
              or_status = sf_status data, or_expiresAt = sf_expiresAt data \<rparr>))"

definition ss_mapStatus :: "string \<Rightarrow> provider_status_kind" where
  "ss_mapStatus status =
    (let s = to_lower status in
     if s = ''waiting'' then PS_WAITING_FOR_DEPOSIT
     else if s = ''pending'' then PS_DEPOSIT_RECEIVED
     else if s = ''processing'' then PS_PROCESSING
     else if s = ''settling'' then PS_SETTLING
     else if s = ''settled'' then PS_COMPLETED
     else if s = ''refund'' \<or> s = ''refunded'' then PS_REFUNDED
     else if s = ''expired'' then PS_EXPIRED
     else PS_UNKNOWN)"

definition unknown_order :: "string \<Rightarrow> provider_status" where
  "unknown_order reason = \<lparr> ps_status = PS_UNKNOWN, ps_depositTxId = None, ps_settleTxId = None, ps_settleAmountActualAtomic = None,
     ps_failureReason = Some reason \<rparr>"

definition ss_getStatus :: "'w sideshift \<Rightarrow> string \<Rightarrow> ('w, provider_status) pact" where
  "ss_getStatus c providerExecutionId =
    (let req = \<lparr> hr_method = ''GET'', hr_url = sh_baseUrl (sa_settings c) @ ''/shifts/'' @ providerExecutionId,
           hr_headers = [(''User-Agent'', ''UniversalAgentAssetRouter/0.1.0'')], hr_body = None \<rparr>
     in ss_fetch c req (sa_status c)
          (\<lambda>status err. if status = 404 then ret (unknown_order ''Shift not found on SideShift'')
             else ss_failed (''SideShift getStatus HTTP '' @ bigint_text status @ '': '' @ err)) (\<lambda>data.
        bnd (case truthy_str (sx_settleAmount data) of None \<Rightarrow> ret None
             | Some a \<Rightarrow> bnd (as_bigint (sa_micro c a)) (\<lambda>n. ret (Some (bigint_text n)))) (\<lambda>settleAmount.
        ret \<lparr> ps_status = ss_mapStatus (sx_status data), ps_depositTxId = sx_depositHash data, ps_settleTxId = sx_settleHash data,
              ps_settleAmountActualAtomic = settleAmount, ps_failureReason = sx_reason data \<rparr>)))"

section \<open>The mock provider\<close>

datatype mock_failure =
    MF_NONE | FAIL_QUOTE | REJECT_CREATE | TIMEOUT_ON_CREATE | STALL_SETTLEMENT | EXPIRE_ZERO_DEPOSIT | FAIL_STATUS_RECOVERY
  | RETURN_REFUNDED | CHAIN_DISAGREEMENT | MF_WRONG_RECIPIENT | WRONG_AMOUNT | MF_WRONG_TOKEN | SOURCE_DEPOSIT_ONLY | REFUND_WITHOUT_EVIDENCE

record mock_order =
  mo_request :: create_request
  mo_status :: provider_status_kind
  mo_depositTxId :: "string option"
  mo_settleTxId :: "string option"
  mo_settleAmountActualAtomic :: "string option"
  mo_failureReason :: "string option"

record mock =
  mk_supportsStrongIdempotency :: bool
  mk_activeOrders :: "string \<Rightarrow> mock_order option"
  mk_failureMode :: mock_failure
  mk_createExecutionCallCount :: nat
  mk_getStatusCallCount :: nat
  mk_executionClass :: execution_class

definition mock_init :: mock where
  "mock_init = \<lparr> mk_supportsStrongIdempotency = False, mk_activeOrders = (\<lambda>_. None), mk_failureMode = MF_NONE,
     mk_createExecutionCallCount = 0, mk_getStatusCallCount = 0, mk_executionClass = PASSIVE_DEPOSIT \<rparr>"

definition mock_capabilities :: "mock \<Rightarrow> provider_capabilities" where
  "mock_capabilities m = \<lparr> pc_supportedPairs = [btc_to_usdc ''bitcoin'' ''3000'' ''50000000'', btc_to_usdc ''lightning'' ''1000'' ''10000000''],
     pc_executionClass = mk_executionClass m, pc_supportsLightning = True, pc_supportsRefunds = True,
     pc_supportsStrongIdempotency = mk_supportsStrongIdempotency m \<rparr>"

definition mock_error :: "string \<Rightarrow> rerr" where
  "mock_error m = RErr R_ERROR (''MockProvider: '' @ m)"

text \<open>\<open>uuid\<close> arguments are the results of \<open>randomUUID()\<close>, \<open>now\<close> is \<open>Date.now()\<close>.\<close>

definition mock_getQuote :: "int \<Rightarrow> string \<Rightarrow> normalized_intent \<Rightarrow> mock \<Rightarrow> rerr + normalized_quote" where
  "mock_getQuote now uuid intent m =
    (if mk_failureMode m = FAIL_QUOTE then Inl (mock_error ''Provider quote service temporarily unavailable (503)'')
     else (case parse_amount (ni_sourceAmountAtomic intent) of Inl e \<Rightarrow> Inl e | Inr sourceAmount \<Rightarrow>
       (let settleAmount = js_div (sourceAmount * 750 * 99) 100 in
        Inr \<lparr> nq_quoteId = ''mock_quote_'' @ take 8 uuid, nq_providerId = ''mock_provider'', nq_sourceAsset = ni_sourceAsset intent,
          nq_sourceNetwork = ni_sourceNetwork intent, nq_targetAsset = ni_targetAsset intent, nq_targetNetwork = ni_targetNetwork intent,
          nq_depositAmountAtomic = ni_sourceAmountAtomic intent, nq_settleAmountAtomic = bigint_text settleAmount,
          nq_rate = ''75000.00'', nq_networkFeeEstimatedAtomic = ''500000'', nq_minDepositAtomic = ''1000'',
          nq_maxDepositAtomic = ''50000000'', nq_expiresAt = now + 15 * 60 * 1000 \<rparr>)))"

definition new_order :: "create_request \<Rightarrow> mock_order" where
  "new_order request = \<lparr> mo_request = request, mo_status = PS_WAITING_FOR_DEPOSIT, mo_depositTxId = None, mo_settleTxId = None,
     mo_settleAmountActualAtomic = None, mo_failureReason = None \<rparr>"

definition set_order :: "string \<Rightarrow> mock_order \<Rightarrow> mock \<Rightarrow> mock" where
  "set_order i r m = m\<lparr>mk_activeOrders := (mk_activeOrders m)(i \<mapsto> r)\<rparr>"

definition mock_createExecution :: "int \<Rightarrow> string \<Rightarrow> string \<Rightarrow> create_request \<Rightarrow> mock \<Rightarrow> (rerr + order_result) \<times> mock" where
  "mock_createExecution now uuid1 uuid2 request m0 =
    (let m = m0\<lparr>mk_createExecutionCallCount := mk_createExecutionCallCount m0 + 1\<rparr>;
         providerExecutionId = ''mock_order_'' @ take 8 uuid1;
         i = xq_intent request in
     if mk_failureMode m = REJECT_CREATE then (Inl (mock_error ''400 Bad Request - Invalid destination address''), m)
     else if mk_failureMode m = TIMEOUT_ON_CREATE
     then (Inl (mock_error ''Network timeout: ETIMEDOUT awaiting response header''), set_order providerExecutionId (new_order request) m)
     else
       (let depositAddress = (if ni_sourceNetwork i = ''lightning'' then ''lnbc'' @ ni_sourceAmountAtomic i @ ''n1mockinvoice...''
              else ''bc1qmockdepositaddress'' @ take 10 uuid2)
        in (Inr \<lparr> pv_providerExecutionId = providerExecutionId, pv_orderToken = None, pv_depositAddress = depositAddress,
              or_depositAmountAtomic = ni_sourceAmountAtomic i, or_settleAddress = ni_destinationAddress i,
              or_status = ''WAITING_FOR_DEPOSIT'', or_expiresAt = now + 30 * 60 * 1000 \<rparr>,
            set_order providerExecutionId (new_order request) m)))"

definition claimed_paid :: "string \<Rightarrow> string \<Rightarrow> provider_status" where
  "claimed_paid tx amount = \<lparr> ps_status = PS_COMPLETED, ps_depositTxId = Some ''btc_deposit_tx_123'', ps_settleTxId = Some tx,
     ps_settleAmountActualAtomic = Some amount, ps_failureReason = None \<rparr>"

definition deposited :: "provider_status_kind \<Rightarrow> string option \<Rightarrow> string option \<Rightarrow> provider_status" where
  "deposited st tx reason = \<lparr> ps_status = st, ps_depositTxId = Some ''btc_deposit_tx_123'', ps_settleTxId = tx,
     ps_settleAmountActualAtomic = None, ps_failureReason = reason \<rparr>"

definition order_status :: "mock_order \<Rightarrow> provider_status" where
  "order_status r = \<lparr> ps_status = mo_status r, ps_depositTxId = mo_depositTxId r, ps_settleTxId = mo_settleTxId r,
     ps_settleAmountActualAtomic = mo_settleAmountActualAtomic r, ps_failureReason = mo_failureReason r \<rparr>"

definition mock_getStatus :: "string \<Rightarrow> mock \<Rightarrow> (rerr + provider_status) \<times> mock" where
  "mock_getStatus i m0 =
    (let m = m0\<lparr>mk_getStatusCallCount := mk_getStatusCallCount m0 + 1\<rparr> in
     if mk_failureMode m = FAIL_STATUS_RECOVERY then (Inl (mock_error ''500 Internal Server Error - Gateway Timeout''), m)
     else (case mk_activeOrders m i of
       None \<Rightarrow> (Inr (unknown_order ''Order not found with provider''), m)
     | Some r \<Rightarrow>
        (let quoted = nq_settleAmountAtomic (xq_quote (mo_request r)) in
         case mk_failureMode m of
           EXPIRE_ZERO_DEPOSIT \<Rightarrow>
             (Inr \<lparr> ps_status = PS_EXPIRED, ps_depositTxId = None, ps_settleTxId = None, ps_settleAmountActualAtomic = None,
                ps_failureReason = Some ''Deposit window expired with zero deposit received'' \<rparr>, set_order i (r\<lparr>mo_status := PS_EXPIRED\<rparr>) m)
         | RETURN_REFUNDED \<Rightarrow>
             (Inr (deposited PS_REFUNDED (Some ''btc_refund_tx_999'') (Some ''Slippage exceeded threshold, funds refunded to caller'')),
              set_order i (r\<lparr>mo_status := PS_REFUNDED\<rparr>) m)
         | REFUND_WITHOUT_EVIDENCE \<Rightarrow>
             (Inr (deposited PS_REFUNDED None (Some ''Provider claimed refund without tx hash'')), set_order i (r\<lparr>mo_status := PS_REFUNDED\<rparr>) m)
         | CHAIN_DISAGREEMENT \<Rightarrow> (Inr (claimed_paid ''0xfake_or_reverted_tx_hash'' quoted), m)
         | MF_WRONG_RECIPIENT \<Rightarrow> (Inr (claimed_paid ''0xwrong_recipient_tx_hash'' quoted), m)
         | WRONG_AMOUNT \<Rightarrow> (Inr (claimed_paid ''0xwrong_amount_tx_hash'' ''100''), m)
         | MF_WRONG_TOKEN \<Rightarrow> (Inr (claimed_paid ''0xwrong_token_tx_hash'' quoted), m)
         | SOURCE_DEPOSIT_ONLY \<Rightarrow> (Inr (deposited PS_DEPOSIT_RECEIVED None None), m)
         | STALL_SETTLEMENT \<Rightarrow> (Inr (deposited PS_SETTLING None None), m)
         | _ \<Rightarrow> (Inr (order_status r), m))))"

definition simulateExternalDeposit :: "string \<Rightarrow> string option \<Rightarrow> mock \<Rightarrow> mock" where
  "simulateExternalDeposit i depositTxId m =
    (case mk_activeOrders m i of None \<Rightarrow> m
     | Some r \<Rightarrow> set_order i (r\<lparr>mo_status := PS_PROCESSING, mo_depositTxId := Some (coalesce depositTxId ''btc_dep_tx_1'')\<rparr>) m)"

definition simulateExternalSettlement :: "string \<Rightarrow> string option \<Rightarrow> mock \<Rightarrow> mock" where
  "simulateExternalSettlement i settleTxId m =
    (case mk_activeOrders m i of None \<Rightarrow> m
     | Some r \<Rightarrow> set_order i (r\<lparr>mo_status := PS_COMPLETED, mo_settleTxId := Some (coalesce settleTxId ''0xvalid_base_tx_receipt_status_1''),
          mo_settleAmountActualAtomic := Some (nq_settleAmountAtomic (xq_quote (mo_request r)))\<rparr>) m)"

definition mock_requestRefund :: "string \<Rightarrow> mock \<Rightarrow> refund_result \<times> mock" where
  "mock_requestRefund i m =
    (case mk_activeOrders m i of
       None \<Rightarrow> (refund_refused ''Order not found'', m)
     | Some r \<Rightarrow> (\<lparr> rf_success = True, rf_refundTxId = Some ''btc_refund_tx_888'', rf_reason = None \<rparr>,
                 set_order i (r\<lparr>mo_status := PS_REFUNDED\<rparr>) m))"

section \<open>The mock chain verifier\<close>

definition BASE_USDC_CONTRACT_ADDRESS :: string where
  "BASE_USDC_CONTRACT_ADDRESS = to_lower ''0x833589fCD6eDb6E08f4c7C32D4f71b54bdA02913''"

record verifier_result = chain_result +
  vr_confirmedAmountAtomic :: "string option"
  vr_confirmedRecipient :: "string option"

text \<open>\<open>Partial<ChainVerificationResult>\<close>\<close>

record partial_outcome =
  po_verified :: "bool option"
  po_status :: "on_chain_status option"
  po_blockNumber :: "int option"
  po_confirmedAmountAtomic :: "string option"
  po_confirmedTokenContract :: "string option"
  po_confirmedRecipient :: "string option"
  po_reason :: "string option"

type_synonym mock_verifier = "string \<Rightarrow> partial_outcome option"

definition no_outcome :: partial_outcome where
  "no_outcome = \<lparr> po_verified = None, po_status = None, po_blockNumber = None, po_confirmedAmountAtomic = None,
     po_confirmedTokenContract = None, po_confirmedRecipient = None, po_reason = None \<rparr>"

definition setOutcome :: "string \<Rightarrow> partial_outcome \<Rightarrow> mock_verifier \<Rightarrow> mock_verifier" where
  "setOutcome txHash outcome v = v(txHash \<mapsto> outcome)"

definition mock_verifier_init :: mock_verifier where
  "mock_verifier_init = setOutcome ''0xfake_or_reverted_tx_hash'' (no_outcome\<lparr>po_verified := Some False, po_status := Some OC_REVERTED,
     po_reason := Some ''On-chain transaction receipt status is 0 (REVERTED)''\<rparr>) (\<lambda>_. None)"

definition mock_verifySettlement :: "int \<Rightarrow> mock_verifier \<Rightarrow> chain_request \<Rightarrow> verifier_result" where
  "mock_verifySettlement now v request =
    (if to_lower (vq_network request) \<noteq> ''base''
     then \<lparr> vr_verified = False, vr_status = OC_WRONG_NETWORK, vr_blockNumber = None, vr_confirmedTokenContract = None,
            vr_reason = Some (''Unsupported destination network for Base verifier: '' @ vq_network request), vr_evidence = None,
            vr_confirmedAmountAtomic = None, vr_confirmedRecipient = None \<rparr>
     else
       (let shown = (\<lambda>verified status block amount contract recipient reason.
          \<lparr> vr_verified = verified, vr_status = status, vr_blockNumber = Some block, vr_confirmedTokenContract = Some contract,
            vr_reason = reason,
            vr_evidence = Some \<lparr> de_network = ''base'', de_asset = ''USDC'', de_amountAtomic = amount, de_destinationAddress = recipient,
              de_txHash = Some (vq_txHash request), de_blockNumber = Some block, de_tokenContract = Some contract,
              de_verifiedOnChain = verified, de_onChainStatus = status, de_verifiedAt = Some now, de_evidenceSource = BASE_RPC \<rparr>,
            vr_confirmedAmountAtomic = Some amount, vr_confirmedRecipient = Some recipient \<rparr>)
        in case v (vq_txHash request) of
             Some injected \<Rightarrow>
               (let status = coalesce (po_status injected) OC_CONFIRMED in
                shown (coalesce (po_verified injected) (status = OC_CONFIRMED)) status (coalesce (po_blockNumber injected) 12345678)
                  (coalesce (po_confirmedAmountAtomic injected) (vq_expectedMinAmountAtomic request))
                  (coalesce (po_confirmedTokenContract injected) BASE_USDC_CONTRACT_ADDRESS)
                  (coalesce (po_confirmedRecipient injected) (vq_expectedRecipient request)) (po_reason injected))
           | None \<Rightarrow> shown True OC_CONFIRMED 12345678 (vq_expectedMinAmountAtomic request) BASE_USDC_CONTRACT_ADDRESS
                       (vq_expectedRecipient request) None))"

section \<open>As providers and edges\<close>

text \<open>A call of the orchestrator on an adapter, whose state is the world of the orchestrator.\<close>

definition p_call :: "('w, 'a) pact \<Rightarrow> ('w, 'a) ocall" where
  "p_call m s = (case m (o_world s) of (r, t, w) \<Rightarrow> (r, s\<lparr>o_world := w\<rparr>))"

definition p_map :: "('a \<Rightarrow> 'b) \<Rightarrow> ('w, 'a) pact \<Rightarrow> ('w, 'b) pact" where
  "p_map f m = bnd m (\<lambda>x. ret (f x))"

definition class_and_idempotency :: "provider_capabilities \<Rightarrow> execution_class \<times> bool" where
  "class_and_idempotency k = (pc_executionClass k, pc_supportsStrongIdempotency k)"

definition fixedfloat_provider :: "'w fixedfloat \<Rightarrow> 'w provider" where
  "fixedfloat_provider c = \<lparr> pr_capabilities = Some (p_call (ret (class_and_idempotency ff_capabilities))),
     pr_executionClass = Some PASSIVE_DEPOSIT,
     pr_getQuote = (\<lambda>i. p_call (p_map fst (ff_getQuote c (IsIntent i)))),
     pr_createExecution = (\<lambda>r. p_call (p_map provider_result.truncate (ff_createExecution c (IsRequest r)))),
     pr_getStatus = (\<lambda>i t. p_call (ff_getStatus c (coalesce i '''') t)),
     pr_getRuntimeAvailability = Some (p_call (p_map availability.truncate (ff_getRuntimeAvailability c))) \<rparr>"

definition sideshift_provider :: "'w sideshift \<Rightarrow> 'w provider" where
  "sideshift_provider c = \<lparr> pr_capabilities = Some (p_call (ret (class_and_idempotency ss_capabilities))),
     pr_executionClass = None,
     pr_getQuote = (\<lambda>i. p_call (ss_getQuote c i)),
     pr_createExecution = (\<lambda>r. p_call (p_map provider_result.truncate (ss_createExecution c r))),
     pr_getStatus = (\<lambda>i t. p_call (ss_getStatus c (coalesce i ''''))),
     pr_getRuntimeAvailability = None \<rparr>"

definition fixedfloat_edge :: "'w fixedfloat \<Rightarrow> 'w edge" where
  "fixedfloat_edge c = \<lparr> eg_id = ''fixedfloat'', eg_edgeClass = TRUSTED_PROVIDER_EDGE, eg_supportsRoute = ff_supportsRoute,
     eg_getRuntimeAvailability = (\<lambda>s. case p_map availability.truncate (ff_getRuntimeAvailability c) s of (r, t, s') \<Rightarrow> (r, s')) \<rparr>"

definition verifier_call :: "('w osys \<Rightarrow> int) \<Rightarrow> mock_verifier \<Rightarrow> chain_request \<Rightarrow> ('w, chain_result) ocall" where
  "verifier_call now v q s = (Inr (chain_result.truncate (mock_verifySettlement (now s) v q)), s)"

end
