(* ===== verification/Provider_Laws.thy ===== *)
theory Provider_Laws
  imports Providers
begin

text \<open>
  Laws of the provider adapters: decimal amounts survive the trip to a decimal text and back, thrown errors do not show the
  credentials, an order is created as it was asked for, and FixedFloat is offered only when its API says so.
\<close>

section \<open>Reading digits\<close>

definition digits :: "string \<Rightarrow> bool" where
  "digits s \<longleftrightarrow> (\<forall>c \<in> set s. 48 \<le> (of_char c :: nat) \<and> (of_char c :: nat) < 58)"

lemma digits_nat_digits: "digits (nat_digits n)"
  using nat_digits_chars by (simp add: digits_def)

lemma radix_digits: "digits s \<Longrightarrow> radix_number 10 a s = Some (foldl (\<lambda>a c. 10 * a + digit_value c) a s)"
  by (induction s arbitrary: a) (auto simp: digits_def radix_digit_def digit_value_def Let_def)

lemma digits_no_space: "digits s \<Longrightarrow> c \<in> set s \<Longrightarrow> \<not> js_space c"
  by (auto simp: digits_def js_space_def Let_def) (fastforce+)?

lemma dropWhile_none: "(\<And>c. c \<in> set s \<Longrightarrow> \<not> P c) \<Longrightarrow> dropWhile P s = s"
  by (cases s) auto

lemma digits_strip: "digits s \<Longrightarrow> js_strip s = s"
  using digits_no_space [of s] dropWhile_none [of s js_space] dropWhile_none [of "rev s" js_space]
  by (simp add: js_strip_def)

lemma BigInt_digits:
  assumes "digits s" "s \<noteq> []"
  shows "js_BigInt s = Some (int (digits_value s))"
proof -
  have no: "c \<notin> set s" if "\<not> (48 \<le> (of_char c :: nat) \<and> (of_char c :: nat) < 58)" for c
    using assms(1) that by (auto simp: digits_def)
  have t: "take 2 s \<noteq> [a, b]" if "\<not> (48 \<le> (of_char b :: nat) \<and> (of_char b :: nat) < 58)" for a b
  proof
    assume "take 2 s = [a, b]"
    then have "b \<in> set (take 2 s)" by simp
    then show False using no [OF that] in_set_takeD by metis
  qed
  have h: "hd s \<noteq> c" if "\<not> (48 \<le> (of_char c :: nat) \<and> (of_char c :: nat) < 58)" for c
    using no [OF that] assms(2) hd_in_set by metis
  have "natural 10 s = Some (int (digits_value s))"
    using assms by (simp add: natural_def radix_digits digits_value_def)
  then show ?thesis using assms(2) digits_strip [OF assms(1)] by (simp add: js_BigInt_def Let_def t h)
qed

lemma digits_value_zeros: "digits_value (replicate k CHR ''0'' @ s) = digits_value s"
proof -
  have "foldl (\<lambda>a c. 10 * a + digit_value c) 0 (replicate k CHR ''0'') = 0"
    by (induction k) (simp_all add: digit_value_def)
  then show ?thesis by (simp add: digits_value_def)
qed

lemma length_nat_digits: "n < 10 ^ d \<Longrightarrow> 0 < d \<Longrightarrow> length (nat_digits n) \<le> d"
proof (induction n arbitrary: d rule: nat_digits.induct)
  case (1 n)
  show ?case
  proof (cases "n < 10")
    case True
    then show ?thesis using 1(3) by (simp add: nat_digits.simps [of n])
  next
    case False
    then obtain e where e: "d = Suc e" using 1(3) by (cases d) auto
    have "0 < e" using False 1(2) e by (cases e) auto
    note e = e this
    then have "n div 10 < 10 ^ e" using 1(2) by (simp add: less_mult_imp_div_less mult.commute)
    then have "length (nat_digits (n div 10)) \<le> e" using 1(1) [OF False] e by blast
    then show ?thesis using False e by (simp add: nat_digits.simps [of n])
  qed
qed

section \<open>Decimal amounts\<close>

lemma split_on_none: "c \<notin> set s \<Longrightarrow> split_on c s = [s]"
  by (induction s) auto

lemma split_on_one: "c \<notin> set a \<Longrightarrow> c \<notin> set b \<Longrightarrow> split_on c (a @ c # b) = [a, b]"
  by (induction a) (auto simp: split_on_none)

lemma strip_zeros:
  obtains k where "s = rev (dropWhile (\<lambda>c. c = CHR ''0'') (rev s)) @ replicate k CHR ''0''"
proof -
  have "takeWhile (\<lambda>c. c = CHR ''0'') (rev s) = replicate (length (takeWhile (\<lambda>c. c = CHR ''0'') (rev s))) CHR ''0''"
    by (metis (full_types) replicate_length_same set_takeWhileD)
  then have "rev s = replicate (length (takeWhile (\<lambda>c. c = CHR ''0'') (rev s))) CHR ''0'' @ dropWhile (\<lambda>c. c = CHR ''0'') (rev s)"
    by (metis takeWhile_dropWhile_id)
  then have "s = rev (dropWhile (\<lambda>c. c = CHR ''0'') (rev s)) @ replicate (length (takeWhile (\<lambda>c. c = CHR ''0'') (rev s))) CHR ''0''"
    by (metis rev_append rev_replicate rev_rev_ident)
  then show ?thesis by (rule that)
qed

text \<open>The fraction digits, padded again, read as the fraction.\<close>

lemma fraction_reads:
  assumes "f < 10 ^ d" "t = pad_start d (nat_digits f)" "fs = rev (dropWhile (\<lambda>c. c = CHR ''0'') (rev t))"
  shows "js_BigInt (take d (pad_end d fs)) = Some (int f)"
proof (cases "d = 0")
  case True
  then show ?thesis using assms(1) by (simp add: js_BigInt_def js_strip_def)
next
  case False
  then have len: "length t = d" using length_nat_digits [OF assms(1)] by (simp add: assms(2) pad_start_def)
  obtain k where k: "t = fs @ replicate k CHR ''0''" using strip_zeros [of t] assms(3) by metis
  have "take d (pad_end d fs) = t" using k len by (auto simp: pad_end_def)
  moreover have "digits t" using digits_nat_digits [of f] by (auto simp: assms(2) pad_start_def digits_def)
  moreover have "t \<noteq> []" using len False by auto
  moreover have "digits_value t = f" by (simp add: assms(2) pad_start_def digits_value_zeros digits_value_nat_digits)
  ultimately show ?thesis by (simp add: BigInt_digits)
qed

lemma digits_no_dot: "digits s \<Longrightarrow> CHR ''.'' \<notin> set s"
  by (auto simp: digits_def)

lemma nat_digits_not_Nil: "nat_digits n \<noteq> []"
  by (simp add: nat_digits.simps [of n])

text \<open>C32: Amounts survive the decimal notation of the provider: for every number of decimals, a non-negative atomic amount
  written as a decimal text reads back as exactly itself, with no rounding and no lost or added digit.\<close>

theorem decimal_roundtrip:
  "0 \<le> n \<Longrightarrow> decimalToAtomic (atomicToDecimal n d) d = Inr (bigint_text n)"
proof -
  assume n: "0 \<le> n"
  define w f where "w = nat (n div 10 ^ d)" and "f = nat (n mod 10 ^ d)"
  have wn: "0 \<le> n div 10 ^ d" by (rule iffD2 [OF pos_imp_zdiv_nonneg_iff]) (use n in simp_all)
  have nf: "n = int w * 10 ^ d + int f" 
    unfolding w_def f_def nat_0_le [OF wn] by (simp add: mult_div_mod_eq mult.commute)
  have f: "f < 10 ^ d" unfolding f_def by (simp add: nat_less_iff)
  have dv: "js_div n (10 ^ d) = int w" unfolding w_def nat_0_le [OF wn] by (rule js_div_nonneg) (use n in simp_all)
  have rm: "js_rem n (10 ^ d) = int f" unfolding js_rem_def dv using nf by simp
  define fs where "fs = rev (dropWhile (\<lambda>c. c = CHR ''0'') (rev (pad_start d (nat_digits f))))"
  have written: "atomicToDecimal n d = (if fs = [] then nat_digits w else nat_digits w @ CHR ''.'' # fs)"
    by (simp add: atomicToDecimal_def dv rm bigint_text_def fs_def)
  have fr: "js_BigInt (take d (pad_end d fs)) = Some (int f)" by (rule fraction_reads [OF f refl]) (simp add: fs_def)
  have wh: "js_BigInt (nat_digits w) = Some (int w)"
    by (simp add: BigInt_digits digits_nat_digits nat_digits_not_Nil digits_value_nat_digits)
  have "set fs \<subseteq> set (pad_start d (nat_digits f))" unfolding fs_def using set_dropWhileD by fastforce
  then have dots: "CHR ''.'' \<notin> set fs" "CHR ''.'' \<notin> set (nat_digits w)"
    using digits_no_dot [OF digits_nat_digits] by (auto simp: pad_start_def split: if_splits)
  have parts: "(case split_on CHR ''.'' (atomicToDecimal n d) of [] \<Rightarrow> ''0'' | w # _ \<Rightarrow> w) = nat_digits w"
    "(case split_on CHR ''.'' (atomicToDecimal n d) of w # f # _ \<Rightarrow> f | _ \<Rightarrow> '''') = fs"
    using dots by (simp_all add: written split_on_none split_on_one)
  show ?thesis
    unfolding decimalToAtomic_def Let_def parts parse_amount_def fr wh using nf by simp
qed

theorem decimal_roundtrip_witness: "decimalToAtomic (atomicToDecimal 150000000 8) 8 = Inr (bigint_text 150000000)"
  by (rule decimal_roundtrip) simp

lemma decimal_concrete: "atomicToDecimal 1500 3 = ''1.5''" "atomicToDecimal 25 4 = ''0.0025''" "atomicToDecimal 300 2 = ''3''"
  by code_simp+

text \<open>The text of a small number has an exponent: it is refused, or its digits are taken for whole units.\<close>

lemma exponent_refused: "decimalToAtomic ''1e-7'' d = Inl (RErr R_SYNTAX ''Cannot convert 1e-7 to a BigInt'')"
proof -
  have p: "parse_amount ''1e-7'' = Inl (RErr R_SYNTAX ''Cannot convert 1e-7 to a BigInt'')" by code_simp
  show ?thesis by (simp add: decimalToAtomic_def p)
qed

lemma exponent_misread: "decimalToAtomic ''1.23456e-7'' 2 = Inr ''123''"
  by code_simp

section \<open>Redaction\<close>

text \<open>A credential that can be told from the marks that replace it.\<close>

definition redactable :: "string \<Rightarrow> bool" where
  "redactable k \<longleftrightarrow> plain k \<and> \<not> str_includes ''REDACTED_SECRET'' k \<and> \<not> str_includes ''REDACTED_KEY'' k"

lemma marks: "''[REDACTED_SECRET]'' = bracketed ''REDACTED_SECRET''" "''[REDACTED_KEY]'' = bracketed ''REDACTED_KEY''"
  by (simp_all add: bracketed_def)

lemma sanitized_clean:
  assumes "redactable k" "truthy_str (fs_apiSecret st) = Some k \<or> truthy_str (fs_apiKey st) = Some k"
  shows "\<not> str_includes (sanitizeError st m) k"
proof -
  have k: "plain k" "\<not> sublist k ''REDACTED_SECRET''" "\<not> sublist k ''REDACTED_KEY''"
    using assms(1) by (simp_all add: redactable_def str_includes_sublist)
  define s1 where "s1 = (case truthy_str (fs_apiSecret st) of Some secret \<Rightarrow> replace_all secret ''[REDACTED_SECRET]'' m | None \<Rightarrow> m)"
  have s: "sanitizeError st m = (case truthy_str (fs_apiKey st) of Some key \<Rightarrow> replace_all key ''[REDACTED_KEY]'' s1 | None \<Rightarrow> s1)"
    unfolding sanitizeError_def s1_def Let_def ..
  show ?thesis
  proof (cases "truthy_str (fs_apiKey st) = Some k")
    case True
    then show ?thesis using replaced_gone [OF k(1,3)] by (simp add: s marks str_includes_sublist)
  next
    case False
    then have "\<not> sublist k s1" using assms(2) replaced_gone [OF k(1,2)] by (simp add: s1_def marks)
    then show ?thesis
      using sublist_replaced [of k _ "''REDACTED_KEY''" s1] k
      by (auto simp: s marks str_includes_sublist split: option.splits)
  qed
qed

lemma postRequest_cases:
  assumes "postRequest c decode endpoint payload s = (r, t, s')"
  obtains (timeout) m where "t = [Fetched (ff_request c endpoint payload) (FetchAbort m)]"
      "r = Inl (RErr R_ERROR (''FixedFloat request timed out after '' @ bigint_text (fs_timeoutMs (fa_settings c)) @ ''ms''))"
    | (failed) out m where "t = [Fetched (ff_request c endpoint payload) out]" "r = Inl (RErr R_ERROR (sanitizeError (fa_settings c) m))"
    | (answered) status body e where "t = [Fetched (ff_request c endpoint payload) (FetchAnswer status body)]" "r = Inr (ev_data e)"
      "response_ok status" "decode body = Some e" "ev_code e = 0"
  using assms
  by (auto simp: postRequest_def fetch_def call_def bnd_def thr_def ret_def ff_answer_def Let_def
      split: prod.splits sum.splits fetch_outcome.splits option.splits if_splits)

text \<open>C30: Credentials stay out of errors. Whatever the endpoint, the payload and the answer of the network or the server,
  the error that a signed request throws is a plain error that says it timed out, or does not contain the API secret nor the API key:
  for every credential without brackets that is not part of the marks put in its place.\<close>

theorem secrets_redacted:
  assumes "postRequest c decode endpoint payload s = (Inl e, t, s')" "redactable k"
    "truthy_str (fs_apiSecret (fa_settings c)) = Some k \<or> truthy_str (fs_apiKey (fa_settings c)) = Some k"
  shows "e = RErr R_ERROR (''FixedFloat request timed out after '' @ bigint_text (fs_timeoutMs (fa_settings c)) @ ''ms'') \<or>
    rerr_class e = R_ERROR \<and> \<not> str_includes (rerr_message e) k"
  using assms(1) by (cases rule: postRequest_cases) (use sanitized_clean [OF assms(2,3)] in auto)

text \<open>The secret of this adapter is echoed by the server and the error shows the mark instead.\<close>

definition demo_ff :: "fetch_outcome \<Rightarrow> unit fixedfloat" where
  "demo_ff out = \<lparr> fa_settings = ff_create None (Some ''key-7'') (Some ''s3cr3t'') None, fa_net = (\<lambda>req s. (out, s)), fa_hmac = (\<lambda>k b. ''sign''),
     fa_parseFloat = (\<lambda>s. s), fa_now = (\<lambda>s. 5), fa_random = (\<lambda>s. ''ab''),
     fa_ccies = (\<lambda>b. if b = ''ccies'' then Some \<lparr> ev_code = 0, ev_msg = '''', ev_data = Some
        [\<lparr> fc_code = ''BTCLN'', fc_recv = True, fc_send = False \<rparr>, \<lparr> fc_code = ''USDCBASE'', fc_recv = False, fc_send = True \<rparr>] \<rparr> else None),
     fa_price = (\<lambda>b. None),
     fa_order = (\<lambda>b. Some \<lparr> ev_code = 0, ev_msg = '''', ev_data = Some \<lparr> fo_id = ''FF1'', fo_token = ''tok'', fo_status = ''NEW'',
        fo_fromAddress = ''lnbc1'', fo_errors = None \<rparr> \<rparr>),
     fa_status = (\<lambda>b. Some \<lparr> ev_code = 0, ev_msg = '''', ev_data = Some \<lparr> ft_status = ''DONE'', ft_fromTx = None, ft_toTx = Some ''0xpay'', ft_toAmount = None \<rparr> \<rparr>),
     fa_emergency = (\<lambda>b. None) \<rparr>"

theorem secrets_redacted_witness:
  "\<not> str_includes (''FixedFloat HTTP 401: bad [REDACTED_SECRET]!'') ''s3cr3t''"
proof -
  let ?c = "demo_ff (FetchAnswer 401 ''bad s3cr3t!'')"
  have r: "postRequest ?c (fa_ccies ?c) ''/ccies'' [] () =
      (Inl (RErr R_ERROR ''FixedFloat HTTP 401: bad [REDACTED_SECRET]!''), [Fetched (ff_request ?c ''/ccies'' []) (FetchAnswer 401 ''bad s3cr3t!'')], ())"
    by code_simp
  have k: "redactable ''s3cr3t''" by code_simp
  have t: "truthy_str (fs_apiSecret (fa_settings ?c)) = Some ''s3cr3t'' \<or> truthy_str (fs_apiKey (fa_settings ?c)) = Some ''s3cr3t''"
    by (simp add: demo_ff_def ff_create_def truthy_str_def)
  from secrets_redacted [OF r k t] show ?thesis by auto
qed

section \<open>Orders\<close>

lemma bnd_from_result: "bnd (from_result x) f = (case x of Inl e \<Rightarrow> thr e | Inr y \<Rightarrow> f y)"
  by (rule ext) (simp add: bnd_def from_result_def thr_def ret_def split: sum.split)

lemma bnd_deref: "bnd (deref x) f = (case x of None \<Rightarrow> thr (RErr R_TYPE ''Cannot read properties of undefined'') | Some y \<Rightarrow> f y)"
  by (rule ext) (simp add: bnd_def deref_def thr_def ret_def split: option.split)

lemma thr_returns: "thr e s = (Inr x, t, s') \<longleftrightarrow> False"
  by (simp add: thr_def)

text \<open>A rethrowing \<open>catch\<close> returns what its body returned.\<close>

lemma rethrow_returns: "attempt m (\<lambda>e. thr (g e)) s = (Inr x, t, s') \<longleftrightarrow> m s = (Inr x, t, s')"
  by (auto simp: attempt_def thr_def split: prod.splits sum.splits)

lemma bnd_returns:
  "bnd m f s = (Inr x, t, s') \<longleftrightarrow> (\<exists>y t1 s1 t2. m s = (Inr y, t1, s1) \<and> f y s1 = (Inr x, t2, s') \<and> t = t1 @ t2)"
  by (auto simp: bnd_def split: prod.splits sum.splits)

lemma seq_returns:
  "seq m k s = (Inr x, t, s') \<longleftrightarrow> (\<exists>y t1 s1 t2. m s = (Inr y, t1, s1) \<and> k s1 = (Inr x, t2, s') \<and> t = t1 @ t2)"
  by (simp add: seq_def bnd_returns)

lemma ret_returns: "ret y s = (Inr x, t, s') \<longleftrightarrow> x = y \<and> t = [] \<and> s' = s"
  by (auto simp: ret_def)

lemma ask_returns: "ask f s = (Inr x, t, s') \<longleftrightarrow> x = f s \<and> t = [] \<and> s' = s"
  by (auto simp: ask_def)

lemma post_returns:
  assumes "postRequest c decode endpoint payload s = (Inr x, t, s')"
  obtains status body e where "t = [Fetched (ff_request c endpoint payload) (FetchAnswer status body)]"
    "response_ok status" "decode body = Some e" "ev_code e = 0" "ev_data e = x"
  using assms by (cases rule: postRequest_cases) auto

lemmas returns = bnd_returns seq_returns ret_returns ask_returns thr_returns rethrow_returns

definition refused_errors :: "string list" where
  "refused_errors = [''LIMIT_MIN'', ''MAINTENANCE_FROM'', ''MAINTENANCE_TO'']"

text \<open>C31: A FixedFloat order is the order that was asked for. When \<open>createExecution\<close> returns, it sent exactly one request:
  the \<open>/create\<close> POST with the codes of the two assets, the destination address and the amount of the request or plan; the server accepted it,
  with no error about minimum or maintenance, and id, token and deposit address are the ones of that answer.\<close>

theorem fixedfloat_order_as_asked:
  assumes "ff_createExecution c q s = (Inr r, t, s')" "order_terms q = (dest, a, n, ta, tn, amount)"
  shows "\<exists>fc tc sats status body e d.
    toFixedFloatCcy a n = Inr fc \<and> toFixedFloatCcy ta tn = Inr tc \<and> js_BigInt amount = Some sats \<and>
    t = [Fetched (ff_request c ''/create'' (create_payload fc tc dest (fa_parseFloat c (atomicToDecimal sats 8)))) (FetchAnswer status body)] \<and>
    response_ok status \<and> fa_order c body = Some e \<and> ev_code e = 0 \<and> ev_data e = Some d \<and>
    set (coalesce (fo_errors d) []) \<inter> set refused_errors = {} \<and>
    pv_providerExecutionId r = fo_id d \<and> pv_orderToken r = Some (fo_token d) \<and> pv_depositAddress r = fo_fromAddress d \<and>
    or_settleAddress r = dest \<and> or_depositAmountAtomic r = amount"
proof -
  obtain fc tc sats where codes: "toFixedFloatCcy a n = Inr fc" "toFixedFloatCcy ta tn = Inr tc" "js_BigInt amount = Some sats"
    using assms(1) by (auto simp: ff_createExecution_def assms(2) bnd_from_result parse_amount_def returns split: sum.splits option.splits)
  let ?p = "create_payload fc tc dest (fa_parseFloat c (atomicToDecimal sats 8))"
  obtain x d t1 s1 where post: "postRequest c (fa_order c) ''/create'' ?p s = (Inr x, t1, s1)" "x = Some d" "t = t1"
      "set (coalesce (fo_errors d) []) \<inter> set refused_errors = {}"
      "pv_providerExecutionId r = fo_id d" "pv_orderToken r = Some (fo_token d)" "pv_depositAddress r = fo_fromAddress d"
      "or_settleAddress r = dest" "or_depositAmountAtomic r = amount"
    using assms(1) codes
    by (auto simp: ff_createExecution_def assms(2) bnd_from_result parse_amount_def bnd_deref Let_def returns refused_errors_def
        split: option.splits if_splits)
  show ?thesis by (rule post_returns [OF post(1)]) (use codes post in auto)
qed

definition demo_order :: request_or_plan where
  "demo_order = IsRequest \<lparr> xq_quoteId = '''', xq_idempotencyKey = '''',
     xq_intent = \<lparr> ni_sourceAsset = ''BTC'', ni_sourceNetwork = ''lightning'', ni_targetAsset = ''USDC'', ni_targetNetwork = ''base'',
       ni_sourceAmountAtomic = ''25'', ni_destinationAddress = ''0xabc'', ni_refundAddress = '''' \<rparr>, xq_quote = undefined \<rparr>"

theorem fixedfloat_order_as_asked_witness:
  "\<exists>r t s'. ff_createExecution (demo_ff (FetchAnswer 200 ''made'')) demo_order () = (Inr r, t, s') \<and>
     or_settleAddress r = ''0xabc'' \<and> length t = 1"
proof -
  let ?c = "demo_ff (FetchAnswer 200 ''made'')"
  have k: "toFixedFloatCcy ''BTC'' ''lightning'' = Inr ''BTCLN''" "toFixedFloatCcy ''USDC'' ''base'' = Inr ''USDCBASE''"
    "parse_amount ''25'' = Inr 25" by code_simp+
  have terms: "order_terms demo_order = (''0xabc'', ''BTC'', ''lightning'', ''USDC'', ''base'', ''25'')"
    by (simp add: order_terms_def demo_order_def)
  obtain r t s' where run: "ff_createExecution ?c demo_order () = (Inr r, t, s')"
    by (simp add: ff_createExecution_def terms bnd_from_result k Let_def bnd_def seq_def attempt_def postRequest_def fetch_def call_def
        demo_ff_def ff_answer_def response_ok_def deref_def ask_def ret_def)
  from fixedfloat_order_as_asked [OF run terms] show ?thesis using run by auto
qed

section \<open>Availability\<close>

definition currency_listed :: "(ff_currency \<Rightarrow> bool) \<Rightarrow> string \<Rightarrow> ff_currency list \<Rightarrow> bool" where
  "currency_listed P code cs \<longleftrightarrow> (\<exists>x \<in> set cs. fc_code x = code \<and> P x)"

lemma find_currency_listed: "find_currency code cs = Some x \<Longrightarrow> P x \<Longrightarrow> currency_listed P code cs"
  unfolding find_currency_def currency_listed_def by (auto simp: find_Some_iff)

lemma caught_returns: "\<exists>a t s'. bnd (ask f) (\<lambda>x. attempt (m x) (\<lambda>e. ret (h x e))) s = (Inr a, t, s')"
  by (auto simp: bnd_def ask_def attempt_def ret_def split: prod.splits sum.splits)

lemma availability_total: "\<exists>a t s'. ff_getRuntimeAvailability c s = (Inr a, t, s')"
  unfolding ff_getRuntimeAvailability_def by (rule caught_returns)

text \<open>An edge that calls itself available was shown both currencies as open, by the first answer of this very call.\<close>

lemma available_live:
  assumes "ff_getRuntimeAvailability c s = (Inr a, t, s')" "\<not> av_isMaintenance a \<or> av_isAvailable a"
  shows "\<exists>status body e cs rest. t = Fetched (ff_request c ''/ccies'' []) (FetchAnswer status body) # rest \<and> response_ok status \<and>
    fa_ccies c body = Some e \<and> ev_code e = 0 \<and> ev_data e = Some cs \<and>
    currency_listed fc_recv ''BTCLN'' cs \<and> currency_listed fc_send ''USDCBASE'' cs"
proof -
  obtain cs t1 s1 t2 b1 b2 where m: "getCurrencies c s = (Inr (Some cs), t1, s1)" "t = t1 @ t2"
      "find_currency ''BTCLN'' cs = Some b1" "fc_recv b1" "find_currency ''USDCBASE'' cs = Some b2" "fc_send b2"
    using assms unfolding ff_getRuntimeAvailability_def bnd_deref
    by (auto simp: returns in_maintenance_def elim!: attempt_cases bnd_cases split: option.splits if_splits)
  have listed: "currency_listed fc_recv ''BTCLN'' cs" "currency_listed fc_send ''USDCBASE'' cs"
    using m find_currency_listed by blast+
  show ?thesis
    by (rule post_returns [OF m(1) [unfolded getCurrencies_def]]) (use m(2) listed in simp)
qed

end
