(* ===== verification/Run_Logic.thy ===== *)
theory Run_Logic
  imports State_Logic "HOL-Library.Sublist"
begin

text \<open>
  Where in a run a call stood. Given an order \<open>K\<close> on states that every step of an action respects, \<open>rises A m\<close> says that \<open>m\<close> ends
  above the state it starts in, and that each event of its trace belongs to a call that began in some state \<open>s0\<close> above the start and
  ended in some state \<open>s1\<close> below the end, with \<open>A s0 s1 e\<close>. With the order "this log got longer" it places what a call
  wrote to the log within the run.
\<close>

locale run_order =
  fixes K :: "'s \<Rightarrow> 's \<Rightarrow> bool"
  assumes K_refl: "K s s"
    and K_trans: "K s s' \<Longrightarrow> K s' s'' \<Longrightarrow> K s s''"
begin

definition rises :: "('s \<Rightarrow> 's \<Rightarrow> 'e \<Rightarrow> bool) \<Rightarrow> ('x, 'e, 's, 'a) action \<Rightarrow> bool" where
  "rises A m \<longleftrightarrow> (\<forall>s r t s'. m s = (r, t, s') \<longrightarrow> K s s' \<and> (\<forall>e \<in> set t. \<exists>s0 s1. K s s0 \<and> K s1 s' \<and> A s0 s1 e))"

lemma risesI:
  "(\<And>s r t s'. m s = (r, t, s') \<Longrightarrow> K s s' \<and> (\<forall>e \<in> set t. \<exists>s0 s1. K s s0 \<and> K s1 s' \<and> A s0 s1 e)) \<Longrightarrow> rises A m"
  by (simp add: rises_def)

lemma risesD:
  assumes "rises A m" "m s = (r, t, s')"
  shows "K s s'" "e \<in> set t \<Longrightarrow> \<exists>s0 s1. K s s0 \<and> K s1 s' \<and> A s0 s1 e"
  using assms unfolding rises_def by blast+

lemma rises_ret: "rises A (ret x)"
  by (simp add: rises_def ret_def K_refl)

lemma rises_thr: "rises A (thr e)"
  by (simp add: rises_def thr_def K_refl)

lemma rises_ask: "rises A (ask f)"
  by (simp add: rises_def ask_def K_refl)

lemma rises_change: "(\<And>s. K s (f s)) \<Longrightarrow> rises A (change f)"
  by (simp add: rises_def change_def)

lemma rises_call:
  assumes "\<And>s r s'. f s = (r, s') \<Longrightarrow> K s s' \<and> A s s' (ev r)"
  shows "rises A (call ev f)"
proof (rule risesI)
  fix s r t s'
  assume "call ev f s = (r, t, s')"
  then have c: "f s = (r, s')" "t = [ev r]" by (auto simp: call_def split: prod.splits)
  show "K s s' \<and> (\<forall>e \<in> set t. \<exists>s0 s1. K s s0 \<and> K s1 s' \<and> A s0 s1 e)"
    using assms [OF c(1)] K_refl c(2) by auto
qed

text \<open>Two parts of a run, one after the other.\<close>

definition placed :: "('s \<Rightarrow> 's \<Rightarrow> 'e \<Rightarrow> bool) \<Rightarrow> 's \<Rightarrow> 'e list \<Rightarrow> 's \<Rightarrow> bool" where
  "placed A s t s' \<longleftrightarrow> K s s' \<and> (\<forall>e \<in> set t. \<exists>s0 s1. K s s0 \<and> K s1 s' \<and> A s0 s1 e)"

lemma placed_append:
  assumes "placed A s t1 s1" "placed A s1 t2 s'"
  shows "placed A s (t1 @ t2) s'"
  unfolding placed_def
proof (intro conjI ballI)
  show "K s s'" using assms K_trans unfolding placed_def by blast
  fix e assume "e \<in> set (t1 @ t2)"
  then consider "e \<in> set t1" | "e \<in> set t2" by auto
  then show "\<exists>s0 s1. K s s0 \<and> K s1 s' \<and> A s0 s1 e"
  proof cases
    case 1
    then obtain x y where x: "K s x" "K y s1" "A x y e" using assms(1) unfolding placed_def by blast
    have "K y s'" by (rule K_trans [OF x(2)]) (use assms(2) in \<open>simp add: placed_def\<close>)
    then show ?thesis using x by blast
  next
    case 2
    then obtain x y where x: "K s1 x" "K y s'" "A x y e" using assms(2) unfolding placed_def by blast
    have "K s x" by (rule K_trans [OF _ x(1)]) (use assms(1) in \<open>simp add: placed_def\<close>)
    then show ?thesis using x by blast
  qed
qed

lemma rises_iff: "rises A m \<longleftrightarrow> (\<forall>s r t s'. m s = (r, t, s') \<longrightarrow> placed A s t s')"
  by (simp add: rises_def placed_def)

lemma rises_placed: "rises A m \<Longrightarrow> m s = (r, t, s') \<Longrightarrow> placed A s t s'"
  by (simp add: rises_iff)

lemma rises_bnd:
  assumes "rises A m" "\<And>x. rises A (f x)"
  shows "rises A (bnd m f)"
  unfolding rises_iff
proof (intro allI impI)
  fix s r t s' assume "bnd m f s = (r, t, s')"
  then show "placed A s t s'"
    by (elim bnd_cases) (auto intro: placed_append rises_placed [OF assms(1)] rises_placed [OF assms(2)])
qed

lemma rises_seq: "rises A m \<Longrightarrow> rises A k \<Longrightarrow> rises A (seq m k)"
  unfolding seq_def by (rule rises_bnd)

lemma rises_attempt:
  assumes "rises A m" "\<And>e. rises A (h e)"
  shows "rises A (attempt m h)"
  unfolding rises_iff
proof (intro allI impI)
  fix s r t s' assume "attempt m h s = (r, t, s')"
  then show "placed A s t s'"
    by (elim attempt_cases) (auto intro: placed_append rises_placed [OF assms(1)] rises_placed [OF assms(2)])
qed

lemma rises_ensure:
  assumes "rises A m" "rises A f"
  shows "rises A (ensure m f)"
  unfolding rises_iff
proof (intro allI impI)
  fix s r t s' assume "ensure m f s = (r, t, s')"
  then show "placed A s t s'"
    by (elim ensure_cases) (auto intro: placed_append rises_placed [OF assms(1)] rises_placed [OF assms(2)])
qed

lemma rises_if: "(c \<Longrightarrow> rises A m) \<Longrightarrow> (\<not> c \<Longrightarrow> rises A n) \<Longrightarrow> rises A (if c then m else n)"
  by simp

lemma rises_option:
  "(x = None \<Longrightarrow> rises A m) \<Longrightarrow> (\<And>y. x = Some y \<Longrightarrow> rises A (f y)) \<Longrightarrow> rises A (case x of None \<Rightarrow> m | Some y \<Rightarrow> f y)"
  by (cases x) auto

lemma rises_prod: "(\<And>x y. p = (x, y) \<Longrightarrow> rises A (f x y)) \<Longrightarrow> rises A (case p of (x, y) \<Rightarrow> f x y)"
  by (cases p) auto

lemma rises_sum:
  "(\<And>e. x = Inl e \<Longrightarrow> rises A (f e)) \<Longrightarrow> (\<And>y. x = Inr y \<Longrightarrow> rises A (g y)) \<Longrightarrow>
   rises A (case x of Inl e \<Rightarrow> f e | Inr y \<Rightarrow> g y)"
  by (cases x) auto

lemma rises_Let: "rises A (f x) \<Longrightarrow> rises A (let y = x in f y)"
  by simp

lemmas rises_rules = rises_ret rises_thr rises_ask rises_bnd rises_seq rises_attempt rises_ensure rises_if rises_option
  rises_prod rises_sum rises_Let

end

text \<open>The order "this log got longer".\<close>

definition longer :: "('s \<Rightarrow> 'x list) \<Rightarrow> 's \<Rightarrow> 's \<Rightarrow> bool" where
  "longer log s s' \<longleftrightarrow> prefix (log s) (log s')"

interpretation logged: run_order "longer log" for log :: "'s \<Rightarrow> 'x list"
  by unfold_locales (auto simp: longer_def intro: prefix_order.trans)

text \<open>What a log gained between two states.\<close>

definition gained :: "('s \<Rightarrow> 'x list) \<Rightarrow> 's \<Rightarrow> 's \<Rightarrow> 'x list" where
  "gained log s s' = drop (length (log s)) (log s')"

lemma gained_within: "longer log s s0 \<Longrightarrow> longer log s1 s' \<Longrightarrow> longer log s0 s1 \<Longrightarrow> set (gained log s0 s1) \<subseteq> set (gained log s s')"
  by (auto simp: longer_def gained_def prefix_def)

end
