(* ===== verification/Provider_Log.thy ===== *)
theory Provider_Log
  imports Provider_Laws Orch_Laws Run_Logic
begin

text \<open>
  The HTTP exchanges of an adapter within a run of the orchestrator. \<open>ff_recording c\<close> and \<open>ss_recording c\<close> are the adapters with every
  request and its outcome appended to a list that nothing reads; \<open>quiet_others\<close> says that the other callees of the orchestrator and other
  processes may use the adapter too, but take nothing off that list. Then the events of a run are placed on the list: the status a run
  acted on was returned by a call that appended its own exchange during that run.
\<close>

section \<open>Adapters that record\<close>

type_synonym exchange = "http_request \<times> fetch_outcome"

definition recording_net ::
  "(http_request \<Rightarrow> 'w \<Rightarrow> fetch_outcome \<times> 'w) \<Rightarrow> http_request \<Rightarrow> 'w \<times> exchange list \<Rightarrow> fetch_outcome \<times> 'w \<times> exchange list" where
  "recording_net net req s = (case net req (fst s) of (out, w) \<Rightarrow> (out, w, snd s @ [(req, out)]))"

definition ff_recording :: "'w fixedfloat \<Rightarrow> ('w \<times> exchange list) fixedfloat" where
  "ff_recording c = \<lparr> fa_settings = fa_settings c, fa_net = recording_net (fa_net c), fa_hmac = fa_hmac c, fa_parseFloat = fa_parseFloat c,
     fa_now = (\<lambda>s. fa_now c (fst s)), fa_random = (\<lambda>s. fa_random c (fst s)), fa_ccies = fa_ccies c, fa_price = fa_price c,
     fa_order = fa_order c, fa_status = fa_status c, fa_emergency = fa_emergency c \<rparr>"

definition ss_recording :: "'w sideshift \<Rightarrow> ('w \<times> exchange list) sideshift" where
  "ss_recording c = \<lparr> sa_settings = sa_settings c, sa_net = recording_net (sa_net c), sa_settle = sa_settle c, sa_ceil = sa_ceil c,
     sa_floor = sa_floor c, sa_micro = sa_micro c, sa_now = (\<lambda>s. sa_now c (fst s)), sa_random = (\<lambda>s. sa_random c (fst s)),
     sa_pair = sa_pair c, sa_shift = sa_shift c, sa_status = sa_status c \<rparr>"

lemma ff_recording_fields [simp]:
  "fa_settings (ff_recording c) = fa_settings c" "fa_net (ff_recording c) = recording_net (fa_net c)"
  "fa_status (ff_recording c) = fa_status c" "ff_request (ff_recording c) endpoint payload = ff_request c endpoint payload"
  by (simp_all add: ff_recording_def ff_request_def Let_def cong: option.case_cong)

lemma ss_recording_fields [simp]:
  "sa_settings (ss_recording c) = sa_settings c" "sa_net (ss_recording c) = recording_net (sa_net c)" "sa_status (ss_recording c) = sa_status c"
  by (simp_all add: ss_recording_def)

abbreviation grows_log :: "('w \<times> exchange list, 'a) pact \<Rightarrow> bool" where
  "grows_log \<equiv> run_order.rises (longer snd) (\<lambda>_ _ _. True)"

lemma grows_fetch: "grows_log (fetch (recording_net net) req)"
  unfolding fetch_def by (rule logged.rises_call) (auto simp: recording_net_def longer_def split: prod.splits)

lemma grows_reads:
  "grows_log (from_result r)" "grows_log (deref x)" "grows_log (ff_atomic a d)" "grows_log (as_bigint n)" "grows_log (ss_failed m)"
  by (simp_all add: from_result_def deref_def ff_atomic_def as_bigint_def ss_failed_def logged.rises_ret logged.rises_thr split: sum.split option.split)

lemma grows_post: "grows_log (postRequest (ff_recording c) decode endpoint payload)"
  unfolding postRequest_def ff_recording_fields Let_def
  by (intro logged.rises_rules grows_fetch) (auto intro!: logged.rises_rules split: fetch_outcome.split)

lemmas grows_rules = logged.rises_rules grows_post grows_reads grows_fetch

lemma grows_ff:
  "grows_log (ff_getQuote (ff_recording c) q)"
  "grows_log (ff_createExecution (ff_recording c) r)"
  "grows_log (ff_getStatus (ff_recording c) i t)"
  "grows_log (ff_getRuntimeAvailability (ff_recording c))"
proof -
  show "grows_log (ff_getQuote (ff_recording c) q)"
    unfolding ff_getQuote_def Let_def by (intro grows_rules)
  show "grows_log (ff_createExecution (ff_recording c) r)"
    unfolding ff_createExecution_def Let_def by (intro grows_rules)
  show "grows_log (ff_getStatus (ff_recording c) i t)"
    unfolding ff_getStatus_def paid_out_def by (intro grows_rules)
  show "grows_log (ff_getRuntimeAvailability (ff_recording c))"
    unfolding ff_getRuntimeAvailability_def getCurrencies_def live_limits_def getPriceDetails_def by (intro grows_rules)
qed

lemma grows_ss_fetch:
  "(\<And>status text. grows_log (otherwise status text)) \<Longrightarrow> (\<And>d. grows_log (k d)) \<Longrightarrow> grows_log (ss_fetch (ss_recording c) req decode otherwise k)"
  unfolding ss_fetch_def ss_recording_fields by (intro grows_rules) (auto intro!: grows_rules split: fetch_outcome.split)

lemma grows_ss:
  "grows_log (ss_getQuote (ss_recording c) q)"
  "grows_log (ss_createExecution (ss_recording c) r)"
  "grows_log (ss_getStatus (ss_recording c) i)"
  unfolding ss_getQuote_def ss_createExecution_def ss_getStatus_def Let_def by (intro grows_ss_fetch grows_rules)+

section \<open>Orchestrators over them\<close>

abbreviation world_log :: "('w \<Rightarrow> 'x list) \<Rightarrow> 'w osys \<Rightarrow> 'x list" where
  "world_log lg s \<equiv> lg (o_world s)"

definition keeps_log :: "('w \<Rightarrow> 'x list) \<Rightarrow> ('w, 'a) ocall \<Rightarrow> bool" where
  "keeps_log lg f \<longleftrightarrow> (\<forall>s. longer (world_log lg) s (snd (f s)))"

definition quiet_provider :: "('w \<Rightarrow> 'x list) \<Rightarrow> 'w provider \<Rightarrow> bool" where
  "quiet_provider lg p \<longleftrightarrow> (\<forall>f. pr_capabilities p = Some f \<longrightarrow> keeps_log lg f) \<and> (\<forall>q. keeps_log lg (pr_getQuote p q)) \<and>
     (\<forall>r. keeps_log lg (pr_createExecution p r)) \<and> (\<forall>i t. keeps_log lg (pr_getStatus p i t)) \<and>
     (\<forall>f. pr_getRuntimeAvailability p = Some f \<longrightarrow> keeps_log lg f)"

definition quiet_others :: "('w \<Rightarrow> 'x list) \<Rightarrow> 'w orchestrator \<Rightarrow> bool" where
  "quiet_others lg c \<longleftrightarrow> (\<forall>i f. oc_plannerEdge c i = Some f \<longrightarrow> keeps_log lg f) \<and> (\<forall>q. keeps_log lg (oc_verifySettlement c q)) \<and>
     (\<forall>k. keeps_log lg (oc_otherExecution c k)) \<and> (\<forall>s. longer (world_log lg) s (oc_others c s)) \<and>
     (\<forall>s. longer (world_log lg) s (oc_sleep c s))"

lemma keeps_p_call: "grows_log m \<Longrightarrow> keeps_log snd (p_call m)"
  unfolding keeps_log_def p_call_def
  by (auto simp: longer_def split: prod.split dest!: logged.risesD(1))

lemma grows_map: "grows_log m \<Longrightarrow> grows_log (p_map f m)"
  unfolding p_map_def by (intro grows_rules)

lemma quiet_adapters:
  "quiet_provider snd (fixedfloat_provider (ff_recording c))" "quiet_provider snd (sideshift_provider (ss_recording k))"
  unfolding quiet_provider_def
  by (auto simp: fixedfloat_provider_def sideshift_provider_def intro!: keeps_p_call grows_map grows_ff grows_ss grows_rules)

section \<open>Placing the events of a run\<close>

fun met :: "'w orchestrator \<Rightarrow> 'w osys \<Rightarrow> 'w osys \<Rightarrow> orch_event \<Rightarrow> bool" where
  "met c s0 s1 (PvStatus pid i t r) \<longleftrightarrow> (\<exists>p. the_provider c pid = Some p \<and> pr_getStatus p i t s0 = (r, s1))"
| "met c s0 s1 _ \<longleftrightarrow> True"

definition quiet :: "('w \<Rightarrow> 'x list) \<Rightarrow> 'w orchestrator \<Rightarrow> bool" where
  "quiet lg c \<longleftrightarrow> quiet_others lg c \<and> (\<forall>pid p. the_provider c pid = Some p \<longrightarrow> quiet_provider lg p)"

abbreviation places :: "('w \<Rightarrow> 'x list) \<Rightarrow> 'w orchestrator \<Rightarrow> ('w, 'a) oact \<Rightarrow> bool" where
  "places lg c \<equiv> run_order.rises (longer (world_log lg)) (met c)"

lemma places_call:
  assumes "keeps_log lg f" "\<And>s r s'. f s = (r, s') \<Longrightarrow> met c s s' (ev r)"
  shows "places lg c (call ev f)"
proof (rule logged.rises_call)
  fix s r s' assume f: "f s = (r, s')"
  have "longer (world_log lg) s (snd (f s))" using assms(1) by (simp add: keeps_log_def)
  then show "longer (world_log lg) s s' \<and> met c s s' (ev r)" using assms(2) [OF f] f by simp
qed

lemma keeps_store:
  assumes "quiet lg c"
  shows "keeps_log lg (store_call c f)"
  using assms by (auto simp: keeps_log_def store_call_def longer_def quiet_def quiet_others_def Let_def split: prod.split sum.split)

lemma places_store:
  assumes "quiet lg c"
  shows "places lg c (st_create c key intent plan)" "places lg c (st_claim c i operation j pid start)" "places lg c (st_move c i st reason trigger u)"
    "places lg c (st_journal c j ju)" "places lg c (peek c g)" "places lg c (check_transition a b)"
proof -
  have o: "longer (world_log lg) s (oc_others c s)" for s using assms by (simp add: quiet_def quiet_others_def)
  show "places lg c (st_create c key intent plan)" "places lg c (st_claim c i operation j pid start)" "places lg c (st_move c i st reason trigger u)"
    unfolding st_create_def st_claim_def st_move_def by (rule places_call [OF keeps_store [OF assms]], simp)+
  show "places lg c (st_journal c j ju)" unfolding st_journal_def by (rule logged.rises_change) (use o in \<open>simp add: Let_def longer_def\<close>)
  show "places lg c (peek c g)" unfolding peek_def by (intro logged.rises_rules logged.rises_change o)
  show "places lg c (check_transition a b)" unfolding check_transition_def by (intro logged.rises_rules)
qed

lemma places_current: "quiet lg c \<Longrightarrow> places lg c (current_execution c i)"
  unfolding current_execution_def by (intro logged.rises_rules places_store)

lemma places_retry: "quiet lg c \<Longrightarrow> places lg c (handleRecoveryRetry c record reason)"
  unfolding handleRecoveryRetry_def Let_def by (intro logged.rises_rules places_store)

lemma places_verify: "quiet lg c \<Longrightarrow> places lg c (call (ChVerify q) (oc_verifySettlement c q))"
  by (rule places_call) (auto simp: quiet_def quiet_others_def)

lemmas places_rules = logged.rises_rules places_store places_current places_retry places_verify

lemma places_on_status: "quiet lg c \<Longrightarrow> places lg c (on_status c record st)"
  unfolding on_status_def on_waiting_def on_deposit_def on_processing_def on_settling_def on_completed_def on_refunded_def
    on_expired_def on_failed_def Let_def
  by (cases "ps_status st"; simp only: provider_status_kind.case; intro places_rules; assumption?)

lemma places_provider:
  assumes "quiet lg c" "the_provider c pid = Some p"
  shows "places lg c (call (PvStatus pid i t) (pr_getStatus p i t))" "places lg c (call (PvCreate pid request) (pr_createExecution p request))"
    "pr_capabilities p = Some f \<Longrightarrow> places lg c (call (PvCapabilities pid) f)"
proof -
  have q: "quiet_provider lg p" using assms by (simp add: quiet_def)
  show "places lg c (call (PvStatus pid i t) (pr_getStatus p i t))"
    by (rule places_call) (use q assms(2) in \<open>auto simp: quiet_provider_def\<close>)
  show "places lg c (call (PvCreate pid request) (pr_createExecution p request))"
    by (rule places_call) (use q in \<open>auto simp: quiet_provider_def\<close>)
  show "pr_capabilities p = Some f \<Longrightarrow> places lg c (call (PvCapabilities pid) f)"
    by (rule places_call) (use q in \<open>auto simp: quiet_provider_def\<close>)
qed

lemma places_query:
  assumes "quiet lg c" "the_provider c pid = Some p"
  shows "places lg c (query_status c pid p record)" "places lg c (missing_provider_id c pid p record)"
  unfolding query_status_def missing_provider_id_def
  by (intro places_rules places_on_status places_provider(1) places_provider(3) [OF assms] assms; assumption)+

lemma places_reconcile: "quiet lg c \<Longrightarrow> places lg c (reconcileExecution c i)"
  unfolding reconcileExecution_def by (intro places_rules places_query)

lemma places_await: "quiet lg c \<Longrightarrow> places lg c (await_loop c n i start)"
proof (induction n)
  case (Suc n)
  have sleep: "places lg c (change (oc_sleep c))" using Suc(2) by (intro logged.rises_change) (simp add: quiet_def quiet_others_def)
  note again = Suc(1) [OF Suc(2)]
  show ?case unfolding await_loop.simps by (intro places_rules places_reconcile sleep again Suc(2))
qed (simp add: logged.rises_thr)

lemma places_initiate: "quiet lg c \<Longrightarrow> places lg c (initiateExecution c key intent quote plan)"
proof -
  assume q: "quiet lg c"
  have other: "places lg c (call (AwaitExecution key) (oc_otherExecution c key))"
    by (rule places_call) (use q in \<open>auto simp: quiet_def quiet_others_def\<close>)
  have inflight: "places lg c (change (\<lambda>s. s\<lparr>o_inflight := f s\<rparr>))" for f
    by (rule logged.rises_change) (simp add: longer_def)
  show ?thesis
    unfolding initiateExecution_def executeInternal_def existing_execution_def awaitOrReconcileExecution_def dispatch_execution_def
      dispatch_provider_def dispatch_error_def Let_def
    by (intro places_rules places_await places_reconcile places_provider other inflight q)
qed

lemma places_plan: "quiet lg c \<Longrightarrow> places lg c (executePlan c plan key)"
proof -
  assume q: "quiet lg c"
  have edge: "places lg c (call (PvAvailability j) f)" if "plan_edge c i = Some (Some f)" for i j f
  proof (rule places_call)
    show "keeps_log lg f"
      using that q by (auto simp: plan_edge_def quiet_def quiet_others_def quiet_provider_def split: option.splits)
  qed simp
  show ?thesis unfolding executePlan_def plan_available_def by (intro places_rules places_initiate edge q) auto
qed

lemma places_ids: "quiet lg c \<Longrightarrow> places lg c (reconcile_ids c ids)"
proof (induction ids)
  case (Cons i ids)
  note again = Cons(1) [OF Cons(2)]
  show ?case unfolding reconcile_ids.simps by (intro places_rules places_reconcile again Cons(2))
qed (simp add: logged.rises_ret)

lemma places_run: "quiet lg c \<Longrightarrow> places lg c (run_orch c oper)"
  by (cases oper) (simp_all only: run_orch.simps reconcileAllInFlight_def, (intro places_rules places_initiate places_plan places_reconcile places_ids; assumption)+)

end
