(* ===== verification/Provider_Runs.thy ===== *)
theory Provider_Runs
  imports Provider_Log
begin

text \<open>
  The adapters under the components that use them: FixedFloat as an edge of the planner, and FixedFloat and
  SideShift as the provider of the orchestrator, through one contract: a status that says COMPLETED rests on an answer of the service
  in the same call.
\<close>

section \<open>Under the planner\<close>

text \<open>The availability call as the planner makes it.\<close>

lemma edge_call:
  "\<exists>a t s'. ff_getRuntimeAvailability c s = (Inr a, t, s') \<and>
     eg_getRuntimeAvailability (fixedfloat_edge c) s = (Inr (availability.truncate a), s')"
  using availability_total [of c s] by (auto simp: fixedfloat_edge_def p_map_def bnd_def ret_def)

lemma truncate_fields [simp]:
  "av_isAvailable (availability.truncate a) = av_isAvailable a" "av_isMaintenance (availability.truncate a) = av_isMaintenance a"
  "av_minAmountAtomic (availability.truncate a) = av_minAmountAtomic a" "av_recvEnabled (availability.truncate a) = av_recvEnabled a"
  "av_reason (availability.truncate a) = av_reason a" "av_maxAmountAtomic (availability.truncate a) = av_maxAmountAtomic a"
  by (simp_all add: availability.truncate_def)

lemma one_edge [simp]: "getAllEdges (create_planner [e]) = [e]"
  by (simp add: getAllEdges_def create_planner_def registerEdge_def)

text \<open>The planner with this one edge, after the availability call.\<close>

lemma one_edge_routes:
  assumes "eg_getRuntimeAvailability e s = (Inr a, s1)" "eg_supportsRoute e src dst" "parse_amount text = Inr amount"
  shows "findRoutes collate uuid (create_planner [e]) src dst text policy s =
    (case judge_edge amount a of
       Inl x \<Rightarrow> (Inl x, [EdgeAvailability (eg_id e) (Inr a)], s1)
     | Inr v \<Rightarrow> (let sc = note_verdict (''route_'' @ uuid s1) src dst e a v empty_scan in
         if sc_candidates sc = [] then (Inl (no_candidate text sc), [EdgeAvailability (eg_id e) (Inr a)], s1)
         else (Inr (rankCandidates collate (sc_candidates sc) policy), [EdgeAvailability (eg_id e) (Inr a)], s1)))"
  using assms by (simp add: findRoutes_def bnd_def call_def thr_def ret_def ask_def Let_def split: sum.split)

text \<open>A FixedFloat route is offered only while FixedFloat is open. When the planner over the FixedFloat edge returns routes, they are this one
  edge, the pair is one FixedFloat serves, and the adapter's own \<open>/ccies\<close> request in this very call was answered with BTCLN
  open for receiving and USDCBASE open for sending; the amount reaches the minimum the edge reported.\<close>

theorem fixedfloat_route_live:
  assumes "findRoutes collate uuid (create_planner [fixedfloat_edge c]) src dst text policy s = (Inr cs, t, s')"
  shows "ff_supportsRoute src dst \<and> (\<exists>amount least a calls s1 status body e listed rest.
    js_BigInt text = Some amount \<and> ff_getRuntimeAvailability c s = (Inr a, calls, s1) \<and>
    (\<forall>x \<in> set cs. eg_id (rc_edge x) = ''fixedfloat'' \<and> rc_availability x = availability.truncate a) \<and>
    js_BigInt (av_minAmountAtomic a) = Some least \<and> least \<le> amount \<and>
    calls = Fetched (ff_request c ''/ccies'' []) (FetchAnswer status body) # rest \<and> response_ok status \<and>
    fa_ccies c body = Some e \<and> ev_code e = 0 \<and> ev_data e = Some listed \<and>
    currency_listed fc_recv ''BTCLN'' listed \<and> currency_listed fc_send ''USDCBASE'' listed)"
proof -
  let ?e = "fixedfloat_edge c"
  obtain amount where amount: "parse_amount text = Inr amount"
    using assms by (auto simp: findRoutes_def thr_def split: sum.splits)
  then have n: "js_BigInt text = Some amount" by (auto simp: parse_amount_def split: option.splits)
  have sup: "eg_supportsRoute ?e src dst" using assms amount by (auto simp: findRoutes_def thr_def split: if_splits)
  obtain a calls s1 where a: "ff_getRuntimeAvailability c s = (Inr a, calls, s1)"
      "eg_getRuntimeAvailability ?e s = (Inr (availability.truncate a), s1)"
    using edge_call [of c s] by blast
  have j: "judge_edge amount (availability.truncate a) = Inr V_ELIGIBLE"
    using assms by (auto simp: one_edge_routes [OF a(2) sup amount] note_verdict_def empty_scan_def Let_def
        split: sum.splits verdict.splits if_splits)
  have cs: "set cs = {\<lparr> rc_routeId = ''route_'' @ uuid s1, rc_edge = ?e, rc_sourceNode = src, rc_destinationNode = dst,
      rc_availability = availability.truncate a \<rparr>}"
    using assms j by (auto simp: one_edge_routes [OF a(2) sup amount] note_verdict_def empty_scan_def Let_def)
  have ok: "\<not> av_isMaintenance a" and least: "\<exists>least. js_BigInt (av_minAmountAtomic a) = Some least \<and> least \<le> amount"
    using j [unfolded judge_eligible] by (auto simp: executable_def split: option.splits)
  have "ff_supportsRoute src dst" using sup by (simp add: fixedfloat_edge_def)
  moreover have "\<forall>x \<in> set cs. eg_id (rc_edge x) = ''fixedfloat'' \<and> rc_availability x = availability.truncate a"
    by (simp add: cs fixedfloat_edge_def)
  ultimately show ?thesis using n a(1) least available_live [OF a(1) disjI1 [OF ok]] by blast
qed

text \<open>When the API cannot be reached the route is reported as being in maintenance.\<close>

lemma unreachable_is_maintenance:
  assumes "\<And>req s. fa_net c req s = (FetchFailure m, s)" "ff_supportsRoute src dst" "parse_amount text = Inr amount"
  shows "fst (findRoutes collate uuid (create_planner [fixedfloat_edge c]) src dst text policy s) =
    Inl (RErr (R_ROUTER PROVIDER_MAINTENANCE) (''ROUTE_UNAVAILABLE: '' @ sanitizeError (fa_settings c) (sanitizeError (fa_settings c) m)))"
proof -
  have e: "eg_getRuntimeAvailability (fixedfloat_edge c) s = (Inr (availability.truncate (in_maintenance (fa_now c s) False False ''0''
      (''ROUTE_UNAVAILABLE: '' @ sanitizeError (fa_settings c) (sanitizeError (fa_settings c) m)))), s)"
    by (simp add: fixedfloat_edge_def p_map_def ff_getRuntimeAvailability_def getCurrencies_def postRequest_def fetch_def call_def bnd_def
        ask_def attempt_def ret_def thr_def assms(1))
  have sup: "eg_supportsRoute (fixedfloat_edge c) src dst" using assms(2) by (simp add: fixedfloat_edge_def)
  show ?thesis
    by (simp add: one_edge_routes [OF e sup assms(3)] judge_edge_def in_maintenance_def note_verdict_def empty_scan_def no_candidate_def
        truthy_str_def Let_def)
qed

section \<open>Under the orchestrator\<close>

text \<open>The contract: a status that says COMPLETED with a settlement transaction was got by an exchange, in that very call, in which
  the service said so about this order.\<close>

locale paying_provider =
  fixes p :: "'w provider"
    and lg :: "'w \<Rightarrow> 'x list"
    and said :: "string option \<Rightarrow> string option \<Rightarrow> string \<Rightarrow> 'x \<Rightarrow> bool"
  assumes quiet: "quiet_provider lg p"
    and reported: "pr_getStatus p i t s = (Inr st, s') \<Longrightarrow> ps_status st = PS_COMPLETED \<Longrightarrow> ps_settleTxId st = Some tx \<Longrightarrow>
      \<exists>y \<in> set (gained (world_log lg) s s'). said i t tx y"
    and never_failed: "pr_getStatus p i t s = (Inr st, s') \<Longrightarrow> ps_status st \<noteq> PS_FAILED"
begin

lemma from_provider:
  assumes "\<forall>pid q. the_provider c pid = Some q \<longrightarrow> q = p" "quiet_others lg c" "run_orch c oper s = (res, T, s')"
    "PvStatus pid i t (Inr st) \<in> set T"
  obtains s0 s1 where "longer (world_log lg) s s0" "longer (world_log lg) s1 s'" "pr_getStatus p i t s0 = (Inr st, s1)"
proof -
  have "quiet lg c" using assms(1,2) quiet by (auto simp: quiet_def)
  from logged.risesD(2) [OF places_run [OF this] assms(3,4)]
  obtain s0 s1 where at: "longer (world_log lg) s s0" "longer (world_log lg) s1 s'" "met c s0 s1 (PvStatus pid i t (Inr st))" by blast
  then obtain q where "the_provider c pid = Some q" "pr_getStatus q i t s0 = (Inr st, s1)" by auto
  then show ?thesis using that [OF at(1,2)] assms(1) by blast
qed

text \<open>Over such a provider an execution completes only behind a status that the service reported in this run, and a verified payment.\<close>

lemma completion_said:
  assumes "\<forall>pid q. the_provider c pid = Some q \<longrightarrow> q = p" "quiet_others lg c"
    "run_orch c oper s = (res, pre @ StMove x ES_COMPLETED r # post, s')"
  shows "\<exists>pid i t st tx y q v. PvStatus pid i t (Inr st) \<in> set pre \<and> ps_status st = PS_COMPLETED \<and> ps_settleTxId st = Some tx \<and> tx \<noteq> '''' \<and>
    y \<in> set (gained (world_log lg) s s') \<and> said i t tx y \<and> ChVerify q (Inr v) \<in> set pre \<and> vq_txHash q = tx \<and> vr_verified v"
proof -
  have "trace (run_orch c oper) s = pre @ StMove x ES_COMPLETED r # post" by (simp add: trace_def assms(3))
  then have "orch_guard pre (StMove x ES_COMPLETED r)" by (rule wp_at [OF wp_run_orch])
  then obtain tx where tx: "seen (is_status (completed_with tx)) pre" "seen (is_verified tx) pre"
    by (auto simp: orch_guard_def)
  then obtain pid i t st where st: "PvStatus pid i t (Inr st) \<in> set pre" "completed_with tx st"
    by (auto simp: seen_def elim!: is_status.elims)
  then have c: "ps_status st = PS_COMPLETED" "ps_settleTxId st = Some tx" "tx \<noteq> ''''" by (simp_all add: completed_with_def)
  have "PvStatus pid i t (Inr st) \<in> set (pre @ StMove x ES_COMPLETED r # post)" using st(1) by simp
  from from_provider [OF assms(1-3) this] obtain s0 s1 where at: "longer (world_log lg) s s0" "longer (world_log lg) s1 s'"
      "pr_getStatus p i t s0 = (Inr st, s1)" by blast
  have "longer (world_log lg) s0 s1" using quiet at(3) by (auto simp: quiet_provider_def keeps_log_def) (metis snd_conv)
  moreover obtain y where "y \<in> set (gained (world_log lg) s0 s1)" "said i t tx y" using reported [OF at(3) c(1,2)] by blast
  ultimately have y: "y \<in> set (gained (world_log lg) s s')" "said i t tx y" using gained_within [OF at(1,2)] by auto
  obtain q v where "ChVerify q (Inr v) \<in> set pre" "vq_txHash q = tx" "vr_verified v"
    using tx(2) by (auto simp: seen_def elim!: is_verified.elims)
  then show ?thesis using st(1) c y by blast
qed

lemma no_failed_status:
  assumes "\<forall>pid q. the_provider c pid = Some q \<longrightarrow> q = p" "quiet_others lg c" "run_orch c oper s = (res, T, s')"
    "PvStatus pid i t (Inr st) \<in> set T"
  shows "ps_status st \<noteq> PS_FAILED"
  by (rule from_provider [OF assms]) (rule never_failed)

end

section \<open>FixedFloat and SideShift keep the contract\<close>

lemma post_asked:
  assumes "postRequest c decode endpoint payload s = (Inr x, t, s')"
  obtains status body e where "fa_net c (ff_request c endpoint payload) s = (FetchAnswer status body, s')"
    "response_ok status" "decode body = Some e" "ev_code e = 0" "ev_data e = x"
  using assms
  by (auto simp: postRequest_def fetch_def call_def bnd_def thr_def ret_def ff_answer_def Let_def
      split: prod.splits sum.splits fetch_outcome.splits option.splits if_splits)

definition order_query :: "string \<Rightarrow> string \<Rightarrow> (string \<times> json_value) list" where
  "order_query i token = [(''id'', J_str i), (''token'', J_str token)]"

text \<open>An exchange in which the API answered the status request for this order with DONE and this transaction.\<close>

definition ff_said :: "'w fixedfloat \<Rightarrow> string option \<Rightarrow> string option \<Rightarrow> string \<Rightarrow> exchange \<Rightarrow> bool" where
  "ff_said c i t tx y \<longleftrightarrow> (\<exists>token status body e d. t = Some token \<and> token \<noteq> '''' \<and>
     y = (ff_request c ''/order'' (order_query (coalesce i '''') token), FetchAnswer status body) \<and> response_ok status \<and>
     fa_status c body = Some e \<and> ev_code e = 0 \<and> ev_data e = Some d \<and> to_upper (ft_status d) = ''DONE'' \<and> ft_toTx d = Some tx)"

lemma mapped_done: "mapFixedFloatStatus x = PS_COMPLETED \<longleftrightarrow> to_upper x = ''DONE''"
  by (simp add: mapFixedFloatStatus_def Let_def)

lemma mapped_never_failed: "mapFixedFloatStatus x \<noteq> PS_FAILED"
  by (simp add: mapFixedFloatStatus_def Let_def)

lemma paid_out_state: "paid_out a s = (Inr x, t, s') \<Longrightarrow> s' = s"
  by (auto simp: paid_out_def ff_atomic_def bnd_from_result returns split: option.splits if_splits sum.splits)

lemma ff_status_answer:
  assumes "ff_getStatus c i t s = (Inr st, tr, s')"
  shows "ps_status st = PS_UNKNOWN \<or> (\<exists>token status body e d. t = Some token \<and> token \<noteq> '''' \<and>
     fa_net c (ff_request c ''/order'' (order_query i token)) s = (FetchAnswer status body, s') \<and> response_ok status \<and>
     fa_status c body = Some e \<and> ev_code e = 0 \<and> ev_data e = Some d \<and>
     ps_status st = mapFixedFloatStatus (ft_status d) \<and> ps_settleTxId st = ft_toTx d)"
proof (cases "truthy_str t")
  case None
  then show ?thesis using assms by (auto simp: ff_getStatus_def returns)
next
  case (Some token)
  then have t: "t = Some token" "token \<noteq> ''''" by (auto simp: truthy_str_def split: if_splits)
  obtain d t1 s1 where d: "postRequest c (fa_status c) ''/order'' (order_query i token) s = (Inr (Some d), t1, s1)" "s' = s1"
      "ps_status st = mapFixedFloatStatus (ft_status d)" "ps_settleTxId st = ft_toTx d"
    using assms Some by (auto simp: ff_getStatus_def order_query_def bnd_deref returns dest!: paid_out_state split: option.splits)
  show ?thesis by (rule post_asked [OF d(1)]) (use d t in auto)
qed

text \<open>A recorded call that ends in its exchange gained exactly that.\<close>

lemma recorded_exchange:
  assumes "recording_net net req w = (out, w')"
  shows "(req, out) \<in> set (gained snd w w')"
  using assms by (auto simp: recording_net_def gained_def split: prod.splits)

lemma p_call_cases:
  assumes "p_call m s = (Inr x, s')"
  obtains tr w where "m (o_world s) = (Inr x, tr, w)" "s' = s\<lparr>o_world := w\<rparr>"
  using assms by (auto simp: p_call_def split: prod.splits)

interpretation ff: paying_provider "fixedfloat_provider (ff_recording c)" snd "ff_said c" for c :: "'w fixedfloat"
proof
  show "quiet_provider snd (fixedfloat_provider (ff_recording c))" by (rule quiet_adapters)
next
  fix i t and s s' :: "('w \<times> exchange list) osys" and st
  assume "pr_getStatus (fixedfloat_provider (ff_recording c)) i t s = (Inr st, s')"
  then obtain tr w where st: "ff_getStatus (ff_recording c) (coalesce i '''') t (o_world s) = (Inr st, tr, w)" "s' = s\<lparr>o_world := w\<rparr>"
    by (auto simp: fixedfloat_provider_def elim: p_call_cases)
  note a = ff_status_answer [OF st(1), unfolded ff_recording_fields]
  show "ps_status st \<noteq> PS_FAILED" using a by (auto simp: mapped_never_failed)
  fix tx assume paid: "ps_status st = PS_COMPLETED" "ps_settleTxId st = Some tx"
  from a paid obtain token status body e d where f: "t = Some token" "token \<noteq> ''''"
      "recording_net (fa_net c) (ff_request c ''/order'' (order_query (coalesce i '''') token)) (o_world s) = (FetchAnswer status body, w)"
      "response_ok status" "fa_status c body = Some e" "ev_code e = 0" "ev_data e = Some d"
      "to_upper (ft_status d) = ''DONE''" "ft_toTx d = Some tx"
    unfolding mapped_done [symmetric] by (elim disjE exE conjE) (simp, metis)
  have g: "(ff_request c ''/order'' (order_query (coalesce i '''') token), FetchAnswer status body) \<in> set (gained (world_log snd) s s')"
    using recorded_exchange [OF f(3)] st(2) by (simp add: gained_def)
  show "\<exists>y \<in> set (gained (world_log snd) s s'). ff_said c i t tx y"
    by (rule bexI [OF _ g]) (use f in \<open>auto simp: ff_said_def\<close>)
qed

definition shift_request :: "'w sideshift \<Rightarrow> string \<Rightarrow> http_request" where
  "shift_request c i = \<lparr> hr_method = ''GET'', hr_url = sh_baseUrl (sa_settings c) @ ''/shifts/'' @ i,
     hr_headers = [(''User-Agent'', ''UniversalAgentAssetRouter/0.1.0'')], hr_body = None \<rparr>"

definition ss_said :: "'w sideshift \<Rightarrow> string option \<Rightarrow> string option \<Rightarrow> string \<Rightarrow> exchange \<Rightarrow> bool" where
  "ss_said c i t tx y \<longleftrightarrow> (\<exists>status body d. y = (shift_request c (coalesce i ''''), FetchAnswer status body) \<and>
     response_ok status \<and> sa_status c body = Inr d \<and> to_lower (sx_status d) = ''settled'' \<and> sx_settleHash d = Some tx)"

lemma ss_mapped: "ss_mapStatus x = PS_COMPLETED \<longleftrightarrow> to_lower x = ''settled''" "ss_mapStatus x \<noteq> PS_FAILED"
  by (simp_all add: ss_mapStatus_def Let_def)

lemma as_bigint_state: "as_bigint n s = (Inr x, t, s') \<Longrightarrow> s' = s"
  by (auto simp: as_bigint_def returns split: option.splits)

lemma ss_status_answer:
  assumes "ss_getStatus c i s = (Inr st, tr, s')"
  shows "ps_status st = PS_UNKNOWN \<or> (\<exists>status body d. sa_net c (shift_request c i) s = (FetchAnswer status body, s') \<and>
     response_ok status \<and> sa_status c body = Inr d \<and> ps_status st = ss_mapStatus (sx_status d) \<and> ps_settleTxId st = sx_settleHash d)"
  using assms
  by (auto simp: ss_getStatus_def shift_request_def ss_fetch_def fetch_def call_def ss_failed_def unknown_order_def Let_def returns
      dest!: as_bigint_state split: prod.splits fetch_outcome.splits sum.splits option.splits if_splits)

interpretation ss: paying_provider "sideshift_provider (ss_recording c)" snd "ss_said c" for c :: "'w sideshift"
proof
  show "quiet_provider snd (sideshift_provider (ss_recording c))" by (rule quiet_adapters)
next
  fix i t and s s' :: "('w \<times> exchange list) osys" and st
  assume "pr_getStatus (sideshift_provider (ss_recording c)) i t s = (Inr st, s')"
  then obtain tr w where st: "ss_getStatus (ss_recording c) (coalesce i '''') (o_world s) = (Inr st, tr, w)" "s' = s\<lparr>o_world := w\<rparr>"
    by (auto simp: sideshift_provider_def elim: p_call_cases)
  have q: "shift_request (ss_recording c) j = shift_request c j" for j by (simp add: shift_request_def)
  note a = ss_status_answer [OF st(1), unfolded ss_recording_fields q]
  show "ps_status st \<noteq> PS_FAILED" using a by (auto simp: ss_mapped)
  fix tx assume paid: "ps_status st = PS_COMPLETED" "ps_settleTxId st = Some tx"
  from a paid obtain status body d where f:
      "recording_net (sa_net c) (shift_request c (coalesce i '''')) (o_world s) = (FetchAnswer status body, w)"
      "response_ok status" "sa_status c body = Inr d" "to_lower (sx_status d) = ''settled''" "sx_settleHash d = Some tx"
    unfolding ss_mapped(1) [symmetric] by (elim disjE exE conjE) (simp, metis)
  have g: "(shift_request c (coalesce i ''''), FetchAnswer status body) \<in> set (gained (world_log snd) s s')"
    using recorded_exchange [OF f(1)] st(2) by (simp add: gained_def)
  show "\<exists>y \<in> set (gained (world_log snd) s s'). ss_said c i t tx y"
    by (rule bexI [OF _ g]) (use f in \<open>auto simp: ss_said_def\<close>)
qed

text \<open>C29: With FixedFloat as its provider the orchestrator completes an execution only on a payment that FixedFloat reported in this
  run and the chain confirmed. With every HTTP exchange of the adapter recorded, and whatever entry point runs and other
  processes do short of erasing records: before a move to COMPLETED the provider's status was queried with some order id and token and came back COMPLETED with a
  payout transaction; the run recorded the signed status request for this id and token with an answer that was accepted and says DONE with
  this transaction; and the verifier confirmed that very transaction before the move.\<close>

theorem fixedfloat_completion_reported:
  assumes "\<forall>pid q. the_provider orch pid = Some q \<longrightarrow> q = fixedfloat_provider (ff_recording c)" "quiet_others snd orch"
    "run_orch orch oper s = (res, pre @ StMove x ES_COMPLETED r # post, s')"
  shows "\<exists>pid i token st tx status body e d q v. PvStatus pid i (Some token) (Inr st) \<in> set pre \<and>
    ps_status st = PS_COMPLETED \<and> ps_settleTxId st = Some tx \<and> tx \<noteq> '''' \<and> token \<noteq> '''' \<and>
    (ff_request c ''/order'' [(''id'', J_str (coalesce i '''')), (''token'', J_str token)], FetchAnswer status body)
      \<in> set (drop (length (snd (o_world s))) (snd (o_world s'))) \<and> response_ok status \<and>
    fa_status c body = Some e \<and> ev_code e = 0 \<and> ev_data e = Some d \<and> to_upper (ft_status d) = ''DONE'' \<and> ft_toTx d = Some tx \<and>
    ChVerify q (Inr v) \<in> set pre \<and> vq_txHash q = tx \<and> vr_verified v"
proof -
  obtain pid i t st tx y q v where p: "PvStatus pid i t (Inr st) \<in> set pre" "ps_status st = PS_COMPLETED" "ps_settleTxId st = Some tx" "tx \<noteq> ''''"
      "y \<in> set (gained (world_log snd) s s')" "ff_said c i t tx y" "ChVerify q (Inr v) \<in> set pre" "vq_txHash q = tx" "vr_verified v"
    using ff.completion_said [OF assms] by (elim exE conjE)
  from p(6) obtain token status body e d where f: "t = Some token" "token \<noteq> ''''"
      "y = (ff_request c ''/order'' (order_query (coalesce i '''') token), FetchAnswer status body)" "response_ok status"
      "fa_status c body = Some e" "ev_code e = 0" "ev_data e = Some d" "to_upper (ft_status d) = ''DONE''" "ft_toTx d = Some tx"
    unfolding ff_said_def by (elim exE conjE)
  show ?thesis
    using p(1-5,7-9) f(2,4-) unfolding f(1,3) order_query_def gained_def by blast
qed

section \<open>Runs\<close>

definition demo_source :: asset_node where
  "demo_source = createAssetNode ''BTC'' ''lightning'' None"

definition demo_target :: asset_node where
  "demo_target = createAssetNode ''USDC'' ''base'' None"

lemma demo_currencies:
  "fst (ff_getRuntimeAvailability (demo_ff (FetchAnswer 200 ''ccies'')) ()) = Inr (in_service 5 ''1450'' None)"
  by (simp add: ff_getRuntimeAvailability_def ask_def attempt_def getCurrencies_def live_limits_def getPriceDetails_def postRequest_def fetch_def
      call_def demo_ff_def ff_answer_def response_ok_def bnd_def deref_def ret_def thr_def find_currency_def)

theorem fixedfloat_route_live_witness:
  "\<exists>cs t s'. findRoutes (\<lambda>_ _. 0) (\<lambda>_. ''u'') (create_planner [fixedfloat_edge (demo_ff (FetchAnswer 200 ''ccies''))])
      demo_source demo_target ''2000'' RP_FASTEST () = (Inr cs, t, s') \<and> ff_supportsRoute demo_source demo_target"
proof -
  let ?e = "fixedfloat_edge (demo_ff (FetchAnswer 200 ''ccies''))"
  have sup: "ff_supportsRoute demo_source demo_target" by code_simp
  have s: "eg_supportsRoute ?e demo_source demo_target" using sup by (simp add: fixedfloat_edge_def)
  have a: "eg_getRuntimeAvailability ?e () = (Inr (availability.truncate (in_service 5 ''1450'' None)), ())"
    using demo_currencies by (cases "ff_getRuntimeAvailability (demo_ff (FetchAnswer 200 ''ccies'')) ()")
      (simp add: fixedfloat_edge_def p_map_def bnd_def ret_def)
  have n: "js_BigInt ''2000'' = Some 2000" "js_BigInt ''1450'' = Some 1450"
    by (simp_all add: BigInt_digits digits_def digits_value_def digit_value_def)
  have p: "parse_amount ''2000'' = Inr 2000" by (simp add: parse_amount_def n)
  obtain cs t s' where f: "findRoutes (\<lambda>_ _. 0) (\<lambda>_. ''u'') (create_planner [?e]) demo_source demo_target ''2000'' RP_FASTEST () = (Inr cs, t, s')"
    by (simp add: one_edge_routes [OF a s p] judge_edge_def in_service_def parse_amount_def n truthy_str_def note_verdict_def empty_scan_def Let_def)
  from fixedfloat_route_live [OF f] f show ?thesis by blast
qed

text \<open>A run over the adapter equals a run over a provider that answers the same.\<close>

lemma query_agrees:
  assumes "pr_getStatus p = pr_getStatus q"
  shows "query_status c pid p record = query_status c pid q record"
  by (simp add: query_status_def assms)

lemma reconcile_agrees:
  assumes "oc_providers c = [(x, p)]" "k = c\<lparr>oc_providers := [(x, q)]\<rparr>" "pr_getStatus p = pr_getStatus q"
    "pr_capabilities p = pr_capabilities q" "pr_executionClass p = pr_executionClass q"
  shows "reconcileExecution c i = reconcileExecution k i"
proof -
  have m: "st_move c = st_move k" "(peek c :: (db \<Rightarrow> execution_row option) \<Rightarrow> _) = peek k" "oc_date c = oc_date k"
    "oc_maxRecoveryAttempts c = oc_maxRecoveryAttempts k" "oc_verifySettlement c = oc_verifySettlement k"
    by (simp_all add: st_move_def [abs_def] store_call_def [abs_def] peek_def [abs_def] assms(2))
  have cur: "current_execution c = current_execution k" by (intro ext) (simp add: current_execution_def m)
  have retry: "handleRecoveryRetry c = handleRecoveryRetry k" by (intro ext, unfold handleRecoveryRetry_def m) (rule refl)
  have "on_status c = on_status k"
    by (intro ext, unfold on_status_def on_waiting_def on_deposit_def on_processing_def on_settling_def on_completed_def
        on_refunded_def on_expired_def on_failed_def cur retry m) (rule refl)
  then have qs: "query_status c pid p r = query_status k pid q r" for pid r
    unfolding query_status_def retry m assms(3) by simp
  have mi: "missing_provider_id c pid p r = missing_provider_id k pid q r" for pid r
    unfolding missing_provider_id_def m assms(4,5) ..
  have tp: "the_provider c pid = (if pid = x then Some p else None)" "the_provider k pid = (if pid = x then Some q else None)" for pid
    by (simp_all add: the_provider_def assms(1,2))
  show ?thesis
    unfolding reconcileExecution_def m(2)
    by (rule arg_cong [where f = "bnd _"], rule ext) (simp add: tp qs mi cong: if_cong split: option.split)
qed

definition demo_ff_orchestrator :: "(unit \<times> exchange list) orchestrator" where
  "demo_ff_orchestrator = demo_orchestrator (fixedfloat_provider (ff_recording (demo_ff (FetchAnswer 200 ''made''))))"

definition demo_with_token :: "(unit \<times> exchange list) osys" where
  "demo_with_token = \<lparr> o_db = (o_db demo_paid)\<lparr>executions := map (\<lambda>x. x\<lparr>ex_order_token := Some ''tok''\<rparr>) (executions (o_db demo_paid))\<rparr>,
     o_inflight = [], o_world = ((), []) \<rparr>"

text \<open>A provider that answers as the adapter does; \<open>g\<close> is what the call does to the world.\<close>

definition demo_agreeing ::
  "(string option \<Rightarrow> string option \<Rightarrow> unit \<times> exchange list \<Rightarrow> unit \<times> exchange list) \<Rightarrow> (unit \<times> exchange list) provider" where
  "demo_agreeing g = \<lparr> pr_capabilities = Some (\<lambda>s. (Inr (PASSIVE_DEPOSIT, False), s)), pr_executionClass = Some PASSIVE_DEPOSIT,
     pr_getQuote = (\<lambda>i s. (Inr demo_quote, s)), pr_createExecution = (\<lambda>r s. (Inl (RErr R_ERROR ''''), s)),
     pr_getStatus = (\<lambda>i t s. if truthy_str t = None
        then (Inr (unknown_order ''FixedFloat order lookup requires both order ID and order token''), s)
        else (Inr \<lparr> ps_status = PS_COMPLETED, ps_depositTxId = None, ps_settleTxId = Some ''0xpay'', ps_settleAmountActualAtomic = None,
               ps_failureReason = None \<rparr>, s\<lparr>o_world := g i t (o_world s)\<rparr>)),
     pr_getRuntimeAvailability = None \<rparr>"

definition demo_exchange :: "string option \<Rightarrow> string option \<Rightarrow> unit \<times> exchange list \<Rightarrow> unit \<times> exchange list" where
  "demo_exchange i t w = ((), snd w @ [(ff_request (demo_ff (FetchAnswer 200 ''made'')) ''/order'' [(''id'', J_str (coalesce i '''')), (''token'', J_str (the t))],
     FetchAnswer 200 ''made'')])"

lemma same_world: "s\<lparr>o_world := o_world s\<rparr> = s"
  by (cases s) simp

lemma demo_agrees:
  "pr_getStatus (fixedfloat_provider (ff_recording (demo_ff (FetchAnswer 200 ''made'')))) = pr_getStatus (demo_agreeing demo_exchange)"
  "pr_capabilities (fixedfloat_provider (ff_recording (demo_ff (FetchAnswer 200 ''made'')))) = pr_capabilities (demo_agreeing demo_exchange)"
  "pr_executionClass (fixedfloat_provider (ff_recording (demo_ff (FetchAnswer 200 ''made'')))) = pr_executionClass (demo_agreeing demo_exchange)"
proof -
  let ?c = "demo_ff (FetchAnswer 200 ''made'')"
  have d: "mapFixedFloatStatus ''DONE'' = PS_COMPLETED" by code_simp
  have net: "fa_net ?c req w = (FetchAnswer 200 ''made'', w)" for req w by (simp add: demo_ff_def)
  have decode: "fa_status ?c b = Some \<lparr> ev_code = 0, ev_msg = '''', ev_data = Some
      \<lparr> ft_status = ''DONE'', ft_fromTx = None, ft_toTx = Some ''0xpay'', ft_toAmount = None \<rparr> \<rparr>" for b by (simp add: demo_ff_def)
  show "pr_getStatus (fixedfloat_provider (ff_recording ?c)) = pr_getStatus (demo_agreeing demo_exchange)"
  proof (intro ext)
    fix i t s
    show "pr_getStatus (fixedfloat_provider (ff_recording ?c)) i t s = pr_getStatus (demo_agreeing demo_exchange) i t s"
    proof (cases "truthy_str t")
      case None
      then show ?thesis
        by (simp add: fixedfloat_provider_def demo_agreeing_def ff_getStatus_def p_call_def unknown_order_def ret_def same_world)
    next
      case (Some k)
      then have t: "t = Some k" by (auto simp: truthy_str_def split: if_splits)
      show ?thesis
        using Some
        by (simp add: t fixedfloat_provider_def demo_agreeing_def ff_getStatus_def p_call_def postRequest_def fetch_def call_def recording_net_def
            net decode ff_answer_def response_ok_def bnd_def deref_def ret_def paid_out_def d demo_exchange_def)
    qed
  qed
qed (simp_all add: fixedfloat_provider_def demo_agreeing_def p_call_def [abs_def] ret_def class_and_idempotency_def ff_capabilities_def same_world fun_eq_iff)

lemma agreeing_completed:
  "list_ex (\<lambda>e. case e of StMove i st r \<Rightarrow> st = ES_COMPLETED | _ \<Rightarrow> False)
     (trace (run_orch (demo_orchestrator (demo_agreeing g)) (OpReconcile ''e'')) demo_with_token)"
  by code_simp

lemma ff_completed_run:
  "list_ex (\<lambda>e. case e of StMove i st r \<Rightarrow> st = ES_COMPLETED | _ \<Rightarrow> False)
     (trace (run_orch demo_ff_orchestrator (OpReconcile ''e'')) demo_with_token)"
proof -
  have "reconcileExecution demo_ff_orchestrator ''e'' = reconcileExecution (demo_orchestrator (demo_agreeing demo_exchange)) ''e''"
    by (rule reconcile_agrees [OF _ _ demo_agrees]) (simp_all add: demo_ff_orchestrator_def demo_orchestrator_def)
  then have "run_orch demo_ff_orchestrator (OpReconcile ''e'') = run_orch (demo_orchestrator (demo_agreeing demo_exchange)) (OpReconcile ''e'')"
    by simp
  then show ?thesis using agreeing_completed [of demo_exchange] by simp
qed

theorem fixedfloat_completion_reported_witness:
  "\<exists>s' y q v. snd (snd (run_orch demo_ff_orchestrator (OpReconcile ''e'') demo_with_token)) = s' \<and> y \<in> set (snd (o_world s')) \<and>
    ChVerify q (Inr v) \<in> set (trace (run_orch demo_ff_orchestrator (OpReconcile ''e'')) demo_with_token) \<and> vr_verified v"
proof -
  obtain e pre post where t: "trace (run_orch demo_ff_orchestrator (OpReconcile ''e'')) demo_with_token = pre @ e # post"
      "case e of StMove i st r \<Rightarrow> st = ES_COMPLETED | _ \<Rightarrow> False"
    using ff_completed_run unfolding list_ex_iff by (metis split_list)
  then obtain i r where e: "e = StMove i ES_COMPLETED r" by (cases e) auto
  obtain res s' where run: "run_orch demo_ff_orchestrator (OpReconcile ''e'') demo_with_token = (res, pre @ StMove i ES_COMPLETED r # post, s')"
    using t(1) unfolding e trace_def by (metis prod.collapse)
  have only: "\<forall>pid q. the_provider demo_ff_orchestrator pid = Some q \<longrightarrow> q = fixedfloat_provider (ff_recording (demo_ff (FetchAnswer 200 ''made'')))"
    by (simp add: the_provider_def demo_ff_orchestrator_def demo_orchestrator_def)
  have others: "quiet_others snd demo_ff_orchestrator"
    by (simp add: quiet_others_def keeps_log_def longer_def demo_ff_orchestrator_def demo_orchestrator_def)
  from fixedfloat_completion_reported [OF only others run] obtain y q v where y: "y \<in> set (drop (length (snd (o_world demo_with_token))) (snd (o_world s')))"
      and v: "ChVerify q (Inr v) \<in> set pre" "vr_verified v"
    by (elim exE conjE)
  have "y \<in> set (snd (o_world s'))" using y by (rule in_set_dropD)
  moreover have "ChVerify q (Inr v) \<in> set (trace (run_orch demo_ff_orchestrator (OpReconcile ''e'')) demo_with_token)"
    unfolding t(1) using v(1) by simp
  moreover have "snd (snd (run_orch demo_ff_orchestrator (OpReconcile ''e'') demo_with_token)) = s'" unfolding run by simp
  ultimately show ?thesis using v(2) by blast
qed

text \<open>
  The finding on time-outs: the orchestrator takes any message with 400 in it for a definitive refusal, so with a time-out of four
  seconds an order that may exist is closed as FAILED; with the default of fifteen seconds it is reconciled.
\<close>

lemma timeout_taken_as_refusal:
  "is_definitive (''FixedFloat request timed out after '' @ bigint_text 4000 @ ''ms'')"
  "\<not> is_definitive (''FixedFloat request timed out after '' @ bigint_text 15000 @ ''ms'')"
proof -
  have t: "bigint_text 4000 = ''4000''" "bigint_text 15000 = ''15000''"
    by (simp_all add: bigint_text_def nat_digits.simps char_of_def bit_Suc_0_iff)
  show "is_definitive (''FixedFloat request timed out after '' @ bigint_text 4000 @ ''ms'')" unfolding t by code_simp
  show "\<not> is_definitive (''FixedFloat request timed out after '' @ bigint_text 15000 @ ''ms'')" unfolding t by code_simp
qed

end
