(* ===== verification/Spec2Isabelle.thy ===== *)
theory Spec2Isabelle
  imports Liquidity_Laws Exec_Laws Intent_Laws Swap_Laws Coord_Demo Orch_Laws Tx_Laws Abuse_Laws Gasless_Laws Api_Laws Inventory_Laws Base_Runs Lnd_Runs Fake_Runs Local_Runs Provider_Runs
begin

text \<open>
  A verification development of SovRoute, a router that swaps Lightning bitcoin for USDC on Base. All paths below are under
  \<open>src/src/\<close>.

  \<^bold>\<open>The program.\<close> Two execution paths share one SQLite database.
    \<^item> The sovereign path: the HTTP interface (\<open>api/\<close>) quotes (\<open>pricing/\<close>), admits (\<open>anti-abuse/\<close>) and relays
      a signed authorization (\<open>gasless/\<close>); then the atomic coordinator (\<open>atomic/coordinator/coordinator.ts\<close>) reserves operator
      inventory (\<open>atomic/liquidity/\<close>), asks Lightning for a hold invoice, funds an HTLC on Base when the payment is held, and settles
      or cancels Lightning by what the chain shows. Its transactions on Base go through the transaction manager
      (\<open>atomic/evm/transaction-manager.ts\<close>), which owns nonces and fee replacement. The chain inventory reconciler
      (\<open>atomic/liquidity/chain-reconciler.ts\<close>) compares wallet, chain and database and opens or closes the inventory.
    \<^item> The provider path: the planner (\<open>routing/planner.ts\<close>) chooses an edge and the orchestrator
      (\<open>orchestrator/orchestrator.ts\<close>) creates an order with a provider and follows it through the state machine of
      \<open>state-machine/engine.ts\<close>.

  \<^bold>\<open>How the code is modelled.\<close>
    \<^item> Data: interfaces and rows are records, string enumerations are datatypes, amounts (\<open>bigint\<close>) and times (milliseconds) are
      \<open>int\<close>, an absent value is \<open>None\<close>; \<open>coalesce\<close>, \<open>some_or\<close>, \<open>truthy_str\<close> and \<open>truthy_num\<close> are the operators
      \<open>??\<close> and \<open>||\<close>. A table is the list of its rows in insertion order (\<open>Prelude\<close>).
    \<^item> Store operations are functions from the database (record \<open>db\<close> of \<open>Tables\<close>) to a result and the new database; a failure is
      \<open>Inl\<close> with a constructor of \<open>db_error\<close>. One \<open>db.transaction\<close> is one step. Clock and identifiers are arguments.
    \<^item> Asynchronous handlers are actions (\<open>Actions\<close>): from a state to a result, the list of awaited calls and their
      answers, and the new state. What is not in the repository (RPC node, Lightning node, wallet, providers, price feeds, hash
      functions, typed-data verification) is a field of a record of functions on the \<^emph>\<open>whole\<close> state. So an awaited call may
      answer anything and change anything, the database included, which is how other workers and the code run between two awaits
      enter the model. A theorem about a handler therefore holds for every interleaving.
    \<^item> Throws are \<open>Inl\<close>; \<open>try\<close> is \<open>attempt\<close>. Messages leave out interpolated numbers where nothing reads them.

  \<^bold>\<open>The program logic.\<close> \<open>wp G a Q E h\<close> of \<open>Actions\<close>: run after history \<open>h\<close>, every event that \<open>a\<close> logs satisfies the guard \<open>G\<close>
  over the history before it, and result or error satisfies \<open>Q\<close> or \<open>E\<close>. Its rules (\<open>wp_rules\<close>) follow the combinators, so a
  handler is verified by one \<open>intro\<close>; \<open>wp_at\<close> turns the proof into a statement about every prefix of the trace. \<open>only\<close> bounds
  the events a handler can log at all, \<open>weighs\<close> and \<open>grows\<close> count events against a potential of the state. \<open>State_Logic\<close> adds
  \<open>wpi I\<close>, the same with an invariant \<open>I\<close> of the state, such as a flag that only a check sets. \<open>Run_Logic\<close> places the calls of a
  run on a log that the run only extends (\<open>rises\<close>), which ties what a callee did to the run that called it.

  \<^bold>\<open>Theories and code.\<close>
    \<^item> \<open>Prelude\<close>, \<open>Numerals\<close>: JavaScript values, SQL tables, decimal integers (\<open>bigint.toString()\<close> and \<open>BigInt\<close> are inverse).
    \<^item> \<open>Domain\<close>: \<open>domain/types.ts\<close>. \<open>Exec_Machine\<close>: \<open>state-machine/engine.ts\<close>, as a table of legal transitions, as a step relation
      with its reachable states, and its liveness (\<open>exec_never_stuck\<close>).
    \<^item> \<open>Tables\<close>: \<open>atomic/types.ts\<close>, \<open>atomic/evm/transaction-types.ts\<close> and the schema of \<open>persistence/sqlite.ts\<close>; its operations
      are in \<open>Liquidity_Store\<close>, \<open>Exec_Store\<close>, \<open>Intent_Store\<close> and \<open>Swap_Store\<close>, their guarantees over any run of operations in
      \<open>Liquidity_Laws\<close> (no overselling, status columns agree), \<open>Exec_Laws\<close> (the audit trail is an accepted run, a dispatch is claimed
      once), \<open>Intent_Laws\<close> (a nonce with a broadcast is never reused) and \<open>Swap_Laws\<close> (uniqueness, lease).
    \<^item> \<open>Fake_Inventory\<close>: \<open>atomic/liquidity/fake-inventory.ts\<close>. \<open>Ledger\<close>: the contract of a liquidity inventory as locales
      \<open>reservation_ledger\<close> and \<open>settling_ledger\<close>, interpreted by the durable and the in-memory inventory. The lease of
      \<open>Swap_Laws\<close> is the locale \<open>action_lease\<close>, interpreted by the swap store.
    \<^item> \<open>Coord_Base\<close>, \<open>Coord_Ops\<close>, \<open>Coord_Reconcile\<close>: \<open>coordinator.ts\<close>, handler by handler; \<open>Coord_Logic\<close>, \<open>Coord_Laws\<close>,
      \<open>Coord_Recovery\<close>, \<open>Coord_Prepare\<close>, \<open>Coord_Bounds\<close>: what each may do to the two rails, and what it must have seen
      before; \<open>Coord_Demo\<close>: runs against fixed answers, for witnesses and findings.
    \<^item> \<open>Planner\<close>: \<open>routing/planner.ts\<close>. \<open>Orchestrator\<close>, \<open>Orch_Laws\<close>: \<open>orchestrator/orchestrator.ts\<close>.
    \<^item> \<open>Tx_Errors\<close>, \<open>Tx_Manager\<close>, \<open>Tx_Laws\<close>: \<open>atomic/evm/transaction-manager.ts\<close>.
    \<^item> \<open>Pricing\<close>, \<open>Pricing_Laws\<close>: \<open>pricing/\<close>. \<open>Anti_Abuse\<close>, \<open>Abuse_Laws\<close>: \<open>anti-abuse/\<close>. \<open>Gasless\<close>, \<open>Gasless_Laws\<close>: \<open>gasless/\<close>.
      \<open>Swap_Api\<close>, \<open>Api_Laws\<close>: \<open>api/\<close>, composed of relayer and coordinator, with the server from the body stream to the answer.
    \<^item> \<open>Chain_Reconciler\<close>, \<open>Sqlite_Inventory\<close>, \<open>Inventory_Laws\<close>: \<open>atomic/liquidity/chain-reconciler.ts\<close> and
      \<open>sqlite-inventory.ts\<close>, over the store and the outcome of the transaction manager.
    \<^item> \<open>Base_Backend\<close>: \<open>atomic/evm/base-sepolia-backend.ts\<close> and \<open>base-guard.ts\<close>, over the RPC client and the transaction manager;
      its polls wait ten rounds at most, as the code does. \<open>Base_Laws\<close>: what it sends, what its evidence has been read from, and
      its composition with coordinator and reconciler (the handlers that settle on chain evidence; \<open>claimSwap\<close>, which may settle
      without it, is the subject of \<open>claim_settles_own_preimage\<close>); \<open>Base_Runs\<close>: runs, for witnesses and findings.
    \<^item> \<open>Local_Backend\<close>, \<open>Local_Laws\<close>, \<open>Local_Runs\<close>: \<open>atomic/evm/real-local-backend.ts\<close> and \<open>evm-guard.ts\<close>, over the same client.
    \<^item> \<open>Lnd\<close>: \<open>atomic/lightning/lnd-client.ts\<close>, \<open>fault-injector.ts\<close> and \<open>lnd-backend.ts\<close>. \<open>Lnd_Laws\<close>: the locale \<open>lnd_interface\<close>
      is the contract of \<open>ILndClient\<close>, interpreted by the REST client and by the fault injecting one over it; the laws of the
      backend are proved from it once, and composed with the coordinator. \<open>Lnd_Runs\<close>: runs, for witnesses and findings.
    \<^item> \<open>Fake_Rails\<close>: the in-memory backends, \<open>atomic/lightning/fake-backend.ts\<close> and \<open>atomic/evm/fake-backend.ts\<close>. \<open>Fake_Laws\<close>: the
      automaton of a rail and the locale \<open>rail\<close>, interpreted by both. \<open>Fake_Runs\<close>: the rails under the coordinator.
    \<^item> \<open>Http_Json\<close>, \<open>Fixedfloat\<close>, \<open>Providers\<close>: the adapters \<open>providers/fixedfloat.ts\<close>, \<open>sideshift.ts\<close> and \<open>mock.ts\<close> with the requests they
      send, and the mock verifier \<open>verification/verifier.ts\<close>. \<open>Provider_Laws\<close>: amounts, redaction, orders and availability.
      \<open>Provider_Log\<close>: the HTTP exchanges of an adapter within a run. \<open>Provider_Runs\<close>: the adapters under planner and orchestrator; the locale \<open>paying_provider\<close> is what the orchestrator needs of
      a provider's COMPLETED, interpreted by FixedFloat and SideShift.

  \<^bold>\<open>Loops and bounds.\<close> A loop over data is structural recursion. Waiting for a provider makes at most 2001 polls, which is the
  loop bound of the code (\<open>await_terminates\<close>). Waiting for a confirmation takes \<open>Suc (nat timeout)\<close> rounds: every round that does not
  return sleeps, and the clock is at its deadline after as many milliseconds as the timeout; the theorem assumes that
  sleeping advances the clock. The search for the least safe block count is \<open>while_option\<close>; \<open>required_blocks_least\<close> shows that it
  ends, assuming the Poisson tail gets small.

  \<^bold>\<open>Not modelled.\<close> Floating point (the Poisson tail, the amounts of SideShift) is a parameter, and so are \<open>fetch\<close> and the decoding of
  JSON answers. The HTTP clients of price feeds, environment parsing, start-up wiring, health page, file copies and the hashing of
  files are calls into libraries around few decisions of their own.
\<close>

end
